(* ===== verification/Py_Base.thy ===== *)
theory Py_Base
  imports Complex_Main "HOL-Library.List_Lexorder" "HOL-Library.Product_Lexorder"
begin

text \<open>
  Prelude of the library: the parts of Python the sources of \<^verbatim>\<open>packages/proofops\<close> rest on.

  \<^item> A Python \<^verbatim>\<open>str\<close> is the list of its Unicode code points (\<open>pystr\<close>), so that \<^verbatim>\<open>len\<close>, slices and
    offsets count what Python counts. The literal \<^verbatim>\<open>"abc"\<close> of the source is written \<open>py ''abc''\<close>.
    Strings are compared by code point (\<open>List_Lexorder\<close>), tuples lexicographically, as Python does.
  \<^item> A \<^verbatim>\<open>raise\<close> is a value \<open>Inl e\<close> of the sum \<open>py_error + 'a\<close>. The error carries the exception class
    and the literal part of the message. \<open>bindE\<close> sequences calls that may raise, \<open>mapE\<close> is a
    comprehension whose element expression may raise.
  \<^item> \<open>py_unique\<close> is \<^verbatim>\<open>dict.fromkeys\<close>, \<open>py_sorted_set\<close> is \<^verbatim>\<open>sorted(set(..))\<close>, \<open>dict_of\<close> is a
    dictionary comprehension (a later key wins).

  The lemmas on these operations are the generic ones the component theories share; the
  collection \<open>result_simps\<close> takes apart a computation that returned.
\<close>

named_theorems result_simps \<open>inversion of computations that returned a value\<close>

section \<open>Exceptions and results\<close>

datatype py_error =
    DomainValidationError string
  | DtoValidationError string
  | ValueError string
  | KeyError string
  | TypeError string
  | AttributeError string
  | IndexError string
  | OverflowError string
  | AssertionError string
  | StopIteration string
  | NotImplementedError string
  | AuditConflict string
  | AuditIntegrityError string
  | BudgetExceeded string
  | BudgetConflict string
  | JobConflict string
  | LeaseLost string
  | IntegrityError string
  | LookupError string
  | CacheCollisionError string
  | CacheCorruptionError string
  | CacheRevokedError string
  | CapabilityDeniedError string
  | SessionExpiredError string
  | TenantNotFoundError string

type_synonym 'a result = "py_error + 'a"

fun bindE :: "'e + 'a \<Rightarrow> ('a \<Rightarrow> 'e + 'b) \<Rightarrow> 'e + 'b" where
  "bindE (Inl e) f = Inl e"
| "bindE (Inr x) f = f x"

fun mapE :: "('a \<Rightarrow> 'e + 'b) \<Rightarrow> 'a list \<Rightarrow> 'e + 'b list" where
  "mapE f [] = Inr []"
| "mapE f (x # xs) = bindE (f x) (\<lambda>y. bindE (mapE f xs) (\<lambda>ys. Inr (y # ys)))"

fun forE :: "('a \<Rightarrow> 'e + unit) \<Rightarrow> 'a list \<Rightarrow> 'e + unit" where
  "forE f [] = Inr ()"
| "forE f (x # xs) = bindE (f x) (\<lambda>_. forE f xs)"

lemma mapE_cong [fundef_cong]:
  "xs = ys \<Longrightarrow> (\<And>x. x \<in> set ys \<Longrightarrow> f x = g x) \<Longrightarrow> mapE f xs = mapE g ys"
proof (induction xs arbitrary: ys)
  case (Cons x xs)
  then show ?case by auto
qed simp

definition okE :: "'e + 'a \<Rightarrow> bool" where
  "okE r = (case r of Inl _ \<Rightarrow> False | Inr _ \<Rightarrow> True)"

lemma okE_simps [simp]: "okE (Inr x)" "\<not> okE (Inl e)"
  by (simp_all add: okE_def)

lemma okE_iff: "okE r \<longleftrightarrow> (\<exists>x. r = Inr x)"
  by (cases r) auto

lemma bindE_Inr_iff [result_simps]: "bindE m f = Inr y \<longleftrightarrow> (\<exists>x. m = Inr x \<and> f x = Inr y)"
  by (cases m) auto

lemma bindE_Inl_iff: "bindE m f = Inl e \<longleftrightarrow> m = Inl e \<or> (\<exists>x. m = Inr x \<and> f x = Inl e)"
  by (cases m) auto

lemma if_Inl_Inr_iff [result_simps]: "(if b then Inl e else r) = Inr y \<longleftrightarrow> \<not> b \<and> r = Inr y"
  by simp

lemma if_Inr_Inl_iff [result_simps]: "(if b then r else Inl e) = Inr y \<longleftrightarrow> b \<and> r = Inr y"
  by simp

lemma option_case_Inr_iff [result_simps]:
  "(case x of None \<Rightarrow> Inl e | Some v \<Rightarrow> f v) = Inr y \<longleftrightarrow> (\<exists>v. x = Some v \<and> f v = Inr y)"
  by (cases x) auto

lemma mapE_Inr_iff: "mapE f xs = Inr ys \<longleftrightarrow> list_all2 (\<lambda>x y. f x = Inr y) xs ys"
  by (induction xs arbitrary: ys)
    (auto simp: bindE_Inr_iff list_all2_Cons1)

lemma mapE_length: "mapE f xs = Inr ys \<Longrightarrow> length ys = length xs"
  by (auto simp: mapE_Inr_iff dest: list_all2_lengthD)

lemma mapE_in_result:
  assumes "mapE f xs = Inr ys" and "y \<in> set ys"
  shows "\<exists>x \<in> set xs. f x = Inr y"
  using assms by (induction xs arbitrary: ys) (auto simp: bindE_Inr_iff)

lemma mapE_Inr_id: "(\<And>x. x \<in> set xs \<Longrightarrow> f x = Inr (g x)) \<Longrightarrow> mapE f xs = Inr (map g xs)"
  by (induction xs) auto

lemma forE_Inr_iff [result_simps]: "forE f xs = Inr u \<longleftrightarrow> (\<forall>x \<in> set xs. f x = Inr ())"
  by (induction xs) (auto simp: bindE_Inr_iff)

section \<open>Strings\<close>

type_synonym pystr = "nat list"

definition py :: "string \<Rightarrow> pystr" where
  "py s = map of_char s"

lemma py_eq_iff [simp]: "py s = py t \<longleftrightarrow> s = t"
  by (simp add: py_def inj_map_eq_map inj_def)

lemma py_Nil [simp]: "py [] = []" "py s = [] \<longleftrightarrow> s = []" "[] = py s \<longleftrightarrow> s = []"
  by (simp_all add: py_def)

lemma length_py [simp]: "length (py s) = length s"
  by (simp add: py_def)

text \<open>\<^verbatim>\<open>str.isspace\<close> of one character: the code points Python strips.\<close>

definition py_isspace :: "nat \<Rightarrow> bool" where
  "py_isspace c \<longleftrightarrow> 9 \<le> c \<and> c \<le> 13 \<or> 28 \<le> c \<and> c \<le> 32 \<or> c = 133 \<or> c = 160 \<or> c = 5760
     \<or> 8192 \<le> c \<and> c \<le> 8202 \<or> c = 8232 \<or> c = 8233 \<or> c = 8239 \<or> c = 8287 \<or> c = 12288"

definition py_lstrip :: "pystr \<Rightarrow> pystr" where
  "py_lstrip s = dropWhile py_isspace s"

definition py_rstrip :: "pystr \<Rightarrow> pystr" where
  "py_rstrip s = rev (dropWhile py_isspace (rev s))"

definition py_strip :: "pystr \<Rightarrow> pystr" where
  "py_strip s = py_rstrip (py_lstrip s)"

lemma py_strip_Nil_iff: "py_strip s = [] \<longleftrightarrow> (\<forall>c \<in> set s. py_isspace c)"
proof -
  have "py_strip s = [] \<longleftrightarrow> (\<forall>c \<in> set (dropWhile py_isspace s). py_isspace c)"
    by (simp add: py_strip_def py_rstrip_def py_lstrip_def)
  also have "\<dots> \<longleftrightarrow> (\<forall>c \<in> set s. py_isspace c)"
    by (metis Un_iff dropWhile_eq_Nil_conv hd_dropWhile hd_in_set set_append
        takeWhile_dropWhile_id set_takeWhileD)
  finally show ?thesis .
qed

definition py_startswith :: "pystr \<Rightarrow> pystr \<Rightarrow> bool" where
  "py_startswith s p \<longleftrightarrow> take (length p) s = p"

definition py_endswith :: "pystr \<Rightarrow> pystr \<Rightarrow> bool" where
  "py_endswith s p \<longleftrightarrow> length p \<le> length s \<and> drop (length s - length p) s = p"

text \<open>\<^verbatim>\<open>p in s\<close> on strings.\<close>

fun py_contains :: "pystr \<Rightarrow> pystr \<Rightarrow> bool" where
  "py_contains p [] = (p = [])"
| "py_contains p (c # s) = (py_startswith (c # s) p \<or> py_contains p s)"

lemma py_contains_iff: "py_contains p s \<longleftrightarrow> (\<exists>a b. s = a @ p @ b)"
proof (induction s)
  case (Cons c s)
  show ?case
  proof
    assume "py_contains p (c # s)"
    then consider "take (length p) (c # s) = p" | "py_contains p s"
      by (auto simp: py_startswith_def)
    then show "\<exists>a b. c # s = a @ p @ b"
    proof cases
      case 1
      then have "c # s = [] @ p @ drop (length p) (c # s)"
        by (metis append_Nil append_take_drop_id)
      then show ?thesis by blast
    next
      case 2
      with Cons.IH obtain a b where "s = a @ p @ b" by blast
      then have "c # s = (c # a) @ p @ b" by simp
      then show ?thesis by blast
    qed
  next
    assume "\<exists>a b. c # s = a @ p @ b"
    then obtain a b where ab: "c # s = a @ p @ b" by blast
    show "py_contains p (c # s)"
    proof (cases a)
      case Nil
      with ab have "py_startswith (c # s) p" by (simp add: py_startswith_def)
      then show ?thesis by simp
    next
      case (Cons d a')
      with ab have "s = a' @ p @ b" by simp
      with Cons.IH show ?thesis by auto
    qed
  qed
qed simp

text \<open>
  \<^verbatim>\<open>str.lower\<close> and \<^verbatim>\<open>str.casefold\<close> as far as the sources use them: both are compared with an
  ASCII word only. Beside the ASCII capitals, the one code point whose lower case (and case
  fold) is an ASCII letter is the Kelvin sign, U+212A.
\<close>

definition py_lower_char :: "nat \<Rightarrow> nat" where
  "py_lower_char c = (if 65 \<le> c \<and> c \<le> 90 then c + 32 else if c = 8490 then 107 else c)"

definition py_lower :: "pystr \<Rightarrow> pystr" where
  "py_lower s = map py_lower_char s"

definition py_join :: "pystr \<Rightarrow> pystr list \<Rightarrow> pystr" where
  "py_join sep xs = (case xs of [] \<Rightarrow> [] | x # ys \<Rightarrow> x @ concat (map (\<lambda>y. sep @ y) ys))"

definition py_isdigit :: "nat \<Rightarrow> bool" where
  "py_isdigit c \<longleftrightarrow> 48 \<le> c \<and> c \<le> 57"

text \<open>\<^verbatim>\<open>s.split(c)\<close> at one character.\<close>

fun py_split :: "nat \<Rightarrow> pystr \<Rightarrow> pystr list" where
  "py_split d [] = [[]]"
| "py_split d (c # s) = (if c = d then [] # py_split d s else case py_split d s of p # ps \<Rightarrow> (c # p) # ps | [] \<Rightarrow> [[c]])"

text \<open>\<^verbatim>\<open>s[i:j]\<close> for offsets the callers have checked to be non-negative.\<close>

definition py_slice :: "'a list \<Rightarrow> int \<Rightarrow> int \<Rightarrow> 'a list" where
  "py_slice s i j = take (nat j - nat i) (drop (nat i) s)"

section \<open>Containers\<close>

definition py_unique :: "'a list \<Rightarrow> 'a list" where
  "py_unique xs = rev (remdups (rev xs))"

lemma set_py_unique [simp]: "set (py_unique xs) = set xs"
  by (simp add: py_unique_def)

lemma distinct_py_unique [simp]: "distinct (py_unique xs)"
  by (simp add: py_unique_def)

definition py_sorted_set :: "'a::linorder list \<Rightarrow> 'a list" where
  "py_sorted_set xs = sort (remdups xs)"

lemma set_py_sorted_set [simp]: "set (py_sorted_set xs) = set xs"
  by (simp add: py_sorted_set_def)

lemma distinct_py_sorted_set [simp]: "distinct (py_sorted_set xs)"
  by (simp add: py_sorted_set_def)

lemma sorted_py_sorted_set [simp]: "sorted (py_sorted_set xs)"
  by (simp add: py_sorted_set_def)

lemma py_sorted_set_Nil_iff [simp]: "py_sorted_set xs = [] \<longleftrightarrow> xs = []"
  by (metis set_empty set_py_sorted_set)

definition dict_of :: "('k \<times> 'v) list \<Rightarrow> 'k \<Rightarrow> 'v option" where
  "dict_of kvs = map_of (rev kvs)"

lemma dict_of_None_iff: "dict_of kvs k = None \<longleftrightarrow> k \<notin> fst ` set kvs"
  by (simp add: dict_of_def map_of_eq_None_iff)

lemma dict_of_SomeD: "dict_of kvs k = Some v \<Longrightarrow> (k, v) \<in> set kvs"
  by (auto simp: dict_of_def dest: map_of_SomeD)

lemma dict_of_distinct: "distinct (map fst kvs) \<Longrightarrow> dict_of kvs = map_of kvs"
  unfolding dict_of_def
  by (metis distinct_rev map_of_inject_set rev_map set_rev)

definition py_duplicates :: "'a list \<Rightarrow> bool" where
  "py_duplicates xs \<longleftrightarrow> length (remdups xs) \<noteq> length xs"

lemma py_duplicates_iff: "py_duplicates xs \<longleftrightarrow> \<not> distinct xs"
  by (simp add: py_duplicates_def length_remdups_card_conv card_distinct distinct_card)
    (metis card_distinct distinct_card)

definition is_some :: "'a option \<Rightarrow> bool" where
  "is_some x = (case x of None \<Rightarrow> False | Some _ \<Rightarrow> True)"

lemma is_some_iff [simp]: "is_some x \<longleftrightarrow> x \<noteq> None"
  by (cases x) (simp_all add: is_some_def)

text \<open>The text truthiness of \<^verbatim>\<open>str | None\<close>: \<^verbatim>\<open>bool(x)\<close>.\<close>

definition opt_truthy :: "'a list option \<Rightarrow> bool" where
  "opt_truthy x = (case x of None \<Rightarrow> False | Some s \<Rightarrow> s \<noteq> [])"

end
