(* ===== verification/Json.thy ===== *)
theory Json
  imports Py_Base
begin

text \<open>
  The JSON values the system exchanges and hashes, and the deterministic encoding
  \<^verbatim>\<open>canonical_json\<close> (\<^verbatim>\<open>domain/rulepacks.py\<close>, and the same call in
  \<^verbatim>\<open>domain/reconciliation/engine.py\<close>) with the digests built on it
  (\<^verbatim>\<open>canonical_hash\<close> of \<^verbatim>\<open>domain/provenance.py\<close>, \<^verbatim>\<open>canonical_sha256\<close>).

  A dictionary is an association list in insertion order. The encoder is
  \<^verbatim>\<open>json.dumps(sort_keys=True, separators=(",", ":"), ensure_ascii=True, allow_nan=False)\<close>:
  \<open>json_norm\<close> orders the keys, \<open>json_print\<close> writes the text, a non-finite float is refused.
  Two services of the interpreter are parameters, the fields of \<open>platform\<close>: the shortest
  decimal text of a finite float (\<^verbatim>\<open>repr\<close>) and the hexadecimal SHA-256 digest of a byte string.
  What the sources rely on about \<^verbatim>\<open>repr\<close> is \<open>float_repr_ok\<close>.

  The main result is that the encoding is injective up to the order of dictionary keys for
  well-formed Unicode (\<open>json_print_unique\<close>): equal digests of a collision-free hash mean equal
  values. With a lone surrogate in a string it is not injective
  (\<open>json_esc_surrogate_collision\<close>).
\<close>

section \<open>Values\<close>

datatype pyfloat = PyFinite rat | PyInf | PyNegInf | PyNaN

datatype json =
    JNull
  | JBool bool
  | JInt int
  | JFloat pyfloat
  | JStr pystr
  | JList "json list"
  | JObj "(pystr \<times> json) list"

record platform =
  float_repr :: "rat \<Rightarrow> pystr"
  sha256_hex :: "nat list \<Rightarrow> pystr"

fun jget :: "(pystr \<times> json) list \<Rightarrow> pystr \<Rightarrow> json option" where
  "jget kvs k = map_of kvs k"

section \<open>Encoding\<close>

fun dec_of_nat :: "nat \<Rightarrow> pystr" where
  "dec_of_nat n = (if n < 10 then [48 + n] else dec_of_nat (n div 10) @ [48 + n mod 10])"

declare dec_of_nat.simps [simp del]

definition dec_of_int :: "int \<Rightarrow> pystr" where
  "dec_of_int i = (if i < 0 then 45 # dec_of_nat (nat (- i)) else dec_of_nat (nat i))"

definition hexdig :: "nat \<Rightarrow> nat" where
  "hexdig d = (if d < 10 then 48 + d else 87 + d)"

definition hex4 :: "nat \<Rightarrow> pystr" where
  "hex4 n = [hexdig (n div 4096 mod 16), hexdig (n div 256 mod 16), hexdig (n div 16 mod 16),
     hexdig (n mod 16)]"

definition json_esc_char :: "nat \<Rightarrow> pystr" where
  "json_esc_char c =
     (if c = 34 then [92, 34]
      else if c = 92 then [92, 92]
      else if c = 10 then [92, 110]
      else if c = 13 then [92, 114]
      else if c = 9 then [92, 116]
      else if c = 12 then [92, 102]
      else if c = 8 then [92, 98]
      else if 32 \<le> c \<and> c \<le> 126 then [c]
      else if c < 65536 then 92 # 117 # hex4 c
      else 92 # 117 # hex4 (55296 + (c - 65536) div 1024) @
           92 # 117 # hex4 (56320 + (c - 65536) mod 1024))"

definition json_esc :: "pystr \<Rightarrow> pystr" where
  "json_esc s = concat (map json_esc_char s)"

definition json_quote :: "pystr \<Rightarrow> pystr" where
  "json_quote s = 34 # json_esc s @ [34]"

fun json_print :: "(rat \<Rightarrow> pystr) \<Rightarrow> json \<Rightarrow> pystr"
  and json_print_elems :: "(rat \<Rightarrow> pystr) \<Rightarrow> json list \<Rightarrow> pystr"
  and json_print_members :: "(rat \<Rightarrow> pystr) \<Rightarrow> (pystr \<times> json) list \<Rightarrow> pystr" where
  "json_print fr JNull = py ''null''"
| "json_print fr (JBool b) = (if b then py ''true'' else py ''false'')"
| "json_print fr (JInt i) = dec_of_int i"
| "json_print fr (JFloat f) = (case f of PyFinite q \<Rightarrow> fr q | PyInf \<Rightarrow> py ''Infinity''
     | PyNegInf \<Rightarrow> py ''-Infinity'' | PyNaN \<Rightarrow> py ''NaN'')"
| "json_print fr (JStr s) = json_quote s"
| "json_print fr (JList vs) = 91 # json_print_elems fr vs @ [93]"
| "json_print fr (JObj kvs) = 123 # json_print_members fr kvs @ [125]"
| "json_print_elems fr [] = []"
| "json_print_elems fr (v # vs) =
     json_print fr v @ (if vs = [] then [] else 44 # json_print_elems fr vs)"
| "json_print_members fr [] = []"
| "json_print_members fr (kv # kvs) =
     json_quote (fst kv) @ 58 # json_print fr (snd kv) @
       (if kvs = [] then [] else 44 # json_print_members fr kvs)"

fun json_finite :: "json \<Rightarrow> bool" where
  "json_finite (JFloat f) = (case f of PyFinite _ \<Rightarrow> True | _ \<Rightarrow> False)"
| "json_finite (JList vs) = (\<forall>v \<in> set vs. json_finite v)"
| "json_finite (JObj kvs) = (\<forall>kv \<in> set kvs. json_finite (snd kv))"
| "json_finite _ = True"

fun json_norm :: "json \<Rightarrow> json" where
  "json_norm (JList vs) = JList (map json_norm vs)"
| "json_norm (JObj kvs) = JObj (sort_key fst (map (\<lambda>kv. (fst kv, json_norm (snd kv))) kvs))"
| "json_norm v = v"

definition canonical_json :: "platform \<Rightarrow> json \<Rightarrow> pystr result" where
  "canonical_json P v =
     (if json_finite v then Inr (json_print (float_repr P) (json_norm v))
      else Inl (DomainValidationError ''rulepack payload is not deterministically encodable''))"

definition canonical_hash :: "platform \<Rightarrow> json \<Rightarrow> pystr result" where
  "canonical_hash P v = bindE (canonical_json P v) (\<lambda>s. Inr (sha256_hex P s))"

section \<open>Numbers\<close>

definition numchar :: "nat \<Rightarrow> bool" where
  "numchar c \<longleftrightarrow> 48 \<le> c \<and> c \<le> 57 \<or> c = 45 \<or> c = 46 \<or> c = 101 \<or> c = 43"

text \<open>What is relied on about \<^verbatim>\<open>repr\<close> of a finite float.\<close>

definition float_repr_ok :: "(rat \<Rightarrow> pystr) \<Rightarrow> bool" where
  "float_repr_ok fr \<longleftrightarrow> inj fr \<and> (\<forall>q. fr q \<noteq> [] \<and> (\<forall>c \<in> set (fr q). numchar c)
     \<and> (\<exists>c \<in> set (fr q). c = 46 \<or> c = 101))"

fun nat_of_dec :: "pystr \<Rightarrow> nat" where
  "nat_of_dec [] = 0"
| "nat_of_dec (c # cs) = (c - 48) * 10 ^ length cs + nat_of_dec cs"

lemma nat_of_dec_snoc: "nat_of_dec (cs @ [c]) = nat_of_dec cs * 10 + (c - 48)"
  by (induction cs) (auto simp: algebra_simps)

lemma nat_of_dec_of_nat [simp]: "nat_of_dec (dec_of_nat n) = n"
proof (induction n rule: dec_of_nat.induct)
  case (1 n)
  show ?case
  proof (cases "n < 10")
    case True
    then show ?thesis by (subst dec_of_nat.simps) simp
  next
    case False
    with 1 show ?thesis by (subst dec_of_nat.simps) (simp add: nat_of_dec_snoc)
  qed
qed

lemma dec_of_nat_inj [simp]: "dec_of_nat m = dec_of_nat n \<longleftrightarrow> m = n"
  by (metis nat_of_dec_of_nat)

lemma dec_of_nat_digits: "c \<in> set (dec_of_nat n) \<Longrightarrow> 48 \<le> c \<and> c \<le> 57"
proof (induction n rule: dec_of_nat.induct)
  case (1 n)
  then show ?case
    by (subst (asm) (2) dec_of_nat.simps) (auto split: if_splits)
qed

lemma dec_of_nat_nonempty [simp]: "dec_of_nat n \<noteq> []"
  by (subst dec_of_nat.simps) simp

lemma dec_of_int_inj [simp]: "dec_of_int i = dec_of_int j \<longleftrightarrow> i = j"
proof
  assume eq: "dec_of_int i = dec_of_int j"
  have "hd (dec_of_nat n) \<noteq> 45" for n
    using dec_of_nat_digits [OF hd_in_set [OF dec_of_nat_nonempty], of n] by simp
  with eq have "i < 0 \<longleftrightarrow> j < 0"
    by (auto simp: dec_of_int_def split: if_splits) (metis list.sel(1))+
  with eq show "i = j"
    by (auto simp: dec_of_int_def split: if_splits)
qed simp

lemma dec_of_int_numchar: "c \<in> set (dec_of_int i) \<Longrightarrow> numchar c \<and> c \<noteq> 46 \<and> c \<noteq> 101"
  using dec_of_nat_digits by (fastforce simp: dec_of_int_def numchar_def split: if_splits)

lemma dec_of_int_nonempty [simp]: "dec_of_int i \<noteq> []"
  by (simp add: dec_of_int_def)

section \<open>Strings\<close>

text \<open>A code point that is a Unicode scalar value: not a surrogate.\<close>

definition scalar :: "nat \<Rightarrow> bool" where
  "scalar c \<longleftrightarrow> c < 55296 \<or> 57343 < c \<and> c < 1114112"

lemma hexdig_inj: "a < 16 \<Longrightarrow> b < 16 \<Longrightarrow> hexdig a = hexdig b \<longleftrightarrow> a = b"
  by (auto simp: hexdig_def)

lemma hex4_inj:
  assumes "m < 65536" "n < 65536" "hex4 m = hex4 n"
  shows "m = n"
proof -
  from assms(3) have d: "m div 4096 mod 16 = n div 4096 mod 16" "m div 256 mod 16 = n div 256 mod 16"
    "m div 16 mod 16 = n div 16 mod 16" "m mod 16 = n mod 16"
    by (simp_all add: hex4_def hexdig_inj)
  have split: "k = 4096 * (k div 4096 mod 16) + 256 * (k div 256 mod 16) + 16 * (k div 16 mod 16)
      + k mod 16" if "k < 65536" for k :: nat
  proof -
    have "k div 4096 mod 16 = k div 4096" using that by (simp add: less_mult_imp_div_less)
    moreover have "k = 16 * (k div 16) + k mod 16" by simp
    moreover have "k div 16 = 16 * (k div 256) + k div 16 mod 16"
      using mult_div_mod_eq [of 16 "k div 16"] by (simp add: div_mult2_eq [symmetric])
    moreover have "k div 256 = 16 * (k div 4096) + k div 256 mod 16"
      using mult_div_mod_eq [of 16 "k div 256"] by (simp add: div_mult2_eq [symmetric])
    ultimately show ?thesis by linarith
  qed
  from split [OF assms(1)] split [OF assms(2)] d show ?thesis by simp
qed

lemma length_hex4 [simp]: "length (hex4 n) = 4"
  by (simp add: hex4_def)

lemma hex4_append_inj:
  "m < 65536 \<Longrightarrow> n < 65536 \<Longrightarrow> hex4 m @ x = hex4 n @ y \<longleftrightarrow> m = n \<and> x = y"
  using hex4_inj by (auto simp: append_eq_append_conv)

lemma hex4_eq_iff: "m < 65536 \<Longrightarrow> n < 65536 \<Longrightarrow> hex4 m = hex4 n \<longleftrightarrow> m = n"
  using hex4_inj by auto

text \<open>The escape of a character is one of three shapes; the shape is read off the text.\<close>

definition short_esc :: "nat \<Rightarrow> nat option" where
  "short_esc c = map_of [(34, 34), (92, 92), (10, 110), (13, 114), (9, 116), (12, 102), (8, 98)] c"

lemma short_esc_inj: "short_esc c = Some e \<Longrightarrow> short_esc d = Some e \<Longrightarrow> c = d"
  by (auto simp: short_esc_def split: if_splits)

lemma short_esc_not_u: "short_esc c = Some e \<Longrightarrow> e \<noteq> 117"
  by (auto simp: short_esc_def split: if_splits)

lemma json_esc_char_cases:
  assumes "scalar c"
  obtains (short) e where "short_esc c = Some e" "json_esc_char c = [92, e]"
  | (plain) "json_esc_char c = [c]" "c \<noteq> 34" "c \<noteq> 92"
  | (bmp) "json_esc_char c = 92 # 117 # hex4 c" "c < 65536" "scalar c"
  | (pair) hi lo where "json_esc_char c = 92 # 117 # hex4 hi @ 92 # 117 # hex4 lo"
      "55296 \<le> hi" "hi < 56320" "56320 \<le> lo" "lo < 57344"
      "c = 65536 + (hi - 55296) * 1024 + (lo - 56320)"
proof (cases "short_esc c")
  case (Some e)
  then have "json_esc_char c = [92, e]"
    by (auto simp: short_esc_def json_esc_char_def split: if_splits)
  with Some show ?thesis by (rule short)
next
  case None
  then have n: "c \<noteq> 34" "c \<noteq> 92" "c \<noteq> 10" "c \<noteq> 13" "c \<noteq> 9" "c \<noteq> 12" "c \<noteq> 8"
    by (auto simp: short_esc_def split: if_splits)
  consider "32 \<le> c \<and> c \<le> 126" | "\<not> (32 \<le> c \<and> c \<le> 126)" "c < 65536" | "65536 \<le> c"
    by linarith
  then show ?thesis
  proof cases
    case 1
    with n show ?thesis by (intro plain) (auto simp: json_esc_char_def)
  next
    case 2
    with n assms show ?thesis by (intro bmp) (auto simp: json_esc_char_def)
  next
    case 3
    with assms have b: "c - 65536 < 1048576" by (auto simp: scalar_def)
    then have "(c - 65536) div 1024 < 1024" by (simp add: less_mult_imp_div_less)
    with n 3 b show ?thesis
      by (intro pair [of "55296 + (c - 65536) div 1024" "56320 + (c - 65536) mod 1024"])
        (auto simp: json_esc_char_def)
  qed
qed

lemma scalar_not_surrogate: "scalar c \<Longrightarrow> \<not> (55296 \<le> c \<and> c < 56320)"
  by (auto simp: scalar_def)

lemma json_esc_char_prefix:
  assumes "scalar c" "scalar d" "json_esc_char c @ x = json_esc_char d @ y"
  shows "c = d \<and> x = y"
  using assms(1)
proof (cases rule: json_esc_char_cases)
  case (short e)
  from assms(2) show ?thesis
    by (cases rule: json_esc_char_cases)
      (use short assms(3) in \<open>auto dest: short_esc_inj short_esc_not_u\<close>)
next
  case plain
  from assms(2) show ?thesis
    by (cases rule: json_esc_char_cases) (use plain assms(3) in auto)
next
  case bmp
  from assms(2) show ?thesis
    by (cases rule: json_esc_char_cases)
      (use bmp assms(3) in \<open>auto simp: hex4_append_inj hex4_eq_iff dest: short_esc_not_u scalar_not_surrogate\<close>)
next
  case (pair hi lo)
  from assms(2) show ?thesis
    by (cases rule: json_esc_char_cases)
      (use pair assms(3) in \<open>auto simp: hex4_append_inj hex4_eq_iff dest: short_esc_not_u scalar_not_surrogate\<close>)
qed

lemma json_esc_char_head:
  "scalar c \<Longrightarrow> \<exists>a t. json_esc_char c = a # t \<and> a \<noteq> 34"
  by (erule json_esc_char_cases) auto

lemma json_esc_prefix:
  "\<forall>c \<in> set a. scalar c \<Longrightarrow> \<forall>c \<in> set b. scalar c \<Longrightarrow>
   json_esc a @ 34 # x = json_esc b @ 34 # y \<Longrightarrow> a = b \<and> x = y"
proof (induction a arbitrary: b)
  case Nil
  then show ?case
    using json_esc_char_head by (cases b) (fastforce simp: json_esc_def)+
next
  case (Cons c a)
  show ?case
  proof (cases b)
    case Nil
    with Cons.prems show ?thesis
      using json_esc_char_head [of c] by (auto simp: json_esc_def)
  next
    case (Cons d b')
    with Cons.prems have "json_esc_char c @ (json_esc a @ 34 # x) = json_esc_char d @ (json_esc b' @ 34 # y)"
      by (simp add: json_esc_def)
    with Cons.prems Cons have "c = d" "json_esc a @ 34 # x = json_esc b' @ 34 # y"
      using json_esc_char_prefix [of c d] by auto
    with Cons.IH [of b'] Cons.prems Cons show ?thesis by simp
  qed
qed

lemma json_quote_prefix:
  "\<forall>c \<in> set a. scalar c \<Longrightarrow> \<forall>c \<in> set b. scalar c \<Longrightarrow>
   json_quote a @ x = json_quote b @ y \<Longrightarrow> a = b \<and> x = y"
  using json_esc_prefix [of a b x y] by (simp add: json_quote_def)

text \<open>
  Without the scalar-value condition the encoding collides: the two-character string of a
  surrogate pair and the one-character string it stands for have one text.
\<close>

lemma json_esc_surrogate_collision: "json_quote [55357, 56832] = json_quote [128512]"
  by (simp add: json_quote_def json_esc_def json_esc_char_def hex4_def hexdig_def)

section \<open>Unique reading\<close>

fun json_scalar :: "json \<Rightarrow> bool" where
  "json_scalar (JStr s) = (\<forall>c \<in> set s. scalar c)"
| "json_scalar (JList vs) = (\<forall>v \<in> set vs. json_scalar v)"
| "json_scalar (JObj kvs) = (\<forall>kv \<in> set kvs. (\<forall>c \<in> set (fst kv). scalar c) \<and> json_scalar (snd kv))"
| "json_scalar _ = True"

definition json_delim :: "pystr \<Rightarrow> bool" where
  "json_delim r \<longleftrightarrow> (case r of [] \<Rightarrow> True | c # _ \<Rightarrow> c = 44 \<or> c = 93 \<or> c = 125)"

text \<open>Which kind of value a text starts: the first character decides it.\<close>

fun json_head :: "json \<Rightarrow> nat \<Rightarrow> bool" where
  "json_head JNull c = (c = 110)"
| "json_head (JBool b) c = (c = (if b then 116 else 102))"
| "json_head (JInt _) c = numchar c"
| "json_head (JFloat _) c = numchar c"
| "json_head (JStr _) c = (c = 34)"
| "json_head (JList _) c = (c = 91)"
| "json_head (JObj _) c = (c = 123)"

lemma json_print_head:
  assumes "float_repr_ok fr" "json_finite v"
  shows "\<exists>c t. json_print fr v = c # t \<and> json_head v c"
proof (cases v)
  case (JInt i)
  then show ?thesis
    using dec_of_int_numchar [of "hd (dec_of_int i)" i] by (cases "dec_of_int i") auto
next
  case (JFloat f)
  with assms(2) obtain q where "f = PyFinite q" by (cases f) auto
  with JFloat assms(1) show ?thesis
    by (cases "fr q") (auto simp: float_repr_ok_def, metis list.set_intros(1) list.distinct(1))
qed (auto simp: py_def json_quote_def)

lemma numchar_head_simps: "\<not> numchar 110" "\<not> numchar 116" "\<not> numchar 102" "\<not> numchar 34"
  "\<not> numchar 91" "\<not> numchar 123" "\<not> numchar 93" "\<not> numchar 125" "\<not> numchar 44"
  by (simp_all add: numchar_def)

lemma json_head_not_close: "json_head v c \<Longrightarrow> c \<noteq> 93 \<and> c \<noteq> 125 \<and> c \<noteq> 44"
  by (cases v) (auto simp: numchar_def)

lemma numchar_token:
  assumes "\<forall>c \<in> set a. numchar c" "\<forall>c \<in> set b. numchar c" "json_delim r" "json_delim s"
    "a @ r = b @ s"
  shows "a = b \<and> r = s"
proof -
  have tok: "takeWhile numchar (x @ y) = x" if "\<forall>c \<in> set x. numchar c" "json_delim y" for x y
    using that by (cases y) (auto simp: json_delim_def numchar_head_simps takeWhile_append2)
  have "a = takeWhile numchar (a @ r)" using tok [OF assms(1,3)] by simp
  also have "\<dots> = b" using tok [OF assms(2,4)] assms(5) by simp
  finally show ?thesis using assms(5) by simp
qed

text \<open>The text of a number, and that it tells an integer from a float.\<close>

lemma json_number_token:
  assumes "float_repr_ok fr" "json_finite v" "json_head v c" "numchar c"
  shows "\<forall>d \<in> set (json_print fr v). numchar d"
proof (cases v)
  case (JFloat f)
  with assms(1,2) show ?thesis by (cases f) (auto simp: float_repr_ok_def)
qed (use assms dec_of_int_numchar in \<open>auto simp: numchar_head_simps split: if_splits\<close>)

lemma json_number_inj:
  assumes "float_repr_ok fr" "json_finite v" "json_finite w" "json_head v c" "json_head w c" "numchar c"
    "json_print fr v = json_print fr w"
  shows "v = w"
proof -
  have kind: "(\<exists>i. u = JInt i) \<or> (\<exists>q. u = JFloat (PyFinite q))" if "json_finite u" "json_head u c" for u
    using that assms(6) by (cases u) (auto simp: numchar_head_simps split: pyfloat.splits if_splits)
  have mixed: "dec_of_int i \<noteq> fr q" for i q
    using assms(1) dec_of_int_numchar [of _ i] by (metis float_repr_ok_def)
  from kind [OF assms(2,4)] kind [OF assms(3,5)] assms(1,7) mixed show ?thesis
    by (auto simp: float_repr_ok_def dest: injD) (metis mixed)+
qed

lemma json_head_functional:
  "json_head v c \<Longrightarrow> json_head w c \<Longrightarrow> \<not> numchar c \<Longrightarrow>
   (case v of JNull \<Rightarrow> w = JNull | JBool b \<Rightarrow> w = JBool b | JStr _ \<Rightarrow> (\<exists>s. w = JStr s)
    | JList _ \<Rightarrow> (\<exists>vs. w = JList vs) | JObj _ \<Rightarrow> (\<exists>kvs. w = JObj kvs) | _ \<Rightarrow> False)"
  by (cases v; cases w) (auto simp: numchar_head_simps split: if_splits)

definition json_unique :: "(rat \<Rightarrow> pystr) \<Rightarrow> json \<Rightarrow> bool" where
  "json_unique fr v \<longleftrightarrow> (\<forall>w r s. json_finite w \<longrightarrow> json_scalar w \<longrightarrow> json_delim r \<longrightarrow> json_delim s
     \<longrightarrow> json_print fr v @ r = json_print fr w @ s \<longrightarrow> v = w \<and> r = s)"

lemma json_uniqueD:
  "json_unique fr v \<Longrightarrow> json_finite w \<Longrightarrow> json_scalar w \<Longrightarrow> json_delim r \<Longrightarrow> json_delim s \<Longrightarrow>
   json_print fr v @ r = json_print fr w @ s \<Longrightarrow> v = w \<and> r = s"
  by (auto simp: json_unique_def)

lemma json_delim_simps [simp]: "json_delim []" "json_delim (44 # r)" "json_delim (93 # r)"
  "json_delim (125 # r)"
  by (simp_all add: json_delim_def)

lemma json_print_not_close:
  "float_repr_ok fr \<Longrightarrow> json_finite v \<Longrightarrow> json_print fr v @ x \<noteq> 93 # y"
  using json_print_head [of fr v] json_head_not_close by fastforce

lemma json_elems_unique:
  assumes fr: "float_repr_ok fr"
  shows "\<forall>v \<in> set vs. json_unique fr v \<and> json_finite v \<Longrightarrow> \<forall>w \<in> set ws. json_finite w \<and> json_scalar w \<Longrightarrow>
    json_print_elems fr vs @ 93 # r = json_print_elems fr ws @ 93 # s \<Longrightarrow> vs = ws \<and> r = s"
proof (induction vs arbitrary: ws)
  case Nil
  then show ?case
    using json_print_not_close [OF fr, symmetric] by (cases ws) fastforce+
next
  case (Cons v vs)
  show ?case
  proof (cases ws)
    case Nil
    with Cons.prems show ?thesis using json_print_not_close [OF fr, of v] by simp
  next
    case (Cons w ws')
    let ?t = "\<lambda>xs z. (if xs = [] then [] else 44 # json_print_elems fr xs) @ 93 # z"
    have "json_print fr v @ ?t vs r = json_print fr w @ ?t ws' s"
      using Cons.prems Cons by simp
    then have "v = w \<and> ?t vs r = ?t ws' s"
      using Cons.prems Cons by (intro json_uniqueD) auto
    with Cons.IH [of ws'] Cons.prems Cons show ?thesis
      by (auto split: if_splits)
  qed
qed

lemma json_members_unique:
  assumes fr: "float_repr_ok fr"
  shows "\<forall>kv \<in> set kvs. json_unique fr (snd kv) \<and> (\<forall>c \<in> set (fst kv). scalar c) \<Longrightarrow>
    \<forall>kv \<in> set kws. json_finite (snd kv) \<and> (\<forall>c \<in> set (fst kv). scalar c) \<and> json_scalar (snd kv) \<Longrightarrow>
    json_print_members fr kvs @ 125 # r = json_print_members fr kws @ 125 # s \<Longrightarrow> kvs = kws \<and> r = s"
proof (induction kvs arbitrary: kws)
  case Nil
  then show ?case by (cases kws) (auto simp: json_quote_def)
next
  case (Cons kv kvs)
  show ?case
  proof (cases kws)
    case Nil
    with Cons.prems show ?thesis by (simp add: json_quote_def)
  next
    case (Cons kw kws')
    let ?t = "\<lambda>xs z. (if xs = [] then [] else 44 # json_print_members fr xs) @ 125 # z"
    have eq: "json_quote (fst kv) @ (58 # json_print fr (snd kv) @ ?t kvs r) =
        json_quote (fst kw) @ (58 # json_print fr (snd kw) @ ?t kws' s)"
      using Cons.prems Cons by simp
    have k: "fst kv = fst kw \<and>
        58 # json_print fr (snd kv) @ ?t kvs r = 58 # json_print fr (snd kw) @ ?t kws' s"
      by (rule json_quote_prefix [OF _ _ eq]) (use Cons.prems Cons in auto)
    then have "json_print fr (snd kv) @ ?t kvs r = json_print fr (snd kw) @ ?t kws' s"
      by simp
    then have "snd kv = snd kw \<and> ?t kvs r = ?t kws' s"
      using Cons.prems Cons by (intro json_uniqueD) auto
    with Cons.IH [of kws'] Cons.prems Cons k show ?thesis
      by (auto split: if_splits simp: prod_eq_iff)
  qed
qed

lemma json_same_head:
  assumes "float_repr_ok fr" "json_finite v" "json_finite w" "json_print fr v @ r = json_print fr w @ s"
  shows "\<exists>c. json_head v c \<and> json_head w c"
  using json_print_head [OF assms(1,2)] json_print_head [OF assms(1,3)] assms(4) by auto

lemma json_number_unique:
  assumes fr: "float_repr_ok fr" and v: "json_finite v" "json_head v c" "numchar c"
    and num: "\<And>d. json_head v d \<Longrightarrow> numchar d"
  shows "json_unique fr v"
  unfolding json_unique_def
proof (intro allI impI)
  fix w r s
  assume w: "json_finite w" and d: "json_delim r" "json_delim s"
    and eq: "json_print fr v @ r = json_print fr w @ s"
  obtain e where e: "json_head v e" "json_head w e"
    using json_same_head [OF fr v(1) w eq] by blast
  then have n: "numchar e" by (blast intro: num)
  have "json_print fr v = json_print fr w \<and> r = s"
    by (rule numchar_token [OF json_number_token [OF fr v(1) e(1) n]
          json_number_token [OF fr w e(2) n] d eq])
  then show "v = w \<and> r = s"
    using json_number_inj [OF fr v(1) w e n] by blast
qed

lemma json_print_unique:
  assumes fr: "float_repr_ok fr"
  shows "json_finite v \<Longrightarrow> json_scalar v \<Longrightarrow> json_unique fr v"
proof (induction v)
  case (JInt i)
  show ?case by (rule json_number_unique [OF fr, of _ 48]) (auto simp: numchar_def)
next
  case (JFloat f)
  then show ?case by (intro json_number_unique [OF fr, of _ 48]) (auto simp: numchar_def)
next
  case (JStr a)
  show ?case
    unfolding json_unique_def
  proof (intro allI impI)
    fix w r s
    assume w: "json_finite w" "json_scalar w" and eq: "json_print fr (JStr a) @ r = json_print fr w @ s"
    then obtain b where b: "w = JStr b"
      using json_same_head [OF fr JStr.prems(1) w(1) eq] json_head_functional [of "JStr a" 34 w]
      by (auto simp: numchar_head_simps)
    with eq w JStr show "JStr a = w \<and> r = s"
      using json_quote_prefix [of a b r s] by simp
  qed
next
  case (JList vs)
  show ?case
    unfolding json_unique_def
  proof (intro allI impI)
    fix w r s
    assume w: "json_finite w" "json_scalar w" and eq: "json_print fr (JList vs) @ r = json_print fr w @ s"
    then obtain ws where ws: "w = JList ws"
      using json_same_head [OF fr JList.prems(1) w(1) eq] json_head_functional [of "JList vs" 91 w]
      by (auto simp: numchar_head_simps)
    have "\<forall>v \<in> set vs. json_unique fr v \<and> json_finite v" using JList by simp
    with eq w ws show "JList vs = w \<and> r = s"
      using json_elems_unique [OF fr, of vs ws r s] by simp
  qed
next
  case (JObj kvs)
  show ?case
    unfolding json_unique_def
  proof (intro allI impI)
    fix w r s
    assume w: "json_finite w" "json_scalar w" and eq: "json_print fr (JObj kvs) @ r = json_print fr w @ s"
    then obtain kws where kws: "w = JObj kws"
      using json_same_head [OF fr JObj.prems(1) w(1) eq] json_head_functional [of "JObj kvs" 123 w]
      by (auto simp: numchar_head_simps)
    have "json_unique fr (snd kv) \<and> (\<forall>c \<in> set (fst kv). scalar c)" if "kv \<in> set kvs" for kv
      using JObj.IH [OF that, of "snd kv"] JObj.prems that by (cases kv) (fastforce simp: snds.simps)
    with eq w kws show "JObj kvs = w \<and> r = s"
      using json_members_unique [OF fr, of kvs kws r s] by simp
  qed
next
  case JNull
  show ?case
    unfolding json_unique_def
  proof (intro allI impI)
    fix w r s
    assume w: "json_finite w" and eq: "json_print fr JNull @ r = json_print fr w @ s"
    then have "w = JNull"
      using json_same_head [OF fr _ w eq] json_head_functional [of JNull 110 w]
      by (auto simp: numchar_head_simps)
    with eq show "JNull = w \<and> r = s" by simp
  qed
next
  case (JBool b)
  show ?case
    unfolding json_unique_def
  proof (intro allI impI)
    fix w r s
    assume w: "json_finite w" and eq: "json_print fr (JBool b) @ r = json_print fr w @ s"
    then have "w = JBool b"
      using json_same_head [OF fr _ w eq] json_head_functional [of "JBool b" _ w]
      by (auto simp: numchar_head_simps split: if_splits)
    with eq show "JBool b = w \<and> r = s" by simp
  qed
qed

section \<open>The canonical encoding is injective\<close>

lemma json_finite_norm [simp]: "json_finite (json_norm v) = json_finite v"
  by (induction v rule: json_norm.induct) (auto simp: image_iff)

lemma json_scalar_norm [simp]: "json_scalar (json_norm v) = json_scalar v"
  by (induction v rule: json_norm.induct) (auto simp: image_iff)

lemma canonical_json_inj:
  assumes "float_repr_ok (float_repr P)" "json_scalar v" "json_scalar w"
    and "canonical_json P v = Inr t" "canonical_json P w = Inr t"
  shows "json_norm v = json_norm w"
proof -
  from assms(4,5) have fin: "json_finite v" "json_finite w"
    and eq: "json_print (float_repr P) (json_norm v) = json_print (float_repr P) (json_norm w)"
    by (auto simp: canonical_json_def split: if_splits)
  have "json_unique (float_repr P) (json_norm v)"
    using json_print_unique [OF assms(1)] fin assms(2) by simp
  from json_uniqueD [OF this, of "json_norm w" "[]" "[]"] fin assms(3) eq show ?thesis by simp
qed

lemma canonical_json_norm: "canonical_json P v = Inr t \<Longrightarrow> json_norm w = json_norm v \<Longrightarrow> canonical_json P w = Inr t"
  by (metis canonical_json_def json_finite_norm)

end
