(* ===== verification/Values.thy ===== *)
theory Values
  imports Json
begin

text \<open>
  Model of \<^verbatim>\<open>domain/values.py\<close>: the closed vocabularies, the guards \<^verbatim>\<open>_require_*\<close>, the frozen values
  \<^verbatim>\<open>SourceRef\<close>, \<^verbatim>\<open>LlmElement\<close>, \<^verbatim>\<open>LlmTags\<close> and the trust boundary \<^verbatim>\<open>llm_tags_from_dict\<close> that parses
  untrusted tagger output.

  Every guard takes the JSON value the source inspects with \<^verbatim>\<open>isinstance\<close>, in the source's order.
  The two UUID errors (unparsable, not canonical) share one label: both are
  \<^verbatim>\<open>DomainValidationError\<close>, and a value passes iff its lower case is the 8-4-4-4-12 form.
  A coordinate is the rational value of a finite double; \<^verbatim>\<open>float(int)\<close> rounds to 53 bits, ties to
  even, and overflows where Python raises \<^verbatim>\<open>OverflowError\<close>.
  \<open>source_ref_ok\<close>, \<open>llm_element_ok\<close> and \<open>llm_tags_ok\<close> are what \<^verbatim>\<open>__post_init__\<close> enforces;
  the lemmas show that the parser returns such values only and accepts each of them again.
\<close>

section \<open>Vocabularies\<close>

datatype element_state = Present | Absent | Unknown | Conflict | Not_applicable | Absent_in_scope

datatype track = Goal | Performance | Management

datatype location_quality = Located | Unlocated | Unreadable

datatype verification_state = Verified | Candidate | Rejected

definition element_state_text :: "element_state \<Rightarrow> pystr" where
  "element_state_text s = (case s of Present \<Rightarrow> py ''present'' | Absent \<Rightarrow> py ''absent''
     | Unknown \<Rightarrow> py ''unknown'' | Conflict \<Rightarrow> py ''conflict''
     | Not_applicable \<Rightarrow> py ''not_applicable'' | Absent_in_scope \<Rightarrow> py ''absent_in_scope'')"

text \<open>\<^verbatim>\<open>ELEMENT_STATES\<close>; the scoped state belongs to the rules engine only.\<close>

definition ELEMENT_STATES :: "element_state list" where
  "ELEMENT_STATES = [Present, Absent, Unknown, Conflict, Not_applicable]"

definition track_text :: "track \<Rightarrow> pystr" where
  "track_text t = (case t of Goal \<Rightarrow> py ''goal'' | Performance \<Rightarrow> py ''performance''
     | Management \<Rightarrow> py ''management'')"

definition TRACKS :: "track list" where
  "TRACKS = [Goal, Performance, Management]"

definition location_quality_text :: "location_quality \<Rightarrow> pystr" where
  "location_quality_text q = (case q of Located \<Rightarrow> py ''located'' | Unlocated \<Rightarrow> py ''unlocated''
     | Unreadable \<Rightarrow> py ''unreadable'')"

definition verification_state_text :: "verification_state \<Rightarrow> pystr" where
  "verification_state_text v = (case v of Verified \<Rightarrow> py ''verified'' | Candidate \<Rightarrow> py ''candidate''
     | Rejected \<Rightarrow> py ''rejected'')"

definition GRADE_LABEL_MAP :: "(pystr \<times> pystr) list" where
  "GRADE_LABEL_MAP = [(py ''E0'', py ''UNSUBSTANTIATED''), (py ''E1'', py ''INCOMPLETE''),
     (py ''E2'', py ''INCOMPLETE''), (py ''E3'', py ''SUBSTANTIATED'')]"

definition SAFE_HARBOR_CATEGORIES :: "pystr list" where
  "SAFE_HARBOR_CATEGORIES = [py ''forward_looking'', py ''emissions_estimate'',
     py ''third_party_information'']"

definition FORBIDDEN_LLM_FIELDS :: "pystr list" where
  "FORBIDDEN_LLM_FIELDS = [py ''evidence_grade'', py ''label'', py ''sublabel'', py ''decision_status'']"

definition ROOT_FIELDS :: "pystr list" where
  "ROOT_FIELDS = [py ''claim_id'', py ''packet_sha256'', py ''replicate_id'', py ''track'',
     py ''safe_harbor_category'', py ''elements'', py ''superlative_quote'', py ''warnings'']"

definition ELEMENT_FIELDS :: "pystr list" where
  "ELEMENT_FIELDS = [py ''element_id'', py ''state'', py ''evidence_refs'', py ''normalized_value'',
     py ''credited_from'', py ''reason_code'']"

definition SOURCE_FIELDS :: "pystr list" where
  "SOURCE_FIELDS = [py ''source_id'', py ''document_version_id'', py ''parse_manifest_id'',
     py ''page_num'', py ''printed_page_label'', py ''bbox'', py ''raw_text_sha256'', py ''quote'',
     py ''char_start'', py ''char_end'', py ''location_quality'', py ''verification_state'']"

text \<open>Membership of a JSON value in a tuple of strings, as the member it equals.\<close>

definition text_member :: "('a \<Rightarrow> pystr) \<Rightarrow> 'a list \<Rightarrow> json \<Rightarrow> 'a option" where
  "text_member f xs j = (case j of JStr s \<Rightarrow> find (\<lambda>x. f x = s) xs | _ \<Rightarrow> None)"

section \<open>Guards\<close>

definition lower_hex :: "nat \<Rightarrow> bool" where
  "lower_hex c \<longleftrightarrow> 48 \<le> c \<and> c \<le> 57 \<or> 97 \<le> c \<and> c \<le> 102"

definition canonical_uuid :: "pystr \<Rightarrow> bool" where
  "canonical_uuid s \<longleftrightarrow> length s = 36 \<and>
     (\<forall>(i, c) \<in> set (zip [0..<36] (py_lower s)). if i \<in> {8, 13, 18, 23} then c = 45 else lower_hex c)"

definition is_sha256 :: "pystr \<Rightarrow> bool" where
  "is_sha256 s \<longleftrightarrow> length s = 64 \<and> list_all lower_hex s"

definition require_uuid :: "string \<Rightarrow> json \<Rightarrow> pystr result" where
  "require_uuid name v = (case v of
       JStr s \<Rightarrow> if canonical_uuid s then Inr s
                 else Inl (DomainValidationError (name @ '' must be a canonical UUID string''))
     | _ \<Rightarrow> Inl (DomainValidationError (name @ '' must be a UUID string'')))"

definition require_strict_int :: "string \<Rightarrow> json \<Rightarrow> int result" where
  "require_strict_int name v = (case v of JInt i \<Rightarrow> Inr i
     | _ \<Rightarrow> Inl (DomainValidationError (name @ '' must be an int (bool not accepted)'')))"

definition require_sha256 :: "string \<Rightarrow> json \<Rightarrow> pystr result" where
  "require_sha256 name v = (case v of
       JStr s \<Rightarrow> if is_sha256 s then Inr s
                 else Inl (DomainValidationError (name @ '' must be a 64-char lowercase hex sha256''))
     | _ \<Rightarrow> Inl (DomainValidationError (name @ '' must be a 64-char lowercase hex sha256'')))"

fun bit_length :: "nat \<Rightarrow> nat" where
  "bit_length n = (if n = 0 then 0 else Suc (bit_length (n div 2)))"

declare bit_length.simps [simp del]

definition float_of_int :: "int \<Rightarrow> rat result" where
  "float_of_int i =
     (let a = nat \<bar>i\<bar> in
      if a < 2 ^ 53 then Inr (of_int i)
      else let k = bit_length a - 53; q = a div 2 ^ k; r = a mod 2 ^ k;
               q' = (if 2 ^ k < 2 * r \<or> 2 * r = 2 ^ k \<and> odd q then q + 1 else q)
           in if 2 ^ 1024 \<le> q' * 2 ^ k then Inl (OverflowError ''int too large to convert to float'')
              else Inr (of_int (sgn i) * of_nat (q' * 2 ^ k)))"

definition require_coord :: "json \<Rightarrow> rat result" where
  "require_coord c = (case c of
       JInt i \<Rightarrow> float_of_int i
     | JFloat (PyFinite q) \<Rightarrow> Inr q
     | JFloat _ \<Rightarrow> Inl (DomainValidationError ''bbox coordinates must be finite'')
     | _ \<Rightarrow> Inl (DomainValidationError ''bbox coordinates must be numbers''))"

type_synonym bbox = "rat \<times> rat \<times> rat \<times> rat"

fun bbox_of_coords :: "rat list \<Rightarrow> bbox option result" where
  "bbox_of_coords [x0, y0, x1, y1] =
     (if x0 < x1 \<and> y0 < y1 then Inr (Some (x0, y0, x1, y1))
      else Inl (DomainValidationError ''bbox must satisfy x0 < x1 and y0 < y1''))"
| "bbox_of_coords _ = Inl (DomainValidationError ''bbox must have exactly 4 coordinates'')"

definition require_bbox :: "json \<Rightarrow> bbox option result" where
  "require_bbox v = (case v of
       JNull \<Rightarrow> Inr None
     | JList cs \<Rightarrow>
         if length cs \<noteq> 4 then Inl (DomainValidationError ''bbox must have exactly 4 coordinates'')
         else bindE (mapE require_coord cs) bbox_of_coords
     | _ \<Rightarrow> Inl (DomainValidationError ''bbox must have exactly 4 coordinates''))"

definition require_optional_str :: "string \<Rightarrow> json \<Rightarrow> pystr option result" where
  "require_optional_str name v = (case v of JNull \<Rightarrow> Inr None | JStr s \<Rightarrow> Inr (Some s)
     | _ \<Rightarrow> Inl (DomainValidationError (name @ '' must be a string or null'')))"

definition reject_unknown :: "string \<Rightarrow> (pystr \<times> json) list \<Rightarrow> pystr list \<Rightarrow> unit result" where
  "reject_unknown what kvs allowed =
     (if list_all (\<lambda>kv. fst kv \<in> set allowed) kvs then Inr ()
      else Inl (DomainValidationError (what @ '' carries unknown fields'')))"

definition require_keys :: "string \<Rightarrow> (pystr \<times> json) list \<Rightarrow> pystr list \<Rightarrow> unit result" where
  "require_keys what kvs required =
     (if list_all (\<lambda>k. k \<in> fst ` set kvs) required then Inr ()
      else Inl (DomainValidationError (what @ '' is missing required fields'')))"

definition jitem :: "(pystr \<times> json) list \<Rightarrow> string \<Rightarrow> json result" where
  "jitem kvs k = (case map_of kvs (py k) of None \<Rightarrow> Inl (KeyError k) | Some v \<Rightarrow> Inr v)"

section \<open>Source references\<close>

record source_ref =
  sr_source_id :: pystr
  sr_document_version_id :: pystr
  sr_parse_manifest_id :: pystr
  sr_page_num :: int
  sr_printed_page_label :: "pystr option"
  sr_bbox :: "bbox option"
  sr_raw_text_sha256 :: pystr
  sr_quote :: pystr
  sr_char_start :: int
  sr_char_end :: int
  sr_location_quality :: location_quality
  sr_verification_state :: verification_state

definition source_ref_from_dict :: "json \<Rightarrow> source_ref result" where
  "source_ref_from_dict data = (case data of JObj d \<Rightarrow>
     bindE (reject_unknown ''source ref'' d SOURCE_FIELDS) (\<lambda>_.
     bindE (require_keys ''source ref'' d SOURCE_FIELDS) (\<lambda>_.
     bindE (bindE (jitem d ''printed_page_label'') (require_optional_str ''printed_page_label'')) (\<lambda>printed.
     bindE (bindE (jitem d ''source_id'') (require_uuid ''source_id'')) (\<lambda>sid.
     bindE (bindE (jitem d ''document_version_id'') (require_uuid ''document_version_id'')) (\<lambda>dv.
     bindE (bindE (jitem d ''parse_manifest_id'') (require_uuid ''parse_manifest_id'')) (\<lambda>pm.
     bindE (bindE (jitem d ''page_num'') (require_strict_int ''page_num'')) (\<lambda>page.
     if page < 1 then Inl (DomainValidationError ''page_num must be >= 1'') else
     bindE (bindE (jitem d ''char_start'') (require_strict_int ''char_start'')) (\<lambda>cs.
     bindE (bindE (jitem d ''char_end'') (require_strict_int ''char_end'')) (\<lambda>ce.
     if cs < 0 \<or> ce < cs then Inl (DomainValidationError ''char offsets must satisfy 0 <= start <= end'') else
     bindE (jitem d ''location_quality'') (\<lambda>lq.
     case text_member location_quality_text [Located, Unlocated, Unreadable] lq of
       None \<Rightarrow> Inl (DomainValidationError ''unknown location_quality'')
     | Some q \<Rightarrow>
     bindE (jitem d ''verification_state'') (\<lambda>vs.
     case text_member verification_state_text [Verified, Candidate, Rejected] vs of
       None \<Rightarrow> Inl (DomainValidationError ''unknown verification_state'')
     | Some v \<Rightarrow>
     bindE (bindE (jitem d ''bbox'') require_bbox) (\<lambda>bb.
     bindE (bindE (jitem d ''raw_text_sha256'') (require_sha256 ''raw_text_sha256'')) (\<lambda>h.
     bindE (jitem d ''quote'') (\<lambda>qt. case qt of
       JStr t \<Rightarrow> Inr \<lparr>sr_source_id = sid, sr_document_version_id = dv, sr_parse_manifest_id = pm,
         sr_page_num = page, sr_printed_page_label = printed, sr_bbox = bb, sr_raw_text_sha256 = h,
         sr_quote = t, sr_char_start = cs, sr_char_end = ce, sr_location_quality = q,
         sr_verification_state = v\<rparr>
     | _ \<Rightarrow> Inl (DomainValidationError ''quote must be a string'')))))))))))))))
   | _ \<Rightarrow> Inl (DomainValidationError ''source ref must be an object''))"

definition source_ref_ok :: "source_ref \<Rightarrow> bool" where
  "source_ref_ok r \<longleftrightarrow> canonical_uuid (sr_source_id r) \<and> canonical_uuid (sr_document_version_id r)
     \<and> canonical_uuid (sr_parse_manifest_id r) \<and> 1 \<le> sr_page_num r
     \<and> 0 \<le> sr_char_start r \<and> sr_char_start r \<le> sr_char_end r
     \<and> (case sr_bbox r of None \<Rightarrow> True | Some (x0, y0, x1, y1) \<Rightarrow> x0 < x1 \<and> y0 < y1)
     \<and> is_sha256 (sr_raw_text_sha256 r)"

section \<open>Tagged elements and replicates\<close>

record llm_element =
  le_element_id :: pystr
  le_state :: element_state
  le_evidence_refs :: "source_ref list"
  le_normalized_value :: "pystr option"
  le_credited_from :: "pystr option"
  le_reason_code :: "pystr option"

definition has_forbidden :: "(pystr \<times> json) list \<Rightarrow> bool" where
  "has_forbidden d \<longleftrightarrow> list_ex (\<lambda>k. k \<in> fst ` set d) FORBIDDEN_LLM_FIELDS"

definition element_from_dict :: "json \<Rightarrow> llm_element result" where
  "element_from_dict data = (case data of JObj d \<Rightarrow>
     if has_forbidden d then Inl (DomainValidationError ''LLM element must not carry grading fields'') else
     bindE (reject_unknown ''element'' d ELEMENT_FIELDS) (\<lambda>_.
     bindE (require_keys ''element'' d ELEMENT_FIELDS) (\<lambda>_.
     bindE (jitem d ''evidence_refs'') (\<lambda>rj. case rj of JList refs \<Rightarrow>
       bindE (bindE (jitem d ''normalized_value'') (require_optional_str ''normalized_value'')) (\<lambda>nv.
       bindE (bindE (jitem d ''credited_from'') (require_optional_str ''credited_from'')) (\<lambda>cf.
       bindE (bindE (jitem d ''reason_code'') (require_optional_str ''reason_code'')) (\<lambda>rc.
       bindE (case cf of None \<Rightarrow> Inr () | Some c \<Rightarrow>
                bindE (require_uuid ''credited_from'' (JStr c)) (\<lambda>_. Inr ())) (\<lambda>_.
       bindE (mapE source_ref_from_dict refs) (\<lambda>rs.
       bindE (jitem d ''element_id'') (\<lambda>eid. case eid of JStr e \<Rightarrow>
         if e = [] then Inl (DomainValidationError ''element_id must be a non-empty string'') else
         bindE (jitem d ''state'') (\<lambda>sj. case text_member element_state_text ELEMENT_STATES sj of
           None \<Rightarrow> Inl (DomainValidationError ''unknown element state'')
         | Some st \<Rightarrow>
             if st = Present \<and> rs = []
             then Inl (DomainValidationError ''state=present requires at least one evidence_ref'')
             else Inr \<lparr>le_element_id = e, le_state = st, le_evidence_refs = rs,
               le_normalized_value = nv, le_credited_from = cf, le_reason_code = rc\<rparr>)
       | _ \<Rightarrow> Inl (DomainValidationError ''element_id must be a non-empty string'')))))))
     | _ \<Rightarrow> Inl (DomainValidationError ''evidence_refs must be an array''))))
   | _ \<Rightarrow> Inl (DomainValidationError ''element must be an object''))"

definition llm_element_ok :: "llm_element \<Rightarrow> bool" where
  "llm_element_ok e \<longleftrightarrow> le_element_id e \<noteq> [] \<and> le_state e \<noteq> Absent_in_scope
     \<and> list_all source_ref_ok (le_evidence_refs e)
     \<and> (le_state e = Present \<longrightarrow> le_evidence_refs e \<noteq> [])
     \<and> (case le_credited_from e of None \<Rightarrow> True | Some c \<Rightarrow> canonical_uuid c)"

record llm_tags =
  lt_claim_id :: pystr
  lt_packet_sha256 :: pystr
  lt_replicate_id :: int
  lt_track :: track
  lt_safe_harbor_category :: "pystr option"
  lt_elements :: "llm_element list"
  lt_superlative_quote :: "pystr option"
  lt_warnings :: "pystr list"

definition require_warning :: "json \<Rightarrow> pystr result" where
  "require_warning w = (case w of JStr s \<Rightarrow> Inr s
     | _ \<Rightarrow> Inl (DomainValidationError ''warnings must all be strings''))"

definition llm_tags_from_dict :: "json \<Rightarrow> llm_tags result" where
  "llm_tags_from_dict data = (case data of JObj d \<Rightarrow>
     if has_forbidden d then Inl (DomainValidationError ''LLM tag payload must not carry grading fields'') else
     bindE (reject_unknown ''LLM tag payload'' d ROOT_FIELDS) (\<lambda>_.
     bindE (require_keys ''LLM tag payload'' d ROOT_FIELDS) (\<lambda>_.
     bindE (jitem d ''elements'') (\<lambda>ej. case ej of JList es \<Rightarrow>
       bindE (jitem d ''warnings'') (\<lambda>wj. case wj of JList ws \<Rightarrow>
         bindE (bindE (jitem d ''safe_harbor_category'') (require_optional_str ''safe_harbor_category'')) (\<lambda>cat.
         bindE (bindE (jitem d ''superlative_quote'') (require_optional_str ''superlative_quote'')) (\<lambda>sq.
         bindE (mapE element_from_dict es) (\<lambda>els.
         bindE (bindE (jitem d ''claim_id'') (require_uuid ''claim_id'')) (\<lambda>cid.
         bindE (bindE (jitem d ''packet_sha256'') (require_sha256 ''packet_sha256'')) (\<lambda>ph.
         bindE (bindE (jitem d ''replicate_id'') (require_strict_int ''replicate_id'')) (\<lambda>rid.
         if rid \<notin> {1, 2, 3} then Inl (DomainValidationError ''replicate_id must be 1, 2, or 3'') else
         bindE (jitem d ''track'') (\<lambda>tj. case text_member track_text TRACKS tj of
           None \<Rightarrow> Inl (DomainValidationError ''unknown track'')
         | Some tr \<Rightarrow>
             if (case cat of None \<Rightarrow> False | Some c \<Rightarrow> c \<notin> set SAFE_HARBOR_CATEGORIES)
             then Inl (DomainValidationError ''unknown safe_harbor_category'') else
             bindE (mapE require_warning ws) (\<lambda>warns.
             Inr \<lparr>lt_claim_id = cid, lt_packet_sha256 = ph, lt_replicate_id = rid, lt_track = tr,
               lt_safe_harbor_category = cat, lt_elements = els, lt_superlative_quote = sq,
               lt_warnings = warns\<rparr>))))))))
       | _ \<Rightarrow> Inl (DomainValidationError ''warnings must be an array''))
     | _ \<Rightarrow> Inl (DomainValidationError ''elements must be an array''))))
   | _ \<Rightarrow> Inl (DomainValidationError ''LLM tag payload must be an object''))"

definition llm_tags_ok :: "llm_tags \<Rightarrow> bool" where
  "llm_tags_ok t \<longleftrightarrow> canonical_uuid (lt_claim_id t) \<and> is_sha256 (lt_packet_sha256 t)
     \<and> lt_replicate_id t \<in> {1, 2, 3} \<and> list_all llm_element_ok (lt_elements t)
     \<and> (case lt_safe_harbor_category t of None \<Rightarrow> True | Some c \<Rightarrow> c \<in> set SAFE_HARBOR_CATEGORIES)"

section \<open>Projection to dictionaries\<close>

text \<open>\<^verbatim>\<open>dataclasses.asdict\<close> of the three values: the fields in declaration order.\<close>

definition opt_str :: "pystr option \<Rightarrow> json" where
  "opt_str x = (case x of None \<Rightarrow> JNull | Some s \<Rightarrow> JStr s)"

definition bbox_asdict :: "bbox option \<Rightarrow> json" where
  "bbox_asdict b = (case b of None \<Rightarrow> JNull
     | Some (x0, y0, x1, y1) \<Rightarrow> JList (map (JFloat \<circ> PyFinite) [x0, y0, x1, y1]))"

definition source_ref_asdict :: "source_ref \<Rightarrow> json" where
  "source_ref_asdict r = JObj
     [(py ''source_id'', JStr (sr_source_id r)),
      (py ''document_version_id'', JStr (sr_document_version_id r)),
      (py ''parse_manifest_id'', JStr (sr_parse_manifest_id r)),
      (py ''page_num'', JInt (sr_page_num r)),
      (py ''printed_page_label'', opt_str (sr_printed_page_label r)),
      (py ''bbox'', bbox_asdict (sr_bbox r)),
      (py ''raw_text_sha256'', JStr (sr_raw_text_sha256 r)),
      (py ''quote'', JStr (sr_quote r)),
      (py ''char_start'', JInt (sr_char_start r)),
      (py ''char_end'', JInt (sr_char_end r)),
      (py ''location_quality'', JStr (location_quality_text (sr_location_quality r))),
      (py ''verification_state'', JStr (verification_state_text (sr_verification_state r)))]"

definition llm_element_asdict :: "llm_element \<Rightarrow> json" where
  "llm_element_asdict e = JObj
     [(py ''element_id'', JStr (le_element_id e)),
      (py ''state'', JStr (element_state_text (le_state e))),
      (py ''evidence_refs'', JList (map source_ref_asdict (le_evidence_refs e))),
      (py ''normalized_value'', opt_str (le_normalized_value e)),
      (py ''credited_from'', opt_str (le_credited_from e)),
      (py ''reason_code'', opt_str (le_reason_code e))]"

definition llm_tags_asdict :: "llm_tags \<Rightarrow> json" where
  "llm_tags_asdict t = JObj
     [(py ''claim_id'', JStr (lt_claim_id t)),
      (py ''packet_sha256'', JStr (lt_packet_sha256 t)),
      (py ''replicate_id'', JInt (lt_replicate_id t)),
      (py ''track'', JStr (track_text (lt_track t))),
      (py ''safe_harbor_category'', opt_str (lt_safe_harbor_category t)),
      (py ''elements'', JList (map llm_element_asdict (lt_elements t))),
      (py ''superlative_quote'', opt_str (lt_superlative_quote t)),
      (py ''warnings'', JList (map JStr (lt_warnings t)))]"

section \<open>What the parser returns\<close>

lemma require_uuid_Inr: "require_uuid n v = Inr s \<longleftrightarrow> v = JStr s \<and> canonical_uuid s"
  by (cases v) (auto simp: require_uuid_def)

lemma require_strict_int_Inr: "require_strict_int n v = Inr i \<longleftrightarrow> v = JInt i"
  by (cases v) (auto simp: require_strict_int_def)

lemma require_sha256_Inr: "require_sha256 n v = Inr s \<longleftrightarrow> v = JStr s \<and> is_sha256 s"
  by (cases v) (auto simp: require_sha256_def)

lemma require_optional_str_Inr: "require_optional_str n v = Inr x \<longleftrightarrow> v = opt_str x"
  by (cases v; cases x) (auto simp: require_optional_str_def opt_str_def)

lemma require_warning_Inr: "require_warning v = Inr s \<longleftrightarrow> v = JStr s"
  by (cases v) (auto simp: require_warning_def)

lemmas guard_Inr = require_uuid_Inr require_strict_int_Inr require_sha256_Inr
  require_optional_str_Inr require_warning_Inr

lemma require_bbox_ok:
  "require_bbox v = Inr b \<Longrightarrow> case b of None \<Rightarrow> True | Some (x0, y0, x1, y1) \<Rightarrow> x0 < x1 \<and> y0 < y1"
  by (auto simp: require_bbox_def result_simps split: json.splits if_splits
      elim!: bbox_of_coords.elims)

lemma case_JObj_Inr:
  "(case j of JObj d \<Rightarrow> f d | _ \<Rightarrow> Inl e) = Inr y \<longleftrightarrow> (\<exists>d. j = JObj d \<and> f d = Inr y)"
  by (cases j) auto

lemma case_JList_Inr:
  "(case j of JList d \<Rightarrow> f d | _ \<Rightarrow> Inl e) = Inr y \<longleftrightarrow> (\<exists>d. j = JList d \<and> f d = Inr y)"
  by (cases j) auto

lemma case_JStr_Inr:
  "(case j of JStr d \<Rightarrow> f d | _ \<Rightarrow> Inl e) = Inr y \<longleftrightarrow> (\<exists>d. j = JStr d \<and> f d = Inr y)"
  by (cases j) auto

lemmas json_case_Inr = case_JObj_Inr case_JList_Inr case_JStr_Inr

lemma text_member_in: "text_member f xs j = Some x \<Longrightarrow> x \<in> set xs \<and> j = JStr (f x)"
  by (auto simp: text_member_def find_Some_iff split: json.splits)

lemma source_ref_from_dict_ok: "source_ref_from_dict j = Inr r \<Longrightarrow> source_ref_ok r"
  unfolding source_ref_from_dict_def
  by (clarsimp simp: result_simps json_case_Inr guard_Inr source_ref_ok_def)
    (use require_bbox_ok in \<open>fastforce split: option.splits\<close>)

lemma element_from_dict_ok:
  assumes "element_from_dict j = Inr e"
  shows "llm_element_ok e \<and> (\<exists>d. j = JObj d \<and> \<not> has_forbidden d)"
proof -
  from assms obtain d cf rs refs where d: "j = JObj d" "\<not> has_forbidden d"
    and refs: "mapE source_ref_from_dict refs = Inr rs" "le_evidence_refs e = rs"
    and e: "le_element_id e \<noteq> []" "le_state e \<in> set ELEMENT_STATES"
      "le_state e = Present \<longrightarrow> rs \<noteq> []" "le_credited_from e = cf"
    and cf: "(case cf of None \<Rightarrow> Inr () | Some c \<Rightarrow>
                bindE (require_uuid ''credited_from'' (JStr c)) (\<lambda>_. Inr ())) = Inr ()"
    unfolding element_from_dict_def
    by (clarsimp simp: result_simps json_case_Inr guard_Inr dest!: text_member_in)
  have "list_all source_ref_ok rs"
    using mapE_in_result [OF refs(1)] source_ref_from_dict_ok by (auto simp: list_all_iff)
  moreover have "case cf of None \<Rightarrow> True | Some c \<Rightarrow> canonical_uuid c"
    using cf by (auto simp: result_simps guard_Inr split: option.splits)
  ultimately show ?thesis
    using d e refs(2) by (auto simp: llm_element_ok_def ELEMENT_STATES_def)
qed

lemma llm_tags_from_dict_ok:
  assumes "llm_tags_from_dict j = Inr t"
  shows "llm_tags_ok t"
proof -
  from assms obtain es where es: "mapE element_from_dict es = Inr (lt_elements t)"
    and t: "canonical_uuid (lt_claim_id t)" "is_sha256 (lt_packet_sha256 t)" "lt_replicate_id t \<in> {1, 2, 3}"
      "case lt_safe_harbor_category t of None \<Rightarrow> True | Some c \<Rightarrow> c \<in> set SAFE_HARBOR_CATEGORIES"
    unfolding llm_tags_from_dict_def
    by (clarsimp simp: result_simps json_case_Inr guard_Inr) (fastforce split: option.splits)
  have "list_all llm_element_ok (lt_elements t)"
    using mapE_in_result [OF es] element_from_dict_ok by (auto simp: list_all_iff)
  with t show ?thesis by (auto simp: llm_tags_ok_def)
qed

section \<open>Round trip\<close>

lemma text_member_enum [simp]:
  "text_member location_quality_text [Located, Unlocated, Unreadable] (JStr (location_quality_text q)) = Some q"
  "text_member verification_state_text [Verified, Candidate, Rejected] (JStr (verification_state_text v)) = Some v"
  "text_member track_text TRACKS (JStr (track_text t)) = Some t"
    apply (cases q; simp add: text_member_def location_quality_text_def)
   apply (cases v; simp add: text_member_def verification_state_text_def)
  apply (cases t; simp add: text_member_def track_text_def TRACKS_def)
  done

lemma text_member_state [simp]:
  "s \<noteq> Absent_in_scope \<Longrightarrow> text_member element_state_text ELEMENT_STATES (JStr (element_state_text s)) = Some s"
  by (cases s) (simp_all add: text_member_def element_state_text_def ELEMENT_STATES_def)

lemma require_bbox_asdict:
  "case b of None \<Rightarrow> True | Some (x0, y0, x1, y1) \<Rightarrow> x0 < x1 \<and> y0 < y1 \<Longrightarrow>
   require_bbox (bbox_asdict b) = Inr b"
  by (auto simp: require_bbox_def bbox_asdict_def require_coord_def split: option.splits)

lemma require_optional_str_opt [simp]: "require_optional_str n (opt_str x) = Inr x"
  by (simp add: require_optional_str_Inr)

lemma guard_JStr [simp]:
  "canonical_uuid s \<Longrightarrow> require_uuid n (JStr s) = Inr s"
  "is_sha256 s \<Longrightarrow> require_sha256 n (JStr s) = Inr s"
  "require_strict_int n (JInt i) = Inr i"
  "require_warning (JStr s) = Inr s"
  by (simp_all add: require_uuid_def require_sha256_def require_strict_int_def require_warning_def)

lemma source_ref_round_trip: "source_ref_ok r \<Longrightarrow> source_ref_from_dict (source_ref_asdict r) = Inr r"
  by (simp add: source_ref_from_dict_def source_ref_asdict_def source_ref_ok_def reject_unknown_def
      require_keys_def SOURCE_FIELDS_def jitem_def require_bbox_asdict)

lemma llm_element_round_trip:
  assumes "llm_element_ok e"
  shows "element_from_dict (llm_element_asdict e) = Inr e"
proof -
  have "mapE source_ref_from_dict (map source_ref_asdict (le_evidence_refs e)) = Inr (le_evidence_refs e)"
    using assms mapE_Inr_id [of "map source_ref_asdict (le_evidence_refs e)"]
    by (simp add: mapE_Inr_iff list_all2_conv_all_nth llm_element_ok_def list_all_length source_ref_round_trip)
  with assms show ?thesis
    by (cases "le_credited_from e")
      (auto simp: element_from_dict_def llm_element_asdict_def llm_element_ok_def has_forbidden_def
        FORBIDDEN_LLM_FIELDS_def reject_unknown_def require_keys_def ELEMENT_FIELDS_def jitem_def)
qed

lemma llm_tags_round_trip:
  assumes "llm_tags_ok t"
  shows "llm_tags_from_dict (llm_tags_asdict t) = Inr t"
proof -
  have es: "mapE element_from_dict (map llm_element_asdict (lt_elements t)) = Inr (lt_elements t)"
    using assms
    by (simp add: mapE_Inr_iff list_all2_conv_all_nth llm_tags_ok_def list_all_length llm_element_round_trip)
  have ws: "mapE require_warning (map JStr (lt_warnings t)) = Inr (lt_warnings t)"
    by (simp add: mapE_Inr_iff list_all2_conv_all_nth)
  from assms show ?thesis
    by (cases "lt_safe_harbor_category t")
      (auto simp: llm_tags_from_dict_def llm_tags_asdict_def llm_tags_ok_def has_forbidden_def
        FORBIDDEN_LLM_FIELDS_def reject_unknown_def require_keys_def ROOT_FIELDS_def jitem_def es ws)
qed

end
