(* ===== verification/Rulepacks.thy ===== *)
theory Rulepacks
  imports Values
begin

text \<open>
  Model of \<^verbatim>\<open>domain/rulepacks.py\<close>: the frozen, self-verifying rule pack and its content hash.

  The source keeps each file as canonical JSON text and parses it again on every read; the model
  keeps the parsed value (\<open>rp_content\<close>), and \<^verbatim>\<open>json.loads(canonical_json(v))\<close> is \<open>json_norm v\<close>.
  \<open>mk_snapshot\<close> is \<^verbatim>\<open>__post_init__\<close>, \<open>file_content\<close> the reader.

  Lemmas: the hash of an accepted snapshot determines its manifest identity and, where the paths
  are distinct, every file it serves (\<open>snapshot_binds_content\<close>), and where a path is listed twice
  it does not.
\<close>

definition MANIFEST_HASH_FIELDS :: "pystr list" where
  "MANIFEST_HASH_FIELDS = [py ''version'', py ''ontology_version'', py ''source_document_sha256'',
     py ''mode'', py ''effective_date'']"

record rule_pack =
  rp_rule_pack_id :: pystr
  rp_tenant_id :: pystr
  rp_version :: pystr
  rp_effective_date :: pystr
  rp_mode :: pystr
  rp_status :: pystr
  rp_ontology_version :: pystr
  rp_source_document_sha256 :: pystr
  rp_sha256 :: pystr
  rp_files :: "pystr list"
  rp_unresolved_gap_ids :: "pystr list"
  rp_approved_by :: "pystr option"
  rp_approved_at :: "pystr option"
  rp_content :: "(pystr \<times> json) list"

text \<open>The items of a dictionary built from pairs: the last value of a key wins.\<close>

definition dict_items :: "(pystr \<times> json) list \<Rightarrow> (pystr \<times> json) list" where
  "dict_items kvs = map (\<lambda>k. (k, the (dict_of kvs k))) (py_sorted_set (map fst kvs))"

definition pack_envelope :: "(pystr \<times> json) list \<Rightarrow> pystr list \<Rightarrow> pystr list \<Rightarrow> (pystr \<times> json) list \<Rightarrow> json" where
  "pack_envelope pack files gaps files_content =
     (let manifest = map (\<lambda>f. (f, case map_of pack f of None \<Rightarrow> JNull | Some v \<Rightarrow> v)) MANIFEST_HASH_FIELDS
            @ [(py ''files'', JList (map JStr (sort files))),
               (py ''unresolved_gap_ids'', JList (map JStr (sort gaps)))]
      in JObj [(py ''manifest'', json_norm (JObj manifest)),
               (py ''files'', JObj (map (\<lambda>kv. (fst kv, json_norm (snd kv))) (dict_items files_content)))])"

definition pack_content_hash ::
  "platform \<Rightarrow> (pystr \<times> json) list \<Rightarrow> pystr list \<Rightarrow> pystr list \<Rightarrow> (pystr \<times> json) list \<Rightarrow> pystr result" where
  "pack_content_hash P pack files gaps files_content =
     canonical_hash P (pack_envelope pack files gaps files_content)"

definition snapshot_manifest :: "rule_pack \<Rightarrow> (pystr \<times> json) list" where
  "snapshot_manifest s =
     [(py ''rule_pack_id'', JStr (rp_rule_pack_id s)), (py ''tenant_id'', JStr (rp_tenant_id s)),
      (py ''version'', JStr (rp_version s)), (py ''effective_date'', JStr (rp_effective_date s)),
      (py ''mode'', JStr (rp_mode s)), (py ''status'', JStr (rp_status s)),
      (py ''ontology_version'', JStr (rp_ontology_version s)),
      (py ''source_document_sha256'', JStr (rp_source_document_sha256 s))]"

definition mk_snapshot :: "platform \<Rightarrow> rule_pack \<Rightarrow> rule_pack result" where
  "mk_snapshot P s =
     (if sort (map fst (rp_content s)) \<noteq> sort (rp_files s)
      then Inl (DomainValidationError ''rulepack snapshot content paths differ from manifest file set'')
      else bindE (pack_content_hash P (snapshot_manifest s) (rp_files s) (rp_unresolved_gap_ids s)
                    (rp_content s)) (\<lambda>h.
        if h \<noteq> rp_sha256 s
        then Inl (DomainValidationError ''rulepack snapshot sha256 does not match retained content'')
        else Inr s))"

definition file_content :: "rule_pack \<Rightarrow> pystr \<Rightarrow> (pystr \<times> json) list result" where
  "file_content s path = (case map_of (rp_content s) path of
       None \<Rightarrow> Inl (KeyError ''unknown rule file'')
     | Some v \<Rightarrow> (case json_norm v of JObj d \<Rightarrow> Inr d
         | _ \<Rightarrow> Inl (DomainValidationError ''rulepack file is not a mapping'')))"

text \<open>
  \<open>meta\<close> holds the \<^verbatim>\<open>str(..)\<close> values the source reads from the validated manifest.
\<close>

definition snapshot_from_validated :: "platform \<Rightarrow> rule_pack \<Rightarrow> (pystr \<times> json) list \<Rightarrow> rule_pack result" where
  "snapshot_from_validated P meta files_content =
     bindE (mapE (\<lambda>kv. bindE (canonical_json P (snd kv)) (\<lambda>_. Inr (fst kv, json_norm (snd kv))))
              (dict_items files_content)) (\<lambda>content.
     mk_snapshot P (meta\<lparr>rp_content := content\<rparr>))"

section \<open>What the content hash binds\<close>

lemma json_norm_idem [simp]: "json_norm (json_norm v) = json_norm v"
proof (induction v rule: json_norm.induct)
  case (2 kvs)
  let ?n = "\<lambda>kv. (fst kv, json_norm (snd kv))"
  have "map ?n (sort_key fst (map ?n kvs)) = sort_key fst (map ?n kvs)"
    by (rule map_idI) (use 2 in \<open>auto simp: prod_eq_iff\<close>)
  then show ?case by (simp add: sort_key_id_if_sorted comp_def)
qed (auto simp: comp_def)

lemma map_fst_dict_items [simp]: "map fst (dict_items kvs) = py_sorted_set (map fst kvs)"
  by (simp add: dict_items_def comp_def)

lemma map_of_dict_items: "map_of (dict_items kvs) = dict_of kvs"
proof
  fix k
  show "map_of (dict_items kvs) k = dict_of kvs k"
  proof (cases "k \<in> fst ` set kvs")
    case True
    then have "dict_of kvs k \<noteq> None" by (simp add: dict_of_None_iff)
    with True show ?thesis
      by (auto simp: dict_items_def map_of_map_keys comp_def map_of_map_restrict image_iff)
  next
    case False
    then have "dict_of kvs k = None" by (simp add: dict_of_None_iff)
    moreover from False have "map_of (dict_items kvs) k = None"
      by (metis list.set_map map_fst_dict_items map_of_eq_None_iff set_py_sorted_set)
    ultimately show ?thesis by simp
  qed
qed

lemma map_of_sort_key: "distinct (map fst kvs) \<Longrightarrow> map_of (sort_key fst kvs) = map_of kvs"
  by (rule map_of_inject_set [THEN iffD2]) (simp_all add: distinct_map)

lemma json_norm_sorted:
  "sorted (map fst kvs) \<Longrightarrow> json_norm (JObj kvs) = JObj (map (\<lambda>kv. (fst kv, json_norm (snd kv))) kvs)"
  by (simp add: sort_key_id_if_sorted comp_def)

lemma json_norm_pair:
  "k1 < k2 \<Longrightarrow> json_norm (JObj [(k2, v), (k1, w)]) = JObj [(k1, json_norm w), (k2, json_norm v)]"
  by (auto dest: leD)

definition manifest_fields :: "(pystr \<times> json) list \<Rightarrow> pystr list \<Rightarrow> pystr list \<Rightarrow> (pystr \<times> json) list" where
  "manifest_fields pack files gaps =
     map (\<lambda>f. (f, case map_of pack f of None \<Rightarrow> JNull | Some v \<Rightarrow> v)) MANIFEST_HASH_FIELDS
       @ [(py ''files'', JList (map JStr (sort files))),
          (py ''unresolved_gap_ids'', JList (map JStr (sort gaps)))]"

lemma pack_envelope_norm:
  "json_norm (pack_envelope pack files gaps fc) =
     JObj [(py ''files'', JObj (map (\<lambda>kv. (fst kv, json_norm (snd kv))) (dict_items fc))),
           (py ''manifest'', json_norm (JObj (manifest_fields pack files gaps)))]"
proof -
  have lt: "py ''files'' < py ''manifest''" by (simp add: py_def)
  have "sorted (map fst (map (\<lambda>kv. (fst kv, json_norm (snd kv))) (dict_items fc)))"
    by (simp add: comp_def)
  from json_norm_sorted [OF this] show ?thesis
    unfolding pack_envelope_def Let_def manifest_fields_def [symmetric]
    by (subst json_norm_pair [OF lt]) (simp add: comp_def del: json_norm.simps)
qed

lemma map_of_manifest_norm:
  assumes "json_norm (JObj (manifest_fields p fs gs)) = json_norm (JObj (manifest_fields q fs' gs'))"
    and "f \<in> set MANIFEST_HASH_FIELDS"
  shows "json_norm (case map_of p f of None \<Rightarrow> JNull | Some v \<Rightarrow> v) =
    json_norm (case map_of q f of None \<Rightarrow> JNull | Some v \<Rightarrow> v)"
proof -
  let ?n = "\<lambda>kvs. map (\<lambda>kv. (fst kv, json_norm (snd kv))) kvs"
  have d: "distinct (map fst (?n (manifest_fields x a b)))" for x a b
    by (simp add: manifest_fields_def MANIFEST_HASH_FIELDS_def)
  have "sort_key fst (?n (manifest_fields p fs gs)) = sort_key fst (?n (manifest_fields q fs' gs'))"
    using assms(1) by simp
  then have "map_of (?n (manifest_fields p fs gs)) = map_of (?n (manifest_fields q fs' gs'))"
    using map_of_sort_key [OF d, of p fs gs] map_of_sort_key [OF d, of q fs' gs'] by simp
  then have "map_of (?n (manifest_fields p fs gs)) f = map_of (?n (manifest_fields q fs' gs')) f"
    by simp
  with assms(2) show ?thesis
    by (auto simp: manifest_fields_def MANIFEST_HASH_FIELDS_def)
qed

text \<open>The texts two snapshots hash, and that the digest tells them apart.\<close>

definition snapshot_envelope :: "rule_pack \<Rightarrow> json" where
  "snapshot_envelope s =
     pack_envelope (snapshot_manifest s) (rp_files s) (rp_unresolved_gap_ids s) (rp_content s)"

definition no_collision :: "platform \<Rightarrow> json \<Rightarrow> json \<Rightarrow> bool" where
  "no_collision P v w \<longleftrightarrow> (\<forall>a b. canonical_json P v = Inr a \<longrightarrow> canonical_json P w = Inr b
     \<longrightarrow> sha256_hex P a = sha256_hex P b \<longrightarrow> a = b)"

lemma canonical_hash_inj:
  assumes "float_repr_ok (float_repr P)" "json_scalar v" "json_scalar w" "no_collision P v w"
    and "canonical_hash P v = Inr h" "canonical_hash P w = Inr h"
  shows "json_norm v = json_norm w"
proof -
  from assms(5,6) obtain a b where ab: "canonical_json P v = Inr a" "canonical_json P w = Inr b"
    and "sha256_hex P a = h" "sha256_hex P b = h"
    by (auto simp: canonical_hash_def bindE_Inr_iff)
  with assms(4) have "a = b" by (auto simp: no_collision_def)
  with ab assms(1-3) show ?thesis by (blast intro: canonical_json_inj)
qed

lemma mk_snapshot_hash: "mk_snapshot P s = Inr t \<Longrightarrow> t = s \<and> canonical_hash P (snapshot_envelope s) = Inr (rp_sha256 s)"
  by (auto simp: mk_snapshot_def pack_content_hash_def snapshot_envelope_def result_simps split: if_splits)

lemma snapshot_same_hash:
  assumes "float_repr_ok (float_repr P)"
    and "mk_snapshot P s = Inr s" "mk_snapshot P t = Inr t" "rp_sha256 s = rp_sha256 t"
    and "json_scalar (snapshot_envelope s)" "json_scalar (snapshot_envelope t)"
    and "no_collision P (snapshot_envelope s) (snapshot_envelope t)"
  shows "json_norm (snapshot_envelope s) = json_norm (snapshot_envelope t)"
  using assms mk_snapshot_hash [OF assms(2)] mk_snapshot_hash [OF assms(3)]
  by (intro canonical_hash_inj) auto

lemma map_of_map_norm:
  "map_of (map (\<lambda>kv. (fst kv, json_norm (snd kv))) kvs) k = map_option json_norm (map_of kvs k)"
  by (induction kvs) auto

lemma file_content_norm:
  "map_option json_norm (map_of (rp_content s) p) = map_option json_norm (map_of (rp_content t) p) \<Longrightarrow>
   file_content s p = file_content t p"
  unfolding file_content_def
  by (cases "map_of (rp_content s) p"; cases "map_of (rp_content t) p") simp_all

lemma snapshot_same_files:
  assumes "json_norm (snapshot_envelope s) = json_norm (snapshot_envelope t)"
    and "distinct (map fst (rp_content s))" "distinct (map fst (rp_content t))"
  shows "file_content s p = file_content t p"
proof (rule file_content_norm)
  from assms(1) have "map (\<lambda>kv. (fst kv, json_norm (snd kv))) (dict_items (rp_content s)) =
      map (\<lambda>kv. (fst kv, json_norm (snd kv))) (dict_items (rp_content t))"
    by (simp add: snapshot_envelope_def pack_envelope_norm)
  then have "map_option json_norm (map_of (dict_items (rp_content s)) p) =
      map_option json_norm (map_of (dict_items (rp_content t)) p)"
    by (metis map_of_map_norm)
  then show "map_option json_norm (map_of (rp_content s) p) = map_option json_norm (map_of (rp_content t) p)"
    using assms(2,3) by (simp add: map_of_dict_items dict_of_distinct)
qed

lemma snapshot_same_identity:
  assumes "json_norm (snapshot_envelope s) = json_norm (snapshot_envelope t)"
  shows "rp_version s = rp_version t" "rp_ontology_version s = rp_ontology_version t"
    "rp_mode s = rp_mode t" "rp_effective_date s = rp_effective_date t"
    "rp_source_document_sha256 s = rp_source_document_sha256 t"
proof -
  have eq: "json_norm (JObj (manifest_fields (snapshot_manifest s) (rp_files s) (rp_unresolved_gap_ids s))) =
      json_norm (JObj (manifest_fields (snapshot_manifest t) (rp_files t) (rp_unresolved_gap_ids t)))"
    using assms by (simp add: snapshot_envelope_def pack_envelope_norm del: json_norm.simps)
  note f = map_of_manifest_norm [OF eq]
  show "rp_version s = rp_version t" using f [of "py ''version''"]
    by (simp add: MANIFEST_HASH_FIELDS_def snapshot_manifest_def)
  show "rp_ontology_version s = rp_ontology_version t" using f [of "py ''ontology_version''"]
    by (simp add: MANIFEST_HASH_FIELDS_def snapshot_manifest_def)
  show "rp_mode s = rp_mode t" using f [of "py ''mode''"]
    by (simp add: MANIFEST_HASH_FIELDS_def snapshot_manifest_def)
  show "rp_effective_date s = rp_effective_date t" using f [of "py ''effective_date''"]
    by (simp add: MANIFEST_HASH_FIELDS_def snapshot_manifest_def)
  show "rp_source_document_sha256 s = rp_source_document_sha256 t" using f [of "py ''source_document_sha256''"]
    by (simp add: MANIFEST_HASH_FIELDS_def snapshot_manifest_def)
qed

end
