(* ===== verification/Facts.thy ===== *)
theory Facts
  imports Rulepacks
begin

text \<open>
  The inputs and outputs of the rules engine: the confirmed facts and tags, the rule context and
  the decision of \<^verbatim>\<open>domain/rules/engine.py\<close>, the primitive-to-rubric mappings of
  \<^verbatim>\<open>domain/rules/goal.py\<close>, \<^verbatim>\<open>performance.py\<close>, \<^verbatim>\<open>management.py\<close> and \<^verbatim>\<open>qt1_baseline.py\<close>, and the part of the
  rule files the engine reads (\<^verbatim>\<open>rubric/elements.yaml\<close>, \<^verbatim>\<open>rubric/<track>.yaml\<close>,
  \<^verbatim>\<open>rubric/exceptions.yaml\<close>) decoded from the pack's JSON.

  \<open>mk_confirmed_fact\<close>, \<open>mk_confirmed_tags\<close> and \<open>mk_rule_context\<close> are the \<^verbatim>\<open>__post_init__\<close> methods; the
  \<^verbatim>\<open>isinstance\<close> guards of fields whose HOL type already says it have no counterpart.
  A missing key of a rule file is \<^verbatim>\<open>KeyError\<close>, a value of the wrong shape \<^verbatim>\<open>TypeError\<close>.
\<close>

section \<open>Confirmed facts, tags and context\<close>

record confirmed_fact =
  cf_name :: pystr
  cf_state :: element_state
  cf_evidence_refs :: "source_ref list"
  cf_source_tenant_id :: "pystr option"
  cf_citation_verified :: bool
  cf_binding_accepted :: bool
  cf_search_coverage_verified :: bool
  cf_source_scope :: pystr
  cf_normalized_value :: "pystr option"

text \<open>\<^verbatim>\<open>ConfirmedFact(name, state)\<close> with the dataclass defaults.\<close>

definition plain_fact :: "pystr \<Rightarrow> element_state \<Rightarrow> confirmed_fact" where
  "plain_fact n s = \<lparr>cf_name = n, cf_state = s, cf_evidence_refs = [], cf_source_tenant_id = None,
     cf_citation_verified = False, cf_binding_accepted = False, cf_search_coverage_verified = False,
     cf_source_scope = py ''local_claim'', cf_normalized_value = None\<rparr>"

definition mk_confirmed_fact :: "confirmed_fact \<Rightarrow> confirmed_fact result" where
  "mk_confirmed_fact f =
     (if cf_name f = [] then Inl (DomainValidationError ''invalid confirmed fact'')
      else if cf_state f = Present \<and> \<not> (cf_evidence_refs f \<noteq> [] \<and> cf_citation_verified f
          \<and> cf_binding_accepted f \<and> opt_truthy (cf_source_tenant_id f))
      then Inl (DomainValidationError ''present requires verified citation and accepted binding'')
      else if cf_state f = Absent \<and> \<not> cf_search_coverage_verified f
      then Inl (DomainValidationError ''absent requires verified search coverage'')
      else Inr f)"

record confirmed_tags =
  ct_tenant_id :: pystr
  ct_document_version_id :: pystr
  ct_claim_id :: pystr
  ct_track :: track
  ct_facts :: "confirmed_fact list"
  ct_tag_revision :: int
  ct_packet_sha256 :: pystr
  ct_model_sha256 :: pystr
  ct_prompt_sha256 :: pystr
  ct_replicate_hashes :: "pystr list"
  ct_ontology_version :: pystr
  ct_safe_harbor_category :: "pystr option"
  ct_superlative_quote :: "pystr option"
  ct_product_variant :: bool

definition mk_confirmed_tags :: "confirmed_tags \<Rightarrow> confirmed_tags result" where
  "mk_confirmed_tags t =
     (if \<not> (canonical_uuid (ct_tenant_id t) \<and> canonical_uuid (ct_document_version_id t)
          \<and> canonical_uuid (ct_claim_id t))
      then Inl (DomainValidationError ''must be a canonical UUID string'')
      else if \<not> (is_sha256 (ct_packet_sha256 t) \<and> is_sha256 (ct_model_sha256 t) \<and> is_sha256 (ct_prompt_sha256 t))
      then Inl (DomainValidationError ''must be a 64-char lowercase hex sha256'')
      else if (case ct_safe_harbor_category t of None \<Rightarrow> False | Some c \<Rightarrow> c \<notin> set SAFE_HARBOR_CATEGORIES)
      then Inl (DomainValidationError ''invalid safe harbor category'')
      else if ct_tag_revision t < 1 then Inl (DomainValidationError ''tag_revision must be positive'')
      else if py_duplicates (map cf_name (ct_facts t)) then Inl (DomainValidationError ''duplicate fact names'')
      else if length (ct_replicate_hashes t) \<noteq> 3
      then Inl (DomainValidationError ''retain hashes for replicate 1, 2, 3 in order'')
      else if \<not> list_all is_sha256 (ct_replicate_hashes t)
      then Inl (DomainValidationError ''replicate hash must be a 64-char lowercase hex sha256'')
      else Inr (t\<lparr>ct_facts := sort_key cf_name (ct_facts t)\<rparr>))"

record rule_context =
  rc_tenant_id :: pystr
  rc_document_version_id :: pystr
  rc_claim_id :: pystr
  rc_packet_sha256 :: pystr
  rc_decision_revision :: int
  rc_mode :: pystr
  rc_local_synthetic :: bool
  rc_company_id :: "pystr option"
  rc_reporting_period :: "pystr option"
  rc_industry :: "pystr option"
  rc_regulatory_axis :: pystr

definition mk_rule_context :: "rule_context \<Rightarrow> rule_context result" where
  "mk_rule_context c =
     (if \<not> (canonical_uuid (rc_tenant_id c) \<and> canonical_uuid (rc_document_version_id c)
          \<and> canonical_uuid (rc_claim_id c))
      then Inl (DomainValidationError ''must be a canonical UUID string'')
      else if \<not> is_sha256 (rc_packet_sha256 c)
      then Inl (DomainValidationError ''packet_sha256 must be a 64-char lowercase hex sha256'')
      else if rc_decision_revision c < 1 then Inl (DomainValidationError ''decision_revision must be positive'')
      else Inr c)"

definition tag_facts :: "confirmed_tags \<Rightarrow> pystr \<Rightarrow> confirmed_fact option" where
  "tag_facts t = dict_of (map (\<lambda>f. (cf_name f, f)) (ct_facts t))"

definition fact_state :: "confirmed_tags \<Rightarrow> pystr \<Rightarrow> element_state" where
  "fact_state t n = (case tag_facts t n of None \<Rightarrow> Unknown | Some f \<Rightarrow> cf_state f)"

definition scoped :: "bool \<Rightarrow> element_state \<Rightarrow> element_state" where
  "scoped analysis_scope v = (if analysis_scope \<and> v = Absent_in_scope then Absent else v)"

section \<open>Decisions\<close>

datatype decision_status = Decided | Blocked_evidence | Blocked_rule_gap

definition decision_status_text :: "decision_status \<Rightarrow> pystr" where
  "decision_status_text s = (case s of Decided \<Rightarrow> py ''decided'' | Blocked_evidence \<Rightarrow> py ''blocked_evidence''
     | Blocked_rule_gap \<Rightarrow> py ''blocked_rule_gap'')"

record decision =
  d_decision_revision :: int
  d_tag_revision :: int
  d_decision_status :: decision_status
  d_evidence_grade :: "pystr option"
  d_label :: "pystr option"
  d_sublabel :: "pystr option"
  d_review_status :: pystr
  d_missing_elements :: "pystr list"
  d_rule_ids :: "pystr list"
  d_rule_pack_sha256 :: pystr
  d_semantic_hash :: pystr
  d_gap_ids :: "pystr list"
  d_unresolved_elements :: "pystr list"
  d_excluded_elements :: "pystr list"
  d_ladder_candidate :: "pystr option"
  d_basis_refs :: "pystr list"
  d_input_tags_sha256 :: pystr
  d_local_synthetic :: bool
  d_grade_floor :: "pystr option"
  d_grade_ceiling :: "pystr option"
  d_grade_open_elements :: "pystr list"

definition str_list :: "pystr list \<Rightarrow> json" where
  "str_list xs = JList (map JStr xs)"

definition decision_to_api_dict :: "decision \<Rightarrow> json" where
  "decision_to_api_dict d = JObj
     [(py ''decision_revision'', JInt (d_decision_revision d)),
      (py ''tag_revision'', JInt (d_tag_revision d)),
      (py ''decision_status'', JStr (decision_status_text (d_decision_status d))),
      (py ''evidence_grade'', opt_str (d_evidence_grade d)),
      (py ''label'', opt_str (d_label d)),
      (py ''sublabel'', opt_str (d_sublabel d)),
      (py ''review_status'', JStr (d_review_status d)),
      (py ''missing_elements'', str_list (d_missing_elements d)),
      (py ''rule_ids'', str_list (d_rule_ids d)),
      (py ''rule_pack_sha256'', JStr (d_rule_pack_sha256 d)),
      (py ''semantic_hash'', JStr (d_semantic_hash d)),
      (py ''gap_ids'', str_list (d_gap_ids d)),
      (py ''grade_range'', (case d_grade_floor d of None \<Rightarrow> JNull | Some f \<Rightarrow> JObj
         [(py ''floor'', JStr f), (py ''ceiling'', opt_str (d_grade_ceiling d)),
          (py ''open_elements'', str_list (d_grade_open_elements d))]))]"

section \<open>Dictionaries that are hashed\<close>

definition fact_asdict :: "confirmed_fact \<Rightarrow> json" where
  "fact_asdict f = JObj
     [(py ''name'', JStr (cf_name f)), (py ''state'', JStr (element_state_text (cf_state f))),
      (py ''evidence_refs'', JList (map source_ref_asdict (cf_evidence_refs f))),
      (py ''source_tenant_id'', opt_str (cf_source_tenant_id f)),
      (py ''citation_verified'', JBool (cf_citation_verified f)),
      (py ''binding_accepted'', JBool (cf_binding_accepted f)),
      (py ''search_coverage_verified'', JBool (cf_search_coverage_verified f)),
      (py ''source_scope'', JStr (cf_source_scope f)),
      (py ''normalized_value'', opt_str (cf_normalized_value f))]"

definition tags_asdict :: "confirmed_tags \<Rightarrow> json" where
  "tags_asdict t = JObj
     [(py ''tenant_id'', JStr (ct_tenant_id t)),
      (py ''document_version_id'', JStr (ct_document_version_id t)),
      (py ''claim_id'', JStr (ct_claim_id t)), (py ''track'', JStr (track_text (ct_track t))),
      (py ''facts'', JList (map fact_asdict (ct_facts t))), (py ''tag_revision'', JInt (ct_tag_revision t)),
      (py ''packet_sha256'', JStr (ct_packet_sha256 t)), (py ''model_sha256'', JStr (ct_model_sha256 t)),
      (py ''prompt_sha256'', JStr (ct_prompt_sha256 t)),
      (py ''replicate_hashes'', str_list (ct_replicate_hashes t)),
      (py ''ontology_version'', JStr (ct_ontology_version t)),
      (py ''safe_harbor_category'', opt_str (ct_safe_harbor_category t)),
      (py ''superlative_quote'', opt_str (ct_superlative_quote t)),
      (py ''product_variant'', JBool (ct_product_variant t))]"

definition context_asdict :: "rule_context \<Rightarrow> json" where
  "context_asdict c = JObj
     [(py ''tenant_id'', JStr (rc_tenant_id c)),
      (py ''document_version_id'', JStr (rc_document_version_id c)),
      (py ''claim_id'', JStr (rc_claim_id c)), (py ''packet_sha256'', JStr (rc_packet_sha256 c)),
      (py ''decision_revision'', JInt (rc_decision_revision c)), (py ''mode'', JStr (rc_mode c)),
      (py ''local_synthetic'', JBool (rc_local_synthetic c)), (py ''company_id'', opt_str (rc_company_id c)),
      (py ''reporting_period'', opt_str (rc_reporting_period c)), (py ''industry'', opt_str (rc_industry c)),
      (py ''regulatory_axis'', JStr (rc_regulatory_axis c))]"

definition decision_asdict :: "decision \<Rightarrow> json" where
  "decision_asdict d = JObj
     [(py ''decision_revision'', JInt (d_decision_revision d)), (py ''tag_revision'', JInt (d_tag_revision d)),
      (py ''decision_status'', JStr (decision_status_text (d_decision_status d))),
      (py ''evidence_grade'', opt_str (d_evidence_grade d)), (py ''label'', opt_str (d_label d)),
      (py ''sublabel'', opt_str (d_sublabel d)), (py ''review_status'', JStr (d_review_status d)),
      (py ''missing_elements'', str_list (d_missing_elements d)), (py ''rule_ids'', str_list (d_rule_ids d)),
      (py ''rule_pack_sha256'', JStr (d_rule_pack_sha256 d)), (py ''semantic_hash'', JStr (d_semantic_hash d)),
      (py ''gap_ids'', str_list (d_gap_ids d)),
      (py ''unresolved_elements'', str_list (d_unresolved_elements d)),
      (py ''excluded_elements'', str_list (d_excluded_elements d)),
      (py ''ladder_candidate'', opt_str (d_ladder_candidate d)), (py ''basis_refs'', str_list (d_basis_refs d)),
      (py ''input_tags_sha256'', JStr (d_input_tags_sha256 d)), (py ''local_synthetic'', JBool (d_local_synthetic d)),
      (py ''grade_floor'', opt_str (d_grade_floor d)), (py ''grade_ceiling'', opt_str (d_grade_ceiling d)),
      (py ''grade_open_elements'', str_list (d_grade_open_elements d))]"

section \<open>Mappings\<close>

definition goal_ELEMENTS :: "(pystr \<times> pystr list) list" where
  "goal_ELEMENTS =
     [(py ''G1'', [py ''target_year'']), (py ''G2'', [py ''target_metric'']),
      (py ''G3'', [py ''baseline_year'', py ''baseline_value'']),
      (py ''G4'', [py ''scope'', py ''org_boundary'']), (py ''G5'', [py ''current_progress'']),
      (py ''G6'', [py ''transition_plan'']), (py ''G7'', [py ''offset_plan'']),
      (py ''G8'', [py ''science_based_verification''])]"

definition management_ELEMENTS :: "(pystr \<times> pystr list) list" where
  "management_ELEMENTS =
     [(py ''M1'', [py ''named_means_or_concrete_state'']), (py ''M2'', [py ''org_boundary'']),
      (py ''M3'', [py ''external_verification'']), (py ''M4'', [py ''concrete_implementation_detail'']),
      (py ''M5'', [py ''responsible_organization'']), (py ''M6'', [py ''compensation_link''])]"

definition performance_ELEMENTS :: "(pystr \<times> pystr list) list" where
  "performance_ELEMENTS =
     [(py ''P1'', [py ''quantitative_or_qualified_ordinal'', py ''unit_or_qualified_ordinal'']),
      (py ''P2'', [py ''comparison_baseline'']), (py ''P3'', [py ''method'', py ''calculation_boundary'']),
      (py ''P4'', [py ''assurance_covered'']), (py ''P5'', [py ''absolute_intensity'']),
      (py ''P6'', [py ''numerical_check''])]"

definition MAPPINGS :: "track \<Rightarrow> (pystr \<times> pystr list) list" where
  "MAPPINGS t = (case t of Goal \<Rightarrow> goal_ELEMENTS | Performance \<Rightarrow> performance_ELEMENTS
     | Management \<Rightarrow> management_ELEMENTS)"

definition P1_names :: "pystr list" where
  "P1_names = [py ''quantitative_or_qualified_ordinal'', py ''unit_or_qualified_ordinal'']"

definition approved_fact :: "track \<Rightarrow> confirmed_fact \<Rightarrow> bool" where
  "approved_fact t f \<longleftrightarrow> t = Goal
     \<and> cf_name f \<in> {py ''target_metric'', py ''baseline_year'', py ''baseline_value''}
     \<and> cf_source_scope f = py ''qt1_maintenance_baseline_v1''"

section \<open>Rule files\<close>

record element_def =
  ed_id :: pystr
  ed_trigger :: "pystr option"
  ed_source_scopes :: "pystr list"
  ed_basis :: "(pystr \<times> json) list"

record branch =
  br_id :: pystr
  br_when :: "(pystr \<times> bool) list option"
  br_require_all :: "pystr list"
  br_grade :: pystr
  br_cap :: bool

definition as_str :: "json \<Rightarrow> pystr result" where
  "as_str j = (case j of JStr s \<Rightarrow> Inr s | _ \<Rightarrow> Inl (TypeError ''str expected''))"

definition as_list :: "json \<Rightarrow> json list result" where
  "as_list j = (case j of JList xs \<Rightarrow> Inr xs | _ \<Rightarrow> Inl (TypeError ''list expected''))"

definition as_dict :: "json \<Rightarrow> (pystr \<times> json) list result" where
  "as_dict j = (case j of JObj d \<Rightarrow> Inr d | _ \<Rightarrow> Inl (TypeError ''dict expected''))"

definition as_bool :: "json \<Rightarrow> bool result" where
  "as_bool j = (case j of JBool b \<Rightarrow> Inr b | _ \<Rightarrow> Inl (TypeError ''bool expected''))"

definition as_str_list :: "json \<Rightarrow> pystr list result" where
  "as_str_list j = bindE (as_list j) (mapE as_str)"

text \<open>\<^verbatim>\<open>d.get(key)\<close> where an absent key and null are the same to the caller.\<close>

definition jopt :: "(pystr \<times> json) list \<Rightarrow> string \<Rightarrow> (json \<Rightarrow> 'a result) \<Rightarrow> 'a option result" where
  "jopt d k f = (case map_of d (py k) of None \<Rightarrow> Inr None | Some JNull \<Rightarrow> Inr None
     | Some v \<Rightarrow> bindE (f v) (\<lambda>x. Inr (Some x)))"

text \<open>\<^verbatim>\<open>d.get(key, default)\<close>: the default only for an absent key.\<close>

definition jdefault :: "(pystr \<times> json) list \<Rightarrow> string \<Rightarrow> (json \<Rightarrow> 'a result) \<Rightarrow> 'a option result" where
  "jdefault d k f = (case map_of d (py k) of None \<Rightarrow> Inr None
     | Some v \<Rightarrow> bindE (f v) (\<lambda>x. Inr (Some x)))"

definition py_truthy :: "json \<Rightarrow> bool" where
  "py_truthy j = (case j of JNull \<Rightarrow> False | JBool b \<Rightarrow> b | JInt i \<Rightarrow> i \<noteq> 0
     | JFloat (PyFinite q) \<Rightarrow> q \<noteq> 0 | JFloat _ \<Rightarrow> True | JStr s \<Rightarrow> s \<noteq> [] | JList xs \<Rightarrow> xs \<noteq> []
     | JObj d \<Rightarrow> d \<noteq> [])"

definition element_def_of :: "json \<Rightarrow> element_def result" where
  "element_def_of j = bindE (as_dict j) (\<lambda>d.
     bindE (bindE (jitem d ''id'') as_str) (\<lambda>i.
     bindE (jopt d ''trigger'' as_str) (\<lambda>tr.
     bindE (bindE (jitem d ''source_scopes'') as_str_list) (\<lambda>sc.
     bindE (bindE (jitem d ''basis'') as_dict) (\<lambda>b.
     Inr \<lparr>ed_id = i, ed_trigger = tr, ed_source_scopes = sc, ed_basis = b\<rparr>)))))"

definition branch_of :: "json \<Rightarrow> branch result" where
  "branch_of j = bindE (as_dict j) (\<lambda>d.
     bindE (bindE (jitem d ''id'') as_str) (\<lambda>i.
     bindE (jdefault d ''when'' (\<lambda>w. bindE (as_dict w)
       (mapE (\<lambda>kv. bindE (as_bool (snd kv)) (\<lambda>b. Inr (fst kv, b)))))) (\<lambda>w.
     bindE (jdefault d ''require_all'' as_str_list) (\<lambda>ra.
     bindE (bindE (jitem d ''grade'') as_str) (\<lambda>g.
     Inr \<lparr>br_id = i, br_when = w, br_require_all = (case ra of None \<Rightarrow> [] | Some xs \<Rightarrow> xs), br_grade = g,
       br_cap = (case map_of d (py ''cap'') of None \<Rightarrow> False | Some c \<Rightarrow> py_truthy c)\<rparr>)))))"

definition pack_elements :: "rule_pack \<Rightarrow> element_def list result" where
  "pack_elements p = bindE (file_content p (py ''rubric/elements.yaml'')) (\<lambda>d.
     bindE (bindE (jitem d ''elements'') as_list) (mapE element_def_of))"

definition rubric_path :: "track \<Rightarrow> pystr" where
  "rubric_path t = py ''rubric/'' @ track_text t @ py ''.yaml''"

definition rubric_branches :: "(pystr \<times> json) list \<Rightarrow> branch list result" where
  "rubric_branches rubric = bindE (bindE (jitem rubric ''branches'') as_list) (mapE branch_of)"

definition element_lookup :: "element_def list \<Rightarrow> pystr \<Rightarrow> element_def option" where
  "element_lookup defs e = dict_of (map (\<lambda>d. (ed_id d, d)) defs) e"

end
