(* ===== verification/Rules_Engine.thy ===== *)
theory Rules_Engine
  imports Facts
begin

text \<open>
  Model of \<^verbatim>\<open>domain/rules/engine.py\<close> and \<^verbatim>\<open>domain/rules/exceptions.py\<close>: the pinned-pack evaluator.

  \<open>validate_inputs\<close> is the shared trust boundary, \<open>apply_source_exceptions\<close> the override, cap and
  gap rules, \<open>select\<close> one reading of a ladder, and \<open>evaluate_scoped\<close> (the source's \<^verbatim>\<open>_evaluate\<close>) composes
  them: it classifies the elements, enumerates every completion of the unresolved ladder facts
  (\<open>ladder_outcomes\<close>), and derives status, gaps, grade and range. \<open>evaluate\<close> is the public entry
  point, \<open>display_grade_range\<close> the display-only envelope.

  The dictionary a ladder is read against is a total assignment that is False off its keys: the
  source's dictionary has every name of the branches as a key, and \<^verbatim>\<open>get(name, False)\<close> elsewhere.
  A Python set of outcomes is the list without duplicates.
\<close>

section \<open>Exceptions\<close>

record exception_effect =
  ee_override_grade :: "pystr option"
  ee_cap_grade :: "pystr option"
  ee_gap_ids :: "pystr list"
  ee_unresolved_elements :: "pystr list"
  ee_rule_ids :: "pystr list"
  ee_ordinal_state :: "element_state option"

definition no_effect :: exception_effect where
  "no_effect = \<lparr>ee_override_grade = None, ee_cap_grade = None, ee_gap_ids = [],
     ee_unresolved_elements = [], ee_rule_ids = [], ee_ordinal_state = None\<rparr>"

section \<open>Trust boundary\<close>

definition ref_admissible :: "confirmed_tags \<Rightarrow> source_ref \<Rightarrow> bool" where
  "ref_admissible tags r \<longleftrightarrow> sr_document_version_id r = ct_document_version_id tags
     \<and> sr_verification_state r = Verified \<and> sr_location_quality r = Located
     \<and> py_strip (sr_quote r) \<noteq> [] \<and> sr_char_start r < sr_char_end r"

definition fact_scopes :: "(pystr \<times> pystr list) list \<Rightarrow> pystr \<Rightarrow> pystr list" where
  "fact_scopes allowed n =
     (if n = py ''external_verification'' then [py ''local_claim'', py ''global_bound'']
      else case dict_of allowed n of None \<Rightarrow> [py ''local_claim'', py ''same_table''] | Some s \<Rightarrow> s)"

definition validate_fact :: "confirmed_tags \<Rightarrow> (pystr \<times> pystr list) list \<Rightarrow> confirmed_fact \<Rightarrow> unit result" where
  "validate_fact tags allowed f =
     (if cf_state f \<noteq> Present then Inr ()
      else if cf_source_tenant_id f \<noteq> Some (ct_tenant_id tags)
      then Inl (DomainValidationError ''source identity mismatch'')
      else if \<not> list_all (ref_admissible tags) (cf_evidence_refs f)
      then Inl (DomainValidationError ''source is not verified, located same-document evidence'')
      else if (cf_source_scope f \<notin> set (fact_scopes allowed (cf_name f)) \<or> cf_source_scope f = py ''explicit_link'')
          \<and> \<not> approved_fact (ct_track tags) f
      then Inl (DomainValidationError ''source scope is not approved for this fact'')
      else if cf_name f = py ''assurance_covered'' \<and> cf_normalized_value f \<noteq> Some (py ''covered'')
      then Inl (DomainValidationError ''assurance requires covered status, not a provider name'')
      else Inr ())"

definition allowed_scopes :: "element_def list \<Rightarrow> track \<Rightarrow> (pystr \<times> pystr list) list result" where
  "allowed_scopes defs t = bindE (mapE (\<lambda>(e, names). case element_lookup defs e of
       None \<Rightarrow> Inl (KeyError ''element definition'')
     | Some d \<Rightarrow> Inr (map (\<lambda>n. (n, ed_source_scopes d)) names)) (MAPPINGS t)) (\<lambda>xs. Inr (concat xs))"

definition validate_inputs :: "confirmed_tags \<Rightarrow> rule_context \<Rightarrow> rule_pack \<Rightarrow> unit result" where
  "validate_inputs tags context pack =
     (if ct_tenant_id tags \<noteq> rc_tenant_id context
        \<or> ct_document_version_id tags \<noteq> rc_document_version_id context
        \<or> ct_claim_id tags \<noteq> rc_claim_id context \<or> ct_packet_sha256 tags \<noteq> rc_packet_sha256 context
      then Inl (DomainValidationError ''input identity mismatch'')
      else if rp_tenant_id pack \<noteq> rc_tenant_id context \<or> ct_ontology_version tags \<noteq> rp_ontology_version pack
      then Inl (DomainValidationError ''rulepack identity mismatch'')
      else if rc_mode context \<noteq> py ''disclosure'' \<or> rp_mode pack \<noteq> rc_mode context
      then Inl (DomainValidationError ''dedicated advertising evaluator required'')
      else if rc_regulatory_axis context \<noteq> py ''advisory_unverified''
      then Inl (DomainValidationError ''legal applicability approval not implemented'')
      else if rp_status pack \<notin> {py ''draft'', py ''validated'', py ''active''}
      then Inl (DomainValidationError ''pack is not available for evaluation'')
      else if \<not> rc_local_synthetic context
          \<and> \<not> (rp_status pack = py ''active'' \<and> opt_truthy (rp_approved_by pack) \<and> opt_truthy (rp_approved_at pack))
      then Inl (DomainValidationError ''draft pack requires explicit local synthetic use'')
      else bindE (pack_elements pack) (\<lambda>defs.
           bindE (allowed_scopes defs (ct_track tags)) (\<lambda>allowed.
           forE (validate_fact tags allowed) (ct_facts tags))))"

section \<open>Source exceptions\<close>

definition has_superlative :: "confirmed_tags \<Rightarrow> bool \<Rightarrow> bool" where
  "has_superlative tags scope \<longleftrightarrow> opt_truthy (ct_superlative_quote tags)
     \<or> tag_facts tags (py ''has_superlative'') \<noteq> None
       \<and> scoped scope (fact_state tags (py ''has_superlative'')) \<noteq> Absent"

definition superlative_grounded :: "confirmed_tags \<Rightarrow> bool" where
  "superlative_grounded tags = (case (tag_facts tags (py ''has_superlative''), ct_superlative_quote tags) of
       (Some f, Some q) \<Rightarrow> cf_state f = Present \<and> py_strip q \<noteq> []
         \<and> list_ex (\<lambda>r. py_contains q (sr_quote r)) (cf_evidence_refs f)
     | _ \<Rightarrow> False)"

definition superlative_operands :: "pystr list" where
  "superlative_operands = [py ''comparison_basis'', py ''external_verification'']"

definition ordinal_names :: "pystr list" where
  "ordinal_names = [py ''categorical_ordinal'', py ''certification_provider'']"

definition ordinal_of :: "element_state list \<Rightarrow> element_state" where
  "ordinal_of states = (if list_all (\<lambda>s. s = Present) states then Present
     else if Absent \<in> set states then Absent
     else if Conflict \<in> set states then Conflict else Unknown)"

text \<open>
  The categorical-ordinal step: \<open>None\<close> where it does not apply, the derived state otherwise.
\<close>

definition ordinal_step :: "confirmed_tags \<Rightarrow> (pystr \<Rightarrow> element_state) \<Rightarrow> element_state option result" where
  "ordinal_step tags state =
     (if ct_track tags = Performance \<and> tag_facts tags (py ''categorical_ordinal'') \<noteq> None
      then if list_ex (\<lambda>n. state n = Present \<and> (case tag_facts tags n of None \<Rightarrow> True
                | Some f \<Rightarrow> (case cf_normalized_value f of None \<Rightarrow> True | Some v \<Rightarrow> py_strip v = []))) ordinal_names
           then Inl (DomainValidationError ''categorical ordinal requires a grade and named provider'')
           else Inr (Some (ordinal_of (map state ordinal_names)))
      else Inr None)"

text \<open>The product-variant step: cap, gaps, unresolved operand and rule ids.\<close>

definition product_step ::
  "confirmed_tags \<Rightarrow> (pystr \<Rightarrow> element_state) \<Rightarrow> rule_pack
    \<Rightarrow> (pystr option \<times> pystr list \<times> pystr list \<times> pystr list) result" where
  "product_step tags state pack =
     (if \<not> ct_product_variant tags then Inr (None, [], [], [])
      else if ct_track tags \<noteq> Management then Inr (None, [py ''GAP-007''], [], [])
      else bindE (file_content pack (py ''rubric/management.yaml'')) (\<lambda>rubric.
           bindE (bindE (jitem rubric ''product_variant'') as_dict) (\<lambda>product.
           bindE (bindE (jitem product ''e2_plus_requires'') as_str) (\<lambda>direct.
           if state direct = Absent
           then bindE (bindE (jitem product ''specific_names_only_cap'') as_str)
                  (\<lambda>cap. Inr (Some cap, [], [], [py ''PRODUCT_NAMES_CAP'']))
           else if state direct = Present
           then bindE (bindE (jitem product ''generic_boundary_interaction'') as_str)
                  (\<lambda>gap. Inr (None, [gap], [], []))
           else Inr (None, [], [direct], [])))))"

text \<open>The ordinal and product steps together, after the superlative rule left \<open>unresolved\<close>.\<close>

definition remaining_exceptions ::
  "confirmed_tags \<Rightarrow> (pystr \<Rightarrow> element_state) \<Rightarrow> rule_pack \<Rightarrow> pystr list \<Rightarrow> exception_effect result" where
  "remaining_exceptions tags state pack unresolved =
     bindE (ordinal_step tags state) (\<lambda>ordinal.
     bindE (product_step tags state pack) (\<lambda>(cap, gaps, more, rules).
     Inr \<lparr>ee_override_grade = None, ee_cap_grade = cap, ee_gap_ids = gaps,
       ee_unresolved_elements = unresolved @ more,
       ee_rule_ids = (if ordinal = None then [] else [py ''CATEGORICAL_ORDINAL'']) @ rules,
       ee_ordinal_state = ordinal\<rparr>))"

definition apply_source_exceptions ::
  "confirmed_tags \<Rightarrow> rule_context \<Rightarrow> rule_pack \<Rightarrow> bool \<Rightarrow> exception_effect result" where
  "apply_source_exceptions tags context pack analysis_scope =
     bindE (validate_inputs tags context pack) (\<lambda>_.
     bindE (file_content pack (py ''rubric/exceptions.yaml'')) (\<lambda>exc.
     bindE (bindE (jitem exc ''superlative'') as_dict) (\<lambda>special.
     let state = (\<lambda>n. scoped analysis_scope (fact_state tags n));
         sup = has_superlative tags analysis_scope
     in if opt_truthy (ct_safe_harbor_category tags)
        then if sup
             then bindE (bindE (jitem special ''with_safe_harbor'') as_str)
                    (\<lambda>g. Inr (no_effect\<lparr>ee_gap_ids := [py ''GAP-001'', g]\<rparr>))
             else Inr (no_effect\<lparr>ee_gap_ids := [py ''GAP-001'']\<rparr>)
        else bindE (if sup then jitem special ''enabled'' else Inr JNull) (\<lambda>enabled.
             let active = sup \<and> py_truthy enabled;
                 grounded = superlative_grounded tags
             in if active \<and> grounded \<and> list_all (\<lambda>n. state n = Absent) superlative_operands
                then Inr (no_effect\<lparr>ee_override_grade := Some (py ''E0''), ee_rule_ids := [py ''SUPERLATIVE_E0'']\<rparr>)
                else let unresolved =
                       (if \<not> active then []
                        else if \<not> grounded then [py ''has_superlative'']
                        else if list_ex (\<lambda>n. state n = Present) superlative_operands then []
                        else filter (\<lambda>n. state n \<noteq> Absent) superlative_operands)
                     in remaining_exceptions tags state pack unresolved))))"

section \<open>Reading a ladder\<close>

definition branch_conditions :: "branch \<Rightarrow> (pystr \<times> bool) list" where
  "branch_conditions b = (case br_when b of Some w \<Rightarrow> w | None \<Rightarrow> map (\<lambda>n. (n, True)) (br_require_all b))"

definition with_exception :: "(pystr \<Rightarrow> bool) \<Rightarrow> pystr \<Rightarrow> bool" where
  "with_exception facts = facts(py ''exception_applies'' :=
     facts (py ''target_metric'') \<and> facts (py ''transition_plan''))"

definition branch_matches :: "(pystr \<Rightarrow> bool) \<Rightarrow> branch \<Rightarrow> bool" where
  "branch_matches facts b = list_all (\<lambda>(n, v). facts n = v) (branch_conditions b)"

fun select_loop :: "(pystr \<Rightarrow> bool) \<Rightarrow> branch list \<Rightarrow> (pystr \<times> pystr) list \<Rightarrow> pystr option \<times> pystr" where
  "select_loop facts [] matches =
     (if matches = [] then (None, []) else (Some (fst (Max (set matches))), snd (Max (set matches))))"
| "select_loop facts (b # bs) matches =
     (if branch_matches facts b
      then if br_cap b then (Some (br_grade b), br_id b)
           else select_loop facts bs (matches @ [(br_grade b, br_id b)])
      else select_loop facts bs matches)"

definition select :: "branch list \<Rightarrow> (pystr \<Rightarrow> bool) \<Rightarrow> pystr option \<times> pystr" where
  "select branches facts = select_loop (with_exception facts) branches []"

definition ladder_names :: "branch list \<Rightarrow> track \<Rightarrow> pystr list" where
  "ladder_names branches t = py_sorted_set
     (filter (\<lambda>n. n \<noteq> py ''exception_applies'')
        (concat (map (\<lambda>b. (case br_when b of None \<Rightarrow> [] | Some w \<Rightarrow> map fst w) @ br_require_all b) branches))
      @ (if t = Goal then [py ''target_metric'', py ''transition_plan''] else []))"

definition resolved :: "element_state \<Rightarrow> bool" where
  "resolved s \<longleftrightarrow> s = Present \<or> s = Absent"

definition ladder_known :: "pystr list \<Rightarrow> (pystr \<Rightarrow> element_state) \<Rightarrow> (pystr \<times> bool) list" where
  "ladder_known names state = map (\<lambda>n. (n, state n = Present)) (filter (\<lambda>n. resolved (state n)) names)"

definition ladder_unknown :: "pystr list \<Rightarrow> (pystr \<Rightarrow> element_state) \<Rightarrow> pystr list" where
  "ladder_unknown names state = filter (\<lambda>n. \<not> resolved (state n)) names"

definition assignment :: "(pystr \<times> bool) list \<Rightarrow> pystr \<Rightarrow> bool" where
  "assignment kvs n = (case map_of kvs n of None \<Rightarrow> False | Some b \<Rightarrow> b)"

definition ladder_outcomes ::
  "branch list \<Rightarrow> pystr list \<Rightarrow> (pystr \<Rightarrow> element_state) \<Rightarrow> (pystr option \<times> pystr) list" where
  "ladder_outcomes branches names state =
     (let unknown = ladder_unknown names state
      in remdups (map (\<lambda>values. select branches (assignment (ladder_known names state @ zip unknown values)))
           (List.n_lists (length unknown) [False, True])))"

section \<open>Evaluation\<close>

definition ENGINE_VERSION :: pystr where
  "ENGINE_VERSION = py ''explicit-ladders-exceptions-3''"

definition QT1_ENGINE_VERSION :: pystr where
  "QT1_ENGINE_VERSION = py ''qt1-maintenance-baseline-dec93-v1''"

definition ADDITIONAL_REPORT_ONLY :: pystr where
  "ADDITIONAL_REPORT_ONLY = py ''report_without_grade_effect''"

definition additional_policy :: "(pystr \<times> json) list \<Rightarrow> pystr option result" where
  "additional_policy rubric = (case map_of rubric (py ''additional_element_policy'') of
       None \<Rightarrow> Inr None
     | Some JNull \<Rightarrow> Inr None
     | Some v \<Rightarrow> if v = JStr ADDITIONAL_REPORT_ONLY then Inr (Some ADDITIONAL_REPORT_ONLY)
         else Inl (DomainValidationError ''unsupported additional element policy''))"

definition additional_ids :: "pystr list" where
  "additional_ids = [py ''G7'', py ''G8'', py ''P5'', py ''P6'', py ''M4'', py ''M5'', py ''M6'']"

definition engine_state ::
  "confirmed_tags \<Rightarrow> exception_effect \<Rightarrow> bool \<Rightarrow> pystr \<Rightarrow> element_state" where
  "engine_state tags effect analysis_scope n =
     (case ee_ordinal_state effect of
        Some s \<Rightarrow> if n \<in> set P1_names then s else scoped analysis_scope (fact_state tags n)
      | None \<Rightarrow> scoped analysis_scope (fact_state tags n))"

datatype element_class = Excluded | Unresolved | Missing | Satisfied

definition classify_element ::
  "(pystr \<Rightarrow> element_state) \<Rightarrow> pystr option \<Rightarrow> pystr list \<Rightarrow> element_class" where
  "classify_element state trigger names =
     (case trigger of
        Some t \<Rightarrow> if t \<noteq> [] \<and> state t = Absent then Excluded
                  else if t \<noteq> [] \<and> state t \<noteq> Present \<or> list_ex (\<lambda>n. \<not> resolved (state n)) names then Unresolved
                  else if list_ex (\<lambda>n. state n = Absent) names then Missing else Satisfied
      | None \<Rightarrow> if list_ex (\<lambda>n. \<not> resolved (state n)) names then Unresolved
                else if list_ex (\<lambda>n. state n = Absent) names then Missing else Satisfied)"

text \<open>The element loop: each element with its class, and the canonical text of its basis.\<close>

definition classify_elements ::
  "platform \<Rightarrow> element_def list \<Rightarrow> (pystr \<Rightarrow> element_state) \<Rightarrow> (pystr \<times> pystr list) list
    \<Rightarrow> (pystr \<times> element_class \<times> pystr) list result" where
  "classify_elements P defs state elements = mapE (\<lambda>(e, names). case element_lookup defs e of
       None \<Rightarrow> Inl (KeyError ''element definition'')
     | Some d \<Rightarrow> bindE (canonical_json P (JObj (dict_items ((py ''element_id'', JStr e) # ed_basis d))))
         (\<lambda>b. Inr (e, classify_element state (ed_trigger d) names, b))) elements"

definition elements_in :: "element_class \<Rightarrow> (pystr \<times> element_class \<times> pystr) list \<Rightarrow> pystr list" where
  "elements_in c rows = map fst (filter (\<lambda>(_, k, _). k = c) rows)"

definition dec127_branches :: "bool \<Rightarrow> track \<Rightarrow> branch list \<Rightarrow> branch list" where
  "dec127_branches dec127 t branches =
     (if dec127 \<and> t = Management
      then filter (\<lambda>b. br_id b \<noteq> py ''MGMT_WILLINGNESS'') branches
           @ [\<lparr>br_id = py ''MGMT_NO_MEANS_IN_SCOPE_E0'', br_when = Some [(py ''named_means_or_concrete_state'', False)],
               br_require_all = [], br_grade = py ''E0'', br_cap = False\<rparr>]
      else branches)"

definition the_single :: "'a option list \<Rightarrow> 'a option" where
  "the_single xs = (case xs of [x] \<Rightarrow> x | _ \<Rightarrow> None)"

definition cap_grade :: "pystr option \<Rightarrow> pystr option \<Rightarrow> pystr option" where
  "cap_grade cap g = (case cap of
       Some c \<Rightarrow> if c = [] then g else (case g of Some x \<Rightarrow> if x = [] then None else Some (min x c) | None \<Rightarrow> None)
     | None \<Rightarrow> g)"

text \<open>Status and gap ids, in the order the source updates them.\<close>

definition derive_status ::
  "pystr option list \<Rightarrow> pystr list \<Rightarrow> pystr list \<Rightarrow> pystr option \<Rightarrow> exception_effect
    \<Rightarrow> decision_status \<times> pystr list" where
  "derive_status grades unresolved additional policy effect =
     (let s0 = (if 1 < length grades then (Blocked_evidence, [])
                else if the_single grades = None then (Blocked_rule_gap, [py ''GAP-007''])
                else (Decided, []));
          s1 = (if additional \<noteq> [] \<and> policy = None
                then (if list_ex (\<lambda>e. e \<in> set unresolved) additional then Blocked_evidence else Blocked_rule_gap,
                      snd s0 @ [py ''GAP-003''])
                else s0);
          s2 = (if opt_truthy (ee_override_grade effect) then (Decided, []) else s1);
          s3 = (if ee_unresolved_elements effect \<noteq> [] then (Blocked_evidence, snd s2) else s2)
      in if ee_gap_ids effect \<noteq> [] then (Blocked_rule_gap, snd s3 @ ee_gap_ids effect) else s3)"

definition or_else :: "pystr option \<Rightarrow> pystr option \<Rightarrow> pystr option" where
  "or_else a b = (if opt_truthy a then a else b)"

definition impl_sublabel ::
  "track \<Rightarrow> pystr option \<Rightarrow> (pystr \<Rightarrow> element_state) \<Rightarrow> pystr list \<Rightarrow> pystr list \<Rightarrow> pystr list \<Rightarrow> bool" where
  "impl_sublabel t grade state missing unresolved excluded \<longleftrightarrow>
     t = Goal \<and> grade = Some (py ''E1'')
     \<and> set missing = {py ''G3'', py ''G4'', py ''G5'', py ''G6''}
     \<and> list_all (\<lambda>e. list_all (\<lambda>n. state n = Absent)
          (case map_of (MAPPINGS t) e of None \<Rightarrow> [] | Some ns \<Rightarrow> ns)) missing
     \<and> unresolved = [] \<and> set excluded = {py ''G7'', py ''G8''}"

definition grade_label :: "pystr option \<Rightarrow> pystr option result" where
  "grade_label g = (if opt_truthy g then (case map_of GRADE_LABEL_MAP (the g) of
       None \<Rightarrow> Inl (KeyError ''grade'') | Some l \<Rightarrow> Inr (Some l)) else Inr None)"

definition grade_set :: "(pystr option \<times> pystr) list \<Rightarrow> pystr option list" where
  "grade_set outcomes = remdups (map fst outcomes)"

definition capped_grades :: "exception_effect \<Rightarrow> (pystr option \<times> pystr) list \<Rightarrow> pystr option list" where
  "capped_grades effect outcomes = remdups (map (cap_grade (ee_cap_grade effect)) (grade_set outcomes))"

definition has_grade_range ::
  "decision_status \<Rightarrow> pystr option list \<Rightarrow> pystr list \<Rightarrow> pystr option \<Rightarrow> exception_effect \<Rightarrow> bool" where
  "has_grade_range status grades additional policy effect \<longleftrightarrow>
     status = Blocked_evidence \<and> 1 < length grades \<and> None \<notin> set grades
     \<and> \<not> (additional \<noteq> [] \<and> policy = None)
     \<and> ee_unresolved_elements effect = [] \<and> ee_gap_ids effect = []"

definition present_grades :: "pystr option list \<Rightarrow> pystr list" where
  "present_grades grades = List.map_filter id grades"

definition section_basis :: "pystr list \<Rightarrow> json" where
  "section_basis rule_ids = JObj [(py ''source_section'', JStr (py ''4.4'')), (py ''clause'', JNull),
     (py ''verification_status'', JStr (py ''unverified'')), (py ''rule_ids'', str_list rule_ids)]"

text \<open>The decision before its semantic hash.\<close>

definition assemble_decision ::
  "platform \<Rightarrow> confirmed_tags \<Rightarrow> rule_context \<Rightarrow> rule_pack \<Rightarrow> exception_effect \<Rightarrow> (pystr \<Rightarrow> element_state)
    \<Rightarrow> (pystr \<times> element_class \<times> pystr) list \<Rightarrow> pystr option \<Rightarrow> pystr list
    \<Rightarrow> (pystr option \<times> pystr) list \<Rightarrow> decision result" where
  "assemble_decision P tags context pack effect state rows policy names outcomes =
     (let missing = elements_in Missing rows;
          unresolved0 = elements_in Unresolved rows;
          excluded = elements_in Excluded rows;
          additional = filter (\<lambda>e. e \<in> set additional_ids \<and> (e \<in> set missing \<or> e \<in> set unresolved0)) (map fst rows);
          grades = capped_grades effect outcomes;
          (status, gaps) = derive_status grades unresolved0 additional policy effect;
          unresolved = unresolved0 @ ee_unresolved_elements effect;
          grade = (if status = Decided then or_else (ee_override_grade effect) (the_single grades) else None);
          has_range = has_grade_range status grades additional policy effect;
          reachable = present_grades grades;
          ladder_elements = map fst (filter (\<lambda>(_, ns). set ns \<inter> set names \<noteq> {}) (MAPPINGS (ct_track tags)));
          impl = impl_sublabel (ct_track tags) grade state missing unresolved excluded;
          gaps' = (if \<not> impl \<and> grade \<in> {Some (py ''E1''), Some (py ''E2'')} then gaps @ [py ''GAP-005''] else gaps)
      in bindE (canonical_json P (section_basis (ee_rule_ids effect))) (\<lambda>basis.
         bindE (grade_label grade) (\<lambda>label.
         bindE (canonical_hash P (tags_asdict tags)) (\<lambda>h.
         Inr \<lparr>d_decision_revision = rc_decision_revision context, d_tag_revision = ct_tag_revision tags,
           d_decision_status = status, d_evidence_grade = grade, d_label = label,
           d_sublabel = (if impl then Some (py ''IMPL'') else None),
           d_review_status = (if status = Decided \<and> unresolved = [] then py ''auto_confirmed'' else py ''needs_review''),
           d_missing_elements = missing,
           d_rule_ids = py_sorted_set (filter (\<lambda>r. r \<noteq> []) (map snd outcomes) @ ee_rule_ids effect),
           d_rule_pack_sha256 = rp_sha256 pack, d_semantic_hash = [], d_gap_ids = py_sorted_set gaps',
           d_unresolved_elements = unresolved, d_excluded_elements = excluded,
           d_ladder_candidate = the_single (grade_set outcomes),
           d_basis_refs = map (\<lambda>(_, _, b). b) rows @ [basis], d_input_tags_sha256 = h,
           d_local_synthetic = rc_local_synthetic context,
           d_grade_floor = (if has_range then Some (Min (set reachable)) else None),
           d_grade_ceiling = (if has_range then Some (Max (set reachable)) else None),
           d_grade_open_elements =
             (if has_range then filter (\<lambda>e. e \<in> set ladder_elements) unresolved else [])\<rparr>))))"

definition engine_version :: "confirmed_tags \<Rightarrow> pystr" where
  "engine_version tags = (if list_ex (approved_fact (ct_track tags)) (ct_facts tags)
     then ENGINE_VERSION @ py ''+'' @ QT1_ENGINE_VERSION else ENGINE_VERSION)"

definition evaluate_scoped ::
  "platform \<Rightarrow> confirmed_tags \<Rightarrow> rule_context \<Rightarrow> rule_pack \<Rightarrow> bool \<Rightarrow> bool \<Rightarrow> decision result" where
  "evaluate_scoped P tags context pack analysis_scope dec127 =
     bindE (apply_source_exceptions tags context pack dec127) (\<lambda>effect.
     bindE (pack_elements pack) (\<lambda>defs.
     let state = engine_state tags effect analysis_scope
     in bindE (classify_elements P defs state (MAPPINGS (ct_track tags))) (\<lambda>rows.
        bindE (file_content pack (rubric_path (ct_track tags))) (\<lambda>rubric.
        bindE (additional_policy rubric) (\<lambda>policy.
        bindE (rubric_branches rubric) (\<lambda>branches0.
        let branches = dec127_branches dec127 (ct_track tags) branches0;
            names = ladder_names branches (ct_track tags)
        in if 12 < length names then Inl (DomainValidationError ''unsupported ladder ontology size'')
           else bindE (assemble_decision P tags context pack effect state rows policy names
                         (ladder_outcomes branches names state)) (\<lambda>decision.
                bindE (canonical_hash P (JObj
                  [(py ''engine_version'', JStr (engine_version tags)), (py ''tags'', tags_asdict tags),
                   (py ''context'', context_asdict context), (py ''pack_sha256'', JStr (rp_sha256 pack)),
                   (py ''decision'', decision_asdict decision)])) (\<lambda>h.
                Inr (decision\<lparr>d_semantic_hash := h\<rparr>)))))))))"

definition evaluate :: "platform \<Rightarrow> confirmed_tags \<Rightarrow> rule_context \<Rightarrow> rule_pack \<Rightarrow> decision result" where
  "evaluate P tags context pack =
     (if list_ex (\<lambda>f. cf_state f = Absent_in_scope) (ct_facts tags)
      then Inl (DomainValidationError ''scoped absence requires analysis-scope rule profile'')
      else evaluate_scoped P tags context pack False False)"

section \<open>Display envelope\<close>

record grade_range =
  gr_floor :: pystr
  gr_ceiling :: pystr
  gr_open_elements :: "pystr list"
  gr_rule_gap :: bool
  gr_rule_pack_sha256 :: pystr
  gr_unknown_track :: "track list"

definition display_state ::
  "confirmed_tags option \<Rightarrow> exception_effect option \<Rightarrow> pystr \<Rightarrow> element_state option" where
  "display_state tags effect n =
     (case effect of
        Some e \<Rightarrow> (case ee_ordinal_state e of
            Some s \<Rightarrow> if n \<in> set P1_names then Some s
              else map_option cf_state (case tags of None \<Rightarrow> None | Some t \<Rightarrow> tag_facts t n)
          | None \<Rightarrow> map_option cf_state (case tags of None \<Rightarrow> None | Some t \<Rightarrow> tag_facts t n))
      | None \<Rightarrow> None)"

text \<open>One track: its reachable grades and the elements an unresolved ladder fact leaves open.\<close>

definition display_track ::
  "rule_pack \<Rightarrow> (pystr \<Rightarrow> element_state option) \<Rightarrow> track \<Rightarrow> (pystr option list \<times> pystr list) result" where
  "display_track pack facts t =
     bindE (file_content pack (rubric_path t)) (\<lambda>rubric.
     bindE (rubric_branches rubric) (\<lambda>branches.
     let names = ladder_names branches t;
         state = (\<lambda>n. case facts n of None \<Rightarrow> Unknown | Some s \<Rightarrow> s);
         unknown = ladder_unknown names state
     in if 12 < length names then Inl (DomainValidationError ''unsupported ladder ontology size'')
        else Inr (grade_set (ladder_outcomes branches names state),
                  map fst (filter (\<lambda>(_, ns). set ns \<inter> set unknown \<noteq> {}) (MAPPINGS t)))))"

definition pack_grades :: "rule_pack \<Rightarrow> pystr list result" where
  "pack_grades pack = bindE (mapE (\<lambda>t. bindE (file_content pack (rubric_path t)) rubric_branches) TRACKS)
     (\<lambda>bss. Inr (map br_grade (concat bss)))"

definition display_grade_range ::
  "rule_pack \<Rightarrow> (confirmed_tags \<times> rule_context) option \<Rightarrow> grade_range result" where
  "display_grade_range pack input =
     (let tags = map_option fst input;
          tracks = (case tags of Some t \<Rightarrow> [ct_track t] | None \<Rightarrow> TRACKS)
      in bindE (case input of None \<Rightarrow> Inr None
              | Some (t, c) \<Rightarrow> bindE (apply_source_exceptions t c pack False) (\<lambda>e. Inr (Some e))) (\<lambda>effect.
         bindE (mapE (display_track pack (display_state tags effect)) tracks) (\<lambda>rows.
         let gap0 = list_ex (\<lambda>(gs, _). None \<in> set gs) rows;
             gap = (gap0 \<or> (case effect of None \<Rightarrow> False | Some e \<Rightarrow> ee_gap_ids e \<noteq> []));
             r0 = concat (map (\<lambda>(gs, _). present_grades gs) rows)
         in bindE (if gap then pack_grades pack else Inr []) (\<lambda>more.
            let r1 = r0 @ more;
                cap = (case effect of None \<Rightarrow> None | Some e \<Rightarrow> ee_cap_grade e);
                r2 = (if opt_truthy cap then map (\<lambda>g. min g (the cap)) r1 else r1);
                override = (case effect of None \<Rightarrow> None | Some e \<Rightarrow> ee_override_grade e);
                r3 = (if opt_truthy override then [the override] else r2);
                open_extra = (case effect of None \<Rightarrow> [] | Some e \<Rightarrow> ee_unresolved_elements e);
                reachable = (if open_extra \<noteq> [] then r3 @ [py ''E0''] else r3)
            in if reachable = [] then Inl (ValueError ''min() arg is an empty sequence'')
               else Inr \<lparr>gr_floor = Min (set reachable), gr_ceiling = Max (set reachable),
                 gr_open_elements = py_sorted_set (concat (map snd rows) @ open_extra), gr_rule_gap = gap,
                 gr_rule_pack_sha256 = rp_sha256 pack, gr_unknown_track = tracks\<rparr>))))"

end
