(* ===== verification/Engine_Ladder.thy ===== *)
theory Engine_Ladder
  imports Rules_Engine
begin

text \<open>
  The reference reading of the engine: a \<^emph>\<open>completion\<close> of the ladder facts is a total answer to every
  ladder question that agrees with the resolved facts. The source enumerates completions with
  \<^verbatim>\<open>itertools.product\<close>; the lemmas here show that the enumeration is exactly the set of completions,
  that resolving a fact only removes completions, and take one evaluation apart.
\<close>

definition completion :: "pystr list \<Rightarrow> (pystr \<Rightarrow> element_state) \<Rightarrow> (pystr \<Rightarrow> bool) \<Rightarrow> bool" where
  "completion names state f \<longleftrightarrow>
     (\<forall>n. (f n \<longrightarrow> n \<in> set names \<and> state n \<noteq> Absent) \<and> (n \<in> set names \<and> state n = Present \<longrightarrow> f n))"

text \<open>\<open>refines st' st\<close>: every question \<open>st\<close> resolves, \<open>st'\<close> resolves the same way.\<close>

definition refines :: "(pystr \<Rightarrow> element_state) \<Rightarrow> (pystr \<Rightarrow> element_state) \<Rightarrow> bool" where
  "refines st' st \<longleftrightarrow> (\<forall>n. resolved (st n) \<longrightarrow> st' n = st n)"

definition pack_ladder :: "rule_pack \<Rightarrow> track \<Rightarrow> bool \<Rightarrow> branch list result" where
  "pack_ladder pack t dec127 = bindE (file_content pack (rubric_path t)) (\<lambda>rubric.
     bindE (rubric_branches rubric) (\<lambda>bs. Inr (dec127_branches dec127 t bs)))"

section \<open>The enumeration is the set of completions\<close>

lemma map_of_keyed: "map_of (map (\<lambda>n. (n, g n)) xs) n = (if n \<in> set xs then Some (g n) else None)"
  by (simp add: map_of_map_restrict restrict_map_def)

lemma ladder_unknown_set: "n \<in> set (ladder_unknown names st) \<longleftrightarrow> n \<in> set names \<and> \<not> resolved (st n)"
  by (simp add: ladder_unknown_def)

lemma assignment_known:
  "assignment (ladder_known names st @ zip us vs) n =
     (if n \<in> set names \<and> resolved (st n) then st n = Present else assignment (zip us vs) n)"
  by (simp add: assignment_def ladder_known_def map_of_append map_add_def map_of_keyed
      split: option.splits)

lemma assignment_zip_outside: "n \<notin> set us \<Longrightarrow> \<not> assignment (zip us vs) n"
  by (auto simp: assignment_def split: option.splits dest!: map_of_SomeD set_zip_leftD)

lemma assignment_zip_map: "assignment (zip us (map f us)) n = (n \<in> set us \<and> f n)"
proof -
  have "zip us (map f us) = map (\<lambda>n. (n, f n)) us"
    by (induction us) auto
  then show ?thesis
    by (simp add: assignment_def map_of_keyed)
qed

lemma completion_assignment:
  assumes "length vs = length (ladder_unknown names st)"
  shows "completion names st (assignment (ladder_known names st @ zip (ladder_unknown names st) vs))"
  unfolding completion_def assignment_known
  using assignment_zip_outside [of _ "ladder_unknown names st" vs] unfolding ladder_unknown_set resolved_def
  by auto

lemma completion_is_assignment:
  assumes "completion names st f"
  shows "assignment (ladder_known names st @ zip (ladder_unknown names st) (map f (ladder_unknown names st))) = f"
proof
  fix n show "assignment (ladder_known names st @ zip (ladder_unknown names st) (map f (ladder_unknown names st))) n = f n"
    using assms unfolding assignment_known assignment_zip_map ladder_unknown_set completion_def resolved_def
    by metis
qed

lemma ladder_outcomes_completions:
  "set (ladder_outcomes bs names st) = select bs ` {f. completion names st f}"
proof (intro set_eqI iffI)
  fix x assume "x \<in> set (ladder_outcomes bs names st)"
  then obtain vs where "length vs = length (ladder_unknown names st)"
    and "x = select bs (assignment (ladder_known names st @ zip (ladder_unknown names st) vs))"
    by (auto simp: ladder_outcomes_def set_n_lists Let_def)
  then show "x \<in> select bs ` {f. completion names st f}"
    using completion_assignment by blast
next
  fix x assume "x \<in> select bs ` {f. completion names st f}"
  then obtain f where f: "completion names st f" and x: "x = select bs f"
    by blast
  have "set (map f (ladder_unknown names st)) \<subseteq> set [False, True]"
    by auto
  then have "map f (ladder_unknown names st) \<in> set (List.n_lists (length (ladder_unknown names st)) [False, True])"
    by (simp add: set_n_lists)
  then show "x \<in> set (ladder_outcomes bs names st)"
    using completion_is_assignment [OF f] unfolding x ladder_outcomes_def Let_def by force
qed

lemma completion_exists: "completion names st (\<lambda>n. n \<in> set names \<and> st n = Present)"
  by (simp add: completion_def)

lemma ladder_outcomes_nonempty: "ladder_outcomes bs names st \<noteq> []"
  using completion_exists ladder_outcomes_completions [of bs names st] by fastforce

lemma completion_refines: "refines st' st \<Longrightarrow> completion names st' f \<Longrightarrow> completion names st f"
  unfolding refines_def completion_def resolved_def by metis

lemma ladder_outcomes_refines:
  "refines st' st \<Longrightarrow> set (ladder_outcomes bs names st') \<subseteq> set (ladder_outcomes bs names st)"
  unfolding ladder_outcomes_completions using completion_refines by blast

lemma resolved_unique_completion:
  assumes "\<forall>n\<in>set names. resolved (st n)" and "completion names st f"
  shows "f = (\<lambda>n. n \<in> set names \<and> st n = Present)"
  using assms by (auto simp: completion_def resolved_def fun_eq_iff)

section \<open>Reading one completion\<close>

definition hits :: "branch list \<Rightarrow> (pystr \<Rightarrow> bool) \<Rightarrow> branch list" where
  "hits bs facts = filter (branch_matches (with_exception facts)) bs"

definition grade_id :: "branch \<Rightarrow> pystr \<times> pystr" where
  "grade_id b = (br_grade b, br_id b)"

lemma select_loop_eq:
  "select_loop facts bs ms =
     (case find (\<lambda>b. branch_matches facts b \<and> br_cap b) bs of
        Some b \<Rightarrow> (Some (br_grade b), br_id b)
      | None \<Rightarrow> let found = ms @ map grade_id (filter (branch_matches facts) bs)
                in if found = [] then (None, []) else (Some (fst (Max (set found))), snd (Max (set found))))"
  by (induction facts bs ms rule: select_loop.induct) (simp_all add: Let_def grade_id_def cong: option.case_cong)

text \<open>The first cap branch that matches wins outright; otherwise the highest matching branch does.\<close>

lemma select_eq:
  "select bs facts =
     (case find (\<lambda>b. branch_matches (with_exception facts) b \<and> br_cap b) bs of
        Some b \<Rightarrow> (Some (br_grade b), br_id b)
      | None \<Rightarrow> let m = Max (grade_id ` set (hits bs facts))
                in if hits bs facts = [] then (None, []) else (Some (fst m), snd m))"
  by (simp add: select_def select_loop_eq hits_def Let_def cong: option.case_cong)

lemma select_grade_is_branch:
  assumes "fst (select bs facts) = Some g"
  shows "\<exists>b\<in>set bs. br_grade b = g \<and> branch_matches (with_exception facts) b"
proof (cases "find (\<lambda>b. branch_matches (with_exception facts) b \<and> br_cap b) bs")
  case (Some b)
  then have "g = br_grade b"
    using assms by (simp add: select_eq)
  moreover have "b \<in> set bs \<and> branch_matches (with_exception facts) b"
    using Some by (auto simp: find_Some_iff)
  ultimately show ?thesis
    by blast
next
  case None
  then have "hits bs facts \<noteq> []" and g: "g = fst (Max (grade_id ` set (hits bs facts)))"
    using assms by (auto simp: select_eq Let_def split: if_splits)
  then have "Max (grade_id ` set (hits bs facts)) \<in> grade_id ` set (hits bs facts)"
    by (intro Max_in) auto
  then obtain b where b: "b \<in> set (hits bs facts)" "Max (grade_id ` set (hits bs facts)) = grade_id b"
    by blast
  then show ?thesis
    unfolding g b(2) by (intro bexI [of _ b]) (auto simp: hits_def grade_id_def)
qed

lemma select_max:
  assumes "b \<in> set bs" "branch_matches (with_exception facts) b"
    and "\<forall>c\<in>set bs. branch_matches (with_exception facts) c \<longrightarrow> \<not> br_cap c"
  shows "\<exists>g. fst (select bs facts) = Some g \<and> br_grade b \<le> g"
proof -
  have none: "find (\<lambda>b. branch_matches (with_exception facts) b \<and> br_cap b) bs = None"
    using assms(3) by (auto simp: find_None_iff)
  have mem: "b \<in> set (hits bs facts)"
    using assms(1,2) by (simp add: hits_def)
  then have "grade_id b \<le> Max (grade_id ` set (hits bs facts))"
    by (intro Max_ge) auto
  then have "br_grade b \<le> fst (Max (grade_id ` set (hits bs facts)))"
    by (auto simp: less_eq_prod_def grade_id_def)
  moreover have "hits bs facts \<noteq> []"
    using mem by auto
  ultimately show ?thesis
    using none by (simp add: select_eq Let_def)
qed

section \<open>One evaluation\<close>

lemma evaluate_scoped_Inr:
  assumes "evaluate_scoped P tags ctx pack a dec = Inr d"
  obtains e defs rows rubric policy bs d0 where
    "apply_source_exceptions tags ctx pack dec = Inr e"
    "pack_elements pack = Inr defs"
    "classify_elements P defs (engine_state tags e a) (MAPPINGS (ct_track tags)) = Inr rows"
    "file_content pack (rubric_path (ct_track tags)) = Inr rubric"
    "additional_policy rubric = Inr policy"
    "pack_ladder pack (ct_track tags) dec = Inr bs"
    "length (ladder_names bs (ct_track tags)) \<le> 12"
    "assemble_decision P tags ctx pack e (engine_state tags e a) rows policy (ladder_names bs (ct_track tags))
       (ladder_outcomes bs (ladder_names bs (ct_track tags)) (engine_state tags e a)) = Inr d0"
    "d = d0\<lparr>d_semantic_hash := d_semantic_hash d\<rparr>"
    "canonical_hash P (JObj
                  [(py ''engine_version'', JStr (engine_version tags)), (py ''tags'', tags_asdict tags),
                   (py ''context'', context_asdict ctx), (py ''pack_sha256'', JStr (rp_sha256 pack)),
                   (py ''decision'', decision_asdict d0)]) = Inr (d_semantic_hash d)"
  using assms unfolding evaluate_scoped_def
  by (auto simp: result_simps Let_def pack_ladder_def)

end
