(* ===== verification/Engine_Correct.thy ===== *)
theory Engine_Correct
  imports Engine_Ladder
begin

text \<open>
  What one evaluation guarantees: when a grade is given, which range is published when it is not,
  what a refinement of the evidence may change, and what the trust boundary admitted.
\<close>

section \<open>The parts of an assembled decision\<close>

definition additional_of :: "(pystr \<times> element_class \<times> pystr) list \<Rightarrow> pystr list" where
  "additional_of rows = filter (\<lambda>e. e \<in> set additional_ids
     \<and> (e \<in> set (elements_in Missing rows) \<or> e \<in> set (elements_in Unresolved rows))) (map fst rows)"

lemma derive_status_decided:
  "fst (derive_status grades u a policy e) = Decided \<longleftrightarrow>
     ee_gap_ids e = [] \<and> ee_unresolved_elements e = []
     \<and> (opt_truthy (ee_override_grade e)
        \<or> length grades \<le> 1 \<and> the_single grades \<noteq> None \<and> \<not> (a \<noteq> [] \<and> policy = None))"
  by (simp add: derive_status_def Let_def)

lemma derive_status_gap:
  "ee_gap_ids e \<noteq> [] \<Longrightarrow> fst (derive_status grades u a policy e) = Blocked_rule_gap
     \<and> set (ee_gap_ids e) \<subseteq> set (snd (derive_status grades u a policy e))"
  by (simp add: derive_status_def Let_def)

lemma assemble_decision_Inr:
  assumes "assemble_decision P tags ctx pack e st rows policy names outs = Inr d"
  defines "grades \<equiv> capped_grades e outs"
    and "sg \<equiv> derive_status (capped_grades e outs) (elements_in Unresolved rows) (additional_of rows) policy e"
  shows "d_decision_status d = fst sg"
    and "d_evidence_grade d = (if fst sg = Decided then or_else (ee_override_grade e) (the_single grades) else None)"
    and "grade_label (d_evidence_grade d) = Inr (d_label d)"
    and "d_missing_elements d = elements_in Missing rows"
    and "d_excluded_elements d = elements_in Excluded rows"
    and "d_unresolved_elements d = elements_in Unresolved rows @ ee_unresolved_elements e"
    and "d_review_status d = (if fst sg = Decided \<and> d_unresolved_elements d = [] then py ''auto_confirmed'' else py ''needs_review'')"
    and "set (snd sg) \<subseteq> set (d_gap_ids d)"
    and "d_grade_floor d = (if has_grade_range (fst sg) grades (additional_of rows) policy e
           then Some (Min (set (present_grades grades))) else None)"
    and "d_grade_ceiling d = (if has_grade_range (fst sg) grades (additional_of rows) policy e
           then Some (Max (set (present_grades grades))) else None)"
    and "d_rule_pack_sha256 d = rp_sha256 pack"
    and "canonical_hash P (tags_asdict tags) = Inr (d_input_tags_sha256 d)"
    and "set (ee_rule_ids e) \<subseteq> set (d_rule_ids d)"
  using assms(1) unfolding assemble_decision_def grades_def sg_def additional_of_def
  by (simp_all add: Let_def bindE_Inr_iff split: prod.splits) auto

text \<open>The same parts read off a finished evaluation.\<close>

lemma evaluate_scoped_parts:
  assumes "evaluate_scoped P tags ctx pack a dec = Inr d"
    and "apply_source_exceptions tags ctx pack dec = Inr e"
    and "pack_ladder pack (ct_track tags) dec = Inr bs"
  obtains defs rows rubric policy d0 where
    "pack_elements pack = Inr defs"
    "classify_elements P defs (engine_state tags e a) (MAPPINGS (ct_track tags)) = Inr rows"
    "file_content pack (rubric_path (ct_track tags)) = Inr rubric"
    "additional_policy rubric = Inr policy"
    "assemble_decision P tags ctx pack e (engine_state tags e a) rows policy (ladder_names bs (ct_track tags))
       (ladder_outcomes bs (ladder_names bs (ct_track tags)) (engine_state tags e a)) = Inr d0"
    "d = d0\<lparr>d_semantic_hash := d_semantic_hash d\<rparr>"
  using assms(1)
proof (cases rule: evaluate_scoped_Inr)
  case (1 e' defs rows rubric policy bs' d0)
  then show ?thesis
    using assms(2,3) that by auto
qed

section \<open>Reachable grades\<close>

definition reachable_grades ::
  "exception_effect \<Rightarrow> branch list \<Rightarrow> pystr list \<Rightarrow> (pystr \<Rightarrow> element_state) \<Rightarrow> pystr option set" where
  "reachable_grades e bs names st =
     {cap_grade (ee_cap_grade e) (fst (select bs f)) | f. completion names st f}"

lemma set_capped_grades:
  "set (capped_grades e (ladder_outcomes bs names st)) = reachable_grades e bs names st"
  unfolding capped_grades_def grade_set_def reachable_grades_def
  by (simp add: ladder_outcomes_completions image_image) blast

lemma reachable_nonempty: "reachable_grades e bs names st \<noteq> {}"
  unfolding reachable_grades_def using completion_exists by blast

lemma reachable_refines:
  "refines st' st \<Longrightarrow> reachable_grades e bs names st' \<subseteq> reachable_grades e bs names st"
  unfolding reachable_grades_def using completion_refines by blast

lemma the_single_iff:
  assumes "distinct xs" "xs \<noteq> []"
  shows "length xs \<le> 1 \<and> the_single xs = Some g \<longleftrightarrow> set xs = {Some g}"
  using assms by (cases xs rule: remdups_adj.cases) (auto simp: the_single_def)

lemma capped_single:
  "length (capped_grades e (ladder_outcomes bs names st)) \<le> 1
     \<and> the_single (capped_grades e (ladder_outcomes bs names st)) = Some g
   \<longleftrightarrow> reachable_grades e bs names st = {Some g}"
proof -
  have "capped_grades e (ladder_outcomes bs names st) \<noteq> []"
    using reachable_nonempty set_capped_grades by (metis set_empty2)
  then show ?thesis
    using the_single_iff [of "capped_grades e (ladder_outcomes bs names st)" g]
    by (simp add: set_capped_grades) (simp add: capped_grades_def)
qed

lemma set_present_grades: "set (present_grades gs) = {g. Some g \<in> set gs}"
  by (force simp: present_grades_def List.map_filter_def)

lemma elements_in_iff: "e \<in> set (elements_in c rows) \<longleftrightarrow> (\<exists>b. (e, c, b) \<in> set rows)"
  by (force simp: elements_in_def)

text \<open>The question a pack without a policy leaves open: an additional element that is missing or unresolved.\<close>

definition additional_open :: "pystr option \<Rightarrow> decision \<Rightarrow> bool" where
  "additional_open policy d \<longleftrightarrow> policy = None
     \<and> (\<exists>x\<in>set additional_ids. x \<in> set (d_missing_elements d) \<or> x \<in> set (d_unresolved_elements d))"

lemma evaluate_grade_cases:
  assumes ev: "evaluate_scoped P tags ctx pack a dec = Inr d"
    and ex: "apply_source_exceptions tags ctx pack dec = Inr e"
    and lad: "pack_ladder pack (ct_track tags) dec = Inr bs"
    and pol: "file_content pack (rubric_path (ct_track tags)) = Inr rubric" "additional_policy rubric = Inr policy"
  shows "d_evidence_grade d = Some g \<longleftrightarrow> ee_gap_ids e = [] \<and> ee_unresolved_elements e = []
     \<and> (if opt_truthy (ee_override_grade e) then ee_override_grade e = Some g
        else \<not> additional_open policy d
          \<and> reachable_grades e bs (ladder_names bs (ct_track tags)) (engine_state tags e a) = {Some g})"
  using ev ex lad
proof (cases rule: evaluate_scoped_parts)
  case (1 defs rows rubric' policy' d0)
  let ?gs = "capped_grades e (ladder_outcomes bs (ladder_names bs (ct_track tags)) (engine_state tags e a))"
  note asm = assemble_decision_Inr [OF 1(5)]
  have p: "policy' = policy" using 1 pol by simp
  have eqs: "d_evidence_grade d = d_evidence_grade d0" "d_missing_elements d = d_missing_elements d0" "d_unresolved_elements d = d_unresolved_elements d0"
    by (subst 1(6), simp)+
  have "additional_open policy d \<longleftrightarrow> additional_of rows \<noteq> [] \<and> policy = None" if "ee_unresolved_elements e = []"
    using that unfolding additional_open_def eqs asm(4,6)
    by (auto simp: additional_of_def filter_empty_conv elements_in_iff) force+
  then show ?thesis
    unfolding eqs asm(2) p
    by (auto simp: derive_status_decided or_else_def simp flip: capped_single)
qed

lemma evaluate_grade_iff:
  assumes "evaluate_scoped P tags ctx pack a dec = Inr d"
    and "apply_source_exceptions tags ctx pack dec = Inr e"
    and "pack_ladder pack (ct_track tags) dec = Inr bs"
    and "file_content pack (rubric_path (ct_track tags)) = Inr rubric"
      "additional_policy rubric = Inr (Some ADDITIONAL_REPORT_ONLY)"
    and "ee_override_grade e = None"
  shows "d_evidence_grade d = Some g \<longleftrightarrow> ee_gap_ids e = [] \<and> ee_unresolved_elements e = []
     \<and> reachable_grades e bs (ladder_names bs (ct_track tags)) (engine_state tags e a) = {Some g}"
  using evaluate_grade_cases [OF assms(1-5)] assms(6) by (simp add: opt_truthy_def additional_open_def)

lemma evaluate_range:
  assumes ev: "evaluate_scoped P tags ctx pack a dec = Inr d"
    and ex: "apply_source_exceptions tags ctx pack dec = Inr e"
    and lad: "pack_ladder pack (ct_track tags) dec = Inr bs"
    and lo: "d_grade_floor d = Some lo"
  defines "R \<equiv> reachable_grades e bs (ladder_names bs (ct_track tags)) (engine_state tags e a)"
  shows "None \<notin> R" "2 \<le> card R" "lo = Min {g. Some g \<in> R}"
    "d_grade_ceiling d = Some (Max {g. Some g \<in> R})" "finite R"
    "d_decision_status d = Blocked_evidence" "d_evidence_grade d = None"
    "ee_unresolved_elements e = []" "ee_gap_ids e = []"
proof -
  from ev ex lad have "None \<notin> R \<and> 2 \<le> card R \<and> lo = Min {g. Some g \<in> R}
    \<and> d_grade_ceiling d = Some (Max {g. Some g \<in> R}) \<and> finite R
    \<and> d_decision_status d = Blocked_evidence \<and> d_evidence_grade d = None
    \<and> ee_unresolved_elements e = [] \<and> ee_gap_ids e = []"
  proof (cases rule: evaluate_scoped_parts)
    case (1 defs rows rubric policy d0)
    let ?gs = "capped_grades e (ladder_outcomes bs (ladder_names bs (ct_track tags)) (engine_state tags e a))"
    note asm = assemble_decision_Inr [OF 1(5)]
    have eqs: "d_grade_floor d = d_grade_floor d0" "d_grade_ceiling d = d_grade_ceiling d0"
      "d_decision_status d = d_decision_status d0" "d_evidence_grade d = d_evidence_grade d0"
      by (subst 1(6), simp)+
    have R: "set ?gs = R" and dist: "distinct ?gs"
      unfolding R_def by (simp_all add: set_capped_grades) (simp add: capped_grades_def)
    have "card R = length ?gs" "finite R"
      unfolding R [symmetric] by (simp_all add: distinct_card dist)
    then show ?thesis
      using asm(1,2,9,10) lo unfolding eqs
      by (auto simp: has_grade_range_def set_present_grades R split: if_splits)
  qed
  then show "None \<notin> R" "2 \<le> card R" "lo = Min {g. Some g \<in> R}"
    "d_grade_ceiling d = Some (Max {g. Some g \<in> R})" "finite R"
    "d_decision_status d = Blocked_evidence" "d_evidence_grade d = None"
    "ee_unresolved_elements e = []" "ee_gap_ids e = []"
    by auto
qed

lemma finite_Some_set: "finite R \<Longrightarrow> finite {g. Some g \<in> R}"
  using finite_vimageI [of R Some] by (simp add: vimage_def inj_def)

lemma reachable_bounds:
  assumes "finite R" "None \<notin> R" "r \<in> R"
  shows "\<exists>g. r = Some g \<and> Min {g. Some g \<in> R} \<le> g \<and> g \<le> Max {g. Some g \<in> R}"
  using assms finite_Some_set [OF assms(1)] by (cases r) auto

lemma reachable_attained:
  assumes "finite R" "None \<notin> R" "R \<noteq> {}"
  shows "Some (Min {g. Some g \<in> R}) \<in> R" "Some (Max {g. Some g \<in> R}) \<in> R"
proof -
  have "{g. Some g \<in> R} \<noteq> {}"
    using assms(2,3) by (metis (mono_tags, lifting) empty_iff ex_in_conv mem_Collect_eq not_None_eq)
  then show "Some (Min {g. Some g \<in> R}) \<in> R" "Some (Max {g. Some g \<in> R}) \<in> R"
    using Min_in Max_in finite_Some_set [OF assms(1)] by blast+
qed

section \<open>Trust boundary\<close>

lemma apply_source_exceptions_validated:
  "apply_source_exceptions tags ctx pack dec = Inr e \<Longrightarrow> validate_inputs tags ctx pack = Inr ()"
  by (auto simp: apply_source_exceptions_def bindE_Inr_iff)

lemma validate_inputs_Inr:
  assumes "validate_inputs tags ctx pack = Inr ()"
  shows "ct_tenant_id tags = rc_tenant_id ctx" "ct_document_version_id tags = rc_document_version_id ctx"
    "ct_claim_id tags = rc_claim_id ctx" "ct_packet_sha256 tags = rc_packet_sha256 ctx"
    "rp_tenant_id pack = rc_tenant_id ctx" "ct_ontology_version tags = rp_ontology_version pack"
    "\<not> rc_local_synthetic ctx \<Longrightarrow> rp_status pack = py ''active'' \<and> opt_truthy (rp_approved_by pack) \<and> opt_truthy (rp_approved_at pack)"
    "\<exists>defs allowed. pack_elements pack = Inr defs \<and> allowed_scopes defs (ct_track tags) = Inr allowed
       \<and> (\<forall>f\<in>set (ct_facts tags). validate_fact tags allowed f = Inr ())"
  using assms by (auto simp: validate_inputs_def result_simps simp del: if_Inl_Inr_iff split: if_splits)

lemma validate_fact_present:
  assumes "validate_fact tags allowed f = Inr ()" "cf_state f = Present"
  shows "cf_source_tenant_id f = Some (ct_tenant_id tags)" "list_all (ref_admissible tags) (cf_evidence_refs f)"
    "cf_source_scope f \<in> set (fact_scopes allowed (cf_name f)) \<and> cf_source_scope f \<noteq> py ''explicit_link''
       \<or> approved_fact (ct_track tags) f"
    "cf_name f = py ''assurance_covered'' \<Longrightarrow> cf_normalized_value f = Some (py ''covered'')"
  using assms by (auto simp: validate_fact_def split: if_splits)

lemma evaluate_scoped_validated:
  "evaluate_scoped P tags ctx pack a dec = Inr d \<Longrightarrow> validate_inputs tags ctx pack = Inr ()"
  by (auto simp: evaluate_scoped_def bindE_Inr_iff apply_source_exceptions_validated)

section \<open>Exceptions\<close>

lemma remaining_exceptions_effect:
  assumes "remaining_exceptions tags st pack u = Inr e"
  shows "ee_override_grade e = None" "ee_cap_grade e \<noteq> None \<Longrightarrow> ct_product_variant tags \<and> ct_track tags = Management"
  using assms by (auto simp: remaining_exceptions_def product_step_def bindE_Inr_iff split: if_splits prod.splits)

lemma safe_harbor_effect:
  assumes "apply_source_exceptions tags ctx pack dec = Inr e" "opt_truthy (ct_safe_harbor_category tags)"
  shows "py ''GAP-001'' \<in> set (ee_gap_ids e) \<and> ee_override_grade e = None \<and> ee_unresolved_elements e = []"
  using assms by (auto simp: apply_source_exceptions_def bindE_Inr_iff Let_def no_effect_def split: if_splits)

lemma override_effect:
  assumes "apply_source_exceptions tags ctx pack dec = Inr e" "ee_override_grade e \<noteq> None"
  shows "ee_override_grade e = Some (py ''E0'') \<and> ee_gap_ids e = [] \<and> ee_unresolved_elements e = []
    \<and> ee_cap_grade e = None \<and> ee_rule_ids e = [py ''SUPERLATIVE_E0''] \<and> superlative_grounded tags
    \<and> \<not> opt_truthy (ct_safe_harbor_category tags)
    \<and> (\<forall>n\<in>set superlative_operands. scoped dec (fact_state tags n) = Absent)"
  using assms
  by (auto simp: apply_source_exceptions_def bindE_Inr_iff Let_def no_effect_def list_all_iff
      dest!: remaining_exceptions_effect(1) split: if_splits)

lemma superlative_effect:
  assumes "apply_source_exceptions tags ctx pack dec = Inr e" "file_content pack (py ''rubric/exceptions.yaml'') = Inr exc"
    "map_of exc (py ''superlative'') = Some (JObj special)" "map_of special (py ''enabled'') = Some (JBool True)"
    "\<not> opt_truthy (ct_safe_harbor_category tags)" "has_superlative tags dec" "superlative_grounded tags"
    "\<forall>n\<in>set superlative_operands. scoped dec (fact_state tags n) = Absent"
  shows "ee_override_grade e = Some (py ''E0'')"
proof -
  have "list_all (\<lambda>n. scoped dec (fact_state tags n) = Absent) superlative_operands"
    using assms(8) by (simp add: list_all_iff)
  then have "apply_source_exceptions tags ctx pack dec =
    Inr (no_effect\<lparr>ee_override_grade := Some (py ''E0''), ee_rule_ids := [py ''SUPERLATIVE_E0'']\<rparr>)"
    using assms(2-7) apply_source_exceptions_validated [OF assms(1)]
    by (simp add: apply_source_exceptions_def jitem_def as_dict_def py_truthy_def)
  then show ?thesis
    using assms(1) by (auto simp: no_effect_def)
qed

text \<open>The only cap the exceptions set is the product-variant one, on the management track.\<close>

lemma cap_effect:
  assumes "apply_source_exceptions tags ctx pack dec = Inr e" "ee_cap_grade e \<noteq> None"
  shows "ct_product_variant tags \<and> ct_track tags = Management"
  using assms
  by (auto simp: apply_source_exceptions_def bindE_Inr_iff Let_def no_effect_def
      dest!: remaining_exceptions_effect(2) split: if_splits)

section \<open>Elements\<close>

lemma classify_elements_fst:
  "classify_elements P defs st els = Inr rows \<Longrightarrow> map fst rows = map fst els"
  unfolding classify_elements_def mapE_Inr_iff
  by (induction rule: list_all2_induct) (auto simp: result_simps split: prod.splits)

lemma classify_elements_row:
  assumes "classify_elements P defs st els = Inr rows" "(e, c, b) \<in> set rows"
  shows "\<exists>names d. (e, names) \<in> set els \<and> element_lookup defs e = Some d \<and> c = classify_element st (ed_trigger d) names"
  using mapE_in_result [OF assms(1) [unfolded classify_elements_def] assms(2)]
  unfolding result_simps by (auto simp: result_simps) blast

lemma classify_missing:
  "classify_element st trigger names = Missing \<Longrightarrow>
     (\<exists>n\<in>set names. st n = Absent) \<and> (\<forall>n\<in>set names. resolved (st n))"
  by (auto simp: classify_element_def list_ex_iff split: option.splits if_splits)

lemma MAPPINGS_distinct: "distinct (map fst (MAPPINGS t))"
  by (cases t) (simp_all add: MAPPINGS_def goal_ELEMENTS_def performance_ELEMENTS_def management_ELEMENTS_def)

lemma classify_refines:
  assumes "refines st' st" "classify_element st' t names \<in> {Missing, Unresolved}"
  shows "classify_element st t names \<in> {Missing, Unresolved}"
proof (rule ccontr)
  assume n: "classify_element st t names \<notin> {Missing, Unresolved}"
  have r: "st' x = st x" if "resolved (st x)" for x using assms(1) that by (simp add: refines_def)
  have "st' x = st x" if "st x = Present \<or> st x = Absent" for x using that r by (auto simp: resolved_def)
  with n have "classify_element st' t names = classify_element st t names"
    using r by (auto simp: classify_element_def list_ex_iff split: option.splits if_splits)
  with assms(2) n show False by simp
qed

lemma classify_elements_in:
  assumes "classify_elements P defs st els = Inr rows" "(x, names) \<in> set els"
  shows "\<exists>d b. element_lookup defs x = Some d \<and> (x, classify_element st (ed_trigger d) names, b) \<in> set rows"
  using assms unfolding classify_elements_def mapE_Inr_iff
  by (induction rule: list_all2_induct) (auto simp: result_simps split: prod.splits)

text \<open>An element is left open by its own facts alone.\<close>

lemma open_element_iff:
  assumes ev: "evaluate_scoped P tags ctx pack a dec = Inr d"
    and ex: "apply_source_exceptions tags ctx pack dec = Inr e"
    and lad: "pack_ladder pack (ct_track tags) dec = Inr bs"
    and u: "ee_unresolved_elements e = []"
  shows "x \<in> set (d_missing_elements d) \<or> x \<in> set (d_unresolved_elements d) \<longleftrightarrow>
    (\<exists>defs names def. pack_elements pack = Inr defs \<and> (x, names) \<in> set (MAPPINGS (ct_track tags)) \<and> element_lookup defs x = Some def
       \<and> classify_element (engine_state tags e a) (ed_trigger def) names \<in> {Missing, Unresolved})"
  using ev ex lad
proof (cases rule: evaluate_scoped_parts)
  case (1 defs rows rubric policy d0)
  have eqs: "d_missing_elements d = elements_in Missing rows" "d_unresolved_elements d = elements_in Unresolved rows"
    using assemble_decision_Inr(4,6) [OF 1(5)] u by (subst 1(6), simp)+
  show ?thesis
  proof
    assume "x \<in> set (d_missing_elements d) \<or> x \<in> set (d_unresolved_elements d)"
    then obtain c b where "(x, c, b) \<in> set rows" "c \<in> {Missing, Unresolved}" unfolding eqs elements_in_iff by blast
    with classify_elements_row [OF 1(2) this(1)] 1(1) show "\<exists>defs names def. pack_elements pack = Inr defs \<and> (x, names) \<in> set (MAPPINGS (ct_track tags))
       \<and> element_lookup defs x = Some def \<and> classify_element (engine_state tags e a) (ed_trigger def) names \<in> {Missing, Unresolved}" by blast
  next
    assume "\<exists>defs names def. pack_elements pack = Inr defs \<and> (x, names) \<in> set (MAPPINGS (ct_track tags))
       \<and> element_lookup defs x = Some def \<and> classify_element (engine_state tags e a) (ed_trigger def) names \<in> {Missing, Unresolved}"
    with classify_elements_in [OF 1(2)] 1(1) show "x \<in> set (d_missing_elements d) \<or> x \<in> set (d_unresolved_elements d)"
      unfolding eqs elements_in_iff by fastforce
  qed
qed

lemma additional_open_refines:
  assumes "evaluate_scoped P tags ctx pack a dec = Inr d" "evaluate_scoped P tags' ctx' pack a dec = Inr d'"
    and "apply_source_exceptions tags ctx pack dec = Inr e" "apply_source_exceptions tags' ctx' pack dec = Inr e"
    and "pack_ladder pack (ct_track tags) dec = Inr bs" "ct_track tags' = ct_track tags"
    and "refines (engine_state tags' e a) (engine_state tags e a)" "ee_unresolved_elements e = []" "additional_open policy d'"
  shows "additional_open policy d"
  using assms(9) unfolding additional_open_def open_element_iff [OF assms(1,3,5,8)] open_element_iff [OF assms(2,4) assms(5) [folded assms(6)] assms(8)] assms(6)
  using classify_refines [OF assms(7)] by blast

section \<open>No failure after the trust boundary\<close>

lemma json_finite_opt_str [simp]: "json_finite (opt_str x)"
  by (cases x) (simp_all add: opt_str_def)

lemma json_finite_str_list [simp]: "json_finite (str_list xs)"
  by (auto simp: str_list_def)

lemma json_finite_source_ref [simp]: "json_finite (source_ref_asdict r)"
  by (auto simp: source_ref_asdict_def bbox_asdict_def split: option.splits)

lemma json_finite_fact [simp]: "json_finite (fact_asdict f)"
  by (auto simp: fact_asdict_def)

lemma json_finite_tags [simp]: "json_finite (tags_asdict t)"
  by (auto simp: tags_asdict_def)

lemma json_finite_context [simp]: "json_finite (context_asdict c)"
  by (simp add: context_asdict_def)

lemma json_finite_decision [simp]: "json_finite (decision_asdict d)"
  by (simp add: decision_asdict_def)

lemma canonical_json_finite: "json_finite v \<Longrightarrow> \<exists>s. canonical_json P v = Inr s"
  by (simp add: canonical_json_def)

lemma canonical_hash_finite: "json_finite v \<Longrightarrow> \<exists>s. canonical_hash P v = Inr s"
  by (simp add: canonical_hash_def canonical_json_def)

definition known_grade :: "pystr option \<Rightarrow> bool" where
  "known_grade g \<longleftrightarrow> (case g of None \<Rightarrow> True | Some x \<Rightarrow> x \<in> fst ` set GRADE_LABEL_MAP)"

lemma grade_label_known: "known_grade g \<Longrightarrow> \<exists>l. grade_label g = Inr l"
  by (cases g) (auto simp: known_grade_def grade_label_def GRADE_LABEL_MAP_def opt_truthy_def)

lemma known_cap_grade: "known_grade c \<Longrightarrow> known_grade g \<Longrightarrow> known_grade (cap_grade c g)"
  by (cases c; cases g) (simp_all add: known_grade_def cap_grade_def min_def)

lemma reachable_known:
  assumes "\<forall>b\<in>set bs. known_grade (Some (br_grade b))" "known_grade (ee_cap_grade e)" "r \<in> reachable_grades e bs names st"
  shows "known_grade r"
proof -
  obtain f where r: "r = cap_grade (ee_cap_grade e) (fst (select bs f))"
    using assms(3) by (auto simp: reachable_grades_def)
  have "known_grade (fst (select bs f))"
    using assms(1) select_grade_is_branch [of bs f] by (cases "fst (select bs f)") (auto simp: known_grade_def)
  then show ?thesis
    using assms(2) known_cap_grade r by blast
qed

lemma the_single_in: "the_single xs = Some g \<Longrightarrow> Some g \<in> set xs"
  by (auto simp: the_single_def split: list.splits)

lemma assemble_decision_total:
  assumes "\<forall>b\<in>set bs. known_grade (Some (br_grade b))" "known_grade (ee_cap_grade e)" "known_grade (ee_override_grade e)"
  shows "\<exists>d. assemble_decision P tags ctx pack e st rows policy names (ladder_outcomes bs names st) = Inr d"
proof -
  let ?gs = "capped_grades e (ladder_outcomes bs names st)"
  have "known_grade (the_single ?gs)"
  proof (cases "the_single ?gs")
    case (Some g)
    have "Some g \<in> reachable_grades e bs names st"
      using the_single_in [OF Some] unfolding set_capped_grades .
    then show ?thesis
      using reachable_known [OF assms(1,2)] Some by simp
  qed (simp add: known_grade_def)
  then have "known_grade (if st = Decided then or_else (ee_override_grade e) (the_single ?gs) else None)" for st
    using assms(3) by (simp add: or_else_def known_grade_def)
  then have lab: "\<exists>l. grade_label (if st = Decided then or_else (ee_override_grade e) (the_single ?gs) else None) = Inr l" for st
    by (rule grade_label_known)
  obtain s where s: "canonical_json P (section_basis (ee_rule_ids e)) = Inr s"
    using canonical_json_finite [of "section_basis (ee_rule_ids e)"] by (auto simp: section_basis_def)
  obtain h where h: "canonical_hash P (tags_asdict tags) = Inr h"
    using canonical_hash_finite [OF json_finite_tags] by blast
  obtain status gaps where sg: "derive_status ?gs (elements_in Unresolved rows) (additional_of rows) policy e = (status, gaps)"
    by fastforce
  obtain l where "grade_label (if status = Decided then or_else (ee_override_grade e) (the_single ?gs) else None) = Inr l"
    using lab by blast
  then show ?thesis
    unfolding assemble_decision_def Let_def additional_of_def [symmetric] sg prod.case s h bindE.simps by simp
qed

lemma dict_items_in:
  assumes "kv \<in> set (dict_items kvs)"
  shows "kv \<in> set kvs"
proof -
  obtain k where k: "k \<in> fst ` set kvs" "kv = (k, the (dict_of kvs k))"
    using assms by (auto simp: dict_items_def)
  then obtain v where "dict_of kvs k = Some v"
    using dict_of_None_iff [of kvs k] by auto
  then show ?thesis
    using k dict_of_SomeD by fastforce
qed

lemma classify_elements_total:
  assumes "\<forall>(el, ns)\<in>set els. \<exists>d. element_lookup defs el = Some d \<and> json_finite (JObj (ed_basis d))"
  shows "\<exists>rows. classify_elements P defs st els = Inr rows"
  using assms
proof (induction els)
  case (Cons x els)
  obtain el ns where x: "x = (el, ns)" by fastforce
  obtain d where d: "element_lookup defs el = Some d" "json_finite (JObj (ed_basis d))"
    using Cons.prems x by auto
  have "json_finite (JObj (dict_items ((py ''element_id'', JStr el) # ed_basis d)))"
    using d(2) by (auto dest!: dict_items_in)
  then obtain b where "canonical_json P (JObj (dict_items ((py ''element_id'', JStr el) # ed_basis d))) = Inr b"
    using canonical_json_finite by blast
  then show ?case
    using Cons x d by (auto simp: classify_elements_def)
qed (simp add: classify_elements_def)

lemma evaluate_scoped_total:
  assumes "apply_source_exceptions tags ctx pack dec = Inr e" "pack_elements pack = Inr defs"
    and "\<forall>(el, ns)\<in>set (MAPPINGS (ct_track tags)). \<exists>d. element_lookup defs el = Some d \<and> json_finite (JObj (ed_basis d))"
    and "file_content pack (rubric_path (ct_track tags)) = Inr rubric" "additional_policy rubric = Inr policy"
    and "rubric_branches rubric = Inr bs0" "bs = dec127_branches dec (ct_track tags) bs0"
    and "length (ladder_names bs (ct_track tags)) \<le> 12"
    and "\<forall>b\<in>set bs. known_grade (Some (br_grade b))" "known_grade (ee_cap_grade e)" "known_grade (ee_override_grade e)"
  shows "\<exists>d. evaluate_scoped P tags ctx pack a dec = Inr d"
proof -
  obtain rows where rows: "classify_elements P defs (engine_state tags e a) (MAPPINGS (ct_track tags)) = Inr rows"
    using classify_elements_total [OF assms(3)] by blast
  obtain d where "assemble_decision P tags ctx pack e (engine_state tags e a) rows policy (ladder_names bs (ct_track tags))
      (ladder_outcomes bs (ladder_names bs (ct_track tags)) (engine_state tags e a)) = Inr d"
    using assemble_decision_total [OF assms(9-11)] by blast
  moreover obtain h where "canonical_hash P (JObj
                  [(py ''engine_version'', JStr (engine_version tags)), (py ''tags'', tags_asdict tags),
                   (py ''context'', context_asdict ctx), (py ''pack_sha256'', JStr (rp_sha256 pack)),
                   (py ''decision'', decision_asdict d)]) = Inr h"
    using canonical_hash_finite by fastforce
  ultimately show ?thesis
    using assms(1,2,4-8) rows by (simp add: evaluate_scoped_def Let_def)
qed

end
