(* ===== verification/Shipped.thy ===== *)
theory Shipped
  imports Engine_Correct
begin

text \<open>
  The shipped rule files (\<^verbatim>\<open>config/rubric/*.yaml\<close> and \<^verbatim>\<open>config/regulatory/safe_harbor.yaml\<close>, version \<^verbatim>\<open>proofops-domain-v2.0-impl2\<close>) as the
  canonical JSON a pack retains (keys in order), the pack they form, and what the shipped ladders mean: the grade each
  track's ladder gives as a closed formula in its facts, and that adding evidence never lowers it.

  Keys the engine never reads (display names, headers, approval notes) are left out. The sample
  claims at the end are the inputs on which the engine's properties are instantiated; \<open>sample_platform\<close> hashes to
  a constant, which none of those properties depends on.
\<close>

section \<open>Rule files\<close>

definition jb :: "(string \<times> json) list \<Rightarrow> json" where
  "jb kvs = JObj (map (\<lambda>(k, v). (py k, v)) kvs)"

definition element_row :: "string \<Rightarrow> string option \<Rightarrow> string list \<Rightarrow> json" where
  "element_row i trigger scopes = jb
     [(''basis'', jb [(''clause'', JNull), (''source_section'', JStr (py ''4.5'')),
                      (''verification_status'', JStr (py ''unverified''))]),
      (''id'', JStr (py i)), (''source_scopes'', str_list (map py scopes)),
      (''trigger'', (case trigger of None \<Rightarrow> JNull | Some t \<Rightarrow> JStr (py t)))]"

definition elements_yaml :: json where
  "elements_yaml = jb [(''elements'', JList [
     element_row ''G1'' None [''local_claim'', ''same_table''],
     element_row ''G2'' None [''local_claim'', ''same_table''],
     element_row ''G3'' None [''local_claim'', ''same_table'', ''explicit_link''],
     element_row ''G4'' None [''local_claim'', ''same_table'', ''global_bound''],
     element_row ''G5'' None [''local_claim'', ''same_table''],
     element_row ''G6'' None [''local_claim'', ''explicit_link''],
     element_row ''G7'' (Some ''offset_or_carbon_neutral_claim'') [''local_claim'', ''explicit_link''],
     element_row ''G8'' (Some ''science_based_claim'') [''local_claim'', ''global_bound''],
     element_row ''P1'' None [''local_claim'', ''same_table''],
     element_row ''P2'' None [''local_claim'', ''same_table''],
     element_row ''P3'' None [''local_claim'', ''same_table'', ''global_bound''],
     element_row ''P4'' None [''global_bound''],
     element_row ''P5'' (Some ''reduction_or_improvement_claim'') [''local_claim'', ''same_table''],
     element_row ''P6'' None [''computed_check''],
     element_row ''M1'' None [''local_claim'', ''same_table''],
     element_row ''M2'' None [''local_claim'', ''same_table'', ''global_bound''],
     element_row ''M3'' None [''local_claim'', ''global_bound''],
     element_row ''M4'' None [''local_claim'', ''same_table''],
     element_row ''M5'' (Some ''governance_claim'') [''local_claim'', ''explicit_link''],
     element_row ''M6'' (Some ''compensation_link_claim'') [''local_claim'', ''explicit_link'']])]"

definition when_row :: "string \<Rightarrow> (string \<times> bool) list \<Rightarrow> string \<Rightarrow> json" where
  "when_row i conds g = jb [(''grade'', JStr (py g)), (''id'', JStr (py i)),
     (''when'', jb (map (\<lambda>(k, b). (k, JBool b)) conds))]"

definition all_row :: "string \<Rightarrow> string list \<Rightarrow> string \<Rightarrow> json" where
  "all_row i names g = jb [(''grade'', JStr (py g)), (''id'', JStr (py i)), (''require_all'', str_list (map py names))]"

definition goal_rows :: "json list" where
  "goal_rows =
     [jb [(''cap'', JBool True), (''grade'', JStr (py ''E1'')), (''id'', JStr (py ''GOAL_NO_YEAR_EXCEPTION'')),
          (''when'', jb [(''target_metric'', JBool True), (''target_year'', JBool False), (''transition_plan'', JBool True)])],
      when_row ''GOAL_NO_YEAR'' [(''exception_applies'', False), (''target_year'', False)] ''E0'',
      all_row ''GOAL_E3'' [''target_year'', ''target_metric'', ''baseline_year'', ''baseline_value'', ''scope'',
        ''org_boundary'', ''current_progress'', ''transition_plan''] ''E3'',
      all_row ''GOAL_E2'' [''target_year'', ''target_metric'', ''baseline_year'', ''baseline_value'', ''scope'',
        ''org_boundary''] ''E2'',
      all_row ''GOAL_E1'' [''target_year'', ''target_metric''] ''E1'']"

definition performance_rows :: "json list" where
  "performance_rows =
     [when_row ''PERF_NO_VALUE'' [(''quantitative_or_qualified_ordinal'', False)] ''E0'',
      all_row ''PERF_E3'' [''quantitative_or_qualified_ordinal'', ''unit_or_qualified_ordinal'', ''comparison_baseline'',
        ''calculation_boundary'', ''method'', ''assurance_covered''] ''E3'',
      all_row ''PERF_E2'' [''quantitative_or_qualified_ordinal'', ''unit_or_qualified_ordinal'', ''comparison_baseline'',
        ''calculation_boundary''] ''E2'',
      all_row ''PERF_E1'' [''quantitative_or_qualified_ordinal'', ''unit_or_qualified_ordinal''] ''E1'']"

definition management_rows :: "json list" where
  "management_rows =
     [all_row ''MGMT_E3'' [''named_means_or_concrete_state'', ''org_boundary'', ''external_verification''] ''E3'',
      all_row ''MGMT_E2'' [''named_means_or_concrete_state'', ''org_boundary''] ''E2'',
      all_row ''MGMT_E1'' [''named_means_or_concrete_state''] ''E1'',
      when_row ''MGMT_WILLINGNESS'' [(''willingness_only'', True)] ''E0'']"

definition rubric_yaml :: "json list \<Rightarrow> (string \<times> json) list \<Rightarrow> json" where
  "rubric_yaml rows extra = jb ([(''additional_element_policy'', JStr (py ''report_without_grade_effect'')),
     (''branches'', JList rows)] @ extra)"

definition exceptions_yaml :: json where
  "exceptions_yaml = jb [(''superlative'', jb [(''enabled'', JBool True), (''with_safe_harbor'', JStr (py ''GAP-006''))])]"

definition product_variant_yaml :: "(string \<times> json) list" where
  "product_variant_yaml = [(''product_variant'', jb
     [(''e2_plus_requires'', JStr (py ''direct_product_material_ratio_or_target'')),
      (''generic_boundary_interaction'', JStr (py ''GAP-007'')), (''specific_names_only_cap'', JStr (py ''E1''))])]"

definition safe_harbor_yaml :: json where
  "safe_harbor_yaml = jb [(''category_checklists'', jb
       [(''emissions_estimate'', str_list (map py [''identified_as_estimate'', ''estimation_method'', ''uncertainty''])),
        (''forward_looking'', str_list (map py [''assumptions'', ''scenario_or_premises''])),
        (''third_party_information'', str_list (map py [''source_named'', ''acquisition_context'', ''limitations'']))]),
     (''grade_mapping'', JNull), (''reasonable_basis_boolean_mapping'', JNull)]"

definition shipped_content :: "(pystr \<times> json) list" where
  "shipped_content =
     [(py ''rubric/elements.yaml'', elements_yaml),
      (py ''rubric/goal.yaml'', rubric_yaml goal_rows []),
      (py ''rubric/performance.yaml'', rubric_yaml performance_rows []),
      (py ''rubric/management.yaml'', rubric_yaml management_rows product_variant_yaml),
      (py ''rubric/exceptions.yaml'', exceptions_yaml),
      (py ''regulatory/safe_harbor.yaml'', safe_harbor_yaml)]"

definition goal_branches :: "branch list" where
  "goal_branches = (case mapE branch_of goal_rows of Inr bs \<Rightarrow> bs | Inl _ \<Rightarrow> [])"

definition performance_branches :: "branch list" where
  "performance_branches = (case mapE branch_of performance_rows of Inr bs \<Rightarrow> bs | Inl _ \<Rightarrow> [])"

definition management_branches :: "branch list" where
  "management_branches = (case mapE branch_of management_rows of Inr bs \<Rightarrow> bs | Inl _ \<Rightarrow> [])"

definition shipped_branches :: "track \<Rightarrow> branch list" where
  "shipped_branches t = (case t of Goal \<Rightarrow> goal_branches | Performance \<Rightarrow> performance_branches
     | Management \<Rightarrow> management_branches)"

section \<open>Sample input\<close>

definition hex64 :: pystr where
  "hex64 = replicate 64 48"

definition uuid_of :: "nat \<Rightarrow> pystr" where
  "uuid_of d = py ''00000000-0000-4000-8000-00000000000'' @ [48 + d]"

definition sample_platform :: platform where
  "sample_platform = \<lparr>float_repr = (\<lambda>_. py ''0.0''), sha256_hex = (\<lambda>_. hex64)\<rparr>"

definition shipped_pack :: rule_pack where
  "shipped_pack = \<lparr>rp_rule_pack_id = py ''pack'', rp_tenant_id = uuid_of 1, rp_version = py ''proofops-domain-v2.0-impl2'',
     rp_effective_date = py ''2026-09-25'', rp_mode = py ''disclosure'', rp_status = py ''draft'',
     rp_ontology_version = py ''proofops-elements-1'', rp_source_document_sha256 = hex64, rp_sha256 = hex64,
     rp_files = map fst shipped_content, rp_unresolved_gap_ids = [], rp_approved_by = None,
     rp_approved_at = None, rp_content = shipped_content\<rparr>"

definition sample_context :: rule_context where
  "sample_context = \<lparr>rc_tenant_id = uuid_of 1, rc_document_version_id = uuid_of 2, rc_claim_id = uuid_of 3,
     rc_packet_sha256 = hex64, rc_decision_revision = 1, rc_mode = py ''disclosure'', rc_local_synthetic = True,
     rc_company_id = None, rc_reporting_period = None, rc_industry = None,
     rc_regulatory_axis = py ''advisory_unverified''\<rparr>"

definition sample_ref :: "string \<Rightarrow> source_ref" where
  "sample_ref q = \<lparr>sr_source_id = uuid_of 4, sr_document_version_id = uuid_of 2, sr_parse_manifest_id = uuid_of 5,
     sr_page_num = 1, sr_printed_page_label = None, sr_bbox = None, sr_raw_text_sha256 = hex64,
     sr_quote = py q, sr_char_start = 0, sr_char_end = int (length q),
     sr_location_quality = Located, sr_verification_state = Verified\<rparr>"

definition present_fact :: "string \<Rightarrow> confirmed_fact" where
  "present_fact n = (plain_fact (py n) Present)\<lparr>cf_evidence_refs := [sample_ref ''evidence''],
     cf_source_tenant_id := Some (uuid_of 1), cf_citation_verified := True, cf_binding_accepted := True\<rparr>"

definition absent_fact :: "string \<Rightarrow> confirmed_fact" where
  "absent_fact n = (plain_fact (py n) Absent)\<lparr>cf_search_coverage_verified := True\<rparr>"

definition sample_tags :: "track \<Rightarrow> string list \<Rightarrow> string list \<Rightarrow> confirmed_tags" where
  "sample_tags t present absent = \<lparr>ct_tenant_id = uuid_of 1, ct_document_version_id = uuid_of 2,
     ct_claim_id = uuid_of 3, ct_track = t,
     ct_facts = map present_fact present @ map absent_fact absent, ct_tag_revision = 1,
     ct_packet_sha256 = hex64, ct_model_sha256 = hex64, ct_prompt_sha256 = hex64,
     ct_replicate_hashes = [hex64, hex64, hex64], ct_ontology_version = py ''proofops-elements-1'',
     ct_safe_harbor_category = None, ct_superlative_quote = None, ct_product_variant = False\<rparr>"

section \<open>Reading the shipped files\<close>

fun json_sorted :: "json \<Rightarrow> bool" where
  "json_sorted (JList vs) = (\<forall>v \<in> set vs. json_sorted v)"
| "json_sorted (JObj kvs) = (sorted (map fst kvs) \<and> (\<forall>kv \<in> set kvs. json_sorted (snd kv)))"
| "json_sorted _ = True"

lemma json_norm_fixpoint: "json_sorted v \<Longrightarrow> json_norm v = v"
proof (induction v rule: json_norm.induct)
  case (2 kvs)
  then have "map (\<lambda>kv. (fst kv, json_norm (snd kv))) kvs = kvs"
    by (intro map_idI) auto
  then show ?case
    using 2 by (simp add: sort_key_id_if_sorted)
qed (auto intro: map_idI)

lemma json_sorted_jb: "json_sorted (jb kvs) \<longleftrightarrow> sorted (map (py \<circ> fst) kvs) \<and> (\<forall>kv \<in> set kvs. json_sorted (snd kv))"
  by (simp add: jb_def comp_def case_prod_beta)

lemma json_sorted_str_list [simp]: "json_sorted (str_list xs)"
  by (auto simp: str_list_def)

lemma json_sorted_all_row [simp]: "json_sorted (all_row i ns g)"
  by (simp add: all_row_def json_sorted_jb) (simp add: py_def)

lemma json_sorted_element_row [simp]: "json_sorted (element_row i t ss)"
  by (simp add: element_row_def json_sorted_jb split: option.splits) (simp add: py_def)

lemma json_sorted_when_row: "sorted (map (py \<circ> fst) conds) \<Longrightarrow> json_sorted (when_row i conds g)"
  by (simp add: when_row_def json_sorted_jb comp_def case_prod_beta) (auto simp: py_def)

lemma elements_yaml_sorted: "json_sorted elements_yaml"
  by (simp add: elements_yaml_def json_sorted_jb)

lemma goal_rows_sorted: "\<forall>v\<in>set goal_rows. json_sorted v"
  by (simp add: goal_rows_def json_sorted_when_row json_sorted_jb) (simp add: json_sorted_when_row py_def)

lemma performance_rows_sorted: "\<forall>v\<in>set performance_rows. json_sorted v"
  by (simp add: performance_rows_def json_sorted_when_row)

lemma management_rows_sorted: "\<forall>v\<in>set management_rows. json_sorted v"
  by (simp add: management_rows_def json_sorted_when_row)

lemma rubric_yaml_sorted: "\<forall>v\<in>set rows. json_sorted v \<Longrightarrow> json_sorted (rubric_yaml rows [])"
  by (simp add: rubric_yaml_def json_sorted_jb) (simp add: py_def)

lemma management_yaml_sorted: "json_sorted (rubric_yaml management_rows product_variant_yaml)"
  using management_rows_sorted
  by (simp add: rubric_yaml_def json_sorted_jb product_variant_yaml_def) (simp add: py_def)

lemma exceptions_yaml_sorted: "json_sorted exceptions_yaml"
  by (simp add: exceptions_yaml_def json_sorted_jb) (simp add: py_def)

definition dict_of_jb :: "json \<Rightarrow> (pystr \<times> json) list" where
  "dict_of_jb v = (case v of JObj d \<Rightarrow> d | _ \<Rightarrow> [])"

definition shipped_rubric :: "track \<Rightarrow> json" where
  "shipped_rubric t = (case t of Goal \<Rightarrow> rubric_yaml goal_rows [] | Performance \<Rightarrow> rubric_yaml performance_rows []
     | Management \<Rightarrow> rubric_yaml management_rows product_variant_yaml)"

lemma shipped_rubric_sorted: "json_sorted (shipped_rubric t)"
  using goal_rows_sorted performance_rows_sorted management_yaml_sorted rubric_yaml_sorted
  by (cases t) (simp_all add: shipped_rubric_def)

lemma file_content_sorted:
  "map_of (rp_content pack) path = Some v \<Longrightarrow> json_sorted v \<Longrightarrow> v = jb kvs \<Longrightarrow>
   file_content pack path = Inr (dict_of_jb v)"
  using json_norm_fixpoint [of v] by (simp add: file_content_def dict_of_jb_def) (simp add: jb_def)

lemma rubric_path_simps:
  "rubric_path Goal = py ''rubric/goal.yaml''" "rubric_path Performance = py ''rubric/performance.yaml''"
  "rubric_path Management = py ''rubric/management.yaml''"
  by (simp_all add: rubric_path_def track_text_def py_def)

lemma shipped_rubric_file:
  "rp_content pack = shipped_content \<Longrightarrow> file_content pack (rubric_path t) = Inr (dict_of_jb (shipped_rubric t))"
  using shipped_rubric_sorted [of t]
  by (cases t) (auto simp: rubric_path_simps shipped_content_def shipped_rubric_def rubric_yaml_def
      intro!: file_content_sorted)

lemma shipped_elements_file:
  "rp_content pack = shipped_content \<Longrightarrow> file_content pack (py ''rubric/elements.yaml'') = Inr (dict_of_jb elements_yaml)"
  using elements_yaml_sorted by (auto simp: shipped_content_def elements_yaml_def intro!: file_content_sorted)

lemma shipped_exceptions_file:
  "rp_content pack = shipped_content \<Longrightarrow> file_content pack (py ''rubric/exceptions.yaml'') = Inr (dict_of_jb exceptions_yaml)"
  using exceptions_yaml_sorted by (auto simp: shipped_content_def exceptions_yaml_def intro!: file_content_sorted)

lemma shipped_safe_harbor_file:
  "rp_content pack = shipped_content \<Longrightarrow> file_content pack (py ''regulatory/safe_harbor.yaml'') = Inr (dict_of_jb safe_harbor_yaml)"
proof -
  have "json_sorted safe_harbor_yaml"
    by (simp add: safe_harbor_yaml_def json_sorted_jb) (simp add: py_def)
  then show "rp_content pack = shipped_content \<Longrightarrow> file_content pack (py ''regulatory/safe_harbor.yaml'') = Inr (dict_of_jb safe_harbor_yaml)"
    by (auto simp: shipped_content_def safe_harbor_yaml_def intro!: file_content_sorted)
qed

lemma shipped_policy: "additional_policy (dict_of_jb (shipped_rubric t)) = Inr (Some ADDITIONAL_REPORT_ONLY)"
  by (cases t) (simp_all add: additional_policy_def shipped_rubric_def rubric_yaml_def jb_def dict_of_jb_def
      ADDITIONAL_REPORT_ONLY_def)

lemmas row_simps = jb_def when_row_def all_row_def str_list_def branch_of_def as_dict_def as_str_def
  as_str_list_def as_list_def as_bool_def jitem_def jdefault_def py_truthy_def

lemma goal_branches_ok: "mapE branch_of goal_rows = Inr goal_branches"
  by (simp add: goal_branches_def goal_rows_def row_simps)

lemma performance_branches_ok: "mapE branch_of performance_rows = Inr performance_branches"
  by (simp add: performance_branches_def performance_rows_def row_simps)

lemma management_branches_ok: "mapE branch_of management_rows = Inr management_branches"
  by (simp add: management_branches_def management_rows_def row_simps)

lemma shipped_branches_ok: "rubric_branches (dict_of_jb (shipped_rubric t)) = Inr (shipped_branches t)"
  using goal_branches_ok performance_branches_ok management_branches_ok
  by (cases t) (simp_all add: rubric_branches_def shipped_rubric_def rubric_yaml_def jb_def dict_of_jb_def
      jitem_def as_list_def shipped_branches_def)

lemma shipped_ladder:
  "rp_content pack = shipped_content \<Longrightarrow> pack_ladder pack t dec = Inr (dec127_branches dec t (shipped_branches t))"
  by (simp add: pack_ladder_def shipped_rubric_file shipped_branches_ok)

lemma mapE_as_str: "mapE as_str (map (\<lambda>x. JStr (f x)) xs) = Inr (map f xs)"
  by (induction xs) (simp_all add: as_str_def)

lemma element_def_of_row:
  "element_def_of (element_row i t ss) = Inr \<lparr>ed_id = py i, ed_trigger = map_option py t, ed_source_scopes = map py ss,
     ed_basis = [(py ''clause'', JNull), (py ''source_section'', JStr (py ''4.5'')),
       (py ''verification_status'', JStr (py ''unverified''))]\<rparr>"
  by (cases t) (simp_all add: element_def_of_def element_row_def jb_def as_dict_def jitem_def as_str_def jopt_def
      str_list_def as_str_list_def as_list_def mapE_as_str comp_def)

lemma shipped_elements:
  assumes "rp_content pack = shipped_content"
  shows "\<exists>defs. pack_elements pack = Inr defs
    \<and> (\<forall>(el, ns)\<in>set (MAPPINGS t). \<exists>d. element_lookup defs el = Some d \<and> json_finite (JObj (ed_basis d)))"
  using shipped_elements_file [OF assms]
  by (cases t) (simp_all add: pack_elements_def elements_yaml_def dict_of_jb_def jb_def jitem_def as_list_def
      element_def_of_row MAPPINGS_def goal_ELEMENTS_def performance_ELEMENTS_def management_ELEMENTS_def
      element_lookup_def dict_of_def)

section \<open>The shipped ladders\<close>

lemma ladder_sizes:
  "length (ladder_names (dec127_branches False Goal (shipped_branches Goal)) Goal) = 8"
  "length (ladder_names (dec127_branches False Performance (shipped_branches Performance)) Performance) = 6"
  "length (ladder_names (dec127_branches False Management (shipped_branches Management)) Management) = 4"
  "length (ladder_names (dec127_branches True Management (shipped_branches Management)) Management) = 3"
  by code_simp+

lemma shipped_names: "length (ladder_names (dec127_branches dec t (shipped_branches t)) t) \<le> 12"
proof -
  have "dec127_branches dec t bs = dec127_branches (dec \<and> t = Management) t bs" for bs
    by (simp add: dec127_branches_def)
  then show ?thesis
    using ladder_sizes by (cases t; cases dec) simp_all
qed

lemma shipped_known: "b \<in> set (dec127_branches dec t (shipped_branches t)) \<Longrightarrow> known_grade (Some (br_grade b))"
  by (cases t) (auto simp: shipped_branches_def goal_branches_def performance_branches_def management_branches_def
      goal_rows_def performance_rows_def management_rows_def row_simps dec127_branches_def known_grade_def
      GRADE_LABEL_MAP_def split: if_splits)

definition goal_grade :: "(pystr \<Rightarrow> bool) \<Rightarrow> pystr option" where
  "goal_grade f =
     (let year = f (py ''target_year''); metric = f (py ''target_metric''); plan = f (py ''transition_plan'')
      in if \<not> year then Some (if metric \<and> plan then py ''E1'' else py ''E0'')
         else if \<not> metric then None
         else if f (py ''baseline_year'') \<and> f (py ''baseline_value'') \<and> f (py ''scope'') \<and> f (py ''org_boundary'')
         then Some (if f (py ''current_progress'') \<and> plan then py ''E3'' else py ''E2'')
         else Some (py ''E1''))"

definition performance_grade :: "(pystr \<Rightarrow> bool) \<Rightarrow> pystr option" where
  "performance_grade f =
     (if \<not> f (py ''quantitative_or_qualified_ordinal'') then Some (py ''E0'')
      else if \<not> f (py ''unit_or_qualified_ordinal'') then None
      else if f (py ''comparison_baseline'') \<and> f (py ''calculation_boundary'')
      then Some (if f (py ''method'') \<and> f (py ''assurance_covered'') then py ''E3'' else py ''E2'')
      else Some (py ''E1''))"

definition management_grade :: "(pystr \<Rightarrow> bool) \<Rightarrow> pystr option" where
  "management_grade f =
     (if f (py ''named_means_or_concrete_state'')
      then Some (if \<not> f (py ''org_boundary'') then py ''E1''
                 else if f (py ''external_verification'') then py ''E3'' else py ''E2'')
      else if f (py ''willingness_only'') then Some (py ''E0'') else None)"

lemma grade_less: "py ''E0'' < py ''E1''" "py ''E0'' < py ''E2''" "py ''E0'' < py ''E3''"
  "py ''E1'' < py ''E2''" "py ''E1'' < py ''E3''" "py ''E2'' < py ''E3''"
  by (simp_all add: py_def)

lemmas grade_leq = grade_less [THEN less_imp_le] grade_less [unfolded less_le_not_le, THEN conjunct2]
  grade_less [THEN less_not_sym]

lemmas select_simps = select_def with_exception_def branch_matches_def branch_conditions_def
  max_def less_eq_prod_def grade_less grade_leq

lemma management_ladder: "fst (select management_branches f) = management_grade f"
  by (cases "f (py ''named_means_or_concrete_state'')"; cases "f (py ''org_boundary'')";
      cases "f (py ''external_verification'')"; cases "f (py ''willingness_only'')")
    (simp_all add: management_branches_def management_rows_def row_simps select_simps management_grade_def)

lemma performance_ladder: "fst (select performance_branches f) = performance_grade f"
  by (cases "f (py ''quantitative_or_qualified_ordinal'')"; cases "f (py ''unit_or_qualified_ordinal'')";
      cases "f (py ''comparison_baseline'') \<and> f (py ''calculation_boundary'')";
      cases "f (py ''method'') \<and> f (py ''assurance_covered'')")
    (auto simp: performance_branches_def performance_rows_def row_simps select_simps performance_grade_def)

lemma goal_ladder: "fst (select goal_branches f) = goal_grade f"
  by (cases "f (py ''target_year'')"; cases "f (py ''target_metric'')"; cases "f (py ''transition_plan'')";
      cases "f (py ''baseline_year'') \<and> f (py ''baseline_value'') \<and> f (py ''scope'') \<and> f (py ''org_boundary'')";
      cases "f (py ''current_progress'')")
    (auto simp: goal_branches_def goal_rows_def row_simps select_simps goal_grade_def)

text \<open>\<open>more_evidence\<close>: every fact stated stays stated.\<close>

definition more_evidence :: "(pystr \<Rightarrow> bool) \<Rightarrow> (pystr \<Rightarrow> bool) \<Rightarrow> bool" where
  "more_evidence f f' \<longleftrightarrow> (\<forall>n. f n \<longrightarrow> f' n)"

definition shipped_grade :: "track \<Rightarrow> (pystr \<Rightarrow> bool) \<Rightarrow> pystr option" where
  "shipped_grade t f = (case t of Goal \<Rightarrow> goal_grade f | Performance \<Rightarrow> performance_grade f
     | Management \<Rightarrow> management_grade f)"

lemma shipped_ladder_grade: "fst (select (shipped_branches t) f) = shipped_grade t f"
  by (cases t) (simp_all add: shipped_branches_def shipped_grade_def goal_ladder performance_ladder management_ladder)

lemma shipped_grade_mono:
  assumes "more_evidence f f'" "shipped_grade t f = Some g" "shipped_grade t f' = Some g'"
  shows "g \<le> g'"
proof (cases t)
  case Goal
  then show ?thesis
    using assms by (auto simp: more_evidence_def shipped_grade_def goal_grade_def Let_def grade_leq split: if_splits)
next
  case Performance
  then show ?thesis
    using assms by (auto simp: more_evidence_def shipped_grade_def performance_grade_def grade_leq split: if_splits)
next
  case Management
  then show ?thesis
    using assms by (auto simp: more_evidence_def shipped_grade_def management_grade_def grade_leq split: if_splits)
qed

lemma shipped_cap_known:
  assumes "rp_content pack = shipped_content" "apply_source_exceptions tags ctx pack dec = Inr e"
  shows "known_grade (ee_cap_grade e)" "known_grade (ee_override_grade e)"
proof -
  have "known_grade cap" if "product_step tags st pack = Inr (cap, gaps, more, rules)" for st cap gaps more rules
    using that shipped_rubric_file [OF assms(1), of Management]
    by (auto simp: product_step_def bindE_Inr_iff rubric_path_simps shipped_rubric_def rubric_yaml_def
        product_variant_yaml_def jb_def dict_of_jb_def jitem_def as_dict_def as_str_def known_grade_def
        GRADE_LABEL_MAP_def split: if_splits)
  then have cap: "known_grade (ee_cap_grade e)" if "remaining_exceptions tags st pack u = Inr e" for st u
    using that by (auto simp: remaining_exceptions_def bindE_Inr_iff)
  have "known_grade None" "known_grade (Some (py ''E0''))"
    by (simp_all add: known_grade_def GRADE_LABEL_MAP_def)
  then show "known_grade (ee_cap_grade e)"
    using assms(2) cap
    by (auto simp: apply_source_exceptions_def bindE_Inr_iff Let_def no_effect_def split: if_splits)
  show "known_grade (ee_override_grade e)"
    using override_effect [OF assms(2)] \<open>known_grade None\<close> \<open>known_grade (Some (py ''E0''))\<close>
    by (cases "ee_override_grade e") auto
qed

lemma shipped_total:
  assumes "rp_content pack = shipped_content" "apply_source_exceptions tags ctx pack dec = Inr e"
  shows "\<exists>d. evaluate_scoped P tags ctx pack a dec = Inr d"
proof -
  obtain defs where "pack_elements pack = Inr defs"
    "\<forall>(el, ns)\<in>set (MAPPINGS (ct_track tags)). \<exists>d. element_lookup defs el = Some d \<and> json_finite (JObj (ed_basis d))"
    using shipped_elements [OF assms(1)] by blast
  then show ?thesis
    using evaluate_scoped_total [OF assms(2) _ _ shipped_rubric_file [OF assms(1)] shipped_policy shipped_branches_ok refl
        shipped_names] shipped_known shipped_cap_known [OF assms] by blast
qed

section \<open>The sample claims pass the trust boundary\<close>

lemma shipped_pack_content: "rp_content shipped_pack = shipped_content"
  by (simp add: shipped_pack_def)

lemma shipped_scopes:
  "\<exists>defs allowed. pack_elements shipped_pack = Inr defs \<and> allowed_scopes defs t = Inr allowed
    \<and> (\<forall>n. n \<noteq> py ''assurance_covered'' \<and> n \<noteq> py ''numerical_check'' \<longrightarrow> py ''local_claim'' \<in> set (fact_scopes allowed n))"
  by (cases t) (simp_all add: pack_elements_def shipped_elements_file [OF shipped_pack_content] elements_yaml_def
      dict_of_jb_def jb_def jitem_def as_list_def element_def_of_row allowed_scopes_def MAPPINGS_def
      management_ELEMENTS_def goal_ELEMENTS_def performance_ELEMENTS_def element_lookup_def dict_of_def fact_scopes_def)

lemma sample_fact_ok:
  assumes "py ''local_claim'' \<in> set (fact_scopes allowed (py n))" "n \<noteq> ''assurance_covered''"
  shows "validate_fact (sample_tags t ps as) allowed (present_fact n) = Inr ()"
  using assms by (simp add: validate_fact_def present_fact_def plain_fact_def sample_tags_def ref_admissible_def
      sample_ref_def py_strip_Nil_iff) (simp add: py_def py_isspace_def)

lemma absent_fact_ok: "validate_fact tags allowed (absent_fact n) = Inr ()"
  by (simp add: validate_fact_def absent_fact_def plain_fact_def)

lemma sample_validated:
  assumes "''assurance_covered'' \<notin> set ps" "''numerical_check'' \<notin> set ps"
  shows "validate_inputs (sample_tags t ps as) sample_context shipped_pack = Inr ()"
proof -
  obtain defs allowed where pe: "pack_elements shipped_pack = Inr defs" "allowed_scopes defs t = Inr allowed"
    and sc: "\<And>n. n \<noteq> py ''assurance_covered'' \<and> n \<noteq> py ''numerical_check'' \<Longrightarrow> py ''local_claim'' \<in> set (fact_scopes allowed n)"
    using shipped_scopes [of t] by blast
  have "forE (validate_fact (sample_tags t ps as) allowed) (ct_facts (sample_tags t ps as)) = Inr ()"
    unfolding forE_Inr_iff
  proof
    fix f assume "f \<in> set (ct_facts (sample_tags t ps as))"
    then consider n where "n \<in> set ps" "f = present_fact n" | n where "f = absent_fact n"
      by (auto simp: sample_tags_def)
    then show "validate_fact (sample_tags t ps as) allowed f = Inr ()"
    proof cases
      case 1
      then have "n \<noteq> ''assurance_covered''" "n \<noteq> ''numerical_check''"
        using assms by auto
      then show ?thesis
        using sample_fact_ok sc 1 by simp
    qed (simp add: absent_fact_ok)
  qed
  moreover have "ct_track (sample_tags t ps as) = t"
    by (simp add: sample_tags_def)
  ultimately show ?thesis
    using pe unfolding validate_inputs_def
    by (simp add: pe sample_tags_def sample_context_def shipped_pack_def)
qed

lemma sample_exceptions:
  assumes "''assurance_covered'' \<notin> set ps" "''numerical_check'' \<notin> set ps"
    and "''has_superlative'' \<notin> set (ps @ as)" "''categorical_ordinal'' \<notin> set (ps @ as)"
  shows "apply_source_exceptions (sample_tags t ps as) sample_context shipped_pack dec = Inr no_effect"
proof -
  have tf: "tag_facts (sample_tags t ps as) (py n) = None" if "n \<notin> set (ps @ as)" for n
    using that by (auto simp: tag_facts_def dict_of_None_iff sample_tags_def present_fact_def absent_fact_def plain_fact_def)
  have sup: "\<not> has_superlative (sample_tags t ps as) dec"
    using tf [OF assms(3)] by (simp add: has_superlative_def sample_tags_def opt_truthy_def)
  have misc: "ordinal_step (sample_tags t ps as) st = Inr None"
    "product_step (sample_tags t ps as) st shipped_pack = Inr (None, [], [], [])"
    "\<not> opt_truthy (ct_safe_harbor_category (sample_tags t ps as))" for st
    using tf [OF assms(4)] by (simp_all add: ordinal_step_def product_step_def) (simp_all add: sample_tags_def opt_truthy_def)
  show ?thesis
    using sup misc sample_validated [OF assms(1,2)] shipped_exceptions_file [OF shipped_pack_content]
    by (simp add: apply_source_exceptions_def exceptions_yaml_def dict_of_jb_def jb_def jitem_def as_dict_def
        remaining_exceptions_def no_effect_def)
qed

end
