(* ===== verification/Engine_Props.thy ===== *)
theory Engine_Props
  imports Shipped
begin

text \<open>
  The engine's properties, stated over \<open>evaluate_scoped\<close> and \<open>evaluate\<close>, each with an instance on
  the shipped pack.
\<close>

lemma reachable_single_iff:
  "reachable_grades e bs names st = {r} \<longleftrightarrow>
     (\<forall>f. completion names st f \<longrightarrow> cap_grade (ee_cap_grade e) (fst (select bs f)) = r)"
proof
  assume "\<forall>f. completion names st f \<longrightarrow> cap_grade (ee_cap_grade e) (fst (select bs f)) = r"
  then have "reachable_grades e bs names st \<subseteq> {r}"
    by (auto simp: reachable_grades_def)
  then show "reachable_grades e bs names st = {r}"
    using reachable_nonempty [of e bs names st] by (meson subset_singletonD)
qed (auto simp: reachable_grades_def)

section \<open>Instances used by the witnesses\<close>

definition mg_tags :: confirmed_tags where
  "mg_tags = sample_tags Management [''named_means_or_concrete_state''] [''org_boundary'']"

definition open_tags :: confirmed_tags where
  "open_tags = sample_tags Management [''named_means_or_concrete_state''] []"

lemma mg_effect: "apply_source_exceptions mg_tags sample_context shipped_pack dec = Inr no_effect"
  "apply_source_exceptions open_tags sample_context shipped_pack dec = Inr no_effect"
  by (simp_all add: mg_tags_def open_tags_def sample_exceptions)

lemma mg_track: "ct_track mg_tags = Management" "ct_track open_tags = Management"
  by (simp_all add: mg_tags_def open_tags_def sample_tags_def)

lemma mg_total: "\<exists>d. evaluate_scoped sample_platform mg_tags sample_context shipped_pack a dec = Inr d"
  "\<exists>d. evaluate_scoped sample_platform open_tags sample_context shipped_pack a dec = Inr d"
  using shipped_total [OF shipped_pack_content] mg_effect by blast+

lemma management_names:
  "set (ladder_names management_branches Management) = {py ''named_means_or_concrete_state'', py ''org_boundary'',
     py ''external_verification'', py ''willingness_only''}"
  by (simp add: ladder_names_def management_branches_def management_rows_def row_simps) blast

lemma engine_state_no_effect: "engine_state tags no_effect False n = fact_state tags n"
  by (simp add: engine_state_def no_effect_def scoped_def)

lemma mg_states:
  "fact_state mg_tags n = (if n = py ''named_means_or_concrete_state'' then Present
     else if n = py ''org_boundary'' then Absent else Unknown)"
  "fact_state open_tags n = (if n = py ''named_means_or_concrete_state'' then Present else Unknown)"
  by (simp_all add: fact_state_def tag_facts_def mg_tags_def open_tags_def sample_tags_def present_fact_def
      absent_fact_def plain_fact_def dict_of_def)

lemma mg_reachable:
  "reachable_grades no_effect management_branches (ladder_names management_branches Management)
     (engine_state mg_tags no_effect False) = {Some (py ''E1'')}"
proof -
  have "cap_grade (ee_cap_grade no_effect) (fst (select management_branches f)) = Some (py ''E1'')"
    if "completion (ladder_names management_branches Management) (engine_state mg_tags no_effect False) f" for f
  proof -
    have "f (py ''named_means_or_concrete_state'')" "\<not> f (py ''org_boundary'')"
      using that [unfolded completion_def, rule_format, of "py ''named_means_or_concrete_state''"]
        that [unfolded completion_def, rule_format, of "py ''org_boundary''"]
      by (simp_all add: engine_state_no_effect mg_states management_names)
    then show ?thesis
      by (simp add: management_ladder management_grade_def cap_grade_def no_effect_def)
  qed
  then show ?thesis
    by (simp add: reachable_single_iff)
qed

lemma management_pack_ladder: "pack_ladder shipped_pack Management False = Inr management_branches"
  using shipped_ladder [OF shipped_pack_content, of Management False]
  by (simp add: dec127_branches_def shipped_branches_def)

lemma shipped_report_only:
  "\<exists>rubric. file_content shipped_pack (rubric_path t) = Inr rubric \<and> additional_policy rubric = Inr (Some ADDITIONAL_REPORT_ONLY)"
  using shipped_rubric_file [OF shipped_pack_content] shipped_policy by blast

section \<open>Grades and ranges\<close>

text \<open>
  C1. When the engine gives a grade. An exception that leaves a gap or an open element withholds it. Otherwise a superlative override gives exactly its own grade, and
  without an override the engine gives the grade \<open>g\<close> exactly when every completion of the unresolved ladder facts reads \<open>g\<close> off the ladder and the pack does not leave an
  open additional element without a policy. It never guesses an unresolved fact.
\<close>

theorem grade_iff_forced:
  assumes "evaluate_scoped P tags ctx pack a dec = Inr d"
    and "apply_source_exceptions tags ctx pack dec = Inr e"
    and "pack_ladder pack (ct_track tags) dec = Inr bs"
    and "file_content pack (rubric_path (ct_track tags)) = Inr rubric"
    and "additional_policy rubric = Inr policy"
  shows "d_evidence_grade d = Some g \<longleftrightarrow> ee_gap_ids e = [] \<and> ee_unresolved_elements e = []
     \<and> (if opt_truthy (ee_override_grade e) then ee_override_grade e = Some g
        else \<not> additional_open policy d
          \<and> (\<forall>f. completion (ladder_names bs (ct_track tags)) (engine_state tags e a) f
               \<longrightarrow> cap_grade (ee_cap_grade e) (fst (select bs f)) = Some g))"
  using evaluate_grade_cases [OF assms, of g] unfolding reachable_single_iff .

theorem grade_iff_forced_witness:
  "\<exists>d. evaluate_scoped sample_platform mg_tags sample_context shipped_pack False False = Inr d
     \<and> d_evidence_grade d = Some (py ''E1'')"
proof -
  obtain d where d: "evaluate_scoped sample_platform mg_tags sample_context shipped_pack False False = Inr d"
    using mg_total by blast
  obtain rubric where r: "file_content shipped_pack (rubric_path (ct_track mg_tags)) = Inr rubric"
    "additional_policy rubric = Inr (Some ADDITIONAL_REPORT_ONLY)"
    using shipped_report_only by blast
  have "pack_ladder shipped_pack (ct_track mg_tags) False = Inr management_branches"
    by (simp add: management_pack_ladder mg_track)
  from grade_iff_forced [OF d mg_effect(1) this r, of "py ''E1''"] mg_reachable
  have "d_evidence_grade d = Some (py ''E1'')"
    unfolding mg_track reachable_single_iff by (simp add: no_effect_def opt_truthy_def additional_open_def)
  then show ?thesis
    using d by blast
qed

text \<open>
  C2. A published grade range is exact: no grade is given with it, every completion of the unresolved facts reads a
  grade between floor and ceiling, both ends are read by some completion, and the two ends differ.
\<close>

theorem grade_range_exact:
  assumes "evaluate_scoped P tags ctx pack a dec = Inr d"
    and "apply_source_exceptions tags ctx pack dec = Inr e"
    and "pack_ladder pack (ct_track tags) dec = Inr bs"
    and "d_grade_floor d = Some lo" and "d_grade_ceiling d = Some hi"
  defines "compl \<equiv> completion (ladder_names bs (ct_track tags)) (engine_state tags e a)"
    and "reads \<equiv> \<lambda>f. cap_grade (ee_cap_grade e) (fst (select bs f))"
  shows "d_decision_status d = Blocked_evidence \<and> d_evidence_grade d = None \<and> lo < hi
    \<and> (\<forall>f. compl f \<longrightarrow> (\<exists>g. reads f = Some g \<and> lo \<le> g \<and> g \<le> hi))
    \<and> (\<exists>f. compl f \<and> reads f = Some lo) \<and> (\<exists>f. compl f \<and> reads f = Some hi)"
proof -
  let ?R = "reachable_grades e bs (ladder_names bs (ct_track tags)) (engine_state tags e a)"
  note rng = evaluate_range [OF assms(1-4)]
  have hi: "hi = Max {g. Some g \<in> ?R}"
    using rng(4) assms(5) by simp
  have R: "?R = {reads f | f. compl f}"
    by (simp add: reachable_grades_def compl_def reads_def)
  have att: "Some lo \<in> ?R" "Some hi \<in> ?R"
    using reachable_attained [OF rng(5,1)] reachable_nonempty rng(3) hi by blast+
  have bounds: "\<exists>g. r = Some g \<and> lo \<le> g \<and> g \<le> hi" if "r \<in> ?R" for r
    using reachable_bounds [OF rng(5,1) that] rng(3) hi by simp
  have "lo \<noteq> hi"
  proof
    assume "lo = hi"
    then have "?R \<subseteq> {Some lo}"
      using bounds by force
    then have "card ?R \<le> 1"
      using card_mono [of "{Some lo}" ?R] by simp
    then show False
      using rng(2) by simp
  qed
  moreover have "lo \<le> hi"
    using bounds [OF att(1)] by auto
  ultimately show ?thesis
    using rng(6,7) att bounds unfolding R by (auto simp: less_le)
qed

lemma open_reachable:
  "reachable_grades no_effect management_branches (ladder_names management_branches Management)
     (engine_state open_tags no_effect False) = {Some (py ''E1''), Some (py ''E2''), Some (py ''E3'')}"
  (is "?R = _")
proof (intro equalityI subsetI)
  fix r assume "r \<in> ?R"
  then obtain f where f: "completion (ladder_names management_branches Management) (engine_state open_tags no_effect False) f"
    and r: "r = cap_grade (ee_cap_grade no_effect) (fst (select management_branches f))"
    by (auto simp: reachable_grades_def)
  have "f (py ''named_means_or_concrete_state'')"
    using f [unfolded completion_def, rule_format, of "py ''named_means_or_concrete_state''"]
    by (simp add: engine_state_no_effect mg_states management_names)
  then show "r \<in> {Some (py ''E1''), Some (py ''E2''), Some (py ''E3'')}"
    by (simp add: r management_ladder management_grade_def cap_grade_def no_effect_def)
next
  let ?f = "\<lambda>b v n. n = py ''named_means_or_concrete_state'' \<or> b \<and> n = py ''org_boundary'' \<or> v \<and> n = py ''external_verification''"
  have "completion (ladder_names management_branches Management) (engine_state open_tags no_effect False) (?f b v)" for b v
    by (simp add: completion_def engine_state_no_effect mg_states management_names)
  then have "cap_grade (ee_cap_grade no_effect) (fst (select management_branches (?f b v))) \<in> ?R" for b v
    unfolding reachable_grades_def by blast
  from this [of False False] this [of True False] this [of True True]
  show "r \<in> ?R" if "r \<in> {Some (py ''E1''), Some (py ''E2''), Some (py ''E3'')}" for r
    using that by (auto simp: management_ladder management_grade_def cap_grade_def no_effect_def)
qed

lemma evaluate_range_published:
  assumes ev: "evaluate_scoped P tags ctx pack a dec = Inr d"
    and ex: "apply_source_exceptions tags ctx pack dec = Inr e"
    and lad: "pack_ladder pack (ct_track tags) dec = Inr bs"
    and pol: "file_content pack (rubric_path (ct_track tags)) = Inr rubric"
      "additional_policy rubric = Inr (Some ADDITIONAL_REPORT_ONLY)"
    and eff: "ee_override_grade e = None" "ee_gap_ids e = []" "ee_unresolved_elements e = []"
    and R: "R = reachable_grades e bs (ladder_names bs (ct_track tags)) (engine_state tags e a)" "None \<notin> R" "2 \<le> card R"
  shows "d_grade_floor d = Some (Min {g. Some g \<in> R}) \<and> d_grade_ceiling d = Some (Max {g. Some g \<in> R})"
  using ev ex lad
proof (cases rule: evaluate_scoped_parts)
  case (1 defs rows rubric' policy d0)
  let ?gs = "capped_grades e (ladder_outcomes bs (ladder_names bs (ct_track tags)) (engine_state tags e a))"
  note asm = assemble_decision_Inr [OF 1(5)]
  have p: "policy = Some ADDITIONAL_REPORT_ONLY"
    using 1 pol by simp
  have Rs: "set ?gs = R" and dist: "distinct ?gs"
    unfolding R(1) by (simp_all add: set_capped_grades) (simp add: capped_grades_def)
  then have len: "1 < length ?gs"
    using R(3) distinct_card [OF dist] by simp
  have eqs: "d_grade_floor d = d_grade_floor d0" "d_grade_ceiling d = d_grade_ceiling d0"
    by (subst 1(6), simp)+
  have "fst (derive_status ?gs u add policy e) = Blocked_evidence" for u add
    using len p eff by (simp add: derive_status_def Let_def opt_truthy_def)
  then show ?thesis
    using asm(9,10) len p eff R(2) by (simp add: has_grade_range_def set_present_grades Rs eqs)
qed

theorem grade_range_exact_witness:
  "\<exists>d. evaluate_scoped sample_platform open_tags sample_context shipped_pack False False = Inr d
     \<and> d_grade_floor d = Some (py ''E1'') \<and> d_grade_ceiling d = Some (py ''E3'') \<and> d_evidence_grade d = None"
proof -
  let ?R = "{Some (py ''E1''), Some (py ''E2''), Some (py ''E3'')}"
  obtain d where d: "evaluate_scoped sample_platform open_tags sample_context shipped_pack False False = Inr d"
    using mg_total by blast
  obtain rubric where r: "file_content shipped_pack (rubric_path (ct_track open_tags)) = Inr rubric"
    "additional_policy rubric = Inr (Some ADDITIONAL_REPORT_ONLY)"
    using shipped_report_only by blast
  have lad: "pack_ladder shipped_pack (ct_track open_tags) False = Inr management_branches"
    by (simp add: management_pack_ladder mg_track)
  have S: "{g. Some g \<in> ?R} = {py ''E1'', py ''E2'', py ''E3''}"
    by auto
  have "d_grade_floor d = Some (Min {g. Some g \<in> ?R}) \<and> d_grade_ceiling d = Some (Max {g. Some g \<in> ?R})"
    by (rule evaluate_range_published [OF d mg_effect(2) lad r])
      (simp_all add: no_effect_def open_reachable [unfolded no_effect_def] mg_track)
  then have "d_grade_floor d = Some (py ''E1'')" "d_grade_ceiling d = Some (py ''E3'')"
    unfolding S by (simp_all add: min_def max_def grade_leq)
  then show ?thesis
    using grade_range_exact [OF d mg_effect(2) lad] d by blast
qed

text \<open>
  C15. Resolving evidence never overturns a grade: where the later facts answer every question the earlier ones answered, in the same way, and the source exceptions
  have the same effect, an earlier grade is the later grade, and a later grade lies in the earlier range. This holds with and without a policy for additional elements
  and with and without an override.
\<close>

theorem resolution_is_monotone:
  assumes "evaluate_scoped P tags ctx pack a dec = Inr d" "evaluate_scoped P tags' ctx' pack a dec = Inr d'"
    and "apply_source_exceptions tags ctx pack dec = Inr e" "apply_source_exceptions tags' ctx' pack dec = Inr e"
    and "ct_track tags' = ct_track tags"
    and "refines (engine_state tags' e a) (engine_state tags e a)"
  shows "(d_evidence_grade d = Some g \<longrightarrow> d_evidence_grade d' = Some g)
    \<and> (d_grade_floor d = Some lo \<and> d_grade_ceiling d = Some hi \<and> d_evidence_grade d' = Some g' \<longrightarrow> lo \<le> g' \<and> g' \<le> hi)"
proof -
  obtain bs rubric policy where lad: "pack_ladder pack (ct_track tags) dec = Inr bs"
      "file_content pack (rubric_path (ct_track tags)) = Inr rubric" "additional_policy rubric = Inr policy"
    by (rule evaluate_scoped_Inr [OF assms(1)]) (rule that)
  let ?R = "reachable_grades e bs (ladder_names bs (ct_track tags)) (engine_state tags e a)"
  let ?R' = "reachable_grades e bs (ladder_names bs (ct_track tags)) (engine_state tags' e a)"
  let ?grade = "\<lambda>d R x. ee_gap_ids e = [] \<and> ee_unresolved_elements e = []
    \<and> (if opt_truthy (ee_override_grade e) then ee_override_grade e = Some x else \<not> additional_open policy d \<and> R = {Some x})"
  have sub: "?R' \<subseteq> ?R"
    using reachable_refines [OF assms(6)] .
  have iff: "d_evidence_grade d = Some x \<longleftrightarrow> ?grade d ?R x" for x
    using evaluate_grade_cases [OF assms(1,3) lad] .
  have iff': "d_evidence_grade d' = Some x \<longleftrightarrow> ?grade d' ?R' x" for x
    using evaluate_grade_cases [OF assms(2,4), of bs rubric policy x] lad assms(5) by simp
  have "?grade d' ?R' g" if "?grade d ?R g"
    using that sub reachable_nonempty additional_open_refines [OF assms(1-4) lad(1) assms(5,6), of policy]
    by (auto simp: subset_singleton_iff split: if_splits)
  moreover have "lo \<le> g' \<and> g' \<le> hi" if r: "d_grade_floor d = Some lo" "d_grade_ceiling d = Some hi" "?grade d' ?R' g'"
  proof -
    note rng = evaluate_range [OF assms(1,3) lad(1) r(1)]
    have "\<not> opt_truthy (ee_override_grade e)"
    proof
      assume t: "opt_truthy (ee_override_grade e)"
      then obtain x where "ee_override_grade e = Some x" by (cases "ee_override_grade e") (auto simp: opt_truthy_def)
      with t rng(8,9) iff have "d_evidence_grade d = Some x" by simp
      with rng(7) show False by simp
    qed
    with r(3) have "?R' = {Some g'}" by simp
    then show ?thesis
      using reachable_bounds [OF rng(5,1), of "Some g'"] sub r(2) rng(3,4) by auto
  qed
  ultimately show ?thesis
    using iff iff' by blast
qed

definition more_tags :: confirmed_tags where
  "more_tags = sample_tags Management [''named_means_or_concrete_state''] [''org_boundary'', ''external_verification'']"

lemma more_effect: "apply_source_exceptions more_tags sample_context shipped_pack dec = Inr no_effect"
  by (simp add: more_tags_def sample_exceptions)

theorem resolution_is_monotone_witness:
  "\<exists>d d'. evaluate_scoped sample_platform mg_tags sample_context shipped_pack False False = Inr d
     \<and> evaluate_scoped sample_platform more_tags sample_context shipped_pack False False = Inr d'
     \<and> d_evidence_grade d = Some (py ''E1'') \<and> d_evidence_grade d' = Some (py ''E1'')"
proof -
  obtain d d' where d: "evaluate_scoped sample_platform mg_tags sample_context shipped_pack False False = Inr d"
    "evaluate_scoped sample_platform more_tags sample_context shipped_pack False False = Inr d'"
    using mg_total shipped_total [OF shipped_pack_content more_effect] by blast
  have track: "ct_track more_tags = ct_track mg_tags"
    by (simp add: mg_track) (simp add: more_tags_def sample_tags_def)
  have ref: "refines (engine_state more_tags no_effect False) (engine_state mg_tags no_effect False)"
    by (simp add: refines_def engine_state_no_effect mg_states resolved_def)
      (simp add: fact_state_def tag_facts_def more_tags_def sample_tags_def present_fact_def absent_fact_def
        plain_fact_def dict_of_def)
  obtain rubric where r: "file_content shipped_pack (rubric_path (ct_track mg_tags)) = Inr rubric"
    "additional_policy rubric = Inr (Some ADDITIONAL_REPORT_ONLY)"
    using shipped_report_only by blast
  have lad: "pack_ladder shipped_pack (ct_track mg_tags) False = Inr management_branches" by (simp add: management_pack_ladder mg_track)
  have "d_evidence_grade d = Some (py ''E1'')"
    using evaluate_grade_iff [OF d(1) mg_effect(1) lad r] mg_reachable by (simp add: mg_track no_effect_def)
  then show ?thesis
    using resolution_is_monotone [OF d mg_effect(1) more_effect track ref] d by blast
qed

section \<open>The trust boundary\<close>

text \<open>
  C3. Whatever the engine evaluates passed the trust boundary: the tags, the context and the pack are of one tenant,
  the tags of the same document, claim and packet as the context, and every fact taken as present rests only on verified, located,
  non-blank evidence of that document and tenant, in a scope its element allows (or the approved baseline scope), never on an
  explicit link; outside local synthetic use the pack is active and approved.
\<close>

theorem evaluated_inputs_are_trusted:
  assumes "evaluate_scoped P tags ctx pack a dec = Inr d"
  shows "ct_tenant_id tags = rc_tenant_id ctx \<and> rp_tenant_id pack = rc_tenant_id ctx
    \<and> ct_document_version_id tags = rc_document_version_id ctx \<and> ct_claim_id tags = rc_claim_id ctx
    \<and> ct_packet_sha256 tags = rc_packet_sha256 ctx
    \<and> (rc_local_synthetic ctx \<or> rp_status pack = py ''active'' \<and> opt_truthy (rp_approved_by pack) \<and> opt_truthy (rp_approved_at pack))
    \<and> (\<exists>defs allowed. pack_elements pack = Inr defs \<and> allowed_scopes defs (ct_track tags) = Inr allowed
       \<and> (\<forall>f\<in>set (ct_facts tags). cf_state f = Present \<longrightarrow> cf_source_tenant_id f = Some (ct_tenant_id tags)
          \<and> (\<forall>r\<in>set (cf_evidence_refs f). sr_document_version_id r = ct_document_version_id tags
               \<and> sr_verification_state r = Verified \<and> sr_location_quality r = Located
               \<and> py_strip (sr_quote r) \<noteq> [] \<and> sr_char_start r < sr_char_end r)
          \<and> (cf_source_scope f \<in> set (fact_scopes allowed (cf_name f)) \<and> cf_source_scope f \<noteq> py ''explicit_link''
             \<or> approved_fact (ct_track tags) f)))"
proof -
  note v = validate_inputs_Inr [OF evaluate_scoped_validated [OF assms]]
  obtain defs allowed where da: "pack_elements pack = Inr defs" "allowed_scopes defs (ct_track tags) = Inr allowed"
    and f: "\<And>f. f \<in> set (ct_facts tags) \<Longrightarrow> validate_fact tags allowed f = Inr ()"
    using v(8) by blast
  note p = validate_fact_present [OF f]
  show ?thesis
    using v(1-7) da p(1-3) unfolding list_all_iff ref_admissible_def by metis
qed

theorem evaluated_inputs_are_trusted_witness:
  "\<exists>d. evaluate_scoped sample_platform mg_tags sample_context shipped_pack False False = Inr d
     \<and> ct_tenant_id mg_tags = rc_tenant_id sample_context \<and> rc_local_synthetic sample_context"
proof -
  obtain d where d: "evaluate_scoped sample_platform mg_tags sample_context shipped_pack False False = Inr d"
    using mg_total by blast
  have "rc_local_synthetic sample_context"
    by (simp add: sample_context_def)
  then show ?thesis
    using evaluated_inputs_are_trusted [OF d] d by blast
qed

section \<open>Exceptions\<close>

lemma evaluate_scoped_summary:
  assumes "evaluate_scoped P tags ctx pack a dec = Inr d"
  obtains e defs rows policy grades sg where
    "apply_source_exceptions tags ctx pack dec = Inr e" "pack_elements pack = Inr defs"
    "classify_elements P defs (engine_state tags e a) (MAPPINGS (ct_track tags)) = Inr rows"
    "sg = derive_status grades (elements_in Unresolved rows) (additional_of rows) policy e"
    "d_decision_status d = fst sg"
    "d_evidence_grade d = (if fst sg = Decided then or_else (ee_override_grade e) (the_single grades) else None)"
    "grade_label (d_evidence_grade d) = Inr (d_label d)"
    "d_missing_elements d = elements_in Missing rows" "d_excluded_elements d = elements_in Excluded rows"
    "d_unresolved_elements d = elements_in Unresolved rows @ ee_unresolved_elements e"
    "d_review_status d = (if fst sg = Decided \<and> d_unresolved_elements d = [] then py ''auto_confirmed'' else py ''needs_review'')"
    "set (snd sg) \<subseteq> set (d_gap_ids d)" "set (ee_rule_ids e) \<subseteq> set (d_rule_ids d)"
  using assms
proof (cases rule: evaluate_scoped_Inr)
  case (1 e defs rows rubric policy bs d0)
  note asm = assemble_decision_Inr [OF 1(8)]
  have eqs: "d_decision_status d = d_decision_status d0" "d_evidence_grade d = d_evidence_grade d0" "d_label d = d_label d0"
    "d_missing_elements d = d_missing_elements d0" "d_excluded_elements d = d_excluded_elements d0"
    "d_unresolved_elements d = d_unresolved_elements d0" "d_review_status d = d_review_status d0"
    "d_gap_ids d = d_gap_ids d0" "d_rule_ids d = d_rule_ids d0"
    by (subst 1(9), simp)+
  show ?thesis
    by (rule that [OF 1(1-3) refl]) (unfold eqs, (rule asm(1-8) asm(13))+)
qed

text \<open>
  A safe-harbor claim is never graded: its decision is a rule gap that names GAP-001, without grade, label or range
  end, and it goes to review.
\<close>

theorem safe_harbor_is_never_graded:
  assumes "evaluate_scoped P tags ctx pack a dec = Inr d" and "opt_truthy (ct_safe_harbor_category tags)"
  shows "d_decision_status d = Blocked_rule_gap \<and> py ''GAP-001'' \<in> set (d_gap_ids d) \<and> d_evidence_grade d = None
    \<and> d_label d = None \<and> d_review_status d = py ''needs_review''"
  using assms(1)
proof (cases rule: evaluate_scoped_summary)
  case (1 e defs rows policy grades sg)
  have gap: "py ''GAP-001'' \<in> set (ee_gap_ids e)"
    using safe_harbor_effect [OF 1(1) assms(2)] by simp
  then have "ee_gap_ids e \<noteq> []"
    by auto
  then have "fst sg = Blocked_rule_gap" "py ''GAP-001'' \<in> set (snd sg)"
    using derive_status_gap [of e grades "elements_in Unresolved rows" "additional_of rows" policy] gap
    unfolding 1(4) by blast+
  then show ?thesis
    using 1(5-7,11,12) by (auto simp: grade_label_def opt_truthy_def)
qed

lemma validate_inputs_cong:
  assumes "ct_tenant_id t' = ct_tenant_id t" "ct_document_version_id t' = ct_document_version_id t"
    "ct_claim_id t' = ct_claim_id t" "ct_packet_sha256 t' = ct_packet_sha256 t"
    "ct_ontology_version t' = ct_ontology_version t" "ct_track t' = ct_track t" "ct_facts t' = ct_facts t"
  shows "validate_inputs t' ctx pack = validate_inputs t ctx pack"
proof -
  have "ref_admissible t' = ref_admissible t"
    by (simp add: fun_eq_iff ref_admissible_def assms)
  then have "validate_fact t' = validate_fact t"
    by (intro ext) (simp add: validate_fact_def assms)
  then show ?thesis
    by (simp add: validate_inputs_def assms)
qed

definition harbor_tags :: confirmed_tags where
  "harbor_tags = mg_tags\<lparr>ct_safe_harbor_category := Some (py ''forward_looking'')\<rparr>"

lemma harbor_validated: "validate_inputs harbor_tags sample_context shipped_pack = Inr ()"
  using validate_inputs_cong [of harbor_tags mg_tags] sample_validated
  by (simp add: harbor_tags_def) (simp add: mg_tags_def)

lemma harbor_effect: "\<exists>e. apply_source_exceptions harbor_tags sample_context shipped_pack False = Inr e"
  using shipped_exceptions_file [OF shipped_pack_content] harbor_validated
  by (auto simp: apply_source_exceptions_def exceptions_yaml_def dict_of_jb_def jb_def jitem_def as_dict_def as_str_def
      harbor_tags_def opt_truthy_def)

theorem safe_harbor_is_never_graded_witness:
  "\<exists>d. evaluate_scoped sample_platform harbor_tags sample_context shipped_pack False False = Inr d
     \<and> d_decision_status d = Blocked_rule_gap \<and> d_evidence_grade d = None"
proof -
  obtain d where d: "evaluate_scoped sample_platform harbor_tags sample_context shipped_pack False False = Inr d"
    using shipped_total [OF shipped_pack_content] harbor_effect by blast
  have "opt_truthy (ct_safe_harbor_category harbor_tags)"
    by (simp add: harbor_tags_def opt_truthy_def)
  from safe_harbor_is_never_graded [OF d this] show ?thesis
    using d by blast
qed

text \<open>
  The superlative override: in a pack that enables it, a claim outside the safe harbor whose superlative is quoted by a present
  fact's evidence, with comparison basis and external verification both absent, is decided E0 whatever the ladder says.
\<close>

theorem superlative_is_E0:
  assumes "evaluate_scoped P tags ctx pack a dec = Inr d"
    and "file_content pack (py ''rubric/exceptions.yaml'') = Inr exc"
    and "map_of exc (py ''superlative'') = Some (JObj special)" "map_of special (py ''enabled'') = Some (JBool True)"
    and "\<not> opt_truthy (ct_safe_harbor_category tags)" "has_superlative tags dec" "superlative_grounded tags"
    and "scoped dec (fact_state tags (py ''comparison_basis'')) = Absent"
    and "scoped dec (fact_state tags (py ''external_verification'')) = Absent"
  shows "d_decision_status d = Decided \<and> d_evidence_grade d = Some (py ''E0'')
    \<and> d_label d = Some (py ''UNSUBSTANTIATED'') \<and> py ''SUPERLATIVE_E0'' \<in> set (d_rule_ids d)"
  using assms(1)
proof (cases rule: evaluate_scoped_summary)
  case (1 e defs rows policy grades sg)
  have ops: "\<forall>n\<in>set superlative_operands. scoped dec (fact_state tags n) = Absent"
    using assms(8,9) by (simp add: superlative_operands_def)
  have "ee_override_grade e = Some (py ''E0'')"
    using superlative_effect [OF 1(1) assms(2-7) ops] .
  moreover from this have "ee_gap_ids e = []" "ee_unresolved_elements e = []" "ee_rule_ids e = [py ''SUPERLATIVE_E0'']"
    using override_effect [OF 1(1)] by auto
  ultimately show ?thesis
    using 1(4-7,13) by (auto simp: derive_status_decided opt_truthy_def or_else_def grade_label_def GRADE_LABEL_MAP_def)
qed

definition best_tags :: confirmed_tags where
  "best_tags = (sample_tags Management [''has_superlative''] [''comparison_basis'', ''external_verification''])
     \<lparr>ct_superlative_quote := Some (py ''evidence'')\<rparr>"

lemma best_validated: "validate_inputs best_tags sample_context shipped_pack = Inr ()"
  using validate_inputs_cong [of best_tags "sample_tags Management [''has_superlative''] [''comparison_basis'', ''external_verification'']"]
    sample_validated by (simp add: best_tags_def)

lemma best_states:
  "tag_facts best_tags (py ''has_superlative'') = Some (present_fact ''has_superlative'')"
  "fact_state best_tags (py ''comparison_basis'') = Absent" "fact_state best_tags (py ''external_verification'') = Absent"
  by (simp_all add: fact_state_def tag_facts_def best_tags_def sample_tags_def present_fact_def absent_fact_def
      plain_fact_def dict_of_def)

lemma best_grounded: "has_superlative best_tags False" "superlative_grounded best_tags"
  "\<not> opt_truthy (ct_safe_harbor_category best_tags)"
proof -
  show "has_superlative best_tags False" "\<not> opt_truthy (ct_safe_harbor_category best_tags)"
    by (simp_all add: has_superlative_def best_tags_def opt_truthy_def sample_tags_def)
  have "py_strip (py ''evidence'') \<noteq> []" "py_contains (py ''evidence'') (py ''evidence'')"
    by (simp_all add: py_strip_Nil_iff py_contains_iff) (simp add: py_def py_isspace_def, metis append_Nil append_Nil2)
  then show "superlative_grounded best_tags"
    by (simp add: superlative_grounded_def best_states) (simp add: best_tags_def present_fact_def plain_fact_def sample_ref_def)
qed

lemma best_special:
  "\<exists>exc special. file_content shipped_pack (py ''rubric/exceptions.yaml'') = Inr exc
     \<and> map_of exc (py ''superlative'') = Some (JObj special) \<and> map_of special (py ''enabled'') = Some (JBool True)"
  using shipped_exceptions_file [OF shipped_pack_content]
  by (auto simp: exceptions_yaml_def dict_of_jb_def jb_def)

theorem superlative_is_E0_witness:
  "\<exists>d. evaluate_scoped sample_platform best_tags sample_context shipped_pack False False = Inr d
     \<and> d_evidence_grade d = Some (py ''E0'')"
proof -
  obtain exc special where f: "file_content shipped_pack (py ''rubric/exceptions.yaml'') = Inr exc"
     "map_of exc (py ''superlative'') = Some (JObj special)" "map_of special (py ''enabled'') = Some (JBool True)"
    using best_special by blast
  have st: "list_all (\<lambda>n. scoped False (fact_state best_tags n) = Absent) superlative_operands"
    by (simp add: superlative_operands_def scoped_def best_states)
  have "\<exists>e. apply_source_exceptions best_tags sample_context shipped_pack False = Inr e"
    using f st best_validated best_grounded
    by (simp add: apply_source_exceptions_def jitem_def as_dict_def py_truthy_def)
  then obtain d where d: "evaluate_scoped sample_platform best_tags sample_context shipped_pack False False = Inr d"
    using shipped_total [OF shipped_pack_content] by blast
  show ?thesis
    using superlative_is_E0 [OF d f best_grounded(3,1,2)] d by (simp add: scoped_def best_states)
qed

section \<open>Shape of a decision\<close>

text \<open>
  A decision is coherent: it carries a grade exactly when it is decided, its label is the grade's entry of the label map and absent
  without a grade, it is confirmed automatically exactly when it is decided and nothing is unresolved, and a claim with an
  unresolved exception operand or a rule gap from an exception is not decided.
\<close>

theorem decision_is_coherent:
  assumes "evaluate_scoped P tags ctx pack a dec = Inr d" and "apply_source_exceptions tags ctx pack dec = Inr e"
  shows "(d_evidence_grade d \<noteq> None) = (d_decision_status d = Decided)
    \<and> (d_evidence_grade d = None \<or> opt_truthy (d_evidence_grade d) = (d_label d \<noteq> None))
    \<and> (d_label d = None \<or> map_of GRADE_LABEL_MAP (the (d_evidence_grade d)) = d_label d)
    \<and> (d_review_status d = py ''auto_confirmed'') = (d_decision_status d = Decided \<and> d_unresolved_elements d = [])
    \<and> (d_decision_status d \<noteq> Decided \<or> ee_gap_ids e = [] \<and> ee_unresolved_elements e = [])"
  using assms(1)
proof (cases rule: evaluate_scoped_summary)
  case (1 e' defs rows policy grades sg)
  have e: "e' = e"
    using 1(1) assms(2) by simp
  have grade: "(d_evidence_grade d \<noteq> None) = (d_decision_status d = Decided)"
    using 1(5,6) unfolding 1(4) by (auto simp: derive_status_decided or_else_def opt_truthy_def split: option.splits)
  have "(d_evidence_grade d = None \<or> opt_truthy (d_evidence_grade d) = (d_label d \<noteq> None))
    \<and> (d_label d = None \<or> map_of GRADE_LABEL_MAP (the (d_evidence_grade d)) = d_label d)"
    using 1(7) by (auto simp: grade_label_def split: if_splits option.splits)
  moreover have "d_decision_status d \<noteq> Decided \<or> ee_gap_ids e = [] \<and> ee_unresolved_elements e = []"
    using 1(4,5) by (simp add: derive_status_decided e)
  ultimately show ?thesis
    using grade 1(5,11) by simp
qed

theorem decision_is_coherent_witness:
  "\<exists>d. evaluate_scoped sample_platform mg_tags sample_context shipped_pack False False = Inr d
     \<and> (d_evidence_grade d \<noteq> None) = (d_decision_status d = Decided)"
proof -
  obtain d where d: "evaluate_scoped sample_platform mg_tags sample_context shipped_pack False False = Inr d"
    using mg_total by blast
  show ?thesis
    using decision_is_coherent [OF d mg_effect(1)] d by blast
qed

text \<open>
  Absence is never inferred: an element is reported missing only when one of its facts is confirmed absent and all of them are
  resolved; missing, unresolved and excluded elements are elements of the claim's track and the three reports do not overlap.
\<close>

theorem missing_needs_confirmed_absence:
  assumes "evaluate_scoped P tags ctx pack a dec = Inr d" and "apply_source_exceptions tags ctx pack dec = Inr e"
  shows "(\<forall>el\<in>set (d_missing_elements d). \<exists>names. (el, names) \<in> set (MAPPINGS (ct_track tags))
       \<and> (\<exists>n\<in>set names. engine_state tags e a n = Absent) \<and> (\<forall>n\<in>set names. resolved (engine_state tags e a n)))
    \<and> set (d_missing_elements d) \<inter> set (d_excluded_elements d) = {}
    \<and> (\<forall>el\<in>set (d_unresolved_elements d). el \<in> set (ee_unresolved_elements e)
         \<or> el \<notin> set (d_missing_elements d) \<and> el \<notin> set (d_excluded_elements d) \<and> el \<in> fst ` set (MAPPINGS (ct_track tags)))"
  using assms(1)
proof (cases rule: evaluate_scoped_summary)
  case (1 e' defs rows policy grades sg)
  have e: "e' = e"
    using 1(1) assms(2) by simp
  have rows_fst: "map fst rows = map fst (MAPPINGS (ct_track tags))"
    using classify_elements_fst [OF 1(3)] .
  have uniq: "c = c'" if "(el, c, b) \<in> set rows" "(el, c', b') \<in> set rows" for el c c' b b'
    using that MAPPINGS_distinct [of "ct_track tags"] unfolding rows_fst [symmetric]
    by (metis Pair_inject map_of_eq_Some_iff option.inject)
  have in_els: "el \<in> fst ` set (MAPPINGS (ct_track tags))" if "(el, c, b) \<in> set rows" for el c b
    using that rows_fst by (metis fst_conv image_eqI list.set_map)
  have "\<exists>names. (el, names) \<in> set (MAPPINGS (ct_track tags))
       \<and> (\<exists>n\<in>set names. engine_state tags e a n = Absent) \<and> (\<forall>n\<in>set names. resolved (engine_state tags e a n))"
    if "(el, Missing, b) \<in> set rows" for el b
    using classify_elements_row [OF 1(3) that] classify_missing e by metis
  then show ?thesis
    unfolding 1(8-10) e using uniq in_els by (auto simp: elements_in_iff) blast+
qed

theorem missing_needs_confirmed_absence_witness:
  "\<exists>d. evaluate_scoped sample_platform mg_tags sample_context shipped_pack False False = Inr d
     \<and> set (d_missing_elements d) \<inter> set (d_excluded_elements d) = {}"
proof -
  obtain d where d: "evaluate_scoped sample_platform mg_tags sample_context shipped_pack False False = Inr d"
    using mg_total by blast
  show ?thesis
    using missing_needs_confirmed_absence [OF d mg_effect(1)] d by blast
qed

section \<open>The shipped pack\<close>

text \<open>
  On the shipped rule files the evaluator cannot fail after the trust boundary: whenever the exception step accepts the input,
  in either scope mode and on every platform, a decision is returned.
\<close>

theorem shipped_evaluation_returns:
  assumes "rp_content pack = shipped_content" and "apply_source_exceptions tags ctx pack dec = Inr e"
  shows "\<exists>d. evaluate_scoped P tags ctx pack a dec = Inr d"
  using shipped_total [OF assms] .

theorem shipped_evaluation_returns_witness:
  "\<exists>d. evaluate_scoped sample_platform more_tags sample_context shipped_pack True False = Inr d"
  by (rule shipped_evaluation_returns [OF shipped_pack_content more_effect])

text \<open>
  More evidence never lowers a grade: on the shipped files, when a second claim of the same track states every fact the first one
  states, neither is touched by a cap or an override, and both are graded, the second grade is at least the first.
\<close>

theorem shipped_grades_are_monotone:
  assumes "rp_content pack = shipped_content"
    and "evaluate_scoped P tags ctx pack a False = Inr d" "evaluate_scoped P tags' ctx' pack a False = Inr d'"
    and "apply_source_exceptions tags ctx pack False = Inr e" "apply_source_exceptions tags' ctx' pack False = Inr e'"
    and "ee_override_grade e = None" "ee_cap_grade e = None" "ee_override_grade e' = None" "ee_cap_grade e' = None"
    and "ct_track tags' = ct_track tags"
    and "\<forall>n. engine_state tags e a n = Present \<longrightarrow> engine_state tags' e' a n = Present"
    and "d_evidence_grade d = Some g" "d_evidence_grade d' = Some g'"
  shows "g \<le> g'"
proof -
  let ?t = "ct_track tags" and ?names = "ladder_names (shipped_branches (ct_track tags)) (ct_track tags)"
  let ?f = "\<lambda>n. n \<in> set ?names \<and> engine_state tags e a n = Present"
  let ?f' = "\<lambda>n. n \<in> set ?names \<and> engine_state tags' e' a n = Present"
  have lad: "pack_ladder pack ?t False = Inr (shipped_branches ?t)"
    using shipped_ladder [OF assms(1)] by (simp add: dec127_branches_def)
  note grade = evaluate_grade_iff [OF _ _ _ shipped_rubric_file [OF assms(1)] shipped_policy, unfolded reachable_single_iff]
  have "cap_grade (ee_cap_grade e) (fst (select (shipped_branches ?t) ?f)) = Some g"
    using grade [OF assms(2,4) lad assms(6), of g] completion_exists assms(12) by blast
  moreover have "cap_grade (ee_cap_grade e') (fst (select (shipped_branches ?t) ?f')) = Some g'"
    using grade [OF assms(3,5) _ assms(8), of "shipped_branches ?t" g'] lad completion_exists assms(10,13) by auto
  moreover have "more_evidence ?f ?f'"
    using assms(11) by (simp add: more_evidence_def)
  ultimately show ?thesis
    using shipped_grade_mono [of ?f ?f' ?t g g'] assms(7,9) by (simp add: cap_grade_def shipped_ladder_grade)
qed

theorem shipped_grades_are_monotone_witness:
  "\<exists>d. evaluate_scoped sample_platform mg_tags sample_context shipped_pack False False = Inr d
     \<and> d_evidence_grade d = Some (py ''E1'') \<and> py ''E1'' \<le> py ''E1''"
proof -
  obtain d where d: "evaluate_scoped sample_platform mg_tags sample_context shipped_pack False False = Inr d"
    using mg_total by blast
  obtain rubric where r: "file_content shipped_pack (rubric_path (ct_track mg_tags)) = Inr rubric"
    "additional_policy rubric = Inr (Some ADDITIONAL_REPORT_ONLY)"
    using shipped_report_only by blast
  have lad: "pack_ladder shipped_pack (ct_track mg_tags) False = Inr management_branches"
    by (simp add: management_pack_ladder mg_track)
  have ne: "ee_override_grade no_effect = None" "ee_cap_grade no_effect = None"
    by (simp_all add: no_effect_def)
  have g: "d_evidence_grade d = Some (py ''E1'')"
    using evaluate_grade_iff [OF d mg_effect(1) lad r ne(1)] mg_reachable by (simp add: mg_track no_effect_def)
  show ?thesis
    using shipped_grades_are_monotone [OF shipped_pack_content d d mg_effect(1) mg_effect(1) ne ne refl _ g g] d g by blast
qed

section \<open>The display envelope\<close>

lemma evaluate_grade_reachable:
  assumes ev: "evaluate_scoped P tags ctx pack a dec = Inr d"
    and ex: "apply_source_exceptions tags ctx pack dec = Inr e"
    and lad: "pack_ladder pack (ct_track tags) dec = Inr bs"
    and g: "d_evidence_grade d = Some g"
  shows "ee_gap_ids e = []" "ee_unresolved_elements e = []"
    "if opt_truthy (ee_override_grade e) then ee_override_grade e = Some g
     else Some g \<in> reachable_grades e bs (ladder_names bs (ct_track tags)) (engine_state tags e a)"
proof -
  let ?gs = "capped_grades e (ladder_outcomes bs (ladder_names bs (ct_track tags)) (engine_state tags e a))"
  have "ee_gap_ids e = [] \<and> ee_unresolved_elements e = []
    \<and> (if opt_truthy (ee_override_grade e) then ee_override_grade e = Some g else the_single ?gs = Some g)"
    using ev ex lad
  proof (cases rule: evaluate_scoped_parts)
    case (1 defs rows rubric policy d0)
    have "d_evidence_grade d0 = Some g"
      using g by (subst (asm) 1(6)) simp
    then show ?thesis
      using assemble_decision_Inr(2) [OF 1(5)]
      by (auto simp: derive_status_decided or_else_def split: if_splits)
  qed
  then show "ee_gap_ids e = []" "ee_unresolved_elements e = []"
    "if opt_truthy (ee_override_grade e) then ee_override_grade e = Some g
     else Some g \<in> reachable_grades e bs (ladder_names bs (ct_track tags)) (engine_state tags e a)"
    using the_single_in [of ?gs g] by (auto simp: set_capped_grades split: if_splits)
qed

lemma display_state_default:
  "(case display_state (Some tags) (Some e) n of None \<Rightarrow> Unknown | Some s \<Rightarrow> s) = engine_state tags e False n"
  by (auto simp: display_state_def engine_state_def fact_state_def scoped_def split: option.splits)

lemma display_track_Inr:
  assumes "pack_ladder pack (ct_track tags) False = Inr bs"
    and "display_track pack (display_state (Some tags) (Some e)) (ct_track tags) = Inr (gs, opens)"
  shows "set gs = {fst (select bs f) | f. completion (ladder_names bs (ct_track tags)) (engine_state tags e False) f}"
proof -
  have "(\<lambda>n. case display_state (Some tags) (Some e) n of None \<Rightarrow> Unknown | Some s \<Rightarrow> s) = engine_state tags e False"
    using display_state_default by blast
  then have "gs = grade_set (ladder_outcomes bs (ladder_names bs (ct_track tags)) (engine_state tags e False))"
    using assms by (auto simp: display_track_def pack_ladder_def dec127_branches_def bindE_Inr_iff Let_def split: if_splits)
  then show ?thesis
    by (auto simp: grade_set_def ladder_outcomes_completions)
qed

definition display_cap :: "pystr option \<Rightarrow> pystr \<Rightarrow> pystr" where
  "display_cap cap g = (if opt_truthy cap then min g (the cap) else g)"

lemma display_grade_range_Inr:
  assumes "display_grade_range pack (Some (tags, ctx)) = Inr r"
    and "apply_source_exceptions tags ctx pack False = Inr e" "pack_ladder pack (ct_track tags) False = Inr bs"
    and "ee_gap_ids e = []" "ee_unresolved_elements e = []"
  defines "G \<equiv> {fst (select bs f) | f. completion (ladder_names bs (ct_track tags)) (engine_state tags e False) f}"
  obtains S where "gr_floor r = Min S" "gr_ceiling r = Max S" "finite S" "S \<noteq> {}"
    "if opt_truthy (ee_override_grade e) then S = {the (ee_override_grade e)}
     else display_cap (ee_cap_grade e) ` {g. Some g \<in> G} \<subseteq> S
       \<and> (None \<notin> G \<longrightarrow> S = display_cap (ee_cap_grade e) ` {g. Some g \<in> G})"
proof -
  obtain gs opens where dt: "display_track pack (display_state (Some tags) (Some e)) (ct_track tags) = Inr (gs, opens)"
    using assms(1,2) by (auto simp: display_grade_range_def bindE_Inr_iff Let_def)
  have gs: "set gs = G"
    using display_track_Inr [OF assms(3) dt] by (simp add: G_def)
  obtain extra where extra: "(if None \<in> set gs then pack_grades pack else Inr []) = Inr extra"
    using assms(1,2,4) dt by (auto simp: display_grade_range_def bindE_Inr_iff Let_def)
  let ?r1 = "present_grades gs @ extra"
  let ?S = "set (if opt_truthy (ee_override_grade e) then [the (ee_override_grade e)] else map (display_cap (ee_cap_grade e)) ?r1)"
  have "gr_floor r = Min ?S \<and> gr_ceiling r = Max ?S \<and> ?S \<noteq> {}"
    using assms(1,2,4,5) dt extra
    by (cases "opt_truthy (ee_override_grade e)"; cases "opt_truthy (ee_cap_grade e)")
      (auto simp: display_grade_range_def Let_def display_cap_def split: if_splits)
  moreover have "if opt_truthy (ee_override_grade e) then ?S = {the (ee_override_grade e)}
     else display_cap (ee_cap_grade e) ` {g. Some g \<in> G} \<subseteq> ?S
       \<and> (None \<notin> G \<longrightarrow> ?S = display_cap (ee_cap_grade e) ` {g. Some g \<in> G})"
    using extra by (auto simp: set_present_grades gs)
  ultimately show ?thesis
    using that [of ?S] by blast
qed

lemma cap_display: "cap_grade cap (Some x) = Some y \<Longrightarrow> display_cap cap x = y"
  by (auto simp: cap_grade_def display_cap_def opt_truthy_def split: option.splits if_splits)

lemma reachable_display:
  assumes "None \<notin> reachable_grades e bs names st"
  defines "G \<equiv> {fst (select bs f) | f. completion names st f}"
  shows "None \<notin> G" "display_cap (ee_cap_grade e) ` {g. Some g \<in> G} = {g. Some g \<in> reachable_grades e bs names st}"
proof -
  have R: "reachable_grades e bs names st = cap_grade (ee_cap_grade e) ` G"
    by (auto simp: reachable_grades_def G_def)
  have "cap_grade (ee_cap_grade e) None = None"
    by (auto simp: cap_grade_def split: option.splits)
  then show G: "None \<notin> G"
    using assms(1) unfolding R by (metis imageI)
  have some: "\<exists>y. cap_grade (ee_cap_grade e) (Some x) = Some y" if "Some x \<in> G" for x
    using assms(1) that unfolding R by (metis imageI not_None_eq)
  show "display_cap (ee_cap_grade e) ` {g. Some g \<in> G} = {g. Some g \<in> reachable_grades e bs names st}"
  proof (intro equalityI subsetI)
    fix y assume "y \<in> display_cap (ee_cap_grade e) ` {g. Some g \<in> G}"
    then obtain x where "Some x \<in> G" "y = display_cap (ee_cap_grade e) x" by blast
    then show "y \<in> {g. Some g \<in> reachable_grades e bs names st}"
      using some cap_display unfolding R by (metis imageI mem_Collect_eq)
  next
    fix y assume "y \<in> {g. Some g \<in> reachable_grades e bs names st}"
    then obtain x' where x': "x' \<in> G" "cap_grade (ee_cap_grade e) x' = Some y"
      unfolding R by auto
    then obtain x where "x' = Some x"
      using G by (cases x') auto
    then show "y \<in> display_cap (ee_cap_grade e) ` {g. Some g \<in> G}"
      using x' cap_display by blast
  qed
qed

lemma range_not_overridden:
  assumes "evaluate_scoped P tags ctx pack a dec = Inr d" "apply_source_exceptions tags ctx pack dec = Inr e"
    and "pack_ladder pack (ct_track tags) dec = Inr bs" "d_grade_floor d = Some lo"
  shows "\<not> opt_truthy (ee_override_grade e)"
  using assms(1)
proof (cases rule: evaluate_scoped_summary)
  case (1 e' defs rows policy grades sg)
  have "d_decision_status d \<noteq> Decided" "ee_gap_ids e = []" "ee_unresolved_elements e = []"
    using evaluate_range [OF assms] by simp_all
  moreover have "e' = e"
    using 1(1) assms(2) by simp
  ultimately show ?thesis
    using 1(4,5) by (simp add: derive_status_decided)
qed

text \<open>
  The display envelope agrees with the decision: a grade the engine gives lies between the envelope's floor and ceiling, and where the
  engine publishes a range the envelope is that range.
\<close>

theorem display_encloses_decision:
  assumes "evaluate P tags ctx pack = Inr d" and "display_grade_range pack (Some (tags, ctx)) = Inr r"
  shows "(d_evidence_grade d = Some g \<longrightarrow> gr_floor r \<le> g \<and> g \<le> gr_ceiling r)
    \<and> (d_grade_floor d = Some lo \<longrightarrow> gr_floor r = lo \<and> d_grade_ceiling d = Some (gr_ceiling r))"
proof -
  have ev: "evaluate_scoped P tags ctx pack False False = Inr d"
    using assms(1) by (simp add: evaluate_def split: if_splits)
  then obtain e bs where e: "apply_source_exceptions tags ctx pack False = Inr e"
    and bs: "pack_ladder pack (ct_track tags) False = Inr bs"
    using evaluate_scoped_Inr by blast
  let ?G = "{fst (select bs f) | f. completion (ladder_names bs (ct_track tags)) (engine_state tags e False) f}"
  let ?R = "reachable_grades e bs (ladder_names bs (ct_track tags)) (engine_state tags e False)"
  have "gr_floor r \<le> g \<and> g \<le> gr_ceiling r" if g: "d_evidence_grade d = Some g"
  proof -
    note gr = evaluate_grade_reachable [OF ev e bs g]
    obtain S where S: "gr_floor r = Min S" "gr_ceiling r = Max S" "finite S"
      "if opt_truthy (ee_override_grade e) then S = {the (ee_override_grade e)}
       else display_cap (ee_cap_grade e) ` {g. Some g \<in> ?G} \<subseteq> S"
      using display_grade_range_Inr [OF assms(2) e bs gr(1,2)] by (metis (no_types, lifting))
    have "g \<in> S"
    proof (cases "opt_truthy (ee_override_grade e)")
      case False
      then obtain f where "completion (ladder_names bs (ct_track tags)) (engine_state tags e False) f"
        "cap_grade (ee_cap_grade e) (fst (select bs f)) = Some g"
        using gr(3) by (auto simp: reachable_grades_def)
      then obtain x where x: "x \<in> ?G" "cap_grade (ee_cap_grade e) x = Some g"
        by blast
      then obtain y where "x = Some y"
        by (cases x) (auto simp: cap_grade_def split: option.splits if_splits)
      then show ?thesis
        using x cap_display [of "ee_cap_grade e" y g] S(4) False by auto
    qed (use gr(3) S(4) in simp)
    then show ?thesis
      using S by simp
  qed
  moreover have "gr_floor r = lo \<and> d_grade_ceiling d = Some (gr_ceiling r)" if lo: "d_grade_floor d = Some lo"
  proof -
    note rng = evaluate_range [OF ev e bs lo]
    have no: "\<not> opt_truthy (ee_override_grade e)"
      using range_not_overridden [OF ev e bs lo] .
    obtain S where S: "gr_floor r = Min S" "gr_ceiling r = Max S"
      "None \<notin> ?G \<longrightarrow> S = display_cap (ee_cap_grade e) ` {g. Some g \<in> ?G}"
      using display_grade_range_Inr [OF assms(2) e bs rng(9,8)] no by (metis (no_types, lifting))
    have "S = {g. Some g \<in> ?R}"
      using S(3) reachable_display [OF rng(1)] by simp
    then show ?thesis
      using S rng(3,4) by simp
  qed
  ultimately show ?thesis
    by blast
qed

lemma shipped_pack_grades: "rp_content pack = shipped_content \<Longrightarrow> \<exists>gs. pack_grades pack = Inr gs \<and> gs \<noteq> []"
  by (simp add: pack_grades_def TRACKS_def shipped_rubric_file shipped_branches_ok)
    (simp add: shipped_branches_def performance_branches_def performance_rows_def row_simps)

lemma shipped_display_total:
  assumes "rp_content pack = shipped_content" "apply_source_exceptions tags ctx pack False = Inr e"
  shows "\<exists>r. display_grade_range pack (Some (tags, ctx)) = Inr r"
proof -
  have names: "length (ladder_names (shipped_branches (ct_track tags)) (ct_track tags)) \<le> 12"
    using shipped_names [of False "ct_track tags"] by (simp add: dec127_branches_def)
  obtain gs opens where dt: "display_track pack (display_state (Some tags) (Some e)) (ct_track tags) = Inr (gs, opens)"
    using names by (simp add: display_track_def shipped_rubric_file [OF assms(1)] shipped_branches_ok Let_def)
  have lad: "pack_ladder pack (ct_track tags) False = Inr (shipped_branches (ct_track tags))"
    using shipped_ladder [OF assms(1)] by (simp add: dec127_branches_def)
  have "set gs \<noteq> {}"
    unfolding display_track_Inr [OF lad dt] using completion_exists by blast
  then have ne: "None \<notin> set gs \<Longrightarrow> present_grades gs \<noteq> []"
    using set_present_grades [of gs] by (metis (mono_tags, lifting) all_not_in_conv empty_iff list.set(1) mem_Collect_eq option.exhaust)
  obtain gr where "pack_grades pack = Inr gr" "gr \<noteq> []"
    using shipped_pack_grades [OF assms(1)] by blast
  then show ?thesis
    using assms(2) dt ne by (auto simp: display_grade_range_def Let_def)
qed

theorem display_encloses_decision_witness:
  "\<exists>d r. evaluate sample_platform open_tags sample_context shipped_pack = Inr d
     \<and> display_grade_range shipped_pack (Some (open_tags, sample_context)) = Inr r
     \<and> gr_floor r = py ''E1''"
proof -
  let ?R = "{Some (py ''E1''), Some (py ''E2''), Some (py ''E3'')}"
  obtain d where d: "evaluate_scoped sample_platform open_tags sample_context shipped_pack False False = Inr d"
    using mg_total by blast
  have "\<not> list_ex (\<lambda>f. cf_state f = Absent_in_scope) (ct_facts open_tags)"
    by (simp add: open_tags_def sample_tags_def present_fact_def plain_fact_def)
  then have ev: "evaluate sample_platform open_tags sample_context shipped_pack = Inr d"
    using d by (simp add: evaluate_def)
  obtain r where r: "display_grade_range shipped_pack (Some (open_tags, sample_context)) = Inr r"
    using shipped_display_total [OF shipped_pack_content mg_effect(2)] by blast
  obtain rubric where ru: "file_content shipped_pack (rubric_path (ct_track open_tags)) = Inr rubric"
    "additional_policy rubric = Inr (Some ADDITIONAL_REPORT_ONLY)"
    using shipped_report_only by blast
  have lad: "pack_ladder shipped_pack (ct_track open_tags) False = Inr management_branches"
    by (simp add: management_pack_ladder mg_track)
  have S: "{g. Some g \<in> ?R} = {py ''E1'', py ''E2'', py ''E3''}"
    by auto
  have "d_grade_floor d = Some (Min {g. Some g \<in> ?R})"
    by (rule conjunct1 [OF evaluate_range_published [OF d mg_effect(2) lad ru]])
      (simp_all add: no_effect_def open_reachable [unfolded no_effect_def] mg_track)
  then have "d_grade_floor d = Some (py ''E1'')"
    unfolding S by (simp add: min_def grade_leq)
  then show ?thesis
    using display_encloses_decision [OF ev r] ev r by blast
qed

end
