(* ===== verification/Binding.thy ===== *)
theory Binding
  imports Facts
begin

text \<open>
  Two records with the same canonical dictionary are equal: the dictionaries that are hashed
  (\<open>source_ref_asdict\<close>, \<open>fact_asdict\<close>, \<open>tags_asdict\<close>, \<open>context_asdict\<close>, \<open>decision_asdict\<close>) lose no field.
\<close>

lemma map_of_rebuild:
  assumes "distinct (map fst kvs)"
  shows "map (\<lambda>k. (k, the (map_of kvs k))) (map fst kvs) = kvs"
  using assms unfolding map_map by (intro map_idI) auto

lemma json_norm_same_keysD:
  assumes eq: "json_norm (JObj xs) = json_norm (JObj ys)" and keys: "map fst xs = map fst ys" and dist: "distinct (map fst xs)"
  shows "list_all2 (\<lambda>a b. json_norm (snd a) = json_norm (snd b)) xs ys"
proof -
  define n :: "(pystr \<times> json) list \<Rightarrow> (pystr \<times> json) list"
    where "n = map (\<lambda>kv. (fst kv, json_norm (snd kv)))"
  have fsts: "map fst (n zs) = map fst zs" for zs
    by (simp add: n_def comp_def)
  have "sort_key fst (n xs) = sort_key fst (n ys)"
    using eq by (simp add: n_def)
  then have "map_of (n xs) = map_of (n ys)"
    using map_of_sort_key [of "n xs"] map_of_sort_key [of "n ys"] dist keys fsts by metis
  then have "n xs = n ys"
    using map_of_rebuild [of "n xs"] map_of_rebuild [of "n ys"] dist keys fsts by metis
  then show ?thesis
    using keys by (induction xs ys rule: list_induct2') (auto simp: n_def)
qed

lemma opt_str_inj: "json_norm (opt_str a) = json_norm (opt_str b) \<longleftrightarrow> a = b"
  by (cases a; cases b) (simp_all add: opt_str_def)

lemma str_list_inj: "json_norm (str_list xs) = json_norm (str_list ys) \<longleftrightarrow> xs = ys"
  by (simp add: str_list_def comp_def inj_map_eq_map inj_def)

lemma bbox_asdict_inj: "json_norm (bbox_asdict a) = json_norm (bbox_asdict b) \<longleftrightarrow> a = b"
  by (auto simp: bbox_asdict_def split: option.splits)

lemma element_state_text_inj: "element_state_text a = element_state_text b \<longleftrightarrow> a = b"
  by (cases a; cases b; simp add: element_state_text_def)

lemma track_text_inj: "track_text a = track_text b \<longleftrightarrow> a = b"
  by (cases a; cases b; simp add: track_text_def)

lemma location_quality_text_inj: "location_quality_text a = location_quality_text b \<longleftrightarrow> a = b"
  by (cases a; cases b; simp add: location_quality_text_def)

lemma verification_state_text_inj: "verification_state_text a = verification_state_text b \<longleftrightarrow> a = b"
  by (cases a; cases b; simp add: verification_state_text_def)

lemma decision_status_text_inj: "decision_status_text a = decision_status_text b \<longleftrightarrow> a = b"
  by (cases a; cases b; simp add: decision_status_text_def)

lemmas norm_inj = opt_str_inj str_list_inj bbox_asdict_inj element_state_text_inj track_text_inj
  location_quality_text_inj verification_state_text_inj decision_status_text_inj

definition dict_entries :: "json \<Rightarrow> (pystr \<times> json) list" where
  [simp]: "dict_entries v = (case v of JObj d \<Rightarrow> d | _ \<Rightarrow> [])"

lemma source_ref_asdict_inj:
  assumes "json_norm (source_ref_asdict r) = json_norm (source_ref_asdict s)"
  shows "r = s"
proof -
  have "list_all2 (\<lambda>a b. json_norm (snd a) = json_norm (snd b)) (dict_entries (source_ref_asdict r)) (dict_entries (source_ref_asdict s))"
    using assms by (intro json_norm_same_keysD) (simp_all add: source_ref_asdict_def del: json_norm.simps)
  then show ?thesis
    by (intro source_ref.equality) (simp_all add: source_ref_asdict_def norm_inj)
qed

lemma inj_source_ref: "inj (json_norm \<circ> source_ref_asdict)"
  by (simp add: inj_def source_ref_asdict_inj)

lemma fact_asdict_inj:
  assumes "json_norm (fact_asdict f) = json_norm (fact_asdict g)"
  shows "f = g"
proof -
  have "list_all2 (\<lambda>a b. json_norm (snd a) = json_norm (snd b)) (dict_entries (fact_asdict f)) (dict_entries (fact_asdict g))"
    using assms by (intro json_norm_same_keysD) (simp_all add: fact_asdict_def del: json_norm.simps)
  then show ?thesis
    by (intro confirmed_fact.equality) (simp_all add: fact_asdict_def norm_inj inj_map_eq_map [OF inj_source_ref])
qed

lemma inj_fact: "inj (json_norm \<circ> fact_asdict)"
  by (simp add: inj_def fact_asdict_inj)

lemma tags_asdict_inj:
  assumes "json_norm (tags_asdict t) = json_norm (tags_asdict u)"
  shows "t = u"
proof -
  have "list_all2 (\<lambda>a b. json_norm (snd a) = json_norm (snd b)) (dict_entries (tags_asdict t)) (dict_entries (tags_asdict u))"
    using assms by (intro json_norm_same_keysD) (simp_all add: tags_asdict_def del: json_norm.simps)
  then show ?thesis
    by (intro confirmed_tags.equality) (simp_all add: tags_asdict_def norm_inj inj_map_eq_map [OF inj_fact])
qed

lemma context_asdict_inj:
  assumes "json_norm (context_asdict c) = json_norm (context_asdict d)"
  shows "c = d"
proof -
  have "list_all2 (\<lambda>a b. json_norm (snd a) = json_norm (snd b)) (dict_entries (context_asdict c)) (dict_entries (context_asdict d))"
    using assms by (intro json_norm_same_keysD) (simp_all add: context_asdict_def del: json_norm.simps)
  then show ?thesis
    by (intro rule_context.equality) (simp_all add: context_asdict_def norm_inj)
qed

lemma decision_asdict_inj:
  assumes "json_norm (decision_asdict c) = json_norm (decision_asdict d)"
  shows "c = d"
proof -
  have "list_all2 (\<lambda>a b. json_norm (snd a) = json_norm (snd b)) (dict_entries (decision_asdict c)) (dict_entries (decision_asdict d))"
    using assms by (intro json_norm_same_keysD) (simp_all add: decision_asdict_def del: json_norm.simps)
  then show ?thesis
    by (intro decision.equality) (simp_all add: decision_asdict_def norm_inj)
qed

end
