(* ===== verification/Hash_Props.thy ===== *)
theory Hash_Props
  imports Engine_Props Binding
begin

text \<open>
  What the hashes bind: equal content hashes of two rule packs mean equal rule files, and equal semantic hashes of two
  decisions mean equal inputs and equal decisions. Both rest on what is documented of the platform: \<^verbatim>\<open>repr\<close> of a float is
  injective number text, strings are sequences of Unicode scalar values, and the two texts at hand do not collide under SHA-256.
\<close>

section \<open>A platform the hypotheses hold on\<close>

definition exact_repr :: "rat \<Rightarrow> pystr" where
  "exact_repr q = (let (n, d) = quotient_of q in dec_of_int n @ 46 # dec_of_int d)"

definition exact_platform :: platform where
  "exact_platform = \<lparr>float_repr = exact_repr, sha256_hex = (\<lambda>s. s)\<rparr>"

lemma append_split_inj:
  "x \<notin> set a \<Longrightarrow> x \<notin> set b \<Longrightarrow> a @ x # c = b @ x # d \<Longrightarrow> a = b \<and> c = d"
  by (induction a arbitrary: b) (case_tac b; auto)+

lemma exact_repr_ok: "float_repr_ok exact_repr"
proof -
  have "inj exact_repr"
  proof (rule injI)
    fix p q assume eq: "exact_repr p = exact_repr q"
    obtain n d m c where qs: "quotient_of p = (n, d)" "quotient_of q = (m, c)"
      by fastforce
    have dots: "46 \<notin> set (dec_of_int i)" for i
      using dec_of_int_numchar by blast
    have "dec_of_int n = dec_of_int m \<and> dec_of_int d = dec_of_int c"
      using eq append_split_inj [OF dots dots, of n "dec_of_int d" m "dec_of_int c"] by (simp add: exact_repr_def qs)
    then have "quotient_of p = quotient_of q"
      by (simp add: qs)
    then show "p = q"
      by (metis injD quotient_of_inject)
  qed
  moreover have "exact_repr q \<noteq> [] \<and> (\<forall>c \<in> set (exact_repr q). numchar c) \<and> (\<exists>c \<in> set (exact_repr q). c = 46 \<or> c = 101)" for q
    using dec_of_int_numchar by (auto simp: exact_repr_def numchar_def split: prod.splits)
  ultimately show ?thesis
    by (simp add: float_repr_ok_def)
qed

lemma exact_no_collision: "no_collision exact_platform v w"
  by (simp add: no_collision_def exact_platform_def)

section \<open>Rule packs\<close>

text \<open>
  C37. A pack's content hash binds what it serves: two snapshots that both verify against the same hash, and list each path
  once, serve the same content for every path and have the same version, ontology version, mode, date and source document.
\<close>

theorem snapshot_hash_binds_content:
  assumes "float_repr_ok (float_repr P)"
    and "mk_snapshot P s = Inr s" "mk_snapshot P t = Inr t" "rp_sha256 s = rp_sha256 t"
    and "json_scalar (snapshot_envelope s)" "json_scalar (snapshot_envelope t)"
    and "no_collision P (snapshot_envelope s) (snapshot_envelope t)"
    and "distinct (map fst (rp_content s))" "distinct (map fst (rp_content t))"
  shows "file_content s path = file_content t path \<and> rp_version s = rp_version t
    \<and> rp_ontology_version s = rp_ontology_version t \<and> rp_mode s = rp_mode t
    \<and> rp_effective_date s = rp_effective_date t \<and> rp_source_document_sha256 s = rp_source_document_sha256 t"
  using snapshot_same_files [OF snapshot_same_hash [OF assms(1-7)] assms(8,9)]
    snapshot_same_identity [OF snapshot_same_hash [OF assms(1-7)]] by blast

lemma envelope_ignores:
  "snapshot_envelope (p\<lparr>rp_sha256 := h\<rparr>) = snapshot_envelope p"
  "snapshot_envelope (p\<lparr>rp_status := st\<rparr>) = snapshot_envelope p"
  by (simp_all add: snapshot_envelope_def snapshot_manifest_def pack_envelope_def MANIFEST_HASH_FIELDS_def)

lemma seal_verifies:
  assumes "sort (map fst (rp_content p)) = sort (rp_files p)" "canonical_hash P (snapshot_envelope p) = Inr h"
  shows "mk_snapshot P (p\<lparr>rp_sha256 := h\<rparr>) = Inr (p\<lparr>rp_sha256 := h\<rparr>)"
  using assms envelope_ignores(1) [where p = p and h = h]
  by (simp add: mk_snapshot_def pack_content_hash_def snapshot_envelope_def)

definition tiny_pack :: "json list \<Rightarrow> rule_pack" where
  "tiny_pack vs = shipped_pack\<lparr>rp_files := map (\<lambda>_. py ''a.yaml'') vs, rp_content := map (\<lambda>v. (py ''a.yaml'', v)) vs\<rparr>"

lemma scalar_py: "\<forall>c\<in>set (py s). scalar c"
proof
  fix c assume "c \<in> set (py s)"
  then obtain a :: char where "c = of_char a"
    by (auto simp: py_def)
  then have "c < 256"
    by simp
  then show "scalar c"
    by (simp add: scalar_def)
qed

lemma scalar_hex64: "\<forall>c\<in>set hex64. scalar c"
  by (simp add: hex64_def scalar_def)

lemma tiny_scalar:
  assumes "json_scalar v"
  shows "json_scalar (snapshot_envelope (tiny_pack [v]))"
  using assms scalar_py scalar_hex64
  by (simp add: snapshot_envelope_def tiny_pack_def pack_envelope_def snapshot_manifest_def dict_items_def dict_of_def
      py_sorted_set_def MANIFEST_HASH_FIELDS_def shipped_pack_def del: json_norm.simps)

lemma tiny_hash: "json_finite v \<Longrightarrow> \<exists>h. canonical_hash exact_platform (snapshot_envelope (tiny_pack [v])) = Inr h"
  by (intro canonical_hash_finite)
    (simp add: snapshot_envelope_def tiny_pack_def pack_envelope_def snapshot_manifest_def dict_items_def dict_of_def
      py_sorted_set_def MANIFEST_HASH_FIELDS_def shipped_pack_def del: json_norm.simps)

theorem snapshot_hash_binds_content_witness:
  "\<exists>s t. mk_snapshot exact_platform s = Inr s \<and> mk_snapshot exact_platform t = Inr t \<and> rp_status s \<noteq> rp_status t
     \<and> file_content s (py ''a.yaml'') = file_content t (py ''a.yaml'')"
proof -
  let ?p = "tiny_pack [JObj []]" and ?q = "(tiny_pack [JObj []])\<lparr>rp_status := py ''active''\<rparr>"
  obtain h where h: "canonical_hash exact_platform (snapshot_envelope ?p) = Inr h"
    using tiny_hash [of "JObj []"] by auto
  then have h': "canonical_hash exact_platform (snapshot_envelope ?q) = Inr h"
    by (simp only: envelope_ignores)
  let ?s = "?p\<lparr>rp_sha256 := h\<rparr>" and ?t = "?q\<lparr>rp_sha256 := h\<rparr>"
  have ver: "mk_snapshot exact_platform ?s = Inr ?s" "mk_snapshot exact_platform ?t = Inr ?t"
    by (rule seal_verifies [OF _ h], simp add: tiny_pack_def, rule seal_verifies [OF _ h'], simp add: tiny_pack_def)
  have sc: "json_scalar (snapshot_envelope ?s)" "json_scalar (snapshot_envelope ?t)"
    using tiny_scalar [of "JObj []"] by (simp_all only: envelope_ignores) simp_all
  have "float_repr_ok (float_repr exact_platform)"
    by (simp add: exact_platform_def exact_repr_ok)
  from snapshot_hash_binds_content [OF this ver _ sc exact_no_collision]
  have "file_content ?s (py ''a.yaml'') = file_content ?t (py ''a.yaml'')"
    by (simp add: tiny_pack_def)
  moreover have "rp_status ?s \<noteq> rp_status ?t"
    by (simp add: tiny_pack_def shipped_pack_def)
  ultimately show ?thesis
    using ver by blast
qed

lemma shadowed_items:
  assumes "p \<in> fst ` set ys"
  shows "dict_items (xs @ (p, v) # ys) = dict_items (xs @ (p, w) # ys)"
proof -
  have "map_of (rev ys) p \<noteq> None" using assms by (simp add: map_of_eq_None_iff)
  then obtain y where "map_of (rev ys) p = Some y" by blast
  then have "dict_of (xs @ (p, v) # ys) k = dict_of (xs @ (p, w) # ys) k" for k
    by (cases "k = p") (simp_all add: dict_of_def map_add_def split: option.split)
  then show ?thesis by (simp add: dict_items_def)
qed

text \<open>
  C39. The guarantee of the snapshot hash needs the paths to be listed once. The constructor accepts a snapshot that lists a path twice, and then any payload may
  stand in the first place of that path: the changed snapshot is accepted with the same hash, and the reader serves the changed payload, if it is a mapping, because the hash covers the last payload of a path
  and the reader returns the first.
\<close>

theorem duplicate_path_escapes_hash:
  assumes "mk_snapshot P s = Inr s" "rp_content s = xs @ (p, v) # ys" "p \<in> fst ` set ys" "p \<notin> fst ` set xs"
  shows "\<not> distinct (rp_files s)
    \<and> (let t = s\<lparr>rp_content := xs @ (p, w) # ys\<rparr> in mk_snapshot P t = Inr t \<and> rp_sha256 t = rp_sha256 s \<and> rp_files t = rp_files s
        \<and> (\<forall>d. json_norm w = JObj d \<longrightarrow> file_content t p = Inr d))"
proof -
  let ?t = "s\<lparr>rp_content := xs @ (p, w) # ys\<rparr>"
  have files: "sort (map fst (rp_content s)) = sort (rp_files s)"
    using assms(1) by (simp add: mk_snapshot_def split: if_splits)
  have "\<not> distinct (sort (map fst (rp_content s)))" using assms(2,3) by auto
  then have "\<not> distinct (rp_files s)" unfolding files by simp
  moreover have "mk_snapshot P ?t = Inr ?t"
    using assms(1,2) shadowed_items [OF assms(3), of xs v w]
    by (auto simp: mk_snapshot_def pack_content_hash_def pack_envelope_def snapshot_manifest_def bindE_Inr_iff split: if_splits)
  moreover have "map_of xs p = None" using assms(4) by (simp add: map_of_eq_None_iff)
  then have "map_of (rp_content ?t) p = Some w" by (simp add: map_add_def)
  then have "file_content ?t p = Inr d" if "json_norm w = JObj d" for d
    using that by (simp add: file_content_def)
  ultimately show ?thesis by (simp add: Let_def)
qed

theorem duplicate_path_escapes_hash_witness:
  "\<exists>s t. mk_snapshot exact_platform s = Inr s \<and> mk_snapshot exact_platform t = Inr t \<and> rp_sha256 s = rp_sha256 t \<and> rp_files s = [py ''a.yaml'', py ''a.yaml'']
     \<and> rp_files t = rp_files s \<and> file_content s (py ''a.yaml'') \<noteq> file_content t (py ''a.yaml'')"
proof -
  let ?w = "JObj []" and ?v = "JObj [(py ''k'', JNull)]"
  let ?p = "tiny_pack [?w, ?w]"
  have "json_finite (snapshot_envelope ?p)"
    by (simp add: snapshot_envelope_def tiny_pack_def pack_envelope_def snapshot_manifest_def dict_items_def dict_of_def py_sorted_set_def
        MANIFEST_HASH_FIELDS_def shipped_pack_def del: json_norm.simps)
  then obtain h where h: "canonical_hash exact_platform (snapshot_envelope ?p) = Inr h"
    using canonical_hash_finite by blast
  let ?s = "?p\<lparr>rp_sha256 := h\<rparr>"
  have s: "mk_snapshot exact_platform ?s = Inr ?s"
    by (rule seal_verifies [OF _ h], simp add: tiny_pack_def)
  have c: "rp_content ?s = [] @ (py ''a.yaml'', ?w) # [(py ''a.yaml'', ?w)]" by (simp add: tiny_pack_def)
  note e = duplicate_path_escapes_hash [OF s c, of ?v]
  have "file_content ?s (py ''a.yaml'') = Inr []" by (simp add: file_content_def tiny_pack_def)
  moreover have "rp_files ?s = [py ''a.yaml'', py ''a.yaml'']" by (simp add: tiny_pack_def)
  ultimately show ?thesis
    using s e by (intro exI [of _ ?s] exI [of _ "?s\<lparr>rp_content := [] @ (py ''a.yaml'', ?v) # [(py ''a.yaml'', ?w)]\<rparr>"]) (simp add: Let_def)
qed

section \<open>Decisions\<close>

definition semantic_input :: "confirmed_tags \<Rightarrow> rule_context \<Rightarrow> rule_pack \<Rightarrow> decision \<Rightarrow> json" where
  "semantic_input tags ctx pack d = JObj
     [(py ''engine_version'', JStr (engine_version tags)), (py ''tags'', tags_asdict tags),
      (py ''context'', context_asdict ctx), (py ''pack_sha256'', JStr (rp_sha256 pack)),
      (py ''decision'', decision_asdict (d\<lparr>d_semantic_hash := []\<rparr>))]"

lemma assemble_decision_unhashed:
  "assemble_decision P tags ctx pack e st rows policy names outs = Inr d \<Longrightarrow> d_semantic_hash d = []"
  by (auto simp: assemble_decision_def Let_def bindE_Inr_iff split: prod.splits)

lemma evaluate_scoped_hash:
  assumes "evaluate_scoped P tags ctx pack a dec = Inr d"
  shows "canonical_hash P (semantic_input tags ctx pack d) = Inr (d_semantic_hash d)"
  using assms
proof (cases rule: evaluate_scoped_Inr)
  case (1 e defs rows rubric policy bs d0)
  have "d\<lparr>d_semantic_hash := []\<rparr> = d0"
    using assemble_decision_unhashed [OF 1(8)] by (subst 1(9)) simp
  then show ?thesis
    using 1(10) by (simp add: semantic_input_def)
qed

text \<open>
  C33. The semantic hash of a decision binds its inputs and itself: two evaluations with the same semantic hash evaluated the same
  tags in the same context against packs with the same content hash, and returned the same decision.
\<close>

theorem semantic_hash_binds_decision:
  assumes "float_repr_ok (float_repr P)"
    and "evaluate_scoped P tags ctx pack a dec = Inr d" "evaluate_scoped P tags' ctx' pack' a' dec' = Inr d'"
    and "d_semantic_hash d = d_semantic_hash d'"
    and "json_scalar (semantic_input tags ctx pack d)" "json_scalar (semantic_input tags' ctx' pack' d')"
    and "no_collision P (semantic_input tags ctx pack d) (semantic_input tags' ctx' pack' d')"
  shows "tags = tags' \<and> ctx = ctx' \<and> rp_sha256 pack = rp_sha256 pack' \<and> d = d'"
proof -
  have "json_norm (semantic_input tags ctx pack d) = json_norm (semantic_input tags' ctx' pack' d')"
    using canonical_hash_inj [OF assms(1,5-7)] evaluate_scoped_hash [OF assms(2)] evaluate_scoped_hash [OF assms(3)] assms(4)
    by simp
  then have "list_all2 (\<lambda>a b. json_norm (snd a) = json_norm (snd b)) (dict_entries (semantic_input tags ctx pack d))
      (dict_entries (semantic_input tags' ctx' pack' d'))"
    by (intro json_norm_same_keysD) (simp_all add: semantic_input_def del: json_norm.simps)
  then have "json_norm (tags_asdict tags) = json_norm (tags_asdict tags')"
    "json_norm (context_asdict ctx) = json_norm (context_asdict ctx')" "rp_sha256 pack = rp_sha256 pack'"
    "json_norm (decision_asdict (d\<lparr>d_semantic_hash := []\<rparr>)) = json_norm (decision_asdict (d'\<lparr>d_semantic_hash := []\<rparr>))"
    by (simp_all add: semantic_input_def)
  then have "tags = tags'" "ctx = ctx'" "rp_sha256 pack = rp_sha256 pack'"
    and d: "d\<lparr>d_semantic_hash := []\<rparr> = d'\<lparr>d_semantic_hash := []\<rparr>"
    using tags_asdict_inj context_asdict_inj decision_asdict_inj by blast+
  moreover have "d = d'"
    using d assms(4) by (cases d; cases d') simp
  ultimately show ?thesis
    by simp
qed

section \<open>The instance of the decision hash\<close>

definition plain :: "pystr \<Rightarrow> bool" where
  "plain s \<longleftrightarrow> (\<forall>c\<in>set s. scalar c)"

lemma plain_py [simp]: "plain (py s)"
  using scalar_py by (simp add: plain_def)

lemma hexdig_ascii: "n < 16 \<Longrightarrow> hexdig n < 128"
  by (simp add: hexdig_def)

lemma hex4_ascii: "list_all (\<lambda>c. c < 128) (hex4 n)"
  by (simp add: hex4_def hexdig_ascii)

lemma json_esc_char_ascii: "list_all (\<lambda>c. c < 128) (json_esc_char a)"
  by (simp add: json_esc_char_def hex4_ascii)

lemma json_esc_ascii: "c \<in> set (json_esc s) \<Longrightarrow> c < 128"
  using json_esc_char_ascii by (fastforce simp: json_esc_def list_all_iff)

lemma numchar_ascii: "numchar c \<Longrightarrow> c < 128"
  by (auto simp: numchar_def)

lemma py_ascii: "c \<in> set (py ''null'') \<Longrightarrow> c < 128" "c \<in> set (py ''true'') \<Longrightarrow> c < 128" "c \<in> set (py ''false'') \<Longrightarrow> c < 128"
  by (auto simp: py_def)

lemma json_print_ascii:
  assumes "float_repr_ok fr"
  shows "json_finite v \<Longrightarrow> c \<in> set (json_print fr v) \<Longrightarrow> c < 128"
    "\<forall>v\<in>set vs. json_finite v \<Longrightarrow> c \<in> set (json_print_elems fr vs) \<Longrightarrow> c < 128"
    "\<forall>kv\<in>set kvs. json_finite (snd kv) \<Longrightarrow> c \<in> set (json_print_members fr kvs) \<Longrightarrow> c < 128"
  using assms
proof (induction fr v and fr vs and fr kvs rule: json_print_json_print_elems_json_print_members.induct)
  case (4 fr f)
  then show ?case
    by (cases f) (auto simp: float_repr_ok_def numchar_ascii)
next
  case (3 fr i)
  then show ?case
    using dec_of_int_numchar [of c i] by (simp add: numchar_ascii)
qed (auto simp: json_quote_def split: if_splits dest: json_esc_ascii py_ascii)

lemma canonical_json_ascii:
  assumes "float_repr_ok (float_repr P)" "canonical_json P v = Inr s"
  shows "\<forall>c\<in>set s. c < 128"
  using assms(2) json_print_ascii(1) [OF assms(1), of "json_norm v"]
  by (auto simp: canonical_json_def split: if_splits)

lemma ascii_plain: "\<forall>c\<in>set s. c < 128 \<Longrightarrow> plain s"
  by (auto simp: plain_def scalar_def)

lemma scalar_opt_str: "json_scalar (opt_str x) \<longleftrightarrow> (\<forall>s. x = Some s \<longrightarrow> plain s)"
  by (cases x) (simp_all add: opt_str_def plain_def)

lemma scalar_str_list: "json_scalar (str_list xs) \<longleftrightarrow> (\<forall>s\<in>set xs. plain s)"
  by (simp add: str_list_def plain_def)

lemma plain_obj: "json_scalar (JObj kvs) \<longleftrightarrow> (\<forall>kv\<in>set kvs. plain (fst kv) \<and> json_scalar (snd kv))"
  "json_scalar (JStr s) \<longleftrightarrow> plain s"
  by (simp_all add: plain_def)

lemmas scalar_simps = plain_obj scalar_opt_str scalar_str_list

lemma decision_scalar_iff:
  "json_scalar (decision_asdict d) \<longleftrightarrow> (\<forall>s. d_evidence_grade d = Some s \<longrightarrow> plain s) \<and> (\<forall>s. d_label d = Some s \<longrightarrow> plain s)
    \<and> (\<forall>s. d_sublabel d = Some s \<longrightarrow> plain s) \<and> plain (d_review_status d) \<and> (\<forall>s\<in>set (d_missing_elements d). plain s)
    \<and> (\<forall>s\<in>set (d_rule_ids d). plain s) \<and> plain (d_rule_pack_sha256 d) \<and> plain (d_semantic_hash d)
    \<and> (\<forall>s\<in>set (d_gap_ids d). plain s) \<and> (\<forall>s\<in>set (d_unresolved_elements d). plain s)
    \<and> (\<forall>s\<in>set (d_excluded_elements d). plain s) \<and> (\<forall>s. d_ladder_candidate d = Some s \<longrightarrow> plain s)
    \<and> (\<forall>s\<in>set (d_basis_refs d). plain s) \<and> plain (d_input_tags_sha256 d)
    \<and> (\<forall>s. d_grade_floor d = Some s \<longrightarrow> plain s) \<and> (\<forall>s. d_grade_ceiling d = Some s \<longrightarrow> plain s)
    \<and> (\<forall>s\<in>set (d_grade_open_elements d). plain s)"
  by (cases "d_decision_status d") (simp_all add: decision_asdict_def scalar_simps decision_status_text_def del: json_scalar.simps(1-3))

lemma MAPPINGS_plain: "el \<in> fst ` set (MAPPINGS t) \<Longrightarrow> plain el"
  by (cases t) (auto simp: MAPPINGS_def goal_ELEMENTS_def performance_ELEMENTS_def management_ELEMENTS_def)

lemma rows_plain:
  assumes "float_repr_ok (float_repr P)" "classify_elements P defs st (MAPPINGS t) = Inr rows"
  shows "\<forall>s\<in>set (elements_in c rows). plain s" "\<forall>(el, c, b)\<in>set rows. plain b"
proof -
  show "\<forall>s\<in>set (elements_in c rows). plain s"
    using classify_elements_row [OF assms(2)] MAPPINGS_plain by (force simp: elements_in_iff)
  show "\<forall>(el, c, b)\<in>set rows. plain b"
    using mapE_in_result [OF assms(2) [unfolded classify_elements_def]] canonical_json_ascii [OF assms(1)]
    by (fastforce simp: result_simps ascii_plain)
qed

lemma known_plain: "known_grade g \<Longrightarrow> g = Some s \<Longrightarrow> plain s"
  by (auto simp: known_grade_def GRADE_LABEL_MAP_def)

lemma label_plain: "grade_label g = Inr (Some s) \<Longrightarrow> plain s"
  by (auto simp: grade_label_def GRADE_LABEL_MAP_def split: if_splits option.splits)

lemma select_id: "snd (select bs f) = [] \<or> (\<exists>b\<in>set bs. snd (select bs f) = br_id b)"
proof (cases "find (\<lambda>b. branch_matches (with_exception f) b \<and> br_cap b) bs")
  case (Some b)
  then have "snd (select bs f) = br_id b"
    by (simp add: select_eq)
  moreover have "b \<in> set bs"
    using Some by (auto simp: find_Some_iff)
  ultimately show ?thesis by blast
next
  case None
  show ?thesis
  proof (cases "hits bs f = []")
    case False
    then have "Max (grade_id ` set (hits bs f)) \<in> grade_id ` set (hits bs f)"
      by (intro Max_in) auto
    then obtain b where "b \<in> set bs" "Max (grade_id ` set (hits bs f)) = grade_id b"
      by (auto simp: hits_def)
    then show ?thesis
      using None False by (auto simp: select_eq Let_def grade_id_def)
  qed (use None in \<open>simp add: select_eq Let_def\<close>)
qed

lemma derive_gaps_plain: "\<forall>s\<in>set (snd (derive_status g u a p no_effect)). plain s"
  by (simp add: derive_status_def no_effect_def Let_def)

lemma assemble_gaps:
  assumes "assemble_decision P tags ctx pack e st rows policy names outs = Inr d"
  shows "set (d_gap_ids d) \<subseteq> insert (py ''GAP-005'') (set (snd
    (derive_status (capped_grades e outs) (elements_in Unresolved rows) (additional_of rows) policy e)))"
proof -
  have *: "z \<in> set (if b then x @ [y] else x) \<Longrightarrow> z = y \<or> z \<in> set x" for b and x :: "pystr list" and y z
    by (auto split: if_splits)
  show ?thesis
    using assms unfolding assemble_decision_def additional_of_def
    by (simp add: Let_def bindE_Inr_iff split: prod.splits del: set_append) (auto dest!: *)
qed

lemma assemble_plain:
  assumes "assemble_decision P tags ctx pack no_effect st rows policy names outs = Inr d"
    and "float_repr_ok (float_repr P)" "\<forall>s. (\<forall>c\<in>set s. c < 128) \<longrightarrow> plain (sha256_hex P s)"
    and "\<forall>(g, i)\<in>set outs. (\<forall>s. g = Some s \<longrightarrow> plain s) \<and> plain i"
    and "\<And>c. \<forall>s\<in>set (elements_in c rows). plain s" "\<forall>(el, c, b)\<in>set rows. plain b" "plain (rp_sha256 pack)"
  shows "json_scalar (decision_asdict d)"
proof -
  let ?gs = "capped_grades no_effect outs"
  have gs: "plain s" if "Some s \<in> set ?gs \<or> Some s \<in> set (grade_set outs)" for s
    using that assms(4) by (auto simp: capped_grades_def grade_set_def cap_grade_def no_effect_def)
  have single: "plain s" if "the_single ?gs = Some s \<or> the_single (grade_set outs) = Some s" for s
    using that the_single_in gs by metis
  have pres: "set (present_grades ?gs) \<subseteq> {s. plain s}"
    using gs by (auto simp: set_present_grades)
  have range: "plain (Min (set (present_grades ?gs)))" "plain (Max (set (present_grades ?gs)))"
    if "has_grade_range s ?gs x y no_effect" for s x y
  proof -
    have "present_grades ?gs \<noteq> []"
      using that set_present_grades [of ?gs]
      by (cases ?gs rule: remdups_adj.cases) (auto simp: has_grade_range_def present_grades_def List.map_filter_def)
    then show "plain (Min (set (present_grades ?gs)))" "plain (Max (set (present_grades ?gs)))"
      using subsetD [OF pres Min_in] subsetD [OF pres Max_in] by simp_all
  qed
  obtain b h l where b: "canonical_json P (section_basis (ee_rule_ids no_effect)) = Inr b"
    and h: "canonical_hash P (tags_asdict tags) = Inr h"
    using assms(1) by (auto simp: assemble_decision_def Let_def bindE_Inr_iff split: prod.splits)
  have bh: "plain b" "plain h"
    using canonical_json_ascii [OF assms(2)] b h assms(3) by (auto simp: canonical_hash_def bindE_Inr_iff intro: ascii_plain)
  note asm = assemble_decision_Inr [OF assms(1)]
  have gaps: "\<forall>s\<in>set (d_gap_ids d). plain s"
    using assemble_gaps [OF assms(1)] derive_gaps_plain by fastforce
  have rest: "d_sublabel d \<in> {None, Some (py ''IMPL'')}" "d_semantic_hash d = []" "d_ladder_candidate d = the_single (grade_set outs)"
    "d_basis_refs d = map (\<lambda>(_, _, b). b) rows @ [b]" "d_input_tags_sha256 d = h"
    "set (d_grade_open_elements d) \<subseteq> set (d_unresolved_elements d)"
    "set (d_rule_ids d) \<subseteq> snd ` set outs"
    using assms(1) b h
    by (auto simp: assemble_decision_def Let_def bindE_Inr_iff no_effect_def split: prod.splits)
  have grade: "\<forall>s. d_evidence_grade d = Some s \<longrightarrow> plain s"
    using asm(2) single by (auto simp: or_else_def no_effect_def opt_truthy_def split: if_splits)
  have label: "\<forall>s. d_label d = Some s \<longrightarrow> plain s"
    using asm(3) label_plain by metis
  have els: "\<forall>s\<in>set (d_missing_elements d). plain s" "\<forall>s\<in>set (d_unresolved_elements d). plain s"
    "\<forall>s\<in>set (d_excluded_elements d). plain s"
    using asm(4-6) assms(5) by (auto simp: no_effect_def)
  have ends: "\<forall>s. d_grade_floor d = Some s \<longrightarrow> plain s" "\<forall>s. d_grade_ceiling d = Some s \<longrightarrow> plain s"
    using asm(9,10) range by (auto split: if_splits)
  have "plain (d_review_status d)" "plain (d_rule_pack_sha256 d)" "plain (d_semantic_hash d)"
    "\<forall>s. d_sublabel d = Some s \<longrightarrow> plain s" "\<forall>s. d_ladder_candidate d = Some s \<longrightarrow> plain s"
    using asm(7,11) assms(7) rest(1-3) single by (auto simp: plain_def [of "[]"])
  moreover have "\<forall>s\<in>set (d_rule_ids d). plain s" "\<forall>s\<in>set (d_basis_refs d). plain s" "plain (d_input_tags_sha256 d)"
    "\<forall>s\<in>set (d_grade_open_elements d). plain s"
    using rest(4-7) assms(4,6) bh els(2) by fastforce+
  ultimately show ?thesis
    unfolding decision_scalar_iff using grade label els ends gaps by simp
qed

lemma exact_plain: "\<forall>s. (\<forall>c\<in>set s. c < 128) \<longrightarrow> plain (sha256_hex exact_platform s)"
  by (simp add: exact_platform_def ascii_plain)

lemma mg_outcomes_plain:
  "\<forall>(g, i)\<in>set (ladder_outcomes management_branches names st). (\<forall>s. g = Some s \<longrightarrow> plain s) \<and> plain i"
proof -
  have g: "\<forall>s. fst (select management_branches f) = Some s \<longrightarrow> plain s" for f
    by (simp add: management_ladder management_grade_def)
  have "\<forall>b\<in>set management_branches. plain (br_id b)"
    by (simp add: management_branches_def management_rows_def row_simps)
  then have "plain (snd (select management_branches f))" for f
    using select_id [of management_branches f] by (auto simp: plain_def [of "[]"])
  then show ?thesis
    using g by (auto simp: ladder_outcomes_completions)
      (metis fst_conv snd_conv)+
qed

lemma mg_tags_scalar: "json_scalar (tags_asdict mg_tags)" "json_scalar (context_asdict sample_context)"
  "plain (engine_version mg_tags)" "plain (rp_sha256 shipped_pack)"
proof -
  have u: "plain (uuid_of n)" if "n < 10" for n
    using that scalar_py by (auto simp: uuid_of_def plain_def scalar_def)
  have h: "plain hex64"
    using scalar_hex64 by (simp add: plain_def)
  have ev: "plain (engine_version t)" for t
    using scalar_py by (auto simp: engine_version_def ENGINE_VERSION_def QT1_ENGINE_VERSION_def plain_def)
  show "json_scalar (tags_asdict mg_tags)" "json_scalar (context_asdict sample_context)"
    "plain (engine_version mg_tags)" "plain (rp_sha256 shipped_pack)"
    using u h ev
    by (simp_all add: tags_asdict_def mg_tags_def sample_tags_def fact_asdict_def present_fact_def absent_fact_def plain_fact_def
        source_ref_asdict_def sample_ref_def context_asdict_def sample_context_def shipped_pack_def scalar_simps track_text_def
        element_state_text_def location_quality_text_def verification_state_text_def bbox_asdict_def
        del: json_scalar.simps(1,3))
qed

lemma mg_semantic_scalar:
  assumes "evaluate_scoped exact_platform mg_tags sample_context shipped_pack False False = Inr d"
  shows "json_scalar (semantic_input mg_tags sample_context shipped_pack d)"
  using assms
proof (cases rule: evaluate_scoped_Inr)
  case (1 e defs rows rubric policy bs d0)
  have e: "e = no_effect" "bs = management_branches"
    using 1(1,6) mg_effect(1) management_pack_ladder by (simp_all add: mg_track)
  have fr: "float_repr_ok (float_repr exact_platform)"
    by (simp add: exact_platform_def exact_repr_ok)
  have d0: "d\<lparr>d_semantic_hash := []\<rparr> = d0"
    using assemble_decision_unhashed [OF 1(8)] by (subst 1(9)) simp
  have "json_scalar (decision_asdict d0)"
    using assemble_plain [OF 1(8) [unfolded e] fr exact_plain mg_outcomes_plain] rows_plain [OF fr 1(3)] mg_tags_scalar(4)
    by blast
  then show ?thesis
    using mg_tags_scalar by (simp add: semantic_input_def d0 scalar_simps del: json_scalar.simps(1,3))
qed

lemma mg_scope_irrelevant:
  "evaluate_scoped P mg_tags ctx pack a dec = evaluate_scoped P mg_tags ctx pack False dec"
proof -
  have "engine_state mg_tags e a = engine_state mg_tags e False" for e
    by (simp add: fun_eq_iff engine_state_def scoped_def mg_states split: option.splits)
  then show ?thesis
    by (simp only: evaluate_scoped_def)
qed

theorem semantic_hash_binds_decision_witness:
  "\<exists>d d'. evaluate_scoped exact_platform mg_tags sample_context shipped_pack False False = Inr d
     \<and> evaluate_scoped exact_platform mg_tags sample_context shipped_pack True False = Inr d'
     \<and> d_semantic_hash d = d_semantic_hash d' \<and> d = d'"
proof -
  obtain d d' where d: "evaluate_scoped exact_platform mg_tags sample_context shipped_pack False False = Inr d"
    "evaluate_scoped exact_platform mg_tags sample_context shipped_pack True False = Inr d'"
    using shipped_total [OF shipped_pack_content mg_effect(1)] by blast
  then have d': "evaluate_scoped exact_platform mg_tags sample_context shipped_pack False False = Inr d'"
    and h: "d_semantic_hash d = d_semantic_hash d'"
    unfolding mg_scope_irrelevant [of _ _ _ True] by simp_all
  have "float_repr_ok (float_repr exact_platform)"
    by (simp add: exact_platform_def exact_repr_ok)
  from semantic_hash_binds_decision [OF this d h mg_semantic_scalar [OF d(1)] mg_semantic_scalar [OF d'] exact_no_collision]
  show ?thesis
    using d h by blast
qed

end
