(* ===== verification/Audit_Log.thy ===== *)
theory Audit_Log
  imports Hash_Props
begin

text \<open>
  Model of \<^verbatim>\<open>domain/audit.py\<close> (immutable audit events, their hash chain and its verification) and
  \<^verbatim>\<open>domain/provenance.py\<close> (request signatures and provenance hashes).

  \<open>new_audit_event\<close> and \<open>verify_audit_chain\<close> are the two operations; \<open>mk_audit_head\<close>, \<open>mk_change_set\<close> and
  \<open>mk_audit_event\<close> the \<^verbatim>\<open>__post_init__\<close> methods (run again by \<^verbatim>\<open>dataclasses.replace\<close>). Whether
  \<^verbatim>\<open>datetime.fromisoformat\<close> reads a text as a UTC time is the argument \<open>iso_utc\<close>.

  The locale \<open>hash_chain\<close> is the contract a chain of linked events rests on: an event whose recomputed digest is the stored one
  is determined by that digest, unless two texts clash. It is interpreted on the audit events.
\<close>

section \<open>Linked events\<close>

fun chain_links :: "('e \<Rightarrow> 'd option) \<Rightarrow> ('e \<Rightarrow> 'd) \<Rightarrow> ('e \<Rightarrow> 'd option) \<Rightarrow> 'd option \<Rightarrow> 'e list \<Rightarrow> bool" where
  "chain_links digest stored prev p [] \<longleftrightarrow> True"
| "chain_links digest stored prev p (e # es) \<longleftrightarrow>
     prev e = p \<and> digest e = Some (stored e) \<and> chain_links digest stored prev (Some (stored e)) es"

definition chain_end :: "('e \<Rightarrow> 'd) \<Rightarrow> 'd option \<Rightarrow> 'e list \<Rightarrow> 'd option" where
  "chain_end stored p es = (if es = [] then p else Some (stored (last es)))"

lemma chain_links_append:
  "chain_links digest stored prev p (xs @ ys) \<longleftrightarrow>
     chain_links digest stored prev p xs \<and> chain_links digest stored prev (chain_end stored p xs) ys"
  by (induction xs arbitrary: p) (auto simp: chain_end_def)

locale hash_chain =
  fixes digest :: "'e \<Rightarrow> 'd option"
    and stored :: "'e \<Rightarrow> 'd"
    and prev :: "'e \<Rightarrow> 'd option"
    and clash :: "'e \<Rightarrow> 'e \<Rightarrow> bool"
  assumes digest_binds:
    "digest a = Some (stored a) \<Longrightarrow> digest b = Some (stored b) \<Longrightarrow> stored a = stored b \<Longrightarrow> \<not> clash a b \<Longrightarrow> a = b"
begin

lemma linked_snoc:
  "chain_links digest stored prev p (es @ [e]) \<longleftrightarrow>
     chain_links digest stored prev p es \<and> prev e = chain_end stored p es \<and> digest e = Some (stored e)"
  by (simp add: chain_links_append)

text \<open>The end of a chain determines the chain, as long as no two of its events clash.\<close>

lemma end_determines_chain:
  assumes "length xs = length ys"
    and "chain_links digest stored prev p xs" "chain_links digest stored prev p ys"
    and "chain_end stored p xs = chain_end stored p ys"
    and "\<forall>a\<in>set xs. \<forall>b\<in>set ys. \<not> clash a b"
  shows "xs = ys"
  using assms
proof (induction xs ys rule: rev_induct2)
  case (4 x xs y ys)
  have xy: "digest x = Some (stored x)" "digest y = Some (stored y)" "stored x = stored y" "\<not> clash x y"
    using "4.prems" by (auto simp: linked_snoc chain_end_def)
  have "x = y"
    using digest_binds [OF xy] .
  then show ?case
    using "4.IH" "4.prems" by (auto simp: linked_snoc)
qed auto

end

section \<open>Audit values\<close>

record audit_head =
  ah_tenant_id :: pystr
  ah_run_id :: pystr
  ah_sequence :: int
  ah_event_hash :: "pystr option"

record change_set =
  cs_tenant_id :: pystr
  cs_run_id :: pystr
  cs_actor_sub :: pystr
  cs_action :: pystr
  cs_target_id :: pystr
  cs_before_hash :: "pystr option"
  cs_after_hash :: pystr
  cs_revision :: int
  cs_reason :: "pystr option"

record audit_event =
  ae_tenant_id :: pystr
  ae_run_id :: pystr
  ae_event_id :: pystr
  ae_sequence :: int
  ae_actor_sub :: pystr
  ae_action :: pystr
  ae_target_id :: pystr
  ae_before_hash :: "pystr option"
  ae_after_hash :: pystr
  ae_revision :: int
  ae_previous_event_hash :: "pystr option"
  ae_event_hash :: pystr
  ae_timestamp :: pystr
  ae_reason :: "pystr option"

definition required_text :: "string \<Rightarrow> pystr \<Rightarrow> unit result" where
  "required_text name v = (if v = [] then Inl (DomainValidationError (name @ '' must be a non-empty string'')) else Inr ())"

definition check_uuid :: "string \<Rightarrow> pystr \<Rightarrow> unit result" where
  "check_uuid name v = (if canonical_uuid v then Inr ()
     else Inl (DomainValidationError (name @ '' must be a canonical UUID string'')))"

definition check_sha256 :: "string \<Rightarrow> pystr \<Rightarrow> unit result" where
  "check_sha256 name v = (if is_sha256 v then Inr ()
     else Inl (DomainValidationError (name @ '' must be a 64-char lowercase hex sha256'')))"

definition optional_hash :: "string \<Rightarrow> pystr option \<Rightarrow> unit result" where
  "optional_hash name v = (case v of None \<Rightarrow> Inr () | Some h \<Rightarrow> check_sha256 name h)"

definition optional_text :: "string \<Rightarrow> pystr option \<Rightarrow> unit result" where
  "optional_text name v = (case v of None \<Rightarrow> Inr () | Some t \<Rightarrow> required_text name t)"

definition utc_timestamp :: "(pystr \<Rightarrow> bool) \<Rightarrow> pystr \<Rightarrow> unit result" where
  "utc_timestamp iso_utc v = (if py_endswith v (py ''Z'') \<and> iso_utc (butlast v @ py ''+00:00'') then Inr ()
     else Inl (DomainValidationError ''timestamp must be UTC RFC3339 ending in Z''))"

definition mk_audit_head :: "audit_head \<Rightarrow> audit_head result" where
  "mk_audit_head h =
     bindE (check_uuid ''tenant_id'' (ah_tenant_id h)) (\<lambda>_.
     bindE (check_uuid ''run_id'' (ah_run_id h)) (\<lambda>_.
     if ah_sequence h < 0 then Inl (DomainValidationError ''sequence must be non-negative'')
     else bindE (optional_hash ''event_hash'' (ah_event_hash h)) (\<lambda>_.
          if (ah_sequence h = 0) \<noteq> (ah_event_hash h = None)
          then Inl (DomainValidationError ''only an empty audit HEAD has no event_hash'')
          else Inr h)))"

definition empty_head :: "pystr \<Rightarrow> pystr \<Rightarrow> audit_head result" where
  "empty_head tenant run = mk_audit_head \<lparr>ah_tenant_id = tenant, ah_run_id = run, ah_sequence = 0, ah_event_hash = None\<rparr>"

definition mk_change_set :: "change_set \<Rightarrow> change_set result" where
  "mk_change_set c =
     bindE (check_uuid ''tenant_id'' (cs_tenant_id c)) (\<lambda>_.
     bindE (check_uuid ''run_id'' (cs_run_id c)) (\<lambda>_.
     bindE (check_uuid ''target_id'' (cs_target_id c)) (\<lambda>_.
     bindE (required_text ''actor_sub'' (cs_actor_sub c)) (\<lambda>_.
     bindE (required_text ''action'' (cs_action c)) (\<lambda>_.
     bindE (optional_hash ''before_hash'' (cs_before_hash c)) (\<lambda>_.
     bindE (check_sha256 ''after_hash'' (cs_after_hash c)) (\<lambda>_.
     if cs_revision c < 1 then Inl (DomainValidationError ''revision must be positive'')
     else bindE (optional_text ''reason'' (cs_reason c)) (\<lambda>_. Inr c))))))))"

definition mk_audit_event :: "(pystr \<Rightarrow> bool) \<Rightarrow> audit_event \<Rightarrow> audit_event result" where
  "mk_audit_event iso_utc e =
     bindE (check_uuid ''tenant_id'' (ae_tenant_id e)) (\<lambda>_.
     bindE (check_uuid ''run_id'' (ae_run_id e)) (\<lambda>_.
     bindE (check_uuid ''event_id'' (ae_event_id e)) (\<lambda>_.
     if ae_sequence e < 1 then Inl (DomainValidationError ''sequence must be positive'')
     else bindE (required_text ''actor_sub'' (ae_actor_sub e)) (\<lambda>_.
          bindE (required_text ''action'' (ae_action e)) (\<lambda>_.
          bindE (check_uuid ''target_id'' (ae_target_id e)) (\<lambda>_.
          bindE (optional_hash ''before_hash'' (ae_before_hash e)) (\<lambda>_.
          bindE (check_sha256 ''after_hash'' (ae_after_hash e)) (\<lambda>_.
          if ae_revision e < 1 then Inl (DomainValidationError ''revision must be positive'')
          else bindE (optional_hash ''previous_event_hash'' (ae_previous_event_hash e)) (\<lambda>_.
               bindE (check_sha256 ''event_hash'' (ae_event_hash e)) (\<lambda>_.
               bindE (utc_timestamp iso_utc (ae_timestamp e)) (\<lambda>_.
               bindE (optional_text ''reason'' (ae_reason e)) (\<lambda>_. Inr e))))))))))))"

section \<open>The event hash, appending and verifying\<close>

definition event_json :: "audit_event \<Rightarrow> json" where
  "event_json e = JObj
     [(py ''tenant_id'', JStr (ae_tenant_id e)), (py ''run_id'', JStr (ae_run_id e)),
      (py ''event_id'', JStr (ae_event_id e)), (py ''sequence'', JInt (ae_sequence e)),
      (py ''actor_sub'', JStr (ae_actor_sub e)), (py ''action'', JStr (ae_action e)),
      (py ''target_id'', JStr (ae_target_id e)), (py ''before_hash'', opt_str (ae_before_hash e)),
      (py ''after_hash'', JStr (ae_after_hash e)), (py ''revision'', JInt (ae_revision e)),
      (py ''previous_event_hash'', opt_str (ae_previous_event_hash e)),
      (py ''timestamp'', JStr (ae_timestamp e)), (py ''reason'', opt_str (ae_reason e))]"

definition hash_event :: "platform \<Rightarrow> audit_event \<Rightarrow> pystr result" where
  "hash_event P e = canonical_hash P (event_json e)"

definition candidate_event :: "change_set \<Rightarrow> audit_head \<Rightarrow> pystr \<Rightarrow> pystr \<Rightarrow> audit_event" where
  "candidate_event c h event_id timestamp =
     \<lparr>ae_tenant_id = cs_tenant_id c, ae_run_id = cs_run_id c, ae_event_id = event_id,
      ae_sequence = ah_sequence h + 1, ae_actor_sub = cs_actor_sub c, ae_action = cs_action c,
      ae_target_id = cs_target_id c, ae_before_hash = cs_before_hash c, ae_after_hash = cs_after_hash c,
      ae_revision = cs_revision c, ae_previous_event_hash = ah_event_hash h,
      ae_event_hash = replicate 64 48, ae_timestamp = timestamp, ae_reason = cs_reason c\<rparr>"

definition new_audit_event ::
  "platform \<Rightarrow> (pystr \<Rightarrow> bool) \<Rightarrow> change_set \<Rightarrow> audit_head \<Rightarrow> pystr \<Rightarrow> pystr
    \<Rightarrow> (audit_event \<times> audit_head) result" where
  "new_audit_event P iso_utc change head event_id timestamp =
     (if (cs_tenant_id change, cs_run_id change) \<noteq> (ah_tenant_id head, ah_run_id head)
      then Inl (AuditConflict ''expected audit HEAD belongs to another tenant or run'')
      else bindE (mk_audit_event iso_utc (candidate_event change head event_id timestamp)) (\<lambda>candidate.
           bindE (hash_event P candidate) (\<lambda>h.
           bindE (mk_audit_event iso_utc (candidate\<lparr>ae_event_hash := h\<rparr>)) (\<lambda>event.
           bindE (mk_audit_head \<lparr>ah_tenant_id = cs_tenant_id change, ah_run_id = cs_run_id change,
                    ah_sequence = ae_sequence event, ah_event_hash = Some (ae_event_hash event)\<rparr>) (\<lambda>head'.
           Inr (event, head'))))))"

fun verify_loop ::
  "platform \<Rightarrow> audit_head \<Rightarrow> pystr option \<Rightarrow> int \<Rightarrow> audit_event list \<Rightarrow> pystr option result" where
  "verify_loop P head previous sequence [] = Inr previous"
| "verify_loop P head previous sequence (event # events) =
     (if (ae_tenant_id event, ae_run_id event) \<noteq> (ah_tenant_id head, ah_run_id head)
      then Inl (AuditIntegrityError ''audit event belongs to another tenant or run'')
      else if ae_sequence event \<noteq> sequence \<or> ae_previous_event_hash event \<noteq> previous
      then Inl (AuditIntegrityError ''audit event sequence or previous hash is invalid'')
      else bindE (hash_event P event) (\<lambda>h.
           if ae_event_hash event \<noteq> h then Inl (AuditIntegrityError ''audit event hash is invalid'')
           else verify_loop P head (Some (ae_event_hash event)) (sequence + 1) events))"

definition verify_audit_chain :: "platform \<Rightarrow> audit_event list \<Rightarrow> audit_head \<Rightarrow> unit result" where
  "verify_audit_chain P events head = bindE (verify_loop P head None 1 events) (\<lambda>previous.
     if ah_sequence head \<noteq> int (length events) \<or> ah_event_hash head \<noteq> previous
     then Inl (AuditIntegrityError ''audit events do not reach the expected HEAD'')
     else Inr ())"

section \<open>What verification checks\<close>

definition event_digest :: "platform \<Rightarrow> audit_event \<Rightarrow> pystr option" where
  "event_digest P e = (case hash_event P e of Inr h \<Rightarrow> Some h | Inl _ \<Rightarrow> None)"

definition audit_clash :: "platform \<Rightarrow> audit_event \<Rightarrow> audit_event \<Rightarrow> bool" where
  "audit_clash P a b \<longleftrightarrow> \<not> (float_repr_ok (float_repr P) \<and> json_scalar (event_json a) \<and> json_scalar (event_json b)
     \<and> no_collision P (event_json a) (event_json b))"

lemma event_json_inj:
  assumes "json_norm (event_json a) = json_norm (event_json b)" "ae_event_hash a = ae_event_hash b"
  shows "a = b"
proof -
  have "list_all2 (\<lambda>x y. json_norm (snd x) = json_norm (snd y)) (dict_entries (event_json a)) (dict_entries (event_json b))"
    using assms(1) by (intro json_norm_same_keysD) (simp_all add: event_json_def del: json_norm.simps)
  then show ?thesis
    using assms(2) by (intro audit_event.equality) (simp_all add: event_json_def norm_inj)
qed

interpretation audit: hash_chain "event_digest P" ae_event_hash ae_previous_event_hash "audit_clash P" for P
proof
  fix a b assume "event_digest P a = Some (ae_event_hash a)" "event_digest P b = Some (ae_event_hash b)"
    and eq: "ae_event_hash a = ae_event_hash b" and nc: "\<not> audit_clash P a b"
  then have "canonical_hash P (event_json a) = Inr (ae_event_hash a)" "canonical_hash P (event_json b) = Inr (ae_event_hash a)"
    by (auto simp: event_digest_def hash_event_def split: sum.splits)
  then have "json_norm (event_json a) = json_norm (event_json b)"
    using nc canonical_hash_inj [of P "event_json a" "event_json b"] by (auto simp: audit_clash_def)
  then show "a = b"
    using event_json_inj eq by blast
qed

lemma event_digest_iff: "event_digest P e = Some h \<longleftrightarrow> hash_event P e = Inr h"
  by (auto simp: event_digest_def split: sum.splits)

lemma verify_loop_iff:
  "verify_loop P head p n es = Inr q \<longleftrightarrow>
     (\<forall>e\<in>set es. ae_tenant_id e = ah_tenant_id head \<and> ae_run_id e = ah_run_id head)
     \<and> map ae_sequence es = map (\<lambda>i. n + int i) [0..<length es]
     \<and> chain_links (event_digest P) ae_event_hash ae_previous_event_hash p es
     \<and> q = chain_end ae_event_hash p es"
proof (induction es arbitrary: p n)
  case (Cons e es)
  have "map (\<lambda>i. n + int i) [0..<length (e # es)] = n # map (\<lambda>i. n + 1 + int i) [0..<length es]"
    by (simp add: upt_conv_Cons del: upt_Suc) (simp add: map_Suc_upt [symmetric] del: upt_Suc)
  then show ?case
    using Cons.IH by (auto simp: result_simps event_digest_iff chain_end_def)
qed (auto simp: chain_end_def)

lemma verify_audit_chain_iff:
  "verify_audit_chain P es head = Inr () \<longleftrightarrow>
     (\<forall>e\<in>set es. ae_tenant_id e = ah_tenant_id head \<and> ae_run_id e = ah_run_id head)
     \<and> map ae_sequence es = map (\<lambda>i. 1 + int i) [0..<length es]
     \<and> chain_links (event_digest P) ae_event_hash ae_previous_event_hash None es
     \<and> ah_sequence head = int (length es) \<and> ah_event_hash head = chain_end ae_event_hash None es"
  by (auto simp: verify_audit_chain_def bindE_Inr_iff verify_loop_iff)

lemma new_audit_event_Inr:
  assumes "new_audit_event P iso_utc change head event_id timestamp = Inr (event, head')"
  obtains h where "cs_tenant_id change = ah_tenant_id head" "cs_run_id change = ah_run_id head"
    "event = (candidate_event change head event_id timestamp)\<lparr>ae_event_hash := h\<rparr>"
    "hash_event P event = Inr h"
    "head' = \<lparr>ah_tenant_id = ah_tenant_id head, ah_run_id = ah_run_id head, ah_sequence = ah_sequence head + 1,
       ah_event_hash = Some h\<rparr>"
proof -
  have id: "mk_audit_event iso_utc e = Inr e' \<Longrightarrow> e' = e" for e e'
    by (auto simp: mk_audit_event_def result_simps)
  have idh: "mk_audit_head e = Inr e' \<Longrightarrow> e' = e" for e e'
    by (auto simp: mk_audit_head_def result_simps)
  have js: "event_json (e\<lparr>ae_event_hash := h\<rparr>) = event_json e" for e h
    by (simp add: event_json_def)
  obtain h where h: "hash_event P (candidate_event change head event_id timestamp) = Inr h"
    "event = (candidate_event change head event_id timestamp)\<lparr>ae_event_hash := h\<rparr>"
    "(cs_tenant_id change, cs_run_id change) = (ah_tenant_id head, ah_run_id head)"
    "head' = \<lparr>ah_tenant_id = ah_tenant_id head, ah_run_id = ah_run_id head, ah_sequence = ae_sequence event,
       ah_event_hash = Some (ae_event_hash event)\<rparr>"
    using assms unfolding new_audit_event_def if_Inl_Inr_iff bindE_Inr_iff by (auto dest!: id idh)
  have "hash_event P event = Inr h"
    using h(1) unfolding h(2) hash_event_def js .
  then show ?thesis
    using that [of h] h(2-4) by (simp add: candidate_event_def)
qed

lemma append_verified:
  assumes "verify_audit_chain P es head = Inr ()"
    and "new_audit_event P iso_utc change head event_id timestamp = Inr (event, head')"
  shows "verify_audit_chain P (es @ [event]) head' = Inr ()"
  using assms(2)
proof (cases rule: new_audit_event_Inr)
  case (1 h)
  then show ?thesis
    using assms(1) unfolding verify_audit_chain_iff audit.linked_snoc
    by (auto simp: candidate_event_def event_digest_iff chain_end_def)
qed

section \<open>Audit properties\<close>

text \<open>
  The logs a run can have: the empty one, and what \<open>new_audit_event\<close> appends against the current head.
\<close>

inductive audit_log :: "platform \<Rightarrow> (pystr \<Rightarrow> bool) \<Rightarrow> pystr \<Rightarrow> pystr \<Rightarrow> audit_event list \<Rightarrow> audit_head \<Rightarrow> bool"
  for P :: platform and iso_utc :: "pystr \<Rightarrow> bool" and tenant run :: pystr where
  empty: "empty_head tenant run = Inr head \<Longrightarrow> audit_log P iso_utc tenant run [] head"
| append: "audit_log P iso_utc tenant run events head \<Longrightarrow>
    new_audit_event P iso_utc change head event_id timestamp = Inr (event, head') \<Longrightarrow>
    audit_log P iso_utc tenant run (events @ [event]) head'"

inductive_simps audit_log_Nil: "audit_log P iso_utc tenant run [] head"

lemma empty_head_Inr:
  "empty_head tenant run = Inr head \<Longrightarrow>
   head = \<lparr>ah_tenant_id = tenant, ah_run_id = run, ah_sequence = 0, ah_event_hash = None\<rparr>"
  by (auto simp: empty_head_def mk_audit_head_def result_simps)

text \<open>
  C8. Every log built by appending verifies: whatever changes were recorded from the empty head on, the events and the head pass
  \<open>verify_audit_chain\<close>, and all of them belong to the tenant and run of the log.
\<close>

theorem built_log_verifies:
  assumes "audit_log P iso_utc tenant run events head"
  shows "verify_audit_chain P events head = Inr () \<and> ah_tenant_id head = tenant \<and> ah_run_id head = run
    \<and> (\<forall>e\<in>set events. ae_tenant_id e = tenant \<and> ae_run_id e = run)"
  using assms
proof (induction rule: audit_log.induct)
  case (empty head)
  then show ?case
    using empty_head_Inr [OF empty] by (simp add: verify_audit_chain_def)
next
  case (append events head change event_id timestamp event head')
  from append.hyps(2) show ?case
  proof (cases rule: new_audit_event_Inr)
    case (1 h)
    then show ?thesis
      using append.IH append_verified [OF _ append.hyps(2)] by (auto simp: candidate_event_def)
  qed
qed

text \<open>
  C4. The log is tamper evident: two event sequences that both verify against the same head are the same sequence, so an event
  that was altered, dropped, added or moved is detected. Relied on: the texts of the events at hand do not collide under the
  digest (\<open>audit_clash\<close>).
\<close>

theorem verified_log_is_unique:
  assumes "verify_audit_chain P events head = Inr ()" "verify_audit_chain P events' head = Inr ()"
    and "\<forall>a\<in>set events. \<forall>b\<in>set events'. \<not> audit_clash P a b"
  shows "events = events'"
  using assms by (intro audit.end_determines_chain) (auto simp: verify_audit_chain_iff)

text \<open>
  An append is the recorded change and nothing else: the new event carries the change's fields, the next sequence number and the
  previous head's hash, the new head names it, and a change for another tenant or run is refused as a conflict.
\<close>

theorem append_records_change:
  "(new_audit_event P iso_utc change head event_id timestamp = Inr (event, head') \<longrightarrow>
      ae_actor_sub event = cs_actor_sub change \<and> ae_action event = cs_action change
      \<and> ae_target_id event = cs_target_id change \<and> ae_before_hash event = cs_before_hash change
      \<and> ae_after_hash event = cs_after_hash change \<and> ae_revision event = cs_revision change
      \<and> ae_sequence event = ah_sequence head + 1 \<and> ae_previous_event_hash event = ah_event_hash head
      \<and> ah_sequence head' = ae_sequence event \<and> ah_event_hash head' = Some (ae_event_hash event))
    \<and> ((cs_tenant_id change, cs_run_id change) \<noteq> (ah_tenant_id head, ah_run_id head) \<longrightarrow>
      new_audit_event P iso_utc change head event_id timestamp
        = Inl (AuditConflict ''expected audit HEAD belongs to another tenant or run''))"
proof -
  have "ae_actor_sub event = cs_actor_sub change \<and> ae_action event = cs_action change
      \<and> ae_target_id event = cs_target_id change \<and> ae_before_hash event = cs_before_hash change
      \<and> ae_after_hash event = cs_after_hash change \<and> ae_revision event = cs_revision change
      \<and> ae_sequence event = ah_sequence head + 1 \<and> ae_previous_event_hash event = ah_event_hash head
      \<and> ah_sequence head' = ae_sequence event \<and> ah_event_hash head' = Some (ae_event_hash event)"
    if "new_audit_event P iso_utc change head event_id timestamp = Inr (event, head')"
    using that by (cases rule: new_audit_event_Inr) (auto simp: candidate_event_def)
  then show ?thesis
    by (auto simp: new_audit_event_def)
qed

section \<open>A first event\<close>

definition hex_platform :: platform where
  "hex_platform = \<lparr>float_repr = exact_repr, sha256_hex = (\<lambda>_. hex64)\<rparr>"

definition sample_head :: audit_head where
  "sample_head = \<lparr>ah_tenant_id = uuid_of 1, ah_run_id = uuid_of 2, ah_sequence = 0, ah_event_hash = None\<rparr>"

definition sample_change :: change_set where
  "sample_change = \<lparr>cs_tenant_id = uuid_of 1, cs_run_id = uuid_of 2, cs_actor_sub = py ''reviewer'', cs_action = py ''confirm'',
     cs_target_id = uuid_of 3, cs_before_hash = None, cs_after_hash = hex64, cs_revision = 1, cs_reason = None\<rparr>"

definition sample_event :: audit_event where
  "sample_event = (candidate_event sample_change sample_head (uuid_of 4) (py ''2026-01-01T00:00:00Z''))\<lparr>ae_event_hash := hex64\<rparr>"

definition next_head :: audit_head where
  "next_head = sample_head\<lparr>ah_sequence := 1, ah_event_hash := Some hex64\<rparr>"

lemma sample_uuids: "n < 10 \<Longrightarrow> canonical_uuid (uuid_of n)" "is_sha256 hex64"
proof -
  show "canonical_uuid (uuid_of n)" if "n < 10"
    using that by (simp add: canonical_uuid_def uuid_of_def py_def lower_hex_def py_lower_def py_lower_char_def upt_conv_Cons)
  show "is_sha256 hex64"
    by (simp add: is_sha256_def hex64_def lower_hex_def list_all_iff)
qed

lemma sample_event_made:
  "new_audit_event hex_platform (\<lambda>_. True) sample_change sample_head (uuid_of 4) (py ''2026-01-01T00:00:00Z'') = Inr (sample_event, next_head)"
proof -
  have z: "py_endswith (py ''2026-01-01T00:00:00Z'') (py ''Z'')"
    by (simp add: py_endswith_def) (simp add: py_def)
  have h: "hash_event hex_platform e = Inr hex64" for e
    by (simp add: hash_event_def canonical_hash_def canonical_json_def event_json_def hex_platform_def)
  have r: "is_sha256 (replicate 64 48)"
    using sample_uuids(2) by (simp add: hex64_def)
  show ?thesis
    by (simp add: new_audit_event_def mk_audit_event_def mk_audit_head_def candidate_event_def sample_change_def sample_head_def
        check_uuid_def check_sha256_def required_text_def optional_hash_def optional_text_def utc_timestamp_def
        sample_uuids z h r sample_event_def next_head_def)
qed

lemma sample_empty: "empty_head (uuid_of 1) (uuid_of 2) = Inr sample_head"
  by (simp add: empty_head_def mk_audit_head_def sample_head_def check_uuid_def optional_hash_def sample_uuids)

lemma sample_log: "audit_log hex_platform (\<lambda>_. True) (uuid_of 1) (uuid_of 2) [sample_event] next_head"
  using audit_log.append [OF audit_log.empty [OF sample_empty] sample_event_made] by simp

theorem built_log_verifies_witness:
  "audit_log hex_platform (\<lambda>_. True) (uuid_of 1) (uuid_of 2) [sample_event] next_head
     \<and> verify_audit_chain hex_platform [sample_event] next_head = Inr ()"
  using sample_log built_log_verifies [OF sample_log] by blast

lemma sample_event_clash: "\<not> audit_clash hex_platform sample_event sample_event"
proof -
  have "plain (uuid_of n)" if "n < 10" for n
    using that scalar_py by (auto simp: uuid_of_def plain_def scalar_def)
  moreover have "plain hex64"
    using scalar_hex64 by (simp add: plain_def)
  ultimately have "json_scalar (event_json sample_event)"
    by (simp add: event_json_def sample_event_def candidate_event_def sample_change_def sample_head_def scalar_simps
        del: json_scalar.simps(1,3))
  then show ?thesis
    by (auto simp: audit_clash_def no_collision_def hex_platform_def exact_repr_ok)
qed

theorem verified_log_is_unique_witness:
  "\<exists>events events'. verify_audit_chain hex_platform events next_head = Inr ()
     \<and> verify_audit_chain hex_platform events' next_head = Inr () \<and> length events = 1 \<and> events = events'"
proof -
  have v: "verify_audit_chain hex_platform [sample_event] next_head = Inr ()"
    using append_verified [OF _ sample_event_made, of "[]"] by (simp add: verify_audit_chain_def sample_head_def)
  have "[sample_event] = [sample_event]"
    by (rule verified_log_is_unique [OF v v]) (simp add: sample_event_clash)
  with v show ?thesis
    by (intro exI [of _ "[sample_event]"]) simp
qed

theorem append_records_change_witness:
  "new_audit_event hex_platform (\<lambda>_. True) sample_change sample_head (uuid_of 4) (py ''2026-01-01T00:00:00Z'')
     = Inr (sample_event, next_head) \<and> ae_sequence sample_event = ah_sequence sample_head + 1
     \<and> ah_event_hash next_head = Some (ae_event_hash sample_event)"
  using append_records_change [of hex_platform "\<lambda>_. True" sample_change sample_head] sample_event_made by blast

section \<open>Provenance\<close>

text \<open>
  A provider request: \<open>rq_temperature\<close> is the Python number (an int or a float), \<open>rq_tools\<close> the list of tool mappings.
\<close>

record provider_request =
  rq_temperature :: json
  rq_model_id :: pystr
  rq_model_profile :: pystr
  rq_prompt_sha256 :: pystr
  rq_schema_sha256 :: pystr
  rq_packet_sha256 :: pystr
  rq_tools :: "json list"
  rq_max_tokens :: int
  rq_replicate_id :: int
  rq_extraction_epoch :: int

definition check_temperature :: "json \<Rightarrow> unit result" where
  "check_temperature t = (case t of
       JInt i \<Rightarrow> bindE (float_of_int i) (\<lambda>_. Inr ())
     | JFloat (PyFinite _) \<Rightarrow> Inr ()
     | _ \<Rightarrow> Inl (DomainValidationError ''temperature must be a finite number''))"

definition is_mapping :: "json \<Rightarrow> bool" where
  "is_mapping v = (case v of JObj _ \<Rightarrow> True | _ \<Rightarrow> False)"

definition check_positive :: "string \<Rightarrow> int \<Rightarrow> unit result" where
  "check_positive name v = (if v < 1 then Inl (DomainValidationError (name @ '' must be positive'')) else Inr ())"

definition request_json :: "provider_request \<Rightarrow> json" where
  "request_json r = JObj
     [(py ''temperature'', rq_temperature r), (py ''model_id'', JStr (rq_model_id r)),
      (py ''model_profile'', JStr (rq_model_profile r)), (py ''prompt_sha256'', JStr (rq_prompt_sha256 r)),
      (py ''schema_sha256'', JStr (rq_schema_sha256 r)), (py ''packet_sha256'', JStr (rq_packet_sha256 r)),
      (py ''tools'', JList (rq_tools r)), (py ''max_tokens'', JInt (rq_max_tokens r)),
      (py ''replicate_id'', JInt (rq_replicate_id r)), (py ''extraction_epoch'', JInt (rq_extraction_epoch r))]"

definition request_signature :: "platform \<Rightarrow> provider_request \<Rightarrow> pystr result" where
  "request_signature P r =
     bindE (check_temperature (rq_temperature r)) (\<lambda>_.
     bindE (required_text ''model_id'' (rq_model_id r)) (\<lambda>_.
     bindE (required_text ''model_profile'' (rq_model_profile r)) (\<lambda>_.
     bindE (check_sha256 ''prompt_sha256'' (rq_prompt_sha256 r)) (\<lambda>_.
     bindE (check_sha256 ''schema_sha256'' (rq_schema_sha256 r)) (\<lambda>_.
     bindE (check_sha256 ''packet_sha256'' (rq_packet_sha256 r)) (\<lambda>_.
     if \<not> list_all is_mapping (rq_tools r) then Inl (DomainValidationError ''tools must be a sequence of mappings'')
     else bindE (check_positive ''max_tokens'' (rq_max_tokens r)) (\<lambda>_.
          bindE (check_positive ''replicate_id'' (rq_replicate_id r)) (\<lambda>_.
          bindE (check_positive ''extraction_epoch'' (rq_extraction_epoch r)) (\<lambda>_.
          if rq_replicate_id r \<notin> {1, 2, 3} then Inl (DomainValidationError ''replicate_id must be 1, 2, or 3'')
          else canonical_hash P (request_json r))))))))))"

definition provenance_json :: "pystr \<Rightarrow> pystr \<Rightarrow> pystr \<Rightarrow> json" where
  "provenance_json semantic_hash actor_id occurred_at = JObj
     [(py ''semantic_hash'', JStr semantic_hash), (py ''actor_id'', JStr actor_id), (py ''occurred_at'', JStr occurred_at)]"

definition provenance_hash :: "platform \<Rightarrow> pystr \<Rightarrow> pystr \<Rightarrow> pystr \<Rightarrow> pystr result" where
  "provenance_hash P semantic_hash actor_id occurred_at =
     bindE (check_sha256 ''semantic_hash'' semantic_hash) (\<lambda>_.
     bindE (required_text ''actor_id'' actor_id) (\<lambda>_.
     bindE (required_text ''occurred_at'' occurred_at) (\<lambda>_.
     canonical_hash P (provenance_json semantic_hash actor_id occurred_at))))"

lemma request_signature_hash:
  "request_signature P r = Inr h \<Longrightarrow> canonical_hash P (request_json r) = Inr h"
  by (auto simp: request_signature_def result_simps)

lemma request_json_inj:
  assumes "json_norm (request_json r) = json_norm (request_json s)"
  shows "json_norm (rq_temperature r) = json_norm (rq_temperature s)"
    and "map json_norm (rq_tools r) = map json_norm (rq_tools s)"
    and "r\<lparr>rq_temperature := rq_temperature s, rq_tools := rq_tools s\<rparr> = s"
proof -
  have l: "list_all2 (\<lambda>x y. json_norm (snd x) = json_norm (snd y)) (dict_entries (request_json r)) (dict_entries (request_json s))"
    using assms by (intro json_norm_same_keysD) (simp_all add: request_json_def del: json_norm.simps)
  show "json_norm (rq_temperature r) = json_norm (rq_temperature s)" "map json_norm (rq_tools r) = map json_norm (rq_tools s)"
    using l by (simp_all add: request_json_def)
  show "r\<lparr>rq_temperature := rq_temperature s, rq_tools := rq_tools s\<rparr> = s"
    using l by (intro provider_request.equality) (simp_all add: request_json_def)
qed

text \<open>
  A request signature binds every input that can change a model response: two accepted requests with the same signature agree on
  model, profile, prompt, schema and packet hashes, token limit, replicate and epoch, on the temperature, and on the tools up to the
  order of mapping keys.
\<close>

theorem request_signature_binds_inputs:
  assumes "float_repr_ok (float_repr P)" "request_signature P r = Inr h" "request_signature P s = Inr h"
    and "json_scalar (request_json r)" "json_scalar (request_json s)" "no_collision P (request_json r) (request_json s)"
  shows "rq_temperature r = rq_temperature s \<and> map json_norm (rq_tools r) = map json_norm (rq_tools s)
    \<and> r\<lparr>rq_tools := rq_tools s\<rparr> = s"
proof -
  have eq: "json_norm (request_json r) = json_norm (request_json s)"
    using canonical_hash_inj [OF assms(1,4-6)] request_signature_hash [OF assms(2)] request_signature_hash [OF assms(3)]
    by blast
  have num: "json_norm (rq_temperature x) = rq_temperature x" if "request_signature P x = Inr h" for x
    using that by (auto simp: request_signature_def result_simps check_temperature_def split: json.splits)
  have t: "rq_temperature r = rq_temperature s"
    using request_json_inj(1) [OF eq] num assms(2,3) by metis
  have "r\<lparr>rq_tools := rq_tools s\<rparr> = r\<lparr>rq_temperature := rq_temperature s, rq_tools := rq_tools s\<rparr>"
    using t by (cases r) simp
  then show ?thesis
    using t request_json_inj(2,3) [OF eq] by simp
qed

definition sample_request :: "json list \<Rightarrow> provider_request" where
  "sample_request tools = \<lparr>rq_temperature = JInt 0, rq_model_id = py ''m'', rq_model_profile = py ''p'', rq_prompt_sha256 = hex64,
     rq_schema_sha256 = hex64, rq_packet_sha256 = hex64, rq_tools = tools, rq_max_tokens = 1, rq_replicate_id = 1,
     rq_extraction_epoch = 1\<rparr>"

theorem request_signature_binds_inputs_witness:
  "\<exists>h. request_signature exact_platform (sample_request [JObj [(py ''a'', JNull), (py ''b'', JNull)]]) = Inr h
     \<and> request_signature exact_platform (sample_request [JObj [(py ''b'', JNull), (py ''a'', JNull)]]) = Inr h
     \<and> rq_model_id (sample_request []) = py ''m''
     \<and> map json_norm [JObj [(py ''a'', JNull), (py ''b'', JNull)]] = map json_norm [JObj [(py ''b'', JNull), (py ''a'', JNull)]]"
proof -
  let ?r = "sample_request [JObj [(py ''a'', JNull), (py ''b'', JNull)]]"
  let ?s = "sample_request [JObj [(py ''b'', JNull), (py ''a'', JNull)]]"
  have sc: "json_scalar (request_json ?r)" "json_scalar (request_json ?s)"
    using scalar_hex64 by (simp_all add: request_json_def sample_request_def scalar_simps plain_def [of hex64] del: json_scalar.simps(1,3))
  have "json_norm v = json_norm w \<Longrightarrow> json_norm (request_json (sample_request [v])) = json_norm (request_json (sample_request [w]))" for v w
    by (simp add: request_json_def sample_request_def)
  moreover have "py ''a'' < py ''b''"
    by (simp add: py_def)
  ultimately have "json_norm (request_json ?r) = json_norm (request_json ?s)"
    using json_norm_pair [of "py ''a''" "py ''b''" JNull JNull] json_norm_idem by fastforce
  then have same: "canonical_hash exact_platform (request_json ?r) = canonical_hash exact_platform (request_json ?s)"
    by (simp add: canonical_hash_def canonical_json_def request_json_def sample_request_def)
  have sel: "check_temperature (rq_temperature (sample_request ts)) = Inr ()" "rq_model_id (sample_request ts) = py ''m''"
    "rq_model_profile (sample_request ts) = py ''p''" "rq_prompt_sha256 (sample_request ts) = hex64"
    "rq_schema_sha256 (sample_request ts) = hex64" "rq_packet_sha256 (sample_request ts) = hex64" "rq_tools (sample_request ts) = ts"
    "rq_max_tokens (sample_request ts) = 1" "rq_replicate_id (sample_request ts) = 1" "rq_extraction_epoch (sample_request ts) = 1" for ts
    by (simp_all add: sample_request_def check_temperature_def float_of_int_def)
  have sig: "request_signature exact_platform (sample_request [JObj kvs])
      = canonical_hash exact_platform (request_json (sample_request [JObj kvs]))" for kvs
    by (simp add: request_signature_def sel required_text_def check_sha256_def check_positive_def is_mapping_def sample_uuids(2))
  obtain h where h: "request_signature exact_platform ?r = Inr h"
    using canonical_hash_finite [of "request_json ?r" exact_platform] unfolding sig
    by (auto simp: request_json_def sample_request_def)
  then have h': "request_signature exact_platform ?s = Inr h"
    unfolding sig same .
  have fr: "float_repr_ok (float_repr exact_platform)"
    by (simp add: exact_platform_def exact_repr_ok)
  have "map json_norm (rq_tools ?r) = map json_norm (rq_tools ?s)"
    using request_signature_binds_inputs [OF fr h h' sc exact_no_collision] by blast
  then show ?thesis
    using h h' by (simp add: sample_request_def)
qed

end
