(* ===== verification/Scope_Rules.thy ===== *)
theory Scope_Rules
  imports Hash_Props
begin

text \<open>
  Model of the scoped rule profiles \<^verbatim>\<open>domain/rules/analysis_scope.py\<close> (DEC-85) and \<^verbatim>\<open>domain/rules/cf6_scope.py\<close> (DEC-127),
  and of the safe-harbor record path \<^verbatim>\<open>domain/rules/safe_harbor.py\<close>.

  A scope is a dictionary, kept as JSON entries; \<^verbatim>\<open>scope.get(key)\<close> is \<open>map_of\<close>, and \<open>json_eq\<close> is Python's \<^verbatim>\<open>==\<close> on such values
  (numbers compare across int, float and bool, dictionaries without regard to order). A scoped evaluation returns either the
  plain decision or the scope decision that extends it.
\<close>

section \<open>Python equality of JSON values\<close>

definition json_number :: "json \<Rightarrow> rat option" where
  "json_number v = (case v of JBool b \<Rightarrow> Some (if b then 1 else 0) | JInt i \<Rightarrow> Some (of_int i)
     | JFloat (PyFinite q) \<Rightarrow> Some q | _ \<Rightarrow> None)"

lemma size_in_zip: "(a, b) \<in> set (zip xs ys) \<Longrightarrow> size (a :: json) < Suc (size_list size xs)"
  by (auto dest!: set_zip_leftD simp: less_Suc_eq_le intro: size_list_estimation')

function (sequential) json_eq :: "json \<Rightarrow> json \<Rightarrow> bool" where
  "json_eq (JList xs) w = (case w of JList ys \<Rightarrow> length xs = length ys \<and> list_all (\<lambda>(x, y). json_eq x y) (zip xs ys) | _ \<Rightarrow> False)"
| "json_eq (JObj d) w = (case w of JObj d' \<Rightarrow> fst ` set d = fst ` set d'
     \<and> list_all (\<lambda>kv. case map_of d' (fst kv) of None \<Rightarrow> False | Some x \<Rightarrow> json_eq (snd kv) x) d | _ \<Rightarrow> False)"
| "json_eq (JStr s) w = (w = JStr s)"
| "json_eq JNull w = (w = JNull)"
| "json_eq (JFloat PyNaN) w = False"
| "json_eq (JFloat PyInf) w = (w = JFloat PyInf)"
| "json_eq (JFloat PyNegInf) w = (w = JFloat PyNegInf)"
| "json_eq v w = (json_number v = json_number w)"
  by pat_completeness auto

termination
  by (relation "measure (\<lambda>(v, _). size v)") (auto simp: size_in_zip less_Suc_eq_le dest!: size_in_zip
      intro: size_list_estimation')

definition scope_truthy :: "(pystr \<times> json) list \<Rightarrow> string \<Rightarrow> bool" where
  "scope_truthy scope k = (case map_of scope (py k) of None \<Rightarrow> False | Some v \<Rightarrow> py_truthy v)"

definition dict_set :: "(pystr \<times> json) list \<Rightarrow> pystr \<Rightarrow> json \<Rightarrow> (pystr \<times> json) list" where
  "dict_set d k v = filter (\<lambda>kv. fst kv \<noteq> k) d @ [(k, v)]"

section \<open>DEC-85 analysis scope\<close>

definition SC1_PROFILE :: pystr where
  "SC1_PROFILE = py ''analysis-scope-rules-sc1-v1''"

definition SC1_POLICY :: json where
  "SC1_POLICY = JObj
     [(py ''profile'', JStr SC1_PROFILE),
      (py ''absence'', JStr (py ''absent_in_scope_only_with_complete_same_run_search_receipt'')),
      (py ''conflict'', JStr (py ''never_confirm'')),
      (py ''required_positive_facts'', JStr (py ''pinned_agreement_threshold_independent_verified_bound_votes'')),
      (py ''unknown'', JStr (py ''remains_unknown_without_new_search_evidence''))]"

definition SC1_DISPLAY :: pystr where
  "SC1_DISPLAY = [48516, 49437, 32, 48276, 50948, 32, 44592, 51456, 32, 54869, 51221]"

record scope_decision = decision +
  sd_confirmation_basis :: pystr
  sd_confirmation_display :: pystr
  sd_confirmation_scope :: "(pystr \<times> json) list"
  sd_confirmation_policy_sha256 :: json

datatype scope_result = Plain decision | Scoped scope_decision

definition extend_decision ::
  "decision \<Rightarrow> pystr \<Rightarrow> pystr \<Rightarrow> (pystr \<times> json) list \<Rightarrow> json \<Rightarrow> scope_decision" where
  "extend_decision d basis display scope policy = decision.extend d
     \<lparr>sd_confirmation_basis = basis, sd_confirmation_display = display, sd_confirmation_scope = scope,
      sd_confirmation_policy_sha256 = policy\<rparr>"

definition scope_decision_asdict :: "scope_decision \<Rightarrow> json" where
  "scope_decision_asdict d = JObj (dict_entries (decision_asdict (decision.truncate d)) @
     [(py ''confirmation_basis'', JStr (sd_confirmation_basis d)),
      (py ''confirmation_display'', JStr (sd_confirmation_display d)),
      (py ''confirmation_scope'', JObj (sd_confirmation_scope d)),
      (py ''confirmation_policy_sha256'', sd_confirmation_policy_sha256 d)])"

definition scope_decision_to_api_dict :: "scope_decision \<Rightarrow> json" where
  "scope_decision_to_api_dict d = JObj (dict_entries (decision_to_api_dict (decision.truncate d)) @
     [(py ''confirmation_basis'', JStr (sd_confirmation_basis d)),
      (py ''confirmation_display'', JStr (sd_confirmation_display d)),
      (py ''confirmation_scope'', JObj (sd_confirmation_scope d)),
      (py ''confirmation_policy_sha256'', sd_confirmation_policy_sha256 d)])"

definition scoped_names :: "confirmed_tags \<Rightarrow> pystr set" where
  "scoped_names tags = set (map cf_name (filter (\<lambda>f. cf_state f = Absent_in_scope) (ct_facts tags)))"

definition evaluate_analysis_scope ::
  "platform \<Rightarrow> confirmed_tags \<Rightarrow> rule_context \<Rightarrow> rule_pack \<Rightarrow> (pystr \<times> json) list \<Rightarrow> pystr list \<Rightarrow> pystr
    \<Rightarrow> scope_result result" where
  "evaluate_analysis_scope P tags context pack scope absent_facts receipt =
     bindE (canonical_hash P SC1_POLICY) (\<lambda>policy_hash.
     if map_of scope (py ''tenant_id'') \<noteq> Some (JStr (ct_tenant_id tags))
        \<or> map_of scope (py ''document_version_id'') \<noteq> Some (JStr (ct_document_version_id tags))
        \<or> \<not> scope_truthy scope ''run_id'' \<or> \<not> scope_truthy scope ''selected_pages''
        \<or> scope_truthy scope ''uninspected_pages''
        \<or> \<not> (case map_of scope (py ''inspected_pages'') of None \<Rightarrow> False
             | Some v \<Rightarrow> json_eq v (the (map_of scope (py ''selected_pages''))))
        \<or> map_of scope (py ''rule_policy_sha256'') \<noteq> Some (JStr policy_hash)
        \<or> set absent_facts \<noteq> scoped_names tags \<or> absent_facts = []
        \<or> list_ex (\<lambda>f. cf_state f = Conflict) (ct_facts tags)
     then Inl (DomainValidationError ''SC1_SCOPE_NOT_CONFIRMABLE'')
     else bindE (evaluate_scoped P tags context pack True False) (\<lambda>decision.
          if d_decision_status decision \<noteq> Decided then Inr (Plain decision)
          else bindE (case map_of scope (py ''confirmation_policy_sha256'') of
                 None \<Rightarrow> Inl (KeyError ''confirmation_policy_sha256'') | Some v \<Rightarrow> Inr v) (\<lambda>confirmation.
               let result = extend_decision decision (py ''analysis_scope'') SC1_DISPLAY
                     (dict_set scope (py ''search_receipt_sha256'') (JStr receipt)) confirmation
               in bindE (canonical_hash P (JObj
                    [(py ''policy'', SC1_POLICY), (py ''scope'', JObj scope), (py ''receipt_sha256'', JStr receipt),
                     (py ''decision'', scope_decision_asdict result)])) (\<lambda>h.
                  Inr (Scoped (result\<lparr>d_semantic_hash := h\<rparr>))))))"

section \<open>DEC-127 scoped non-observation\<close>

definition CF6_POLICY_V1 :: "(pystr \<times> json) list" where
  "CF6_POLICY_V1 =
     [(py ''profile'', JStr (py ''cf6_dec127_scope_rules_v1'')),
      (py ''absence'', JStr (py ''unknown_after_three_completed_tagging_replicas_is_absent_in_selected_scope'')),
      (py ''coverage'', JStr (py ''system_non_observation_not_exhaustive_document_search'')),
      (py ''conflict'', JStr (py ''held'')), (py ''rule_gap'', JStr (py ''held''))]"

definition CF6_POLICY :: "(pystr \<times> json) list" where
  "CF6_POLICY = dict_set CF6_POLICY_V1 (py ''profile'') (JStr (py ''cf6_dec127_scope_rules_v2'')) @
     [(py ''management_floor'', JStr (py ''M1_absent_E0_original_4.3_4.4_no_fabricated_willingness'')),
      (py ''source_exceptions'', JStr (py ''scoped_absence_consumed_by_original_4.4_branches'')),
      (py ''auxiliary_facts'', JStr (py ''exception_operands_only_non_observed_after_three_completed_replicas'')),
      (py ''additional_elements'', JStr (py ''pinned_pack_report_only_conditional_triggers_not_invented''))]"

definition put_fact :: "confirmed_fact \<Rightarrow> confirmed_fact list \<Rightarrow> confirmed_fact list" where
  "put_fact f fs = (if cf_name f \<in> cf_name ` set fs then map (\<lambda>g. if cf_name g = cf_name f then f else g) fs
     else fs @ [f])"

definition superlative_refs :: "confirmed_tags \<Rightarrow> source_ref list \<Rightarrow> source_ref list" where
  "superlative_refs tags refs = (case ct_superlative_quote tags of None \<Rightarrow> []
     | Some q \<Rightarrow> filter (\<lambda>r. sr_verification_state r = Verified
         \<and> sr_document_version_id r = ct_document_version_id tags \<and> py_strip q \<noteq> [] \<and> py_contains q (sr_quote r)) refs)"

definition exception_operands :: "confirmed_tags \<Rightarrow> pystr list" where
  "exception_operands tags =
     (if opt_truthy (ct_superlative_quote tags) then [py ''comparison_basis'', py ''external_verification''] else [])
     @ (if ct_product_variant tags then [py ''direct_product_material_ratio_or_target''] else [])
     @ (if py ''categorical_ordinal'' \<in> cf_name ` set (ct_facts tags)
        then [py ''categorical_ordinal'', py ''certification_provider''] else [])"

definition close_operand :: "confirmed_fact list \<Rightarrow> pystr \<Rightarrow> confirmed_fact list result" where
  "close_operand fs n =
     (if (case find (\<lambda>f. cf_name f = n) fs of None \<Rightarrow> True | Some f \<Rightarrow> cf_state f = Unknown)
      then bindE (mk_confirmed_fact (plain_fact n Absent_in_scope)) (\<lambda>f. Inr (put_fact f fs))
      else Inr fs)"

fun close_operands :: "confirmed_fact list \<Rightarrow> pystr list \<Rightarrow> confirmed_fact list result" where
  "close_operands fs [] = Inr fs"
| "close_operands fs (n # ns) = bindE (close_operand fs n) (\<lambda>gs. close_operands gs ns)"

definition superlative_fact :: "confirmed_tags \<Rightarrow> source_ref list \<Rightarrow> confirmed_fact" where
  "superlative_fact tags refs = (plain_fact (py ''has_superlative'') Present)
     \<lparr>cf_evidence_refs := refs, cf_source_tenant_id := Some (ct_tenant_id tags), cf_citation_verified := True,
      cf_binding_accepted := True\<rparr>"

definition resolve_exception_facts :: "confirmed_tags \<Rightarrow> source_ref list \<Rightarrow> confirmed_tags result" where
  "resolve_exception_facts tags claim_source_refs =
     (let refs = superlative_refs tags claim_source_refs
      in bindE (if opt_truthy (ct_superlative_quote tags) \<and> py ''has_superlative'' \<notin> cf_name ` set (ct_facts tags) \<and> refs \<noteq> []
                then bindE (mk_confirmed_fact (superlative_fact tags refs)) (\<lambda>f. Inr (put_fact f (ct_facts tags)))
                else Inr (ct_facts tags)) (\<lambda>facts.
         bindE (close_operands facts (py_sorted_set (exception_operands tags))) (\<lambda>facts'.
         mk_confirmed_tags (tags\<lparr>ct_facts := facts'\<rparr>))))"

definition gap_description :: "confirmed_tags \<Rightarrow> pystr \<Rightarrow> pystr" where
  "gap_description tags gap =
     (if gap = py ''GAP-001'' then py ''original '' @ [167] @ py ''4.6 safe-harbor category has no E0'' @ [8211] @ py ''E3 mapping''
      else if gap = py ''GAP-003'' then py ''pinned pack lacks additional_element_policy=report_without_grade_effect''
      else if gap = py ''GAP-006'' then py ''superlative plus safe-harbor precedence has no grade mapping''
      else if gap = py ''GAP-007''
      then if ct_product_variant tags \<and> ct_track tags = Management
           then py ''product ratio/target present: generic management boundary interaction undefined''
           else if ct_product_variant tags then py ''product variant outside management is undefined''
           else py ''no '' @ track_text (ct_track tags) @ py '' ladder branch matches resolved primitive facts''
      else py ''pinned rule gap'')"

definition gap_details :: "confirmed_tags \<Rightarrow> rule_pack \<Rightarrow> decision \<Rightarrow> json list result" where
  "gap_details tags pack decision =
     (if d_decision_status decision \<noteq> Blocked_rule_gap then Inr []
      else mapE (\<lambda>gap. bindE (file_content pack (rubric_path (ct_track tags))) (\<lambda>rubric.
             bindE (jitem rubric ''branches'') (\<lambda>branches.
             Inr (JObj [(py ''gap_id'', JStr gap), (py ''branch'', JStr (gap_description tags gap)),
               (py ''track'', JStr (track_text (ct_track tags))),
               (py ''safe_harbor_category'', opt_str (ct_safe_harbor_category tags)),
               (py ''facts'', JObj (map (\<lambda>f. (cf_name f, JStr (element_state_text (cf_state f)))) (ct_facts tags))),
               (py ''rubric_branches'', branches)])))) (d_gap_ids decision))"

definition evaluate_cf6_scope ::
  "platform \<Rightarrow> confirmed_tags \<Rightarrow> rule_context \<Rightarrow> rule_pack \<Rightarrow> (pystr \<times> json) list \<Rightarrow> pystr \<Rightarrow> pystr
    \<Rightarrow> scope_result result" where
  "evaluate_cf6_scope P tags context pack scope policy_sha256 receipt =
     bindE (canonical_hash P (JObj CF6_POLICY_V1)) (\<lambda>h1.
     bindE (canonical_hash P (JObj CF6_POLICY)) (\<lambda>h2.
     let given = map_of scope (py ''rule_policy_sha256'');
         selected = (if given = Some (JStr h1) then Some CF6_POLICY_V1
                     else if given = Some (JStr h2) then Some CF6_POLICY else None)
     in if map_of scope (py ''tenant_id'') \<noteq> Some (JStr (ct_tenant_id tags))
           \<or> map_of scope (py ''document_version_id'') \<noteq> Some (JStr (ct_document_version_id tags))
           \<or> \<not> scope_truthy scope ''run_id'' \<or> \<not> scope_truthy scope ''selected_pages'' \<or> selected = None
           \<or> list_ex (\<lambda>f. cf_state f = Conflict) (ct_facts tags)
        then Inl (DomainValidationError ''CF6_SCOPE_NOT_CONFIRMABLE'')
        else bindE (evaluate_scoped P tags context pack True (selected = Some CF6_POLICY)) (\<lambda>decision.
             if d_decision_status decision \<noteq> Decided then Inr (Plain decision)
             else let result = extend_decision decision (py ''cf6_dec127_system_scope'') [54869, 51221]
                        (dict_set scope (py ''tagging_receipt_sha256'') (JStr receipt)) (JStr policy_sha256)
                  in bindE (canonical_hash P (JObj
                       [(py ''policy'', JObj (the selected)), (py ''decision'', scope_decision_asdict result)])) (\<lambda>h.
                     Inr (Scoped (result\<lparr>d_semantic_hash := h\<rparr>))))))"

section \<open>Safe harbor\<close>

record safe_harbor_item =
  si_element_id :: pystr
  si_state :: element_state
  si_evidence_refs :: "source_ref list"
  si_normalized_value :: "pystr option"

record safe_harbor_record =
  sh_claim_id :: pystr
  sh_applicable :: bool
  sh_category :: "pystr option"
  sh_checklist :: "safe_harbor_item list"
  sh_reasonable_basis_documented :: "bool option"
  sh_legal_effect :: pystr
  sh_mapping_status :: pystr
  sh_gap_ids :: "pystr list"

definition CHECKLIST_POLICY_V1 :: pystr where
  "CHECKLIST_POLICY_V1 = py ''project_checklist_completeness_v1''"

definition not_pinned :: py_error where
  "not_pinned = DomainValidationError ''safe-harbor category checklist is not pinned''"

text \<open>The pinned checklist of a category: a missing file, key or mapping is one error, a bad list another.\<close>

definition pinned_checklist :: "rule_pack \<Rightarrow> pystr \<Rightarrow> ((pystr \<times> json) list \<times> pystr list) result" where
  "pinned_checklist pack category =
     (case file_content pack (py ''regulatory/safe_harbor.yaml'') of
        Inl (KeyError _) \<Rightarrow> Inl not_pinned
      | Inl e \<Rightarrow> Inl e
      | Inr config \<Rightarrow> (case map_of config (py ''category_checklists'') of
          Some (JObj d) \<Rightarrow> (case map_of d category of
              None \<Rightarrow> Inl not_pinned
            | Some expected \<Rightarrow> (case as_str_list expected of
                Inr names \<Rightarrow> if [] \<in> set names then Inl (DomainValidationError ''safe-harbor category checklist is invalid'')
                            else Inr (config, names)
              | Inl _ \<Rightarrow> Inl (DomainValidationError ''safe-harbor category checklist is invalid'')))
        | _ \<Rightarrow> Inl not_pinned))"

definition checklist_item :: "confirmed_tags \<Rightarrow> pystr \<Rightarrow> safe_harbor_item" where
  "checklist_item tags n = (case tag_facts tags n of
       None \<Rightarrow> \<lparr>si_element_id = n, si_state = Unknown, si_evidence_refs = [], si_normalized_value = None\<rparr>
     | Some f \<Rightarrow> \<lparr>si_element_id = n, si_state = cf_state f, si_evidence_refs = cf_evidence_refs f,
         si_normalized_value = cf_normalized_value f\<rparr>)"

definition checklist_documented :: "bool \<Rightarrow> safe_harbor_item list \<Rightarrow> bool option" where
  "checklist_documented policy items =
     (if \<not> policy then None
      else if list_ex (\<lambda>i. si_state i = Absent) items then Some False
      else if items \<noteq> [] \<and> list_all (\<lambda>i. si_state i = Present) items then Some True else None)"

definition record_safe_harbor :: "confirmed_tags \<Rightarrow> rule_context \<Rightarrow> rule_pack \<Rightarrow> safe_harbor_record result" where
  "record_safe_harbor tags context pack =
     bindE (validate_inputs tags context pack) (\<lambda>_.
     case ct_safe_harbor_category tags of
       None \<Rightarrow> Inr \<lparr>sh_claim_id = ct_claim_id tags, sh_applicable = False, sh_category = None, sh_checklist = [],
           sh_reasonable_basis_documented = None, sh_legal_effect = py ''not_determined'',
           sh_mapping_status = py ''unresolved'', sh_gap_ids = []\<rparr>
     | Some category \<Rightarrow> bindE (pinned_checklist pack category) (\<lambda>(config, names).
         let items = map (checklist_item tags) names;
             mapping = (case map_of config (py ''reasonable_basis_boolean_mapping'') of None \<Rightarrow> JNull | Some v \<Rightarrow> v)
         in if (case map_of config (py ''grade_mapping'') of None \<Rightarrow> False | Some v \<Rightarrow> v \<noteq> JNull)
               \<or> mapping \<notin> {JNull, JStr CHECKLIST_POLICY_V1}
            then Inl (DomainValidationError ''GAP-001 approved mapping contract is not implemented'')
            else Inr \<lparr>sh_claim_id = ct_claim_id tags, sh_applicable = True, sh_category = Some category, sh_checklist = items,
              sh_reasonable_basis_documented = checklist_documented (mapping = JStr CHECKLIST_POLICY_V1) items,
              sh_legal_effect = py ''not_determined'', sh_mapping_status = py ''unresolved'',
              sh_gap_ids = [py ''GAP-001'']\<rparr>))"

end
