(* ===== verification/Scope_Props.thy ===== *)
theory Scope_Props
  imports Scope_Rules
begin

text \<open>
  What the scoped profiles guarantee: a scoped confirmation adds nothing to the decision but its basis, DEC-127 closes only the operands
  of the source exceptions, and the safe-harbor record reports completeness and never a grade. The fact dictionary of
  \<^verbatim>\<open>resolve_exception_facts\<close> is used through the locale \<open>fact_store\<close>, interpreted on \<open>put_fact\<close>.
\<close>

section \<open>The fact dictionary\<close>

locale fact_store =
  fixes get :: "'s \<Rightarrow> 'k \<Rightarrow> 'v option"
    and put :: "'v \<Rightarrow> 's \<Rightarrow> 's"
    and key :: "'v \<Rightarrow> 'k"
    and ok :: "'s \<Rightarrow> bool"
  assumes get_put: "ok s \<Longrightarrow> get (put v s) k = (if k = key v then Some v else get s k)"
    and ok_put: "ok s \<Longrightarrow> ok (put v s)"
begin

lemma get_put_same: "ok s \<Longrightarrow> get (put v s) (key v) = Some v"
  by (simp add: get_put)

lemma get_put_other: "ok s \<Longrightarrow> k \<noteq> key v \<Longrightarrow> get (put v s) k = get s k"
  by (simp add: get_put)

text \<open>Entries put under keys outside \<open>K\<close> leave the entries of \<open>K\<close> alone.\<close>

lemma get_fold_put:
  "ok s \<Longrightarrow> k \<notin> key ` set vs \<Longrightarrow> get (fold put vs s) k = get s k \<and> ok (fold put vs s)"
  by (induction vs arbitrary: s) (auto simp: get_put ok_put)

end

lemma option_eqI: "(\<And>z. x = Some z \<longleftrightarrow> y = Some z) \<Longrightarrow> x = y"
  by (cases x; cases y) auto

definition fact_lookup :: "confirmed_fact list \<Rightarrow> pystr \<Rightarrow> confirmed_fact option" where
  "fact_lookup fs n = find (\<lambda>f. cf_name f = n) fs"

definition facts_ok :: "confirmed_fact list \<Rightarrow> bool" where
  "facts_ok fs \<longleftrightarrow> distinct (map cf_name fs)"

lemma fact_lookup_None: "fact_lookup fs n = None \<longleftrightarrow> n \<notin> cf_name ` set fs"
  by (auto simp: fact_lookup_def find_None_iff)

lemma fact_lookup_iff:
  assumes "facts_ok fs"
  shows "fact_lookup fs n = Some f \<longleftrightarrow> f \<in> set fs \<and> cf_name f = n"
proof -
  have "fact_lookup fs n = map_of (map (\<lambda>f. (cf_name f, f)) fs) n"
    unfolding fact_lookup_def by (induction fs) auto
  then show ?thesis
    using assms by (auto simp: facts_ok_def comp_def)
qed

lemma tag_facts_lookup: "facts_ok (ct_facts t) \<Longrightarrow> tag_facts t n = fact_lookup (ct_facts t) n"
proof -
  assume ok: "facts_ok (ct_facts t)"
  have "dict_of (map (\<lambda>f. (cf_name f, f)) (ct_facts t)) = map_of (map (\<lambda>f. (cf_name f, f)) (ct_facts t))"
    using ok by (intro dict_of_distinct) (simp add: facts_ok_def comp_def)
  moreover have "map_of (map (\<lambda>f. (cf_name f, f)) fs) n = fact_lookup fs n" for fs
    unfolding fact_lookup_def by (induction fs) auto
  ultimately show ?thesis
    by (simp add: tag_facts_def)
qed

lemma put_fact_names: "cf_name f \<in> cf_name ` set fs \<Longrightarrow> map cf_name (put_fact f fs) = map cf_name fs"
  by (simp add: put_fact_def comp_def)

interpretation facts: fact_store fact_lookup put_fact cf_name facts_ok
proof
  fix fs f n assume ok: "facts_ok fs"
  show ok': "facts_ok (put_fact f fs)"
  proof (cases "cf_name f \<in> cf_name ` set fs")
    case True
    then show ?thesis
      using ok put_fact_names by (simp add: facts_ok_def)
  next
    case False
    then show ?thesis
      using ok by (auto simp: facts_ok_def put_fact_def)
  qed
  have "g \<in> set (put_fact f fs) \<and> cf_name g = n \<longleftrightarrow> (if n = cf_name f then g = f else g \<in> set fs \<and> cf_name g = n)" for g
    by (cases "cf_name f \<in> cf_name ` set fs") (auto simp: put_fact_def, metis image_eqI)
  then have "fact_lookup (put_fact f fs) n = Some g \<longleftrightarrow> (if n = cf_name f then Some f else fact_lookup fs n) = Some g" for g
    using fact_lookup_iff [OF ok'] fact_lookup_iff [OF ok] by auto
  then show "fact_lookup (put_fact f fs) n = (if n = cf_name f then Some f else fact_lookup fs n)"
    by (rule option_eqI)
qed

section \<open>Closing the operands\<close>

definition open_fact :: "confirmed_fact option \<Rightarrow> bool" where
  "open_fact x \<longleftrightarrow> (case x of None \<Rightarrow> True | Some f \<Rightarrow> cf_state f = Unknown)"

definition closed_fact :: "pystr \<Rightarrow> confirmed_fact option \<Rightarrow> confirmed_fact option" where
  "closed_fact n x = (if open_fact x then Some (plain_fact n Absent_in_scope) else x)"

lemma mk_absent_in_scope: "mk_confirmed_fact (plain_fact n Absent_in_scope) = Inr f \<Longrightarrow> f = plain_fact n Absent_in_scope"
  by (simp add: mk_confirmed_fact_def plain_fact_def split: if_splits)

lemma close_operand_Inr:
  assumes "close_operand fs n = Inr gs" "facts_ok fs"
  shows "facts_ok gs \<and> fact_lookup gs = (fact_lookup fs)(n := closed_fact n (fact_lookup fs n))"
proof (cases "open_fact (fact_lookup fs n)")
  case True
  then have "gs = put_fact (plain_fact n Absent_in_scope) fs"
    using assms(1) mk_absent_in_scope
    by (auto simp: close_operand_def open_fact_def fact_lookup_def bindE_Inr_iff split: if_splits option.splits)
  then show ?thesis
    using facts.ok_put [OF assms(2)] facts.get_put [OF assms(2)] True
    by (auto simp: closed_fact_def fun_eq_iff) (simp_all add: plain_fact_def)
next
  case False
  then have "gs = fs"
    using assms(1) by (auto simp: close_operand_def open_fact_def fact_lookup_def split: option.splits)
  then show ?thesis
    using False assms(2) by (simp add: closed_fact_def)
qed

lemma closed_fact_idem: "closed_fact n (closed_fact n x) = closed_fact n x"
  by (auto simp: closed_fact_def open_fact_def plain_fact_def split: option.splits)

lemma close_operands_Inr:
  "close_operands fs ns = Inr gs \<Longrightarrow> facts_ok fs \<Longrightarrow>
   facts_ok gs \<and> fact_lookup gs = (\<lambda>n. if n \<in> set ns then closed_fact n (fact_lookup fs n) else fact_lookup fs n)"
proof (induction fs ns rule: close_operands.induct)
  case (2 fs n ns)
  obtain hs where hs: "close_operand fs n = Inr hs" "close_operands hs ns = Inr gs"
    using "2.prems"(1) by (auto simp: bindE_Inr_iff)
  note c = close_operand_Inr [OF hs(1) "2.prems"(2)]
  note ih = "2.IH" [OF hs(2)]
  show ?case
    using ih c closed_fact_idem by (auto simp: fun_eq_iff)
qed simp

lemma mk_confirmed_tags_Inr:
  assumes "mk_confirmed_tags t = Inr u"
  shows "facts_ok (ct_facts t)" "facts_ok (ct_facts u)" "fact_lookup (ct_facts u) = fact_lookup (ct_facts t)"
    "u = t\<lparr>ct_facts := sort_key cf_name (ct_facts t)\<rparr>"
proof -
  show u: "u = t\<lparr>ct_facts := sort_key cf_name (ct_facts t)\<rparr>" and ok: "facts_ok (ct_facts t)"
    using assms by (auto simp: mk_confirmed_tags_def facts_ok_def py_duplicates_iff split: if_splits)
  then show ok': "facts_ok (ct_facts u)"
    by (simp add: facts_ok_def distinct_map)
  show "fact_lookup (ct_facts u) = fact_lookup (ct_facts t)"
    by (intro ext option_eqI) (simp only: fact_lookup_iff [OF ok] fact_lookup_iff [OF ok'], simp add: u)
qed

lemma superlative_fact_made: "mk_confirmed_fact (superlative_fact tags refs) = Inr f \<Longrightarrow> f = superlative_fact tags refs"
  by (auto simp: mk_confirmed_fact_def split: if_splits)

lemma resolve_exception_facts_Inr:
  assumes "resolve_exception_facts tags refs = Inr t'" "facts_ok (ct_facts tags)"
  obtains start where "facts_ok (ct_facts t')" "t'\<lparr>ct_facts := ct_facts tags\<rparr> = tags"
    "start = fact_lookup (ct_facts tags) \<or> py ''has_superlative'' \<notin> cf_name ` set (ct_facts tags)
       \<and> start = (fact_lookup (ct_facts tags))(py ''has_superlative'' := Some (superlative_fact tags (superlative_refs tags refs)))"
    "fact_lookup (ct_facts t') = (\<lambda>n. if n \<in> set (exception_operands tags) then closed_fact n (start n) else start n)"
proof -
  obtain fs gs where fs: "(if opt_truthy (ct_superlative_quote tags) \<and> py ''has_superlative'' \<notin> cf_name ` set (ct_facts tags)
        \<and> superlative_refs tags refs \<noteq> []
      then bindE (mk_confirmed_fact (superlative_fact tags (superlative_refs tags refs))) (\<lambda>f. Inr (put_fact f (ct_facts tags)))
      else Inr (ct_facts tags)) = Inr fs"
    and gs: "close_operands fs (py_sorted_set (exception_operands tags)) = Inr gs"
    and t': "mk_confirmed_tags (tags\<lparr>ct_facts := gs\<rparr>) = Inr t'"
    using assms(1) unfolding resolve_exception_facts_def Let_def bindE_Inr_iff by blast
  have name: "cf_name (superlative_fact tags rs) = py ''has_superlative''" for rs
    by (simp add: superlative_fact_def plain_fact_def)
  have start: "facts_ok fs \<and> (fact_lookup fs = fact_lookup (ct_facts tags) \<or> py ''has_superlative'' \<notin> cf_name ` set (ct_facts tags)
     \<and> fact_lookup fs = (fact_lookup (ct_facts tags))(py ''has_superlative'' := Some (superlative_fact tags (superlative_refs tags refs))))"
    using fs assms(2) facts.ok_put facts.get_put name
    by (auto simp: bindE_Inr_iff fun_eq_iff dest!: superlative_fact_made split: if_splits)
  note c = close_operands_Inr [OF gs]
  note m = mk_confirmed_tags_Inr [OF t']
  show ?thesis
    using that [of "fact_lookup fs"] start c m by simp
qed

lemma decided_has_grade:
  assumes "evaluate_scoped P tags ctx pack a dec = Inr d" "d_decision_status d = Decided"
  shows "d_evidence_grade d \<noteq> None"
  using assms(1)
proof (cases rule: evaluate_scoped_summary)
  case (1 e defs rows policy grades sg)
  have dec: "fst sg = Decided"
    using 1(5) assms(2) by simp
  then have "opt_truthy (ee_override_grade e) \<or> the_single grades \<noteq> None"
    unfolding 1(4) derive_status_decided by blast
  then show ?thesis
    using 1(6) dec by (cases "ee_override_grade e") (auto simp: or_else_def opt_truthy_def)
qed

lemma safe_harbor_not_graded:
  assumes "evaluate_scoped P tags ctx pack a dec = Inr d" "opt_truthy (ct_safe_harbor_category tags)"
  shows "d_evidence_grade d = None"
  using assms(1)
proof (cases rule: evaluate_scoped_summary)
  case (1 e defs rows policy grades sg)
  have "ee_gap_ids e \<noteq> []"
    using safe_harbor_effect [OF 1(1) assms(2)] by auto
  then have "fst sg \<noteq> Decided"
    unfolding 1(4) by (simp add: derive_status_decided)
  then show ?thesis
    using 1(6) by simp
qed

section \<open>Scope properties\<close>

text \<open>
  DEC-127 closes exception operands and nothing else: after it, every fact that was resolved, conflicting or not applicable is
  unchanged, every fact outside the operands is unchanged (a superlative fact may be added where none was), every operand has an
  answer, and no other field of the tags moved.
\<close>

theorem resolution_closes_only_operands:
  assumes "resolve_exception_facts tags refs = Inr t'" "facts_ok (ct_facts tags)"
  shows "(tag_facts tags n = Some f \<and> cf_state f \<noteq> Unknown \<longrightarrow> tag_facts t' n = Some f)
    \<and> (n \<notin> set (exception_operands tags) \<and> (n \<noteq> py ''has_superlative'' \<or> tag_facts tags n \<noteq> None) \<longrightarrow> tag_facts t' n = tag_facts tags n)
    \<and> (n \<in> set (exception_operands tags) \<longrightarrow> fact_state t' n \<noteq> Unknown)
    \<and> t'\<lparr>ct_facts := ct_facts tags\<rparr> = tags"
  using assms
proof (cases rule: resolve_exception_facts_Inr)
  case (1 start)
  have l: "tag_facts tags n = fact_lookup (ct_facts tags) n" "tag_facts t' n = fact_lookup (ct_facts t') n"
    using tag_facts_lookup assms(2) 1(1) by simp_all
  have st: "start n = fact_lookup (ct_facts tags) n" if "n \<noteq> py ''has_superlative'' \<or> fact_lookup (ct_facts tags) n \<noteq> None"
    using 1(3) that fact_lookup_None [of "ct_facts tags"] by auto
  have cl: "closed_fact n x = (if open_fact x then Some (plain_fact n Absent_in_scope) else x)" for x
    by (simp add: closed_fact_def)
  have "fact_state t' n \<noteq> Unknown" if "n \<in> set (exception_operands tags)"
    using that l(2) 1(4) by (auto simp: fact_state_def cl open_fact_def plain_fact_def split: option.splits)
  moreover have "fact_lookup (ct_facts t') n = Some f" if f: "fact_lookup (ct_facts tags) n = Some f" "cf_state f \<noteq> Unknown"
  proof -
    have "start n = Some f"
      using st f by simp
    then show ?thesis
      using f(2) 1(4) by (simp add: cl open_fact_def)
  qed
  moreover have "fact_lookup (ct_facts t') n = fact_lookup (ct_facts tags) n"
    if "n \<notin> set (exception_operands tags)" "n \<noteq> py ''has_superlative'' \<or> fact_lookup (ct_facts tags) n \<noteq> None"
    using st that 1(4) by simp
  ultimately show ?thesis
    using 1(2) unfolding l by blast
qed

definition product_tags :: confirmed_tags where
  "product_tags = mg_tags\<lparr>ct_product_variant := True\<rparr>"

theorem resolution_closes_only_operands_witness:
  "\<exists>t'. resolve_exception_facts product_tags [] = Inr t'
     \<and> fact_state t' (py ''direct_product_material_ratio_or_target'') \<noteq> Unknown"
proof -
  let ?d = "py ''direct_product_material_ratio_or_target''"
  have facts: "ct_facts product_tags = [present_fact ''named_means_or_concrete_state'', absent_fact ''org_boundary'']"
    by (simp add: product_tags_def mg_tags_def sample_tags_def)
  have names: "map cf_name (ct_facts product_tags) = [py ''named_means_or_concrete_state'', py ''org_boundary'']"
    by (simp add: facts present_fact_def absent_fact_def plain_fact_def)
  have ok: "facts_ok (ct_facts product_tags)"
    by (simp add: facts_ok_def names)
  have ops: "exception_operands product_tags = [?d]"
    by (simp add: exception_operands_def facts) (simp add: product_tags_def mg_tags_def sample_tags_def opt_truthy_def
        present_fact_def absent_fact_def plain_fact_def)
  have "fact_lookup (ct_facts product_tags) ?d = None"
    by (simp add: facts fact_lookup_def present_fact_def absent_fact_def plain_fact_def)
  then have co: "close_operands (ct_facts product_tags) (py_sorted_set [?d])
      = Inr (ct_facts product_tags @ [plain_fact ?d Absent_in_scope])"
    by (simp add: py_sorted_set_def close_operand_def fact_lookup_def mk_confirmed_fact_def put_fact_def plain_fact_def)
      (simp add: facts present_fact_def absent_fact_def plain_fact_def)
  have ids: "canonical_uuid (uuid_of n)" if "n < 10" for n
    using that by (simp add: canonical_uuid_def uuid_of_def py_def lower_hex_def py_lower_def py_lower_char_def upt_conv_Cons)
  have hx: "is_sha256 hex64"
    by (simp add: is_sha256_def hex64_def lower_hex_def list_all_iff)
  have "\<exists>u. mk_confirmed_tags (product_tags\<lparr>ct_facts := ct_facts product_tags @ [plain_fact ?d Absent_in_scope]\<rparr>) = Inr u"
    using names by (simp add: mk_confirmed_tags_def py_duplicates_iff)
      (simp add: product_tags_def mg_tags_def sample_tags_def ids hx plain_fact_def)
  moreover have "\<not> opt_truthy (ct_superlative_quote product_tags)"
    by (simp add: product_tags_def mg_tags_def sample_tags_def opt_truthy_def)
  ultimately obtain t' where "resolve_exception_facts product_tags [] = Inr t'"
    by (auto simp: resolve_exception_facts_def ops co Let_def)
  then show ?thesis
    using resolution_closes_only_operands [OF _ ok, of "[]" t' ?d] ops by auto
qed

text \<open>
  A scoped confirmation (DEC-85) is granted only inside its scope and changes no finding: the scope is of the tags' tenant and
  document, every selected page was inspected, the scoped absences are exactly the declared ones, no fact is in conflict, and the result
  is the engine's decision itself, extended by its basis (and re-hashed) exactly when it is decided.
\<close>

lemma truncate_extend: "decision.truncate ((extend_decision d b c sc p)\<lparr>d_semantic_hash := h\<rparr>) = d\<lparr>d_semantic_hash := h\<rparr>"
  by (simp add: extend_decision_def decision.defs)

theorem scoped_confirmation_is_bounded:
  assumes "evaluate_analysis_scope P tags ctx pack scope absent receipt = Inr r"
  shows "map_of scope (py ''tenant_id'') = Some (JStr (ct_tenant_id tags))
    \<and> map_of scope (py ''document_version_id'') = Some (JStr (ct_document_version_id tags))
    \<and> (\<exists>v w. map_of scope (py ''inspected_pages'') = Some v \<and> map_of scope (py ''selected_pages'') = Some w \<and> json_eq v w)
    \<and> \<not> scope_truthy scope ''uninspected_pages'' \<and> set absent = scoped_names tags \<and> absent \<noteq> []
    \<and> (\<forall>f\<in>set (ct_facts tags). cf_state f \<noteq> Conflict)
    \<and> (\<exists>d. evaluate_scoped P tags ctx pack True False = Inr d
        \<and> (case r of Plain d' \<Rightarrow> d' = d \<and> d_decision_status d \<noteq> Decided
           | Scoped s \<Rightarrow> d_decision_status d = Decided \<and> d_evidence_grade d \<noteq> None
               \<and> sd_confirmation_basis s = py ''analysis_scope''
               \<and> decision.truncate s = d\<lparr>d_semantic_hash := d_semantic_hash s\<rparr>))"
proof -
  obtain d where ev: "evaluate_scoped P tags ctx pack True False = Inr d"
    and guards: "map_of scope (py ''tenant_id'') = Some (JStr (ct_tenant_id tags))"
      "map_of scope (py ''document_version_id'') = Some (JStr (ct_document_version_id tags))"
      "scope_truthy scope ''selected_pages''" "\<not> scope_truthy scope ''uninspected_pages''"
      "case map_of scope (py ''inspected_pages'') of None \<Rightarrow> False | Some v \<Rightarrow> json_eq v (the (map_of scope (py ''selected_pages'')))"
      "set absent = scoped_names tags" "absent \<noteq> []" "\<not> list_ex (\<lambda>f. cf_state f = Conflict) (ct_facts tags)"
    and r: "if d_decision_status d \<noteq> Decided then r = Plain d
       else \<exists>conf h. r = Scoped ((extend_decision d (py ''analysis_scope'') SC1_DISPLAY
              (dict_set scope (py ''search_receipt_sha256'') (JStr receipt)) conf)\<lparr>d_semantic_hash := h\<rparr>)"
    using assms unfolding evaluate_analysis_scope_def bindE_Inr_iff if_Inl_Inr_iff Let_def
    by (fastforce split: if_splits option.splits simp: bindE_Inr_iff)
  have "case r of Plain d' \<Rightarrow> d' = d \<and> d_decision_status d \<noteq> Decided
           | Scoped s \<Rightarrow> d_decision_status d = Decided \<and> d_evidence_grade d \<noteq> None
               \<and> sd_confirmation_basis s = py ''analysis_scope''
               \<and> decision.truncate s = d\<lparr>d_semantic_hash := d_semantic_hash s\<rparr>"
    using r truncate_extend decided_has_grade [OF ev] by (auto simp: extend_decision_def decision.defs split: if_splits)
  then show ?thesis
    using ev guards by (auto simp: list_ex_iff scope_truthy_def split: option.splits)
qed

definition scope_tags :: confirmed_tags where
  "scope_tags = open_tags\<lparr>ct_facts := ct_facts open_tags @ [plain_fact (py ''org_boundary'') Absent_in_scope]\<rparr>"

lemma scope_validated: "validate_inputs scope_tags sample_context shipped_pack = Inr ()"
proof -
  have "ref_admissible scope_tags = ref_admissible open_tags"
    by (simp add: fun_eq_iff ref_admissible_def scope_tags_def)
  then have vf: "validate_fact scope_tags = validate_fact open_tags"
    by (intro ext) (simp add: validate_fact_def scope_tags_def)
  have extra: "validate_fact t al (plain_fact n Absent_in_scope) = Inr ()" for t al n
    by (simp add: validate_fact_def plain_fact_def)
  have "validate_inputs open_tags sample_context shipped_pack = Inr ()"
    by (simp add: open_tags_def sample_validated)
  then show ?thesis
    unfolding validate_inputs_def vf
    by (auto simp: scope_tags_def bindE_Inr_iff forE_Inr_iff extra split: if_splits)
qed

lemma scope_effect: "apply_source_exceptions scope_tags sample_context shipped_pack False = Inr no_effect"
proof -
  have tf: "tag_facts scope_tags (py ''has_superlative'') = None" "tag_facts scope_tags (py ''categorical_ordinal'') = None"
    by (simp_all add: tag_facts_def dict_of_None_iff scope_tags_def open_tags_def sample_tags_def present_fact_def plain_fact_def)
  have sup: "\<not> has_superlative scope_tags False"
    using tf by (simp add: has_superlative_def scope_tags_def open_tags_def sample_tags_def opt_truthy_def)
  have misc: "ordinal_step scope_tags st = Inr None" "product_step scope_tags st shipped_pack = Inr (None, [], [], [])"
    "\<not> opt_truthy (ct_safe_harbor_category scope_tags)" for st
    using tf by (simp_all add: ordinal_step_def product_step_def) (simp_all add: scope_tags_def open_tags_def sample_tags_def opt_truthy_def)
  show ?thesis
    using sup misc scope_validated shipped_exceptions_file [OF shipped_pack_content]
    by (simp add: apply_source_exceptions_def exceptions_yaml_def dict_of_jb_def jb_def jitem_def as_dict_def
        remaining_exceptions_def no_effect_def)
qed

definition sample_scope :: "(pystr \<times> json) list" where
  "sample_scope = [(py ''tenant_id'', JStr (uuid_of 1)), (py ''document_version_id'', JStr (uuid_of 2)), (py ''run_id'', JStr (py ''run'')),
     (py ''selected_pages'', JList [JInt 1]), (py ''inspected_pages'', JList [JInt 1]), (py ''rule_policy_sha256'', JStr hex64),
     (py ''confirmation_policy_sha256'', JStr hex64)]"

theorem scoped_confirmation_is_bounded_witness:
  "\<exists>r. evaluate_analysis_scope sample_platform scope_tags sample_context shipped_pack sample_scope [py ''org_boundary''] hex64 = Inr r
     \<and> set [py ''org_boundary''] = scoped_names scope_tags"
proof -
  obtain d where d: "evaluate_scoped sample_platform scope_tags sample_context shipped_pack True False = Inr d"
    using shipped_total [OF shipped_pack_content scope_effect] by blast
  have h: "canonical_hash sample_platform SC1_POLICY = Inr hex64"
    by (simp add: canonical_hash_def canonical_json_def SC1_POLICY_def sample_platform_def)
  have names: "scoped_names scope_tags = {py ''org_boundary''}"
    by (simp add: scoped_names_def scope_tags_def open_tags_def sample_tags_def present_fact_def plain_fact_def)
  have nc: "\<not> list_ex (\<lambda>f. cf_state f = Conflict) (ct_facts scope_tags)"
    by (simp add: scope_tags_def open_tags_def sample_tags_def present_fact_def plain_fact_def)
  have ids: "ct_tenant_id scope_tags = uuid_of 1" "ct_document_version_id scope_tags = uuid_of 2"
    by (simp_all add: scope_tags_def open_tags_def sample_tags_def)
  have fin: "json_finite (scope_decision_asdict s)" if "sd_confirmation_policy_sha256 s = JStr hex64"
    "sd_confirmation_scope s = dict_set sample_scope (py ''search_receipt_sha256'') (JStr hex64)" for s
    using that json_finite_decision [of "decision.truncate s"]
    by (simp add: scope_decision_asdict_def sample_scope_def dict_set_def decision_asdict_def)
  have "\<exists>r. evaluate_analysis_scope sample_platform scope_tags sample_context shipped_pack sample_scope [py ''org_boundary''] hex64 = Inr r"
  proof (cases "d_decision_status d = Decided")
    case True
    let ?s = "extend_decision d (py ''analysis_scope'') SC1_DISPLAY
      (dict_set sample_scope (py ''search_receipt_sha256'') (JStr hex64)) (JStr hex64)"
    have "json_finite (JObj [(py ''policy'', SC1_POLICY), (py ''scope'', JObj sample_scope), (py ''receipt_sha256'', JStr hex64),
        (py ''decision'', scope_decision_asdict ?s)])"
      using fin [of ?s] by (simp add: SC1_POLICY_def sample_scope_def extend_decision_def decision.defs)
    then obtain h' where "canonical_hash sample_platform (JObj [(py ''policy'', SC1_POLICY), (py ''scope'', JObj sample_scope),
        (py ''receipt_sha256'', JStr hex64), (py ''decision'', scope_decision_asdict ?s)]) = Inr h'"
      using canonical_hash_finite by blast
    then show ?thesis
      using d h names nc ids True
      by (simp add: evaluate_analysis_scope_def Let_def)
        (simp add: sample_scope_def scope_truthy_def py_truthy_def json_number_def)
  next
    case False
    then show ?thesis
      using d h names nc ids
      by (simp add: evaluate_analysis_scope_def Let_def)
        (simp add: sample_scope_def scope_truthy_def py_truthy_def json_number_def)
  qed
  then show ?thesis
    using scoped_confirmation_is_bounded by blast
qed

text \<open>
  The safe-harbor record never grades and never concludes legally: its legal effect is not determined and its mapping unresolved,
  an applicable record names GAP-001, it reports documentation as complete only for a non-empty checklist whose items are all
  present, as incomplete only with an item confirmed absent, and the engine gives the same claim no grade.
\<close>

theorem safe_harbor_record_is_advisory:
  assumes "record_safe_harbor tags ctx pack = Inr r" "evaluate_scoped P tags ctx pack a dec = Inr d"
    and "ct_safe_harbor_category tags \<noteq> Some []"
  shows "sh_legal_effect r = py ''not_determined'' \<and> sh_mapping_status r = py ''unresolved''
    \<and> sh_category r = ct_safe_harbor_category tags \<and> sh_applicable r = (ct_safe_harbor_category tags \<noteq> None)
    \<and> (sh_applicable r \<longrightarrow> sh_gap_ids r = [py ''GAP-001''] \<and> d_evidence_grade d = None)
    \<and> (sh_reasonable_basis_documented r = Some True \<longrightarrow>
         sh_checklist r \<noteq> [] \<and> (\<forall>i\<in>set (sh_checklist r). si_state i = Present))
    \<and> (sh_reasonable_basis_documented r = Some False \<longrightarrow> (\<exists>i\<in>set (sh_checklist r). si_state i = Absent))
    \<and> (\<forall>i\<in>set (sh_checklist r). si_state i = fact_state tags (si_element_id i))"
proof -
  have item: "si_state (checklist_item tags n) = fact_state tags (si_element_id (checklist_item tags n))" for n
    by (simp add: checklist_item_def fact_state_def split: option.splits)
  have doc: "(checklist_documented b is = Some True \<longrightarrow> is \<noteq> [] \<and> (\<forall>i\<in>set is. si_state i = Present))
    \<and> (checklist_documented b is = Some False \<longrightarrow> (\<exists>i\<in>set is. si_state i = Absent))" for b "is"
    by (auto simp: checklist_documented_def list_all_iff list_ex_iff split: if_splits)
  have nograde: "d_evidence_grade d = None" if "ct_safe_harbor_category tags = Some c" for c
    using safe_harbor_not_graded [OF assms(2)] that assms(3) by (simp add: opt_truthy_def)
  show ?thesis
  proof (cases "ct_safe_harbor_category tags")
    case None
    then show ?thesis
      using assms(1) by (auto simp: record_safe_harbor_def bindE_Inr_iff)
  next
    case (Some c)
    obtain names b where "r = \<lparr>sh_claim_id = ct_claim_id tags, sh_applicable = True, sh_category = Some c,
        sh_checklist = map (checklist_item tags) names,
        sh_reasonable_basis_documented = checklist_documented b (map (checklist_item tags) names),
        sh_legal_effect = py ''not_determined'', sh_mapping_status = py ''unresolved'', sh_gap_ids = [py ''GAP-001'']\<rparr>"
      using assms(1) Some unfolding record_safe_harbor_def
      by (simp add: bindE_Inr_iff Let_def case_prod_beta) (metis if_Inl_Inr_iff sum.inject(2))
    then show ?thesis
      using Some nograde item doc [of b "map (checklist_item tags) names"] by auto
  qed
qed

theorem safe_harbor_record_is_advisory_witness:
  "\<exists>r d. record_safe_harbor harbor_tags sample_context shipped_pack = Inr r \<and> sh_applicable r
     \<and> evaluate_scoped sample_platform harbor_tags sample_context shipped_pack False False = Inr d
     \<and> d_evidence_grade d = None \<and> sh_gap_ids r = [py ''GAP-001'']"
proof -
  obtain d where d: "evaluate_scoped sample_platform harbor_tags sample_context shipped_pack False False = Inr d"
    using shipped_total [OF shipped_pack_content] harbor_effect by blast
  have cat: "ct_safe_harbor_category harbor_tags = Some (py ''forward_looking'')"
    by (simp add: harbor_tags_def)
  have "pinned_checklist shipped_pack (py ''forward_looking'')
      = Inr (dict_of_jb safe_harbor_yaml, map py [''assumptions'', ''scenario_or_premises''])"
    by (simp add: pinned_checklist_def shipped_safe_harbor_file [OF shipped_pack_content])
      (simp add: safe_harbor_yaml_def dict_of_jb_def jb_def str_list_def as_str_list_def as_list_def as_str_def)
  then have "\<exists>r. record_safe_harbor harbor_tags sample_context shipped_pack = Inr r"
    by (simp add: record_safe_harbor_def harbor_validated cat Let_def) (simp add: safe_harbor_yaml_def dict_of_jb_def jb_def)
  then obtain r where r: "record_safe_harbor harbor_tags sample_context shipped_pack = Inr r"
    by blast
  have "ct_safe_harbor_category harbor_tags \<noteq> Some []"
    by (simp add: cat)
  from safe_harbor_record_is_advisory [OF r d this] show ?thesis
    using r d cat by blast
qed

end
