(* ===== verification/Values_Props.thy ===== *)
theory Values_Props
  imports Values
begin

text \<open>
  Properties of the tag-payload parser of \<^verbatim>\<open>domain/values.py\<close>: what it accepts, that it reads back what the dataclasses
  project, and one input on which it leaves its documented error contract.
\<close>

text \<open>
  C40. Model output that the parser accepts is well formed and carries no grading field: the payload and each of its elements are objects
  without \<^verbatim>\<open>evidence_grade\<close>, \<^verbatim>\<open>label\<close>, \<^verbatim>\<open>sublabel\<close> or \<^verbatim>\<open>decision_status\<close>, the payload has only known fields, and every
  identifier, hash, enumeration and evidence rule of the value types holds.
\<close>

theorem parsed_tags_are_safe:
  assumes "llm_tags_from_dict j = Inr t"
  shows "llm_tags_ok t \<and> (\<exists>d es. j = JObj d \<and> \<not> has_forbidden d \<and> fst ` set d \<subseteq> set ROOT_FIELDS
    \<and> map_of d (py ''elements'') = Some (JList es) \<and> length es = length (lt_elements t)
    \<and> (\<forall>e\<in>set es. \<exists>f. e = JObj f \<and> \<not> has_forbidden f))"
proof -
  obtain d es where d: "j = JObj d" "\<not> has_forbidden d" "reject_unknown ''LLM tag payload'' d ROOT_FIELDS = Inr ()"
    and es: "map_of d (py ''elements'') = Some (JList es)" "mapE element_from_dict es = Inr (lt_elements t)"
    using assms unfolding llm_tags_from_dict_def
    by (clarsimp simp: result_simps json_case_Inr jitem_def)
  have "\<forall>e\<in>set es. \<exists>f. e = JObj f \<and> \<not> has_forbidden f"
    using es(2) unfolding mapE_Inr_iff
    by (induction rule: list_all2_induct) (auto dest: element_from_dict_ok)
  moreover have "fst ` set d \<subseteq> set ROOT_FIELDS"
    using d(3) by (auto simp: reject_unknown_def list_all_iff split: if_splits)
  ultimately show ?thesis
    using llm_tags_from_dict_ok [OF assms] d es mapE_length [OF es(2)] by auto
qed

text \<open>
  Round trip: every well-formed tag record is read back from its own dictionary.
\<close>

theorem tags_read_back:
  assumes "llm_tags_ok t"
  shows "llm_tags_from_dict (llm_tags_asdict t) = Inr t"
  using llm_tags_round_trip [OF assms] .

definition small_tags :: llm_tags where
  "small_tags = \<lparr>lt_claim_id = py ''00000000-0000-4000-8000-000000000001'', lt_packet_sha256 = replicate 64 48, lt_replicate_id = 1,
     lt_track = Goal, lt_safe_harbor_category = None,
     lt_elements = [\<lparr>le_element_id = py ''target_year'', le_state = Unknown, le_evidence_refs = [], le_normalized_value = None,
       le_credited_from = None, le_reason_code = None\<rparr>], lt_superlative_quote = None, lt_warnings = []\<rparr>"

lemma small_tags_ok: "llm_tags_ok small_tags"
  by (simp add: llm_tags_ok_def small_tags_def llm_element_ok_def canonical_uuid_def is_sha256_def list_all_iff lower_hex_def
      py_def py_lower_def py_lower_char_def upt_conv_Cons)

theorem tags_read_back_witness: "llm_tags_ok small_tags \<and> llm_tags_from_dict (llm_tags_asdict small_tags) = Inr small_tags"
  using tags_read_back [OF small_tags_ok] small_tags_ok by blast

theorem parsed_tags_are_safe_witness:
  "llm_tags_from_dict (llm_tags_asdict small_tags) = Inr small_tags
     \<and> (\<exists>d. llm_tags_asdict small_tags = JObj d \<and> \<not> has_forbidden d)"
  using parsed_tags_are_safe [OF llm_tags_round_trip [OF small_tags_ok]] llm_tags_round_trip [OF small_tags_ok] by blast

text \<open>
  A coordinate outside the float range leaves the documented contract: the parser is to refuse bad input with
  \<^verbatim>\<open>DomainValidationError\<close>, and an integer coordinate of 2 to the 1024 ends in \<^verbatim>\<open>OverflowError\<close> instead.
\<close>

lemma bit_length_pow: "bit_length (2 ^ n) = Suc n"
  by (induction n) (subst bit_length.simps, simp add: bit_length.simps [of 0])+

lemma float_of_int_overflow: "float_of_int (2 ^ 1024) = Inl (OverflowError ''int too large to convert to float'')"
proof -
  have n: "nat \<bar>2 ^ 1024 :: int\<bar> = 2 ^ 1024"
    by (simp add: nat_power_eq)
  have k: "bit_length (2 ^ 1024) - 53 = 972"
    unfolding bit_length_pow by simp
  have q: "(2 :: nat) ^ 1024 div 2 ^ 972 = 2 ^ 52" "(2 :: nat) ^ 1024 mod 2 ^ 972 = 0"
    by simp_all
  show ?thesis
    unfolding float_of_int_def Let_def n k q by simp
qed

theorem oversized_coordinate_overflows:
  "require_bbox (JList [JInt 0, JInt 0, JInt (2 ^ 1024), JInt 1]) = Inl (OverflowError ''int too large to convert to float'')"
  using float_of_int_overflow by (simp add: require_bbox_def require_coord_def float_of_int_def)

end
