(* ===== verification/Stdlib.thy ===== *)
theory Stdlib
  imports Values
begin

text \<open>
  The parts of Python's standard library the reconciliation and regulatory sources parse text with.

  \<^item> \<open>date_fromisoformat\<close> is \<^verbatim>\<open>datetime.date.fromisoformat\<close> of CPython 3.12 (calendar and ISO week forms; the
    scanner looks at the UTF-8 length 7, 8 or 10 and ignores what follows a form without separators).
    A date is its proleptic Gregorian ordinal, on which Python's comparisons agree.
  \<^item> \<open>json_text_array\<close> is \<^verbatim>\<open>json.loads\<close> as far as a caller that accepts arrays of strings only can see: the decoded
    array, or \<open>None\<close> for a text that is not such an array (whether it fails to parse or decodes to something else).
    Nesting deeper than the interpreter's recursion limit is not modelled.
  \<^item> \<open>decimal\<close> is \<^verbatim>\<open>decimal.Decimal\<close>: a coefficient and an exponent; \<open>dec_mul\<close> is the product in a context of a given
    precision, rounded half to even. The exponent range of the context (a million digits) is not modelled.
\<close>

section \<open>Dates\<close>

definition is_leap :: "int \<Rightarrow> bool" where
  "is_leap y \<longleftrightarrow> y mod 4 = 0 \<and> (y mod 100 \<noteq> 0 \<or> y mod 400 = 0)"

definition days_in_month :: "int \<Rightarrow> int \<Rightarrow> int" where
  "days_in_month y m = (if m = 2 then (if is_leap y then 29 else 28)
     else if m = 4 \<or> m = 6 \<or> m = 9 \<or> m = 11 then 30 else 31)"

definition days_before_year :: "int \<Rightarrow> int" where
  "days_before_year y = (let z = y - 1 in z * 365 + z div 4 - z div 100 + z div 400)"

definition days_before_month :: "int \<Rightarrow> int \<Rightarrow> int" where
  "days_before_month y m =
     [0, 31, 59, 90, 120, 151, 181, 212, 243, 273, 304, 334] ! nat (m - 1) + (if 2 < m \<and> is_leap y then 1 else 0)"

definition ymd_to_ord :: "int \<Rightarrow> int \<Rightarrow> int \<Rightarrow> int" where
  "ymd_to_ord y m d = days_before_year y + days_before_month y m + d"

type_synonym pydate = int

definition MAX_ORDINAL :: int where
  "MAX_ORDINAL = 3652059"

definition new_date :: "int \<Rightarrow> int \<Rightarrow> int \<Rightarrow> pydate option" where
  "new_date y m d = (if 1 \<le> y \<and> y \<le> 9999 \<and> 1 \<le> m \<and> m \<le> 12 \<and> 1 \<le> d \<and> d \<le> days_in_month y m
     then Some (ymd_to_ord y m d) else None)"

text \<open>Monday is weekday 0; week 1 is the week with the year's first Thursday.\<close>

definition iso_week1_monday :: "int \<Rightarrow> int" where
  "iso_week1_monday y =
     (let first = ymd_to_ord y 1 1; wd = (first + 6) mod 7; monday = first - wd
      in if 3 < wd then monday + 7 else monday)"

definition iso_long_year :: "int \<Rightarrow> bool" where
  "iso_long_year y \<longleftrightarrow> (let wd = (ymd_to_ord y 1 1 + 6) mod 7 in wd = 3 \<or> wd = 2 \<and> is_leap y)"

definition iso_to_date :: "int \<Rightarrow> int \<Rightarrow> int \<Rightarrow> pydate option" where
  "iso_to_date y w d =
     (if 1 \<le> y \<and> y \<le> 9999 \<and> (1 \<le> w \<and> w \<le> 52 \<or> w = 53 \<and> iso_long_year y) \<and> 1 \<le> d \<and> d \<le> 7
      then let n = iso_week1_monday y + (w - 1) * 7 + d - 1
           in if 1 \<le> n \<and> n \<le> MAX_ORDINAL then Some n else None
      else None)"

definition scan_digits :: "nat \<Rightarrow> pystr \<Rightarrow> (int \<times> pystr) option" where
  "scan_digits n s = (if n \<le> length s \<and> list_all py_isdigit (take n s)
     then Some (int (nat_of_dec (take n s)), drop n s) else None)"

definition utf8_length :: "pystr \<Rightarrow> nat" where
  "utf8_length s = sum_list (map (\<lambda>c. if c < 128 then 1 else if c < 2048 then 2 else if c < 65536 then 3 else 4) s)"

definition scan_separator :: "bool \<Rightarrow> pystr \<Rightarrow> pystr option" where
  "scan_separator sep s = (if sep then (if take 1 s = [45] then Some (drop 1 s) else None) else Some s)"

definition scan_week_date :: "bool \<Rightarrow> int \<Rightarrow> pystr \<Rightarrow> pydate option" where
  "scan_week_date sep y s = (case scan_digits 2 s of None \<Rightarrow> None
     | Some (w, r) \<Rightarrow>
         if r = [] then iso_to_date y w 1
         else (case scan_separator sep r of None \<Rightarrow> None
           | Some r' \<Rightarrow> (case scan_digits 1 r' of None \<Rightarrow> None | Some (d, _) \<Rightarrow> iso_to_date y w d)))"

definition scan_month_date :: "bool \<Rightarrow> int \<Rightarrow> pystr \<Rightarrow> pydate option" where
  "scan_month_date sep y s = (case scan_digits 2 s of None \<Rightarrow> None
     | Some (m, r) \<Rightarrow> (case scan_separator sep r of None \<Rightarrow> None
         | Some r' \<Rightarrow> (case scan_digits 2 r' of None \<Rightarrow> None | Some (d, _) \<Rightarrow> new_date y m d)))"

definition date_fromisoformat :: "pystr \<Rightarrow> pydate result" where
  "date_fromisoformat s =
     (let bad = Inl (ValueError ''Invalid isoformat string'') in
      if utf8_length s \<notin> {7, 8, 10} \<or> list_ex (\<lambda>c. 55296 \<le> c \<and> c \<le> 57343) s then bad
      else case scan_digits 4 s of None \<Rightarrow> bad
        | Some (y, r) \<Rightarrow>
            (let sep = (take 1 r = [45]); r' = (if sep then drop 1 r else r) in
             case (if take 1 r' = [87] then scan_week_date sep y (drop 1 r') else scan_month_date sep y r') of
               None \<Rightarrow> bad | Some d \<Rightarrow> Inr d))"

section \<open>JSON arrays of strings\<close>

definition hex_value :: "nat \<Rightarrow> nat option" where
  "hex_value c = (if 48 \<le> c \<and> c \<le> 57 then Some (c - 48) else if 97 \<le> c \<and> c \<le> 102 then Some (c - 87)
     else if 65 \<le> c \<and> c \<le> 70 then Some (c - 55) else None)"

definition scan_hex4 :: "pystr \<Rightarrow> nat option" where
  "scan_hex4 s = (case map hex_value (take 4 s) of
     [Some a, Some b, Some c, Some d] \<Rightarrow> Some (a * 4096 + b * 256 + c * 16 + d) | _ \<Rightarrow> None)"

text \<open>A high surrogate escape directly followed by a low one denotes one code point.\<close>

definition scan_pair :: "pystr \<Rightarrow> nat option" where
  "scan_pair s = (case scan_hex4 s of None \<Rightarrow> None
     | Some hi \<Rightarrow> if 55296 \<le> hi \<and> hi \<le> 56319 \<and> take 2 (drop 4 s) = [92, 117] then
         (case scan_hex4 (drop 6 s) of None \<Rightarrow> None
          | Some lo \<Rightarrow> if 56320 \<le> lo \<and> lo \<le> 57343
              then Some (65536 + (hi - 55296) * 1024 + (lo - 56320)) else None)
       else None)"

definition SIMPLE_ESCAPES :: "(nat \<times> nat) list" where
  "SIMPLE_ESCAPES = [(34, 34), (92, 92), (47, 47), (98, 8), (102, 12), (110, 10), (114, 13), (116, 9)]"

definition cons_fst :: "'a \<Rightarrow> ('a list \<times> 'b) option \<Rightarrow> ('a list \<times> 'b) option" where
  "cons_fst x r = (case r of None \<Rightarrow> None | Some (xs, s) \<Rightarrow> Some (x # xs, s))"

function scan_string :: "pystr \<Rightarrow> (pystr \<times> pystr) option" where
  "scan_string [] = None"
| "scan_string (c # s) =
     (if c = 34 then Some ([], s)
      else if c = 92 then
        (case s of [] \<Rightarrow> None
         | e # r \<Rightarrow>
             if e = 117 then
               (case scan_hex4 r of None \<Rightarrow> None
                | Some u \<Rightarrow> (case scan_pair r of
                     Some p \<Rightarrow> cons_fst p (scan_string (drop 10 r))
                   | None \<Rightarrow> cons_fst u (scan_string (drop 4 r))))
             else (case map_of SIMPLE_ESCAPES e of None \<Rightarrow> None | Some x \<Rightarrow> cons_fst x (scan_string r)))
      else if c < 32 then None
      else cons_fst c (scan_string s))"
  by pat_completeness auto
termination by (relation "measure length") auto

declare scan_string.simps(2) [simp del]

lemma cons_fst_Some: "cons_fst x r = Some (ys, s) \<longleftrightarrow> (\<exists>xs. r = Some (xs, s) \<and> ys = x # xs)"
  by (auto simp: cons_fst_def split: option.splits)

lemma scan_string_shorter: "scan_string s = Some (x, r) \<Longrightarrow> length r < length s"
proof (induction s arbitrary: x rule: scan_string.induct)
  case (2 c s)
  then show ?case
    by (fastforce simp: scan_string.simps(2) cons_fst_Some split: if_splits list.splits option.splits)
qed simp

definition skip_ws :: "pystr \<Rightarrow> pystr" where
  "skip_ws s = dropWhile (\<lambda>c. c \<in> {32, 9, 10, 13}) s"

lemma length_skip_ws: "length (skip_ws s) \<le> length s"
  by (simp add: skip_ws_def length_dropWhile_le)

function scan_items :: "pystr \<Rightarrow> (pystr list \<times> pystr) option" where
  "scan_items s =
     (if take 1 s \<noteq> [34] then None
      else case scan_string (drop 1 s) of None \<Rightarrow> None
        | Some (x, r) \<Rightarrow> (case skip_ws r of [] \<Rightarrow> None
            | c # t \<Rightarrow> if c = 93 then Some ([x], t) else if c = 44 then cons_fst x (scan_items (skip_ws t)) else None))"
  by pat_completeness auto
termination
proof (relation "measure length", goal_cases)
  case (2 s p x r c t)
  then have "length r < length s" "length t < length r"
    using length_skip_ws [of r] scan_string_shorter [of "drop 1 s" x r] by auto
  with length_skip_ws [of t] show ?case by simp
qed simp

declare scan_items.simps [simp del]

definition json_text_array :: "pystr \<Rightarrow> pystr list option" where
  "json_text_array s =
     (case skip_ws s of [] \<Rightarrow> None
      | c # r \<Rightarrow> if c \<noteq> 91 then None
          else (case (case skip_ws r of [] \<Rightarrow> None
                      | d # t \<Rightarrow> if d = 93 then Some ([], t) else scan_items (d # t)) of
                  None \<Rightarrow> None
                | Some (xs, t) \<Rightarrow> if skip_ws t = [] then Some xs else None))"

section \<open>Decimals\<close>

type_synonym decimal = "int \<times> int"

definition dec_value :: "decimal \<Rightarrow> rat" where
  "dec_value d = of_int (fst d) * (if 0 \<le> snd d then 10 ^ nat (snd d) else 1 / 10 ^ nat (- snd d))"

text \<open>\<^verbatim>\<open>len(value.as_tuple().digits)\<close>: leading zeros are not kept, zero has one digit.\<close>

definition dec_digits :: "decimal \<Rightarrow> nat" where
  "dec_digits d = length (dec_of_nat (nat \<bar>fst d\<bar>))"

text \<open>Dropping the last \<open>k\<close> digits of a coefficient, half to even.\<close>

definition round_half_even :: "nat \<Rightarrow> nat \<Rightarrow> nat" where
  "round_half_even k n = (let q = n div 10 ^ k; r = n mod 10 ^ k in
     if 10 ^ k < 2 * r \<or> 2 * r = 10 ^ k \<and> odd q then q + 1 else q)"

definition dec_fix :: "nat \<Rightarrow> decimal \<Rightarrow> decimal" where
  "dec_fix prec d = (if dec_digits d \<le> prec then d
     else let k = dec_digits d - prec
          in (sgn (fst d) * int (round_half_even k (nat \<bar>fst d\<bar>)), snd d + int k))"

definition dec_mul :: "nat \<Rightarrow> decimal \<Rightarrow> decimal \<Rightarrow> decimal" where
  "dec_mul prec a b = dec_fix prec (fst a * fst b, snd a + snd b)"

text \<open>\<^verbatim>\<open>Decimal(text)\<close> of a plain decimal literal with an optional sign and fraction.\<close>

definition decimal_of_text :: "pystr \<Rightarrow> decimal" where
  "decimal_of_text s =
     (let s = py_strip s; neg = (take 1 s = [45]); u = (if neg then drop 1 s else s);
          whole = takeWhile py_isdigit u; frac = drop 1 (dropWhile py_isdigit u);
          n = int (nat_of_dec (whole @ frac))
      in (if neg then - n else n, - int (length frac)))"

end
