(* ===== verification/Reconciliation.thy ===== *)
theory Reconciliation
  imports Stdlib
begin

text \<open>
  Model of the reconciliation engine, contract 1.1 (\<^verbatim>\<open>domain/reconciliation/\<close>): the guards and the validation of policy and
  packet (\<^verbatim>\<open>common.py\<close>), the four items (\<^verbatim>\<open>c1.py\<close> \<dots> \<^verbatim>\<open>c4.py\<close>) and the dispatcher \<^verbatim>\<open>evaluate\<close> (\<^verbatim>\<open>engine.py\<close>).

  Packet and policy are the JSON objects the source reads. \<open>d ! k\<close> of the source is \<open>fld d k\<close>: every key is read after
  \<^verbatim>\<open>require_exact_keys\<close> has accepted the object (\<open>validate_packet_keys\<close> and \<open>validate_policy_keys\<close> in \<open>Recon_Correct\<close>), so the read does not
  miss. A regular expression closed by \<^verbatim>\<open>$\<close> matches before one trailing newline too, as \<^verbatim>\<open>re.match\<close> does (\<open>upto_newline\<close>).
  The three refusals of a text that is not a JSON array of strings share one label.
\<close>

section \<open>Vocabulary\<close>

definition SCHEMA_VERSION :: pystr where
  "SCHEMA_VERSION = py ''1.1''"

definition ITEMS :: "string list" where
  "ITEMS = [''C1'', ''C2'', ''C3'', ''C4'']"

definition KINDS :: "string list" where
  "KINDS = [''entity_set'', ''facility_set'', ''currency_amount'', ''period'', ''classification'', ''unknown'']"

definition RECON_TRACKS :: "string list" where
  "RECON_TRACKS = [''goal'', ''performance'', ''management'', ''unknown'']"

definition CONSOLIDATION :: "string list" where
  "CONSOLIDATION = [''consolidated'', ''separate'', ''unknown'']"

definition COMPARABILITY :: "string list" where
  "COMPARABILITY = [''comparable'', ''not_comparable'', ''unknown'']"

definition SEARCH_STATES :: "string list" where
  "SEARCH_STATES = [''complete'', ''incomplete'', ''not_run'']"

definition DIFFERENCE_TYPES :: "string list" where
  "DIFFERENCE_TYPES = [''operational_control_vs_control'', ''overseas_subsidiary_excluded'',
     ''equity_method_excluded'', ''acquisition_disposal_proration'']"

definition SET_KINDS :: "string list" where
  "SET_KINDS = [''entity_set'', ''facility_set'']"

definition IDENTITY_KEYS :: "string list" where
  "IDENTITY_KEYS = [''tenant_id'', ''company_id'', ''claim_id'', ''package_id'', ''period_start'', ''period_end'',
     ''sustainability_document_version'', ''financial_document_version'', ''dart_corp_code'',
     ''financial_fiscal_year'', ''consolidation'', ''financial_period_start'', ''financial_period_end'',
     ''sr_published_at'', ''financial_published_at'', ''rcept_no'', ''as_of_date'']"

definition PACKET_KEYS :: "string list" where
  "PACKET_KEYS = [''schema_version'', ''synthetic'', ''identity'', ''item'', ''sources'', ''sustainability'',
     ''financial'', ''comparability'', ''explanation'', ''c3_context'', ''claim'', ''search'', ''c4_context'']"

definition POLICY_KEYS :: "string list" where
  "POLICY_KEYS = [''schema_version'', ''version'', ''approved'', ''synthetic_only'', ''current_stage'',
     ''enabled_items'', ''c1_identity_rule'', ''c3_threshold'', ''c3_account_mapping_approved'', ''approved_by'',
     ''approved_on'', ''source_policy_sha256'', ''allowed_capex_account_ids'', ''coverage_policy_id'',
     ''allowed_difference_types'', ''c2_timing_rule'', ''c4_required_explanations'']"

definition SOURCE_KEYS :: "string list" where
  "SOURCE_KEYS = [''source_id'', ''document_id'', ''artifact_sha256'', ''locator'', ''quote'']"

definition FACT_KEYS :: "string list" where
  "FACT_KEYS = [''raw'', ''normalized'', ''kind'', ''unit'', ''source_id'']"

definition SEARCH_KEYS :: "string list" where
  "SEARCH_KEYS = [''state'', ''coverage_policy_id'', ''required_document_ids'', ''reviewed_source_ids'',
     ''failed_document_ids'', ''receipt_id'']"

definition CLAIM_KEYS :: "string list" where
  "CLAIM_KEYS = [''track'', ''quote'', ''source_id'', ''trigger_elements'', ''fiscal_year'']"

definition C3_KEYS :: "string list" where
  "C3_KEYS = [''currency'', ''target_period_start'', ''target_period_end'', ''capex_period_start'',
     ''capex_period_end'', ''capex_account_ids'', ''commitment_source_id'', ''funding_plan_source_id'']"

definition C4_KEYS :: "string list" where
  "C4_KEYS = [''classification_name'', ''definition_source_ids'', ''calculation_source_ids'']"

definition C1_IDENTITY_RULE :: pystr where
  "C1_IDENTITY_RULE = py ''exact_verified_entity_set''"

definition C2_TIMING_RULE :: pystr where
  "C2_TIMING_RULE = py ''same_period_or_verified_explanation''"

definition C4_REQUIRED_EXPLANATIONS :: "pystr list" where
  "C4_REQUIRED_EXPLANATIONS = [py ''definition'', py ''calculation_basis'']"

section \<open>Reading JSON objects\<close>

definition fld :: "json \<Rightarrow> string \<Rightarrow> json" where
  "fld d k = (case d of JObj kvs \<Rightarrow> (case map_of kvs (py k) of Some v \<Rightarrow> v | None \<Rightarrow> JNull) | _ \<Rightarrow> JNull)"

definition opt_text :: "json \<Rightarrow> pystr option" where
  "opt_text v = (case v of JStr s \<Rightarrow> Some s | _ \<Rightarrow> None)"

definition text_of :: "json \<Rightarrow> pystr" where
  "text_of v = (case v of JStr s \<Rightarrow> s | _ \<Rightarrow> [])"

definition texts_of :: "json \<Rightarrow> pystr list" where
  "texts_of v = (case v of JList vs \<Rightarrow> map text_of vs | _ \<Rightarrow> [])"

definition is_text :: "json \<Rightarrow> string list \<Rightarrow> bool" where
  "is_text v allowed \<longleftrightarrow> list_ex (\<lambda>a. v = JStr (py a)) allowed"

section \<open>Outcomes\<close>

record outcome =
  oc_execution_state :: pystr
  oc_status :: "pystr option"
  oc_reason_codes :: "pystr list"
  oc_extra_source_ids :: "pystr list"
  oc_explanation_source_id :: "pystr option"

definition completed :: "string \<Rightarrow> pystr list \<Rightarrow> pystr list \<Rightarrow> pystr option \<Rightarrow> outcome" where
  "completed status reasons sources explanation =
     \<lparr>oc_execution_state = py ''completed'', oc_status = Some (py status), oc_reason_codes = reasons,
      oc_extra_source_ids = sources, oc_explanation_source_id = explanation\<rparr>"

definition blocked :: "string \<Rightarrow> pystr list \<Rightarrow> outcome" where
  "blocked reason sources =
     \<lparr>oc_execution_state = py ''blocked'', oc_status = None, oc_reason_codes = [py reason],
      oc_extra_source_ids = sources, oc_explanation_source_id = None\<rparr>"

section \<open>Low level guards\<close>

definition fail :: "string \<Rightarrow> 'a result" where
  "fail message = Inl (DomainValidationError message)"

definition require_mapping :: "json \<Rightarrow> string \<Rightarrow> unit result" where
  "require_mapping v name = (case v of JObj _ \<Rightarrow> Inr () | _ \<Rightarrow> fail (name @ '' must be a JSON object''))"

definition keys_of :: "json \<Rightarrow> pystr set" where
  "keys_of d = (case d of JObj kvs \<Rightarrow> fst ` set kvs | _ \<Rightarrow> {})"

definition require_exact_keys :: "json \<Rightarrow> string list \<Rightarrow> string \<Rightarrow> unit result" where
  "require_exact_keys d keys name =
     (if \<not> py ` set keys \<subseteq> keys_of d then fail (name @ '' is missing required fields'')
      else if \<not> keys_of d \<subseteq> py ` set keys then fail (name @ '' has unknown fields'')
      else Inr ())"

definition require_bool :: "json \<Rightarrow> string \<Rightarrow> string \<Rightarrow> unit result" where
  "require_bool d k name = (case fld d k of JBool _ \<Rightarrow> Inr () | _ \<Rightarrow> fail (name @ ''.'' @ k @ '' must be a boolean''))"

definition require_int :: "json \<Rightarrow> string \<Rightarrow> string \<Rightarrow> int \<Rightarrow> int \<Rightarrow> unit result" where
  "require_int d k name low high = (case fld d k of
       JInt i \<Rightarrow> if low \<le> i \<and> i \<le> high then Inr () else fail (name @ ''.'' @ k @ '' is out of range'')
     | _ \<Rightarrow> fail (name @ ''.'' @ k @ '' must be an integer''))"

definition require_text :: "json \<Rightarrow> string \<Rightarrow> string \<Rightarrow> unit result" where
  "require_text d k name = (case fld d k of
       JStr s \<Rightarrow> if s \<noteq> [] then Inr () else fail (name @ ''.'' @ k @ '' must be a non-empty string'')
     | _ \<Rightarrow> fail (name @ ''.'' @ k @ '' must be a non-empty string''))"

definition require_optional_text :: "json \<Rightarrow> string \<Rightarrow> string \<Rightarrow> unit result" where
  "require_optional_text d k name = (case fld d k of
       JNull \<Rightarrow> Inr ()
     | JStr s \<Rightarrow> if s \<noteq> [] then Inr () else fail (name @ ''.'' @ k @ '' must be a non-empty string or null'')
     | _ \<Rightarrow> fail (name @ ''.'' @ k @ '' must be a non-empty string or null''))"

definition require_enum :: "json \<Rightarrow> string \<Rightarrow> string \<Rightarrow> string list \<Rightarrow> unit result" where
  "require_enum d k name allowed =
     (if is_text (fld d k) allowed then Inr () else fail (name @ ''.'' @ k @ '' must be one of the allowed values''))"

definition is_nonempty_text :: "json \<Rightarrow> bool" where
  "is_nonempty_text v = (case v of JStr s \<Rightarrow> s \<noteq> [] | _ \<Rightarrow> False)"

definition require_unique_text_list :: "json \<Rightarrow> string \<Rightarrow> string \<Rightarrow> unit result" where
  "require_unique_text_list d k name = (case fld d k of
       JList vs \<Rightarrow>
         if \<not> list_all is_nonempty_text vs then fail (name @ ''.'' @ k @ '' entries must be non-empty strings'')
         else if py_duplicates vs then fail (name @ ''.'' @ k @ '' entries must be unique'')
         else Inr ()
     | _ \<Rightarrow> fail (name @ ''.'' @ k @ '' must be an array''))"

text \<open>\<^verbatim>\<open>$\<close> matches at the end and before a newline that ends the text.\<close>

definition upto_newline :: "(pystr \<Rightarrow> bool) \<Rightarrow> pystr \<Rightarrow> bool" where
  "upto_newline p s \<longleftrightarrow> p s \<or> s \<noteq> [] \<and> last s = 10 \<and> p (butlast s)"

definition date_shape :: "pystr \<Rightarrow> bool" where
  "date_shape s \<longleftrightarrow> length s = 10 \<and> list_all py_isdigit (take 4 s) \<and> take 1 (drop 4 s) = [45]
     \<and> list_all py_isdigit (take 2 (drop 5 s)) \<and> take 1 (drop 7 s) = [45] \<and> list_all py_isdigit (drop 8 s)"

definition period_shape :: "pystr \<Rightarrow> bool" where
  "period_shape s \<longleftrightarrow> length s = 21 \<and> date_shape (take 10 s) \<and> take 1 (drop 10 s) = [47] \<and> date_shape (drop 11 s)"

definition all_digits :: "pystr \<Rightarrow> bool" where
  "all_digits s \<longleftrightarrow> s \<noteq> [] \<and> list_all py_isdigit s"

definition ratio_shape :: "pystr \<Rightarrow> bool" where
  "ratio_shape s \<longleftrightarrow> all_digits (takeWhile (\<lambda>c. c \<noteq> 46) s)
     \<and> (46 \<in> set s \<longrightarrow> all_digits (drop 1 (dropWhile (\<lambda>c. c \<noteq> 46) s)))"

definition decimal_shape :: "pystr \<Rightarrow> bool" where
  "decimal_shape s \<longleftrightarrow> ratio_shape (if take 1 s = [45] then drop 1 s else s)"

definition hex64_shape :: "pystr \<Rightarrow> bool" where
  "hex64_shape s \<longleftrightarrow> length s = 64 \<and> list_all lower_hex s"

definition corp_shape :: "pystr \<Rightarrow> bool" where
  "corp_shape s \<longleftrightarrow> length s = 8 \<and> list_all py_isdigit s"

definition matches :: "(pystr \<Rightarrow> bool) \<Rightarrow> json \<Rightarrow> bool" where
  "matches p v = (case v of JStr s \<Rightarrow> upto_newline p s | _ \<Rightarrow> False)"

definition parse_date :: "json \<Rightarrow> string \<Rightarrow> pydate result" where
  "parse_date v name =
     (if \<not> matches date_shape v then fail (name @ '' must be a YYYY-MM-DD date'')
      else case date_fromisoformat (text_of v) of
        Inl _ \<Rightarrow> fail (name @ '' is not a real calendar date'') | Inr d \<Rightarrow> Inr d)"

definition require_optional_date :: "json \<Rightarrow> string \<Rightarrow> string \<Rightarrow> pydate option result" where
  "require_optional_date d k name = (if fld d k = JNull then Inr None
     else bindE (parse_date (fld d k) (name @ ''.'' @ k)) (\<lambda>x. Inr (Some x)))"

definition require_ordered_period :: "json \<Rightarrow> string \<Rightarrow> string \<Rightarrow> string \<Rightarrow> unit result" where
  "require_ordered_period d sk ek name =
     bindE (require_optional_date d sk name) (\<lambda>start.
     bindE (require_optional_date d ek name) (\<lambda>stop.
       case (start, stop) of
         (Some a, Some b) \<Rightarrow> if b < a then fail (name @ ''.'' @ sk @ '' must not be after '' @ name @ ''.'' @ ek) else Inr ()
       | _ \<Rightarrow> Inr ()))"

definition parse_decimal :: "json \<Rightarrow> string \<Rightarrow> decimal result" where
  "parse_decimal v name = (if \<not> matches decimal_shape v then fail (name @ '' must be a plain decimal string'')
     else Inr (decimal_of_text (text_of v)))"

definition parse_period :: "pystr \<Rightarrow> string \<Rightarrow> (pydate \<times> pydate) result" where
  "parse_period s name =
     (if \<not> upto_newline period_shape s then fail (name @ '' must be YYYY-MM-DD/YYYY-MM-DD'')
      else bindE (parse_date (JStr (take 10 s)) (name @ '' start'')) (\<lambda>start.
           bindE (parse_date (JStr (take 10 (drop 11 s))) (name @ '' end'')) (\<lambda>stop.
             if stop < start then fail (name @ '' start must not be after end'') else Inr (start, stop))))"

definition parse_entity_set :: "pystr \<Rightarrow> string \<Rightarrow> pystr set result" where
  "parse_entity_set s name = (case json_text_array s of
       None \<Rightarrow> fail (name @ '' must be a JSON array of identifiers'')
     | Some xs \<Rightarrow>
         if [] \<in> set xs then fail (name @ '' entries must be non-empty strings'')
         else if py_duplicates xs then fail (name @ '' entries must be unique'')
         else Inr (set xs))"

section \<open>Policy\<close>

definition validate_policy :: "json \<Rightarrow> unit result" where
  "validate_policy p =
     bindE (require_exact_keys p POLICY_KEYS ''policy'') (\<lambda>_.
     bindE (if fld p ''schema_version'' \<noteq> JStr SCHEMA_VERSION then fail ''policy.schema_version must be 1.1'' else Inr ()) (\<lambda>_.
     bindE (require_text p ''version'' ''policy'') (\<lambda>_.
     bindE (require_bool p ''approved'' ''policy'') (\<lambda>_.
     bindE (require_bool p ''synthetic_only'' ''policy'') (\<lambda>_.
     bindE (require_bool p ''c3_account_mapping_approved'' ''policy'') (\<lambda>_.
     bindE (case fld p ''current_stage'' of JInt _ \<Rightarrow> Inr () | _ \<Rightarrow> fail ''policy.current_stage must be an integer'') (\<lambda>_.
     bindE (require_unique_text_list p ''enabled_items'' ''policy'') (\<lambda>_.
     bindE (if \<not> list_all (\<lambda>e. e \<in> py ` set ITEMS) (texts_of (fld p ''enabled_items''))
            then fail ''policy.enabled_items may only contain C1, C2, C3 or C4'' else Inr ()) (\<lambda>_.
     bindE (if fld p ''c1_identity_rule'' \<noteq> JStr C1_IDENTITY_RULE then fail ''policy.c1_identity_rule'' else Inr ()) (\<lambda>_.
     bindE (if fld p ''c2_timing_rule'' \<noteq> JStr C2_TIMING_RULE then fail ''policy.c2_timing_rule'' else Inr ()) (\<lambda>_.
     bindE (if fld p ''c4_required_explanations'' \<noteq> JList (map JStr C4_REQUIRED_EXPLANATIONS)
            then fail ''policy.c4_required_explanations must be [definition, calculation_basis]'' else Inr ()) (\<lambda>_.
     bindE (if fld p ''c3_threshold'' \<noteq> JNull \<and> \<not> matches ratio_shape (fld p ''c3_threshold'')
            then fail ''policy.c3_threshold must be a non-negative decimal string or null'' else Inr ()) (\<lambda>_.
     bindE (require_optional_text p ''approved_by'' ''policy'') (\<lambda>_.
     bindE (require_optional_date p ''approved_on'' ''policy'') (\<lambda>_.
     bindE (if \<not> matches hex64_shape (fld p ''source_policy_sha256'')
            then fail ''policy.source_policy_sha256 must be 64 lowercase hex characters'' else Inr ()) (\<lambda>_.
     bindE (require_unique_text_list p ''allowed_capex_account_ids'' ''policy'') (\<lambda>_.
     bindE (require_text p ''coverage_policy_id'' ''policy'') (\<lambda>_.
     bindE (require_unique_text_list p ''allowed_difference_types'' ''policy'') (\<lambda>_.
       if \<not> list_all (\<lambda>e. e \<in> py ` set DIFFERENCE_TYPES) (texts_of (fld p ''allowed_difference_types''))
       then fail ''policy.allowed_difference_types contains an unknown difference type'' else Inr ())))))))))))))))))))"

section \<open>Packet\<close>

definition validate_identity :: "json \<Rightarrow> unit result" where
  "validate_identity i =
     bindE (require_exact_keys i IDENTITY_KEYS ''identity'') (\<lambda>_.
     bindE (forE (\<lambda>k. require_text i k ''identity'') [''tenant_id'', ''company_id'', ''claim_id'', ''package_id'',
              ''sustainability_document_version'', ''financial_document_version'']) (\<lambda>_.
     bindE (if \<not> matches corp_shape (fld i ''dart_corp_code'')
            then fail ''identity.dart_corp_code must be 8 digits'' else Inr ()) (\<lambda>_.
     bindE (require_int i ''financial_fiscal_year'' ''identity'' 1900 2200) (\<lambda>_.
     bindE (require_enum i ''consolidation'' ''identity'' CONSOLIDATION) (\<lambda>_.
     bindE (require_optional_text i ''rcept_no'' ''identity'') (\<lambda>_.
     bindE (require_ordered_period i ''period_start'' ''period_end'' ''identity'') (\<lambda>_.
     bindE (require_ordered_period i ''financial_period_start'' ''financial_period_end'' ''identity'') (\<lambda>_.
     bindE (require_optional_date i ''sr_published_at'' ''identity'') (\<lambda>_.
     bindE (require_optional_date i ''financial_published_at'' ''identity'') (\<lambda>_.
     bindE (parse_date (fld i ''as_of_date'') ''identity.as_of_date'') (\<lambda>_. Inr ())))))))))))"

definition validate_normalized :: "json \<Rightarrow> string \<Rightarrow> unit result" where
  "validate_normalized ft name =
     (let kind = fld ft ''kind''; normalized = fld ft ''normalized'' in
      if normalized = JNull then Inr ()
      else if is_text kind SET_KINDS then
        bindE (parse_entity_set (text_of normalized) (name @ ''.normalized'')) (\<lambda>_. Inr ())
      else if is_text kind [''period''] then
        bindE (parse_period (text_of normalized) (name @ ''.normalized'')) (\<lambda>_. Inr ())
      else if is_text kind [''currency_amount''] then
        bindE (parse_decimal normalized (name @ ''.normalized'')) (\<lambda>_. Inr ())
      else Inr ())"

definition validate_recon_fact :: "json \<Rightarrow> string \<Rightarrow> unit result" where
  "validate_recon_fact ft name =
     bindE (require_exact_keys ft FACT_KEYS name) (\<lambda>_.
     bindE (require_optional_text ft ''raw'' name) (\<lambda>_.
     bindE (require_optional_text ft ''unit'' name) (\<lambda>_.
     bindE (require_optional_text ft ''source_id'' name) (\<lambda>_.
     bindE (require_enum ft ''kind'' name KINDS) (\<lambda>_.
     bindE (require_optional_text ft ''normalized'' name) (\<lambda>_.
       validate_normalized ft name))))))"

definition validate_source :: "json \<Rightarrow> unit result" where
  "validate_source s =
     bindE (require_mapping s ''sources[]'') (\<lambda>_.
     bindE (require_exact_keys s SOURCE_KEYS ''sources[]'') (\<lambda>_.
     bindE (forE (\<lambda>k. require_text s k ''sources[]'') [''source_id'', ''document_id'', ''locator'', ''quote'']) (\<lambda>_.
       if \<not> matches hex64_shape (fld s ''artifact_sha256'')
       then fail ''sources[].artifact_sha256 must be 64 lowercase hex characters'' else Inr ())))"

definition validate_sources :: "json \<Rightarrow> pystr list result" where
  "validate_sources v = (case v of
       JList ss \<Rightarrow>
         bindE (forE validate_source ss) (\<lambda>_.
           let ids = map (\<lambda>s. text_of (fld s ''source_id'')) ss in
           if py_duplicates ids then fail ''sources contain a duplicate source_id'' else Inr ids)
     | _ \<Rightarrow> fail ''sources must be an array'')"

definition validate_search :: "json \<Rightarrow> unit result" where
  "validate_search s =
     bindE (require_exact_keys s SEARCH_KEYS ''search'') (\<lambda>_.
     bindE (require_enum s ''state'' ''search'' SEARCH_STATES) (\<lambda>_.
     bindE (require_optional_text s ''coverage_policy_id'' ''search'') (\<lambda>_.
     bindE (require_optional_text s ''receipt_id'' ''search'') (\<lambda>_.
     bindE (forE (\<lambda>k. require_unique_text_list s k ''search'')
              [''required_document_ids'', ''reviewed_source_ids'', ''failed_document_ids'']) (\<lambda>_.
       if fld s ''state'' \<noteq> JStr (py ''complete'') then Inr ()
       else if texts_of (fld s ''failed_document_ids'') \<noteq> [] then fail ''a complete search cannot have failed documents''
       else if \<not> opt_truthy (opt_text (fld s ''coverage_policy_id'')) then fail ''a complete search requires a coverage policy''
       else if \<not> opt_truthy (opt_text (fld s ''receipt_id'')) then fail ''a complete search requires a receipt''
       else if texts_of (fld s ''required_document_ids'') = []
         then fail ''a complete search requires the list of documents it had to read''
       else Inr ())))))"

definition validate_c3_context :: "json \<Rightarrow> unit result" where
  "validate_c3_context c =
     bindE (require_exact_keys c C3_KEYS ''c3_context'') (\<lambda>_.
     bindE (require_text c ''currency'' ''c3_context'') (\<lambda>_.
     bindE (require_unique_text_list c ''capex_account_ids'' ''c3_context'') (\<lambda>_.
     bindE (require_optional_text c ''commitment_source_id'' ''c3_context'') (\<lambda>_.
     bindE (require_optional_text c ''funding_plan_source_id'' ''c3_context'') (\<lambda>_.
     bindE (require_ordered_period c ''target_period_start'' ''target_period_end'' ''c3_context'') (\<lambda>_.
       require_ordered_period c ''capex_period_start'' ''capex_period_end'' ''c3_context''))))))"

definition validate_c4_context :: "json \<Rightarrow> unit result" where
  "validate_c4_context c =
     bindE (require_exact_keys c C4_KEYS ''c4_context'') (\<lambda>_.
     bindE (require_text c ''classification_name'' ''c4_context'') (\<lambda>_.
     bindE (require_unique_text_list c ''definition_source_ids'' ''c4_context'') (\<lambda>_.
       require_unique_text_list c ''calculation_source_ids'' ''c4_context'')))"

text \<open>One row of the context loop: absent is refused for its own item only.\<close>

definition validate_context :: "json \<Rightarrow> string \<Rightarrow> string \<Rightarrow> (json \<Rightarrow> unit result) \<Rightarrow> unit result" where
  "validate_context packet key item_name validator =
     (if fld packet key = JNull then
        (if fld packet ''item'' = JStr (py item_name) then fail (key @ '' is required for item '' @ item_name) else Inr ())
      else bindE (require_mapping (fld packet key) key) (\<lambda>_. validator (fld packet key)))"

definition option_list :: "'a option \<Rightarrow> 'a list" where
  "option_list x = (case x of None \<Rightarrow> [] | Some y \<Rightarrow> [y])"

definition referenced_sources :: "json \<Rightarrow> pystr list" where
  "referenced_sources packet =
     (let c3 = fld packet ''c3_context''; c4 = fld packet ''c4_context'' in
      option_list (opt_text (fld (fld packet ''claim'') ''source_id''))
      @ option_list (opt_text (fld (fld packet ''explanation'') ''source_id''))
      @ option_list (opt_text (fld (fld packet ''sustainability'') ''source_id''))
      @ option_list (opt_text (fld (fld packet ''financial'') ''source_id''))
      @ texts_of (fld (fld packet ''search'') ''reviewed_source_ids'')
      @ option_list (opt_text (fld c3 ''commitment_source_id''))
      @ option_list (opt_text (fld c3 ''funding_plan_source_id''))
      @ texts_of (fld c4 ''definition_source_ids'')
      @ texts_of (fld c4 ''calculation_source_ids''))"

definition validate_explanation :: "json \<Rightarrow> unit result" where
  "validate_explanation e =
     bindE (require_mapping e ''explanation'') (\<lambda>_.
     bindE (require_exact_keys e [''source_id'', ''search_complete''] ''explanation'') (\<lambda>_.
     bindE (require_optional_text e ''source_id'' ''explanation'') (\<lambda>_.
       require_bool e ''search_complete'' ''explanation'')))"

definition validate_claim :: "json \<Rightarrow> unit result" where
  "validate_claim c =
     bindE (require_mapping c ''claim'') (\<lambda>_.
     bindE (require_exact_keys c CLAIM_KEYS ''claim'') (\<lambda>_.
     bindE (require_enum c ''track'' ''claim'' RECON_TRACKS) (\<lambda>_.
     bindE (require_text c ''quote'' ''claim'') (\<lambda>_.
     bindE (require_text c ''source_id'' ''claim'') (\<lambda>_.
     bindE (require_unique_text_list c ''trigger_elements'' ''claim'') (\<lambda>_.
       require_int c ''fiscal_year'' ''claim'' 1900 2200))))))"

definition validate_packet :: "json \<Rightarrow> unit result" where
  "validate_packet p =
     bindE (require_exact_keys p PACKET_KEYS ''packet'') (\<lambda>_.
     bindE (if fld p ''schema_version'' \<noteq> JStr SCHEMA_VERSION then fail ''packet.schema_version must be 1.1'' else Inr ()) (\<lambda>_.
     bindE (require_bool p ''synthetic'' ''packet'') (\<lambda>_.
     bindE (require_enum p ''item'' ''packet'' ITEMS) (\<lambda>_.
     bindE (require_enum p ''comparability'' ''packet'' COMPARABILITY) (\<lambda>_.
     bindE (require_mapping (fld p ''identity'') ''identity'') (\<lambda>_.
     bindE (validate_identity (fld p ''identity'')) (\<lambda>_.
     bindE (validate_sources (fld p ''sources'')) (\<lambda>source_ids.
     bindE (forE (\<lambda>side. bindE (require_mapping (fld p side) side) (\<lambda>_. validate_recon_fact (fld p side) side))
              [''sustainability'', ''financial'']) (\<lambda>_.
     bindE (validate_explanation (fld p ''explanation'')) (\<lambda>_.
     bindE (validate_claim (fld p ''claim'')) (\<lambda>_.
     bindE (require_mapping (fld p ''search'') ''search'') (\<lambda>_.
     bindE (validate_search (fld p ''search'')) (\<lambda>_.
     bindE (validate_context p ''c3_context'' ''C3'' validate_c3_context) (\<lambda>_.
     bindE (validate_context p ''c4_context'' ''C4'' validate_c4_context) (\<lambda>_.
     bindE (if fld (fld p ''explanation'') ''search_complete'' \<noteq> JBool (fld (fld p ''search'') ''state'' = JStr (py ''complete''))
            then fail ''explanation.search_complete must agree with search.state'' else Inr ()) (\<lambda>_.
       if list_ex (\<lambda>r. r \<notin> set source_ids) (referenced_sources p) then fail ''unknown source reference'' else Inr ()))))))))))))))))"

section \<open>Shared item helpers\<close>

record recon_context =
  cx_packet :: json
  cx_policy :: json

definition cx_sustainability :: "recon_context \<Rightarrow> json" where
  "cx_sustainability c = fld (cx_packet c) ''sustainability''"

definition cx_financial :: "recon_context \<Rightarrow> json" where
  "cx_financial c = fld (cx_packet c) ''financial''"

definition cx_kind :: "recon_context \<Rightarrow> json" where
  "cx_kind c = fld (cx_sustainability c) ''kind''"

definition cx_explanation_source_id :: "recon_context \<Rightarrow> pystr option" where
  "cx_explanation_source_id c = opt_text (fld (fld (cx_packet c) ''explanation'') ''source_id'')"

definition cx_search_complete :: "recon_context \<Rightarrow> bool" where
  "cx_search_complete c \<longleftrightarrow> fld (fld (cx_packet c) ''search'') ''state'' = JStr (py ''complete'')"

definition require_kind :: "recon_context \<Rightarrow> string list \<Rightarrow> outcome option" where
  "require_kind c allowed = (if is_text (cx_kind c) allowed then None else Some (blocked ''kind_mismatch'' []))"

definition unresolved_values :: "recon_context \<Rightarrow> outcome option" where
  "unresolved_values c =
     (if fld (cx_sustainability c) ''normalized'' = JNull \<or> fld (cx_financial c) ''normalized'' = JNull
      then Some (blocked ''value_unresolved'' []) else None)"

definition resolve_difference :: "recon_context \<Rightarrow> string \<Rightarrow> outcome" where
  "resolve_difference c explained_reason = (case cx_explanation_source_id c of
       Some e \<Rightarrow> completed ''matched'' [py explained_reason] [e] (Some e)
     | None \<Rightarrow> if cx_search_complete c then completed ''needs_explanation'' [py ''explanation_not_found''] [] None
               else blocked ''search_incomplete'' [])"

text \<open>The two early returns every item opens with.\<close>

definition item_opening :: "recon_context \<Rightarrow> string list \<Rightarrow> outcome result \<Rightarrow> outcome result" where
  "item_opening c kinds body = (case require_kind c kinds of Some o1 \<Rightarrow> Inr o1
     | None \<Rightarrow> (case unresolved_values c of Some o2 \<Rightarrow> Inr o2 | None \<Rightarrow> body))"

section \<open>C1: organizational boundary\<close>

definition c1_evaluate :: "recon_context \<Rightarrow> outcome result" where
  "c1_evaluate c = item_opening c SET_KINDS
     (let i = fld (cx_packet c) ''identity'';
          reporting = (fld i ''period_start'', fld i ''period_end'');
          financial_period = (fld i ''financial_period_start'', fld i ''financial_period_end'') in
      if fst reporting = JNull \<or> snd reporting = JNull \<or> fst financial_period = JNull \<or> snd financial_period = JNull
        then Inr (blocked ''c1_period_unresolved'' [])
      else if reporting \<noteq> financial_period then Inr (blocked ''c1_period_mismatch'' [])
      else if fld i ''consolidation'' = JStr (py ''unknown'') then Inr (blocked ''c1_consolidation_unknown'' [])
      else bindE (parse_entity_set (text_of (fld (cx_sustainability c) ''normalized'')) ''sustainability.normalized'') (\<lambda>s.
           bindE (parse_entity_set (text_of (fld (cx_financial c) ''normalized'')) ''financial.normalized'') (\<lambda>f.
             if s = {} \<or> f = {} then Inr (blocked ''entity_set_empty'' [])
             else if s = f then Inr (completed ''matched'' [py ''same_verified_entity_set''] [] None)
             else Inr (resolve_difference c ''difference_explained''))))"

section \<open>C2: reporting period\<close>

definition reporting_window :: "recon_context \<Rightarrow> (pydate \<times> pydate) option result" where
  "reporting_window c =
     (let i = fld (cx_packet c) ''identity''; start = fld i ''period_start''; stop = fld i ''period_end'' in
      if start = JNull \<or> stop = JNull then Inr None
      else bindE (parse_period (text_of start @ 47 # text_of stop) ''identity reporting period'') (\<lambda>w. Inr (Some w)))"

definition c2_evaluate :: "recon_context \<Rightarrow> outcome result" where
  "c2_evaluate c = item_opening c [''period'']
     (bindE (parse_period (text_of (fld (cx_sustainability c) ''normalized'')) ''sustainability.normalized'') (\<lambda>s.
      bindE (parse_period (text_of (fld (cx_financial c) ''normalized'')) ''financial.normalized'') (\<lambda>f.
      bindE (reporting_window c) (\<lambda>window.
        if (case window of None \<Rightarrow> False | Some w \<Rightarrow> snd s < fst w \<or> snd w < fst s)
          then Inr (completed ''not_applicable'' [py ''period_out_of_scope''] [] None)
        else if s = f then Inr (completed ''matched'' [py ''same_period''] [] None)
        else Inr (resolve_difference c ''period_difference_explained'')))))"

section \<open>C3: investment commitment and capital expenditure\<close>

definition CONTEXT_PERIOD_KEYS :: "string list" where
  "CONTEXT_PERIOD_KEYS = [''target_period_start'', ''target_period_end'', ''capex_period_start'', ''capex_period_end'']"

definition within_threshold :: "decimal \<Rightarrow> decimal \<Rightarrow> decimal \<Rightarrow> bool" where
  "within_threshold commitment threshold capex =
     (let digits = dec_digits commitment + dec_digits threshold + dec_digits capex
      in dec_value commitment \<le> dec_value (dec_mul (digits + 1) threshold capex))"

definition with_sources :: "outcome \<Rightarrow> pystr list \<Rightarrow> outcome" where
  "with_sources oc extra = (if extra = [] then oc
     else oc\<lparr>oc_extra_source_ids := extra @ oc_extra_source_ids oc\<rparr>)"

definition account_mapping_resolved :: "recon_context \<Rightarrow> bool" where
  "account_mapping_resolved c =
     (let allowed = texts_of (fld (cx_policy c) ''allowed_capex_account_ids'');
          requested = texts_of (fld (fld (cx_packet c) ''c3_context'') ''capex_account_ids'') in
      fld (cx_policy c) ''c3_account_mapping_approved'' = JBool True \<and> allowed \<noteq> [] \<and> requested \<noteq> []
      \<and> set requested \<subseteq> set allowed)"

definition c3_amounts :: "recon_context \<Rightarrow> outcome result" where
  "c3_amounts c =
     bindE (parse_decimal (fld (cx_sustainability c) ''normalized'') ''sustainability.normalized'') (\<lambda>commitment.
     bindE (parse_decimal (fld (cx_financial c) ''normalized'') ''financial.normalized'') (\<lambda>capex.
       if dec_value commitment \<le> 0 then Inr (blocked ''c3_commitment_not_positive'' [])
       else if dec_value capex \<le> 0 then Inr (blocked ''c3_capex_not_positive'' [])
       else if fld (fld (cx_packet c) ''c3_context'') ''commitment_source_id'' \<noteq> JNull
         then Inr (completed ''matched'' [py ''commitment_disclosed''] [] None)
       else if fld (cx_policy c) ''c3_threshold'' = JNull then Inr (blocked ''c3_policy_unapproved'' [])
       else bindE (parse_decimal (fld (cx_policy c) ''c3_threshold'') ''policy.c3_threshold'') (\<lambda>threshold.
         if within_threshold commitment threshold capex
         then Inr (completed ''matched'' [py ''capex_within_threshold''] [] None)
         else Inr (resolve_difference c ''difference_explained''))))"

definition c3_evaluate :: "recon_context \<Rightarrow> outcome result" where
  "c3_evaluate c =
     (let claim = fld (cx_packet c) ''claim''; c3 = fld (cx_packet c) ''c3_context'';
          i = fld (cx_packet c) ''identity'' in
      if fld claim ''track'' \<noteq> JStr (py ''goal'') \<or> py ''currency_amount'' \<notin> set (texts_of (fld claim ''trigger_elements''))
      then Inr (completed ''not_applicable'' [py ''c3_trigger_absent''] [] None)
      else
        let extra = option_list (opt_text (fld c3 ''commitment_source_id''))
                  @ option_list (opt_text (fld c3 ''funding_plan_source_id'')) in
        bindE (item_opening c [''currency_amount'']
          (if fld (cx_sustainability c) ''unit'' \<noteq> fld c3 ''currency'' \<or> fld (cx_financial c) ''unit'' \<noteq> fld c3 ''currency''
             then Inr (blocked ''c3_currency_mismatch'' [])
           else if \<not> account_mapping_resolved c then Inr (blocked ''c3_policy_unapproved'' [])
           else if list_ex (\<lambda>k. fld c3 k = JNull) CONTEXT_PERIOD_KEYS \<or> fld i ''financial_period_start'' = JNull
                \<or> fld i ''financial_period_end'' = JNull
             then Inr (blocked ''c3_period_unresolved'' [])
           else if (fld c3 ''capex_period_start'', fld c3 ''capex_period_end'')
                \<noteq> (fld i ''financial_period_start'', fld i ''financial_period_end'')
             then Inr (blocked ''c3_capex_period_mismatch'' [])
           else c3_amounts c))
          (\<lambda>oc. Inr (with_sources oc extra)))"

section \<open>C4: classification basis\<close>

definition REASON_BY_EXPLANATION :: "(pystr \<times> pystr) list" where
  "REASON_BY_EXPLANATION = [(py ''definition'', py ''definition_not_found''),
     (py ''calculation_basis'', py ''calculation_basis_not_found'')]"

definition SOURCES_BY_EXPLANATION :: "(pystr \<times> string) list" where
  "SOURCES_BY_EXPLANATION = [(py ''definition'', ''definition_source_ids''),
     (py ''calculation_basis'', ''calculation_source_ids'')]"

fun c4_collect :: "json \<Rightarrow> pystr list \<Rightarrow> (pystr list \<times> pystr list) result" where
  "c4_collect c4 [] = Inr ([], [])"
| "c4_collect c4 (e # es) = (case (map_of SOURCES_BY_EXPLANATION e, map_of REASON_BY_EXPLANATION e) of
       (Some key, Some reason) \<Rightarrow>
         bindE (c4_collect c4 es) (\<lambda>(cited, missing).
           let ids = texts_of (fld c4 key) in
           Inr (if ids \<noteq> [] then (ids @ cited, missing) else (cited, reason # missing)))
     | _ \<Rightarrow> Inl (KeyError ''explanation''))"

definition c4_evaluate :: "recon_context \<Rightarrow> outcome result" where
  "c4_evaluate c = item_opening c [''classification'']
     (bindE (c4_collect (fld (cx_packet c) ''c4_context'') (texts_of (fld (cx_policy c) ''c4_required_explanations'')))
       (\<lambda>(cited, missing).
         let ordered_cited = py_unique cited in
         if missing = [] then Inr (completed ''matched'' [py ''classification_basis_present''] ordered_cited None)
         else if \<not> cx_search_complete c then Inr (blocked ''search_incomplete'' ordered_cited)
         else Inr (completed ''needs_explanation'' missing ordered_cited None)))"

section \<open>The engine\<close>

definition ENGINE_VERSION :: pystr where
  "ENGINE_VERSION = py ''reconciliation-engine-1.2.0''"

definition canonical_sha256 :: "platform \<Rightarrow> json \<Rightarrow> pystr result" where
  "canonical_sha256 P v =
     (if json_finite v then Inr (sha256_hex P (json_print (float_repr P) (json_norm v)))
      else fail ''value is not canonical JSON serialisable'')"

definition policy_gate :: "json \<Rightarrow> json \<Rightarrow> outcome option" where
  "policy_gate packet policy =
     (if fld policy ''approved'' \<noteq> JBool True then Some (blocked ''policy_unapproved'' [])
      else if fld policy ''current_stage'' \<noteq> JInt 1 then Some (blocked ''stage_not_supported'' [])
      else if fld policy ''synthetic_only'' = JBool True \<and> fld packet ''synthetic'' \<noteq> JBool True
        then Some (blocked ''synthetic_policy_real_packet'' [])
      else if text_of (fld packet ''item'') \<notin> set (texts_of (fld policy ''enabled_items''))
        then Some (blocked ''item_not_enabled'' [])
      else None)"

definition ITEM_EVALUATORS :: "(pystr \<times> (recon_context \<Rightarrow> outcome result)) list" where
  "ITEM_EVALUATORS = [(py ''C1'', c1_evaluate), (py ''C2'', c2_evaluate), (py ''C3'', c3_evaluate), (py ''C4'', c4_evaluate)]"

definition decide :: "json \<Rightarrow> json \<Rightarrow> outcome result" where
  "decide packet policy = (case policy_gate packet policy of Some g \<Rightarrow> Inr g
     | None \<Rightarrow>
        (let comparability = fld packet ''comparability''; kind = fld (fld packet ''sustainability'') ''kind'' in
         if comparability = JStr (py ''not_comparable'') then Inr (completed ''not_applicable'' [py ''not_comparable''] [] None)
         else if comparability = JStr (py ''unknown'') then Inr (blocked ''comparability_unknown'' [])
         else if kind \<noteq> fld (fld packet ''financial'') ''kind'' then Inr (blocked ''kind_mismatch'' [])
         else if kind = JStr (py ''unknown'') then Inr (blocked ''value_unresolved'' [])
         else case map_of ITEM_EVALUATORS (text_of (fld packet ''item'')) of
             None \<Rightarrow> Inl (KeyError ''item'')
           | Some evaluator \<Rightarrow> evaluator \<lparr>cx_packet = packet, cx_policy = policy\<rparr>))"

definition recon_source_ids :: "json \<Rightarrow> outcome \<Rightarrow> pystr list" where
  "recon_source_ids packet oc =
     py_unique (option_list (opt_text (fld (fld packet ''sustainability'') ''source_id''))
       @ option_list (opt_text (fld (fld packet ''financial'') ''source_id'')) @ oc_extra_source_ids oc)"

definition recon_project :: "platform \<Rightarrow> json \<Rightarrow> json \<Rightarrow> outcome \<Rightarrow> json result" where
  "recon_project P packet policy oc =
     bindE (canonical_sha256 P packet) (\<lambda>packet_sha256.
     bindE (canonical_sha256 P policy) (\<lambda>policy_sha256.
       Inr (JObj
        [(py ''schema_version'', JStr SCHEMA_VERSION),
         (py ''claim_id'', fld (fld packet ''identity'') ''claim_id''),
         (py ''item'', fld packet ''item''),
         (py ''execution_state'', JStr (oc_execution_state oc)),
         (py ''status'', opt_str (oc_status oc)),
         (py ''review_required'', JBool (oc_execution_state oc \<noteq> py ''completed'')),
         (py ''reason_codes'', JList (map JStr (oc_reason_codes oc))),
         (py ''source_ids'', JList (map JStr (recon_source_ids packet oc))),
         (py ''explanation_source_id'', opt_str (oc_explanation_source_id oc)),
         (py ''sustainability_value'', fld (fld packet ''sustainability'') ''raw''),
         (py ''financial_value'', fld (fld packet ''financial'') ''raw''),
         (py ''packet_sha256'', JStr packet_sha256),
         (py ''policy_sha256'', JStr policy_sha256),
         (py ''synthetic'', fld packet ''synthetic''),
         (py ''engine_version'', JStr ENGINE_VERSION)])))"

definition recon_evaluate :: "platform \<Rightarrow> json \<Rightarrow> json \<Rightarrow> json result" where
  "recon_evaluate P packet policy =
     bindE (case packet of JObj _ \<Rightarrow> Inr () | _ \<Rightarrow> fail ''packet must be a JSON object'') (\<lambda>_.
     bindE (case policy of JObj _ \<Rightarrow> Inr () | _ \<Rightarrow> fail ''policy must be a JSON object'') (\<lambda>_.
     if fld packet ''item'' = JStr (py ''C5'') then Inl (NotImplementedError ''stage 1 does not implement accounting-judgement reconciliation'')
     else bindE (validate_policy policy) (\<lambda>_.
          bindE (validate_packet packet) (\<lambda>_.
          bindE (decide packet policy) (\<lambda>oc. recon_project P packet policy oc)))))"

end
