(* ===== verification/Recon_Correct.thy ===== *)
theory Recon_Correct
  imports Reconciliation
begin

text \<open>
  Lemmas on the reconciliation engine: what each guard accepts (the collection \<open>guard_iffs\<close>), what a validated packet and a
  validated policy guarantee, and that the item evaluators return on validated input.
\<close>

named_theorems guard_iffs \<open>what the guards of the reconciliation contract accept\<close>

section \<open>Guards\<close>

lemma fail_not_Inr [simp]: "fail m \<noteq> Inr x" "Inr x \<noteq> fail m" "\<not> okE (fail m)"
  by (simp_all add: fail_def)

lemma unless_fail [guard_iffs]: "(if b then fail m else r) = Inr x \<longleftrightarrow> \<not> b \<and> r = Inr x"
  by simp

lemma bindE_unit: "bindE (m :: unit result) (\<lambda>_. r) = Inr x \<longleftrightarrow> m = Inr () \<and> r = Inr x"
  by (auto simp: bindE_Inr_iff)

lemma bindE_date: "bindE (m :: pydate option result) (\<lambda>_. r) = Inr x \<longleftrightarrow> (\<exists>a. m = Inr a) \<and> r = Inr x"
  by (auto simp: bindE_Inr_iff)

lemma require_mapping_ok [guard_iffs]: "require_mapping v n = Inr u \<longleftrightarrow> (\<exists>kvs. v = JObj kvs)"
  by (cases v) (simp_all add: require_mapping_def)

lemma require_exact_keys_ok [guard_iffs]: "require_exact_keys d ks n = Inr u \<longleftrightarrow> keys_of d = py ` set ks"
  by (auto simp: require_exact_keys_def)

lemma require_bool_ok [guard_iffs]: "require_bool d k n = Inr u \<longleftrightarrow> (\<exists>b. fld d k = JBool b)"
  by (simp add: require_bool_def split: json.splits)

lemma require_int_ok [guard_iffs]: "require_int d k n l h = Inr u \<longleftrightarrow> (\<exists>i. fld d k = JInt i \<and> l \<le> i \<and> i \<le> h)"
  by (simp add: require_int_def split: json.splits)

lemma require_text_ok [guard_iffs]: "require_text d k n = Inr u \<longleftrightarrow> (\<exists>s. fld d k = JStr s \<and> s \<noteq> [])"
  by (simp add: require_text_def split: json.splits)

lemma require_optional_text_ok [guard_iffs]:
  "require_optional_text d k n = Inr u \<longleftrightarrow> fld d k = JNull \<or> (\<exists>s. fld d k = JStr s \<and> s \<noteq> [])"
  by (simp add: require_optional_text_def split: json.splits)

lemma require_enum_ok [guard_iffs]: "require_enum d k n as = Inr u \<longleftrightarrow> (\<exists>a \<in> set as. fld d k = JStr (py a))"
  by (auto simp: require_enum_def is_text_def list_ex_iff)

lemma is_nonempty_text_iff: "is_nonempty_text v \<longleftrightarrow> (\<exists>s. v = JStr s \<and> s \<noteq> [])"
  by (cases v) (simp_all add: is_nonempty_text_def)

lemma texts_map: "list_all is_nonempty_text vs \<Longrightarrow> vs = map JStr (map text_of vs)"
  by (induction vs) (auto simp: is_nonempty_text_iff text_of_def)

lemma nonempty_texts: "list_all is_nonempty_text vs \<longleftrightarrow> (\<exists>xs. vs = map JStr xs \<and> [] \<notin> set xs)"
proof
  assume vs: "list_all is_nonempty_text vs"
  then have "[] \<notin> set (map text_of vs)"
    by (induction vs) (auto simp: is_nonempty_text_iff text_of_def)
  with texts_map [OF vs] show "\<exists>xs. vs = map JStr xs \<and> [] \<notin> set xs" by blast
qed (auto simp: list_all_iff is_nonempty_text_iff)

lemma require_unique_text_list_ok [guard_iffs]:
  "require_unique_text_list d k n = Inr u \<longleftrightarrow> (\<exists>xs. fld d k = JList (map JStr xs) \<and> [] \<notin> set xs \<and> distinct xs)"
proof (cases "fld d k")
  case (JList vs)
  have "inj JStr" by (simp add: inj_def)
  then show ?thesis
    using JList
    by (auto simp: require_unique_text_list_def nonempty_texts py_duplicates_iff distinct_map inj_on_def
        dest: injD map_injective)
qed (simp_all add: require_unique_text_list_def)

lemma texts_of_texts [simp]: "texts_of (JList (map JStr xs)) = xs"
  by (simp add: texts_of_def text_of_def map_idI)

lemma text_reads [simp]: "text_of (JStr s) = s" "opt_text (JStr s) = Some s" "opt_text JNull = None" "texts_of JNull = []"
  by (simp_all add: text_of_def opt_text_def texts_of_def)

lemma fld_null [simp]: "fld JNull k = JNull"
  by (simp add: fld_def)

lemma matches_text: "matches p v \<Longrightarrow> \<exists>s. v = JStr s"
  by (cases v) (simp_all add: matches_def)

lemma parse_date_text: "parse_date v n = Inr d \<Longrightarrow> \<exists>s. v = JStr s"
  by (auto simp: parse_date_def dest!: matches_text split: if_splits)

lemma require_optional_date_ok [guard_iffs]:
  "require_optional_date d k n = Inr x \<longleftrightarrow>
     fld d k = JNull \<and> x = None
     \<or> fld d k \<noteq> JNull \<and> (\<exists>a. parse_date (fld d k) (n @ ''.'' @ k) = Inr a \<and> x = Some a)"
  by (auto simp: require_optional_date_def result_simps)

text \<open>The trailing newline the pattern lets through is refused by the calendar.\<close>

lemma utf8_digits: "list_all (\<lambda>c. c < 128) s \<Longrightarrow> utf8_length s = length s"
  by (induction s) (auto simp: utf8_length_def)

lemma date_shape_split:
  "date_shape s \<longleftrightarrow> (\<exists>y m d. s = y @ 45 # m @ 45 # d \<and> length y = 4 \<and> length m = 2 \<and> length d = 2
     \<and> list_all py_isdigit (y @ m @ d))"
proof
  assume s: "date_shape s"
  then have len: "length s = 10" by (simp add: date_shape_def)
  have "s = take 4 s @ take 1 (drop 4 s) @ take 2 (drop 5 s) @ take 1 (drop 7 s) @ drop 8 s"
    using append_take_drop_id [of 4 s] append_take_drop_id [of 1 "drop 4 s"] append_take_drop_id [of 2 "drop 5 s"]
      append_take_drop_id [of 1 "drop 7 s"] by (simp only: drop_drop) (simp add: numeral_eq_Suc)
  moreover have "length (take 4 s) = 4" "length (take 2 (drop 5 s)) = 2" "length (drop 8 s) = 2"
    using len by simp_all
  ultimately show "\<exists>y m d. s = y @ 45 # m @ 45 # d \<and> length y = 4 \<and> length m = 2 \<and> length d = 2
     \<and> list_all py_isdigit (y @ m @ d)"
    using s unfolding date_shape_def
    by (intro exI [of _ "take 4 s"] exI [of _ "take 2 (drop 5 s)"] exI [of _ "drop 8 s"]) simp
next
  assume "\<exists>y m d. s = y @ 45 # m @ 45 # d \<and> length y = 4 \<and> length m = 2 \<and> length d = 2
     \<and> list_all py_isdigit (y @ m @ d)"
  then show "date_shape s"
    by (auto simp: date_shape_def)
qed

lemma digit_ascii: "py_isdigit c \<Longrightarrow> c < 128 \<and> c \<noteq> 10 \<and> c \<noteq> 45 \<and> c \<noteq> 46 \<and> c \<noteq> 47 \<and> c \<noteq> 87"
  by (auto simp: py_isdigit_def)

lemma date_shape_ascii: "date_shape s \<Longrightarrow> list_all (\<lambda>c. c < 128) s"
  by (auto simp: date_shape_split list_all_iff dest: digit_ascii)

definition ymd_text :: "pystr \<Rightarrow> pystr \<Rightarrow> pystr \<Rightarrow> bool" where
  "ymd_text y m d \<longleftrightarrow> length y = 4 \<and> length m = 2 \<and> length d = 2 \<and> list_all py_isdigit (y @ m @ d)"

lemma take_one: "take 1 (x # xs) = [x]" "take (Suc 0) (x # xs) = [x]"
  by simp_all

lemma fromisoformat_ymd:
  assumes "ymd_text y m d"
  shows "date_fromisoformat (y @ 45 # m @ 45 # d) =
    (case new_date (int (nat_of_dec y)) (int (nat_of_dec m)) (int (nat_of_dec d)) of
       None \<Rightarrow> Inl (ValueError ''Invalid isoformat string'') | Some a \<Rightarrow> Inr a)"
proof -
  let ?s = "y @ 45 # m @ 45 # d"
  have ds: "date_shape ?s" and y: "length y = 4" "list_all py_isdigit y"
    and m: "length m = 2" "list_all py_isdigit m" and d: "length d = 2" "list_all py_isdigit d"
    using assms by (auto simp: date_shape_split ymd_text_def)
  have "utf8_length ?s = 10"
    using utf8_digits [OF date_shape_ascii [OF ds]] y m d by simp
  moreover have "\<not> list_ex (\<lambda>c. 55296 \<le> c \<and> c \<le> 57343) ?s"
  proof -
    have "\<not> (55296 \<le> c \<and> c \<le> 57343)" if "c \<in> set ?s" for c
      using date_shape_ascii [OF ds] that by (simp add: list_all_iff) (auto dest!: bspec)
    then show ?thesis unfolding list_ex_iff by blast
  qed
  moreover have "take 1 (m @ 45 # d) \<noteq> [87]"
    using m by (cases m) (auto dest: digit_ascii)
  ultimately show ?thesis
    using y m d
    by (simp add: date_fromisoformat_def scan_digits_def scan_month_date_def scan_separator_def take_one Let_def
        split: option.split)
qed

lemma parse_date_iff:
  "parse_date v n = Inr a \<longleftrightarrow> (\<exists>y m d. v = JStr (y @ 45 # m @ 45 # d) \<and> ymd_text y m d
     \<and> new_date (int (nat_of_dec y)) (int (nat_of_dec m)) (int (nat_of_dec d)) = Some a)" (is "_ \<longleftrightarrow> ?R")
proof
  assume a: "parse_date v n = Inr a"
  then obtain s where v: "v = JStr s" and s: "upto_newline date_shape s" and f: "date_fromisoformat s = Inr a"
    by (auto simp: parse_date_def matches_def split: json.splits if_splits sum.splits)
  have "date_shape s"
  proof (rule ccontr)
    assume "\<not> date_shape s"
    with s obtain t where t: "s = t @ [10]" "date_shape t"
      by (metis append_butlast_last_id upto_newline_def)
    then have "utf8_length s = 11"
      using utf8_digits [OF date_shape_ascii [OF t(2)]] by (simp add: utf8_length_def date_shape_def)
    with f show False by (simp add: date_fromisoformat_def Let_def)
  qed
  then obtain y m d where "s = y @ 45 # m @ 45 # d" "ymd_text y m d"
    by (auto simp: date_shape_split ymd_text_def)
  with v f fromisoformat_ymd [of y m d] show ?R
    by (auto split: option.splits)
next
  assume ?R
  then obtain y m d where v: "v = JStr (y @ 45 # m @ 45 # d)" "ymd_text y m d"
    and nd: "new_date (int (nat_of_dec y)) (int (nat_of_dec m)) (int (nat_of_dec d)) = Some a"
    by blast
  then have "date_shape (y @ 45 # m @ 45 # d)"
    by (auto simp: date_shape_split ymd_text_def)
  with v nd fromisoformat_ymd [OF v(2)] show "parse_date v n = Inr a"
    by (simp add: parse_date_def matches_def upto_newline_def)
qed

lemma parse_period_join:
  assumes a: "parse_date (JStr s) n1 = Inr a" and b: "parse_date (JStr t) n2 = Inr b" and "a \<le> b"
  shows "parse_period (s @ 47 # t) n = Inr (a, b)"
proof -
  from a b have st: "date_shape s" "date_shape t"
    by (auto simp: parse_date_iff date_shape_split ymd_text_def)
  then have len: "length s = 10" "length t = 10"
    by (simp_all add: date_shape_def)
  have "parse_date (JStr s) (n @ '' start'') = Inr a" "parse_date (JStr t) (n @ '' end'') = Inr b"
    using a b by (simp_all only: parse_date_iff)
  with st len assms(3) show ?thesis
    by (simp add: parse_period_def upto_newline_def period_shape_def take_one)
qed

lemma parse_date_name: "parse_date v n = Inr a \<Longrightarrow> parse_date v m = Inr a"
  by (simp only: parse_date_iff)

lemma parse_period_name: "parse_period s n = Inr x \<Longrightarrow> parse_period s m = Inr x"
  by (simp add: parse_period_def bindE_Inr_iff guard_iffs) (blast dest: parse_date_name)

lemma require_ordered_period_ok [guard_iffs]:
  "require_ordered_period d sk ek n = Inr u \<longleftrightarrow>
     (\<exists>x y. require_optional_date d sk n = Inr x \<and> require_optional_date d ek n = Inr y
        \<and> (\<forall>a b. x = Some a \<longrightarrow> y = Some b \<longrightarrow> a \<le> b))"
proof (cases "require_optional_date d sk n")
  case sk: (Inr x)
  show ?thesis
  proof (cases "require_optional_date d ek n")
    case (Inr y)
    with sk show ?thesis
      by (cases x; cases y) (auto simp: require_ordered_period_def)
  qed (simp add: require_ordered_period_def sk)
qed (simp add: require_ordered_period_def)

section \<open>Finite values\<close>

text \<open>A Python dictionary holds a key once; \<open>json_dicts\<close> says so of every dictionary inside a value.\<close>

fun json_dicts :: "json \<Rightarrow> bool" where
  "json_dicts (JList vs) = (\<forall>v \<in> set vs. json_dicts v)"
| "json_dicts (JObj kvs) = (distinct (map fst kvs) \<and> (\<forall>kv \<in> set kvs. json_dicts (snd kv)))"
| "json_dicts _ = True"

lemma fld_dicts: "json_dicts d \<Longrightarrow> json_dicts (fld d k)"
  by (auto simp: fld_def split: json.splits option.splits dest!: map_of_SomeD) (metis snd_conv)

lemma json_finite_fields:
  assumes "json_dicts d" "keys_of d = py ` set ks" "list_all (\<lambda>k. json_finite (fld d k)) ks"
    "d = JObj kvs"
  shows "json_finite d"
proof -
  note finite_key = assms(3) [unfolded list_all_iff, rule_format]
  have "json_finite v" if kv: "(x, v) \<in> set kvs" for x v
  proof -
    from kv assms(2,4) obtain k where k: "k \<in> set ks" "x = py k"
      by (force simp: keys_of_def)
    from kv assms(1,4) have "map_of kvs x = Some v"
      by (simp add: map_of_eq_Some_iff)
    with k assms(4) have "fld d k = v" by (simp add: fld_def)
    with finite_key [OF k(1)] show ?thesis by simp
  qed
  with assms(4) show ?thesis by auto
qed

section \<open>Validated policy\<close>

lemma validate_policyD:
  assumes "validate_policy p = Inr u"
  shows validate_policy_keys: "keys_of p = py ` set POLICY_KEYS"
    and policy_schema: "fld p ''schema_version'' = JStr SCHEMA_VERSION"
    and policy_version: "\<exists>s. fld p ''version'' = JStr s"
    and policy_approved: "\<exists>b. fld p ''approved'' = JBool b"
    and policy_synthetic: "\<exists>b. fld p ''synthetic_only'' = JBool b"
    and policy_mapping: "\<exists>b. fld p ''c3_account_mapping_approved'' = JBool b"
    and policy_stage: "\<exists>i. fld p ''current_stage'' = JInt i"
    and policy_items: "\<exists>xs. fld p ''enabled_items'' = JList (map JStr xs)"
    and policy_rules: "fld p ''c1_identity_rule'' = JStr C1_IDENTITY_RULE" "fld p ''c2_timing_rule'' = JStr C2_TIMING_RULE"
    and policy_c4: "fld p ''c4_required_explanations'' = JList (map JStr C4_REQUIRED_EXPLANATIONS)"
    and policy_threshold: "fld p ''c3_threshold'' = JNull \<or> matches ratio_shape (fld p ''c3_threshold'')"
    and policy_by: "fld p ''approved_by'' = JNull \<or> (\<exists>s. fld p ''approved_by'' = JStr s)"
    and policy_on: "fld p ''approved_on'' = JNull \<or> (\<exists>s. fld p ''approved_on'' = JStr s)"
    and policy_hash: "matches hex64_shape (fld p ''source_policy_sha256'')"
    and policy_accounts: "\<exists>xs. fld p ''allowed_capex_account_ids'' = JList (map JStr xs)"
    and policy_coverage: "\<exists>s. fld p ''coverage_policy_id'' = JStr s"
    and policy_differences: "\<exists>xs. fld p ''allowed_difference_types'' = JList (map JStr xs)"
proof -
  have stage: "(case v of JInt _ \<Rightarrow> Inr () | _ \<Rightarrow> fail m) = Inr x \<longleftrightarrow> (\<exists>i. v = JInt i)" for v m and x :: unit
    by (cases v) simp_all
  note v = assms [unfolded validate_policy_def, simplified bindE_unit bindE_date stage unless_fail require_exact_keys_ok require_text_ok
      require_bool_ok require_unique_text_list_ok require_optional_text_ok]
  show "keys_of p = py ` set POLICY_KEYS" "fld p ''schema_version'' = JStr SCHEMA_VERSION"
    "\<exists>s. fld p ''version'' = JStr s" "\<exists>b. fld p ''approved'' = JBool b" "\<exists>b. fld p ''synthetic_only'' = JBool b"
    "\<exists>b. fld p ''c3_account_mapping_approved'' = JBool b" "\<exists>i. fld p ''current_stage'' = JInt i"
    "\<exists>xs. fld p ''enabled_items'' = JList (map JStr xs)" "fld p ''c1_identity_rule'' = JStr C1_IDENTITY_RULE"
    "fld p ''c2_timing_rule'' = JStr C2_TIMING_RULE"
    "fld p ''c4_required_explanations'' = JList (map JStr C4_REQUIRED_EXPLANATIONS)"
    "fld p ''c3_threshold'' = JNull \<or> matches ratio_shape (fld p ''c3_threshold'')"
    "fld p ''approved_by'' = JNull \<or> (\<exists>s. fld p ''approved_by'' = JStr s)"
    using v by blast+
  show "fld p ''approved_on'' = JNull \<or> (\<exists>s. fld p ''approved_on'' = JStr s)"
    using v unfolding require_optional_date_ok by (blast dest: parse_date_text)
  show "matches hex64_shape (fld p ''source_policy_sha256'')"
    "\<exists>xs. fld p ''allowed_capex_account_ids'' = JList (map JStr xs)"
    "\<exists>s. fld p ''coverage_policy_id'' = JStr s" "\<exists>xs. fld p ''allowed_difference_types'' = JList (map JStr xs)"
    using v by blast+
qed

lemma json_finite_texts [simp]: "json_finite (JList (map JStr xs))"
  by auto

lemma finite_cases:
  "\<exists>s. v = JStr s \<Longrightarrow> json_finite v" "\<exists>b. v = JBool b \<Longrightarrow> json_finite v" "\<exists>i. v = JInt i \<Longrightarrow> json_finite v"
  "\<exists>xs. v = JList (map JStr xs) \<Longrightarrow> json_finite v" "v = JNull \<or> (\<exists>s. v = JStr s) \<Longrightarrow> json_finite v"
  "matches q v \<Longrightarrow> json_finite v" "v = JNull \<or> matches q v \<Longrightarrow> json_finite v"
  by (auto dest!: matches_text)

lemma policy_finite:
  assumes "json_dicts p" "validate_policy p = Inr u" "p = JObj kvs"
  shows "json_finite p"
proof (rule json_finite_fields [OF assms(1) validate_policy_keys [OF assms(2)] _ assms(3)])
  note v = validate_policyD [OF assms(2)]
  show "list_all (\<lambda>k. json_finite (fld p k)) POLICY_KEYS"
    by (simp add: POLICY_KEYS_def v(2,9,10,11) finite_cases(1) [OF v(3)] finite_cases(2) [OF v(4)] finite_cases(2) [OF v(5)]
        finite_cases(2) [OF v(6)] finite_cases(3) [OF v(7)] finite_cases(4) [OF v(8)] finite_cases(7) [OF v(12)]
        finite_cases(5) [OF v(13)] finite_cases(5) [OF v(14)] finite_cases(6) [OF v(15)] finite_cases(4) [OF v(16)]
        finite_cases(1) [OF v(17)] finite_cases(4) [OF v(18)] del: json_finite.simps(2))
qed

section \<open>Validated packet\<close>

lemma validate_recon_factD:
  assumes "validate_recon_fact f n = Inr u"
  shows fact_keys: "keys_of f = py ` set FACT_KEYS"
    and fact_kind: "\<exists>k \<in> set KINDS. fld f ''kind'' = JStr (py k)"
    and fact_texts: "k \<in> {''raw'', ''unit'', ''source_id'', ''normalized''} \<Longrightarrow> fld f k = JNull \<or> (\<exists>s. fld f k = JStr s)"
    and fact_set: "fld f ''normalized'' = JStr s \<Longrightarrow> is_text (fld f ''kind'') SET_KINDS \<Longrightarrow>
      \<exists>x. parse_entity_set s m = Inr x"
    and fact_period: "fld f ''normalized'' = JStr s \<Longrightarrow> is_text (fld f ''kind'') [''period''] \<Longrightarrow>
      \<exists>x. parse_period s m = Inr x"
    and fact_amount: "fld f ''normalized'' = JStr s \<Longrightarrow> is_text (fld f ''kind'') [''currency_amount''] \<Longrightarrow>
      matches decimal_shape (JStr s)"
proof -
  have v: "validate_normalized f n = Inr ()" and g: "keys_of f = py ` set FACT_KEYS"
    "\<exists>k \<in> set KINDS. fld f ''kind'' = JStr (py k)"
    "\<And>k. k \<in> {''raw'', ''unit'', ''source_id'', ''normalized''} \<Longrightarrow> fld f k = JNull \<or> (\<exists>s. fld f k = JStr s)"
    using assms by (auto simp: validate_recon_fact_def bindE_Inr_iff guard_iffs)
  show "keys_of f = py ` set FACT_KEYS" "\<exists>k \<in> set KINDS. fld f ''kind'' = JStr (py k)"
    "k \<in> {''raw'', ''unit'', ''source_id'', ''normalized''} \<Longrightarrow> fld f k = JNull \<or> (\<exists>s. fld f k = JStr s)"
    using g by blast+
  show "\<exists>x. parse_entity_set s m = Inr x"
    if "fld f ''normalized'' = JStr s" "is_text (fld f ''kind'') SET_KINDS"
    using v that
    by (auto simp: validate_normalized_def bindE_Inr_iff parse_entity_set_def split: option.splits if_splits)
  show "\<exists>x. parse_period s m = Inr x"
    if "fld f ''normalized'' = JStr s" "is_text (fld f ''kind'') [''period'']"
    using v that
    by (auto simp: validate_normalized_def bindE_Inr_iff is_text_def SET_KINDS_def dest: parse_period_name)
  show "matches decimal_shape (JStr s)"
    if "fld f ''normalized'' = JStr s" "is_text (fld f ''kind'') [''currency_amount'']"
    using v that
    by (auto simp: validate_normalized_def Let_def bindE_Inr_iff guard_iffs parse_decimal_def is_text_def SET_KINDS_def)
qed

lemma validate_packetD:
  assumes "validate_packet p = Inr u"
  shows validate_packet_keys: "keys_of p = py ` set PACKET_KEYS"
    and packet_schema: "fld p ''schema_version'' = JStr SCHEMA_VERSION"
    and packet_synthetic: "\<exists>b. fld p ''synthetic'' = JBool b"
    and packet_item: "\<exists>i \<in> set ITEMS. fld p ''item'' = JStr (py i)"
    and packet_comparability: "\<exists>i \<in> set COMPARABILITY. fld p ''comparability'' = JStr (py i)"
    and packet_identity: "validate_identity (fld p ''identity'') = Inr ()" "\<exists>kvs. fld p ''identity'' = JObj kvs"
    and packet_sources: "\<exists>ids. validate_sources (fld p ''sources'') = Inr ids \<and> set (referenced_sources p) \<subseteq> set ids"
    and packet_sustainability: "validate_recon_fact (fld p ''sustainability'') ''sustainability'' = Inr ()"
      "\<exists>kvs. fld p ''sustainability'' = JObj kvs"
    and packet_financial: "validate_recon_fact (fld p ''financial'') ''financial'' = Inr ()"
      "\<exists>kvs. fld p ''financial'' = JObj kvs"
    and packet_explanation: "validate_explanation (fld p ''explanation'') = Inr ()"
    and packet_claim: "validate_claim (fld p ''claim'') = Inr ()"
    and packet_search: "validate_search (fld p ''search'') = Inr ()" "\<exists>kvs. fld p ''search'' = JObj kvs"
    and packet_c3: "validate_context p ''c3_context'' ''C3'' validate_c3_context = Inr ()"
    and packet_c4: "validate_context p ''c4_context'' ''C4'' validate_c4_context = Inr ()"
proof -
  note v = assms [unfolded validate_packet_def bindE_Inr_iff guard_iffs forE_Inr_iff]
  show "keys_of p = py ` set PACKET_KEYS" "fld p ''schema_version'' = JStr SCHEMA_VERSION"
    "\<exists>b. fld p ''synthetic'' = JBool b" "\<exists>i \<in> set ITEMS. fld p ''item'' = JStr (py i)"
    "\<exists>i \<in> set COMPARABILITY. fld p ''comparability'' = JStr (py i)"
    "validate_identity (fld p ''identity'') = Inr ()" "\<exists>kvs. fld p ''identity'' = JObj kvs"
    "validate_recon_fact (fld p ''sustainability'') ''sustainability'' = Inr ()"
    "\<exists>kvs. fld p ''sustainability'' = JObj kvs"
    "validate_recon_fact (fld p ''financial'') ''financial'' = Inr ()"
    "\<exists>kvs. fld p ''financial'' = JObj kvs"
    "validate_explanation (fld p ''explanation'') = Inr ()"
    "validate_claim (fld p ''claim'') = Inr ()"
    "validate_search (fld p ''search'') = Inr ()" "\<exists>kvs. fld p ''search'' = JObj kvs"
    "validate_context p ''c3_context'' ''C3'' validate_c3_context = Inr ()"
    "validate_context p ''c4_context'' ''C4'' validate_c4_context = Inr ()"
    using v by auto
  show "\<exists>ids. validate_sources (fld p ''sources'') = Inr ids \<and> set (referenced_sources p) \<subseteq> set ids"
    using v by (auto simp: list_ex_iff)
qed

lemma optional_date_text: "require_optional_date d k n = Inr x \<Longrightarrow> fld d k = JNull \<or> (\<exists>s. fld d k = JStr s)"
  by (auto simp: guard_iffs dest!: parse_date_text)

lemma ordered_period_texts:
  assumes "require_ordered_period d sk ek n = Inr u"
  shows "fld d sk = JNull \<or> (\<exists>s. fld d sk = JStr s)" "fld d ek = JNull \<or> (\<exists>s. fld d ek = JStr s)"
  using assms unfolding require_ordered_period_ok by (blast dest: optional_date_text)+

lemma null_or_text: "json_finite v" if "v = JNull \<or> (\<exists>s. v = JStr s)"
  using that by auto

lemma validate_identityD:
  assumes "validate_identity i = Inr u"
  shows "keys_of i = py ` set IDENTITY_KEYS"
    and "k \<in> {''tenant_id'', ''company_id'', ''claim_id'', ''package_id'',
              ''sustainability_document_version'', ''financial_document_version''} \<Longrightarrow> \<exists>s. fld i k = JStr s"
    and "matches corp_shape (fld i ''dart_corp_code'')"
    and "\<exists>y. fld i ''financial_fiscal_year'' = JInt y"
    and "\<exists>c \<in> set CONSOLIDATION. fld i ''consolidation'' = JStr (py c)"
    and "fld i ''rcept_no'' = JNull \<or> (\<exists>s. fld i ''rcept_no'' = JStr s)"
    and identity_period: "require_ordered_period i ''period_start'' ''period_end'' ''identity'' = Inr ()"
    and identity_financial: "require_ordered_period i ''financial_period_start'' ''financial_period_end'' ''identity'' = Inr ()"
    and "fld i ''sr_published_at'' = JNull \<or> (\<exists>s. fld i ''sr_published_at'' = JStr s)"
    and "fld i ''financial_published_at'' = JNull \<or> (\<exists>s. fld i ''financial_published_at'' = JStr s)"
    and "\<exists>s. fld i ''as_of_date'' = JStr s"
proof -
  note v = assms [unfolded validate_identity_def, simplified bindE_unit bindE_date unless_fail require_exact_keys_ok require_int_ok
      require_enum_ok require_optional_text_ok forE_Inr_iff require_text_ok]
  show "keys_of i = py ` set IDENTITY_KEYS" "matches corp_shape (fld i ''dart_corp_code'')"
    "\<exists>y. fld i ''financial_fiscal_year'' = JInt y" "\<exists>c \<in> set CONSOLIDATION. fld i ''consolidation'' = JStr (py c)"
    "fld i ''rcept_no'' = JNull \<or> (\<exists>s. fld i ''rcept_no'' = JStr s)"
    "require_ordered_period i ''period_start'' ''period_end'' ''identity'' = Inr ()"
    "require_ordered_period i ''financial_period_start'' ''financial_period_end'' ''identity'' = Inr ()"
    using v by blast+
  show "\<exists>s. fld i k = JStr s" if "k \<in> {''tenant_id'', ''company_id'', ''claim_id'', ''package_id'',
              ''sustainability_document_version'', ''financial_document_version''}"
    using v that by auto
  from v obtain a b c where "require_optional_date i ''sr_published_at'' ''identity'' = Inr a"
    "require_optional_date i ''financial_published_at'' ''identity'' = Inr b"
    "parse_date (fld i ''as_of_date'') ''identity.as_of_date'' = Inr c"
    by (auto simp: bindE_Inr_iff)
  then show "fld i ''sr_published_at'' = JNull \<or> (\<exists>s. fld i ''sr_published_at'' = JStr s)"
    "fld i ''financial_published_at'' = JNull \<or> (\<exists>s. fld i ''financial_published_at'' = JStr s)"
    "\<exists>s. fld i ''as_of_date'' = JStr s"
    by (blast dest: optional_date_text parse_date_text)+
qed

lemma identity_finite:
  assumes "json_dicts i" "validate_identity i = Inr u" "i = JObj kvs"
  shows "json_finite i"
proof -
  note v = validate_identityD [OF assms(2)]
  have c: "\<exists>s. fld i ''consolidation'' = JStr s" using v(5) by blast
  show ?thesis
    by (rule json_finite_fields [OF assms(1) v(1) _ assms(3)])
      (simp add: IDENTITY_KEYS_def finite_cases(1) [OF v(2)] finite_cases(6) [OF v(3)] finite_cases(3) [OF v(4)]
        finite_cases(1) [OF c] null_or_text [OF v(6)] null_or_text [OF v(9)] null_or_text [OF v(10)]
        finite_cases(1) [OF v(11)] null_or_text [OF ordered_period_texts(1) [OF v(7)]]
        null_or_text [OF ordered_period_texts(2) [OF v(7)]] null_or_text [OF ordered_period_texts(1) [OF v(8)]]
        null_or_text [OF ordered_period_texts(2) [OF v(8)]])
qed

lemma fact_finite:
  assumes "json_dicts f" "validate_recon_fact f n = Inr u" "f = JObj kvs"
  shows "json_finite f"
proof (rule json_finite_fields [OF assms(1) fact_keys [OF assms(2)] _ assms(3)])
  have "\<exists>s. fld f ''kind'' = JStr s"
    using fact_kind [OF assms(2)] by blast
  then show "list_all (\<lambda>k. json_finite (fld f k)) FACT_KEYS"
    by (simp add: FACT_KEYS_def finite_cases(1) null_or_text [OF fact_texts [OF assms(2)]])
qed

lemma sources_finite:
  assumes "json_dicts v" "validate_sources v = Inr ids"
  shows "json_finite v"
proof -
  from assms(2) obtain ss where v: "v = JList ss" and ok: "\<And>s. s \<in> set ss \<Longrightarrow> validate_source s = Inr ()"
    by (auto simp: validate_sources_def bindE_Inr_iff forE_Inr_iff split: json.splits)
  have "json_finite s" if "s \<in> set ss" for s
  proof -
    note g = ok [OF that, unfolded validate_source_def bindE_Inr_iff forE_Inr_iff guard_iffs]
    from g obtain kvs where kvs: "s = JObj kvs" by auto
    show ?thesis
    proof (rule json_finite_fields [OF _ _ _ kvs])
      show "json_dicts s" using assms(1) v that by simp
      show "keys_of s = py ` set SOURCE_KEYS" using g by auto
      show "list_all (\<lambda>k. json_finite (fld s k)) SOURCE_KEYS"
        using g by (auto simp: SOURCE_KEYS_def dest!: matches_text)
    qed
  qed
  with v show ?thesis by simp
qed

lemma explanation_finite:
  assumes "json_dicts e" "validate_explanation e = Inr u"
  shows "json_finite e"
proof -
  note g = assms(2) [unfolded validate_explanation_def bindE_Inr_iff guard_iffs]
  from g obtain kvs where kvs: "e = JObj kvs" by auto
  show ?thesis
    by (rule json_finite_fields [OF assms(1) _ _ kvs, of "[''source_id'', ''search_complete'']"]) (use g in auto)
qed

lemma claim_finite:
  assumes "json_dicts c" "validate_claim c = Inr u"
  shows "json_finite c"
proof -
  note g = assms(2) [unfolded validate_claim_def bindE_Inr_iff guard_iffs]
  from g obtain kvs where kvs: "c = JObj kvs" by auto
  show ?thesis
    by (rule json_finite_fields [OF assms(1) _ _ kvs, of CLAIM_KEYS]) (use g in \<open>auto simp: CLAIM_KEYS_def\<close>)
qed

lemma search_finite:
  assumes "json_dicts s" "validate_search s = Inr u" "s = JObj kvs"
  shows "json_finite s"
proof -
  note g = assms(2) [unfolded validate_search_def bindE_Inr_iff forE_Inr_iff guard_iffs]
  show ?thesis
    by (rule json_finite_fields [OF assms(1) _ _ assms(3), of SEARCH_KEYS]) (use g in \<open>auto simp: SEARCH_KEYS_def\<close>)
qed

lemma c3_finite:
  assumes "json_dicts c" "validate_c3_context c = Inr u" "c = JObj kvs"
  shows "json_finite c"
proof -
  note g = assms(2) [unfolded validate_c3_context_def bindE_Inr_iff require_exact_keys_ok require_text_ok
      require_optional_text_ok require_unique_text_list_ok]
  have p: "require_ordered_period c ''target_period_start'' ''target_period_end'' ''c3_context'' = Inr ()"
    "require_ordered_period c ''capex_period_start'' ''capex_period_end'' ''c3_context'' = Inr ()"
    using g by auto
  show ?thesis
  proof (rule json_finite_fields [OF assms(1) _ _ assms(3)])
    show "keys_of c = py ` set C3_KEYS" using g by blast
    show "list_all (\<lambda>k. json_finite (fld c k)) C3_KEYS"
      using g null_or_text [OF ordered_period_texts(1) [OF p(1)]] null_or_text [OF ordered_period_texts(2) [OF p(1)]]
        null_or_text [OF ordered_period_texts(1) [OF p(2)]] null_or_text [OF ordered_period_texts(2) [OF p(2)]]
      by (auto simp: C3_KEYS_def)
  qed
qed

lemma c4_finite:
  assumes "json_dicts c" "validate_c4_context c = Inr u" "c = JObj kvs"
  shows "json_finite c"
proof -
  note g = assms(2) [unfolded validate_c4_context_def bindE_Inr_iff guard_iffs]
  show ?thesis
    by (rule json_finite_fields [OF assms(1) _ _ assms(3), of C4_KEYS]) (use g in \<open>auto simp: C4_KEYS_def\<close>)
qed

lemma validate_contextD:
  assumes "validate_context p k i val = Inr u"
  shows "fld p k = JNull \<and> fld p ''item'' \<noteq> JStr (py i) \<or> (\<exists>kvs. fld p k = JObj kvs) \<and> val (fld p k) = Inr ()"
  using assms by (auto simp: validate_context_def bindE_Inr_iff guard_iffs split: if_splits)

lemma packet_finite:
  assumes "json_dicts p" "validate_packet p = Inr u" "p = JObj kvs"
  shows "json_finite p"
proof -
  note v = validate_packetD [OF assms(2)]
  note d = fld_dicts [OF assms(1)]
  have "json_finite (fld p ''c3_context'')" "json_finite (fld p ''c4_context'')"
    using validate_contextD [OF v(17)] validate_contextD [OF v(18)] c3_finite [OF d] c4_finite [OF d] by auto
  moreover have "json_finite (fld p ''identity'')" "json_finite (fld p ''sustainability'')"
    "json_finite (fld p ''financial'')" "json_finite (fld p ''search'')" "json_finite (fld p ''sources'')"
    using identity_finite [OF d v(6)] v(7) fact_finite [OF d v(9)] v(10) fact_finite [OF d v(11)] v(12)
      search_finite [OF d v(15)] v(16) v(8) sources_finite [OF d] by blast+
  moreover have "json_finite (fld p ''explanation'')" "json_finite (fld p ''claim'')"
    using explanation_finite [OF d v(13)] claim_finite [OF d v(14)] by blast+
  moreover have "json_finite (fld p ''synthetic'')" "json_finite (fld p ''item'')" "json_finite (fld p ''comparability'')"
    using v(3,4,5) by auto
  ultimately show ?thesis
    by (intro json_finite_fields [OF assms(1) v(1) _ assms(3)]) (simp add: PACKET_KEYS_def v(2))
qed

end
