(* ===== verification/Recon_Items.thy ===== *)
theory Recon_Items
  imports Recon_Correct
begin

text \<open>
  The item evaluators on validated input: each returns, and what it returns is \<open>sound\<close> (a completed outcome has one of the
  three statuses, a blocked one has none, every source it names is one the packet refers to, an explanation is asked for only
  after a complete search). \<open>decide_sound\<close> carries this through the dispatcher.
\<close>

definition sound :: "recon_context \<Rightarrow> outcome \<Rightarrow> bool" where
  "sound c oc \<longleftrightarrow>
     (if oc_execution_state oc = py ''completed''
      then oc_status oc \<in> {Some (py ''matched''), Some (py ''needs_explanation''), Some (py ''not_applicable'')}
      else oc_execution_state oc = py ''blocked'' \<and> oc_status oc = None)
     \<and> set (oc_extra_source_ids oc) \<subseteq> set (referenced_sources (cx_packet c))
     \<and> set_option (oc_explanation_source_id oc) \<subseteq> set (referenced_sources (cx_packet c))
     \<and> (oc_status oc = Some (py ''needs_explanation'') \<longrightarrow> cx_search_complete c)"

lemma sound_blocked [simp]:
  "sound c (blocked r ss) \<longleftrightarrow> set ss \<subseteq> set (referenced_sources (cx_packet c))"
  by (simp add: sound_def blocked_def)

lemma sound_completed [simp]:
  "sound c (completed st rs ss None) \<longleftrightarrow> st \<in> {''matched'', ''needs_explanation'', ''not_applicable''}
     \<and> set ss \<subseteq> set (referenced_sources (cx_packet c)) \<and> (st = ''needs_explanation'' \<longrightarrow> cx_search_complete c)"
  by (auto simp: sound_def completed_def)

lemma sound_resolve: "sound c (resolve_difference c r)"
proof (cases "cx_explanation_source_id c")
  case (Some e)
  then have "e \<in> set (referenced_sources (cx_packet c))"
    by (simp add: referenced_sources_def cx_explanation_source_id_def option_list_def Let_def)
  with Some show ?thesis
    by (simp add: resolve_difference_def sound_def completed_def)
qed (simp add: resolve_difference_def)

lemma sound_with_sources:
  assumes "sound c oc" "set ss \<subseteq> set (referenced_sources (cx_packet c))"
  shows "sound c (with_sources oc ss)"
  using assms by (auto simp: sound_def with_sources_def)

definition returns_sound :: "recon_context \<Rightarrow> outcome result \<Rightarrow> bool" where
  "returns_sound c r = (case r of Inl _ \<Rightarrow> False | Inr oc \<Rightarrow> sound c oc)"

lemma returns_sound_simps [simp]: "returns_sound c (Inr oc) = sound c oc" "\<not> returns_sound c (Inl e)"
  by (simp_all add: returns_sound_def)

lemma returns_sound_iff: "returns_sound c r \<longleftrightarrow> (\<exists>oc. r = Inr oc \<and> sound c oc)"
  by (cases r) auto

lemma item_opening_sound:
  assumes "is_text (cx_kind c) ks \<Longrightarrow> fld (cx_sustainability c) ''normalized'' \<noteq> JNull \<Longrightarrow>
    fld (cx_financial c) ''normalized'' \<noteq> JNull \<Longrightarrow> returns_sound c body"
  shows "returns_sound c (item_opening c ks body)"
  using assms by (simp add: item_opening_def require_kind_def unresolved_values_def)

text \<open>What the dispatcher hands to an evaluator.\<close>

definition ready :: "recon_context \<Rightarrow> bool" where
  "ready c \<longleftrightarrow> validate_packet (cx_packet c) = Inr () \<and> validate_policy (cx_policy c) = Inr ()
     \<and> cx_kind c = fld (cx_financial c) ''kind''"

lemma ready_facts:
  assumes "ready c"
  shows "validate_recon_fact (cx_sustainability c) ''sustainability'' = Inr ()"
    "validate_recon_fact (cx_financial c) ''financial'' = Inr ()" "fld (cx_financial c) ''kind'' = cx_kind c"
  using assms packet_sustainability(1) packet_financial(1)
  by (auto simp: ready_def cx_sustainability_def cx_financial_def)

lemma ready_normalized:
  assumes "ready c" "fld (cx_sustainability c) ''normalized'' \<noteq> JNull" "fld (cx_financial c) ''normalized'' \<noteq> JNull"
  obtains s f where "fld (cx_sustainability c) ''normalized'' = JStr s" "fld (cx_financial c) ''normalized'' = JStr f"
  using fact_texts [OF ready_facts(1) [OF assms(1)], of "''normalized''"]
    fact_texts [OF ready_facts(2) [OF assms(1)], of "''normalized''"] assms(2,3) by auto

lemma c1_sound:
  assumes c: "ready c"
  shows "returns_sound c (c1_evaluate c)"
  unfolding c1_evaluate_def
proof (rule item_opening_sound, goal_cases)
  case 1
  then obtain s f where sf: "fld (cx_sustainability c) ''normalized'' = JStr s" "fld (cx_financial c) ''normalized'' = JStr f"
    using ready_normalized [OF c] by metis
  obtain x y where "parse_entity_set s ''sustainability.normalized'' = Inr x"
    "parse_entity_set f ''financial.normalized'' = Inr y"
    using fact_set [OF ready_facts(1) [OF c] sf(1)] fact_set [OF ready_facts(2) [OF c] sf(2)] 1 ready_facts(3) [OF c]
    by (metis cx_kind_def)
  with sf show ?case
    by (simp add: Let_def sound_resolve)
qed

lemma reporting_window_returns:
  assumes "validate_packet (cx_packet c) = Inr u"
  shows "\<exists>w. reporting_window c = Inr w"
proof -
  let ?i = "fld (cx_packet c) ''identity''"
  have p: "require_ordered_period ?i ''period_start'' ''period_end'' ''identity'' = Inr ()"
    by (rule identity_period [OF packet_identity(1) [OF assms]])
  show ?thesis
  proof (cases "fld ?i ''period_start'' = JNull \<or> fld ?i ''period_end'' = JNull")
    case False
    then obtain a b where ab: "parse_date (fld ?i ''period_start'') ''identity.period_start'' = Inr a"
      "parse_date (fld ?i ''period_end'') ''identity.period_end'' = Inr b" "a \<le> b"
      using p unfolding require_ordered_period_ok require_optional_date_ok by auto
    with parse_date_text obtain s t where st: "fld ?i ''period_start'' = JStr s" "fld ?i ''period_end'' = JStr t"
      by blast
    with ab have "parse_period (s @ 47 # t) ''identity reporting period'' = Inr (a, b)"
      by (intro parse_period_join) simp_all
    with st show ?thesis
      by (simp add: reporting_window_def Let_def)
  qed (auto simp: reporting_window_def Let_def)
qed

lemma c2_sound:
  assumes c: "ready c"
  shows "returns_sound c (c2_evaluate c)"
  unfolding c2_evaluate_def
proof (rule item_opening_sound, goal_cases)
  case 1
  then obtain s f where sf: "fld (cx_sustainability c) ''normalized'' = JStr s" "fld (cx_financial c) ''normalized'' = JStr f"
    using ready_normalized [OF c] by metis
  obtain x y where xy: "parse_period s ''sustainability.normalized'' = Inr x"
    "parse_period f ''financial.normalized'' = Inr y"
    using fact_period [OF ready_facts(1) [OF c] sf(1)] fact_period [OF ready_facts(2) [OF c] sf(2)] 1 ready_facts(3) [OF c]
    by (metis cx_kind_def)
  obtain w where w: "reporting_window c = Inr w"
    using reporting_window_returns c unfolding ready_def by blast
  show ?case
    by (simp add: sf xy w sound_resolve)
qed

lemma ratio_is_decimal: "upto_newline ratio_shape s \<Longrightarrow> upto_newline decimal_shape s"
proof -
  have "decimal_shape t" if "ratio_shape t" for t
  proof -
    have "take 1 t \<noteq> [45]"
    proof
      assume "take 1 t = [45]"
      then obtain u where "t = 45 # u" by (cases t) auto
      with that show False by (simp add: ratio_shape_def all_digits_def py_isdigit_def)
    qed
    with that show ?thesis by (simp add: decimal_shape_def)
  qed
  then show "upto_newline ratio_shape s \<Longrightarrow> upto_newline decimal_shape s"
    by (auto simp: upto_newline_def)
qed

lemma c3_amounts_sound:
  assumes c: "ready c" and k: "is_text (cx_kind c) [''currency_amount'']"
    and n: "fld (cx_sustainability c) ''normalized'' \<noteq> JNull" "fld (cx_financial c) ''normalized'' \<noteq> JNull"
  shows "returns_sound c (c3_amounts c)"
proof -
  obtain s f where sf: "fld (cx_sustainability c) ''normalized'' = JStr s" "fld (cx_financial c) ''normalized'' = JStr f"
    using ready_normalized [OF c] n by metis
  have ds: "matches decimal_shape (JStr s)" "matches decimal_shape (JStr f)"
    using fact_amount [OF ready_facts(1) [OF c] sf(1)] fact_amount [OF ready_facts(2) [OF c] sf(2)] k ready_facts(3) [OF c]
    by (simp_all add: cx_kind_def)
  have t: "fld (cx_policy c) ''c3_threshold'' = JNull \<or> matches ratio_shape (fld (cx_policy c) ''c3_threshold'')"
    using policy_threshold c unfolding ready_def by blast
  show ?thesis
  proof (cases "fld (cx_policy c) ''c3_threshold''")
    case (JStr t')
    with t have "matches decimal_shape (JStr t')"
      by (simp add: matches_def ratio_is_decimal)
    with JStr ds sf show ?thesis
      by (simp add: c3_amounts_def parse_decimal_def sound_resolve)
  qed (use t ds sf in \<open>simp_all add: c3_amounts_def parse_decimal_def matches_def\<close>)
qed

lemma c3_sound:
  assumes c: "ready c"
  shows "returns_sound c (c3_evaluate c)"
proof -
  let ?c3 = "fld (cx_packet c) ''c3_context''"
  let ?extra = "option_list (opt_text (fld ?c3 ''commitment_source_id'')) @ option_list (opt_text (fld ?c3 ''funding_plan_source_id''))"
  have extra: "set ?extra \<subseteq> set (referenced_sources (cx_packet c))"
    by (auto simp: referenced_sources_def Let_def)
  have bind: "returns_sound c (bindE r (\<lambda>oc. Inr (with_sources oc ?extra)))" if "returns_sound c r" for r
    using that sound_with_sources [OF _ extra] by (auto simp: returns_sound_iff)
  show ?thesis
    unfolding c3_evaluate_def Let_def
    using c3_amounts_sound [OF c]
    by (auto intro!: bind item_opening_sound)
qed

lemma c4_collect_both:
  "c4_collect c4 [py ''definition'', py ''calculation_basis''] =
     (let d = texts_of (fld c4 ''definition_source_ids''); k = texts_of (fld c4 ''calculation_source_ids'')
      in Inr (d @ k, (if d = [] then [py ''definition_not_found''] else [])
                   @ (if k = [] then [py ''calculation_basis_not_found''] else [])))"
  by (simp add: SOURCES_BY_EXPLANATION_def REASON_BY_EXPLANATION_def Let_def)

lemma c4_required:
  assumes "validate_policy q = Inr u"
  shows "texts_of (fld q ''c4_required_explanations'') = [py ''definition'', py ''calculation_basis'']"
  by (simp only: policy_c4 [OF assms] texts_of_texts C4_REQUIRED_EXPLANATIONS_def)

lemma c4_sound:
  assumes c: "ready c"
  shows "returns_sound c (c4_evaluate c)"
proof -
  have "set (texts_of (fld (fld (cx_packet c) ''c4_context'') ''definition_source_ids'')
      @ texts_of (fld (fld (cx_packet c) ''c4_context'') ''calculation_source_ids'')) \<subseteq> set (referenced_sources (cx_packet c))"
    by (auto simp: referenced_sources_def Let_def)
  moreover have "texts_of (fld (cx_policy c) ''c4_required_explanations'') = [py ''definition'', py ''calculation_basis'']"
    using c4_required c unfolding ready_def by blast
  ultimately show ?thesis
    unfolding c4_evaluate_def by (intro item_opening_sound) (simp add: c4_collect_both Let_def del: c4_collect.simps)
qed

theorem decide_sound:
  assumes "validate_packet p = Inr u" "validate_policy q = Inr v"
  shows "returns_sound \<lparr>cx_packet = p, cx_policy = q\<rparr> (decide p q)"
proof (cases "policy_gate p q")
  case None
  let ?c = "\<lparr>cx_packet = p, cx_policy = q\<rparr>"
  have ev: "returns_sound ?c (c1_evaluate ?c)" "returns_sound ?c (c2_evaluate ?c)" "returns_sound ?c (c3_evaluate ?c)"
    "returns_sound ?c (c4_evaluate ?c)" if "fld (fld p ''sustainability'') ''kind'' = fld (fld p ''financial'') ''kind''"
    using that assms c1_sound c2_sound c3_sound c4_sound
    by (simp_all add: ready_def cx_kind_def cx_sustainability_def cx_financial_def)
  have "\<exists>i \<in> set ITEMS. fld p ''item'' = JStr (py i)"
    by (rule packet_item [OF assms(1)])
  with None ev show ?thesis
    by (auto simp: decide_def Let_def ITEM_EVALUATORS_def ITEMS_def)
next
  case (Some g)
  then show ?thesis
    by (auto simp: decide_def policy_gate_def split: if_splits)
qed

end
