(* ===== verification/Recon_Sample.thy ===== *)
theory Recon_Sample
  imports Stdlib_Props Hash_Props
begin

text \<open>
  A policy and a packet of the reconciliation contract, with what the guards and parsers compute on them. The properties of
  the engine are applied to them.
\<close>

section \<open>A sample\<close>

definition jo :: "(string \<times> json) list \<Rightarrow> json" where
  "jo kvs = JObj (map (\<lambda>kv. (py (fst kv), snd kv)) kvs)"

definition js :: "string \<Rightarrow> json" where
  "js s = JStr (py s)"

definition sample_policy :: "json \<Rightarrow> json \<Rightarrow> json" where
  "sample_policy digest differences = jo
     [(''schema_version'', js ''1.1''), (''version'', js ''p1''), (''approved'', JBool True), (''synthetic_only'', JBool False),
      (''current_stage'', JInt 1), (''enabled_items'', JList [js ''C1'', js ''C2'', js ''C3'', js ''C4'']),
      (''c1_identity_rule'', JStr C1_IDENTITY_RULE), (''c3_threshold'', JNull), (''c3_account_mapping_approved'', JBool True),
      (''approved_by'', js ''reviewer''), (''approved_on'', js ''2026-01-31''), (''source_policy_sha256'', digest),
      (''allowed_capex_account_ids'', JList [js ''a1'']), (''coverage_policy_id'', js ''cp''),
      (''allowed_difference_types'', differences), (''c2_timing_rule'', JStr C2_TIMING_RULE),
      (''c4_required_explanations'', JList (map JStr C4_REQUIRED_EXPLANATIONS))]"

definition sample_hash :: json where
  "sample_hash = JStr (replicate 64 48)"

text \<open>The texts \<^verbatim>\<open>["A","B"]\<close>, \<^verbatim>\<open>["B", "A"]\<close> and \<^verbatim>\<open>["A"]\<close>.\<close>

definition ids_ab :: pystr where
  "ids_ab = [91, 34, 65, 34, 44, 34, 66, 34, 93]"

definition ids_ba :: pystr where
  "ids_ba = [91, 34, 66, 34, 44, 32, 34, 65, 34, 93]"

definition ids_a :: pystr where
  "ids_a = [91, 34, 65, 34, 93]"

definition sample_side :: "pystr \<Rightarrow> string \<Rightarrow> json" where
  "sample_side normalized source = jo
     [(''raw'', js ''A, B''), (''normalized'', JStr normalized), (''kind'', js ''entity_set''), (''unit'', JNull),
      (''source_id'', js source)]"

definition sample_source :: "string \<Rightarrow> json" where
  "sample_source source = jo
     [(''source_id'', js source), (''document_id'', js ''d1''), (''artifact_sha256'', sample_hash), (''locator'', js ''p. 3''),
      (''quote'', js ''A and B'')]"

definition sample_identity :: json where
  "sample_identity = jo
     [(''tenant_id'', js ''t''), (''company_id'', js ''c''), (''claim_id'', js ''k''), (''package_id'', js ''p''),
      (''period_start'', js ''2025-01-01''), (''period_end'', js ''2025-12-31''), (''sustainability_document_version'', js ''v1''),
      (''financial_document_version'', js ''v2''), (''dart_corp_code'', js ''00126380''), (''financial_fiscal_year'', JInt 2025),
      (''consolidation'', js ''consolidated''), (''financial_period_start'', js ''2025-01-01''),
      (''financial_period_end'', js ''2025-12-31''), (''sr_published_at'', JNull), (''financial_published_at'', JNull),
      (''rcept_no'', JNull), (''as_of_date'', js ''2026-03-31'')]"

definition sample_packet :: "pystr \<Rightarrow> json" where
  "sample_packet financial = jo
     [(''schema_version'', js ''1.1''), (''synthetic'', JBool False), (''identity'', sample_identity), (''item'', js ''C1''),
      (''sources'', JList [sample_source ''s1'', sample_source ''s2'']), (''sustainability'', sample_side ids_ab ''s1''),
      (''financial'', sample_side financial ''s2''), (''comparability'', js ''comparable''),
      (''explanation'', jo [(''source_id'', JNull), (''search_complete'', JBool True)]), (''c3_context'', JNull),
      (''claim'', jo [(''track'', js ''goal''), (''quote'', js ''A and B''), (''source_id'', js ''s1''),
         (''trigger_elements'', JList []), (''fiscal_year'', JInt 2025)]),
      (''search'', jo [(''state'', js ''complete''), (''coverage_policy_id'', js ''cp''),
         (''required_document_ids'', JList [js ''d1'']), (''reviewed_source_ids'', JList [js ''s2'']),
         (''failed_document_ids'', JList []), (''receipt_id'', js ''r1'')]),
      (''c4_context'', JNull)]"

definition default_policy :: json where
  "default_policy = sample_policy sample_hash (JList [])"


lemma fld_jo: "fld (jo kvs) k = (case map_of kvs k of Some v \<Rightarrow> v | None \<Rightarrow> JNull)"
proof -
  have "map_of (map (\<lambda>kv. (py (fst kv), snd kv)) kvs) (py k) = map_of kvs k"
    by (induction kvs) auto
  then show ?thesis by (simp add: jo_def fld_def)
qed

lemma require_mapping_jo [simp]: "require_mapping (jo kvs) n = Inr ()"
  by (simp add: require_mapping_def jo_def)

lemma keys_of_jo: "keys_of (jo kvs) = py ` set (map fst kvs)"
  by (simp add: jo_def keys_of_def image_image)

lemma json_dicts_jo: "json_dicts (jo kvs) \<longleftrightarrow> distinct (map fst kvs) \<and> (\<forall>kv \<in> set kvs. json_dicts (snd kv))"
  by (auto simp: jo_def distinct_map comp_def inj_on_def)

lemma sample_dicts: "json_dicts default_policy" "json_dicts (sample_packet f)"
  by (simp_all add: default_policy_def sample_policy_def sample_packet_def sample_identity_def sample_side_def sample_source_def
      sample_hash_def js_def json_dicts_jo)

lemma sample_packet_fields:
  "fld (sample_packet f) ''schema_version'' = JStr (py ''1.1'')" "fld (sample_packet f) ''synthetic'' = JBool False"
  "fld (sample_packet f) ''identity'' = sample_identity" "fld (sample_packet f) ''item'' = JStr (py ''C1'')"
  "fld (sample_packet f) ''sources'' = JList [sample_source ''s1'', sample_source ''s2'']"
  "fld (sample_packet f) ''sustainability'' = sample_side ids_ab ''s1''"
  "fld (sample_packet f) ''financial'' = sample_side f ''s2''" "fld (sample_packet f) ''comparability'' = JStr (py ''comparable'')"
  "fld (sample_packet f) ''c3_context'' = JNull" "fld (sample_packet f) ''c4_context'' = JNull"
  by (simp_all add: sample_packet_def fld_jo js_def)

lemma py_digits: "py ''2025-01-01'' = [50, 48, 50, 53] @ 45 # [48, 49] @ 45 # [48, 49]"
  "py ''2025-12-31'' = [50, 48, 50, 53] @ 45 # [49, 50] @ 45 # [51, 49]"
  "py ''2026-01-31'' = [50, 48, 50, 54] @ 45 # [48, 49] @ 45 # [51, 49]"
  "py ''2026-03-31'' = [50, 48, 50, 54] @ 45 # [48, 51] @ 45 # [51, 49]"
  by (simp_all add: py_def)

lemma sample_dates:
  "parse_date (JStr (py ''2025-01-01'')) n = Inr 739252" "parse_date (JStr (py ''2025-12-31'')) n = Inr 739616"
  "parse_date (JStr (py ''2026-01-31'')) n = Inr 739647" "parse_date (JStr (py ''2026-03-31'')) n = Inr 739706"
  unfolding py_digits parse_date_iff
  by (rule exI, rule exI, rule exI, rule conjI [OF refl],
      simp add: ymd_text_def py_isdigit_def new_date_def ymd_to_ord_def days_before_year_def days_before_month_def
        days_in_month_def is_leap_def)+

lemma sample_corp: "matches corp_shape (JStr (py ''00126380''))"
  by (simp add: matches_def upto_newline_def corp_shape_def py_def py_isdigit_def)

lemma sample_hash_ok: "matches hex64_shape sample_hash"
  by (simp add: sample_hash_def matches_def upto_newline_def hex64_shape_def lower_hex_def list_all_iff)

lemmas guard_defs = require_exact_keys_def require_text_def require_optional_text_def require_bool_def require_int_def
  require_enum_def require_unique_text_list_def require_ordered_period_def require_optional_date_def
  is_text_def is_nonempty_text_def py_duplicates_def texts_of_def

lemma sample_policy_validates:
  assumes "matches hex64_shape digest"
  shows "validate_policy (sample_policy digest (JList [])) = Inr ()"
  by (simp add: validate_policy_def guard_defs sample_policy_def keys_of_jo fld_jo js_def assms sample_dates POLICY_KEYS_def
      SCHEMA_VERSION_def ITEMS_def)

lemma sample_policy_ok: "validate_policy default_policy = Inr ()"
  using sample_policy_validates [OF sample_hash_ok] by (simp add: default_policy_def)

lemma sample_identity_ok: "validate_identity sample_identity = Inr ()"
  by (simp add: validate_identity_def guard_defs sample_identity_def keys_of_jo fld_jo js_def sample_corp sample_dates
      IDENTITY_KEYS_def CONSOLIDATION_def)

lemma scan_plain: "scan_string (c # 34 # r) = Some ([c], r)" if "32 \<le> c" "c \<noteq> 34" "c \<noteq> 92"
  using that by (simp add: scan_string.simps(2) cons_fst_def)

lemma sample_arrays:
  "json_text_array ids_ab = Some [[65], [66]]" "json_text_array ids_ba = Some [[66], [65]]" "json_text_array ids_a = Some [[65]]"
  by (simp_all add: json_text_array_def ids_ab_def ids_ba_def ids_a_def skip_ws_def scan_items.simps [of "34 # _"] scan_plain
      cons_fst_def)

lemma sample_sets:
  "parse_entity_set ids_ab n = Inr {[65], [66]}" "parse_entity_set ids_ba n = Inr {[65], [66]}"
  "parse_entity_set ids_a n = Inr {[65]}"
  by (auto simp: parse_entity_set_def sample_arrays py_duplicates_def)

lemma sample_side_ok:
  assumes "parse_entity_set f (n @ ''.normalized'') = Inr x" "f \<noteq> []" "s \<noteq> []"
  shows "validate_recon_fact (sample_side f s) n = Inr ()"
  using assms
  by (simp add: validate_recon_fact_def validate_normalized_def guard_defs sample_side_def keys_of_jo fld_jo js_def FACT_KEYS_def
      KINDS_def SET_KINDS_def)

lemma sample_packet_ok:
  assumes "f \<in> {ids_ab, ids_ba, ids_a}"
  shows "validate_packet (sample_packet f) = Inr ()"
proof -
  have f: "validate_recon_fact (sample_side f ''s2'') ''financial'' = Inr ()"
    "validate_recon_fact (sample_side ids_ab ''s1'') ''sustainability'' = Inr ()"
    using assms sample_side_ok [OF sample_sets(1)] sample_side_ok [OF sample_sets(2)] sample_side_ok [OF sample_sets(3)]
    by (auto simp: ids_ab_def ids_ba_def ids_a_def)
  have k: "keys_of (sample_packet f) = py ` set PACKET_KEYS"
    by (simp add: sample_packet_def keys_of_jo PACKET_KEYS_def)
  have s: "validate_sources (JList [sample_source ''s1'', sample_source ''s2'']) = Inr [py ''s1'', py ''s2'']"
    by (simp add: validate_sources_def validate_source_def guard_defs sample_source_def keys_of_jo fld_jo js_def SOURCE_KEYS_def
        sample_hash_ok)
  have e: "validate_explanation (fld (sample_packet f) ''explanation'') = Inr ()"
    "validate_claim (fld (sample_packet f) ''claim'') = Inr ()" "validate_search (fld (sample_packet f) ''search'') = Inr ()"
    "require_mapping (fld (sample_packet f) ''search'') n = Inr ()" for n
    by (simp_all add: validate_explanation_def validate_claim_def validate_search_def guard_defs sample_packet_def keys_of_jo fld_jo
        js_def CLAIM_KEYS_def RECON_TRACKS_def SEARCH_KEYS_def SEARCH_STATES_def opt_truthy_def)
  have m: "require_mapping sample_identity n = Inr ()" "require_mapping (sample_side a b) n = Inr ()" for n a b
    by (simp_all add: sample_identity_def sample_side_def)
  have r: "fld (fld (sample_packet f) ''explanation'') ''search_complete'' =
      JBool (fld (fld (sample_packet f) ''search'') ''state'' = JStr (py ''complete''))"
    "referenced_sources (sample_packet f) = [py ''s1'', py ''s1'', py ''s2'', py ''s2'']"
    by (simp_all add: sample_packet_def fld_jo js_def referenced_sources_def option_list_def sample_side_def texts_of_def)
  show ?thesis
    unfolding validate_packet_def
    by (simp add: sample_packet_fields SCHEMA_VERSION_def sample_identity_ok f s e m k r require_exact_keys_def require_bool_def
        require_enum_def is_text_def ITEMS_def COMPARABILITY_def validate_context_def)
qed

lemma sample_set_decision:
  assumes "parse_entity_set f ''financial.normalized'' = Inr x" "x \<noteq> {}"
  shows "decide (sample_packet f) default_policy = Inr
    (if {[65], [66]} = x then completed ''matched'' [py ''same_verified_entity_set''] [] None
     else completed ''needs_explanation'' [py ''explanation_not_found''] [] None)"
proof -
  let ?c = "\<lparr>cx_packet = sample_packet f, cx_policy = default_policy\<rparr>"
  have gate: "policy_gate (sample_packet f) default_policy = None"
    by (simp add: policy_gate_def default_policy_def sample_policy_def sample_packet_fields fld_jo js_def texts_of_def)
  have resolve: "resolve_difference ?c r = completed ''needs_explanation'' [py ''explanation_not_found''] [] None" for r
    by (simp add: resolve_difference_def cx_explanation_source_id_def cx_search_complete_def sample_packet_def fld_jo js_def)
  have "c1_evaluate ?c = Inr
    (if {[65], [66]} = x then completed ''matched'' [py ''same_verified_entity_set''] [] None
     else completed ''needs_explanation'' [py ''explanation_not_found''] [] None)"
    using assms sample_sets(1)
    by (simp add: c1_evaluate_def item_opening_def require_kind_def unresolved_values_def cx_kind_def cx_sustainability_def
        cx_financial_def sample_packet_fields sample_side_def sample_identity_def fld_jo js_def is_text_def SET_KINDS_def resolve)
  then show ?thesis
    by (simp add: decide_def gate sample_packet_fields sample_side_def fld_jo js_def ITEM_EVALUATORS_def)
qed

end
