(* ===== verification/Recon_Props.thy ===== *)
theory Recon_Props
  imports Recon_Sample
begin

text \<open>
  Properties of the reconciliation engine.
\<close>

section \<open>Validation and totality\<close>

lemma recon_evaluate_Inr:
  "recon_evaluate P packet policy = Inr out \<longleftrightarrow>
     (\<exists>a b oc. packet = JObj a \<and> policy = JObj b \<and> fld packet ''item'' \<noteq> JStr (py ''C5'')
        \<and> validate_policy policy = Inr () \<and> validate_packet packet = Inr ()
        \<and> decide packet policy = Inr oc \<and> recon_project P packet policy oc = Inr out)"
  by (cases packet; cases policy) (auto simp: recon_evaluate_def bindE_Inr_iff)

lemma keyed_object: "keys_of v = py ` set (k # ks) \<Longrightarrow> \<exists>kvs. v = JObj kvs"
  by (cases v) (auto simp: keys_of_def)

lemma validated_objects:
  "validate_packet p = Inr u \<Longrightarrow> \<exists>kvs. p = JObj kvs" "validate_policy q = Inr v \<Longrightarrow> \<exists>kvs. q = JObj kvs"
  using keyed_object [OF validate_packet_keys [unfolded PACKET_KEYS_def]]
    keyed_object [OF validate_policy_keys [unfolded POLICY_KEYS_def]] by blast+

lemma decided:
  assumes "validate_packet p = Inr u" "validate_policy q = Inr v"
  obtains oc where "decide p q = Inr oc" "sound \<lparr>cx_packet = p, cx_policy = q\<rparr> oc"
  using decide_sound [OF assms] by (auto simp: returns_sound_iff)

lemma recon_project_Inr:
  assumes "recon_project P p q oc = Inr out"
  shows "fld out ''status'' = opt_str (oc_status oc)"
    "fld out ''execution_state'' = JStr (oc_execution_state oc)"
    "fld out ''review_required'' = JBool (oc_execution_state oc \<noteq> py ''completed'')"
    "fld out ''source_ids'' = JList (map JStr (recon_source_ids p oc))"
    "fld out ''explanation_source_id'' = opt_str (oc_explanation_source_id oc)"
    "fld out ''reason_codes'' = JList (map JStr (oc_reason_codes oc))"
  using assms by (auto simp: recon_project_def bindE_Inr_iff fld_def)

lemma evaluate_returns:
  assumes "json_dicts packet" "json_dicts policy" "validate_policy policy = Inr ()" "validate_packet packet = Inr ()"
  shows "okE (recon_evaluate P packet policy)"
proof -
  obtain a b where ab: "packet = JObj a" "policy = JObj b"
    using assms validated_objects by blast
  obtain oc where oc: "decide packet policy = Inr oc"
    using decided [OF assms(4,3)] by blast
  have "\<exists>out. recon_project P packet policy oc = Inr out"
    using packet_finite [OF assms(1,4) ab(1)] policy_finite [OF assms(2,3) ab(2)]
    by (simp add: recon_project_def canonical_sha256_def)
  moreover have "fld packet ''item'' \<noteq> JStr (py ''C5'')"
    using packet_item [OF assms(4)] by (auto simp: ITEMS_def)
  ultimately show ?thesis
    using assms(3,4) ab oc unfolding okE_iff recon_evaluate_Inr by blast
qed

text \<open>
  C25. Reconciliation raises for malformed input only: on packet and policy dictionaries, \<^verbatim>\<open>evaluate\<close> returns exactly when
  both validations pass. Unresolved policy, source, period or search state never raises.
\<close>

theorem reconciliation_raises_on_malformed_only:
  assumes "json_dicts packet" "json_dicts policy"
  shows "okE (recon_evaluate P packet policy) \<longleftrightarrow> okE (validate_policy policy) \<and> okE (validate_packet packet)"
  using evaluate_returns [OF assms] by (auto simp: okE_iff recon_evaluate_Inr)

theorem reconciliation_raises_on_malformed_only_witness:
  "okE (recon_evaluate exact_platform (sample_packet ids_ba) default_policy)"
  using reconciliation_raises_on_malformed_only [of "sample_packet ids_ba" default_policy exact_platform] sample_dicts
    sample_policy_ok sample_packet_ok [of ids_ba] by simp

section \<open>Guarded output\<close>

lemma recon_evaluateD:
  assumes "recon_evaluate P packet policy = Inr out"
  obtains oc where "validate_packet packet = Inr ()" "validate_policy policy = Inr ()" "decide packet policy = Inr oc"
    "sound \<lparr>cx_packet = packet, cx_policy = policy\<rparr> oc" "recon_project P packet policy oc = Inr out"
proof -
  from assms obtain oc where "validate_packet packet = Inr ()" "validate_policy policy = Inr ()"
    "decide packet policy = Inr oc" "recon_project P packet policy oc = Inr out"
    unfolding recon_evaluate_Inr by blast
  with decided [of packet "()" policy "()"] that show ?thesis by force
qed

lemma gate_status: "policy_gate p q = Some oc \<Longrightarrow> oc_status oc = None"
  by (auto simp: policy_gate_def blocked_def split: if_splits)

lemma gate_open:
  assumes "policy_gate p q = None"
  shows "fld q ''approved'' = JBool True" "fld q ''current_stage'' = JInt 1"
    "fld q ''synthetic_only'' = JBool True \<longrightarrow> fld p ''synthetic'' = JBool True"
    "text_of (fld p ''item'') \<in> set (texts_of (fld q ''enabled_items''))"
  using assms by (auto simp: policy_gate_def split: if_splits)

text \<open>
  C28. A reconciliation status is published only under an approved stage-1 policy that enables the item (and never a synthetic-only
  policy for a real packet), for a pair whose comparability is known. Everything else is blocked, without a status and
  marked for review.
\<close>

theorem status_needs_approved_policy:
  assumes "recon_evaluate P packet policy = Inr out"
  shows "fld out ''review_required'' = JBool (fld out ''status'' = JNull)
    \<and> (fld out ''status'' \<noteq> JNull \<longrightarrow>
        fld policy ''approved'' = JBool True \<and> fld policy ''current_stage'' = JInt 1
        \<and> (fld policy ''synthetic_only'' = JBool True \<longrightarrow> fld packet ''synthetic'' = JBool True)
        \<and> text_of (fld packet ''item'') \<in> set (texts_of (fld policy ''enabled_items''))
        \<and> fld packet ''comparability'' \<noteq> JStr (py ''unknown'')
        \<and> is_text (fld out ''status'') [''matched'', ''needs_explanation'', ''not_applicable''])"
proof (intro conjI impI)
  obtain oc where oc: "decide packet policy = Inr oc" "sound \<lparr>cx_packet = packet, cx_policy = policy\<rparr> oc"
    "recon_project P packet policy oc = Inr out"
    using recon_evaluateD [OF assms] by metis
  note out = recon_project_Inr [OF oc(3)]
  show "fld out ''review_required'' = JBool (fld out ''status'' = JNull)"
    using oc(2) out by (auto simp: sound_def opt_str_def split: if_splits)
  assume "fld out ''status'' \<noteq> JNull"
  then have some: "oc_status oc \<noteq> None"
    using out(1) by (auto simp: opt_str_def split: option.splits)
  with oc(1) gate_status have open_gate: "policy_gate packet policy = None"
    by (cases "policy_gate packet policy") (auto simp: decide_def)
  show "fld packet ''comparability'' \<noteq> JStr (py ''unknown'')"
    using oc(1) open_gate some by (auto simp: decide_def blocked_def Let_def)
  show "is_text (fld out ''status'') [''matched'', ''needs_explanation'', ''not_applicable'']"
    using oc(2) out(1) some by (auto simp: sound_def opt_str_def is_text_def split: if_splits)
  show "fld policy ''approved'' = JBool True" "fld policy ''current_stage'' = JInt 1"
    "text_of (fld packet ''item'') \<in> set (texts_of (fld policy ''enabled_items''))"
    using gate_open [OF open_gate] by blast+
  show "fld packet ''synthetic'' = JBool True" if "fld policy ''synthetic_only'' = JBool True"
    using gate_open(3) [OF open_gate] that by blast
qed

lemma sample_output:
  assumes "f \<in> {ids_ba, ids_a}"
  obtains out where "recon_evaluate P (sample_packet f) default_policy = Inr out"
    "fld out ''status'' = JStr (if f = ids_ba then py ''matched'' else py ''needs_explanation'')"
proof -
  have ok: "okE (recon_evaluate P (sample_packet f) default_policy)"
    using evaluate_returns [of "sample_packet f" default_policy P] sample_dicts sample_policy_ok sample_packet_ok [of f] assms
    by auto
  have ids: "ids_ba \<noteq> ids_a" by (simp add: ids_a_def ids_ba_def)
  from ok obtain out where out: "recon_evaluate P (sample_packet f) default_policy = Inr out"
    by (auto simp: okE_iff)
  then obtain oc where oc: "decide (sample_packet f) default_policy = Inr oc"
    "recon_project P (sample_packet f) default_policy oc = Inr out"
    using recon_evaluateD by metis
  have "oc_status oc = Some (if f = ids_ba then py ''matched'' else py ''needs_explanation'')"
    using assms oc(1) sample_set_decision [OF sample_sets(2)] sample_set_decision [OF sample_sets(3)] ids
    by (auto simp: completed_def doubleton_eq_iff)
  then have "fld out ''status'' = JStr (if f = ids_ba then py ''matched'' else py ''needs_explanation'')"
    using recon_project_Inr(1) [OF oc(2)] by (simp add: opt_str_def)
  with out that show ?thesis by blast
qed

theorem status_needs_approved_policy_witness:
  "\<exists>out. recon_evaluate exact_platform (sample_packet ids_ba) default_policy = Inr out
     \<and> fld out ''status'' = JStr (py ''matched'') \<and> fld out ''review_required'' = JBool False
     \<and> text_of (fld (sample_packet ids_ba) ''item'') \<in> set (texts_of (fld default_policy ''enabled_items''))"
proof -
  obtain out where out: "recon_evaluate exact_platform (sample_packet ids_ba) default_policy = Inr out"
    "fld out ''status'' = JStr (py ''matched'')"
    using sample_output [of ids_ba] by auto
  with status_needs_approved_policy [OF out(1)] show ?thesis by auto
qed

text \<open>
  A missing explanation is asserted only after a complete search: an output with status \<^verbatim>\<open>needs_explanation\<close> comes from a
  packet whose search is complete, with a receipt, a coverage policy, the documents it had to read and no failed document.
\<close>

theorem missing_explanation_needs_search:
  assumes "recon_evaluate P packet policy = Inr out" "fld out ''status'' = JStr (py ''needs_explanation'')"
  shows "fld (fld packet ''search'') ''state'' = JStr (py ''complete'')
    \<and> texts_of (fld (fld packet ''search'') ''failed_document_ids'') = []
    \<and> texts_of (fld (fld packet ''search'') ''required_document_ids'') \<noteq> []
    \<and> opt_truthy (opt_text (fld (fld packet ''search'') ''receipt_id''))
    \<and> opt_truthy (opt_text (fld (fld packet ''search'') ''coverage_policy_id''))"
proof -
  obtain oc where oc: "validate_packet packet = Inr ()" "sound \<lparr>cx_packet = packet, cx_policy = policy\<rparr> oc"
    "recon_project P packet policy oc = Inr out"
    using recon_evaluateD [OF assms(1)] by metis
  have "oc_status oc = Some (py ''needs_explanation'')"
    using recon_project_Inr(1) [OF oc(3)] assms(2) by (cases "oc_status oc") (auto simp: opt_str_def)
  with oc(2) have "fld (fld packet ''search'') ''state'' = JStr (py ''complete'')"
    by (simp add: sound_def cx_search_complete_def)
  with packet_search(1) [OF oc(1)] show ?thesis
    by (simp add: validate_search_def bindE_unit split: if_splits)
qed

theorem missing_explanation_needs_search_witness:
  "\<exists>out. recon_evaluate exact_platform (sample_packet ids_a) default_policy = Inr out
     \<and> opt_truthy (opt_text (fld (fld (sample_packet ids_a) ''search'') ''receipt_id''))"
proof -
  have "ids_a \<noteq> ids_ba" by (simp add: ids_a_def ids_ba_def)
  then obtain out where out: "recon_evaluate exact_platform (sample_packet ids_a) default_policy = Inr out"
    "fld out ''status'' = JStr (py ''needs_explanation'')"
    using sample_output [of ids_a] by auto
  with missing_explanation_needs_search [OF out] show ?thesis by blast
qed

text \<open>
  Every source an output cites is a source of the packet, and none is cited twice.
\<close>

theorem cited_sources_are_known:
  assumes "recon_evaluate P packet policy = Inr out"
  shows "\<exists>ids cited. validate_sources (fld packet ''sources'') = Inr ids \<and> fld out ''source_ids'' = JList (map JStr cited)
    \<and> distinct cited \<and> set cited \<subseteq> set ids"
proof -
  obtain oc where oc: "validate_packet packet = Inr ()" "sound \<lparr>cx_packet = packet, cx_policy = policy\<rparr> oc"
    "recon_project P packet policy oc = Inr out"
    using recon_evaluateD [OF assms(1)] by metis
  obtain ids where ids: "validate_sources (fld packet ''sources'') = Inr ids" "set (referenced_sources packet) \<subseteq> set ids"
    using packet_sources [OF oc(1)] by blast
  have "set (recon_source_ids packet oc) \<subseteq> set (referenced_sources packet)"
    using oc(2) by (auto simp: recon_source_ids_def sound_def referenced_sources_def Let_def)
  moreover have "distinct (recon_source_ids packet oc)"
    by (simp add: recon_source_ids_def)
  ultimately show ?thesis
    using ids recon_project_Inr(4) [OF oc(3)] by blast
qed

theorem cited_sources_are_known_witness:
  "\<exists>out cited. recon_evaluate exact_platform (sample_packet ids_a) default_policy = Inr out
     \<and> fld out ''source_ids'' = JList (map JStr cited) \<and> distinct cited"
proof -
  obtain out where "recon_evaluate exact_platform (sample_packet ids_a) default_policy = Inr out"
    using sample_output [of ids_a] by auto
  with cited_sources_are_known [OF this] show ?thesis by blast
qed

section \<open>Comparison rules\<close>

text \<open>
  \<^verbatim>\<open>policy.allowed_difference_types\<close> is never an automatic pass list: two policies that agree on every other key give the same
  decision on every packet.
\<close>

theorem difference_types_are_not_read:
  assumes "\<forall>k \<in> set POLICY_KEYS. k \<noteq> ''allowed_difference_types'' \<longrightarrow> fld q k = fld q' k"
  shows "decide p q = decide p q'"
proof -
  have q: "fld q ''approved'' = fld q' ''approved''" "fld q ''current_stage'' = fld q' ''current_stage''"
    "fld q ''synthetic_only'' = fld q' ''synthetic_only''" "fld q ''enabled_items'' = fld q' ''enabled_items''"
    "fld q ''allowed_capex_account_ids'' = fld q' ''allowed_capex_account_ids''"
    "fld q ''c3_account_mapping_approved'' = fld q' ''c3_account_mapping_approved''"
    "fld q ''c3_threshold'' = fld q' ''c3_threshold''"
    "fld q ''c4_required_explanations'' = fld q' ''c4_required_explanations''"
    using assms by (simp_all add: POLICY_KEYS_def)
  let ?c = "\<lambda>q. \<lparr>cx_packet = p, cx_policy = q\<rparr>"
  note shared = cx_kind_def cx_sustainability_def cx_financial_def cx_explanation_source_id_def cx_search_complete_def
    item_opening_def require_kind_def unresolved_values_def resolve_difference_def recon_context.select_convs
  have "c1_evaluate (?c q) = c1_evaluate (?c q')"
    unfolding c1_evaluate_def shared ..
  moreover have "c2_evaluate (?c q) = c2_evaluate (?c q')"
    unfolding c2_evaluate_def reporting_window_def shared ..
  moreover have "c3_evaluate (?c q) = c3_evaluate (?c q')"
    unfolding c3_evaluate_def c3_amounts_def account_mapping_resolved_def shared q ..
  moreover have "c4_evaluate (?c q) = c4_evaluate (?c q')"
    unfolding c4_evaluate_def shared q ..
  ultimately show ?thesis
    by (simp add: decide_def policy_gate_def q ITEM_EVALUATORS_def Let_def)
qed

theorem difference_types_are_not_read_witness:
  "decide (sample_packet ids_a) default_policy =
     decide (sample_packet ids_a) (sample_policy sample_hash (JList [js ''equity_method_excluded'']))"
  by (rule difference_types_are_not_read) (simp add: POLICY_KEYS_def default_policy_def sample_policy_def fld_jo)

text \<open>
  The C3 threshold test is exact: the product \<^verbatim>\<open>threshold * capex\<close> is computed in a decimal context wide enough that no digit is
  rounded, so the test is \<open>commitment \<le> threshold \<sqdot> capex\<close> on the rational values.
\<close>

theorem threshold_test_is_exact:
  "within_threshold commitment threshold capex \<longleftrightarrow> dec_value commitment \<le> dec_value threshold * dec_value capex"
  by (rule within_threshold_iff)

text \<open>
  Identifier sets survive their text form: the canonical JSON text of a duplicate-free array of non-empty identifiers parses
  to the set of these identifiers.
\<close>

theorem entity_set_reads_back:
  assumes "distinct ids" "[] \<notin> set ids" "\<forall>x \<in> set ids. \<forall>c \<in> set x. scalar c"
  shows "parse_entity_set (json_print fr (JList (map JStr ids))) name = Inr (set ids)"
  using json_text_array_print [OF assms(3)] assms(1,2) by (simp add: parse_entity_set_def py_duplicates_iff)

theorem entity_set_reads_back_witness:
  "parse_entity_set (json_print (\<lambda>_. []) (JList (map JStr [[65], [44032, 128512]]))) ''n'' = Inr {[65], [44032, 128512]}"
  using entity_set_reads_back [of "[[65], [44032, 128512]]" "\<lambda>_. []" "''n''"] by (simp add: scalar_def)

text \<open>
  A digest is not confined to 64 characters: \<^verbatim>\<open>re.match\<close> with \<^verbatim>\<open>$\<close> accepts a trailing newline, so a policy whose
  \<^verbatim>\<open>source_policy_sha256\<close> has 65 characters passes the validation that asks for 64 hexadecimal ones.
\<close>

theorem newline_digest_is_accepted:
  "\<exists>policy digest. validate_policy policy = Inr () \<and> fld policy ''source_policy_sha256'' = JStr digest \<and> length digest = 65"
proof -
  let ?digest = "replicate 64 48 @ [10]"
  have "matches hex64_shape (JStr ?digest)"
    by (simp add: matches_def upto_newline_def hex64_shape_def lower_hex_def list_all_iff)
  then have "validate_policy (sample_policy (JStr ?digest) (JList [])) = Inr ()"
    by (rule sample_policy_validates) 
  moreover have "fld (sample_policy (JStr ?digest) (JList [])) ''source_policy_sha256'' = JStr ?digest"
    by (simp add: sample_policy_def fld_jo)
  moreover have "length ?digest = 65" by simp
  ultimately show ?thesis by blast
qed

end
