(* ===== verification/Regulatory.thy ===== *)
theory Regulatory
  imports Stdlib Facts "HOL-Library.Multiset"
begin

text \<open>
  Models of the two applicability resolvers.

  \<^item> \<^verbatim>\<open>domain/applicability.py\<close>: industry topic applicability from a caller supplied, versioned mapping.
  \<^item> \<^verbatim>\<open>domain/regulatory.py\<close>: the deferral status of a company at a cutoff date from the approved timeline of a rule pack.

  Both fail closed: what is not covered by a verified mapping, or not matched by exactly one approved timeline entry, is
  \<^verbatim>\<open>undetermined\<close>. Dates are ordinals (\<open>date_fromisoformat\<close>); whether \<^verbatim>\<open>datetime.fromisoformat\<close> reads a text as a UTC time is the argument
  \<open>iso_utc\<close>. Checks of Python types that the model's types already enforce are not repeated.
\<close>

section \<open>Industry applicability\<close>

definition non_empty :: "string \<Rightarrow> pystr \<Rightarrow> unit result" where
  "non_empty name v = (if py_strip v = [] then Inl (DomainValidationError (name @ '' must be a non-empty string'')) else Inr ())"

record industry_identity =
  ii_system :: pystr
  ii_code :: "pystr option"

definition mk_industry_identity :: "industry_identity \<Rightarrow> industry_identity result" where
  "mk_industry_identity i =
     bindE (non_empty ''industry system'' (ii_system i)) (\<lambda>_.
     bindE (case ii_code i of None \<Rightarrow> Inr () | Some c \<Rightarrow> non_empty ''industry code'' c) (\<lambda>_. Inr i))"

record mapping_entry =
  me_industry_system :: pystr
  me_industry_code :: pystr
  me_topic_id :: pystr
  me_applicability :: pystr
  me_mandatory :: "bool option"

definition mk_mapping_entry :: "mapping_entry \<Rightarrow> mapping_entry result" where
  "mk_mapping_entry e =
     bindE (non_empty ''industry system'' (me_industry_system e)) (\<lambda>_.
     bindE (non_empty ''industry code'' (me_industry_code e)) (\<lambda>_.
     bindE (non_empty ''topic_id'' (me_topic_id e)) (\<lambda>_.
       if me_applicability e \<noteq> py ''applicable'' \<and> me_applicability e \<noteq> py ''N_A''
         then Inl (DomainValidationError ''mapping applicability must be applicable or N_A'')
       else if me_applicability e = py ''applicable'' \<and> me_mandatory e = None
         then Inl (DomainValidationError ''applicable mapping entries require mandatory=True or False'')
       else if me_applicability e = py ''N_A'' \<and> me_mandatory e \<noteq> None
         then Inl (DomainValidationError ''N_A mapping entries must not set mandatory'')
       else Inr e)))"

record industry_mapping =
  im_version :: pystr
  im_verification_status :: pystr
  im_entries :: "mapping_entry list"

definition entry_key :: "mapping_entry \<Rightarrow> pystr \<times> pystr \<times> pystr" where
  "entry_key e = (me_industry_system e, me_industry_code e, me_topic_id e)"

definition mk_industry_mapping :: "industry_mapping \<Rightarrow> industry_mapping result" where
  "mk_industry_mapping m =
     bindE (non_empty ''mapping version'' (im_version m)) (\<lambda>_.
       if im_verification_status m \<noteq> py ''verified'' \<and> im_verification_status m \<noteq> py ''unverified''
         then Inl (DomainValidationError ''unknown mapping verification_status'')
       else if py_duplicates (map entry_key (im_entries m))
         then Inl (DomainValidationError ''mapping cannot contain duplicate industry/topic entries'')
       else Inr m)"

record industry_applicability =
  ia_applicability :: pystr
  ia_mandatory :: "bool option"
  ia_mapping_version :: "pystr option"

definition mk_industry_applicability :: "pystr \<Rightarrow> bool option \<Rightarrow> pystr option \<Rightarrow> industry_applicability result" where
  "mk_industry_applicability a m v =
     (if a \<noteq> py ''applicable'' \<and> a \<noteq> py ''N_A'' \<and> a \<noteq> py ''undetermined''
        then Inl (DomainValidationError ''unknown applicability'')
      else if a = py ''applicable'' \<and> m = None
        then Inl (DomainValidationError ''applicable result requires mandatory=True or False'')
      else if a \<noteq> py ''applicable'' \<and> m \<noteq> None
        then Inl (DomainValidationError ''only applicable results may set mandatory'')
      else bindE (case v of None \<Rightarrow> Inr () | Some x \<Rightarrow> non_empty ''mapping version'' x) (\<lambda>_.
        Inr \<lparr>ia_applicability = a, ia_mandatory = m, ia_mapping_version = v\<rparr>))"

definition resolve_industry_applicability ::
  "industry_identity \<Rightarrow> pystr \<Rightarrow> industry_mapping option \<Rightarrow> industry_applicability result" where
  "resolve_industry_applicability industry topic_id mapping =
     bindE (non_empty ''topic_id'' topic_id) (\<lambda>_.
       case mapping of None \<Rightarrow> mk_industry_applicability (py ''undetermined'') None None
       | Some m \<Rightarrow>
         (case ii_code industry of None \<Rightarrow> mk_industry_applicability (py ''undetermined'') None (Some (im_version m))
          | Some code \<Rightarrow>
            if py_lower (ii_system industry) = py ''unknown'' \<or> im_verification_status m \<noteq> py ''verified''
            then mk_industry_applicability (py ''undetermined'') None (Some (im_version m))
            else (case find (\<lambda>e. entry_key e = (ii_system industry, code, topic_id)) (im_entries m) of
                Some e \<Rightarrow> mk_industry_applicability (me_applicability e) (me_mandatory e) (Some (im_version m))
              | None \<Rightarrow> mk_industry_applicability (py ''undetermined'') None (Some (im_version m)))))"

section \<open>Regulatory deferral\<close>

datatype deferral_status = Required | Advisory | Undetermined

definition condition_ids :: "json list \<Rightarrow> pystr set result" where
  "condition_ids vs =
     (if list_all (\<lambda>v. case v of JStr s \<Rightarrow> s \<noteq> [] | _ \<Rightarrow> False) vs
      then Inr (set (concat (map (\<lambda>v. case v of JStr s \<Rightarrow> [s] | _ \<Rightarrow> []) vs)))
      else Inl (DomainValidationError ''condition_ids must contain only non-empty strings''))"

definition is_utc_timestamp :: "(pystr \<Rightarrow> bool) \<Rightarrow> pystr option \<Rightarrow> bool" where
  "is_utc_timestamp iso_utc v = (case v of None \<Rightarrow> False
     | Some s \<Rightarrow> py_endswith s (py ''Z'') \<and> iso_utc (butlast s @ py ''+00:00''))"

record company_context =
  cc_tenant_id :: pystr
  cc_company_id :: pystr
  cc_as_of :: pydate
  cc_condition_ids :: "pystr set"

definition mk_company_context :: "json \<Rightarrow> json \<Rightarrow> pydate \<Rightarrow> json list \<Rightarrow> company_context result" where
  "mk_company_context tenant company as_of conditions =
     bindE (require_uuid ''tenant_id'' tenant) (\<lambda>t.
     bindE (require_uuid ''company_id'' company) (\<lambda>c.
     bindE (condition_ids conditions) (\<lambda>ids.
       Inr \<lparr>cc_tenant_id = t, cc_company_id = c, cc_as_of = as_of, cc_condition_ids = ids\<rparr>)))"

record timeline_entry =
  te_entry_id :: pystr
  te_outcome :: deferral_status
  te_condition_ids :: "pystr set"
  te_starts_on :: pydate
  te_ends_before :: "pydate option"

definition mk_timeline_entry ::
  "json \<Rightarrow> json \<Rightarrow> pystr set \<Rightarrow> pydate \<Rightarrow> pydate option \<Rightarrow> timeline_entry result" where
  "mk_timeline_entry entry_id outcome conditions starts_on ends_before =
     bindE (case entry_id of JStr s \<Rightarrow> if s = [] then Inl (DomainValidationError ''entry_id must be a non-empty string'') else Inr s
              | _ \<Rightarrow> Inl (DomainValidationError ''entry_id must be a non-empty string'')) (\<lambda>eid.
     bindE (if outcome = JStr (py ''required'') then Inr Required
            else if outcome = JStr (py ''advisory'') then Inr Advisory
            else Inl (DomainValidationError ''timeline outcome must be required or advisory'')) (\<lambda>oc.
       case ends_before of
         Some e \<Rightarrow> if e \<le> starts_on then Inl (DomainValidationError ''ends_before must be later than starts_on'')
           else Inr \<lparr>te_entry_id = eid, te_outcome = oc, te_condition_ids = conditions, te_starts_on = starts_on,
                     te_ends_before = ends_before\<rparr>
       | None \<Rightarrow> Inr \<lparr>te_entry_id = eid, te_outcome = oc, te_condition_ids = conditions, te_starts_on = starts_on,
                     te_ends_before = ends_before\<rparr>))"

definition entry_matches :: "timeline_entry \<Rightarrow> company_context \<Rightarrow> bool" where
  "entry_matches e c \<longleftrightarrow> te_condition_ids e \<subseteq> cc_condition_ids c \<and> te_starts_on e \<le> cc_as_of c
     \<and> (case te_ends_before e of None \<Rightarrow> True | Some b \<Rightarrow> cc_as_of c < b)"

definition timeline_date :: "pystr \<Rightarrow> pydate result" where
  "timeline_date s = (case date_fromisoformat s of
     Inl _ \<Rightarrow> Inl (DomainValidationError ''timeline dates must be ISO dates'') | Inr d \<Rightarrow> Inr d)"

definition entry_from_dict :: "json \<Rightarrow> timeline_entry result" where
  "entry_from_dict v = (case v of
       JObj d \<Rightarrow>
         (case (map_of d (py ''entry_id''), map_of d (py ''outcome''), map_of d (py ''condition_ids''),
                map_of d (py ''starts_on''), map_of d (py ''ends_before'')) of
            (Some entry_id, Some outcome, Some conditions, Some starts_on, Some ends_before) \<Rightarrow>
              (case starts_on of
                 JStr s \<Rightarrow>
                   bindE (case ends_before of JNull \<Rightarrow> Inr None | JStr e \<Rightarrow> Inr (Some e)
                            | _ \<Rightarrow> Inl (DomainValidationError ''ends_before must be an ISO date string or None'')) (\<lambda>stop.
                   bindE (timeline_date s) (\<lambda>start_date.
                   bindE (case stop of None \<Rightarrow> Inr None | Some e \<Rightarrow> bindE (timeline_date e) (\<lambda>x. Inr (Some x))) (\<lambda>end_date.
                   bindE (case conditions of JList vs \<Rightarrow> condition_ids vs
                            | _ \<Rightarrow> Inl (DomainValidationError ''condition_ids must be an iterable of strings'')) (\<lambda>ids.
                     mk_timeline_entry entry_id outcome ids start_date end_date))))
               | _ \<Rightarrow> Inl (DomainValidationError ''starts_on must be an ISO date string''))
          | _ \<Rightarrow> Inl (DomainValidationError ''timeline entry missing field''))
     | _ \<Rightarrow> Inl (DomainValidationError ''timeline entry must be a mapping''))"

definition TIMELINE_PATH :: pystr where
  "TIMELINE_PATH = py ''regulatory/timeline.yaml''"

definition approved_entries :: "(pystr \<Rightarrow> bool) \<Rightarrow> rule_pack \<Rightarrow> timeline_entry list option result" where
  "approved_entries iso_utc snapshot = (case file_content snapshot TIMELINE_PATH of
       Inl (KeyError _) \<Rightarrow> Inr None
     | Inl e \<Rightarrow> Inl e
     | Inr timeline \<Rightarrow>
        if rp_status snapshot \<notin> {py ''validated'', py ''active''}
           \<or> (case rp_approved_by snapshot of None \<Rightarrow> True | Some a \<Rightarrow> py_strip a = [])
           \<or> \<not> is_utc_timestamp iso_utc (rp_approved_at snapshot)
           \<or> map_of timeline (py ''verification_status'') \<noteq> Some (JStr (py ''approved''))
           \<or> map_of timeline (py ''automatic_legal_applicability_enabled'') \<noteq> Some (JBool True)
        then Inr None
        else (case map_of timeline (py ''entries'') of
            Some (JList raw) \<Rightarrow>
              (case mapE entry_from_dict raw of Inl _ \<Rightarrow> Inr None
               | Inr entries \<Rightarrow> if py_duplicates (map te_entry_id entries) then Inr None else Inr (Some entries))
          | _ \<Rightarrow> Inr None))"

definition resolve_deferral :: "(pystr \<Rightarrow> bool) \<Rightarrow> company_context \<Rightarrow> rule_pack \<Rightarrow> deferral_status result" where
  "resolve_deferral iso_utc context timeline =
     (if cc_tenant_id context \<noteq> rp_tenant_id timeline then Inr Undetermined
      else bindE (approved_entries iso_utc timeline) (\<lambda>entries.
        case entries of None \<Rightarrow> Inr Undetermined
        | Some es \<Rightarrow> (case filter (\<lambda>e. entry_matches e context) es of
              [e] \<Rightarrow> Inr (te_outcome e) | _ \<Rightarrow> Inr Undetermined)))"

section \<open>Lemmas\<close>

lemma find_unique_key:
  assumes "distinct (map f xs)" "x \<in> set xs" "f x = k"
  shows "find (\<lambda>y. f y = k) xs = Some x"
  using assms by (induction xs) (auto simp: image_iff)

lemma find_SomeD: "find p xs = Some x \<Longrightarrow> x \<in> set xs \<and> p x"
  by (auto simp: find_Some_iff)

lemma find_by_key_perm:
  assumes "distinct (map f xs)" "mset xs = mset ys"
  shows "find (\<lambda>y. f y = k) xs = find (\<lambda>y. f y = k) ys"
proof -
  have ys: "distinct (map f ys)" "set ys = set xs"
    using assms mset_eq_imp_distinct_iff [of "map f xs" "map f ys"] by (auto dest: mset_eq_setD)
  show ?thesis
  proof (cases "\<exists>x \<in> set xs. f x = k")
    case True
    then obtain x where x: "x \<in> set xs" "f x = k" by blast
    with find_unique_key [OF assms(1) x] find_unique_key [of f ys x k] ys show ?thesis by simp
  next
    case False
    then have "find (\<lambda>y. f y = k) xs = None" "find (\<lambda>y. f y = k) ys = None"
      using ys(2) by (auto simp: find_None_iff)
    then show ?thesis by simp
  qed
qed

lemma mk_timeline_entry_ok:
  assumes "mk_timeline_entry a b c d f = Inr e"
  shows "te_outcome e \<noteq> Undetermined \<and> te_starts_on e = d \<and> te_ends_before e = f \<and> te_condition_ids e = c
    \<and> (case f of None \<Rightarrow> True | Some x \<Rightarrow> d < x)"
  using assms
  by (auto simp: mk_timeline_entry_def bindE_Inr_iff split: json.splits if_splits option.splits)

lemma entry_from_dict_ok:
  assumes "entry_from_dict v = Inr e"
  shows "te_outcome e \<noteq> Undetermined \<and> (case te_ends_before e of None \<Rightarrow> True | Some x \<Rightarrow> te_starts_on e < x)"
proof -
  from assms obtain a b c d f where "mk_timeline_entry a b c d f = Inr e"
    by (auto simp: entry_from_dict_def bindE_Inr_iff split: json.splits option.splits)
  then show ?thesis by (auto dest: mk_timeline_entry_ok)
qed

lemma approved_entries_Some:
  assumes "approved_entries iso_utc s = Inr (Some es)"
  obtains timeline raw where "file_content s TIMELINE_PATH = Inr timeline"
    "rp_status s \<in> {py ''validated'', py ''active''}" "\<exists>a. rp_approved_by s = Some a \<and> py_strip a \<noteq> []"
    "is_utc_timestamp iso_utc (rp_approved_at s)"
    "map_of timeline (py ''verification_status'') = Some (JStr (py ''approved''))"
    "map_of timeline (py ''automatic_legal_applicability_enabled'') = Some (JBool True)"
    "map_of timeline (py ''entries'') = Some (JList raw)" "mapE entry_from_dict raw = Inr es"
    "distinct (map te_entry_id es)"
  using assms
  by (auto simp: approved_entries_def py_duplicates_iff split: sum.splits py_error.splits if_splits option.splits json.splits)

lemma resolve_applicability_Inr:
  assumes "resolve_industry_applicability i t (Some m) = Inr r" "ia_applicability r \<noteq> py ''undetermined''"
  obtains e code where "ii_code i = Some code" "im_verification_status m = py ''verified''"
    "find (\<lambda>e. entry_key e = (ii_system i, code, t)) (im_entries m) = Some e"
    "ia_applicability r = me_applicability e" "ia_mandatory r = me_mandatory e"
  using assms
  by (auto simp: resolve_industry_applicability_def mk_industry_applicability_def bindE_Inr_iff split: option.splits if_splits)

section \<open>Properties\<close>

text \<open>
  Industry applicability follows verified coverage only: an answer other than \<^verbatim>\<open>undetermined\<close> is the content of an entry of a
  verified mapping for exactly this industry and topic, and the order of the entries of a constructed mapping does not matter.
\<close>

theorem applicability_is_verified_lookup:
  assumes "mk_industry_mapping m = Inr m" "resolve_industry_applicability i t (Some m) = Inr r"
    "mset (im_entries m') = mset (im_entries m)" "im_version m' = im_version m"
    "im_verification_status m' = im_verification_status m"
  shows "resolve_industry_applicability i t (Some m') = Inr r
    \<and> (ia_applicability r \<noteq> py ''undetermined'' \<longrightarrow> im_verification_status m = py ''verified'' \<and>
        (\<exists>e \<in> set (im_entries m). \<exists>code. ii_code i = Some code \<and> entry_key e = (ii_system i, code, t)
           \<and> ia_applicability r = me_applicability e \<and> ia_mandatory r = me_mandatory e))"
proof (intro conjI impI)
  have "distinct (map entry_key (im_entries m))"
    using assms(1) by (auto simp: mk_industry_mapping_def bindE_Inr_iff py_duplicates_iff split: if_splits)
  then have find: "find (\<lambda>e. entry_key e = k) (im_entries m') = find (\<lambda>e. entry_key e = k) (im_entries m)" for k
    using find_by_key_perm [of entry_key "im_entries m" "im_entries m'" k] assms(3) by simp
  have "resolve_industry_applicability i t (Some m') = resolve_industry_applicability i t (Some m)"
    unfolding resolve_industry_applicability_def option.case find assms(4,5) ..
  with assms(2) show "resolve_industry_applicability i t (Some m') = Inr r" by simp
  assume "ia_applicability r \<noteq> py ''undetermined''"
  then obtain e code where e: "ii_code i = Some code" "im_verification_status m = py ''verified''"
    "find (\<lambda>e. entry_key e = (ii_system i, code, t)) (im_entries m) = Some e"
    "ia_applicability r = me_applicability e" "ia_mandatory r = me_mandatory e"
    by (rule resolve_applicability_Inr [OF assms(2)])
  then show "im_verification_status m = py ''verified''" by simp
  show "\<exists>e \<in> set (im_entries m). \<exists>code. ii_code i = Some code
      \<and> entry_key e = (ii_system i, code, t) \<and> ia_applicability r = me_applicability e \<and> ia_mandatory r = me_mandatory e"
    using find_SomeD [OF e(3)] e(1,4,5) by (intro bexI [of _ e]) auto
qed

definition sample_entry :: "string \<Rightarrow> string \<Rightarrow> bool option \<Rightarrow> mapping_entry" where
  "sample_entry topic a m = \<lparr>me_industry_system = py ''SICS'', me_industry_code = py ''TC-SC'', me_topic_id = py topic,
     me_applicability = py a, me_mandatory = m\<rparr>"

definition sample_mapping :: "mapping_entry list \<Rightarrow> industry_mapping" where
  "sample_mapping es = \<lparr>im_version = py ''v1'', im_verification_status = py ''verified'', im_entries = es\<rparr>"

theorem applicability_is_verified_lookup_witness:
  "\<exists>r. resolve_industry_applicability \<lparr>ii_system = py ''SICS'', ii_code = Some (py ''TC-SC'')\<rparr> (py ''water'')
       (Some (sample_mapping [sample_entry ''water'' ''applicable'' (Some True), sample_entry ''land'' ''N_A'' None])) = Inr r
     \<and> ia_applicability r = py ''applicable''"
proof -
  let ?es = "[sample_entry ''land'' ''N_A'' None, sample_entry ''water'' ''applicable'' (Some True)]"
  let ?r = "\<lparr>ia_applicability = py ''applicable'', ia_mandatory = Some True, ia_mapping_version = Some (py ''v1'')\<rparr>"
  have words: "py_strip (py ''v1'') \<noteq> []" "py_strip (py ''water'') \<noteq> []" "py_lower (py ''SICS'') \<noteq> py ''unknown''"
    by (simp_all add: py_strip_Nil_iff py_def py_isspace_def py_lower_def py_lower_char_def)
  show ?thesis
    using applicability_is_verified_lookup
      [of "sample_mapping ?es" "\<lparr>ii_system = py ''SICS'', ii_code = Some (py ''TC-SC'')\<rparr>" "py ''water''" ?r
        "sample_mapping [sample_entry ''water'' ''applicable'' (Some True), sample_entry ''land'' ''N_A'' None]"] words
    by (simp add: mk_industry_mapping_def non_empty_def sample_mapping_def sample_entry_def entry_key_def py_duplicates_def
        resolve_industry_applicability_def mk_industry_applicability_def)
qed

text \<open>
  A deferral outcome is never guessed: \<^verbatim>\<open>required\<close> or \<^verbatim>\<open>advisory\<close> is returned only for the tenant's own pack, in a validated
  or active state with a named approver and a UTC approval time, whose approved timeline enables automatic applicability, and
  exactly one of its entries matches the company's conditions at the cutoff date, in its half-open period.
\<close>

theorem deferral_needs_sole_approved_match:
  assumes "resolve_deferral iso_utc context pack = Inr outcome" "outcome \<noteq> Undetermined"
  shows "cc_tenant_id context = rp_tenant_id pack
    \<and> rp_status pack \<in> {py ''validated'', py ''active''}
    \<and> (\<exists>a. rp_approved_by pack = Some a \<and> py_strip a \<noteq> []) \<and> is_utc_timestamp iso_utc (rp_approved_at pack)
    \<and> (\<exists>entries e. approved_entries iso_utc pack = Inr (Some entries) \<and> {x \<in> set entries. entry_matches x context} = {e}
        \<and> te_outcome e = outcome \<and> te_starts_on e \<le> cc_as_of context
        \<and> (case te_ends_before e of None \<Rightarrow> True | Some b \<Rightarrow> cc_as_of context < b))"
proof -
  from assms obtain entries where es: "approved_entries iso_utc pack = Inr (Some entries)"
    and m: "(case filter (\<lambda>e. entry_matches e context) entries of [e] \<Rightarrow> Inr (te_outcome e) | _ \<Rightarrow> Inr Undetermined) = (Inr outcome :: deferral_status result)"
    and tenant: "cc_tenant_id context = rp_tenant_id pack"
    by (cases "cc_tenant_id context = rp_tenant_id pack"; cases "approved_entries iso_utc pack")
      (auto simp: resolve_deferral_def split: option.split_asm)
  from m assms(2) obtain e where e: "filter (\<lambda>e. entry_matches e context) entries = [e]" "te_outcome e = outcome"
    by (auto split: list.split_asm)
  have "{x \<in> set entries. entry_matches x context} = {e}"
    using arg_cong [OF e(1), of set] by simp
  moreover from this have "entry_matches e context" by blast
  ultimately show ?thesis
    using es e tenant approved_entries_Some [OF es] by (auto simp: entry_matches_def)
qed

definition sample_timeline :: json where
  "sample_timeline = JObj
     [(py ''verification_status'', JStr (py ''approved'')), (py ''automatic_legal_applicability_enabled'', JBool True),
      (py ''entries'', JList [JObj
         [(py ''entry_id'', JStr (py ''e1'')), (py ''outcome'', JStr (py ''required'')), (py ''condition_ids'', JList []),
          (py ''starts_on'', JStr [50, 48, 50, 54, 45, 48, 49, 45, 48, 49]), (py ''ends_before'', JNull)]])]"

definition timeline_pack :: rule_pack where
  "timeline_pack = \<lparr>rp_rule_pack_id = py ''rp'', rp_tenant_id = py ''t'', rp_version = py ''v'', rp_effective_date = py ''d'',
     rp_mode = py ''m'', rp_status = py ''active'', rp_ontology_version = py ''o'', rp_source_document_sha256 = py ''s'',
     rp_sha256 = py ''h'', rp_files = [TIMELINE_PATH], rp_unresolved_gap_ids = [], rp_approved_by = Some (py ''lawyer''),
     rp_approved_at = Some (py ''2026-01-02T00:00:00Z''), rp_content = [(TIMELINE_PATH, sample_timeline)]\<rparr>"

definition timeline_context :: company_context where
  "timeline_context = \<lparr>cc_tenant_id = py ''t'', cc_company_id = py ''c'', cc_as_of = 739700, cc_condition_ids = {}\<rparr>"

lemma norm_lookup:
  assumes "distinct (map fst kvs)"
  obtains d where "json_norm (JObj kvs) = JObj d" "\<And>k. map_of d k = map_option json_norm (map_of kvs k)"
proof
  let ?d = "sort_key fst (map (\<lambda>kv. (fst kv, json_norm (snd kv))) kvs)"
  show "json_norm (JObj kvs) = JObj ?d" by simp
  have "distinct (map fst (map (\<lambda>kv. (fst kv, json_norm (snd kv))) kvs))"
    using assms by (simp add: comp_def)
  then show "map_of ?d k = map_option json_norm (map_of kvs k)" for k
    by (simp add: map_of_sort_key map_of_map_norm)
qed

lemma timeline_resolved: "resolve_deferral (\<lambda>_. True) timeline_context timeline_pack = Inr Required"
proof -
  have date: "timeline_date [50, 48, 50, 54, 45, 48, 49, 45, 48, 49] = Inr 739617"
    by (simp add: timeline_date_def date_fromisoformat_def utf8_length_def scan_digits_def py_isdigit_def scan_month_date_def
        scan_separator_def new_date_def ymd_to_ord_def days_before_year_def days_before_month_def days_in_month_def is_leap_def)
  let ?row = "[(py ''entry_id'', JStr (py ''e1'')), (py ''outcome'', JStr (py ''required'')), (py ''condition_ids'', JList []),
          (py ''starts_on'', JStr [50, 48, 50, 54, 45, 48, 49, 45, 48, 49]), (py ''ends_before'', JNull)]"
  have "distinct (map fst ?row)" by simp
  then obtain row where row: "json_norm (JObj ?row) = JObj row" "\<And>k. map_of row k = map_option json_norm (map_of ?row k)"
    by (rule norm_lookup) blast
  have entry: "entry_from_dict (JObj row) = Inr \<lparr>te_entry_id = py ''e1'', te_outcome = Required, te_condition_ids = {},
      te_starts_on = 739617, te_ends_before = None\<rparr>"
    by (simp add: entry_from_dict_def row(2) date condition_ids_def mk_timeline_entry_def)
  let ?file = "[(py ''verification_status'', JStr (py ''approved'')), (py ''automatic_legal_applicability_enabled'', JBool True),
      (py ''entries'', JList [JObj ?row])]"
  have "distinct (map fst ?file)" by simp
  then obtain tl_file where tl_file: "json_norm (JObj ?file) = JObj tl_file" "\<And>k. map_of tl_file k = map_option json_norm (map_of ?file k)"
    by (rule norm_lookup) blast
  have content: "file_content timeline_pack TIMELINE_PATH = Inr tl_file"
    using tl_file(1) by (simp add: file_content_def timeline_pack_def sample_timeline_def del: json_norm.simps)
  have fields: "map_of tl_file (py ''verification_status'') = Some (JStr (py ''approved''))"
    "map_of tl_file (py ''automatic_legal_applicability_enabled'') = Some (JBool True)"
    "map_of tl_file (py ''entries'') = Some (JList [JObj row])"
    unfolding tl_file(2) by (simp_all add: row(1) del: json_norm.simps(2))
  have approval: "rp_status timeline_pack = py ''active''" "\<exists>a. rp_approved_by timeline_pack = Some a \<and> py_strip a \<noteq> []"
    "is_utc_timestamp (\<lambda>_. True) (rp_approved_at timeline_pack)"
    by (simp_all add: timeline_pack_def is_utc_timestamp_def py_strip_Nil_iff py_endswith_def py_def py_isspace_def)
  have "approved_entries (\<lambda>_. True) timeline_pack = Inr (Some [\<lparr>te_entry_id = py ''e1'', te_outcome = Required,
      te_condition_ids = {}, te_starts_on = 739617, te_ends_before = None\<rparr>])"
    using approval by (auto simp: approved_entries_def content fields entry py_duplicates_def)
  then show ?thesis
    by (simp add: resolve_deferral_def timeline_context_def timeline_pack_def [THEN arg_cong [of _ _ rp_tenant_id]] entry_matches_def)
qed

theorem deferral_needs_sole_approved_match_witness:
  "\<exists>entries e. approved_entries (\<lambda>_. True) timeline_pack = Inr (Some entries)
     \<and> {x \<in> set entries. entry_matches x timeline_context} = {e} \<and> te_outcome e = Required"
  using deferral_needs_sole_approved_match [OF timeline_resolved] by blast

end
