(* ===== verification/Run_Control.thy ===== *)
theory Run_Control
  imports Json
begin

text \<open>
  Run bookkeeping: the coverage projection (\<^verbatim>\<open>application/coverage.py\<close>) and the admission cutoff (\<^verbatim>\<open>application/rb3_deadline.py\<close>).

  Counters are unbounded integers; the Python type checks the model's types enforce are not repeated. The monotonic clock is an argument
  (the value it returns at the call), and the float additions and subtractions are the arguments \<open>fadd\<close> and \<open>fsub\<close>: the properties do not
  depend on their rounding. A \<open>deadline\<close> is the state of one \<^verbatim>\<open>Deadline\<close> object; the lock makes each \<^verbatim>\<open>admit\<close> one step.
\<close>

section \<open>Coverage\<close>

definition STATUSES :: "pystr list" where
  "STATUSES = [py ''queued'', py ''running'', py ''partial'', py ''completed'', py ''failed'', py ''cancelled'']"

record counters =
  pages_total :: int
  pages_processed :: int
  pages_unreadable :: int
  pages_unprocessed :: int
  chunks_discovered :: int
  chunks_processed :: int
  claims_discovered :: int
  claims_decided :: int
  claims_needs_review :: int

record coverage_update =
  cu_status :: pystr
  cu_counters :: counters
  cu_full_scope :: bool
  cu_complete :: bool
  cu_complete_badge :: bool

definition counters_complete :: "counters \<Rightarrow> bool" where
  "counters_complete c \<longleftrightarrow> pages_unreadable c = pages_unprocessed c \<and> pages_unprocessed c = 0
     \<and> chunks_processed c = chunks_discovered c \<and> claims_decided c + claims_needs_review c = claims_discovered c"

definition update_coverage :: "pystr \<Rightarrow> bool \<Rightarrow> counters \<Rightarrow> pystr option \<Rightarrow> coverage_update result" where
  "update_coverage run_status full_scope c stop_reason =
     (if run_status \<notin> set STATUSES then Inl (ValueError ''invalid run status or scope'')
      else if list_ex (\<lambda>n. n < 0) [pages_total c, pages_processed c, pages_unreadable c, pages_unprocessed c,
           chunks_discovered c, chunks_processed c, claims_discovered c, claims_decided c, claims_needs_review c]
        then Inl (ValueError ''coverage counters must be non-negative integers'')
      else if pages_processed c + pages_unreadable c + pages_unprocessed c \<noteq> pages_total c
        then Inl (ValueError ''page counters must partition pages_total'')
      else if chunks_processed c > chunks_discovered c then Inl (ValueError ''processed chunks exceed discovered chunks'')
      else if claims_decided c + claims_needs_review c > claims_discovered c
        then Inl (ValueError ''handled claims exceed discovered claims'')
      else if (case stop_reason of None \<Rightarrow> False | Some r \<Rightarrow> py_strip r = [])
        then Inl (ValueError ''stop_reason must be non-empty text or null'')
      else
        let status = (if stop_reason = Some (py ''BUDGET_EXHAUSTED'')
                         \<or> run_status = py ''completed'' \<and> full_scope \<and> \<not> counters_complete c
                      then py ''partial'' else run_status);
            complete = (status = py ''completed'' \<and> full_scope \<and> counters_complete c)
        in Inr \<lparr>cu_status = status, cu_counters = c, cu_full_scope = full_scope, cu_complete = complete,
                cu_complete_badge = (status = py ''completed'' \<and> complete)\<rparr>)"

section \<open>Admission cutoff\<close>

record deadline_policy =
  dp_profile :: pystr
  dp_hard_cap_seconds :: int
  dp_extract_reserve_seconds :: int
  dp_tag_reserve_seconds :: int
  dp_unprocessed :: pystr
  dp_inflight :: pystr
  dp_publication :: pystr

definition POLICY :: deadline_policy where
  "POLICY = \<lparr>dp_profile = py ''rb3_deadline_v1'', dp_hard_cap_seconds = 1800, dp_extract_reserve_seconds = 1000,
     dp_tag_reserve_seconds = 600, dp_unprocessed = py ''TIME_BUDGET'', dp_inflight = py ''finish-with-normal-verification'',
     dp_publication = py ''unchanged-source-tenant-fence-and-anonymous-fd''\<rparr>"

definition POLICY_V2 :: deadline_policy where
  "POLICY_V2 = POLICY\<lparr>dp_profile := py ''rb3_deadline_v2'', dp_hard_cap_seconds := 2700, dp_extract_reserve_seconds := 1200,
     dp_tag_reserve_seconds := 300\<rparr>"

definition configured :: "deadline_policy option \<Rightarrow> bool result" where
  "configured p = (case p of None \<Rightarrow> Inr False
     | Some q \<Rightarrow> if q \<noteq> POLICY \<and> q \<noteq> POLICY_V2 then Inl (ValueError ''RB3_DEADLINE_POLICY_MISMATCH'') else Inr True)"

record deadline =
  dl_policy :: deadline_policy
  dl_hard_deadline :: rat
  dl_stopped :: "pystr list"

definition mk_deadline :: "(rat \<Rightarrow> rat \<Rightarrow> rat) \<Rightarrow> pyfloat \<Rightarrow> deadline_policy \<Rightarrow> rat \<Rightarrow> deadline result" where
  "mk_deadline fadd hard policy clock =
     bindE (configured (Some policy)) (\<lambda>_.
       case hard of
         PyFinite h \<Rightarrow> if h < 0 then Inl (ValueError ''RB3_DEADLINE_INVALID'')
           else Inr \<lparr>dl_policy = policy, dl_hard_deadline = min h (fadd clock (of_int (dp_hard_cap_seconds policy))),
                     dl_stopped = []\<rparr>
       | _ \<Rightarrow> Inl (ValueError ''RB3_DEADLINE_INVALID''))"

definition stage_reserve :: "deadline_policy \<Rightarrow> pystr \<Rightarrow> int result" where
  "stage_reserve p stage = (if stage = py ''extract'' then Inr (dp_extract_reserve_seconds p)
     else if stage = py ''tag'' then Inr (dp_tag_reserve_seconds p) else Inl (KeyError ''reserve_seconds''))"

definition deadline_admit ::
  "(rat \<Rightarrow> rat \<Rightarrow> rat) \<Rightarrow> deadline \<Rightarrow> rat \<Rightarrow> pystr \<Rightarrow> (deadline \<times> bool) result" where
  "deadline_admit fsub d clock stage =
     bindE (stage_reserve (dl_policy d) stage) (\<lambda>reserve.
       let d' = (if fsub (dl_hard_deadline d) (of_int reserve) \<le> clock
                 then d\<lparr>dl_stopped := py_unique (dl_stopped d @ [stage])\<rparr> else d)
       in Inr (d', stage \<notin> set (dl_stopped d')))"

definition deadline_summary :: "deadline \<Rightarrow> deadline_policy \<times> pystr list" where
  "deadline_summary d = (dl_policy d, py_sorted_set (dl_stopped d))"

text \<open>\<^verbatim>\<open>admit(runner, snapshot, stage)\<close>: the runner's budget, when it has one, and the pinned policy of the snapshot.\<close>

definition admit ::
  "(rat \<Rightarrow> rat \<Rightarrow> rat) \<Rightarrow> deadline option \<Rightarrow> deadline_policy option \<Rightarrow> rat \<Rightarrow> pystr \<Rightarrow> (deadline option \<times> bool) result" where
  "admit fsub budget pinned clock stage =
     bindE (configured pinned) (\<lambda>on.
       if \<not> on then Inr (budget, True)
       else case budget of None \<Rightarrow> Inl (ValueError ''RB3_DEADLINE_REQUIRED'')
         | Some d \<Rightarrow>
             if Some (dl_policy d) \<noteq> pinned then Inl (ValueError ''RB3_DEADLINE_POLICY_MISMATCH'')
             else bindE (deadline_admit fsub d clock stage) (\<lambda>(d', ok). Inr (Some d', ok)))"

text \<open>A sequence of admissions: clock readings and stages in the order of the calls.\<close>

fun admits :: "(rat \<Rightarrow> rat \<Rightarrow> rat) \<Rightarrow> deadline \<Rightarrow> (rat \<times> pystr) list \<Rightarrow> (deadline \<times> bool list) result" where
  "admits fsub d [] = Inr (d, [])"
| "admits fsub d ((clock, stage) # calls) =
     bindE (deadline_admit fsub d clock stage) (\<lambda>(d', ok).
     bindE (admits fsub d' calls) (\<lambda>(d'', oks). Inr (d'', ok # oks)))"

section \<open>Properties\<close>

text \<open>
  The complete badge hides nothing: \<^verbatim>\<open>update_coverage\<close> sets it exactly for a completed full-scope run that was not stopped by its
  budget and in which every page is processed, every discovered chunk is processed and every discovered claim is handled.
\<close>

theorem complete_badge_iff_everything_handled:
  assumes "update_coverage run_status full_scope c stop_reason = Inr u"
  shows "cu_complete_badge u \<longleftrightarrow> run_status = py ''completed'' \<and> full_scope \<and> stop_reason \<noteq> Some (py ''BUDGET_EXHAUSTED'')
    \<and> pages_processed c = pages_total c \<and> chunks_processed c = chunks_discovered c
    \<and> claims_decided c + claims_needs_review c = claims_discovered c"
proof -
  from assms have nonneg: "0 \<le> pages_unreadable c" "0 \<le> pages_unprocessed c"
    and parts: "pages_processed c + pages_unreadable c + pages_unprocessed c = pages_total c"
    by (auto simp: update_coverage_def split: if_splits)
  then have "pages_processed c = pages_total c \<longleftrightarrow> pages_unreadable c = pages_unprocessed c \<and> pages_unprocessed c = 0"
    by linarith
  with assms show ?thesis
    by (auto simp: update_coverage_def Let_def counters_complete_def split: if_splits)
qed

theorem complete_badge_iff_everything_handled_witness:
  "\<exists>u. update_coverage (py ''completed'') True
     \<lparr>pages_total = 2, pages_processed = 2, pages_unreadable = 0, pages_unprocessed = 0, chunks_discovered = 3,
      chunks_processed = 3, claims_discovered = 1, claims_decided = 0, claims_needs_review = 1\<rparr> None = Inr u
     \<and> cu_complete_badge u"
proof -
  let ?c = "\<lparr>pages_total = 2, pages_processed = 2, pages_unreadable = 0, pages_unprocessed = 0, chunks_discovered = 3,
      chunks_processed = 3, claims_discovered = 1, claims_decided = 0, claims_needs_review = 1\<rparr>"
  have "okE (update_coverage (py ''completed'') True ?c None)"
    by (simp add: update_coverage_def STATUSES_def Let_def)
  then obtain u where u: "update_coverage (py ''completed'') True ?c None = Inr u"
    by (auto simp: okE_iff)
  with complete_badge_iff_everything_handled [OF u] show ?thesis by simp
qed

lemma admit_stopped:
  assumes "deadline_admit fsub d clock stage = Inr (d', ok)"
  shows "set (dl_stopped d) \<subseteq> set (dl_stopped d')" "ok \<longleftrightarrow> stage \<notin> set (dl_stopped d')"
  using assms by (auto simp: deadline_admit_def bindE_Inr_iff Let_def split: if_splits)

lemma stopped_stays:
  assumes "admits fsub d calls = Inr (d', oks)" "stage \<in> set (dl_stopped d)" "i < length calls" "snd (calls ! i) = stage"
  shows "\<not> oks ! i"
  using assms
proof (induction fsub d calls arbitrary: i d' oks rule: admits.induct)
  case (2 fsub d clock s calls)
  then obtain d1 ok oks1 where *: "deadline_admit fsub d clock s = Inr (d1, ok)" "admits fsub d1 calls = Inr (d', oks1)"
    "oks = ok # oks1"
    by (auto simp: bindE_Inr_iff)
  with admit_stopped [OF *(1)] 2 show ?case
    by (cases i) (auto simp: subset_iff)
qed simp

text \<open>
  A cutoff is final: once a stage has been refused, every later admission of that stage on the same deadline is refused, whatever
  the clock reads and whatever other stages are asked for in between.
\<close>

theorem refused_stage_stays_refused:
  assumes "admits fsub d calls = Inr (d', oks)" "i < j" "j < length calls" "snd (calls ! i) = snd (calls ! j)" "\<not> oks ! i"
  shows "\<not> oks ! j"
  using assms
proof (induction fsub d calls arbitrary: i j d' oks rule: admits.induct)
  case (2 fsub d clock s calls)
  then obtain d1 ok oks1 where *: "deadline_admit fsub d clock s = Inr (d1, ok)" "admits fsub d1 calls = Inr (d', oks1)"
    "oks = ok # oks1"
    by (auto simp: bindE_Inr_iff)
  obtain j' where j: "j = Suc j'" using 2(3) by (cases j) auto
  show ?case
  proof (cases i)
    case 0
    then have "s \<in> set (dl_stopped d1)"
      using admit_stopped(2) [OF *(1)] 2 * by simp
    with stopped_stays [OF *(2)] 2 * j 0 show ?thesis by simp
  next
    case (Suc i')
    with "2.IH" [OF *(2), of i' j'] "2.prems" * j show ?thesis by auto
  qed
qed simp

theorem refused_stage_stays_refused_witness:
  "\<exists>d oks. admits (-) \<lparr>dl_policy = POLICY, dl_hard_deadline = 1800, dl_stopped = []\<rparr>
     [(100, py ''tag''), (1300, py ''tag''), (0, py ''tag'')] = Inr (d, oks) \<and> oks ! 0 \<and> \<not> oks ! 2"
proof -
  let ?d = "\<lparr>dl_policy = POLICY, dl_hard_deadline = 1800, dl_stopped = []\<rparr> :: deadline"
  let ?calls = "[(100, py ''tag''), (1300, py ''tag''), (0, py ''tag'')]"
  obtain d oks where *: "admits (-) ?d ?calls = Inr (d, oks)" "oks ! 0" "\<not> oks ! 1"
    by (simp add: deadline_admit_def stage_reserve_def POLICY_def py_unique_def)
  with refused_stage_stays_refused [OF *(1), of 1 2] show ?thesis by simp
qed

end
