(* ===== verification/Jobs.thy ===== *)
theory Jobs
  imports Audit_Log "HOL-Library.AList"
begin

text \<open>
  Model of the durable job store: the messages and leases of \<^verbatim>\<open>application/ports/jobs.py\<close>, the operations of
  \<^verbatim>\<open>adapters/local/job_store.py\<close> on its SQLite records, \<^verbatim>\<open>guard_extract_continuation\<close> of \<^verbatim>\<open>adapters/local/claim_store.py\<close> and
  \<^verbatim>\<open>append_audit_transaction\<close> of \<^verbatim>\<open>adapters/local/audit_store.py\<close>.

  The database is an association list from (tenant, run) to the records of that run, one field per \<^verbatim>\<open>kind\<close>. The source reads the rows of a kind
  in an order SQL leaves open; the model uses the order of first insertion, and no property depends on it. \<^verbatim>\<open>INSERT\<close> of an existing key raises (\<open>insert_new\<close>), \<^verbatim>\<open>INSERT OR REPLACE\<close> is \<^const>\<open>AList.update\<close>. Every operation is one
  \<^verbatim>\<open>BEGIN IMMEDIATE\<close> transaction: it returns the new database, or raises and leaves the old one.
  A run whose document version has a retention tombstone is \<open>rs_deleted\<close>; \<open>rs_tag_records\<close> says whether a tag or review record exists.

  Arguments of the model (\<open>job_env\<close>): the platform, \<^verbatim>\<open>uuid5\<close>, the UTC text of a time, the float addition of a time and a delay,
  and \<open>je_stage_check\<close>, the stage specific validation of a parse or extract checkpoint (the envelope checks of \<^verbatim>\<open>commit_job\<close> and the validators it
  imports), which raises or gives the stage fields of the run. The publication hook of the tag stage is not modelled:
  \<open>commit_job\<close> is the operation with \<^verbatim>\<open>publish=None\<close>.
\<close>

section \<open>Messages and leases\<close>

record job_message =
  jm_tenant_id :: pystr
  jm_run_id :: pystr
  jm_document_version_id :: pystr
  jm_job_id :: pystr
  jm_stage :: pystr
  jm_shard :: pystr
  jm_input_hash :: pystr

definition slug_char :: "nat \<Rightarrow> bool" where
  "slug_char c \<longleftrightarrow> 65 \<le> c \<and> c \<le> 90 \<or> 97 \<le> c \<and> c \<le> 122 \<or> py_isdigit c \<or> c = 95 \<or> c = 45"

definition slug :: "pystr \<Rightarrow> bool" where
  "slug s \<longleftrightarrow> 1 \<le> length s \<and> length s \<le> 128 \<and> list_all slug_char s"

definition mk_job_message :: "job_message \<Rightarrow> job_message result" where
  "mk_job_message m =
     bindE (check_uuid ''tenant_id'' (jm_tenant_id m)) (\<lambda>_.
     bindE (check_uuid ''run_id'' (jm_run_id m)) (\<lambda>_.
     bindE (check_uuid ''document_version_id'' (jm_document_version_id m)) (\<lambda>_.
     bindE (check_uuid ''job_id'' (jm_job_id m)) (\<lambda>_.
     bindE (check_sha256 ''input_hash'' (jm_input_hash m)) (\<lambda>_.
       if \<not> slug (jm_stage m) then Inl (ValueError ''invalid stage'')
       else if \<not> slug (jm_shard m) then Inl (ValueError ''invalid shard'')
       else Inr m)))))"

definition message_json :: "job_message \<Rightarrow> json" where
  "message_json m = JObj
     [(py ''tenant_id'', JStr (jm_tenant_id m)), (py ''run_id'', JStr (jm_run_id m)),
      (py ''document_version_id'', JStr (jm_document_version_id m)), (py ''job_id'', JStr (jm_job_id m)),
      (py ''stage'', JStr (jm_stage m)), (py ''shard'', JStr (jm_shard m)), (py ''input_hash'', JStr (jm_input_hash m))]"

record job_lease =
  jl_message :: job_message
  jl_owner :: pystr
  jl_fencing_token :: int
  jl_attempt :: int
  jl_lease_until :: int

definition mk_job_lease :: "job_lease \<Rightarrow> job_lease result" where
  "mk_job_lease l =
     (if py_strip (jl_owner l) = [] then Inl (ValueError ''owner must be non-empty'')
      else if jl_fencing_token l < 1 then Inl (ValueError ''fencing_token must be positive'')
      else if jl_attempt l < 1 then Inl (ValueError ''attempt must be positive'')
      else if jl_lease_until l < 1 then Inl (ValueError ''lease_until must be positive'')
      else Inr l)"

section \<open>Records\<close>

text \<open>A Python \<^verbatim>\<open>int | float\<close>.\<close>

datatype pynum = PInt int | PFlt rat

primrec num_val :: "pynum \<Rightarrow> rat" where
  "num_val (PInt i) = of_int i"
| "num_val (PFlt q) = q"

primrec num_json :: "pynum \<Rightarrow> json" where
  "num_json (PInt i) = JInt i"
| "num_json (PFlt q) = JFloat (PyFinite q)"

record artifact_ref =
  ar_key :: pystr
  ar_sha256 :: pystr
  ar_byte_size :: int

record job =
  jb_message :: job_message
  jb_status :: pystr
  jb_attempt :: int
  jb_retry_attempt :: int
  jb_fencing_token :: int
  jb_lease_owner :: "pystr option"
  jb_lease_until :: "int option"
  jb_heartbeat_at :: "int option"
  jb_artifact_ref :: "artifact_ref option"
  jb_error_code :: "pystr option"
  jb_next_attempt_at :: pynum

record run_meta =
  rm_tenant_id :: pystr
  rm_run_id :: pystr
  rm_document_version_id :: pystr
  rm_status :: pystr
  rm_revision :: int
  rm_mutation_epoch :: int
  rm_cancellation_requested :: bool
  rm_execution_profile :: pystr
  rm_stage_fields :: "(pystr \<times> json) list"

record outbox_event =
  ob_message :: job_message
  ob_status :: pystr
  ob_next_attempt_at :: pynum
  ob_attempts :: int

record idempotency =
  ip_request_hash :: pystr
  ip_response :: run_meta
  ip_expires_at :: int

record run_action =
  ra_event_id :: pystr
  ra_actor_sub :: pystr
  ra_timestamp :: pystr
  ra_action :: pystr
  ra_reason :: pystr
  ra_revision :: int
  ra_before :: json
  ra_after :: json
  ra_before_hash :: pystr
  ra_after_hash :: pystr

record run_store =
  rs_run :: "run_meta option"
  rs_deleted :: bool
  rs_jobs :: "(pystr \<times> job) list"
  rs_outbox :: "(pystr \<times> outbox_event) list"
  rs_leases :: "((int \<times> pystr) \<times> job_lease) list"
  rs_artifacts :: "(pystr \<times> nat list) list"
  rs_idempotency :: "(pystr \<times> idempotency) list"
  rs_actions :: "(int \<times> run_action) list"
  rs_tag_records :: bool
  rs_audit_events :: "audit_event list"
  rs_audit_head :: "audit_head option"

definition empty_store :: run_store where
  "empty_store = \<lparr>rs_run = None, rs_deleted = False, rs_jobs = [], rs_outbox = [], rs_leases = [], rs_artifacts = [],
     rs_idempotency = [], rs_actions = [], rs_tag_records = False, rs_audit_events = [], rs_audit_head = None\<rparr>"

type_synonym job_db = "((pystr \<times> pystr) \<times> run_store) list"

record job_env =
  je_platform :: platform
  je_uuid5 :: "pystr \<Rightarrow> pystr"
  je_utc_text :: "int \<Rightarrow> pystr result"
  je_iso_utc :: "pystr \<Rightarrow> bool"
  je_fadd :: "int \<Rightarrow> rat \<Rightarrow> rat"
  je_stage_check :: "run_store \<Rightarrow> run_meta \<Rightarrow> job_message \<Rightarrow> nat list \<Rightarrow> job_message option \<Rightarrow> (pystr \<times> json) list result"

definition KIND :: pystr where
  "KIND = py ''local-synthetic-only''"

definition store_of :: "job_db \<Rightarrow> pystr \<times> pystr \<Rightarrow> run_store" where
  "store_of db k = (case map_of db k of None \<Rightarrow> empty_store | Some rs \<Rightarrow> rs)"

definition message_key :: "job_message \<Rightarrow> pystr \<times> pystr" where
  "message_key m = (jm_tenant_id m, jm_run_id m)"

definition insert_new :: "'k \<Rightarrow> 'v \<Rightarrow> ('k \<times> 'v) list \<Rightarrow> ('k \<times> 'v) list result" where
  "insert_new k v kvs = (if k \<in> fst ` set kvs then Inl (IntegrityError ''UNIQUE constraint failed: job_records'')
     else Inr (kvs @ [(k, v)]))"

text \<open>Run and job rows as the JSON values that are hashed.\<close>

definition job_json :: "job \<Rightarrow> json" where
  "job_json j = JObj
     [(py ''message'', message_json (jb_message j)), (py ''status'', JStr (jb_status j)), (py ''attempt'', JInt (jb_attempt j)),
      (py ''retry_attempt'', JInt (jb_retry_attempt j)), (py ''fencing_token'', JInt (jb_fencing_token j)),
      (py ''lease_owner'', opt_str (jb_lease_owner j)),
      (py ''lease_until'', case jb_lease_until j of None \<Rightarrow> JNull | Some i \<Rightarrow> JInt i),
      (py ''heartbeat_at'', case jb_heartbeat_at j of None \<Rightarrow> JNull | Some i \<Rightarrow> JInt i),
      (py ''artifact_ref'', case jb_artifact_ref j of None \<Rightarrow> JNull
         | Some r \<Rightarrow> JObj [(py ''key'', JStr (ar_key r)), (py ''sha256'', JStr (ar_sha256 r)),
             (py ''byte_size'', JInt (ar_byte_size r)), (py ''storage'', JStr KIND)]),
      (py ''error_code'', opt_str (jb_error_code j)), (py ''next_attempt_at'', num_json (jb_next_attempt_at j))]"

definition run_json :: "run_meta \<Rightarrow> json" where
  "run_json r = JObj
     ([(py ''tenant_id'', JStr (rm_tenant_id r)), (py ''run_id'', JStr (rm_run_id r)),
       (py ''document_version_id'', JStr (rm_document_version_id r)), (py ''status'', JStr (rm_status r)),
       (py ''revision'', JInt (rm_revision r)), (py ''mutation_epoch'', JInt (rm_mutation_epoch r)),
       (py ''cancellation_requested'', JBool (rm_cancellation_requested r)),
       (py ''execution_profile'', JStr (rm_execution_profile r))] @ rm_stage_fields r)"

section \<open>Reading and writing rows\<close>

definition check_time :: "int \<Rightarrow> int \<Rightarrow> unit result" where
  "check_time now duration = (if now < 0 then Inl (ValueError ''now must be non-negative'')
     else if duration < 1 then Inl (ValueError ''duration must be positive'') else Inr ())"

definition check_scope :: "pystr \<Rightarrow> pystr \<Rightarrow> unit result" where
  "check_scope tenant run = bindE (check_uuid ''tenant_id'' tenant) (\<lambda>_. check_uuid ''run_id'' run)"

definition get_run_row :: "run_store \<Rightarrow> run_meta result" where
  "get_run_row rs = (case rs_run rs of None \<Rightarrow> Inl (KeyError ''resource not found'')
     | Some r \<Rightarrow> if rs_deleted rs then Inl (KeyError ''resource not found'') else Inr r)"

definition get_job_row :: "run_store \<Rightarrow> job_message \<Rightarrow> job result" where
  "get_job_row rs m = (case map_of (rs_jobs rs) (jm_job_id m) of None \<Rightarrow> Inl (KeyError ''resource not found'')
     | Some j \<Rightarrow> if jb_message j \<noteq> m then Inl (KeyError ''resource not found'') else Inr j)"

definition save_job :: "job_message \<Rightarrow> job \<Rightarrow> run_store \<Rightarrow> run_store" where
  "save_job m j rs = rs\<lparr>rs_jobs := AList.update (jm_job_id m) j (rs_jobs rs)\<rparr>"

definition bump_run :: "run_meta \<Rightarrow> pystr option \<Rightarrow> run_meta" where
  "bump_run r status = r\<lparr>rm_revision := rm_revision r + 1, rm_mutation_epoch := rm_mutation_epoch r + 1,
     rm_status := (case status of None \<Rightarrow> rm_status r | Some s \<Rightarrow> s)\<rparr>"

definition put_run :: "run_meta \<Rightarrow> run_store \<Rightarrow> run_store" where
  "put_run r rs = rs\<lparr>rs_run := Some r\<rparr>"

definition put_store :: "pystr \<times> pystr \<Rightarrow> run_store \<Rightarrow> job_db \<Rightarrow> job_db" where
  "put_store k rs db = AList.update k rs db"

definition create_run :: "pystr \<Rightarrow> pystr \<Rightarrow> pystr \<Rightarrow> job_db \<Rightarrow> job_db result" where
  "create_run tenant run version db =
     bindE (check_scope tenant run) (\<lambda>_.
     bindE (check_uuid ''document_version_id'' version) (\<lambda>_.
       let rs = store_of db (tenant, run) in
       if rs_run rs \<noteq> None then Inl (IntegrityError ''UNIQUE constraint failed: job_records'')
       else Inr (put_store (tenant, run) (put_run
         \<lparr>rm_tenant_id = tenant, rm_run_id = run, rm_document_version_id = version, rm_status = py ''queued'', rm_revision = 1,
          rm_mutation_epoch = 0, rm_cancellation_requested = False, rm_execution_profile = KIND, rm_stage_fields = []\<rparr> rs) db)))"

definition get_run :: "pystr \<Rightarrow> pystr \<Rightarrow> job_db \<Rightarrow> run_meta result" where
  "get_run tenant run db = bindE (check_scope tenant run) (\<lambda>_. get_run_row (store_of db (tenant, run)))"

definition get_job :: "job_message \<Rightarrow> job_db \<Rightarrow> job result" where
  "get_job m db = get_job_row (store_of db (message_key m)) m"

definition delivery_status :: "job_message \<Rightarrow> job_db \<Rightarrow> pystr" where
  "delivery_status m db = (case get_job m db of Inr j \<Rightarrow> jb_status j | Inl _ \<Rightarrow> py ''not_found'')"

definition active_run_count :: "pystr \<Rightarrow> job_db \<Rightarrow> nat" where
  "active_run_count tenant db = length (filter (\<lambda>(k, rs). fst k = tenant \<and> \<not> rs_deleted rs
     \<and> (case rs_run rs of None \<Rightarrow> False | Some r \<Rightarrow> rm_status r \<in> {py ''queued'', py ''running''})) db)"

section \<open>Enqueueing\<close>

definition outbox_id :: "job_env \<Rightarrow> job_message \<Rightarrow> pystr \<Rightarrow> pystr result" where
  "outbox_id E m cause = bindE (canonical_hash (je_platform E) (JList [message_json m, JStr cause])) (\<lambda>h. Inr (je_uuid5 E h))"

definition add_event :: "job_env \<Rightarrow> job_message \<Rightarrow> pynum \<Rightarrow> pystr \<Rightarrow> run_store \<Rightarrow> run_store result" where
  "add_event E m now cause rs =
     bindE (outbox_id E m cause) (\<lambda>eid.
     bindE (insert_new eid \<lparr>ob_message = m, ob_status = py ''pending'', ob_next_attempt_at = now, ob_attempts = 0\<rparr> (rs_outbox rs))
       (\<lambda>outbox. Inr (rs\<lparr>rs_outbox := outbox\<rparr>)))"

definition new_job :: "job_message \<Rightarrow> int \<Rightarrow> job" where
  "new_job m now = \<lparr>jb_message = m, jb_status = py ''pending'', jb_attempt = 0, jb_retry_attempt = 0, jb_fencing_token = 0,
     jb_lease_owner = None, jb_lease_until = None, jb_heartbeat_at = None, jb_artifact_ref = None, jb_error_code = None,
     jb_next_attempt_at = PInt now\<rparr>"

definition same_slot :: "job_message \<Rightarrow> job_message \<Rightarrow> bool" where
  "same_slot p m \<longleftrightarrow> jm_job_id p = jm_job_id m \<or> (jm_stage p, jm_shard p) = (jm_stage m, jm_shard m)"

definition enqueue_row :: "job_env \<Rightarrow> job_message \<Rightarrow> int \<Rightarrow> run_store \<Rightarrow> run_store result" where
  "enqueue_row E m now rs =
     bindE (get_run_row rs) (\<lambda>run.
       if rm_cancellation_requested run \<or> rm_document_version_id run \<noteq> jm_document_version_id m
         then Inl (JobConflict ''run is cancelled or document version differs'')
       else case find (\<lambda>p. same_slot p m) (map (\<lambda>kv. jb_message (snd kv)) (rs_jobs rs)) of
           Some previous \<Rightarrow> if previous \<noteq> m then Inl (JobConflict ''immutable stage/shard/input identity conflict'') else Inr rs
         | None \<Rightarrow> add_event E m (PInt now) (py ''initial'') (save_job m (new_job m now) rs))"

definition on_run :: "pystr \<times> pystr \<Rightarrow> (run_store \<Rightarrow> ('a \<times> run_store) result) \<Rightarrow> job_db \<Rightarrow> ('a \<times> job_db) result" where
  "on_run k f db = bindE (f (store_of db k)) (\<lambda>(x, rs). Inr (x, put_store k rs db))"

definition enqueue :: "job_env \<Rightarrow> job_message \<Rightarrow> int \<Rightarrow> job_db \<Rightarrow> (unit \<times> job_db) result" where
  "enqueue E m now db =
     bindE (check_time now 1) (\<lambda>_. on_run (message_key m) (\<lambda>rs. bindE (enqueue_row E m now rs) (\<lambda>rs'. Inr ((), rs'))) db)"

section \<open>Leases\<close>

text \<open>\<^verbatim>\<open>guard_extract_continuation(..., supersede=True)\<close>: tag work that has not been published is superseded.\<close>

definition guard_extract_continuation :: "run_meta \<Rightarrow> int \<Rightarrow> run_store \<Rightarrow> run_store result" where
  "guard_extract_continuation run now rs =
     (let is_tag = (\<lambda>m. jm_stage m = py ''tag'');
          field = (\<lambda>k. case map_of (rm_stage_fields run) (py k) of None \<Rightarrow> JNull | Some v \<Rightarrow> v) in
      if py ''tag_job'' \<in> fst ` set (rm_stage_fields run) \<or> field ''tag_stage_status'' \<noteq> JNull
         \<or> rm_status run \<in> {py ''partial'', py ''completed''} \<or> rs_tag_records rs
        then Inl (ValueError ''TAG_PUBLICATION_CONFLICT'')
      else if list_ex (\<lambda>(_, j). is_tag (jb_message j) \<and> jb_status j = py ''leased''
             \<and> (case jb_lease_until j of None \<Rightarrow> False | Some u \<Rightarrow> now < u)) (rs_jobs rs)
        then Inl (ValueError ''TAG_LEASE_CONFLICT'')
      else Inr (rs\<lparr>rs_jobs := map (\<lambda>(k, j). (k, if is_tag (jb_message j) \<and> jb_status j \<in> {py ''pending'', py ''leased''}
                     then j\<lparr>jb_status := py ''superseded'', jb_fencing_token := jb_fencing_token j + 1\<rparr> else j)) (rs_jobs rs),
                   rs_outbox := map (\<lambda>(k, e). (k, if ob_status e = py ''pending'' \<and> is_tag (ob_message e)
                     then e\<lparr>ob_status := py ''superseded''\<rparr> else e)) (rs_outbox rs)\<rparr>))"

definition claimable :: "run_meta \<Rightarrow> job \<Rightarrow> int \<Rightarrow> bool" where
  "claimable run j now \<longleftrightarrow> \<not> rm_cancellation_requested run \<and> num_val (jb_next_attempt_at j) \<le> of_int now
     \<and> (jb_status j = py ''pending''
        \<or> jb_status j = py ''leased'' \<and> (case jb_lease_until j of None \<Rightarrow> False | Some u \<Rightarrow> u \<le> now))"

definition leased_job :: "pystr \<Rightarrow> int \<Rightarrow> int \<Rightarrow> job \<Rightarrow> job" where
  "leased_job owner now lease_seconds j = j\<lparr>jb_status := py ''leased'', jb_lease_owner := Some owner,
     jb_lease_until := Some (now + lease_seconds), jb_heartbeat_at := Some now, jb_attempt := jb_attempt j + 1,
     jb_fencing_token := jb_fencing_token j + 1, jb_retry_attempt := jb_retry_attempt j + 1\<rparr>"

definition lease_of :: "job_message \<Rightarrow> pystr \<Rightarrow> int \<Rightarrow> int \<Rightarrow> job \<Rightarrow> job_lease" where
  "lease_of m owner now lease_seconds j = \<lparr>jl_message = m, jl_owner = owner, jl_fencing_token = jb_fencing_token j,
     jl_attempt = jb_attempt j, jl_lease_until = now + lease_seconds\<rparr>"

definition claim_row :: "job_message \<Rightarrow> pystr \<Rightarrow> int \<Rightarrow> int \<Rightarrow> run_store \<Rightarrow> (job_lease option \<times> run_store) result" where
  "claim_row m owner now lease_seconds rs = (case (get_job_row rs m, get_run_row rs) of
       (Inr j, Inr run) \<Rightarrow>
         if \<not> claimable run j now then Inr (None, rs)
         else (case (if jm_stage m = py ''extract'' \<and> py ''extract_job'' \<in> fst ` set (rm_stage_fields run)
                     then guard_extract_continuation run now rs else Inr rs) of
             Inl _ \<Rightarrow> Inr (None, rs)
           | Inr rs1 \<Rightarrow>
               let j' = leased_job owner now lease_seconds j in
               bindE (mk_job_lease (lease_of m owner now lease_seconds j')) (\<lambda>lease.
               bindE (insert_new (jl_fencing_token lease, jm_job_id m) lease (rs_leases rs1)) (\<lambda>leases.
                 Inr (Some lease, put_run (bump_run run (Some (py ''running''))) ((save_job m j' rs1)\<lparr>rs_leases := leases\<rparr>)))))
     | _ \<Rightarrow> Inr (None, rs))"

definition claim_job :: "job_message \<Rightarrow> pystr \<Rightarrow> int \<Rightarrow> int \<Rightarrow> job_db \<Rightarrow> (job_lease option \<times> job_db) result" where
  "claim_job m owner now lease_seconds db =
     bindE (check_time now lease_seconds) (\<lambda>_.
       if py_strip owner = [] then Inl (ValueError ''owner must be non-empty'')
       else on_run (message_key m) (claim_row m owner now lease_seconds) db)"

text \<open>\<open>wait\<close> is the whole number of seconds the transaction waited for the writer lock.\<close>

definition owned :: "run_store \<Rightarrow> job_lease \<Rightarrow> int \<Rightarrow> int \<Rightarrow> (job \<times> run_meta) option" where
  "owned rs l now wait = (case (get_job_row rs (jl_message l), get_run_row rs) of
       (Inr j, Inr run) \<Rightarrow>
         if rm_cancellation_requested run \<or> jb_status j \<noteq> py ''leased'' \<or> jb_fencing_token j \<noteq> jl_fencing_token l
            \<or> jb_lease_owner j \<noteq> Some (jl_owner l) \<or> jb_attempt j \<noteq> jl_attempt l
            \<or> (case jb_lease_until j of None \<Rightarrow> True | Some u \<Rightarrow> u \<le> now + wait)
         then None else Some (j, run)
     | _ \<Rightarrow> None)"

definition can_call :: "job_lease \<Rightarrow> int \<Rightarrow> int \<Rightarrow> job_db \<Rightarrow> bool result" where
  "can_call l now wait db =
     bindE (check_time now 1) (\<lambda>_. Inr (owned (store_of db (message_key (jl_message l))) l now wait \<noteq> None))"

text \<open>\<open>elapsed\<close> is the whole number of seconds between the caller's sample of the time and the acquisition of the writer.\<close>

definition heartbeat_row :: "job_lease \<Rightarrow> int \<Rightarrow> int \<Rightarrow> int \<Rightarrow> run_store \<Rightarrow> (job_lease \<times> run_store) result" where
  "heartbeat_row l now lease_seconds elapsed rs =
     (let current = now + elapsed in
      case owned rs l current 0 of None \<Rightarrow> Inl (LeaseLost ''LEASE_LOST'')
      | Some (j, run) \<Rightarrow>
          (case (jb_heartbeat_at j, jb_lease_until j) of
             (Some hb, Some u) \<Rightarrow>
               let j' = j\<lparr>jb_heartbeat_at := Some (max hb current), jb_lease_until := Some (max u (current + lease_seconds))\<rparr> in
               bindE (mk_job_lease (l\<lparr>jl_lease_until := max u (current + lease_seconds)\<rparr>)) (\<lambda>l'. Inr (l', save_job (jl_message l) j' rs))
           | _ \<Rightarrow> Inl (TypeError ''heartbeat of a job without lease times'')))"

definition heartbeat :: "job_lease \<Rightarrow> int \<Rightarrow> int \<Rightarrow> int \<Rightarrow> job_db \<Rightarrow> (job_lease \<times> job_db) result" where
  "heartbeat l now lease_seconds elapsed db =
     bindE (check_time now lease_seconds) (\<lambda>_.
       on_run (message_key (jl_message l)) (heartbeat_row l now lease_seconds elapsed) db)"

section \<open>Checkpoints\<close>

definition checkpoint_key :: "job_lease \<Rightarrow> pystr" where
  "checkpoint_key l = py ''job/'' @ jm_job_id (jl_message l) @ py ''/attempt/'' @ dec_of_int (jl_fencing_token l) @ py ''/checkpoint''"

definition commit_row ::
  "job_env \<Rightarrow> job_lease \<Rightarrow> nat list \<Rightarrow> int \<Rightarrow> int \<Rightarrow> job_message option \<Rightarrow> run_store \<Rightarrow> (bool \<times> run_store) result" where
  "commit_row E l payload now wait next_job rs = (case owned rs l now wait of
       None \<Rightarrow> Inr (False, rs)
     | Some (j, run) \<Rightarrow>
         bindE (je_stage_check E rs run (jl_message l) payload next_job) (\<lambda>fields.
         if jm_stage (jl_message l) = py ''tag'' \<and> py ''extract_job'' \<in> fst ` set fields
           then Inl (ValueError ''tag stage requires fenced versioned publication'')
         else
         bindE (insert_new (checkpoint_key l) payload (rs_artifacts rs)) (\<lambda>artifacts.
         let j' = j\<lparr>jb_status := py ''succeeded'', jb_artifact_ref := Some \<lparr>ar_key = checkpoint_key l,
                     ar_sha256 = sha256_hex (je_platform E) payload, ar_byte_size = int (length payload)\<rparr>\<rparr>;
             rs1 = save_job (jl_message l) j' (rs\<lparr>rs_artifacts := artifacts\<rparr>) in
         bindE (case next_job of None \<Rightarrow> Inr rs1 | Some n \<Rightarrow> enqueue_row E n now rs1) (\<lambda>rs2.
           Inr (True, put_run (bump_run (run\<lparr>rm_stage_fields := fields\<rparr>) None) rs2)))))"

definition commit_job ::
  "job_env \<Rightarrow> job_lease \<Rightarrow> nat list \<Rightarrow> int \<Rightarrow> int \<Rightarrow> job_message option \<Rightarrow> job_db \<Rightarrow> (bool \<times> job_db) result" where
  "commit_job E l payload now wait next_job db =
     bindE (check_time now 1) (\<lambda>_.
       if (case next_job of None \<Rightarrow> False
           | Some n \<Rightarrow> (jm_tenant_id n, jm_run_id n, jm_document_version_id n)
               \<noteq> (jm_tenant_id (jl_message l), jm_run_id (jl_message l), jm_document_version_id (jl_message l)))
         then Inl (ValueError ''next job must belong to the same tenant/run/document version'')
       else on_run (message_key (jl_message l)) (commit_row E l payload now wait next_job) db)"

definition read_checkpoint :: "platform \<Rightarrow> job_message \<Rightarrow> job_db \<Rightarrow> nat list option result" where
  "read_checkpoint P m db =
     bindE (get_job m db) (\<lambda>j. case jb_artifact_ref j of None \<Rightarrow> Inr None
       | Some r \<Rightarrow> (case map_of (rs_artifacts (store_of db (message_key m))) (ar_key r) of
             None \<Rightarrow> Inl (JobConflict ''checkpoint corruption'')
           | Some payload \<Rightarrow>
               if sha256_hex P payload \<noteq> ar_sha256 r \<or> int (length payload) \<noteq> ar_byte_size r
               then Inl (JobConflict ''checkpoint corruption'') else Inr (Some payload)))"

section \<open>Failure\<close>

definition TRANSIENT :: "pystr list" where
  "TRANSIENT = [py ''MODEL_THROTTLED'', py ''PROVIDER_5XX'', py ''MODEL_TIMEOUT'', py ''NOTE_ACCOUNTING_PENDING'']"

definition retry_delay :: "int \<Rightarrow> pynum \<Rightarrow> int option \<Rightarrow> pynum" where
  "retry_delay retry_attempt jitter retry_after = (case retry_after of Some r \<Rightarrow> PInt (min 60 r)
     | None \<Rightarrow> (case jitter of PInt i \<Rightarrow> PInt (2 ^ nat retry_attempt * i) | PFlt q \<Rightarrow> PFlt (2 ^ nat retry_attempt * q)))"

definition add_delay :: "job_env \<Rightarrow> int \<Rightarrow> pynum \<Rightarrow> pynum" where
  "add_delay E now d = (case d of PInt i \<Rightarrow> PInt (now + i) | PFlt q \<Rightarrow> PFlt (je_fadd E now q))"

definition will_retry :: "pystr \<Rightarrow> job \<Rightarrow> bool" where
  "will_retry error_code j \<longleftrightarrow> error_code \<in> set TRANSIENT \<and> jb_retry_attempt j < 3"

definition failed_job :: "job_env \<Rightarrow> pystr \<Rightarrow> int \<Rightarrow> pynum \<Rightarrow> int option \<Rightarrow> job \<Rightarrow> job" where
  "failed_job E error_code now jitter retry_after j =
     j\<lparr>jb_status := (if will_retry error_code j then py ''pending'' else py ''failed''), jb_error_code := Some error_code,
       jb_next_attempt_at := add_delay E now (retry_delay (jb_retry_attempt j) jitter retry_after)\<rparr>"

definition fail_row ::
  "job_env \<Rightarrow> job_lease \<Rightarrow> pystr \<Rightarrow> int \<Rightarrow> int \<Rightarrow> pynum \<Rightarrow> int option \<Rightarrow> run_store \<Rightarrow> (job \<times> run_store) result" where
  "fail_row E l error_code now wait jitter retry_after rs = (case owned rs l now wait of
       None \<Rightarrow> Inl (LeaseLost ''LEASE_LOST'')
     | Some (j, run) \<Rightarrow>
         let j' = failed_job E error_code now jitter retry_after j;
             rs1 = save_job (jl_message l) j' rs in
         bindE (if will_retry error_code j
                then add_event E (jl_message l) (jb_next_attempt_at j') (py ''retry:'' @ dec_of_int (jl_fencing_token l)) rs1
                else Inr rs1) (\<lambda>rs2.
         let status = (if will_retry error_code j then py ''running''
                       else if list_ex (\<lambda>kv. jb_status (snd kv) = py ''succeeded'') (rs_jobs rs2) then py ''partial''
                       else py ''failed'') in
         Inr (j', put_run (bump_run run (Some status)) rs2)))"

definition fail_job ::
  "job_env \<Rightarrow> job_lease \<Rightarrow> pystr \<Rightarrow> int \<Rightarrow> int \<Rightarrow> pynum \<Rightarrow> int option \<Rightarrow> job_db \<Rightarrow> (job \<times> job_db) result" where
  "fail_job E l error_code now wait jitter retry_after db =
     bindE (check_time now 1) (\<lambda>_.
       if \<not> (0 \<le> num_val jitter \<and> num_val jitter \<le> 1) then Inl (ValueError ''jitter must be in [0, 1]'')
       else if error_code = [] then Inl (ValueError ''error_code required'')
       else bindE (case retry_after of None \<Rightarrow> Inr () | Some r \<Rightarrow> check_time r 1) (\<lambda>_.
         on_run (message_key (jl_message l)) (fail_row E l error_code now wait jitter retry_after) db))"

section \<open>Operator actions\<close>

definition read_audit_head :: "pystr \<Rightarrow> pystr \<Rightarrow> run_store \<Rightarrow> audit_head result" where
  "read_audit_head tenant run rs = (case rs_audit_head rs of None \<Rightarrow> empty_head tenant run | Some h \<Rightarrow> mk_audit_head h)"

definition append_audit_transaction ::
  "platform \<Rightarrow> (pystr \<Rightarrow> bool) \<Rightarrow> change_set \<Rightarrow> audit_head \<Rightarrow> pystr \<Rightarrow> pystr \<Rightarrow> run_store \<Rightarrow> run_store result" where
  "append_audit_transaction P iso_utc change expected event_id timestamp rs =
     bindE (read_audit_head (cs_tenant_id change) (cs_run_id change) rs) (\<lambda>head.
       if head \<noteq> expected then Inl (AuditConflict ''audit HEAD is stale; no event was appended'')
       else bindE (new_audit_event P iso_utc change expected event_id timestamp) (\<lambda>(event, head').
         if list_ex (\<lambda>e. ae_sequence e = ae_sequence event \<or> ae_event_id e = ae_event_id event) (rs_audit_events rs)
         then Inl (AuditConflict ''audit append condition failed; no event was appended'')
         else Inr (rs\<lparr>rs_audit_events := rs_audit_events rs @ [event], rs_audit_head := Some head'\<rparr>)))"

fun requeue_failed :: "job_env \<Rightarrow> int \<Rightarrow> int \<Rightarrow> (pystr \<times> job) list \<Rightarrow> run_store \<Rightarrow> run_store result" where
  "requeue_failed E now revision [] rs = Inr rs"
| "requeue_failed E now revision ((_, j) # js) rs =
     (if jb_status j = py ''failed'' then
        bindE (add_event E (jb_message j) (PInt now) (py ''manual:'' @ dec_of_int revision)
          (save_job (jb_message j) (j\<lparr>jb_status := py ''pending'', jb_next_attempt_at := PInt now, jb_retry_attempt := 0\<rparr>) rs))
          (requeue_failed E now revision js)
      else requeue_failed E now revision js rs)"

definition cancel_jobs :: "run_store \<Rightarrow> run_store" where
  "cancel_jobs rs = rs\<lparr>rs_jobs := map (\<lambda>(k, j). (k,
     if jb_status j \<in> {py ''pending'', py ''leased'', py ''failed''} then j\<lparr>jb_status := py ''cancelled''\<rparr> else j)) (rs_jobs rs)\<rparr>"

definition action_effect :: "job_env \<Rightarrow> bool \<Rightarrow> int \<Rightarrow> int \<Rightarrow> nat \<Rightarrow> run_meta \<Rightarrow> run_store \<Rightarrow> (run_meta \<times> run_store) result" where
  "action_effect E cancel expected_revision now active run rs =
     (if cancel then
        if rm_status run = py ''completed'' then Inl (JobConflict ''completed run cannot be cancelled'')
        else let run' = bump_run (run\<lparr>rm_cancellation_requested := True\<rparr>) (Some (py ''cancelled''))
             in Inr (run', put_run run' (cancel_jobs rs))
      else if rm_status run \<notin> {py ''partial'', py ''failed''} \<or> rm_cancellation_requested run
        then Inl (JobConflict ''run is not retryable'')
      else if active \<ge> 2 then Inl (JobConflict ''tenant run limit'')
      else bindE (requeue_failed E now expected_revision (rs_jobs rs) rs) (\<lambda>rs1.
        let run' = bump_run run (Some (py ''running'')) in Inr (run', put_run run' rs1)))"

definition state_json :: "run_meta \<Rightarrow> (pystr \<times> job) list \<Rightarrow> json" where
  "state_json run js = JObj [(py ''run'', run_json run), (py ''jobs'', JList (map (\<lambda>kv. job_json (snd kv)) js))]"

definition apply_action ::
  "job_env \<Rightarrow> pystr \<Rightarrow> pystr \<Rightarrow> bool \<Rightarrow> int \<Rightarrow> pystr \<Rightarrow> int \<Rightarrow> pystr \<Rightarrow> nat \<Rightarrow> pystr \<Rightarrow> pystr \<Rightarrow> pystr \<Rightarrow> run_meta
    \<Rightarrow> run_store \<Rightarrow> (run_meta \<times> run_store) result" where
  "apply_action E tenant run_id cancel expected_revision reason now actor active timestamp key request_hash run rs =
     (let P = je_platform E; action = (if cancel then py ''cancel'' else py ''retry'');
          before = state_json run (rs_jobs rs) in
      bindE (action_effect E cancel expected_revision now active run rs) (\<lambda>(run', rs1).
      let rs2 = rs1\<lparr>rs_idempotency := AList.update key
                  \<lparr>ip_request_hash = request_hash, ip_response = run', ip_expires_at = now + 86400\<rparr> (rs_idempotency rs1)\<rparr>;
          after = state_json run' (rs_jobs rs2) in
      bindE (canonical_hash P before) (\<lambda>before_hash.
      bindE (canonical_hash P after) (\<lambda>after_hash.
      bindE (canonical_hash P (JList [JStr tenant, JStr run_id, JInt (rm_revision run')])) (\<lambda>eh.
      bindE (insert_new (rm_revision run') \<lparr>ra_event_id = je_uuid5 E eh, ra_actor_sub = actor, ra_timestamp = timestamp,
               ra_action = action, ra_reason = reason, ra_revision = rm_revision run', ra_before = before, ra_after = after,
               ra_before_hash = before_hash, ra_after_hash = after_hash\<rparr> (rs_actions rs2)) (\<lambda>actions.
      bindE (mk_change_set \<lparr>cs_tenant_id = tenant, cs_run_id = run_id, cs_actor_sub = actor, cs_action = action,
               cs_target_id = run_id, cs_before_hash = Some before_hash, cs_after_hash = after_hash,
               cs_revision = rm_revision run', cs_reason = Some reason\<rparr>) (\<lambda>change.
      bindE (read_audit_head tenant run_id rs2) (\<lambda>head.
      bindE (append_audit_transaction P (je_iso_utc E) change head (je_uuid5 E eh) timestamp (rs2\<lparr>rs_actions := actions\<rparr>)) (\<lambda>rs3.
        Inr (run', rs3))))))))))"

definition action_row ::
  "job_env \<Rightarrow> pystr \<Rightarrow> pystr \<Rightarrow> bool \<Rightarrow> int \<Rightarrow> pystr \<Rightarrow> pystr \<Rightarrow> int \<Rightarrow> pystr \<Rightarrow> nat \<Rightarrow> run_store \<Rightarrow> (run_meta \<times> run_store) result" where
  "action_row E tenant run_id cancel expected_revision ikey reason now actor active rs =
     (let P = je_platform E; action = (if cancel then py ''cancel'' else py ''retry'') in
      bindE (je_utc_text E now) (\<lambda>timestamp.
      bindE (canonical_hash P (JList [JStr action, JStr ikey])) (\<lambda>key.
      bindE (canonical_hash P (JList [JStr action, JInt expected_revision, JStr reason])) (\<lambda>request_hash.
      bindE (get_run_row rs) (\<lambda>run.
      case (case map_of (rs_idempotency rs) key of None \<Rightarrow> None | Some p \<Rightarrow> if now < ip_expires_at p then Some p else None) of
        Some previous \<Rightarrow>
          if ip_request_hash previous \<noteq> request_hash then Inl (JobConflict ''idempotency key reused with different request'')
          else Inr (ip_response previous, rs)
      | None \<Rightarrow>
        if rm_revision run \<noteq> expected_revision then Inl (JobConflict ''stale revision'')
        else apply_action E tenant run_id cancel expected_revision reason now actor active timestamp key request_hash run rs)))))"

definition run_action_op ::
  "job_env \<Rightarrow> pystr \<Rightarrow> pystr \<Rightarrow> bool \<Rightarrow> int \<Rightarrow> pystr \<Rightarrow> pystr \<Rightarrow> int \<Rightarrow> pystr \<Rightarrow> job_db \<Rightarrow> (run_meta \<times> job_db) result" where
  "run_action_op E tenant run_id cancel expected_revision ikey reason now actor db =
     bindE (check_scope tenant run_id) (\<lambda>_.
     bindE (check_time now 1) (\<lambda>_.
       if expected_revision < 1 then Inl (JobConflict ''revision must be positive'')
       else if length ikey < 16 \<or> 128 < length ikey then Inl (ValueError ''invalid idempotency key'')
       else if py_strip reason = [] then Inl (ValueError ''reason required'')
       else if py_strip actor = [] then Inl (ValueError ''server actor_sub required'')
       else on_run (tenant, run_id)
         (action_row E tenant run_id cancel expected_revision ikey reason now actor (active_run_count tenant db)) db))"

definition cancel_run where
  "cancel_run E tenant run_id = run_action_op E tenant run_id True"

definition retry_run where
  "retry_run E tenant run_id = run_action_op E tenant run_id False"

definition get_action :: "pystr \<Rightarrow> pystr \<Rightarrow> int \<Rightarrow> job_db \<Rightarrow> run_action result" where
  "get_action tenant run_id revision db =
     bindE (check_scope tenant run_id) (\<lambda>_. case map_of (rs_actions (store_of db (tenant, run_id))) revision of
       None \<Rightarrow> Inl (KeyError ''resource not found'') | Some a \<Rightarrow> Inr a)"

section \<open>Outbox\<close>

definition pending_outbox :: "pystr \<Rightarrow> pystr \<Rightarrow> int \<Rightarrow> job_db \<Rightarrow> (pystr \<times> outbox_event) list result" where
  "pending_outbox tenant run_id now db =
     bindE (check_scope tenant run_id) (\<lambda>_.
     bindE (check_time now 1) (\<lambda>_.
     bindE (get_run_row (store_of db (tenant, run_id))) (\<lambda>run.
       Inr (if rm_cancellation_requested run then []
            else sort_key (\<lambda>(eid, e). (num_val (ob_next_attempt_at e), eid))
              (filter (\<lambda>(_, e). ob_status e = py ''pending'' \<and> num_val (ob_next_attempt_at e) \<le> of_int now)
                (rs_outbox (store_of db (tenant, run_id))))))))"

definition mark_row :: "pystr \<Rightarrow> int \<Rightarrow> bool \<Rightarrow> int \<Rightarrow> run_store \<Rightarrow> (bool \<times> run_store) result" where
  "mark_row event_id now sent expected_attempts rs = (case map_of (rs_outbox rs) event_id of
       None \<Rightarrow> Inl (KeyError ''resource not found'')
     | Some e \<Rightarrow>
         if ob_status e \<noteq> py ''pending'' \<or> ob_attempts e \<noteq> expected_attempts then Inr (False, rs)
         else Inr (True, rs\<lparr>rs_outbox := AList.update event_id
                (e\<lparr>ob_status := (if sent then py ''sent'' else py ''pending''), ob_attempts := expected_attempts + 1,
                   ob_next_attempt_at := PInt (now + min 60 (2 ^ nat (min (expected_attempts + 1) 6)))\<rparr>) (rs_outbox rs)\<rparr>))"

definition mark_outbox :: "pystr \<Rightarrow> pystr \<Rightarrow> pystr \<Rightarrow> int \<Rightarrow> bool \<Rightarrow> int \<Rightarrow> job_db \<Rightarrow> (bool \<times> job_db) result" where
  "mark_outbox tenant run_id event_id now sent expected_attempts db =
     bindE (check_scope tenant run_id) (\<lambda>_.
     bindE (check_time now 1) (\<lambda>_. on_run (tenant, run_id) (mark_row event_id now sent expected_attempts) db))"

end
