(* ===== verification/Growing_Store.thy ===== *)
theory Growing_Store
  imports Py_Base "HOL-Library.AList"
begin

text \<open>
  The contract that the durable stores share: a store whose steps keep an invariant and only move its records forward along a
  preorder, and maps that never lose or change an entry.
\<close>

section \<open>Stores that only move forward\<close>

locale growing_store =
  fixes step :: "'s \<Rightarrow> 's \<Rightarrow> bool" and good :: "'s \<Rightarrow> bool" and le :: "'s \<Rightarrow> 's \<Rightarrow> bool"
  assumes le_refl: "le s s"
    and le_trans: "le s t \<Longrightarrow> le t u \<Longrightarrow> le s u"
    and step_good: "good s \<Longrightarrow> step s t \<Longrightarrow> good t"
    and step_le: "good s \<Longrightarrow> step s t \<Longrightarrow> le s t"
begin

lemma steps_good:
  assumes "step\<^sup>*\<^sup>* s t" "good s"
  shows "good t"
  using assms by (induction rule: rtranclp_induct) (auto intro: step_good)

lemma steps_le:
  assumes "step\<^sup>*\<^sup>* s t" "good s"
  shows "le s t"
  using assms
proof (induction rule: rtranclp_induct)
  case (step t u)
  then have "good t" using steps_good by blast
  with step show ?case by (blast intro: le_trans step_le)
qed (rule le_refl)

end

section \<open>Maps that only grow\<close>

definition map_grows :: "('k \<times> 'v) list \<Rightarrow> ('k \<times> 'v) list \<Rightarrow> bool" where
  "map_grows m m' \<longleftrightarrow> (\<forall>k v. map_of m k = Some v \<longrightarrow> map_of m' k = Some v)"

lemma map_grows_refl [simp]: "map_grows m m"
  by (simp add: map_grows_def)

lemma map_grows_trans: "map_grows a b \<Longrightarrow> map_grows b c \<Longrightarrow> map_grows a c"
  by (simp add: map_grows_def)

lemma map_grows_snoc: "map_grows m (m @ xs)"
  by (auto simp: map_grows_def map_add_def split: option.split)

section \<open>Updating one row\<close>

lemma update_split:
  assumes "map_of al k = Some v"
  obtains xs ys where "al = xs @ (k, v) # ys" "AList.update k w al = xs @ (k, w) # ys" "k \<notin> fst ` set xs"
proof -
  have "\<exists>xs ys. al = xs @ (k, v) # ys \<and> AList.update k w al = xs @ (k, w) # ys \<and> k \<notin> fst ` set xs"
    using assms
  proof (induction al)
    case (Cons kv al)
    show ?case
    proof (cases "fst kv = k")
      case True
      with Cons.prems show ?thesis by (intro exI [of _ "[]"] exI [of _ al]) (cases kv, auto)
    next
      case False
      with Cons obtain xs ys where "al = xs @ (k, v) # ys" "AList.update k w al = xs @ (k, w) # ys" "k \<notin> fst ` set xs"
        by (cases kv) auto
      with False show ?thesis by (intro exI [of _ "kv # xs"] exI [of _ ys]) (cases kv, auto)
    qed
  qed simp
  with that show ?thesis by blast
qed

end
