(* ===== verification/Jobs_Inv.thy ===== *)
theory Jobs_Inv
  imports Jobs Growing_Store
begin

text \<open>
  The job store as a state machine: the steps of the database (\<open>job_step\<close>), what every step keeps of a run's records
  (\<open>store_next\<close>) and the well-formedness it preserves (\<open>store_ok\<close>).

  The locale \<open>growing_store\<close> is interpreted on the job database, and the properties of \<open>Jobs_Props\<close> rest on its facts.
\<close>

section \<open>The life of one job\<close>

text \<open>The abstract machine of a job: the edges of its status.\<close>

definition job_edge :: "pystr \<Rightarrow> pystr \<Rightarrow> bool" where
  "job_edge s t \<longleftrightarrow> (s, t) \<in> {(py ''pending'', py ''leased''), (py ''leased'', py ''leased''), (py ''leased'', py ''pending''),
     (py ''leased'', py ''failed''), (py ''leased'', py ''succeeded''), (py ''failed'', py ''pending''),
     (py ''pending'', py ''cancelled''), (py ''leased'', py ''cancelled''), (py ''failed'', py ''cancelled''),
     (py ''pending'', py ''superseded''), (py ''leased'', py ''superseded'')}"

definition job_next :: "job \<Rightarrow> job \<Rightarrow> bool" where
  "job_next a b \<longleftrightarrow> b = a \<or> jb_message b = jb_message a \<and> jb_fencing_token a \<le> jb_fencing_token b
     \<and> jb_attempt a \<le> jb_attempt b \<and> job_edge (jb_status a) (jb_status b)"

definition run_next :: "run_meta \<Rightarrow> run_meta \<Rightarrow> bool" where
  "run_next r r' \<longleftrightarrow> rm_tenant_id r' = rm_tenant_id r \<and> rm_run_id r' = rm_run_id r
     \<and> rm_document_version_id r' = rm_document_version_id r
     \<and> (r' = r \<or> rm_revision r < rm_revision r') \<and> (rm_cancellation_requested r \<longrightarrow> rm_cancellation_requested r')"

definition fresh_job :: "job \<Rightarrow> bool" where
  "fresh_job j \<longleftrightarrow> jb_status j = py ''pending'' \<and> jb_fencing_token j = 0"

definition store_next :: "run_store \<Rightarrow> run_store \<Rightarrow> bool" where
  "store_next rs rs' \<longleftrightarrow>
     (\<forall>k a. map_of (rs_jobs rs) k = Some a \<longrightarrow> (\<exists>b. map_of (rs_jobs rs') k = Some b \<and> job_next a b))
     \<and> (\<forall>k b. map_of (rs_jobs rs) k = None \<longrightarrow> map_of (rs_jobs rs') k = Some b \<longrightarrow> fresh_job b)
     \<and> (\<forall>r. rs_run rs = Some r \<longrightarrow> (\<exists>r'. rs_run rs' = Some r' \<and> run_next r r'))
     \<and> map_grows (rs_artifacts rs) (rs_artifacts rs') \<and> map_grows (rs_leases rs) (rs_leases rs')
     \<and> map_grows (rs_actions rs) (rs_actions rs')
     \<and> (\<exists>es. rs_audit_events rs' = rs_audit_events rs @ es)"

definition job_ok :: "pystr \<Rightarrow> job \<Rightarrow> bool" where
  "job_ok k j \<longleftrightarrow> jm_job_id (jb_message j) = k \<and> 0 \<le> jb_fencing_token j \<and> 0 \<le> jb_attempt j"

definition store_ok :: "run_store \<Rightarrow> bool" where
  "store_ok rs \<longleftrightarrow> distinct (map fst (rs_jobs rs)) \<and> (\<forall>(k, j) \<in> set (rs_jobs rs). job_ok k j)"

lemma job_next_ok: "job_next a b \<Longrightarrow> job_ok k a \<Longrightarrow> job_ok k b"
  by (auto simp: job_next_def job_ok_def)

lemma job_next_refl [simp]: "job_next j j"
  by (simp add: job_next_def)

lemma run_next_refl [simp]: "run_next r r"
  by (simp add: run_next_def)

lemma store_next_refl [simp]: "store_next rs rs"
  by (simp add: store_next_def)

lemma insert_new_grows:
  assumes "insert_new k v m = Inr m'"
  shows "map_grows m m'" "map_of m' k = Some v"
  using assms by (auto simp: insert_new_def map_grows_def map_add_def map_of_eq_None_iff split: if_splits option.split)
    (force dest: map_of_SomeD)

lemma bump_run_next [simp]: "run_next r (bump_run r st)"
  by (simp add: run_next_def bump_run_def)

lemma store_ok_lookup: "store_ok rs \<Longrightarrow> map_of (rs_jobs rs) k = Some j \<Longrightarrow> job_ok k j"
  by (auto simp: store_ok_def dest: map_of_SomeD)

lemma store_okI:
  assumes "distinct (map fst (rs_jobs rs))" "\<And>k j. map_of (rs_jobs rs) k = Some j \<Longrightarrow> job_ok k j"
  shows "store_ok rs"
  using assms by (auto simp: store_ok_def map_of_eq_Some_iff)

lemma save_job_ok: "store_ok rs \<Longrightarrow> job_ok (jm_job_id m) j \<Longrightarrow> store_ok (save_job m j rs)"
  by (rule store_okI) (auto simp: save_job_def update_conv' store_ok_def distinct_update dest: map_of_SomeD split: if_splits)

lemma save_job_lookup: "map_of (rs_jobs (save_job m j rs)) = (map_of (rs_jobs rs))(jm_job_id m \<mapsto> j)"
  by (simp add: save_job_def update_conv')

lemma get_job_rowD: "get_job_row rs m = Inr j \<Longrightarrow> map_of (rs_jobs rs) (jm_job_id m) = Some j \<and> jb_message j = m"
  by (auto simp: get_job_row_def split: option.splits if_splits)

lemma get_run_rowD: "get_run_row rs = Inr r \<Longrightarrow> rs_run rs = Some r"
  by (auto simp: get_run_row_def split: option.splits if_splits)

lemma ownedD:
  assumes "owned rs l now wait = Some (j, run)"
  shows "map_of (rs_jobs rs) (jm_job_id (jl_message l)) = Some j" "jb_message j = jl_message l" "rs_run rs = Some run"
    "jb_status j = py ''leased''" "jb_fencing_token j = jl_fencing_token l" "\<not> rm_cancellation_requested run"
  using assms
  by (auto simp: owned_def dest!: get_job_rowD get_run_rowD split: sum.splits if_splits)

section \<open>What every operation keeps\<close>

text \<open>An operation on the rows of one run moves a well-formed store forward.\<close>

definition forward :: "run_store \<Rightarrow> run_store \<Rightarrow> bool" where
  "forward rs rs' \<longleftrightarrow> (store_ok rs \<longrightarrow> store_ok rs' \<and> store_next rs rs')"

lemma forward_refl [simp]: "forward rs rs"
  by (simp add: forward_def)

text \<open>Saving a moved job on top of a first move of other jobs.\<close>

lemma forward_save:
  assumes "forward rs rs1" "map_of (rs_jobs rs) (jm_job_id m) = Some j" "job_next j j'" "jb_message j = m"
  shows "forward rs (save_job m j' rs1)"
  unfolding forward_def
proof
  assume ok: "store_ok rs"
  with assms(1) have ok1: "store_ok rs1" and next1: "store_next rs rs1"
    by (simp_all add: forward_def)
  have "job_ok (jm_job_id m) j'"
    using job_next_ok [OF assms(3) store_ok_lookup [OF ok assms(2)]] .
  then have "store_ok (save_job m j' rs1)"
    using ok1 by (simp add: save_job_ok)
  moreover have "\<exists>b. map_of (rs_jobs (save_job m j' rs1)) k = Some b \<and> job_next a b" if "map_of (rs_jobs rs) k = Some a" for k a
    using that assms(2,3) next1 unfolding save_job_lookup by (auto simp: store_next_def)
  moreover have "fresh_job b" if "map_of (rs_jobs rs) k = None" "map_of (rs_jobs (save_job m j' rs1)) k = Some b" for k b
    using that assms(2) next1 unfolding save_job_lookup by (auto simp: store_next_def split: if_splits)
  ultimately show "store_ok (save_job m j' rs1) \<and> store_next rs (save_job m j' rs1)"
    using next1 by (simp add: store_next_def) (simp add: save_job_def)
qed

text \<open>Moving the run row and growing the append-only tables.\<close>

lemma forward_rows:
  assumes "forward rs rs1" "rs_jobs rs2 = rs_jobs rs1" "rs_run rs = Some r" "rs_run rs2 = Some r'" "run_next r r'"
    "map_grows (rs_artifacts rs) (rs_artifacts rs2)" "map_grows (rs_leases rs) (rs_leases rs2)"
    "map_grows (rs_actions rs) (rs_actions rs2)" "rs_audit_events rs2 = rs_audit_events rs @ es"
  shows "forward rs rs2"
  using assms by (auto simp: forward_def store_next_def store_ok_def)

text \<open>Adding job rows and outbox events, and nothing else.\<close>

definition adds :: "run_store \<Rightarrow> run_store \<Rightarrow> bool" where
  "adds rs rs' \<longleftrightarrow> (store_ok rs \<longrightarrow> store_ok rs' \<and> map_grows (rs_jobs rs) (rs_jobs rs'))
     \<and> (\<forall>k b. map_of (rs_jobs rs) k = None \<longrightarrow> map_of (rs_jobs rs') k = Some b \<longrightarrow> fresh_job b)
     \<and> rs_run rs' = rs_run rs \<and> rs_artifacts rs' = rs_artifacts rs \<and> rs_leases rs' = rs_leases rs
     \<and> rs_actions rs' = rs_actions rs \<and> rs_audit_events rs' = rs_audit_events rs"

lemma adds_refl [simp]: "adds rs rs"
  by (simp add: adds_def)

lemma forward_adds:
  assumes "forward rs rs1" "adds rs1 rs2"
  shows "forward rs rs2"
  unfolding forward_def
proof
  assume "store_ok rs"
  with assms have 1: "store_ok rs1" "store_next rs rs1" "store_ok rs2" "map_grows (rs_jobs rs1) (rs_jobs rs2)"
    by (auto simp: forward_def adds_def)
  then have "\<exists>b. map_of (rs_jobs rs2) k = Some b \<and> job_next a b" if "map_of (rs_jobs rs) k = Some a" for k a
    using that by (fastforce simp: store_next_def map_grows_def)
  moreover have "fresh_job b" if none: "map_of (rs_jobs rs) k = None" and b: "map_of (rs_jobs rs2) k = Some b" for k b
  proof (cases "map_of (rs_jobs rs1) k")
    case None
    with b assms(2) show ?thesis by (simp add: adds_def)
  next
    case (Some c)
    then have "map_of (rs_jobs rs2) k = Some c" using 1(4) by (simp add: map_grows_def)
    with b none Some 1(2) show ?thesis by (simp add: store_next_def)
  qed
  ultimately show "store_ok rs2 \<and> store_next rs rs2"
    using 1 assms(2) by (simp add: store_next_def adds_def)
qed

lemma find_slot_None:
  assumes "find (\<lambda>p. same_slot p m) (map (\<lambda>kv. jb_message (snd kv)) js) = None" "\<forall>(k, j) \<in> set js. job_ok k j"
  shows "map_of js (jm_job_id m) = None"
  using assms by (fastforce simp: find_None_iff same_slot_def job_ok_def map_of_eq_None_iff)

lemma add_event_adds:
  assumes "add_event E m t cause rs = Inr rs'"
  shows "adds rs rs'" "rs_jobs rs' = rs_jobs rs"
  using assms by (auto simp: add_event_def bindE_Inr_iff adds_def store_ok_def)

lemma new_job_adds:
  assumes "find (\<lambda>p. same_slot p m) (map (\<lambda>kv. jb_message (snd kv)) (rs_jobs rs)) = None"
  shows "adds rs (save_job m (new_job m now) rs)"
proof -
  have "store_ok (save_job m (new_job m now) rs) \<and> map_grows (rs_jobs rs) (rs_jobs (save_job m (new_job m now) rs))"
    if ok: "store_ok rs"
  proof -
    have "map_of (rs_jobs rs) (jm_job_id m) = None"
      using find_slot_None [OF assms] ok by (simp add: store_ok_def)
    then have "map_grows (rs_jobs rs) (rs_jobs (save_job m (new_job m now) rs))"
      by (auto simp: map_grows_def save_job_lookup)
    moreover have "store_ok (save_job m (new_job m now) rs)"
      using ok by (intro save_job_ok) (simp_all add: new_job_def job_ok_def)
    ultimately show ?thesis by blast
  qed
  then show ?thesis by (simp add: adds_def save_job_lookup) (simp add: save_job_def fresh_job_def new_job_def)
qed

lemma adds_same_jobs: "adds rs rs1 \<Longrightarrow> adds rs1 rs2 \<Longrightarrow> rs_jobs rs2 = rs_jobs rs1 \<Longrightarrow> adds rs rs2"
  by (auto simp: adds_def store_ok_def)

lemma enqueue_row_adds:
  assumes "enqueue_row E m now rs = Inr rs'"
  shows "adds rs rs'"
proof (cases "find (\<lambda>p. same_slot p m) (map (\<lambda>kv. jb_message (snd kv)) (rs_jobs rs))")
  case None
  with assms have "add_event E m (PInt now) (py ''initial'') (save_job m (new_job m now) rs) = Inr rs'"
    by (auto simp: enqueue_row_def bindE_Inr_iff split: if_splits)
  then show ?thesis
    using adds_same_jobs [OF new_job_adds [OF None]] add_event_adds by blast
next
  case (Some p)
  with assms have "rs' = rs" by (auto simp: enqueue_row_def bindE_Inr_iff split: if_splits)
  then show ?thesis by simp
qed

lemma map_of_map_snd: "map_of (map (\<lambda>(k, v). (k, f v)) m) k = map_option f (map_of m k)"
  by (induction m) auto

lemma job_map_ok:
  assumes "store_ok rs" "\<And>j. job_next j (f j)" "rs_jobs rs' = map (\<lambda>(k, j). (k, f j)) (rs_jobs rs)"
  shows "store_ok rs'"
  using assms job_next_ok by (fastforce simp: store_ok_def comp_def case_prod_unfold)

lemma guard_forward:
  assumes "guard_extract_continuation run now rs = Inr rs1"
  shows "forward rs rs1 \<and> rs_run rs1 = rs_run rs \<and> rs_artifacts rs1 = rs_artifacts rs \<and> rs_leases rs1 = rs_leases rs
    \<and> rs_actions rs1 = rs_actions rs \<and> rs_audit_events rs1 = rs_audit_events rs"
proof -
  let ?f = "\<lambda>j. if jm_stage (jb_message j) = py ''tag'' \<and> jb_status j \<in> {py ''pending'', py ''leased''}
    then j\<lparr>jb_status := py ''superseded'', jb_fencing_token := jb_fencing_token j + 1\<rparr> else j"
  obtain ob where rs1: "rs1 = rs\<lparr>rs_jobs := map (\<lambda>(k, j). (k, ?f j)) (rs_jobs rs), rs_outbox := ob\<rparr>"
    using assms by (auto simp: guard_extract_continuation_def Let_def split: if_splits)
  have f: "job_next j (?f j)" for j
    by (auto simp: job_next_def job_edge_def)
  have "store_ok rs1" if "store_ok rs"
    by (rule job_map_ok [OF that f]) (simp add: rs1)
  moreover have "store_next rs rs1"
    using f by (simp add: store_next_def rs1 map_of_map_snd)
  ultimately show ?thesis by (simp add: forward_def rs1)
qed

lemma claim_row_cases:
  assumes "claim_row m owner now secs rs = Inr (x, rs')"
  obtains (idle) "x = None" "rs' = rs"
  | (leased) j run rs1 leases where "x = Some (lease_of m owner now secs (leased_job owner now secs j))"
      "get_job_row rs m = Inr j" "rs_run rs = Some run" "claimable run j now"
      "rs1 = rs \<or> jm_stage m = py ''extract'' \<and> guard_extract_continuation run now rs = Inr rs1"
      "insert_new (jb_fencing_token j + 1, jm_job_id m) (lease_of m owner now secs (leased_job owner now secs j)) (rs_leases rs1) = Inr leases"
      "rs' = put_run (bump_run run (Some (py ''running''))) ((save_job m (leased_job owner now secs j) rs1)\<lparr>rs_leases := leases\<rparr>)"
proof (cases "get_job_row rs m")
  case (Inl e)
  with assms idle show ?thesis by (simp add: claim_row_def)
next
  case j: (Inr j)
  show ?thesis
  proof (cases "get_run_row rs")
    case (Inl e)
    with assms idle j show ?thesis by (simp add: claim_row_def)
  next
    case run: (Inr run)
    let ?g = "if jm_stage m = py ''extract'' \<and> py ''extract_job'' \<in> fst ` set (rm_stage_fields run)
                     then guard_extract_continuation run now rs else Inr rs"
    show ?thesis
    proof (cases "claimable run j now \<and> okE ?g")
      case False
      with assms idle j run show ?thesis
        by (cases ?g) (auto simp: claim_row_def split: if_splits)
    next
      case True
      then obtain rs1 where rs1: "?g = Inr rs1" by (auto simp: okE_iff)
      then have g: "rs1 = rs \<or> jm_stage m = py ''extract'' \<and> guard_extract_continuation run now rs = Inr rs1"
        by (auto split: if_splits)
      let ?l = "lease_of m owner now secs (leased_job owner now secs j)"
      have tok: "jl_fencing_token ?l = jb_fencing_token j + 1"
        by (simp add: lease_of_def leased_job_def)
      have id: "mk_job_lease ?l = Inr l \<Longrightarrow> l = ?l" for l
        by (auto simp: mk_job_lease_def split: if_splits)
      obtain leases where "insert_new (jb_fencing_token j + 1, jm_job_id m) ?l (rs_leases rs1) = Inr leases" "x = Some ?l"
        "rs' = put_run (bump_run run (Some (py ''running''))) ((save_job m (leased_job owner now secs j) rs1)\<lparr>rs_leases := leases\<rparr>)"
        using assms True j run rs1 tok by (auto simp: claim_row_def bindE_Inr_iff Let_def dest!: id)
      with True j g get_run_rowD [OF run] leased show ?thesis by blast
    qed
  qed
qed

lemma claim_row_forward:
  assumes "claim_row m owner now secs rs = Inr (x, rs')"
  shows "forward rs rs'"
  using assms
proof (cases rule: claim_row_cases)
  case (leased j run rs1 leases)
  have j: "map_of (rs_jobs rs) (jm_job_id m) = Some j" "jb_message j = m"
    using get_job_rowD [OF leased(2)] by auto
  have g: "forward rs rs1" "rs_artifacts rs1 = rs_artifacts rs" "rs_leases rs1 = rs_leases rs"
    "rs_actions rs1 = rs_actions rs" "rs_audit_events rs1 = rs_audit_events rs"
    using leased(5) guard_forward by auto
  have "job_next j (leased_job owner now secs j)"
    using leased(4) by (auto simp: claimable_def leased_job_def job_next_def job_edge_def)
  then have "forward rs (save_job m (leased_job owner now secs j) rs1)"
    by (rule forward_save [OF g(1) j(1) _ j(2)])
  then show ?thesis
    by (rule forward_rows [OF _ _ leased(3), where r' = "bump_run run (Some (py ''running''))" and es = "[]"])
      (use g insert_new_grows(1) [OF leased(6)] in \<open>simp_all add: leased(7) put_run_def save_job_def\<close>)
qed simp

lemma owned_save:
  assumes "owned rs l now wait = Some (j, run)" "jb_message j' = jb_message j" "jb_fencing_token j' = jb_fencing_token j"
    "jb_attempt j' = jb_attempt j" "jb_status j' \<in> {py ''leased'', py ''pending'', py ''failed'', py ''succeeded''}"
  shows "forward rs (save_job (jl_message l) j' rs)"
proof -
  have "job_next j j'"
    using ownedD(4) [OF assms(1)] assms(2-5) by (auto simp: job_next_def job_edge_def)
  then show ?thesis
    using ownedD [OF assms(1)] by (intro forward_save [of rs rs "jl_message l" j j']) simp_all
qed

lemma heartbeat_row_forward:
  assumes "heartbeat_row l now secs elapsed rs = Inr (l', rs')"
  shows "forward rs rs'"
proof -
  obtain j run where o: "owned rs l (now + elapsed) 0 = Some (j, run)"
    using assms by (cases "owned rs l (now + elapsed) 0") (auto simp: heartbeat_row_def Let_def)
  obtain j' where "rs' = save_job (jl_message l) j' rs" "jb_message j' = jb_message j"
    "jb_fencing_token j' = jb_fencing_token j" "jb_attempt j' = jb_attempt j" "jb_status j' = jb_status j"
    using assms o
    by (cases "jb_heartbeat_at j"; cases "jb_lease_until j") (auto simp: heartbeat_row_def bindE_Inr_iff Let_def)
  with ownedD(4) [OF o] owned_save [OF o, of j'] show ?thesis by simp
qed

lemma commit_row_cases:
  assumes "commit_row E l payload now wait nj rs = Inr (ok, rs')"
  obtains (lost) "\<not> ok" "rs' = rs" "owned rs l now wait = None"
  | (committed) j run fields artifacts rs2 where "ok" "owned rs l now wait = Some (j, run)"
      "insert_new (checkpoint_key l) payload (rs_artifacts rs) = Inr artifacts"
      "adds (save_job (jl_message l) (j\<lparr>jb_status := py ''succeeded'', jb_artifact_ref := Some \<lparr>ar_key = checkpoint_key l,
         ar_sha256 = sha256_hex (je_platform E) payload, ar_byte_size = int (length payload)\<rparr>\<rparr>)
         (rs\<lparr>rs_artifacts := artifacts\<rparr>)) rs2"
      "rs' = put_run (bump_run (run\<lparr>rm_stage_fields := fields\<rparr>) None) rs2"
proof (cases "owned rs l now wait")
  case None
  with assms lost show ?thesis by (simp add: commit_row_def)
next
  case (Some jr)
  obtain j run where jr: "jr = (j, run)" by force
  obtain artifacts where art: "insert_new (checkpoint_key l) payload (rs_artifacts rs) = Inr artifacts"
    using assms Some jr by (auto simp: commit_row_def bindE_Inr_iff split: if_splits)
  let ?rs1 = "save_job (jl_message l) (j\<lparr>jb_status := py ''succeeded'', jb_artifact_ref := Some \<lparr>ar_key = checkpoint_key l,
         ar_sha256 = sha256_hex (je_platform E) payload, ar_byte_size = int (length payload)\<rparr>\<rparr>) (rs\<lparr>rs_artifacts := artifacts\<rparr>)"
  obtain fields rs2 where "(case nj of None \<Rightarrow> Inr ?rs1 | Some n \<Rightarrow> enqueue_row E n now ?rs1) = Inr rs2" "ok"
    "rs' = put_run (bump_run (run\<lparr>rm_stage_fields := fields\<rparr>) None) rs2"
    using assms Some jr art by (auto simp: commit_row_def bindE_Inr_iff Let_def split: if_splits)
  moreover from this(1) have "adds ?rs1 rs2"
    by (cases nj) (auto dest: enqueue_row_adds)
  ultimately show ?thesis
    using Some jr art by (intro committed) simp_all
qed

lemma commit_row_forward:
  assumes "commit_row E l payload now wait nj rs = Inr (ok, rs')"
  shows "forward rs rs'"
  using assms
proof (cases rule: commit_row_cases)
  case (committed j run fields artifacts rs2)
  let ?j = "j\<lparr>jb_status := py ''succeeded'', jb_artifact_ref := Some \<lparr>ar_key = checkpoint_key l,
         ar_sha256 = sha256_hex (je_platform E) payload, ar_byte_size = int (length payload)\<rparr>\<rparr>"
  let ?rs1 = "save_job (jl_message l) ?j (rs\<lparr>rs_artifacts := artifacts\<rparr>)"
  note o = ownedD [OF committed(2)]
  have "forward rs (save_job (jl_message l) ?j rs)"
    by (rule owned_save [OF committed(2)]) simp_all
  then have "forward rs ?rs1"
    by (rule forward_rows [OF _ _ o(3), where r' = run and es = "[]"])
      (use insert_new_grows(1) [OF committed(3)] o(3) in \<open>simp_all add: save_job_def\<close>)
  then have "forward rs rs2"
    using committed(4) by (rule forward_adds)
  then show ?thesis
    by (rule forward_rows [OF _ _ o(3), where r' = "bump_run (run\<lparr>rm_stage_fields := fields\<rparr>) None" and es = "[]"])
      (use insert_new_grows(1) [OF committed(3)] committed(4) in
        \<open>simp_all add: committed(5) put_run_def adds_def save_job_def run_next_def bump_run_def\<close>)
qed simp

lemma fail_row_forward:
  assumes "fail_row E l code now wait jitter after rs = Inr (x, rs')"
  shows "forward rs rs'"
proof -
  obtain j run where o: "owned rs l now wait = Some (j, run)"
    using assms by (cases "owned rs l now wait") (auto simp: fail_row_def)
  let ?j = "failed_job E code now jitter after j"
  obtain rs2 st where "(if will_retry code j
        then add_event E (jl_message l) (jb_next_attempt_at ?j) (py ''retry:'' @ dec_of_int (jl_fencing_token l))
          (save_job (jl_message l) ?j rs) else Inr (save_job (jl_message l) ?j rs)) = Inr rs2"
    and rs': "rs' = put_run (bump_run run (Some st)) rs2"
    using assms o unfolding fail_row_def by (simp add: bindE_Inr_iff Let_def) blast
  then have rs2: "adds (save_job (jl_message l) ?j rs) rs2"
    by (auto dest: add_event_adds(1) split: if_splits)
  have "forward rs (save_job (jl_message l) ?j rs)"
    by (rule owned_save [OF o]) (simp_all add: failed_job_def)
  then have "forward rs rs2"
    using rs2 by (rule forward_adds)
  then show ?thesis
    by (rule forward_rows [OF _ _ ownedD(3) [OF o], where r' = "bump_run run (Some st)" and es = "[]"])
      (use rs2 in \<open>simp_all add: rs' put_run_def adds_def save_job_def\<close>)
qed

definition requeued :: "int \<Rightarrow> job \<Rightarrow> job" where
  "requeued now j = (if jb_status j = py ''failed''
     then j\<lparr>jb_status := py ''pending'', jb_next_attempt_at := PInt now, jb_retry_attempt := 0\<rparr> else j)"

lemma requeue_failed_rows:
  assumes "requeue_failed E now rv js rs = Inr rs'" "distinct (map fst js)" "\<forall>(k, j) \<in> set js. jm_job_id (jb_message j) = k"
    "\<forall>(k, j) \<in> set js. map_of (rs_jobs rs) k = Some j"
  shows "rs_run rs' = rs_run rs \<and> rs_artifacts rs' = rs_artifacts rs \<and> rs_leases rs' = rs_leases rs
    \<and> rs_actions rs' = rs_actions rs \<and> rs_audit_events rs' = rs_audit_events rs
    \<and> (distinct (map fst (rs_jobs rs)) \<longrightarrow> distinct (map fst (rs_jobs rs')))
    \<and> map_of (rs_jobs rs') = (\<lambda>k. if k \<in> fst ` set js then map_option (requeued now) (map_of (rs_jobs rs) k) else map_of (rs_jobs rs) k)"
  using assms
proof (induction E now rv js rs arbitrary: rs' rule: requeue_failed.induct)
  case (2 E now rv k j js rs)
  have key: "jm_job_id (jb_message j) = k" "map_of (rs_jobs rs) k = Some j" "k \<notin> fst ` set js"
    using "2.prems" by auto
  show ?case
  proof (cases "jb_status j = py ''failed''")
    case True
    let ?rs1 = "save_job (jb_message j) (requeued now j) rs"
    from True "2.prems"(1) obtain rs2 where rs2: "add_event E (jb_message j) (PInt now) (py ''manual:'' @ dec_of_int rv) ?rs1 = Inr rs2"
      "requeue_failed E now rv js rs2 = Inr rs'"
      by (auto simp: bindE_Inr_iff requeued_def)
    have jobs2: "map_of (rs_jobs rs2) = (map_of (rs_jobs rs))(k \<mapsto> requeued now j)"
      using add_event_adds(2) [OF rs2(1)] key(1) by (simp add: save_job_lookup)
    have dist: "distinct (map fst (rs_jobs rs)) \<longrightarrow> distinct (map fst (rs_jobs rs2))"
      using add_event_adds(2) [OF rs2(1)] by (simp add: save_job_def distinct_update)
    have "\<forall>(k', j') \<in> set js. map_of (rs_jobs rs2) k' = Some j'"
      using "2.prems"(4) key(3) unfolding jobs2 by (force simp: image_iff)
    with "2.IH"(1) [OF True rs2(2)] "2.prems" have ih: "rs_run rs' = rs_run rs2 \<and> rs_artifacts rs' = rs_artifacts rs2
      \<and> rs_leases rs' = rs_leases rs2 \<and> rs_actions rs' = rs_actions rs2 \<and> rs_audit_events rs' = rs_audit_events rs2
      \<and> (distinct (map fst (rs_jobs rs2)) \<longrightarrow> distinct (map fst (rs_jobs rs')))
      \<and> map_of (rs_jobs rs') = (\<lambda>k. if k \<in> fst ` set js then map_option (requeued now) (map_of (rs_jobs rs2) k)
          else map_of (rs_jobs rs2) k)"
      by auto
    moreover have "rs_run rs2 = rs_run rs \<and> rs_artifacts rs2 = rs_artifacts rs \<and> rs_leases rs2 = rs_leases rs
      \<and> rs_actions rs2 = rs_actions rs \<and> rs_audit_events rs2 = rs_audit_events rs"
      using add_event_adds(1) [OF rs2(1)] by (simp add: adds_def save_job_def)
    moreover have "map_of (rs_jobs rs') x = (if x \<in> fst ` set ((k, j) # js) then map_option (requeued now) (map_of (rs_jobs rs) x)
      else map_of (rs_jobs rs) x)" for x
      using ih key(2,3) by (cases "x = k") (simp_all add: jobs2)
    ultimately show ?thesis
      using dist by (simp add: fun_eq_iff)
  next
    case False
    then have same: "requeued now j = j" by (simp add: requeued_def)
    from False "2.prems" have "requeue_failed E now rv js rs = Inr rs'" "distinct (map fst js)"
      "\<forall>(k, j) \<in> set js. jm_job_id (jb_message j) = k" "\<forall>(k, j) \<in> set js. map_of (rs_jobs rs) k = Some j"
      by simp_all
    note ih = "2.IH"(2) [OF False this]
    have "map_of (rs_jobs rs') x = (if x \<in> fst ` set ((k, j) # js) then map_option (requeued now) (map_of (rs_jobs rs) x)
      else map_of (rs_jobs rs) x)" for x
      using ih key(2,3) same by (cases "x = k") simp_all
    with ih show ?thesis by (simp add: fun_eq_iff)
  qed
qed simp

lemma requeue_failed_tables:
  "requeue_failed E now rv js rs = Inr rs' \<Longrightarrow> rs_artifacts rs' = rs_artifacts rs \<and> rs_leases rs' = rs_leases rs
    \<and> rs_actions rs' = rs_actions rs \<and> rs_audit_events rs' = rs_audit_events rs \<and> rs_run rs' = rs_run rs"
proof (induction E now rv js rs arbitrary: rs' rule: requeue_failed.induct)
  case (2 E now rv k j js rs)
  then show ?case
    by (cases "jb_status j = py ''failed''") (fastforce simp: bindE_Inr_iff adds_def save_job_def dest: add_event_adds(1))+
qed simp

lemma action_effect_forward:
  assumes "action_effect E cancel rv now active run rs = Inr (run', rs1)" "rs_run rs = Some run"
  shows "forward rs rs1 \<and> rs_run rs1 = Some run' \<and> run_next run run' \<and> rm_revision run' = rm_revision run + 1
    \<and> (cancel \<longrightarrow> rm_cancellation_requested run') \<and> rs_artifacts rs1 = rs_artifacts rs \<and> rs_leases rs1 = rs_leases rs
    \<and> rs_actions rs1 = rs_actions rs \<and> rs_audit_events rs1 = rs_audit_events rs"
proof (cases cancel)
  case True
  let ?f = "\<lambda>j. if jb_status j \<in> {py ''pending'', py ''leased'', py ''failed''} then j\<lparr>jb_status := py ''cancelled''\<rparr> else j"
  have run': "run' = bump_run (run\<lparr>rm_cancellation_requested := True\<rparr>) (Some (py ''cancelled''))"
    and rs1: "rs1 = put_run run' (cancel_jobs rs)"
    using assms(1) True by (auto simp: action_effect_def Let_def split: if_splits)
  have f: "job_next j (?f j)" for j
    by (auto simp: job_next_def job_edge_def)
  have jobs: "rs_jobs rs1 = map (\<lambda>(k, j). (k, ?f j)) (rs_jobs rs)"
    by (simp add: rs1 put_run_def cancel_jobs_def)
  have "store_ok rs1" if "store_ok rs"
    by (rule job_map_ok [OF that f jobs])
  moreover have rn: "run_next run run'"
    by (simp add: run' run_next_def bump_run_def)
  moreover have "store_next rs rs1"
    using f rn assms(2) by (simp add: store_next_def jobs map_of_map_snd) (simp add: rs1 put_run_def cancel_jobs_def)
  ultimately show ?thesis
    using assms(2) by (simp add: forward_def) (simp add: rs1 run' put_run_def cancel_jobs_def bump_run_def)
next
  case False
  then obtain rs0 where rq: "requeue_failed E now rv (rs_jobs rs) rs = Inr rs0"
    and run': "run' = bump_run run (Some (py ''running''))" and rs1: "rs1 = put_run run' rs0"
    using assms(1) by (auto simp: action_effect_def bindE_Inr_iff Let_def split: if_splits)
  have "store_ok rs1 \<and> store_next rs rs1" if ok: "store_ok rs"
  proof -
    have look: "\<forall>(k, j) \<in> set (rs_jobs rs). map_of (rs_jobs rs) k = Some j"
      using ok by (auto simp: store_ok_def map_of_eq_Some_iff)
    have parts: "distinct (map fst (rs_jobs rs))" "\<forall>(k, j) \<in> set (rs_jobs rs). jm_job_id (jb_message j) = k"
      using ok by (auto simp: store_ok_def job_ok_def)
    note r = requeue_failed_rows [OF rq parts look]
    have jobs: "map_of (rs_jobs rs0) k = map_option (requeued now) (map_of (rs_jobs rs) k)" for k
    proof (cases "map_of (rs_jobs rs) k")
      case None
      then have "k \<notin> fst ` set (rs_jobs rs)" by (simp add: map_of_eq_None_iff)
      with r None show ?thesis by simp
    next
      case (Some j)
      then have "k \<in> fst ` set (rs_jobs rs)" by (force dest: map_of_SomeD)
      with r show ?thesis by simp
    qed
    have f: "job_next j (requeued now j)" for j
      by (auto simp: job_next_def job_edge_def requeued_def)
    have "store_ok rs1"
    proof (rule store_okI)
      show "distinct (map fst (rs_jobs rs1))" using r parts(1) by (simp add: rs1 put_run_def)
      show "job_ok k j" if "map_of (rs_jobs rs1) k = Some j" for k j
      proof -
        from that have "map_option (requeued now) (map_of (rs_jobs rs) k) = Some j" using jobs by (simp add: rs1 put_run_def)
        then show ?thesis using store_ok_lookup [OF ok] job_next_ok [OF f] by (auto simp: map_option_eq_Some)
      qed
    qed
    moreover have "store_next rs rs1"
      using r f assms(2) by (simp add: store_next_def rs1 put_run_def jobs run')
    ultimately show ?thesis by blast
  qed
  moreover have "rs_artifacts rs0 = rs_artifacts rs \<and> rs_leases rs0 = rs_leases rs \<and> rs_actions rs0 = rs_actions rs
    \<and> rs_audit_events rs0 = rs_audit_events rs"
    using requeue_failed_tables [OF rq] by blast
  ultimately show ?thesis
    using False by (simp add: forward_def run') (simp add: rs1 run' put_run_def bump_run_def run_next_def)
qed

lemma forward_audit:
  assumes "forward rs rs1" "rs_jobs rs2 = rs_jobs rs1" "rs_run rs2 = rs_run rs1" "rs_artifacts rs2 = rs_artifacts rs1"
    "rs_leases rs2 = rs_leases rs1" "map_grows (rs_actions rs) (rs_actions rs2)"
    "rs_audit_events rs2 = rs_audit_events rs @ es"
  shows "forward rs rs2"
  using assms by (auto simp: forward_def store_next_def store_ok_def)

lemma append_audit_rows:
  assumes "append_audit_transaction P utc change head eid t rs = Inr rs'"
  obtains ev h where "rs' = rs\<lparr>rs_audit_events := rs_audit_events rs @ [ev], rs_audit_head := Some h\<rparr>"
  using assms by (auto simp: append_audit_transaction_def bindE_Inr_iff split: if_splits prod.splits)

lemma apply_action_cases:
  assumes "apply_action E tenant run_id cancel rv reason now actor active t key h run rs = Inr (r, rs')"
  obtains rs1 idem a actions ev hd where "action_effect E cancel rv now active run rs = Inr (r, rs1)"
    "insert_new (rm_revision r) a (rs_actions rs1) = Inr actions"
    "rs' = rs1\<lparr>rs_idempotency := idem, rs_actions := actions, rs_audit_events := rs_audit_events rs1 @ [ev], rs_audit_head := Some hd\<rparr>"
proof -
  obtain rs1 where eff: "action_effect E cancel rv now active run rs = Inr (r, rs1)"
    using assms by (auto simp: apply_action_def bindE_Inr_iff Let_def)
  obtain idem a actions P utc change head eid where "insert_new (rm_revision r) a (rs_actions rs1) = Inr actions"
    "append_audit_transaction P utc change head eid t (rs1\<lparr>rs_idempotency := idem, rs_actions := actions\<rparr>) = Inr rs'"
    using assms unfolding apply_action_def Let_def eff by (simp add: bindE_Inr_iff) blast
  then show ?thesis
    using that [OF eff] by (elim append_audit_rows) simp
qed

lemma action_row_cases:
  assumes "action_row E tenant run_id cancel rv ikey reason now actor active rs = Inr (r, rs')"
  obtains (replayed) key previous where "rs' = rs" "r = ip_response previous" "map_of (rs_idempotency rs) key = Some previous"
      "now < ip_expires_at previous"
  | (applied) run t key h where "get_run_row rs = Inr run" "rm_revision run = rv"
      "apply_action E tenant run_id cancel rv reason now actor active t key h run rs = Inr (r, rs')"
proof -
  obtain t key h run where run: "get_run_row rs = Inr run"
    and c: "(case (case map_of (rs_idempotency rs) key of None \<Rightarrow> None | Some p \<Rightarrow> if now < ip_expires_at p then Some p else None) of
        Some previous \<Rightarrow>
          if ip_request_hash previous \<noteq> h then Inl (JobConflict ''idempotency key reused with different request'')
          else Inr (ip_response previous, rs)
      | None \<Rightarrow>
        if rm_revision run \<noteq> rv then Inl (JobConflict ''stale revision'')
        else apply_action E tenant run_id cancel rv reason now actor active t key h run rs) = Inr (r, rs')"
    using assms unfolding action_row_def Let_def bindE_Inr_iff by (elim exE conjE)
  show ?thesis
  proof (cases "case map_of (rs_idempotency rs) key of None \<Rightarrow> None | Some p \<Rightarrow> if now < ip_expires_at p then Some p else None")
    case None
    with c have "rm_revision run = rv" "apply_action E tenant run_id cancel rv reason now actor active t key h run rs = Inr (r, rs')"
      by (simp_all split: if_splits)
    with run applied show ?thesis by blast
  next
    case (Some p)
    with c have "rs' = rs" "r = ip_response p" by (simp_all split: if_splits)
    with Some replayed show ?thesis by (simp split: option.splits if_splits)
  qed
qed

lemma action_row_forward:
  assumes "action_row E tenant run_id cancel rv ikey reason now actor active rs = Inr (r, rs')"
  shows "forward rs rs'"
  using assms
proof (cases rule: action_row_cases)
  case (applied run t key h)
  obtain rs1 idem a actions ev hd where eff: "action_effect E cancel rv now active run rs = Inr (r, rs1)"
    and ins: "insert_new (rm_revision r) a (rs_actions rs1) = Inr actions"
    and rs': "rs' = rs1\<lparr>rs_idempotency := idem, rs_actions := actions, rs_audit_events := rs_audit_events rs1 @ [ev], rs_audit_head := Some hd\<rparr>"
    by (rule apply_action_cases [OF applied(3)])
  note f = action_effect_forward [OF eff get_run_rowD [OF applied(1)]]
  then have "forward rs rs1" by blast
  then show ?thesis
    by (rule forward_audit [where es = "[ev]"]) (use f insert_new_grows(1) [OF ins] in \<open>simp_all add: rs'\<close>)
qed simp

lemma mark_row_forward:
  assumes "mark_row eid now sent n rs = Inr (b, rs')"
  shows "forward rs rs'"
  using assms by (auto simp: mark_row_def forward_def store_next_def store_ok_def split: option.splits if_splits)

section \<open>Lease rows\<close>

text \<open>Every lease that was handed out names a job whose fencing token is at least the one of the lease.\<close>

definition leases_ok :: "run_store \<Rightarrow> bool" where
  "leases_ok rs \<longleftrightarrow> (\<forall>((t, i), _) \<in> set (rs_leases rs). \<exists>j. map_of (rs_jobs rs) i = Some j \<and> t \<le> jb_fencing_token j)"

lemma job_next_token: "job_next a b \<Longrightarrow> jb_fencing_token a \<le> jb_fencing_token b"
  by (auto simp: job_next_def)

lemma leases_kept:
  assumes "leases_ok rs" "store_next rs rs'" "rs_leases rs' = rs_leases rs"
  shows "leases_ok rs'"
  unfolding leases_ok_def
proof safe
  fix t i l assume "((t, i), l) \<in> set (rs_leases rs')"
  with assms(1,3) obtain j where j: "map_of (rs_jobs rs) i = Some j" "t \<le> jb_fencing_token j"
    by (fastforce simp: leases_ok_def)
  with assms(2) obtain j' where "map_of (rs_jobs rs') i = Some j'" "job_next j j'"
    by (fastforce simp: store_next_def)
  with j show "\<exists>j. map_of (rs_jobs rs') i = Some j \<and> t \<le> jb_fencing_token j"
    using job_next_token by force
qed

lemma other_rows_keep_leases:
  "enqueue_row E m now rs = Inr rs' \<Longrightarrow> rs_leases rs' = rs_leases rs"
  "heartbeat_row l now secs elapsed rs = Inr (l', rs') \<Longrightarrow> rs_leases rs' = rs_leases rs"
  "commit_row E l payload now wait nj rs = Inr (ok, rs') \<Longrightarrow> rs_leases rs' = rs_leases rs"
  "fail_row E l code now wait jitter after rs = Inr (x, rs') \<Longrightarrow> rs_leases rs' = rs_leases rs"
  "action_row E tenant run_id cancel rv ikey reason now actor active rs = Inr (r, rs') \<Longrightarrow> rs_leases rs' = rs_leases rs"
  "mark_row eid now sent n rs = Inr (b, rs') \<Longrightarrow> rs_leases rs' = rs_leases rs"
  subgoal using enqueue_row_adds by (simp add: adds_def)
  subgoal by (auto simp: heartbeat_row_def Let_def bindE_Inr_iff save_job_def split: option.splits)
  subgoal by (erule commit_row_cases) (auto simp: put_run_def adds_def save_job_def)
  subgoal
    by (auto simp: fail_row_def Let_def bindE_Inr_iff put_run_def save_job_def add_event_def split: option.splits if_splits)
  subgoal
    by (erule action_row_cases) (auto elim!: apply_action_cases dest: action_effect_forward [OF _ get_run_rowD])
  subgoal by (auto simp: mark_row_def split: option.splits if_splits)
  done

lemma claim_row_leases:
  assumes "claim_row m owner now secs rs = Inr (x, rs')" "store_ok rs" "leases_ok rs"
  shows "leases_ok rs'"
  using assms(1)
proof (cases rule: claim_row_cases)
  case (leased j run rs1 leases)
  have g: "forward rs rs1" "rs_leases rs1 = rs_leases rs"
    using leased(5) guard_forward by auto
  let ?rs2 = "save_job m (leased_job owner now secs j) rs1"
  have "store_next rs rs'" using claim_row_forward [OF assms(1)] assms(2) by (simp add: forward_def)
  then have old: "leases_ok (rs'\<lparr>rs_leases := rs_leases rs\<rparr>)"
    by (intro leases_kept [OF assms(3)]) (simp_all add: store_next_def)
  have new: "map_of (rs_jobs rs') (jm_job_id m) = Some (leased_job owner now secs j)"
    by (simp add: leased(7) put_run_def save_job_lookup)
  have "rs_leases rs' = rs_leases rs @ [((jb_fencing_token j + 1, jm_job_id m), lease_of m owner now secs (leased_job owner now secs j))]"
    using leased(6) g(2) by (auto simp: leased(7) put_run_def insert_new_def split: if_splits)
  with old new show ?thesis by (auto simp: leases_ok_def leased_job_def)
qed (use assms(3) in simp)

section \<open>The database\<close>

definition db_ok :: "job_db \<Rightarrow> bool" where
  "db_ok db \<longleftrightarrow> (\<forall>k. store_ok (store_of db k) \<and> leases_ok (store_of db k))"

definition job_le :: "job \<Rightarrow> job \<Rightarrow> bool" where
  "job_le a b \<longleftrightarrow> jb_message b = jb_message a \<and> jb_fencing_token a \<le> jb_fencing_token b
     \<and> (jb_status a \<in> {py ''succeeded'', py ''cancelled'', py ''superseded''} \<longrightarrow> b = a)"

definition run_le :: "run_meta \<Rightarrow> run_meta \<Rightarrow> bool" where
  "run_le r r' \<longleftrightarrow> rm_document_version_id r' = rm_document_version_id r \<and> rm_revision r \<le> rm_revision r'
     \<and> (rm_cancellation_requested r \<longrightarrow> rm_cancellation_requested r')"

definition store_le :: "run_store \<Rightarrow> run_store \<Rightarrow> bool" where
  "store_le rs rs' \<longleftrightarrow>
     (\<forall>k a. map_of (rs_jobs rs) k = Some a \<longrightarrow> (\<exists>b. map_of (rs_jobs rs') k = Some b \<and> job_le a b))
     \<and> (\<forall>r. rs_run rs = Some r \<longrightarrow> (\<exists>r'. rs_run rs' = Some r' \<and> run_le r r'))
     \<and> map_grows (rs_artifacts rs) (rs_artifacts rs') \<and> map_grows (rs_actions rs) (rs_actions rs')
     \<and> (\<exists>es. rs_audit_events rs' = rs_audit_events rs @ es)"

definition db_le :: "job_db \<Rightarrow> job_db \<Rightarrow> bool" where
  "db_le db db' \<longleftrightarrow> (\<forall>k. store_le (store_of db k) (store_of db' k))"

lemma job_le_refl [simp]: "job_le j j"
  by (simp add: job_le_def)

lemma job_le_trans: "job_le a b \<Longrightarrow> job_le b c \<Longrightarrow> job_le a c"
  by (auto simp: job_le_def)

lemma run_le_trans: "run_le a b \<Longrightarrow> run_le b c \<Longrightarrow> run_le a c"
  by (auto simp: run_le_def)

lemma store_le_refl [simp]: "store_le rs rs"
  by (simp add: store_le_def run_le_def)

lemma store_le_trans:
  assumes "store_le a b" "store_le b c"
  shows "store_le a c"
proof -
  have "\<exists>y. map_of (rs_jobs c) k = Some y \<and> job_le x y" if "map_of (rs_jobs a) k = Some x" for k x
    using assms that unfolding store_le_def by (meson job_le_trans)
  moreover have "\<exists>y. rs_run c = Some y \<and> run_le x y" if "rs_run a = Some x" for x
    using assms that unfolding store_le_def by (meson run_le_trans)
  moreover have "\<exists>es. rs_audit_events c = rs_audit_events a @ es"
    using assms unfolding store_le_def by force
  ultimately show ?thesis
    using assms map_grows_trans unfolding store_le_def by metis
qed

lemma job_next_le: "job_next a b \<Longrightarrow> job_le a b"
  by (auto simp: job_next_def job_le_def job_edge_def)

lemma store_next_le: "store_next a b \<Longrightarrow> store_le a b"
  unfolding store_next_def store_le_def run_next_def run_le_def
  by (intro conjI) (blast dest: job_next_le, force, blast+)

text \<open>
  The steps of the database: the operations of the store, and the writes of other components to the records it reads
  (the retention tombstone and the tag records).
\<close>

inductive job_step :: "job_env \<Rightarrow> job_db \<Rightarrow> job_db \<Rightarrow> bool" for E where
  create: "create_run tenant run version db = Inr db' \<Longrightarrow> job_step E db db'"
| enqueue: "enqueue E m now db = Inr (u, db') \<Longrightarrow> job_step E db db'"
| claim: "claim_job m owner now secs db = Inr (x, db') \<Longrightarrow> job_step E db db'"
| heartbeat: "heartbeat l now secs elapsed db = Inr (l', db') \<Longrightarrow> job_step E db db'"
| commit: "commit_job E l payload now wait nj db = Inr (ok, db') \<Longrightarrow> job_step E db db'"
| fail: "fail_job E l code now wait jitter after db = Inr (j, db') \<Longrightarrow> job_step E db db'"
| action: "run_action_op E tenant run_id cancel rv ikey reason now actor db = Inr (r, db') \<Longrightarrow> job_step E db db'"
| mark: "mark_outbox tenant run_id eid now sent n db = Inr (b, db') \<Longrightarrow> job_step E db db'"
| tombstone: "job_step E db (put_store k ((store_of db k)\<lparr>rs_deleted := True\<rparr>) db)"
| tagged: "job_step E db (put_store k ((store_of db k)\<lparr>rs_tag_records := b\<rparr>) db)"

lemma store_of_put: "store_of (put_store k rs db) k' = (if k' = k then rs else store_of db k')"
  by (simp add: store_of_def put_store_def update_conv')

lemma on_runD:
  assumes "on_run k f db = Inr (x, db')"
  obtains rs' where "f (store_of db k) = Inr (x, rs')" "db' = put_store k rs' db"
  using assms by (auto simp: on_run_def bindE_Inr_iff)

definition row_step :: "run_store \<Rightarrow> run_store \<Rightarrow> bool" where
  "row_step rs rs' \<longleftrightarrow> forward rs rs' \<and> (store_ok rs \<longrightarrow> leases_ok rs \<longrightarrow> leases_ok rs')"

lemma row_step_same_leases: "forward rs rs' \<Longrightarrow> rs_leases rs' = rs_leases rs \<Longrightarrow> row_step rs rs'"
  by (auto simp: row_step_def forward_def intro: leases_kept)

lemma row_steps:
  "enqueue_row E m now rs = Inr rs' \<Longrightarrow> row_step rs rs'"
  "claim_row m owner now secs rs = Inr (x, rs') \<Longrightarrow> row_step rs rs'"
  "heartbeat_row l now secs elapsed rs = Inr (l', rs') \<Longrightarrow> row_step rs rs'"
  "commit_row E l payload now wait nj rs = Inr (ok, rs') \<Longrightarrow> row_step rs rs'"
  "fail_row E l code now wait jitter after rs = Inr (j, rs') \<Longrightarrow> row_step rs rs'"
  "action_row E tenant run_id cancel rv ikey reason now actor active rs = Inr (r, rs') \<Longrightarrow> row_step rs rs'"
  "mark_row eid now sent n rs = Inr (b, rs') \<Longrightarrow> row_step rs rs'"
  subgoal by (rule row_step_same_leases [OF forward_adds [OF forward_refl enqueue_row_adds] other_rows_keep_leases(1)])
  subgoal unfolding row_step_def using claim_row_forward claim_row_leases by blast
  subgoal by (rule row_step_same_leases [OF heartbeat_row_forward other_rows_keep_leases(2)])
  subgoal by (rule row_step_same_leases [OF commit_row_forward other_rows_keep_leases(3)])
  subgoal by (rule row_step_same_leases [OF fail_row_forward other_rows_keep_leases(4)])
  subgoal by (rule row_step_same_leases [OF action_row_forward other_rows_keep_leases(5)])
  subgoal by (rule row_step_same_leases [OF mark_row_forward other_rows_keep_leases(6)])
  done

lemma fresh_row_step: "rs_run rs = None \<Longrightarrow> row_step rs (put_run r rs)"
  by (rule row_step_same_leases) (simp_all add: put_run_def forward_def store_next_def store_ok_def)

lemma flag_row_step: "row_step rs (rs\<lparr>rs_deleted := b\<rparr>)" "row_step rs (rs\<lparr>rs_tag_records := b\<rparr>)"
  by (rule row_step_same_leases; simp add: forward_def store_next_def store_ok_def)+

text \<open>A step of the database moves the records of one run.\<close>

definition row_moved :: "job_db \<Rightarrow> job_db \<Rightarrow> bool" where
  "row_moved db db' \<longleftrightarrow> (\<exists>k rs'. db' = put_store k rs' db \<and> row_step (store_of db k) rs')"

lemma put_moved: "row_step (store_of db k) rs' \<Longrightarrow> row_moved db (put_store k rs' db)"
  unfolding row_moved_def by blast

lemma on_run_moved: "on_run k f db = Inr (x, db') \<Longrightarrow> (\<And>rs'. f (store_of db k) = Inr (x, rs') \<Longrightarrow> row_step (store_of db k) rs') \<Longrightarrow> row_moved db db'"
  unfolding row_moved_def by (erule on_runD) blast

lemma job_step_row: "job_step E db db' \<Longrightarrow> row_moved db db'"
proof (induction rule: job_step.induct)
  case (create tenant run version db db')
  then show ?case
    by (auto simp: create_run_def bindE_Inr_iff Let_def split: if_splits intro: put_moved fresh_row_step)
next
  case (enqueue m now db u db')
  then show ?case
    by (auto simp: enqueue_def bindE_Inr_iff elim!: on_run_moved intro: row_steps(1))
next
  case (claim m owner now secs db x db')
  then show ?case
    by (auto simp: claim_job_def bindE_Inr_iff elim!: on_run_moved intro: row_steps(2) split: if_splits)
next
  case (heartbeat l now secs elapsed db l' db')
  then show ?case
    by (auto simp: heartbeat_def bindE_Inr_iff elim!: on_run_moved intro: row_steps(3))
next
  case (commit l payload now wait nj db ok db')
  then show ?case
    by (auto simp: commit_job_def bindE_Inr_iff elim!: on_run_moved intro: row_steps(4) split: if_splits)
next
  case (fail l code now wait jitter after db j db')
  then show ?case
    by (auto simp: fail_job_def bindE_Inr_iff elim!: on_run_moved intro: row_steps(5) split: if_splits)
next
  case (action tenant run_id cancel rv ikey reason now actor db r db')
  then show ?case
    by (auto simp: run_action_op_def bindE_Inr_iff elim!: on_run_moved intro: row_steps(6) split: if_splits)
next
  case (mark tenant run_id eid now sent n db b db')
  then show ?case
    by (auto simp: mark_outbox_def bindE_Inr_iff elim!: on_run_moved intro: row_steps(7))
qed (rule put_moved, rule flag_row_step)+

lemma job_step_ok: "db_ok db \<Longrightarrow> job_step E db db' \<Longrightarrow> db_ok db'"
  by (drule job_step_row) (auto simp: row_moved_def db_ok_def store_of_put row_step_def forward_def)

lemma job_step_next: "db_ok db \<Longrightarrow> job_step E db db' \<Longrightarrow> store_next (store_of db k) (store_of db' k)"
  by (drule job_step_row) (auto simp: row_moved_def db_ok_def store_of_put row_step_def forward_def)

interpretation jdb: growing_store "job_step E" db_ok db_le for E
proof
  show "db_le db db''" if "db_le db db'" "db_le db' db''" for db db' db''
    using that store_le_trans unfolding db_le_def by blast
qed (auto simp: db_le_def intro: job_step_ok store_next_le job_step_next)

lemma empty_db_ok [simp]: "db_ok []"
  by (simp add: db_ok_def store_of_def empty_store_def store_ok_def leases_ok_def)

text \<open>Databases that the store can produce.\<close>

definition job_reachable :: "job_env \<Rightarrow> job_db \<Rightarrow> bool" where
  "job_reachable E db \<longleftrightarrow> (job_step E)\<^sup>*\<^sup>* [] db"

lemma job_reachable_ok: "job_reachable E db \<Longrightarrow> db_ok db"
  unfolding job_reachable_def using jdb.steps_good empty_db_ok by blast

end
