(* ===== verification/Jobs_Props.thy ===== *)
theory Jobs_Props
  imports Jobs_Inv
begin

text \<open>
  What the durable job store promises to its workers and operators, for every database it can produce and every interleaving of its operations:
  a later claim fences off the earlier lease, a committed checkpoint stays readable, a cancelled run starts no more work, every job follows the life
  cycle \<^const>\<open>job_edge\<close>, and a pending job can be claimed.
\<close>

section \<open>A small run\<close>

text \<open>One run with one parse job, used to show that the hypotheses of the properties can hold.\<close>

definition sample_env :: job_env where
  "sample_env = \<lparr>je_platform = hex_platform, je_uuid5 = (\<lambda>_. uuid_of 9), je_utc_text = (\<lambda>_. Inr (py ''2026-01-01T00:00:00Z'')),
     je_iso_utc = (\<lambda>_. True), je_fadd = (\<lambda>i q. of_int i + q), je_stage_check = (\<lambda>_ run _ _ _. Inr (rm_stage_fields run))\<rparr>"

definition sample_msg :: job_message where
  "sample_msg = \<lparr>jm_tenant_id = uuid_of 1, jm_run_id = uuid_of 2, jm_document_version_id = uuid_of 3, jm_job_id = uuid_of 4,
     jm_stage = py ''parse'', jm_shard = py ''all'', jm_input_hash = hex64\<rparr>"

definition sample_run :: "int \<Rightarrow> pystr \<Rightarrow> run_meta" where
  "sample_run n status = \<lparr>rm_tenant_id = uuid_of 1, rm_run_id = uuid_of 2, rm_document_version_id = uuid_of 3, rm_status = status,
     rm_revision = n + 1, rm_mutation_epoch = n, rm_cancellation_requested = False, rm_execution_profile = KIND, rm_stage_fields = []\<rparr>"

definition created_db :: job_db where
  "created_db = [((uuid_of 1, uuid_of 2), empty_store\<lparr>rs_run := Some (sample_run 0 (py ''queued''))\<rparr>)]"

definition queued_store :: run_store where
  "queued_store = empty_store\<lparr>rs_run := Some (sample_run 0 (py ''queued'')), rs_jobs := [(uuid_of 4, new_job sample_msg 0)],
     rs_outbox := [(uuid_of 9, \<lparr>ob_message = sample_msg, ob_status = py ''pending'', ob_next_attempt_at = PInt 0, ob_attempts = 0\<rparr>)]\<rparr>"

definition queued_db :: job_db where
  "queued_db = [((uuid_of 1, uuid_of 2), queued_store)]"

definition first_job :: job where
  "first_job = leased_job (py ''w1'') 0 10 (new_job sample_msg 0)"

definition first_lease :: job_lease where
  "first_lease = lease_of sample_msg (py ''w1'') 0 10 first_job"

definition leased_store :: run_store where
  "leased_store = queued_store\<lparr>rs_run := Some (sample_run 1 (py ''running'')), rs_jobs := [(uuid_of 4, first_job)],
     rs_leases := [((1, uuid_of 4), first_lease)]\<rparr>"

definition leased_db :: job_db where
  "leased_db = [((uuid_of 1, uuid_of 2), leased_store)]"

lemma sample_fields [simp]:
  "message_key sample_msg = (uuid_of 1, uuid_of 2)" "jm_job_id sample_msg = uuid_of 4" "jm_stage sample_msg = py ''parse''"
  "jm_tenant_id sample_msg = uuid_of 1" "jm_run_id sample_msg = uuid_of 2" "jm_document_version_id sample_msg = uuid_of 3"
  "rm_cancellation_requested (sample_run n s) = False" "rm_document_version_id (sample_run n s) = uuid_of 3"
  "rm_stage_fields (sample_run n s) = []" "je_platform sample_env = hex_platform"
  by (simp_all add: message_key_def sample_msg_def sample_run_def sample_env_def)

lemma store_of_single [simp]: "store_of [(k, rs)] k = rs"
  by (simp add: store_of_def)

lemma put_store_single [simp]: "put_store k rs [(k, rs0)] = [(k, rs)]"
  by (simp add: put_store_def)

lemma sample_bump: "bump_run (sample_run n s) (Some t) = sample_run (n + 1) t" "bump_run (sample_run n s) None = sample_run (n + 1) s"
  by (simp_all add: bump_run_def sample_run_def)

lemma hex_hash: "json_finite v \<Longrightarrow> canonical_hash hex_platform v = Inr hex64"
  by (simp add: canonical_hash_def canonical_json_def hex_platform_def)

lemma sample_created: "create_run (uuid_of 1) (uuid_of 2) (uuid_of 3) [] = Inr created_db"
  by (simp add: create_run_def check_scope_def check_uuid_def sample_uuids Let_def store_of_def empty_store_def put_store_def put_run_def
      created_db_def sample_run_def)

lemma sample_queued: "enqueue sample_env sample_msg 0 created_db = Inr ((), queued_db)"
  by (simp add: enqueue_def check_time_def on_run_def enqueue_row_def created_db_def get_run_row_def empty_store_def add_event_def
      outbox_id_def hex_hash message_json_def insert_new_def save_job_def queued_db_def queued_store_def sample_env_def)

lemma sample_owners [simp]: "py_strip (py ''w1'') \<noteq> []" "py_strip (py ''w2'') \<noteq> []"
  by (simp_all add: py_strip_Nil_iff) (simp_all add: py_def py_isspace_def)

lemma sample_leased: "claim_job sample_msg (py ''w1'') 0 10 queued_db = Inr (Some first_lease, leased_db)"
proof -
  have "claim_row sample_msg (py ''w1'') 0 10 queued_store = Inr (Some first_lease, leased_store)"
    by (simp add: claim_row_def get_job_row_def get_run_row_def queued_store_def empty_store_def new_job_def claimable_def Let_def
        mk_job_lease_def lease_of_def leased_job_def insert_new_def leased_store_def first_lease_def first_job_def put_run_def
        save_job_def sample_bump)
  then show ?thesis
    by (simp add: claim_job_def check_time_def on_run_def queued_db_def leased_db_def)
qed

lemma sample_reachable: "job_reachable sample_env queued_db" "job_reachable sample_env leased_db"
proof -
  have "job_step sample_env [] created_db" using sample_created by (rule job_step.create)
  moreover have "job_step sample_env created_db queued_db" using sample_queued by (rule job_step.enqueue)
  ultimately show q: "job_reachable sample_env queued_db" unfolding job_reachable_def by simp
  have "job_step sample_env queued_db leased_db" using sample_leased by (rule job_step.claim)
  with q show "job_reachable sample_env leased_db" unfolding job_reachable_def by simp
qed


lemma sample_committed: "\<exists>db. commit_job sample_env first_lease [1, 2, 3] 5 0 None leased_db = Inr (True, db)"
  by (simp add: commit_job_def check_time_def on_run_def leased_db_def commit_row_def owned_def get_job_row_def get_run_row_def
      leased_store_def queued_store_def empty_store_def new_job_def Let_def lease_of_def leased_job_def insert_new_def
      first_lease_def first_job_def sample_env_def)

definition cancel_change :: change_set where
  "cancel_change = \<lparr>cs_tenant_id = uuid_of 1, cs_run_id = uuid_of 2, cs_actor_sub = py ''op'', cs_action = py ''cancel'',
     cs_target_id = uuid_of 2, cs_before_hash = Some hex64, cs_after_hash = hex64, cs_revision = 3, cs_reason = Some (py ''stop'')\<rparr>"

lemma sample_cancel_event: "\<exists>ev h. new_audit_event hex_platform (\<lambda>_. True) cancel_change sample_head (uuid_of 9) (py ''2026-01-01T00:00:00Z'') = Inr (ev, h)"
proof -
  have z: "py_endswith (py ''2026-01-01T00:00:00Z'') (py ''Z'')"
    by (simp add: py_endswith_def) (simp add: py_def)
  have h: "hash_event hex_platform e = Inr hex64" for e
    by (simp add: hash_event_def canonical_hash_def canonical_json_def event_json_def hex_platform_def)
  have r: "is_sha256 (replicate 64 48)"
    using sample_uuids(2) by (simp add: hex64_def)
  show ?thesis
    by (simp add: new_audit_event_def mk_audit_event_def mk_audit_head_def candidate_event_def cancel_change_def sample_head_def
        check_uuid_def check_sha256_def required_text_def optional_hash_def optional_text_def utc_timestamp_def
        sample_uuids z h r)
qed

lemma sample_finite: "json_finite (state_json run [(k, j)]) \<longleftrightarrow> list_all (\<lambda>kv. json_finite (snd kv)) (rm_stage_fields run)"
  by (cases "jb_next_attempt_at j") (auto simp: state_json_def run_json_def job_json_def message_json_def opt_str_def list_all_iff split: option.splits)

lemma sample_change_made: "mk_change_set cancel_change = Inr cancel_change"
  by (simp add: mk_change_set_def cancel_change_def check_uuid_def check_sha256_def required_text_def optional_hash_def
      optional_text_def sample_uuids)

lemma sample_cancel_row:
  "\<exists>r rs. action_row sample_env (uuid_of 1) (uuid_of 2) True 2 (replicate 16 97) (py ''stop'') 5 (py ''op'') n leased_store = Inr (r, rs)"
proof -
  let ?run = "sample_run 1 (py ''running'')"
  let ?run' = "bump_run (?run\<lparr>rm_cancellation_requested := True\<rparr>) (Some (py ''cancelled''))"
  have rev: "rm_revision ?run = 2" "rm_revision ?run' = 3" "rm_status ?run = py ''running''" "rm_stage_fields ?run' = []"
    by (simp_all add: sample_run_def bump_run_def)
  have rows: "rs_jobs leased_store = [(uuid_of 4, first_job)]" "rs_idempotency leased_store = []" "get_run_row leased_store = Inr ?run"
    "rs_actions leased_store = []" "rs_audit_events leased_store = []" "rs_audit_head leased_store = None"
    by (simp_all add: leased_store_def queued_store_def empty_store_def get_run_row_def)
  obtain rs1 j where eff: "action_effect sample_env True 2 5 n ?run leased_store = Inr (?run', rs1)"
    and rs1: "rs_jobs rs1 = [(uuid_of 4, j)]" "rs_actions rs1 = []" "rs_audit_events rs1 = []" "rs_audit_head rs1 = None"
  proof
    show "action_effect sample_env True 2 5 n ?run leased_store = Inr (?run', put_run ?run' (cancel_jobs leased_store))"
      by (simp add: action_effect_def rev Let_def)
  qed (simp_all add: put_run_def cancel_jobs_def rows)
  obtain ev h where ev: "new_audit_event hex_platform (\<lambda>_. True) cancel_change sample_head (uuid_of 9) (py ''2026-01-01T00:00:00Z'') = Inr (ev, h)"
    using sample_cancel_event by blast
  have env: "je_utc_text sample_env 5 = Inr (py ''2026-01-01T00:00:00Z'')" "je_uuid5 sample_env x = uuid_of 9" "je_iso_utc sample_env = (\<lambda>_. True)" for x
    by (simp_all add: sample_env_def)
  have head: "read_audit_head (uuid_of 1) (uuid_of 2) (rs1\<lparr>rs_idempotency := i\<rparr>) = Inr sample_head"
    "read_audit_head (uuid_of 1) (uuid_of 2) (rs1\<lparr>rs_idempotency := i, rs_actions := a\<rparr>) = Inr sample_head" for i a
    using sample_empty by (simp_all add: read_audit_head_def rs1)
  have change: "cs_tenant_id cancel_change = uuid_of 1" "cs_run_id cancel_change = uuid_of 2"
    by (simp_all add: cancel_change_def)
  show ?thesis
    by (simp add: action_row_def apply_action_def Let_def rows rev eff hex_hash sample_finite env rs1 head insert_new_def
        cancel_change_def [symmetric] sample_change_made append_audit_transaction_def ev change del: One_nat_def)
qed

lemma sample_cancelled: "\<exists>r db. cancel_run sample_env (uuid_of 1) (uuid_of 2) 2 (replicate 16 97) (py ''stop'') 5 (py ''op'') leased_db = Inr (r, db)"
proof -
  have "py_strip (py ''stop'') \<noteq> []" "py_strip (py ''op'') \<noteq> []"
    by (simp_all add: py_strip_Nil_iff) (simp_all add: py_def py_isspace_def)
  moreover obtain r rs where "action_row sample_env (uuid_of 1) (uuid_of 2) True 2 (replicate 16 97) (py ''stop'') 5 (py ''op'')
      (active_run_count (uuid_of 1) leased_db) leased_store = Inr (r, rs)"
    using sample_cancel_row by blast
  moreover have "store_of leased_db (uuid_of 1, uuid_of 2) = leased_store"
    by (simp add: leased_db_def)
  ultimately show ?thesis
    by (simp add: cancel_run_def run_action_op_def check_scope_def check_uuid_def check_time_def sample_uuids on_run_def)
qed

section \<open>Moving along the steps\<close>

lemma reachable_store_ok:
  assumes "job_reachable E db"
  shows "store_ok (store_of db k)" "leases_ok (store_of db k)"
  using job_reachable_ok [OF assms] unfolding db_ok_def by blast+

lemma later_store: "(job_step E)\<^sup>*\<^sup>* db db' \<Longrightarrow> db_ok db \<Longrightarrow> store_le (store_of db k) (store_of db' k)"
  using jdb.steps_le unfolding db_le_def by blast

lemma later_job:
  assumes "(job_step E)\<^sup>*\<^sup>* db db'" "db_ok db" "map_of (rs_jobs (store_of db k)) i = Some a"
  obtains b where "map_of (rs_jobs (store_of db' k)) i = Some b" "job_le a b"
  using later_store [OF assms(1,2), of k] assms(3) unfolding store_le_def by blast

lemma later_run:
  assumes "(job_step E)\<^sup>*\<^sup>* db db'" "db_ok db" "rs_run (store_of db k) = Some r"
  obtains r' where "rs_run (store_of db' k) = Some r'" "run_le r r'"
  using later_store [OF assms(1,2), of k] assms(3) unfolding store_le_def by blast

lemma later_artifact:
  assumes "(job_step E)\<^sup>*\<^sup>* db db'" "db_ok db" "map_of (rs_artifacts (store_of db k)) i = Some a"
  shows "map_of (rs_artifacts (store_of db' k)) i = Some a"
  using later_store [OF assms(1,2), of k] assms(3) by (simp add: store_le_def map_grows_def)








section \<open>Checkpoints\<close>

lemma commit_row_saved:
  assumes "commit_row E l payload now wait nj rs = Inr (True, rs')" "store_ok rs"
  obtains j where "map_of (rs_jobs rs') (jm_job_id (jl_message l)) = Some j" "jb_message j = jl_message l"
    "jb_status j = py ''succeeded''" "jb_artifact_ref j = Some \<lparr>ar_key = checkpoint_key l,
         ar_sha256 = sha256_hex (je_platform E) payload, ar_byte_size = int (length payload)\<rparr>"
    "map_of (rs_artifacts rs') (checkpoint_key l) = Some payload"
  using assms(1)
proof (cases rule: commit_row_cases)
  case (committed j run fields artifacts rs2)
  let ?j = "j\<lparr>jb_status := py ''succeeded'', jb_artifact_ref := Some \<lparr>ar_key = checkpoint_key l,
         ar_sha256 = sha256_hex (je_platform E) payload, ar_byte_size = int (length payload)\<rparr>\<rparr>"
  let ?rs1 = "save_job (jl_message l) ?j (rs\<lparr>rs_artifacts := artifacts\<rparr>)"
  note o = ownedD [OF committed(2)]
  have "job_ok (jm_job_id (jl_message l)) ?j"
    using store_ok_lookup [OF assms(2) o(1)] by (simp add: job_ok_def)
  then have "store_ok ?rs1"
    using assms(2) by (intro save_job_ok) (simp_all add: store_ok_def)
  then have "map_grows (rs_jobs ?rs1) (rs_jobs rs2)"
    using committed(4) by (simp add: adds_def)
  then have "map_of (rs_jobs rs') (jm_job_id (jl_message l)) = Some ?j"
    by (simp add: map_grows_def committed(5) put_run_def save_job_lookup)
  moreover have "map_of (rs_artifacts rs') (checkpoint_key l) = Some payload"
    using insert_new_grows(2) [OF committed(3)] committed(4) by (simp add: committed(5) put_run_def adds_def save_job_def)
  ultimately show ?thesis
    using o(2) by (intro that [of ?j]) simp_all
qed simp

text \<open>
  C11. Durable checkpoints: after a successful commit the checkpoint of the job reads back as the committed bytes in every later state
  of the store: no operation removes or overwrites it, not even a cancellation, a retry of the run or a commit by another worker.
\<close>

theorem committed_checkpoint_reads_back:
  assumes "job_reachable E db0" "commit_job E l payload now wait nj db0 = Inr (True, db1)" "(job_step E)\<^sup>*\<^sup>* db1 db2"
  shows "read_checkpoint (je_platform E) (jl_message l) db2 = Inr (Some payload)"
proof -
  let ?k = "message_key (jl_message l)"
  note ok0 = job_reachable_ok [OF assms(1)]
  then have ok1: "db_ok db1"
    using job_step_ok job_step.commit [OF assms(2)] by blast
  obtain rs' where row: "commit_row E l payload now wait nj (store_of db0 ?k) = Inr (True, rs')" "db1 = put_store ?k rs' db0"
    using assms(2) by (auto simp: commit_job_def bindE_Inr_iff split: if_splits elim!: on_runD)
  obtain j where j: "map_of (rs_jobs rs') (jm_job_id (jl_message l)) = Some j" "jb_message j = jl_message l"
    "jb_status j = py ''succeeded''" "jb_artifact_ref j = Some \<lparr>ar_key = checkpoint_key l,
         ar_sha256 = sha256_hex (je_platform E) payload, ar_byte_size = int (length payload)\<rparr>"
    "map_of (rs_artifacts rs') (checkpoint_key l) = Some payload"
    by (rule commit_row_saved [OF row(1) reachable_store_ok(1) [OF assms(1)]])
  have db1: "store_of db1 ?k = rs'" by (simp add: row(2) store_of_put)
  obtain j2 where "map_of (rs_jobs (store_of db2 ?k)) (jm_job_id (jl_message l)) = Some j2" "job_le j j2"
    using later_job [OF assms(3) ok1, of ?k] j(1) unfolding db1 by blast
  then have "map_of (rs_jobs (store_of db2 ?k)) (jm_job_id (jl_message l)) = Some j"
    using j(3) by (simp add: job_le_def)
  moreover have "map_of (rs_artifacts (store_of db2 ?k)) (checkpoint_key l) = Some payload"
    using later_artifact [OF assms(3) ok1, of ?k] j(5) unfolding db1 by blast
  ultimately show ?thesis
    using j by (simp add: read_checkpoint_def get_job_def get_job_row_def)
qed

theorem committed_checkpoint_reads_back_witness:
  "\<exists>db. job_reachable sample_env leased_db \<and> commit_job sample_env first_lease [1, 2, 3] 5 0 None leased_db = Inr (True, db)
    \<and> read_checkpoint hex_platform sample_msg db = Inr (Some [1, 2, 3])"
proof -
  obtain db where c: "commit_job sample_env first_lease [1, 2, 3] 5 0 None leased_db = Inr (True, db)"
    using sample_committed by blast
  show ?thesis
    using committed_checkpoint_reads_back [OF sample_reachable(2) c rtranclp.rtrancl_refl] sample_reachable(2) c
    by (auto simp: first_lease_def lease_of_def)
qed

section \<open>Revisions\<close>

lemma requeue_failed_deleted: "requeue_failed E now rv js rs = Inr rs' \<Longrightarrow> rs_deleted rs' = rs_deleted rs"
  by (induction E now rv js rs arbitrary: rs' rule: requeue_failed.induct)
    (auto simp: bindE_Inr_iff add_event_def save_job_def split: if_splits)

lemma action_effect_deleted: "action_effect E cancel rv now active run rs = Inr (r, rs1) \<Longrightarrow> rs_deleted rs1 = rs_deleted rs"
  by (auto simp: action_effect_def Let_def bindE_Inr_iff put_run_def cancel_jobs_def dest: requeue_failed_deleted split: if_splits)

lemma action_op_cases:
  assumes "run_action_op E tenant run_id cancel rv ikey reason now actor db = Inr (r, db')"
  shows "store_of db' = store_of db \<and> rs_idempotency (store_of db (tenant, run_id)) \<noteq> []
    \<or> (\<exists>run. get_run tenant run_id db = Inr run \<and> rm_revision run = rv \<and> get_run tenant run_id db' = Inr r
         \<and> rm_revision r = rv + 1 \<and> (cancel \<longrightarrow> rm_cancellation_requested r))"
proof -
  let ?k = "(tenant, run_id)"
  obtain rs' where row: "action_row E tenant run_id cancel rv ikey reason now actor (active_run_count tenant db) (store_of db ?k) = Inr (r, rs')"
    and db': "db' = put_store ?k rs' db" and sc: "check_scope tenant run_id = Inr ()"
    using assms by (auto simp: run_action_op_def bindE_Inr_iff split: if_splits elim!: on_runD)
  from row show ?thesis
  proof (cases rule: action_row_cases)
    case replayed
    then show ?thesis by (auto simp: db' fun_eq_iff store_of_put)
  next
    case (applied run t key h)
    obtain rs1 idem a actions ev hd where eff: "action_effect E cancel rv now (active_run_count tenant db) run (store_of db ?k) = Inr (r, rs1)"
      and rs': "rs' = rs1\<lparr>rs_idempotency := idem, rs_actions := actions, rs_audit_events := rs_audit_events rs1 @ [ev], rs_audit_head := Some hd\<rparr>"
      by (rule apply_action_cases [OF applied(3)])
    note f = action_effect_forward [OF eff get_run_rowD [OF applied(1)]]
    moreover have "rs_deleted rs' = rs_deleted (store_of db ?k)"
      using action_effect_deleted [OF eff] by (simp add: rs')
    ultimately show ?thesis
      using applied sc by (auto simp: get_run_def get_run_row_def db' store_of_put rs' split: option.splits if_splits)
  qed
qed

lemma cancelled_run_row:
  assumes "run_action_op E tenant run_id True rv ikey reason now actor db = Inr (r, db')" "rs_idempotency (store_of db (tenant, run_id)) = []"
  shows "get_run tenant run_id db' = Inr r \<and> rm_cancellation_requested r"
  using action_op_cases [OF assms(1)] assms(2) by blast

section \<open>Cancellation\<close>

lemma cancelled_rows:
  assumes "rs_run rs = Some r" "rm_cancellation_requested r"
  shows "claim_row m owner now secs rs = Inr (None, rs)" "owned rs l now wait = None" "\<not> okE (enqueue_row E m now rs)"
  using assms by (auto simp: claim_row_def owned_def enqueue_row_def get_run_row_def claimable_def split: sum.splits)

text \<open>
  C19. Cancellation is final: from a state in which cancellation of a run was requested, no later state hands out a lease of its jobs,
  accepts a call under an old lease, accepts a new job for it or delivers a message from its outbox.
\<close>

theorem cancelled_run_starts_no_work:
  assumes "job_reachable E db" "get_run (jm_tenant_id m) (jm_run_id m) db = Inr r" "rm_cancellation_requested r" "(job_step E)\<^sup>*\<^sup>* db db'"
    and "0 \<le> now" "1 \<le> secs" "py_strip owner \<noteq> []" "jl_message l = m"
  shows "(\<exists>db''. claim_job m owner now secs db' = Inr (None, db'') \<and> store_of db'' = store_of db')
    \<and> can_call l now wait db' = Inr False \<and> (\<exists>e. enqueue E m now db' = Inl e)
    \<and> (\<forall>events. pending_outbox (jm_tenant_id m) (jm_run_id m) now db' = Inr events \<longrightarrow> events = [])"
proof -
  have "rs_run (store_of db (message_key m)) = Some r"
    using assms(2) by (auto simp: get_run_def bindE_Inr_iff message_key_def dest: get_run_rowD)
  then obtain r' where "rs_run (store_of db' (message_key m)) = Some r'" "run_le r r'"
    by (rule later_run [OF assms(4) job_reachable_ok [OF assms(1)]])
  then have r': "rs_run (store_of db' (message_key m)) = Some r'" "rm_cancellation_requested r'"
    using assms(3) by (simp_all add: run_le_def)
  note rows = cancelled_rows [OF r']
  have "\<exists>db''. claim_job m owner now secs db' = Inr (None, db'') \<and> store_of db'' = store_of db'"
    using assms(5-7) rows(1) by (simp add: claim_job_def check_time_def on_run_def fun_eq_iff store_of_put)
  moreover have "can_call l now wait db' = Inr False"
    using assms(5,8) rows(2) by (simp add: can_call_def check_time_def)
  moreover have "\<exists>e. enqueue E m now db' = Inl e"
    using assms(5) rows(3) [of E m now] by (cases "enqueue_row E m now (store_of db' (message_key m))") (auto simp: enqueue_def check_time_def on_run_def)
  moreover have "events = []" if "pending_outbox (jm_tenant_id m) (jm_run_id m) now db' = Inr events" for events
    using that r' by (auto simp: pending_outbox_def bindE_Inr_iff message_key_def dest: get_run_rowD)
  ultimately show ?thesis by blast
qed

theorem cancelled_run_starts_no_work_witness:
  "\<exists>r db. job_reachable sample_env db \<and> get_run (uuid_of 1) (uuid_of 2) db = Inr r \<and> rm_cancellation_requested r
    \<and> (\<exists>db'. claim_job sample_msg (py ''w2'') 20 10 db = Inr (None, db')) \<and> can_call first_lease 5 0 db = Inr False"
proof -
  obtain r db where c: "cancel_run sample_env (uuid_of 1) (uuid_of 2) 2 (replicate 16 97) (py ''stop'') 5 (py ''op'') leased_db = Inr (r, db)"
    using sample_cancelled by blast
  then have step: "job_step sample_env leased_db db"
    unfolding cancel_run_def by (rule job_step.action)
  then have reach: "job_reachable sample_env db"
    using sample_reachable(2) unfolding job_reachable_def by simp
  have run: "get_run (uuid_of 1) (uuid_of 2) db = Inr r" "rm_cancellation_requested r"
    using cancelled_run_row [OF c [unfolded cancel_run_def]]
    by (auto simp: leased_db_def leased_store_def queued_store_def empty_store_def)
  have l: "jl_message first_lease = sample_msg" by (simp add: first_lease_def lease_of_def)
  have "get_run (jm_tenant_id sample_msg) (jm_run_id sample_msg) db = Inr r" using run(1) by simp
  note p = cancelled_run_starts_no_work [OF reach this run(2) rtranclp.rtrancl_refl _ _ _ l]
  show ?thesis
    using p [of 20 10 "py ''w2''"] p [of 5 10 "py ''w2''" 0] reach run by fastforce
qed

section \<open>Life cycle\<close>

text \<open>The abstract machine of a job: absent or in one of its statuses.\<close>

definition job_state :: "job_db \<Rightarrow> pystr \<times> pystr \<Rightarrow> pystr \<Rightarrow> pystr option" where
  "job_state db k i = map_option jb_status (map_of (rs_jobs (store_of db k)) i)"

inductive job_life :: "pystr option \<Rightarrow> pystr option \<Rightarrow> bool" where
  stutter: "job_life s s"
| arrive: "job_life None (Some (py ''pending''))"
| move: "job_edge s t \<Longrightarrow> job_life (Some s) (Some t)"

text \<open>
  C17. Refinement: through \<open>job_state\<close> every step of the store is a step of the abstract life cycle of each job: a job appears as pending, then moves
  along the edges of \<open>job_edge\<close> or stays; succeeded, cancelled and superseded have no way out.
\<close>

theorem job_steps_refine_life_cycle:
  assumes "job_reachable E db" "job_step E db db'"
  shows "job_life (job_state db k i) (job_state db' k i)"
proof -
  have sn: "store_next (store_of db k) (store_of db' k)"
    using job_step_next [OF job_reachable_ok [OF assms(1)] assms(2)] .
  show ?thesis
  proof (cases "map_of (rs_jobs (store_of db k)) i")
    case None
    then have "fresh_job b" if "map_of (rs_jobs (store_of db' k)) i = Some b" for b
      using sn that by (simp add: store_next_def)
    with None show ?thesis
      by (cases "map_of (rs_jobs (store_of db' k)) i") (auto simp: job_state_def fresh_job_def intro: job_life.intros)
  next
    case (Some a)
    with sn obtain b where "map_of (rs_jobs (store_of db' k)) i = Some b" "job_next a b"
      by (fastforce simp: store_next_def)
    with Some show ?thesis
      by (auto simp: job_state_def job_next_def intro: job_life.intros)
  qed
qed

theorem job_steps_refine_life_cycle_witness:
  "job_reachable sample_env queued_db \<and> job_step sample_env queued_db leased_db
    \<and> job_life (job_state queued_db (uuid_of 1, uuid_of 2) (uuid_of 4)) (job_state leased_db (uuid_of 1, uuid_of 2) (uuid_of 4))"
  using job_steps_refine_life_cycle [OF sample_reachable(1) job_step.claim [OF sample_leased]] sample_reachable(1)
    job_step.claim [OF sample_leased] by blast

section \<open>Progress\<close>

text \<open>The claim of an extract job waits for the guard that keeps it from overtaking tag work.\<close>

definition continuation_refused :: "job_message \<Rightarrow> run_meta \<Rightarrow> int \<Rightarrow> run_store \<Rightarrow> bool" where
  "continuation_refused m run now rs \<longleftrightarrow> jm_stage m = py ''extract'' \<and> py ''extract_job'' \<in> fst ` set (rm_stage_fields run)
     \<and> \<not> okE (guard_extract_continuation run now rs)"

lemma guard_keeps_stage:
  assumes "guard_extract_continuation run now rs = Inr rs1" "map_of (rs_jobs rs) i = Some j" "jm_stage (jb_message j) \<noteq> py ''tag''"
  shows "map_of (rs_jobs rs1) i = Some j" "rs_leases rs1 = rs_leases rs" "rs_deleted rs1 = rs_deleted rs"
  using assms by (auto simp: guard_extract_continuation_def Let_def map_of_map split: if_splits)

lemma ready_row:
  assumes "store_ok rs" "leases_ok rs" "get_job_row rs m = Inr j" "get_run_row rs = Inr run" "claimable run j now"
    and "\<not> continuation_refused m run now rs" "0 \<le> now" "1 \<le> secs" "py_strip owner \<noteq> []"
  obtains l rs' where "claim_row m owner now secs rs = Inr (Some l, rs')" "jl_fencing_token l = jb_fencing_token j + 1"
    "jl_message l = m" "owned rs' l now 0 \<noteq> None"
proof -
  let ?j = "leased_job owner now secs j" let ?l = "lease_of m owner now secs (leased_job owner now secs j)"
  have j: "map_of (rs_jobs rs) (jm_job_id m) = Some j" "jb_message j = m" and jok: "job_ok (jm_job_id m) j"
    using get_job_rowD [OF assms(3)] store_ok_lookup [OF assms(1)] by blast+
  have l: "mk_job_lease ?l = Inr ?l"
    using jok assms(7-9) by (simp add: mk_job_lease_def lease_of_def leased_job_def job_ok_def)
  have "\<exists>rs1. (if jm_stage m = py ''extract'' \<and> py ''extract_job'' \<in> fst ` set (rm_stage_fields run)
      then guard_extract_continuation run now rs else Inr rs) = Inr rs1"
    using assms(6) by (auto simp: continuation_refused_def okE_iff)
  then obtain rs1 where guard: "(if jm_stage m = py ''extract'' \<and> py ''extract_job'' \<in> fst ` set (rm_stage_fields run)
      then guard_extract_continuation run now rs else Inr rs) = Inr rs1" by blast
  have "py ''extract'' \<noteq> py ''tag''" by simp
  then have rs1: "map_of (rs_jobs rs1) (jm_job_id m) = Some j" "rs_leases rs1 = rs_leases rs" "rs_deleted rs1 = rs_deleted rs"
    using guard guard_keeps_stage [of run now rs rs1 "jm_job_id m" j] j by (auto split: if_splits)
  have "(jb_fencing_token j + 1, jm_job_id m) \<notin> fst ` set (rs_leases rs1)"
    using assms(2) j(1) rs1(2) by (fastforce simp: leases_ok_def)
  then obtain leases where "insert_new (jl_fencing_token ?l, jm_job_id m) ?l (rs_leases rs1) = Inr leases"
    by (simp add: insert_new_def lease_of_def leased_job_def)
  then have "claim_row m owner now secs rs
      = Inr (Some ?l, put_run (bump_run run (Some (py ''running''))) ((save_job m ?j rs1)\<lparr>rs_leases := leases\<rparr>))" (is "_ = Inr (_, ?rs')")
    using assms(3-5) l guard by (auto simp: claim_row_def Let_def split: if_splits)
  moreover have "owned ?rs' ?l now 0 \<noteq> None"
    using assms(4,5,8) j(2) rs1(3)
    by (auto simp: owned_def get_job_row_def get_run_row_def put_run_def save_job_def update_conv' lease_of_def leased_job_def
        bump_run_def claimable_def split: option.splits if_splits)
  ultimately show ?thesis
    by (intro that) (auto simp: lease_of_def leased_job_def)
qed

lemma refused_row:
  assumes "get_job_row rs m = Inr j" "get_run_row rs = Inr run" "continuation_refused m run now rs"
  shows "claim_row m owner now secs rs = Inr (None, rs)"
  using assms by (auto simp: claim_row_def continuation_refused_def okE_iff split: sum.splits)

text \<open>
  C22. Progress: in every reachable state a job that is due (pending, or leased to a worker whose lease has expired) of a run that is neither
  cancelled nor deleted can be claimed by any worker, and the lease it gets is valid at once, with the next fencing token. The only exception is an extract job of a
  run that already has one, while the guard refuses to continue past published or leased tag work: then no lease is given and nothing changes.
\<close>

theorem due_job_can_be_claimed:
  assumes "job_reachable E db" "get_job m db = Inr j" "get_run_row (store_of db (message_key m)) = Inr run" "claimable run j now"
    and "0 \<le> now" "1 \<le> secs" "py_strip owner \<noteq> []"
  shows "if continuation_refused m run now (store_of db (message_key m))
    then \<exists>db'. claim_job m owner now secs db = Inr (None, db') \<and> store_of db' = store_of db
    else \<exists>l db'. claim_job m owner now secs db = Inr (Some l, db') \<and> jl_fencing_token l = jb_fencing_token j + 1
      \<and> can_call l now 0 db' = Inr True"
proof -
  have row: "get_job_row (store_of db (message_key m)) m = Inr j"
    using assms(2) by (simp add: get_job_def)
  show ?thesis
  proof (cases "continuation_refused m run now (store_of db (message_key m))")
    case True
    then show ?thesis
      using refused_row [OF row assms(3)] assms(5-7) by (auto simp: claim_job_def check_time_def on_run_def store_of_put)
  next
    case False
    then obtain l rs' where "claim_row m owner now secs (store_of db (message_key m)) = Inr (Some l, rs')"
      "jl_fencing_token l = jb_fencing_token j + 1" "jl_message l = m" "owned rs' l now 0 \<noteq> None"
      by (rule ready_row [OF reachable_store_ok [OF assms(1)] row assms(3,4) _ assms(5-7)])
    with False show ?thesis
      using assms(5-7) by (simp add: claim_job_def check_time_def on_run_def can_call_def store_of_put)
  qed
qed

theorem due_job_can_be_claimed_witness:
  "\<exists>l db. job_reachable sample_env leased_db \<and> claim_job sample_msg (py ''w2'') 20 10 leased_db = Inr (Some l, db)
    \<and> jl_fencing_token l = 2 \<and> can_call l 20 0 db = Inr True"
proof -
  have "get_job sample_msg leased_db = Inr first_job"
    "get_run_row (store_of leased_db (message_key sample_msg)) = Inr (sample_run 1 (py ''running''))"
    "claimable (sample_run 1 (py ''running'')) first_job 20" "jb_fencing_token first_job = 1"
    by (simp_all add: get_job_def get_job_row_def get_run_row_def leased_db_def leased_store_def queued_store_def empty_store_def
        first_job_def leased_job_def new_job_def claimable_def)
  moreover have "\<not> continuation_refused sample_msg run now rs" for run now rs
    by (simp add: continuation_refused_def sample_msg_def)
  ultimately show ?thesis
    using due_job_can_be_claimed [OF sample_reachable(2), of sample_msg first_job _ 20 10 "py ''w2''"] sample_reachable(2)
    by auto
qed

text \<open>
  Optimistic concurrency: an operator action that succeeds either replays a stored response and changes no record, or it found the run at exactly
  the expected revision and leaves it at the next one, so that two actions that expect the same revision cannot both take effect.
\<close>

theorem action_needs_current_revision:
  assumes "run_action_op E tenant run_id cancel rv ikey reason now actor db = Inr (r, db')"
  shows "store_of db' = store_of db
    \<or> (\<exists>run. get_run tenant run_id db = Inr run \<and> rm_revision run = rv \<and> get_run tenant run_id db' = Inr r
         \<and> rm_revision r = rv + 1 \<and> (cancel \<longrightarrow> rm_cancellation_requested r))"
  using action_op_cases [OF assms] by blast

theorem action_needs_current_revision_witness:
  "\<exists>r db. run_action_op sample_env (uuid_of 1) (uuid_of 2) True 2 (replicate 16 97) (py ''stop'') 5 (py ''op'') leased_db = Inr (r, db)
    \<and> (store_of db = store_of leased_db \<or> rm_revision r = 3 \<and> rm_cancellation_requested r)"
  using sample_cancelled action_needs_current_revision [of sample_env "uuid_of 1" "uuid_of 2" True 2] unfolding cancel_run_def by fastforce

end
