(* ===== verification/Budget.thy ===== *)
theory Budget
  imports Audit_Log Stdlib "HOL-Library.AList"
begin

text \<open>
  Model of the budget inputs (\<^verbatim>\<open>application/budget.py\<close>) and of the durable usage store (\<^verbatim>\<open>adapters/aws/usage.py\<close>).

  Amounts are Python decimals, here pairs of coefficient and exponent (prices are non-negative and finite, negative zero is left out). A price is
  stored as text and read back with \<^verbatim>\<open>Decimal(str(d))\<close>, which is documented to return \<open>d\<close>: the stored price is the decimal.
  \<open>tz_aware\<close> is \<^verbatim>\<open>datetime.fromisoformat(..).tzinfo is not None\<close> and may raise.

  The database holds one association list per table; \<open>usage_records\<close> is the query ordered by request and attempt. Every operation is one
  transaction: it returns the new database, or raises and leaves the old one. Type tests that the types of the model enforce are not repeated.
\<close>

section \<open>Decimal arithmetic\<close>

definition dec_add :: "nat \<Rightarrow> decimal \<Rightarrow> decimal \<Rightarrow> decimal" where
  "dec_add prec a b = (let e = min (snd a) (snd b) in
     dec_fix prec (fst a * 10 ^ nat (snd a - e) + fst b * 10 ^ nat (snd b - e), e))"

text \<open>\<^verbatim>\<open>Decimal.__truediv__\<close> of non-negative operands: a quotient of \<open>prec + 1\<close> digits with a sticky last digit, or an exact quotient whose
  trailing zeros are dropped down to the ideal exponent; then rounding to the context.\<close>

function strip_zeros :: "int \<Rightarrow> int \<Rightarrow> int \<Rightarrow> int \<times> int" where
  "strip_zeros ideal c e = (if e < ideal \<and> c mod 10 = 0 then strip_zeros ideal (c div 10) (e + 1) else (c, e))"
  by auto

termination strip_zeros
  by (relation "measure (\<lambda>(ideal, c, e). nat (ideal - e))") auto

declare strip_zeros.simps [simp del]

definition dec_div :: "nat \<Rightarrow> decimal \<Rightarrow> decimal \<Rightarrow> decimal" where
  "dec_div prec a b =
     (let shift = int (dec_digits b) - int (dec_digits a) + int prec + 1;
          e = snd a - snd b - shift;
          x = (if 0 \<le> shift then fst a * 10 ^ nat shift else fst a);
          y = (if 0 \<le> shift then fst b else fst b * 10 ^ nat (- shift));
          q = x div y
      in if fst a = 0 then (0, snd a - snd b)
         else if x mod y \<noteq> 0 then dec_fix prec (if q mod 5 = 0 then q + 1 else q, e)
         else dec_fix prec (strip_zeros (snd a - snd b) q e))"

text \<open>\<^verbatim>\<open>format(d, "f")\<close> of a non-negative decimal.\<close>

definition dec_text_f :: "decimal \<Rightarrow> pystr" where
  "dec_text_f d =
     (let digits = dec_of_nat (nat (fst d)); e = snd d in
      if 0 \<le> e then (if fst d = 0 then py ''0'' else digits @ replicate (nat e) 48)
      else let k = nat (- e);
               padded = replicate (Suc k - length digits) 48 @ digits;
               n = length padded - k
           in take n padded @ [46] @ drop n padded)"

text \<open>\<^verbatim>\<open>str(d)\<close>: scientific notation for small and for positive exponents.\<close>

definition dec_str :: "decimal \<Rightarrow> pystr" where
  "dec_str d =
     (let digits = dec_of_nat (nat (fst d)); n = int (length digits); left = snd d + n;
          dot = (if snd d \<le> 0 \<and> -6 < left then left else 1);
          body = (if dot \<le> 0 then py ''0.'' @ replicate (nat (- dot)) 48 @ digits
                  else if n \<le> dot then digits @ replicate (nat (dot - n)) 48
                  else take (nat dot) digits @ [46] @ drop (nat dot) digits);
          x = left - dot
      in body @ (if x = 0 then [] else py ''E'' @ (if 0 \<le> x then py ''+'' else []) @ dec_of_int x))"

section \<open>Budget inputs\<close>

definition count :: "string \<Rightarrow> int \<Rightarrow> int \<Rightarrow> unit result" where
  "count name v minimum = (if minimum \<le> v \<and> v \<le> 2 ^ 63 - 1 then Inr ()
     else Inl (ValueError (name @ '' is outside the supported token/count range'')))"

definition text_field :: "string \<Rightarrow> pystr \<Rightarrow> unit result" where
  "text_field name v = (if py_strip v = [] \<or> 512 < length v
     then Inl (ValueError (name @ '' must be non-empty text of at most 512 characters'')) else Inr ())"

record role_limit =
  rl_role :: pystr
  rl_max_calls :: int
  rl_max_input_tokens :: int
  rl_max_output_tokens :: int
  rl_max_context_tokens :: int

definition mk_role_limit :: "role_limit \<Rightarrow> role_limit result" where
  "mk_role_limit r =
     bindE (text_field ''role'' (rl_role r)) (\<lambda>_.
     bindE (count ''max_calls'' (rl_max_calls r) 1) (\<lambda>_.
     bindE (count ''max_input_tokens'' (rl_max_input_tokens r) 1) (\<lambda>_.
     bindE (count ''max_output_tokens'' (rl_max_output_tokens r) 1) (\<lambda>_.
     bindE (count ''max_context_tokens'' (rl_max_context_tokens r) 1) (\<lambda>_. Inr r)))))"

record budget_limits =
  bl_input_tokens :: int
  bl_output_tokens :: int
  bl_roles :: "role_limit list"
  bl_max_attempts :: int

definition mk_budget_limits :: "budget_limits \<Rightarrow> budget_limits result" where
  "mk_budget_limits b =
     bindE (count ''input_tokens'' (bl_input_tokens b) 1) (\<lambda>_.
     bindE (count ''output_tokens'' (bl_output_tokens b) 1) (\<lambda>_.
     bindE (count ''max_attempts'' (bl_max_attempts b) 0) (\<lambda>_.
       if \<not> (1 \<le> bl_max_attempts b \<and> bl_max_attempts b \<le> 3)
         then Inl (ValueError ''max_attempts cannot exceed the three-attempt contract'')
       else if bl_roles b = [] then Inl (ValueError ''typed role limits required'')
       else if py_duplicates (map rl_role (bl_roles b)) then Inl (ValueError ''duplicate role limits'')
       else Inr b)))"

record budget_call =
  bc_tenant_id :: pystr
  bc_run_id :: pystr
  bc_document_version_id :: pystr
  bc_request_id :: pystr
  bc_attempt :: int
  bc_role :: pystr
  bc_model_id :: pystr
  bc_region :: pystr
  bc_model_binding_hash :: pystr
  bc_request_signature :: pystr
  bc_replicate_id :: "int option"

definition mk_budget_call :: "budget_call \<Rightarrow> budget_call result" where
  "mk_budget_call c =
     bindE (check_uuid ''tenant_id'' (bc_tenant_id c)) (\<lambda>_.
     bindE (check_uuid ''run_id'' (bc_run_id c)) (\<lambda>_.
     bindE (check_uuid ''document_version_id'' (bc_document_version_id c)) (\<lambda>_.
     bindE (text_field ''request_id'' (bc_request_id c)) (\<lambda>_.
     bindE (text_field ''role'' (bc_role c)) (\<lambda>_.
     bindE (text_field ''model_id'' (bc_model_id c)) (\<lambda>_.
     bindE (text_field ''region'' (bc_region c)) (\<lambda>_.
     bindE (check_sha256 ''model_binding_hash'' (bc_model_binding_hash c)) (\<lambda>_.
     bindE (check_sha256 ''request_signature'' (bc_request_signature c)) (\<lambda>_.
     bindE (count ''attempt'' (bc_attempt c) 1) (\<lambda>_.
     bindE (case bc_replicate_id c of None \<Rightarrow> Inr ()
            | Some r \<Rightarrow> bindE (count ''replicate_id'' r 0) (\<lambda>_. if r \<in> {1, 2, 3} then Inr ()
                else Inl (ValueError ''replicate_id must be 1, 2, 3 or null''))) (\<lambda>_.
       if bc_role c = py ''tagger'' \<and> bc_replicate_id c = None then Inl (ValueError ''tagging calls require a replicate_id'')
       else Inr c)))))))))))"

record pricing =
  pr_snapshot_id :: pystr
  pr_model_id :: pystr
  pr_region :: pystr
  pr_captured_at :: pystr
  pr_input_per_million :: decimal
  pr_output_per_million :: decimal
  pr_cache_read_per_million :: "decimal option"
  pr_cache_write_per_million :: "decimal option"

definition check_price :: "decimal option \<Rightarrow> unit result" where
  "check_price p = (case p of None \<Rightarrow> Inr ()
     | Some d \<Rightarrow> if fst d < 0 \<or> 64 < length (dec_str d) \<or> 30 < \<bar>snd d\<bar>
         then Inl (ValueError ''prices must be finite, non-negative Decimal values'') else Inr ())"

definition mk_pricing :: "(pystr \<Rightarrow> bool result) \<Rightarrow> pricing \<Rightarrow> pricing result" where
  "mk_pricing tz_aware p =
     bindE (text_field ''snapshot_id'' (pr_snapshot_id p)) (\<lambda>_.
     bindE (text_field ''model_id'' (pr_model_id p)) (\<lambda>_.
     bindE (text_field ''region'' (pr_region p)) (\<lambda>_.
     bindE (text_field ''captured_at'' (pr_captured_at p)) (\<lambda>_.
     bindE (tz_aware (pr_captured_at p)) (\<lambda>aware.
       if \<not> aware then Inl (ValueError ''pricing timestamp must be timezone-aware'')
       else bindE (forE check_price [Some (pr_input_per_million p), Some (pr_output_per_million p),
              pr_cache_read_per_million p, pr_cache_write_per_million p]) (\<lambda>_. Inr p))))))"

definition pricing_json :: "pricing \<Rightarrow> json" where
  "pricing_json p =
     (let dec = (\<lambda>x. case x of None \<Rightarrow> JNull | Some d \<Rightarrow> JStr (dec_str d)) in JObj
      [(py ''snapshot_id'', JStr (pr_snapshot_id p)), (py ''model_id'', JStr (pr_model_id p)), (py ''region'', JStr (pr_region p)),
       (py ''captured_at'', JStr (pr_captured_at p)), (py ''input_per_million'', dec (Some (pr_input_per_million p))),
       (py ''output_per_million'', dec (Some (pr_output_per_million p))),
       (py ''cache_read_per_million'', dec (pr_cache_read_per_million p)),
       (py ''cache_write_per_million'', dec (pr_cache_write_per_million p))])"

record token_usage =
  tu_input_tokens :: "int option"
  tu_output_tokens :: "int option"
  tu_cache_read_tokens :: "int option"
  tu_cache_write_tokens :: "int option"
  tu_latency_ms :: int
  tu_status :: pystr
  tu_provider_request_id :: "pystr option"
  tu_error_code :: "pystr option"

definition opt_check :: "('a \<Rightarrow> unit result) \<Rightarrow> 'a option \<Rightarrow> unit result" where
  "opt_check f x = (case x of None \<Rightarrow> Inr () | Some v \<Rightarrow> f v)"

definition or_zero :: "int option \<Rightarrow> int" where
  "or_zero x = (case x of None \<Rightarrow> 0 | Some i \<Rightarrow> i)"

definition mk_token_usage :: "token_usage \<Rightarrow> token_usage result" where
  "mk_token_usage u =
     bindE (opt_check (\<lambda>i. count ''input_tokens'' i 0) (tu_input_tokens u)) (\<lambda>_.
     bindE (opt_check (\<lambda>i. count ''output_tokens'' i 0) (tu_output_tokens u)) (\<lambda>_.
     bindE (opt_check (\<lambda>i. count ''cache_read_tokens'' i 0) (tu_cache_read_tokens u)) (\<lambda>_.
     bindE (opt_check (\<lambda>i. count ''cache_write_tokens'' i 0) (tu_cache_write_tokens u)) (\<lambda>_.
     bindE (count ''latency_ms'' (tu_latency_ms u) 0) (\<lambda>_.
     if tu_status u \<notin> {py ''succeeded'', py ''failed'', py ''cancelled''} then Inl (ValueError ''unsupported provider usage status'')
     else
     bindE (opt_check (text_field ''provider_request_id'') (tu_provider_request_id u)) (\<lambda>_.
     bindE (opt_check (text_field ''error_code'') (tu_error_code u)) (\<lambda>_.
     if tu_status u = py ''failed'' \<and> tu_error_code u = None then Inl (ValueError ''failed usage requires error_code'')
     else if (case tu_input_tokens u of None \<Rightarrow> False
              | Some i \<Rightarrow> i < or_zero (tu_cache_read_tokens u) + or_zero (tu_cache_write_tokens u))
       then Inl (ValueError ''cache buckets cannot exceed total input'')
     else Inr u)))))))"

fun add_buckets :: "decimal \<Rightarrow> (int \<times> decimal option) list \<Rightarrow> decimal option" where
  "add_buckets amount [] = Some amount"
| "add_buckets amount ((tokens, rate) # buckets) =
     (if tokens = 0 then add_buckets amount buckets
      else case rate of None \<Rightarrow> None
        | Some r \<Rightarrow> add_buckets (dec_add 100 amount (dec_div 100 (dec_mul 100 (tokens, 0) r) (1000000, 0))) buckets)"

definition usage_buckets :: "token_usage \<Rightarrow> pricing \<Rightarrow> (int \<times> decimal option) list option" where
  "usage_buckets u p = (case (tu_input_tokens u, tu_output_tokens u, tu_cache_read_tokens u, tu_cache_write_tokens u) of
       (Some i, Some out, Some r, Some w) \<Rightarrow> Some [(i - r - w, Some (pr_input_per_million p)), (out, Some (pr_output_per_million p)),
          (r, pr_cache_read_per_million p), (w, pr_cache_write_per_million p)]
     | _ \<Rightarrow> None)"

definition usage_cost :: "token_usage \<Rightarrow> pricing option \<Rightarrow> pystr option" where
  "usage_cost u pricing = (case pricing of None \<Rightarrow> None
     | Some p \<Rightarrow> (case usage_buckets u p of None \<Rightarrow> None
         | Some buckets \<Rightarrow> map_option dec_text_f (add_buckets (0, 0) buckets)))"

section \<open>The usage store\<close>

record reservation =
  rv_call :: budget_call
  rv_input_tokens :: int
  rv_max_output_tokens :: int
  rv_pricing :: "pricing option"

record ledger_entry =
  le_call :: budget_call
  le_usage :: token_usage
  le_recorded_at :: int
  le_cost_decimal :: "pystr option"
  le_pricing_snapshot_id :: "pystr option"
  le_pricing_snapshot_hash :: "pystr option"

record release_note =
  rn_reason :: pystr
  rn_released_at :: int
  rn_response_cache_hit :: bool

record attempt_row =
  at_reservation :: reservation
  at_created_at :: int
  at_state :: pystr
  at_ledger :: "ledger_entry option"
  at_release :: "release_note option"

type_synonym attempt_key = "(pystr \<times> pystr) \<times> pystr \<times> int"

record usage_db =
  ud_runs :: "((pystr \<times> pystr) \<times> pystr \<times> budget_limits) list"
  ud_prices :: "(pystr \<times> pricing) list"
  ud_attempts :: "(attempt_key \<times> attempt_row) list"

definition empty_usage :: usage_db where
  "empty_usage = \<lparr>ud_runs = [], ud_prices = [], ud_attempts = []\<rparr>"

definition check_run_scope :: "pystr \<Rightarrow> pystr \<Rightarrow> unit result" where
  "check_run_scope tenant run = bindE (check_uuid ''tenant_id'' tenant) (\<lambda>_. check_uuid ''run_id'' run)"

definition usage_run :: "usage_db \<Rightarrow> pystr \<Rightarrow> pystr \<Rightarrow> (pystr \<times> budget_limits) result" where
  "usage_run db tenant run = bindE (check_run_scope tenant run) (\<lambda>_.
     case map_of (ud_runs db) (tenant, run) of None \<Rightarrow> Inl (KeyError ''run not found'') | Some r \<Rightarrow> Inr r)"

definition create_budget :: "pystr \<Rightarrow> pystr \<Rightarrow> pystr \<Rightarrow> budget_limits \<Rightarrow> usage_db \<Rightarrow> usage_db result" where
  "create_budget tenant run version limits db =
     bindE (check_run_scope tenant run) (\<lambda>_.
     bindE (check_uuid ''document_version_id'' version) (\<lambda>_.
       case map_of (ud_runs db) (tenant, run) of
         Some previous \<Rightarrow> if previous \<noteq> (version, limits)
           then Inl (BudgetConflict ''immutable run budget differs; automatic increases forbidden'') else Inr db
       | None \<Rightarrow> Inr (db\<lparr>ud_runs := ud_runs db @ [((tenant, run), version, limits)]\<rparr>)))"

definition call_run :: "budget_call \<Rightarrow> pystr \<times> pystr" where
  "call_run c = (bc_tenant_id c, bc_run_id c)"

definition call_key :: "budget_call \<Rightarrow> attempt_key" where
  "call_key c = (call_run c, bc_request_id c, bc_attempt c)"

definition find_attempt :: "usage_db \<Rightarrow> budget_call \<Rightarrow> attempt_row result" where
  "find_attempt db c = (case map_of (ud_attempts db) (call_key c) of None \<Rightarrow> Inl (KeyError ''reservation not found'')
     | Some row \<Rightarrow> if rv_call (at_reservation row) \<noteq> c then Inl (BudgetConflict ''reservation identity differs'') else Inr row)"

definition usage_records :: "usage_db \<Rightarrow> pystr \<times> pystr \<Rightarrow> attempt_row list" where
  "usage_records db k = map snd (sort_key (\<lambda>kv. snd (fst kv)) (filter (\<lambda>kv. fst (fst kv) = k) (ud_attempts db)))"

definition row_call :: "attempt_row \<Rightarrow> budget_call" where
  "row_call row = rv_call (at_reservation row)"

text \<open>The loop over the stored attempts of the request: \<^verbatim>\<open>True\<close> when this reservation is already stored.\<close>

fun scan_reservations :: "reservation \<Rightarrow> attempt_row list \<Rightarrow> bool result" where
  "scan_reservations candidate [] = Inr False"
| "scan_reservations candidate (row # rows) =
     (let c = rv_call candidate; existing = row_call row in
      if bc_request_id existing = bc_request_id c then
        if existing\<lparr>bc_attempt := bc_attempt c, bc_request_signature := bc_request_signature c\<rparr> \<noteq> c
          then Inl (BudgetConflict ''request identity cannot change between attempts'')
        else if bc_attempt existing = bc_attempt c then
          if at_reservation row \<noteq> candidate then Inl (BudgetConflict ''immutable reservation differs'') else Inr True
        else scan_reservations candidate rows
      else scan_reservations candidate rows)"

definition overrun :: "attempt_row \<Rightarrow> bool" where
  "overrun row = (case at_ledger row of None \<Rightarrow> False
     | Some l \<Rightarrow> (case tu_input_tokens (le_usage l) of None \<Rightarrow> False | Some a \<Rightarrow> rv_input_tokens (at_reservation row) < a)
         \<or> (case tu_output_tokens (le_usage l) of None \<Rightarrow> False | Some a \<Rightarrow> rv_max_output_tokens (at_reservation row) < a))"

definition check_provider_overrun :: "attempt_row list \<Rightarrow> unit result" where
  "check_provider_overrun rows = (if list_ex overrun rows
     then Inl (BudgetExceeded ''BUDGET_EXHAUSTED: provider usage exceeded reservation'') else Inr ())"

definition active :: "attempt_row \<Rightarrow> bool" where
  "active row \<longleftrightarrow> at_state row \<noteq> py ''released''"

definition used_tokens :: "(token_usage \<Rightarrow> int option) \<Rightarrow> (reservation \<Rightarrow> int) \<Rightarrow> attempt_row \<Rightarrow> int" where
  "used_tokens actual reserved row = (case at_ledger row of None \<Rightarrow> reserved (at_reservation row)
     | Some l \<Rightarrow> (case actual (le_usage l) of None \<Rightarrow> reserved (at_reservation row) | Some a \<Rightarrow> a))"

definition input_used :: "attempt_row list \<Rightarrow> int" where
  "input_used rows = sum_list (map (used_tokens tu_input_tokens rv_input_tokens) (filter active rows))"

definition output_used :: "attempt_row list \<Rightarrow> int" where
  "output_used rows = sum_list (map (used_tokens tu_output_tokens rv_max_output_tokens) (filter active rows))"

definition check_budget :: "int \<Rightarrow> int \<Rightarrow> int \<Rightarrow> string \<Rightarrow> unit result" where
  "check_budget used requested limit name = (if limit \<le> used \<or> limit < used + requested
     then Inl (BudgetExceeded (''BUDGET_EXHAUSTED: '' @ name @ ''; partial_no_silent_sampling'')) else Inr ())"

definition row_error :: "attempt_row \<Rightarrow> pystr option" where
  "row_error row = (case at_ledger row of None \<Rightarrow> None | Some l \<Rightarrow> tu_error_code (le_usage l))"

definition SCHEMA_INVALID :: pystr where
  "SCHEMA_INVALID = py ''LLM_SCHEMA_INVALID''"

definition RETRYABLE :: "pystr list" where
  "RETRYABLE = [py ''MODEL_THROTTLED'', py ''PROVIDER_5XX'', py ''MODEL_TIMEOUT'', SCHEMA_INVALID]"

definition check_retry :: "budget_call \<Rightarrow> attempt_row list \<Rightarrow> unit result" where
  "check_retry c rows =
     (let same = filter (\<lambda>row. bc_request_id (row_call row) = bc_request_id c) rows in
      if same = [] then Inr ()
      else case find (\<lambda>row. bc_attempt (row_call row) = bc_attempt c - 1) same of
        None \<Rightarrow> Inl (StopIteration ''previous attempt'')
      | Some previous \<Rightarrow>
          if bc_request_signature (row_call previous) \<noteq> bc_request_signature c \<and> row_error previous \<noteq> Some SCHEMA_INVALID
            then Inl (BudgetConflict ''only schema repair may change the retry request signature'')
          else if at_state previous = py ''released'' then Inr ()
          else if at_state previous \<noteq> py ''settled''
             \<or> (case at_ledger previous of None \<Rightarrow> True
                | Some l \<Rightarrow> tu_status (le_usage l) = py ''succeeded'' \<or> (case tu_error_code (le_usage l) of None \<Rightarrow> True
                    | Some e \<Rightarrow> e \<notin> set RETRYABLE))
            then Inl (BudgetConflict ''previous attempt is not settled and retryable'')
          else if row_error previous = Some SCHEMA_INVALID
             \<and> 1 < length (filter (\<lambda>row. row_error row = Some SCHEMA_INVALID) same)
            then Inl (BudgetConflict ''schema repair is limited to one attempt'')
          else Inr ())"

definition max_attempt :: "budget_call \<Rightarrow> attempt_row list \<Rightarrow> int" where
  "max_attempt c rows = (let prior = map (\<lambda>row. bc_attempt (row_call row))
       (filter (\<lambda>row. bc_request_id (row_call row) = bc_request_id c) rows)
     in if prior = [] then 0 else Max (set prior))"

definition put_price :: "pricing option \<Rightarrow> usage_db \<Rightarrow> usage_db result" where
  "put_price price db = (case price of None \<Rightarrow> Inr db
     | Some p \<Rightarrow> (case map_of (ud_prices db) (pr_snapshot_id p) of
           Some old \<Rightarrow> if old \<noteq> p then Inl (BudgetConflict ''pricing snapshot ID has different immutable content'') else Inr db
         | None \<Rightarrow> Inr (db\<lparr>ud_prices := ud_prices db @ [(pr_snapshot_id p, p)]\<rparr>)))"

definition new_attempt :: "reservation \<Rightarrow> int \<Rightarrow> attempt_row" where
  "new_attempt candidate now = \<lparr>at_reservation = candidate, at_created_at = now, at_state = py ''reserved'', at_ledger = None,
     at_release = None\<rparr>"

definition reserve_new :: "reservation \<Rightarrow> budget_limits \<Rightarrow> role_limit \<Rightarrow> int \<Rightarrow> attempt_row list \<Rightarrow> usage_db \<Rightarrow> usage_db result" where
  "reserve_new candidate limits role now rows db =
     (let c = rv_call candidate in
      bindE (check_provider_overrun rows) (\<lambda>_.
      if bl_max_attempts limits < bc_attempt c then Inl (BudgetExceeded ''BUDGET_EXHAUSTED: request attempt limit'')
      else if bc_attempt c \<noteq> max_attempt c rows + 1 then Inl (BudgetConflict ''attempts must be consecutive'')
      else if rl_max_calls role \<le> int (length (filter (\<lambda>row. active row \<and> bc_role (row_call row) = bc_role c) rows))
        then Inl (BudgetExceeded ''BUDGET_EXHAUSTED: role call limit'')
      else
      bindE (check_retry c rows) (\<lambda>_.
      bindE (check_budget (input_used rows) (rv_input_tokens candidate) (bl_input_tokens limits) ''input_tokens'') (\<lambda>_.
      bindE (check_budget (output_used rows) (rv_max_output_tokens candidate) (bl_output_tokens limits) ''output_tokens'') (\<lambda>_.
      bindE (put_price (rv_pricing candidate) db) (\<lambda>db'.
        Inr (db'\<lparr>ud_attempts := ud_attempts db' @ [(call_key c, new_attempt candidate now)]\<rparr>)))))))"

definition reserve_budget :: "budget_call \<Rightarrow> int \<Rightarrow> int \<Rightarrow> pricing option \<Rightarrow> int \<Rightarrow> usage_db \<Rightarrow> (bool \<times> usage_db) result" where
  "reserve_budget c input_tokens max_output_tokens price now db =
     bindE (count ''input_tokens'' input_tokens 0) (\<lambda>_.
     bindE (count ''max_output_tokens'' max_output_tokens 1) (\<lambda>_.
     bindE (count ''now'' now 0) (\<lambda>_.
     if (case price of None \<Rightarrow> False | Some p \<Rightarrow> (pr_model_id p, pr_region p) \<noteq> (bc_model_id c, bc_region c))
       then Inl (ValueError ''pricing snapshot must match the bound model and region'')
     else
     let candidate = \<lparr>rv_call = c, rv_input_tokens = input_tokens, rv_max_output_tokens = max_output_tokens, rv_pricing = price\<rparr> in
     bindE (usage_run db (bc_tenant_id c) (bc_run_id c)) (\<lambda>(version, limits).
     if version \<noteq> bc_document_version_id c then Inl (KeyError ''run not found'')
     else case find (\<lambda>r. rl_role r = bc_role c) (bl_roles limits) of
         None \<Rightarrow> Inl (BudgetExceeded ''BUDGET_EXHAUSTED: role/context/output limit'')
       | Some role \<Rightarrow>
           if rl_max_input_tokens role < input_tokens \<or> rl_max_output_tokens role < max_output_tokens
              \<or> rl_max_context_tokens role < input_tokens + max_output_tokens
             then Inl (BudgetExceeded ''BUDGET_EXHAUSTED: role/context/output limit'')
           else
           let rows = usage_records db (call_run c) in
           bindE (scan_reservations candidate rows) (\<lambda>known.
             if known then Inr (False, db)
             else bindE (reserve_new candidate limits role now rows db) (\<lambda>db'. Inr (True, db')))))))"

definition put_attempt :: "budget_call \<Rightarrow> attempt_row \<Rightarrow> usage_db \<Rightarrow> usage_db" where
  "put_attempt c row db = db\<lparr>ud_attempts := AList.update (call_key c) row (ud_attempts db)\<rparr>"

definition mark_dispatched :: "budget_call \<Rightarrow> usage_db \<Rightarrow> (bool \<times> usage_db) result" where
  "mark_dispatched c db =
     bindE (find_attempt db c) (\<lambda>row.
       if at_state row \<noteq> py ''reserved'' then Inr (False, db)
       else bindE (check_provider_overrun (usage_records db (call_run c))) (\<lambda>_.
         Inr (True, put_attempt c (row\<lparr>at_state := py ''dispatched''\<rparr>) db)))"

definition release_budget :: "budget_call \<Rightarrow> pystr \<Rightarrow> int \<Rightarrow> bool \<Rightarrow> usage_db \<Rightarrow> usage_db result" where
  "release_budget c reason now hit db =
     bindE (text_field ''reason'' reason) (\<lambda>_.
     bindE (count ''now'' now 0) (\<lambda>_.
     bindE (find_attempt db c) (\<lambda>row.
       if at_state row = py ''released'' then
         (case at_release row of None \<Rightarrow> Inl (TypeError ''release_json'')
          | Some previous \<Rightarrow> if rn_reason previous \<noteq> reason \<or> rn_response_cache_hit previous \<noteq> hit
              then Inl (BudgetConflict ''immutable release metadata differs'') else Inr db)
       else if at_state row \<noteq> py ''reserved''
         then Inl (BudgetConflict ''dispatched usage is unknown; record it without refunding'')
       else Inr (put_attempt c (row\<lparr>at_state := py ''released'', at_release := Some \<lparr>rn_reason = reason, rn_released_at = now,
              rn_response_cache_hit = hit\<rparr>\<rparr>) db))))"

definition ledger_of :: "platform \<Rightarrow> reservation \<Rightarrow> token_usage \<Rightarrow> int \<Rightarrow> ledger_entry result" where
  "ledger_of P r u now =
     bindE (case rv_pricing r of None \<Rightarrow> Inr None
            | Some p \<Rightarrow> bindE (canonical_hash P (pricing_json p)) (\<lambda>h. Inr (Some h))) (\<lambda>price_hash.
       Inr \<lparr>le_call = rv_call r, le_usage = u, le_recorded_at = now, le_cost_decimal = usage_cost u (rv_pricing r),
            le_pricing_snapshot_id = map_option pr_snapshot_id (rv_pricing r), le_pricing_snapshot_hash = price_hash\<rparr>)"

definition record_usage :: "platform \<Rightarrow> budget_call \<Rightarrow> token_usage \<Rightarrow> int \<Rightarrow> usage_db \<Rightarrow> (ledger_entry \<times> usage_db) result" where
  "record_usage P c u now db =
     bindE (count ''now'' now 0) (\<lambda>_.
     bindE (find_attempt db c) (\<lambda>row.
       case at_ledger row of
         Some previous \<Rightarrow> if le_usage previous \<noteq> u then Inl (BudgetConflict ''immutable usage differs'') else Inr (previous, db)
       | None \<Rightarrow>
           if at_state row \<noteq> py ''dispatched'' then Inl (BudgetConflict ''usage requires a dispatched reservation'')
           else bindE (ledger_of P (at_reservation row) u now) (\<lambda>ledger.
             Inr (ledger, put_attempt c (row\<lparr>at_state := py ''settled'', at_ledger := Some ledger\<rparr>) db))))"

definition cost_data :: "pystr \<Rightarrow> pystr \<Rightarrow> usage_db \<Rightarrow> attempt_row list result" where
  "cost_data tenant run db = bindE (usage_run db tenant run) (\<lambda>_. Inr (usage_records db (tenant, run)))"

definition usage_ledger :: "pystr \<Rightarrow> pystr \<Rightarrow> usage_db \<Rightarrow> ledger_entry list result" where
  "usage_ledger tenant run db = bindE (cost_data tenant run db) (\<lambda>rows. Inr (List.map_filter at_ledger rows))"

section \<open>Cost summary\<close>

record cost_summary =
  co_input_tokens :: int
  co_output_tokens :: int
  co_attempt_count :: nat
  co_cache_hit_count :: nat
  co_amount :: "pystr option"
  co_pricing_snapshot_id :: "pystr option"
  co_cost_status :: pystr

definition known_costs :: "attempt_row list \<Rightarrow> pystr list" where
  "known_costs rows = List.map_filter le_cost_decimal (List.map_filter at_ledger (filter active rows))"

definition summarize_costs :: "attempt_row list \<Rightarrow> cost_summary" where
  "summarize_costs all_records =
     (let records = filter active all_records;
          settled = List.map_filter at_ledger records;
          costs = known_costs all_records;
          all_known = (records \<noteq> [] \<and> length costs = length records);
          snapshots = py_unique (map le_pricing_snapshot_id settled)
      in \<lparr>co_input_tokens = sum_list (map (\<lambda>l. or_zero (tu_input_tokens (le_usage l))) settled),
          co_output_tokens = sum_list (map (\<lambda>l. or_zero (tu_output_tokens (le_usage l))) settled),
          co_attempt_count = length (filter (\<lambda>row. at_state row \<in> {py ''dispatched'', py ''settled''}) records),
          co_cache_hit_count = length (filter (\<lambda>l. 0 < or_zero (tu_cache_read_tokens (le_usage l))) settled)
            + length (filter (\<lambda>row. case at_release row of None \<Rightarrow> False | Some n \<Rightarrow> rn_response_cache_hit n) all_records),
          co_amount = (if all_known then Some (dec_text_f (fold (\<lambda>t a. dec_add 100 a (decimal_of_text t)) costs (0, 0))) else None),
          co_pricing_snapshot_id = (case snapshots of [s] \<Rightarrow> s | _ \<Rightarrow> None),
          co_cost_status = (if all_known then py ''known'' else if costs \<noteq> [] then py ''partial'' else py ''unknown_cost'')\<rparr>)"

definition cost_summary_of :: "pystr \<Rightarrow> pystr \<Rightarrow> usage_db \<Rightarrow> cost_summary result" where
  "cost_summary_of tenant run db = bindE (cost_data tenant run db) (\<lambda>rows. Inr (summarize_costs rows))"

end
