(* ===== verification/Budget_Inv.thy ===== *)
theory Budget_Inv
  imports Budget Growing_Store "HOL-Library.Multiset"
begin

text \<open>
  The usage store as a state machine: the steps of the database, the invariant that keeps the spending of every run within its limits, and the order along
  which attempts move. \<open>growing_store\<close> is interpreted on it.
\<close>

section \<open>Rows of a run\<close>

definition run_rows :: "usage_db \<Rightarrow> pystr \<times> pystr \<Rightarrow> attempt_row list" where
  "run_rows db k = map snd (filter (\<lambda>kv. fst (fst kv) = k) (ud_attempts db))"

lemma mset_records: "mset (usage_records db k) = mset (run_rows db k)"
  by (simp add: usage_records_def run_rows_def mset_map)

lemma set_records [simp]: "set (usage_records db k) = set (run_rows db k)"
  using mset_records by (metis set_mset_mset)

lemma sum_list_perm: "mset xs = mset ys \<Longrightarrow> sum_list (map f xs) = sum_list (map f ys :: int list)"
  by (metis mset_map sum_mset_sum_list)

lemma filter_perm: "mset xs = mset ys \<Longrightarrow> mset (filter p xs) = mset (filter p ys)"
  by simp

lemma records_measures:
  "input_used (usage_records db k) = input_used (run_rows db k)"
  "output_used (usage_records db k) = output_used (run_rows db k)"
  "length (filter p (usage_records db k)) = length (filter p (run_rows db k))"
  unfolding input_used_def output_used_def
  using sum_list_perm [OF filter_perm [OF mset_records]] mset_eq_length [OF filter_perm [OF mset_records]] by blast+

lemma overrun_records: "check_provider_overrun (usage_records db k) = Inr u \<longleftrightarrow> (\<forall>row \<in> set (run_rows db k). \<not> overrun row)"
  by (auto simp: check_provider_overrun_def list_ex_iff)

text \<open>An update replaces one row of its own run.\<close>

lemma put_attempt_rows:
  assumes "map_of (ud_attempts db) (call_key c) = Some row"
  obtains xs ys where "run_rows db (call_run c) = xs @ row # ys" "run_rows (put_attempt c row' db) (call_run c) = xs @ row' # ys"
    "\<And>k. k \<noteq> call_run c \<Longrightarrow> run_rows (put_attempt c row' db) k = run_rows db k"
proof -
  obtain as bs where "ud_attempts db = as @ (call_key c, row) # bs" "AList.update (call_key c) row' (ud_attempts db) = as @ (call_key c, row') # bs"
    by (rule update_split [OF assms])
  then show ?thesis
    by (intro that [of "map snd (filter (\<lambda>kv. fst (fst kv) = call_run c) as)" "map snd (filter (\<lambda>kv. fst (fst kv) = call_run c) bs)"])
      (simp_all add: run_rows_def put_attempt_def call_key_def)
qed

lemma find_attemptD: "find_attempt db c = Inr row \<Longrightarrow> map_of (ud_attempts db) (call_key c) = Some row \<and> row_call row = c"
  by (auto simp: find_attempt_def row_call_def split: option.splits if_splits)

section \<open>Steps\<close>

inductive usage_step :: "platform \<Rightarrow> usage_db \<Rightarrow> usage_db \<Rightarrow> bool" for P where
  create: "mk_budget_limits limits = Inr limits \<Longrightarrow> list_all (\<lambda>r. mk_role_limit r = Inr r) (bl_roles limits)
    \<Longrightarrow> create_budget tenant run version limits db = Inr db' \<Longrightarrow> usage_step P db db'"
| reserve: "mk_budget_call c = Inr c \<Longrightarrow> reserve_budget c input output price now db = Inr (b, db') \<Longrightarrow> usage_step P db db'"
| dispatch: "mark_dispatched c db = Inr (b, db') \<Longrightarrow> usage_step P db db'"
| release: "release_budget c reason now hit db = Inr db' \<Longrightarrow> usage_step P db db'"
| settle: "mk_token_usage u = Inr u \<Longrightarrow> record_usage P c u now db = Inr (l, db') \<Longrightarrow> usage_step P db db'"

section \<open>Attempts move forward\<close>

definition attempt_edge :: "pystr \<Rightarrow> pystr \<Rightarrow> bool" where
  "attempt_edge s t \<longleftrightarrow> (s, t) \<in> {(py ''reserved'', py ''dispatched''), (py ''reserved'', py ''released''), (py ''dispatched'', py ''settled'')}"

definition row_ok :: "attempt_row \<Rightarrow> bool" where
  "row_ok row \<longleftrightarrow> 0 \<le> rv_input_tokens (at_reservation row) \<and> 0 \<le> rv_max_output_tokens (at_reservation row)
     \<and> at_state row \<in> {py ''reserved'', py ''dispatched'', py ''settled'', py ''released''}
     \<and> (at_ledger row \<noteq> None \<longleftrightarrow> at_state row = py ''settled'')"

definition row_next :: "attempt_row \<Rightarrow> attempt_row \<Rightarrow> bool" where
  "row_next a b \<longleftrightarrow> at_reservation b = at_reservation a \<and> attempt_edge (at_state a) (at_state b) \<and> at_ledger a = None
     \<and> (at_ledger b \<noteq> None \<longleftrightarrow> at_state b = py ''settled'')"

definition row_le :: "attempt_row \<Rightarrow> attempt_row \<Rightarrow> bool" where
  "row_le a b \<longleftrightarrow> at_reservation b = at_reservation a \<and> (at_state a \<noteq> py ''reserved'' \<longrightarrow> at_state b \<noteq> py ''reserved'')
     \<and> (at_state a = py ''dispatched'' \<longrightarrow> at_state b \<in> {py ''dispatched'', py ''settled''})
     \<and> (at_state a \<in> {py ''settled'', py ''released''} \<longrightarrow> b = a)"

definition usage_le :: "usage_db \<Rightarrow> usage_db \<Rightarrow> bool" where
  "usage_le db db' \<longleftrightarrow> map_grows (ud_runs db) (ud_runs db') \<and> map_grows (ud_prices db) (ud_prices db')
     \<and> (\<forall>k a. map_of (ud_attempts db) k = Some a \<longrightarrow> (\<exists>b. map_of (ud_attempts db') k = Some b \<and> row_le a b))"

lemma row_le_refl [simp]: "row_le a a"
  by (simp add: row_le_def)

lemma row_le_trans: "row_le a b \<Longrightarrow> row_le b c \<Longrightarrow> row_le a c"
  by (auto simp: row_le_def)

lemma row_next_le: "row_next a b \<Longrightarrow> row_le a b"
  by (auto simp: row_next_def row_le_def attempt_edge_def)

lemma usage_le_refl [simp]: "usage_le db db"
  by (simp add: usage_le_def)

lemma usage_le_trans:
  assumes "usage_le a b" "usage_le b c"
  shows "usage_le a c"
proof -
  have "\<exists>y. map_of (ud_attempts c) k = Some y \<and> row_le x y" if "map_of (ud_attempts a) k = Some x" for k x
    using assms that row_le_trans unfolding usage_le_def by meson
  then show ?thesis
    using assms map_grows_trans unfolding usage_le_def by meson
qed

text \<open>What one operation does: it adds a run, adds a reserved attempt, or moves one attempt.\<close>

inductive usage_move :: "usage_db \<Rightarrow> usage_db \<Rightarrow> bool" where
  stay: "usage_move db db"
| add_run: "map_of (ud_runs db) k = None \<Longrightarrow> mk_budget_limits limits = Inr limits
    \<Longrightarrow> list_all (\<lambda>r. mk_role_limit r = Inr r) (bl_roles limits) \<Longrightarrow> usage_move db (db\<lparr>ud_runs := ud_runs db @ [(k, version, limits)]\<rparr>)"
| add_attempt: "map_of (ud_runs db) (call_run (rv_call r)) = Some (version, limits)
    \<Longrightarrow> find (\<lambda>x. rl_role x = bc_role (rv_call r)) (bl_roles limits) = Some role
    \<Longrightarrow> scan_reservations r (usage_records db (call_run (rv_call r))) = Inr False
    \<Longrightarrow> 0 \<le> rv_input_tokens r \<Longrightarrow> 0 \<le> rv_max_output_tokens r
    \<Longrightarrow> reserve_new r limits role now (usage_records db (call_run (rv_call r))) db = Inr db' \<Longrightarrow> usage_move db db'"
| move: "map_of (ud_attempts db) (call_key c) = Some row \<Longrightarrow> row_call row = c \<Longrightarrow> row_next row row'
    \<Longrightarrow> at_state row' = py ''dispatched'' \<longrightarrow> (\<forall>x \<in> set (run_rows db (call_run c)). \<not> overrun x)
    \<Longrightarrow> usage_move db (put_attempt c row' db)"

text \<open>A reservation is already stored, or it is a new one that passed every check.\<close>

lemma reserve_budgetD:
  fixes c i out price
  defines "r \<equiv> \<lparr>rv_call = c, rv_input_tokens = i, rv_max_output_tokens = out, rv_pricing = price\<rparr>"
  assumes "reserve_budget c i out price now db = Inr (b, db')"
  shows "0 \<le> i \<and> 1 \<le> out \<and> (\<exists>version limits role. map_of (ud_runs db) (call_run c) = Some (version, limits)
     \<and> find (\<lambda>x. rl_role x = bc_role c) (bl_roles limits) = Some role
     \<and> scan_reservations r (usage_records db (call_run c)) = Inr (\<not> b)
     \<and> (if b then reserve_new r limits role now (usage_records db (call_run c)) db = Inr db' else db' = db))"
proof -
  let ?rows = "usage_records db (call_run c)"
  obtain version limits role known where
    1: "map_of (ud_runs db) (call_run c) = Some (version, limits)" "find (\<lambda>x. rl_role x = bc_role c) (bl_roles limits) = Some role"
      "0 \<le> i" "1 \<le> out" "scan_reservations r ?rows = Inr known"
      "(if known then Inr (False, db) else bindE (reserve_new r limits role now ?rows db) (\<lambda>db'. Inr (True, db'))) = Inr (b, db')"
    using assms unfolding reserve_budget_def
    by (simp add: result_simps Let_def usage_run_def count_def flip: call_run_def) blast
  from 1(6) have "known = (\<not> b)" "if b then reserve_new r limits role now ?rows db = Inr db' else db' = db"
    by (auto simp: bindE_Inr_iff split: if_splits)
  with 1 show ?thesis by blast
qed

lemma reserve_moves:
  assumes "reserve_budget c i out price now db = Inr (b, db')"
  shows "usage_move db db'"
proof (cases b)
  case True
  with reserve_budgetD [OF assms] show ?thesis
    by (auto intro!: usage_move.add_attempt [where r = "\<lparr>rv_call = c, rv_input_tokens = i, rv_max_output_tokens = out, rv_pricing = price\<rparr>"])
next
  case False
  with reserve_budgetD [OF assms] show ?thesis by (auto intro: usage_move.stay)
qed

lemma step_moves:
  assumes "usage_step P db db'" "\<And>k row. map_of (ud_attempts db) k = Some row \<Longrightarrow> row_ok row"
  shows "usage_move db db'"
  using assms
proof (induction rule: usage_step.induct)
  case (create limits tenant run version db db')
  then show ?case
    by (auto simp: create_budget_def result_simps split: option.splits if_splits intro: usage_move.intros)
next
  case (reserve c i out price now db b db')
  then show ?case using reserve_moves by blast
next
  case (dispatch c db b db')
  then obtain row where row: "find_attempt db c = Inr row" by (auto simp: mark_dispatched_def result_simps)
  note f = find_attemptD [OF row]
  then have ok: "row_ok row" using dispatch(2) by blast
  show ?case
  proof (cases "at_state row = py ''reserved''")
    case True
    with dispatch(1) row have "db' = put_attempt c (row\<lparr>at_state := py ''dispatched''\<rparr>) db"
      "\<forall>x \<in> set (run_rows db (call_run c)). \<not> overrun x"
      by (auto simp: mark_dispatched_def result_simps overrun_records)
    moreover have "row_next row (row\<lparr>at_state := py ''dispatched''\<rparr>)"
      using ok True by (simp add: row_next_def attempt_edge_def row_ok_def)
    ultimately show ?thesis using f by (auto intro: usage_move.move)
  qed (use dispatch(1) row in \<open>auto simp: mark_dispatched_def intro: usage_move.stay\<close>)
next
  case (release c reason now hit db db')
  then obtain row where row: "find_attempt db c = Inr row" by (auto simp: release_budget_def result_simps)
  note f = find_attemptD [OF row]
  then have ok: "row_ok row" using release(2) by blast
  show ?case
  proof (cases "at_state row = py ''reserved''")
    case True
    then obtain n where "db' = put_attempt c (row\<lparr>at_state := py ''released'', at_release := Some n\<rparr>) db"
      using release(1) row by (auto simp: release_budget_def result_simps)
    moreover have "row_next row (row\<lparr>at_state := py ''released'', at_release := Some n\<rparr>)" for n
      using ok True by (simp add: row_next_def attempt_edge_def row_ok_def)
    ultimately show ?thesis using f by (auto intro: usage_move.move)
  next
    case False
    with release(1) row have "db' = db"
      by (auto simp: release_budget_def result_simps split: if_splits option.splits)
    then show ?thesis by (simp add: usage_move.stay)
  qed
next
  case (settle u c now db l db')
  then obtain row where row: "find_attempt db c = Inr row" by (auto simp: record_usage_def result_simps)
  note f = find_attemptD [OF row]
  show ?case
  proof (cases "at_ledger row")
    case None
    with settle(2) row have 1: "db' = put_attempt c (row\<lparr>at_state := py ''settled'', at_ledger := Some l\<rparr>) db" "at_state row = py ''dispatched''"
      by (auto simp: record_usage_def result_simps)
    then have "row_next row (row\<lparr>at_state := py ''settled'', at_ledger := Some l\<rparr>)"
      using None by (simp add: row_next_def attempt_edge_def)
    with 1 f show ?thesis by (auto intro: usage_move.move)
  qed (use settle(2) row in \<open>auto simp: record_usage_def result_simps intro: usage_move.stay split: if_splits\<close>)
qed

section \<open>Spending stays within the limits\<close>

definition role_calls :: "pystr \<Rightarrow> attempt_row list \<Rightarrow> int" where
  "role_calls role rows = int (length (filter (\<lambda>row. active row \<and> bc_role (row_call row) = role) rows))"

definition within_limits :: "budget_limits \<Rightarrow> attempt_row list \<Rightarrow> bool" where
  "within_limits limits rows \<longleftrightarrow>
     ((\<forall>row \<in> set rows. \<not> overrun row) \<longrightarrow> input_used rows \<le> bl_input_tokens limits \<and> output_used rows \<le> bl_output_tokens limits)
     \<and> (\<forall>role r. find (\<lambda>x. rl_role x = role) (bl_roles limits) = Some r \<longrightarrow> role_calls role rows \<le> rl_max_calls r)"

definition usage_ok :: "usage_db \<Rightarrow> bool" where
  "usage_ok db \<longleftrightarrow> distinct (map fst (ud_attempts db))
     \<and> (\<forall>(k, row) \<in> set (ud_attempts db). row_ok row \<and> call_key (row_call row) = k \<and> map_of (ud_runs db) (fst k) \<noteq> None)
     \<and> (\<forall>k v limits. map_of (ud_runs db) k = Some (v, limits) \<longrightarrow> within_limits limits (run_rows db k))"

lemma usage_used_simps:
  "input_used [] = 0" "output_used [] = 0" "role_calls r [] = 0"
  "input_used (xs @ row # ys) = input_used xs + input_used ys + (if active row then used_tokens tu_input_tokens rv_input_tokens row else 0)"
  "output_used (xs @ row # ys) = output_used xs + output_used ys + (if active row then used_tokens tu_output_tokens rv_max_output_tokens row else 0)"
  "role_calls r (xs @ row # ys) = role_calls r xs + role_calls r ys + (if active row \<and> bc_role (row_call row) = r then 1 else 0)"
  by (simp_all add: input_used_def output_used_def role_calls_def)

text \<open>Moving an attempt never increases what is used, unless it is an overrun.\<close>

lemma row_next_used:
  assumes "row_next a b" "row_ok a" "\<not> overrun b"
  shows "(if active b then used_tokens tu_input_tokens rv_input_tokens b else 0) \<le> (if active a then used_tokens tu_input_tokens rv_input_tokens a else 0)"
    "(if active b then used_tokens tu_output_tokens rv_max_output_tokens b else 0) \<le> (if active a then used_tokens tu_output_tokens rv_max_output_tokens a else 0)"
  using assms
  by (auto simp: row_next_def row_ok_def attempt_edge_def active_def used_tokens_def overrun_def split: option.splits)

lemma row_next_calls:
  assumes "row_next a b" "row_ok a"
  shows "active b \<Longrightarrow> active a" "row_call b = row_call a" "\<not> overrun a" "row_ok b"
  using assms by (auto simp: row_next_def row_ok_def attempt_edge_def active_def row_call_def overrun_def)

lemma within_limits_move:
  assumes "within_limits limits (xs @ a # ys)" "row_next a b" "row_ok a"
  shows "within_limits limits (xs @ b # ys)"
  unfolding within_limits_def
proof (intro conjI impI allI)
  assume no: "\<forall>row \<in> set (xs @ b # ys). \<not> overrun row"
  then have "\<forall>row \<in> set (xs @ a # ys). \<not> overrun row"
    using row_next_calls(3) [OF assms(2,3)] by auto
  then show "input_used (xs @ b # ys) \<le> bl_input_tokens limits" "output_used (xs @ b # ys) \<le> bl_output_tokens limits"
    using assms(1) row_next_used [OF assms(2,3)] no unfolding within_limits_def usage_used_simps by fastforce+
next
  fix role r assume "find (\<lambda>x. rl_role x = role) (bl_roles limits) = Some r"
  then have "role_calls role (xs @ a # ys) \<le> rl_max_calls r"
    using assms(1) by (simp add: within_limits_def)
  then show "role_calls role (xs @ b # ys) \<le> rl_max_calls r"
    using row_next_calls [OF assms(2,3)] unfolding usage_used_simps by (auto split: if_splits)
qed

lemma scan_False:
  assumes "scan_reservations r rows = Inr False" "row \<in> set rows"
  shows "bc_request_id (row_call row) \<noteq> bc_request_id (rv_call r) \<or> bc_attempt (row_call row) \<noteq> bc_attempt (rv_call r)"
  using assms by (induction r rows rule: scan_reservations.induct) (auto simp: Let_def split: if_splits)

lemma put_price_rows:
  assumes "put_price p db = Inr db'"
  shows "ud_runs db' = ud_runs db" "ud_attempts db' = ud_attempts db" "map_grows (ud_prices db) (ud_prices db')"
  using assms map_grows_snoc by (auto simp: put_price_def split: option.splits if_splits)

lemma reserve_newD:
  assumes "reserve_new r limits role now rows db = Inr db'"
  shows "ud_attempts db' = ud_attempts db @ [(call_key (rv_call r), new_attempt r now)]" "ud_runs db' = ud_runs db"
    "map_grows (ud_prices db) (ud_prices db')" "\<forall>row \<in> set rows. \<not> overrun row"
    "role_calls (bc_role (rv_call r)) rows < rl_max_calls role"
    "input_used rows + rv_input_tokens r \<le> bl_input_tokens limits" "output_used rows + rv_max_output_tokens r \<le> bl_output_tokens limits"
    "bc_attempt (rv_call r) = max_attempt (rv_call r) rows + 1" "bc_attempt (rv_call r) \<le> bl_max_attempts limits"
  using assms put_price_rows
  by (auto simp: reserve_new_def Let_def result_simps check_provider_overrun_def check_budget_def role_calls_def list_ex_iff)

lemma new_attempt_ok: "0 \<le> rv_input_tokens r \<Longrightarrow> 0 \<le> rv_max_output_tokens r \<Longrightarrow> row_ok (new_attempt r now)"
  by (simp add: row_ok_def new_attempt_def)

lemma usage_ok_row: "usage_ok db \<Longrightarrow> map_of (ud_attempts db) k = Some row \<Longrightarrow> row_ok row \<and> call_key (row_call row) = k"
  by (auto simp: usage_ok_def dest!: map_of_SomeD)

lemma usage_ok_rows:
  assumes "usage_ok db" "row \<in> set (run_rows db k)"
  shows "map_of (ud_attempts db) (call_key (row_call row)) = Some row" "call_run (row_call row) = k"
proof -
  obtain i where i: "(i, row) \<in> set (ud_attempts db)" "fst i = k"
    using assms(2) by (auto simp: run_rows_def)
  then have "call_key (row_call row) = i"
    using assms(1) by (auto simp: usage_ok_def)
  with i assms(1) show "map_of (ud_attempts db) (call_key (row_call row)) = Some row" "call_run (row_call row) = k"
    by (auto simp: usage_ok_def map_of_eq_Some_iff call_key_def)
qed

lemma run_rows_of: "usage_ok db \<Longrightarrow> map_of (ud_attempts db) k = Some row \<Longrightarrow> row \<in> set (run_rows db (fst k))"
  by (force simp: run_rows_def dest: map_of_SomeD)

lemma usage_limits: "usage_ok db \<Longrightarrow> map_of (ud_runs db) k = Some (v, limits) \<Longrightarrow> within_limits limits (run_rows db k)"
  unfolding usage_ok_def by blast

text \<open>A new run has no attempts yet.\<close>

lemma add_run_ok:
  assumes "usage_ok db" "map_of (ud_runs db) k = None" "mk_budget_limits limits = Inr limits"
    "list_all (\<lambda>r. mk_role_limit r = Inr r) (bl_roles limits)"
  shows "usage_ok (db\<lparr>ud_runs := ud_runs db @ [(k, version, limits)]\<rparr>)"
proof -
  let ?db = "db\<lparr>ud_runs := ud_runs db @ [(k, version, limits)]\<rparr>"
  have rows: "run_rows ?db k' = run_rows db k'" for k'
    by (simp add: run_rows_def)
  have "run_rows db k = []"
    using assms(1,2) by (fastforce simp: run_rows_def usage_ok_def filter_empty_conv)
  moreover have "0 \<le> bl_input_tokens limits" "0 \<le> bl_output_tokens limits"
    using assms(3) by (auto simp: mk_budget_limits_def count_def result_simps)
  moreover have "0 \<le> rl_max_calls r" if "find p (bl_roles limits) = Some r" for p r
    using assms(4) that by (auto simp: find_Some_iff list_all_length mk_role_limit_def count_def result_simps)
  ultimately have new: "within_limits limits (run_rows db k)"
    by (simp add: within_limits_def usage_used_simps)
  have runs: "map_of (ud_runs ?db) k' = (if k' = k then Some (version, limits) else map_of (ud_runs db) k')" for k'
    using assms(2) by (simp add: map_add_def split: option.split)
  have "within_limits l (run_rows db k')" if "map_of (ud_runs ?db) k' = Some (v, l)" for k' v l
    using that new usage_limits [OF assms(1)] unfolding runs by (cases "k' = k") auto
  moreover have "map_of (ud_runs ?db) k' \<noteq> None" if "map_of (ud_runs db) k' \<noteq> None" for k'
    using that unfolding runs by simp
  ultimately show ?thesis
    using assms(1) unfolding usage_ok_def rows by fastforce
qed

lemma add_attempt_ok:
  assumes "usage_ok db" "map_of (ud_runs db) (call_run (rv_call r)) = Some (version, limits)"
    "find (\<lambda>x. rl_role x = bc_role (rv_call r)) (bl_roles limits) = Some role"
    "scan_reservations r (usage_records db (call_run (rv_call r))) = Inr False"
    "0 \<le> rv_input_tokens r" "0 \<le> rv_max_output_tokens r"
    "reserve_new r limits role now (usage_records db (call_run (rv_call r))) db = Inr db'"
  shows "usage_ok db'"
proof -
  let ?k = "call_run (rv_call r)" let ?row = "new_attempt r now"
  note new = reserve_newD [OF assms(7)]
  have call: "row_call ?row = rv_call r" by (simp add: row_call_def new_attempt_def)
  have "call_key (rv_call r) \<notin> fst ` set (ud_attempts db)"
  proof
    assume "call_key (rv_call r) \<in> fst ` set (ud_attempts db)"
    then obtain row where row: "map_of (ud_attempts db) (call_key (rv_call r)) = Some row"
      by (metis map_of_eq_None_iff not_Some_eq)
    then have "row \<in> set (usage_records db ?k)" "call_key (row_call row) = call_key (rv_call r)"
      using run_rows_of [OF assms(1) row] usage_ok_row [OF assms(1) row] by (simp_all add: call_key_def)
    with scan_False [OF assms(4)] show False by (fastforce simp: call_key_def)
  qed
  then have dist: "distinct (map fst (ud_attempts db'))"
    using assms(1) new(1) by (simp add: usage_ok_def)
  have rows: "run_rows db' k = run_rows db k @ (if k = ?k then [?row] else [])" for k
    by (simp add: run_rows_def new(1) call_key_def)
  have lim: "within_limits limits' (run_rows db' k)" if "map_of (ud_runs db) k = Some (v, limits')" for k v limits'
  proof (cases "k = ?k")
    case True
    with that assms(2) have l: "limits' = limits" by simp
    have act: "active ?row" "\<not> overrun ?row" "used_tokens tu_input_tokens rv_input_tokens ?row = rv_input_tokens r"
      "used_tokens tu_output_tokens rv_max_output_tokens ?row = rv_max_output_tokens r"
      by (simp_all add: new_attempt_def active_def overrun_def used_tokens_def)
    have "role_calls role' (run_rows db ?k) + (if bc_role (rv_call r) = role' then 1 else 0) \<le> rl_max_calls r'"
      if "find (\<lambda>x. rl_role x = role') (bl_roles limits) = Some r'" for role' r'
      using that new(5) assms(3) usage_limits [OF assms(1,2)] unfolding role_calls_def records_measures within_limits_def
      by (cases "bc_role (rv_call r) = role'") auto
    then show ?thesis
      using new(6,7) act call unfolding within_limits_def rows l True records_measures
      by (simp add: usage_used_simps)
  next
    case False
    then show ?thesis using usage_limits [OF assms(1) that] by (simp add: rows)
  qed
  show ?thesis
    unfolding usage_ok_def new(2)
  proof (intro conjI)
    show "\<forall>(k, row) \<in> set (ud_attempts db'). row_ok row \<and> call_key (row_call row) = k \<and> map_of (ud_runs db) (fst k) \<noteq> None"
      using assms(1,2) new_attempt_ok [OF assms(5,6)] call unfolding new(1) usage_ok_def by (auto simp: call_key_def)
  qed (use dist lim in auto)
qed

lemma move_ok:
  assumes "usage_ok db" "map_of (ud_attempts db) (call_key c) = Some a" "row_call a = c" "row_next a b"
  shows "usage_ok (put_attempt c b db)"
proof -
  note a = usage_ok_row [OF assms(1,2)]
  obtain xs ys where rows: "run_rows db (call_run c) = xs @ a # ys" "run_rows (put_attempt c b db) (call_run c) = xs @ b # ys"
    "\<And>k. k \<noteq> call_run c \<Longrightarrow> run_rows (put_attempt c b db) k = run_rows db k"
    by (rule put_attempt_rows [OF assms(2)]) blast
  have lim: "within_limits limits (run_rows (put_attempt c b db) k)" if "map_of (ud_runs db) k = Some (v, limits)" for k v limits
    using usage_limits [OF assms(1) that] within_limits_move [OF _ assms(4)] a rows by (cases "k = call_run c") auto
  obtain as bs where split: "ud_attempts db = as @ (call_key c, a) # bs" "AList.update (call_key c) b (ud_attempts db) = as @ (call_key c, b) # bs"
    by (rule update_split [OF assms(2)])
  have "row_ok b" "row_call b = c"
    using row_next_calls [OF assms(4)] a assms(3) by auto
  then show ?thesis
    using assms(1) lim split unfolding usage_ok_def by (simp add: put_attempt_def)
qed

lemma usage_move_ok: "usage_move db db' \<Longrightarrow> usage_ok db \<Longrightarrow> usage_ok db'"
  by (induction rule: usage_move.induct) (auto intro: add_run_ok add_attempt_ok move_ok)

lemma usage_move_le:
  assumes "usage_move db db'"
  shows "usage_le db db'"
  using assms
proof cases
  case (add_run k limits version)
  then show ?thesis using map_grows_snoc by (auto simp: usage_le_def)
next
  case (add_attempt r version limits role now)
  note new = reserve_newD [OF add_attempt(6)]
  have "map_grows (ud_attempts db) (ud_attempts db')" using new(1) map_grows_snoc by metis
  then show ?thesis using new(2,3) by (auto simp: usage_le_def map_grows_def)
next
  case (move c row row')
  then show ?thesis using row_next_le by (auto simp: usage_le_def put_attempt_def update_conv')
qed simp

lemma usage_step_move: "usage_ok db \<Longrightarrow> usage_step P db db' \<Longrightarrow> usage_move db db'"
  using step_moves usage_ok_row by blast

interpretation udb: growing_store "usage_step P" usage_ok usage_le for P
proof
  show "usage_le db db''" if "usage_le db db'" "usage_le db' db''" for db db' db''
    using that by (rule usage_le_trans)
qed (auto intro: usage_move_ok usage_move_le usage_step_move)

definition usage_reachable :: "platform \<Rightarrow> usage_db \<Rightarrow> bool" where
  "usage_reachable P db \<longleftrightarrow> (usage_step P)\<^sup>*\<^sup>* empty_usage db"

lemma usage_reachable_ok: "usage_reachable P db \<Longrightarrow> usage_ok db"
  unfolding usage_reachable_def by (erule udb.steps_good) (simp add: usage_ok_def empty_usage_def)

end
