(* ===== verification/Budget_Cost.thy ===== *)
theory Budget_Cost
  imports Budget Stdlib_Props
begin

text \<open>
  The cost of a provider call is computed in decimal arithmetic of 100 digits. This theory shows that no rounding takes place for prices below
  \<open>10\<^sup>2\<^sup>0\<close> dollars per million tokens, and that the text of the amount has the exact value.
\<close>

section \<open>Decimals that fit the context\<close>

text \<open>A decimal with at least 36 places above its last digit and a value below \<open>10\<^sup>6\<^sup>0\<close> has at most 96 digits.\<close>

definition fits :: "decimal \<Rightarrow> bool" where
  "fits d \<longleftrightarrow> 0 \<le> fst d \<and> -36 \<le> snd d \<and> dec_value d < 10 ^ 60"

lemma fits_coefficient:
  assumes "fits d"
  shows "fst d < 10 ^ 96"
proof -
  have "of_int (fst d) * (10 :: rat) powi (-36) \<le> of_int (fst d) * 10 powi snd d"
    using assms by (intro mult_left_mono power_int_increasing) (auto simp: fits_def)
  also have "\<dots> < 10 ^ 60"
    using assms by (simp add: fits_def dec_value_powi)
  finally have "of_int (fst d) < (10 :: rat) ^ 60 * 10 ^ 36"
    by (simp add: power_int_def field_simps)
  then have "of_int (fst d) < (of_int (10 ^ 96) :: rat)" by simp
  then show ?thesis unfolding of_int_less_iff .
qed

lemma dec_fix_fits: "fits d \<Longrightarrow> dec_fix 100 d = d"
proof -
  assume f: "fits d"
  have "nat \<bar>fst d\<bar> < 10 ^ 100"
    using fits_coefficient [OF f] f by (simp add: nat_less_iff fits_def)
  then have "dec_digits d \<le> 100"
    by (simp add: dec_digits_def dec_length_le_iff)
  then show ?thesis by (simp add: dec_fix_def)
qed

lemma dec_value_shift: "0 \<le> k \<Longrightarrow> dec_value (c * 10 ^ nat k, e - k) = dec_value (c, e)"
proof -
  assume "0 \<le> k"
  have "(10 :: rat) powi k * 10 powi (e - k) = 10 powi e"
    by (simp flip: power_int_add)
  moreover have "(10 :: rat) ^ nat k = 10 powi k"
    using \<open>0 \<le> k\<close> by (simp add: power_int_def)
  ultimately show ?thesis by (simp add: dec_value_powi)
qed

lemma dec_add_exact:
  assumes "0 \<le> fst a" "0 \<le> fst b" "-36 \<le> snd a" "-36 \<le> snd b" "dec_value a + dec_value b < 10 ^ 60"
  shows "dec_value (dec_add 100 a b) = dec_value a + dec_value b" "fits (dec_add 100 a b)"
proof -
  let ?e = "min (snd a) (snd b)"
  let ?s = "(fst a * 10 ^ nat (snd a - ?e) + fst b * 10 ^ nat (snd b - ?e), ?e)"
  have "dec_value (fst d * 10 ^ nat (snd d - ?e), ?e) = dec_value d" if "?e \<le> snd d" for d
    using dec_value_shift [of "snd d - ?e" "fst d" "snd d"] that by simp
  note al = this [of a] this [of b]
  have v: "dec_value ?s = dec_value a + dec_value b"
    unfolding al(1) [symmetric, OF min.cobounded1] al(2) [symmetric, OF min.cobounded2] by (simp add: dec_value_powi distrib_right)
  with assms have "fits ?s" by (simp add: fits_def)
  then show "dec_value (dec_add 100 a b) = dec_value a + dec_value b" "fits (dec_add 100 a b)"
    using v by (simp_all add: dec_add_def Let_def dec_fix_fits)
qed

section \<open>Division by a million\<close>

lemma strip_zeros_value: "dec_value (strip_zeros ideal c e) = dec_value (c, e)"
proof (induction ideal c e rule: strip_zeros.induct)
  case (1 ideal c e)
  show ?case
  proof (cases "e < ideal \<and> c mod 10 = 0")
    case True
    then have "c = c div 10 * 10" by auto
    then have "dec_value (c div 10, e + 1) = dec_value (c, e)"
      using dec_value_shift [of 1 "c div 10" "e + 1"] by simp
    with True 1 show ?thesis by (subst strip_zeros.simps) simp
  next
    case False
    then show ?thesis by (subst strip_zeros.simps) auto
  qed
qed

lemma strip_zeros_sign: "0 \<le> c \<Longrightarrow> 0 \<le> fst (strip_zeros ideal c e)"
  by (induction ideal c e rule: strip_zeros.induct) (subst strip_zeros.simps, simp)

lemma strip_zeros_exponent: "e + int m \<le> ideal \<Longrightarrow> e + int m \<le> snd (strip_zeros ideal (c * 10 ^ m) e)"
proof (induction m arbitrary: e)
  case 0
  have "e \<le> snd (strip_zeros ideal c e)" for c
    by (induction ideal c e rule: strip_zeros.induct) (subst strip_zeros.simps, auto)
  then show ?case by simp
next
  case (Suc m)
  then have "strip_zeros ideal (c * 10 ^ Suc m) e = strip_zeros ideal (c * 10 ^ m) (e + 1)"
    by (subst strip_zeros.simps) (simp add: mult.left_commute [of c 10])
  with Suc.IH [of "e + 1"] Suc.prems show ?case by simp
qed

lemma dec_div_million:
  assumes "fits a" "-30 \<le> snd a"
  shows "dec_value (dec_div 100 a (1000000, 0)) = dec_value a / 1000000" "0 \<le> fst (dec_div 100 a (1000000, 0))"
    "-36 \<le> snd (dec_div 100 a (1000000, 0))"
proof -
  let ?q = "dec_div 100 a (1000000, 0)"
  have "nat \<bar>fst a\<bar> < 10 ^ 96"
    using fits_coefficient [OF assms(1)] assms(1) by (simp add: nat_less_iff fits_def)
  then have da: "dec_digits a \<le> 96"
    by (simp add: dec_digits_def dec_length_le_iff)
  have "dec_digits (1000000, 0) = 7"
    by (simp add: dec_digits_def dec_of_nat_step)
  then have shift: "int (dec_digits (1000000, 0)) - int (dec_digits a) + int 100 + 1 = int (108 - dec_digits a)"
    using da by simp
  have "dec_value ?q = dec_value a / 1000000 \<and> 0 \<le> fst ?q \<and> -36 \<le> snd ?q"
  proof (cases "fst a = 0")
    case True
    then show ?thesis using assms(2) by (simp add: dec_div_def Let_def dec_value_def)
  next
    case False
    obtain m where m: "108 - dec_digits a = m + 6"
      using da by (intro that [of "102 - dec_digits a"]) simp
    let ?s = "strip_zeros (snd a) (fst a * 10 ^ m) (snd a - int (m + 6))"
    have x: "fst a * 10 ^ nat (int (m + 6)) = fst a * 10 ^ m * 1000000"
      unfolding nat_int by (simp add: power_add)
    have q: "?q = dec_fix 100 ?s"
      using False unfolding dec_div_def Let_def shift m x by simp
    have "dec_value ?s = dec_value (fst a * 10 ^ m, snd a - int (m + 6))"
      by (rule strip_zeros_value)
    also have "\<dots> = dec_value a / 1000000"
      using dec_value_shift [of "int m" "fst a" "snd a - 6"]
      by (simp add: dec_value_powi power_int_diff algebra_simps)
    finally have v: "dec_value ?s = dec_value a / 1000000" .
    have e: "-36 \<le> snd ?s"
      using strip_zeros_exponent [of "snd a - int (m + 6)" m "snd a" "fst a"] assms(2) by simp
    have s: "0 \<le> fst ?s"
      using assms(1) by (intro strip_zeros_sign) (simp add: fits_def)
    have "0 \<le> dec_value a" using assms(1) by (simp add: fits_def dec_value_def)
    then have "dec_value a / 1000000 < 10 ^ 60"
      using assms(1) by (simp add: fits_def)
    then have "fits ?s" using v e s by (simp add: fits_def)
    then show ?thesis using q v e s by (simp add: dec_fix_fits)
  qed
  then show "dec_value ?q = dec_value a / 1000000" "0 \<le> fst ?q" "-36 \<le> snd ?q" by blast+
qed

section \<open>The text of an amount\<close>

lemma dec_of_nat_isdigit: "\<forall>c \<in> set (dec_of_nat n). py_isdigit c"
  using dec_of_nat_digits by (auto simp: py_isdigit_def)

lemma nat_of_dec_append: "nat_of_dec (xs @ ys) = nat_of_dec xs * 10 ^ length ys + nat_of_dec ys"
  by (induction xs) (simp_all add: power_add algebra_simps)

lemma nat_of_dec_zeros [simp]: "nat_of_dec (replicate k 48) = 0"
  by (induction k) simp_all

lemma strip_plain:
  assumes "\<forall>c \<in> set s. \<not> py_isspace c"
  shows "py_strip s = s"
proof -
  have "dropWhile py_isspace t = t" if "\<forall>c \<in> set t. \<not> py_isspace c" for t
    using that by (cases t) auto
  from this [of s] this [of "rev s"] assms show ?thesis by (simp add: py_strip_def py_lstrip_def py_rstrip_def)
qed

lemma digit_not_space: "py_isdigit c \<Longrightarrow> \<not> py_isspace c" "\<not> py_isspace 46"
  by (auto simp: py_isdigit_def py_isspace_def)

lemma decimal_of_parts:
  assumes "w \<noteq> []" "\<forall>c \<in> set (w @ f). py_isdigit c"
  shows "decimal_of_text (w @ 46 # f) = (int (nat_of_dec (w @ f)), - int (length f))"
    and "decimal_of_text w = (int (nat_of_dec w), 0)"
proof -
  have st: "py_strip (w @ 46 # f) = w @ 46 # f" "py_strip w = w"
    using assms(2) digit_not_space by (auto intro!: strip_plain)
  have hd: "take 1 (w @ x) \<noteq> [45]" for x
    using assms by (cases w) (auto simp: py_isdigit_def)
  have tw: "takeWhile py_isdigit (w @ 46 # f) = w" "dropWhile py_isdigit (w @ 46 # f) = 46 # f"
    "takeWhile py_isdigit w = w" "dropWhile py_isdigit w = []"
    using assms(2) by (simp_all add: takeWhile_append2 dropWhile_append2 py_isdigit_def)
  show "decimal_of_text (w @ 46 # f) = (int (nat_of_dec (w @ f)), - int (length f))"
    using hd [of "46 # f"] unfolding decimal_of_text_def st Let_def by (simp add: tw)
  show "decimal_of_text w = (int (nat_of_dec w), 0)"
    using hd [of "[]"] unfolding decimal_of_text_def st Let_def by (simp add: tw)
qed

lemma text_value:
  assumes "0 \<le> fst d"
  shows "dec_value (decimal_of_text (dec_text_f d)) = dec_value d"
proof -
  let ?n = "dec_of_nat (nat (fst d))"
  have ne: "?n \<noteq> []" by (subst dec_of_nat.simps) simp
  have zeros: "py_isdigit 48"
    by (simp add: py_isdigit_def)
  show ?thesis
  proof (cases "0 \<le> snd d")
    case True
    show ?thesis
    proof (cases "fst d = 0")
      case True
      have "decimal_of_text (py ''0'') = (0, 0)"
        using decimal_of_parts(2) [of "py ''0''" "[]"] by (simp add: py_def py_isdigit_def)
      with True \<open>0 \<le> snd d\<close> show ?thesis by (simp add: dec_text_f_def Let_def dec_value_def)
    next
      case False
      have "decimal_of_text (?n @ replicate (nat (snd d)) 48) = (int (nat_of_dec (?n @ replicate (nat (snd d)) 48)), 0)"
        using ne dec_of_nat_isdigit zeros by (intro decimal_of_parts(2) [where f = "[]"]) auto
      with False True assms show ?thesis
        by (simp add: dec_text_f_def Let_def dec_value_def nat_of_dec_append)
    qed
  next
    case False
    define k where "k = nat (- snd d)"
    define padded where "padded = replicate (Suc k - length ?n) 48 @ ?n"
    have len: "k < length padded" by (simp add: padded_def)
    have "\<forall>c \<in> set padded. py_isdigit c"
      using dec_of_nat_isdigit zeros by (auto simp: padded_def)
    then have "decimal_of_text (take (length padded - k) padded @ 46 # drop (length padded - k) padded)
        = (int (nat_of_dec padded), - int k)"
      using decimal_of_parts(1) [of "take (length padded - k) padded" "drop (length padded - k) padded"] len
      unfolding append_take_drop_id by (cases padded) simp_all
    moreover have "int (nat_of_dec padded) = fst d"
      using assms by (simp add: padded_def nat_of_dec_append)
    ultimately show ?thesis
      using False by (simp add: dec_text_f_def Let_def k_def padded_def dec_value_def)
  qed
qed

section \<open>Cost of a call\<close>

definition bucket_cost :: "int \<times> decimal option \<Rightarrow> rat" where
  "bucket_cost b = (case snd b of None \<Rightarrow> 0 | Some r \<Rightarrow> of_int (fst b) * dec_value r / 1000000)"

definition small_bucket :: "int \<times> decimal option \<Rightarrow> bool" where
  "small_bucket b \<longleftrightarrow> 0 \<le> fst b \<and> fst b < 2 ^ 63
     \<and> (case snd b of None \<Rightarrow> True | Some r \<Rightarrow> 0 \<le> fst r \<and> -30 \<le> snd r \<and> dec_value r < 10 ^ 20)"

lemma bucket_cost_bounds:
  assumes "small_bucket b"
  shows "0 \<le> bucket_cost b" "bucket_cost b < 10 ^ 40"
proof -
  have "0 \<le> of_int (fst b) * dec_value r / 1000000 \<and> of_int (fst b) * dec_value r / 1000000 < 10 ^ 40" if r: "snd b = Some r" for r
  proof -
    have v: "0 \<le> dec_value r" "dec_value r < 10 ^ 20"
      using assms r by (auto simp: small_bucket_def dec_value_def)
    have "of_int (fst b) \<le> (of_int (2 ^ 63) :: rat)"
      using assms unfolding of_int_le_iff small_bucket_def by simp
    then have "of_int (fst b) * dec_value r \<le> 2 ^ 63 * 10 ^ 20"
      using v assms by (intro mult_mono) (auto simp: small_bucket_def)
    then show ?thesis using v assms by (simp add: small_bucket_def)
  qed
  then show "0 \<le> bucket_cost b" "bucket_cost b < 10 ^ 40"
    by (auto simp: bucket_cost_def split: option.splits)
qed

lemma term_exact:
  assumes "small_bucket (t, Some r)"
  defines "x \<equiv> dec_div 100 (dec_mul 100 (t, 0) r) (1000000, 0)"
  shows "dec_value x = bucket_cost (t, Some r)" "0 \<le> fst x" "-36 \<le> snd x"
proof -
  let ?p = "(t * fst r, snd r)"
  have v: "dec_value ?p = of_int t * dec_value r"
    by (simp add: dec_value_powi)
  have "of_int t * dec_value r < 10 ^ 46"
    using bucket_cost_bounds(2) [OF assms(1)] by (simp add: bucket_cost_def)
  then have f: "fits ?p"
    using assms(1) v by (simp add: fits_def small_bucket_def)
  then have "dec_mul 100 (t, 0) r = ?p" by (simp add: dec_mul_def dec_fix_fits)
  moreover have "-30 \<le> snd ?p" using assms(1) by (simp add: small_bucket_def)
  ultimately show "dec_value x = bucket_cost (t, Some r)" "0 \<le> fst x" "-36 \<le> snd x"
    using dec_div_million [OF f] v by (simp_all add: x_def bucket_cost_def)
qed

lemma add_buckets_exact:
  assumes "list_all small_bucket bs" "fits a" "dec_value a + of_nat (length bs) * 10 ^ 40 < 10 ^ 60"
  shows "case add_buckets a bs of None \<Rightarrow> \<exists>b \<in> set bs. fst b \<noteq> 0 \<and> snd b = None
    | Some d \<Rightarrow> 0 \<le> fst d \<and> dec_value d = dec_value a + sum_list (map bucket_cost bs) \<and> (\<forall>b \<in> set bs. fst b \<noteq> 0 \<longrightarrow> snd b \<noteq> None)"
  using assms
proof (induction a bs rule: add_buckets.induct)
  case (1 a)
  then show ?case by (simp add: fits_def)
next
  case (2 a t rate bs)
  have step: "dec_value a + of_nat (length bs) * 10 ^ 40 < 10 ^ 60"
    using 2(5) by (simp add: algebra_simps)
  show ?case
  proof (cases "t = 0")
    case True
    then have "bucket_cost (t, rate) = 0"
      by (simp add: bucket_cost_def split: option.split)
    with True 2(1) [OF True] 2(3,4) step show ?thesis
      by (auto split: option.splits)
  next
    case False
    show ?thesis
    proof (cases rate)
      case (Some r)
      let ?x = "dec_div 100 (dec_mul 100 (t, 0) r) (1000000, 0)"
      have sb: "small_bucket (t, Some r)" using 2(3) Some by simp
      note x = term_exact [OF sb] and cb = bucket_cost_bounds [OF sb]
      have lead: "(0 :: rat) \<le> of_nat (length bs) * 10 ^ 40" by simp
      have "dec_value a + bucket_cost (t, Some r) + of_nat (length bs) * 10 ^ 40 < 10 ^ 60"
        using 2(5) cb by (simp add: algebra_simps)
      moreover from this have "dec_value a + dec_value ?x < 10 ^ 60"
        using x(1) lead by linarith
      moreover note dec_add_exact [OF _ x(2) _ x(3) this]
      ultimately show ?thesis
        using 2(2) [OF False Some] 2(3,4) x(1) False Some unfolding fits_def [of a] by (auto simp: add.assoc split: option.splits)
    qed (use False in simp)
  qed
qed

lemma check_price_small: "check_price (Some d) = Inr u \<Longrightarrow> 0 \<le> fst d \<and> -30 \<le> snd d"
  by (auto simp: check_price_def split: if_splits)

definition cheap :: "decimal option \<Rightarrow> bool" where
  "cheap x = (case x of None \<Rightarrow> True | Some d \<Rightarrow> dec_value d < 10 ^ 20)"

definition prices :: "pricing \<Rightarrow> decimal option list" where
  "prices p = [Some (pr_input_per_million p), Some (pr_output_per_million p), pr_cache_read_per_million p, pr_cache_write_per_million p]"

lemma priced_small:
  assumes "check_price x = Inr u" "cheap x" "0 \<le> t" "t < 2 ^ 63"
  shows "small_bucket (t, x)"
  using assms check_price_small by (cases x) (auto simp: small_bucket_def cheap_def)

lemma usage_buckets_small:
  assumes "mk_token_usage u = Inr u" "mk_pricing tz p = Inr p" "list_all cheap (prices p)" "usage_buckets u p = Some bs"
  shows "list_all small_bucket bs" "length bs = 4"
proof -
  obtain i out r w where f: "tu_input_tokens u = Some i" "tu_output_tokens u = Some out" "tu_cache_read_tokens u = Some r" "tu_cache_write_tokens u = Some w"
    and bs: "bs = [(i - r - w, Some (pr_input_per_million p)), (out, Some (pr_output_per_million p)),
          (r, pr_cache_read_per_million p), (w, pr_cache_write_per_million p)]"
    using assms(4) by (auto simp: usage_buckets_def split: option.splits)
  have n: "0 \<le> r" "r < 2 ^ 63" "0 \<le> w" "w < 2 ^ 63" "0 \<le> out" "out < 2 ^ 63" "i < 2 ^ 63" "r + w \<le> i"
    using assms(1) f by (simp_all add: mk_token_usage_def result_simps count_def opt_check_def or_zero_def)
  have "\<forall>x \<in> set (prices p). check_price x = Inr ()"
    using assms(2) by (auto simp: mk_pricing_def result_simps prices_def split: if_splits)
  then show "list_all small_bucket bs" "length bs = 4"
    using n assms(3) unfolding bs by (auto simp: prices_def intro!: priced_small)
qed

lemma usage_cost_exact:
  assumes "mk_token_usage u = Inr u" "mk_pricing tz p = Inr p" "list_all cheap (prices p)"
  shows "case usage_cost u (Some p) of
      None \<Rightarrow> (case usage_buckets u p of None \<Rightarrow> True | Some bs \<Rightarrow> \<exists>b \<in> set bs. fst b \<noteq> 0 \<and> snd b = None)
    | Some amount \<Rightarrow> (\<exists>bs. usage_buckets u p = Some bs \<and> dec_value (decimal_of_text amount) = sum_list (map bucket_cost bs)
        \<and> (\<forall>b \<in> set bs. fst b \<noteq> 0 \<longrightarrow> snd b \<noteq> None))"
proof (cases "usage_buckets u p")
  case (Some bs)
  have "fits (0, 0)" "dec_value (0, 0) = 0" by (simp_all add: fits_def dec_value_def)
  with add_buckets_exact [of bs "(0, 0)"] usage_buckets_small [OF assms Some] Some text_value show ?thesis
    by (auto simp: usage_cost_def split: option.splits)
qed (simp add: usage_cost_def)

end
