(* ===== verification/Budget_Props.thy ===== *)
theory Budget_Props
  imports Budget_Inv Budget_Cost Hash_Props
begin

text \<open>
  What the usage store guarantees of every run: spending stays within the immutable limits, an attempt is sent to the provider once, an
  overrun stops the run, a request has at most three attempts, and the recorded amount is the exact price of the tokens.
\<close>

section \<open>Limits\<close>

lemma usage_runD: "usage_run db tenant run = Inr (v, limits) \<Longrightarrow> map_of (ud_runs db) (tenant, run) = Some (v, limits)"
  by (auto simp: usage_run_def result_simps)

text \<open>
  C6. In every reachable state of the usage store, the calls of a role that were not released never exceed the call limit of the role, and
  as long as no provider reported more than was reserved for it, the input and the output tokens charged to the run stay within the limits
  the run was created with.
\<close>

theorem budget_is_never_exceeded:
  assumes "usage_reachable P db" "usage_run db tenant run = Inr (version, limits)"
  shows "(\<forall>role r. find (\<lambda>x. rl_role x = role) (bl_roles limits) = Some r
        \<longrightarrow> int (length (filter (\<lambda>row. active row \<and> bc_role (row_call row) = role) (usage_records db (tenant, run)))) \<le> rl_max_calls r)
     \<and> ((\<forall>row \<in> set (usage_records db (tenant, run)). \<not> overrun row)
        \<longrightarrow> input_used (usage_records db (tenant, run)) \<le> bl_input_tokens limits \<and> output_used (usage_records db (tenant, run)) \<le> bl_output_tokens limits)"
  using usage_limits [OF usage_reachable_ok [OF assms(1)] usage_runD [OF assms(2)]]
  unfolding records_measures set_records within_limits_def role_calls_def by blast

section \<open>Attempts\<close>

lemma later_row:
  assumes "usage_ok db" "(usage_step P)\<^sup>*\<^sup>* db db'" "map_of (ud_attempts db) k = Some a"
  obtains b where "map_of (ud_attempts db') k = Some b" "row_le a b"
  using udb.steps_le [OF assms(2,1)] assms(3) unfolding usage_le_def by blast

lemma row_le_call: "row_le a b \<Longrightarrow> row_call b = row_call a"
  by (simp add: row_le_def row_call_def)

text \<open>
  Once an attempt has been marked as dispatched, no later state of the store lets it be dispatched again, and its reservation cannot be
  released: the tokens stay charged.
\<close>

theorem attempt_is_dispatched_once:
  assumes "usage_reachable P db" "mark_dispatched c db = Inr (True, db')" "(usage_step P)\<^sup>*\<^sup>* db' db''"
  shows "mark_dispatched c db'' = Inr (False, db'') \<and> (\<forall>reason now hit x. release_budget c reason now hit db'' \<noteq> Inr x)"
proof -
  obtain row where row: "find_attempt db c = Inr row" and st: "at_state row = py ''reserved''"
    and db': "db' = put_attempt c (row\<lparr>at_state := py ''dispatched''\<rparr>) db"
    using assms(2) by (auto simp: mark_dispatched_def result_simps split: if_splits)
  have step: "usage_step P db db'" using assms(2) by (rule usage_step.dispatch)
  then have ok: "usage_ok db'" using udb.step_good usage_reachable_ok [OF assms(1)] by blast
  have call: "row_call row = c" using find_attemptD [OF row] by blast
  have at': "map_of (ud_attempts db') (call_key c) = Some (row\<lparr>at_state := py ''dispatched''\<rparr>)"
    by (simp add: db' put_attempt_def update_conv')
  obtain b where b: "map_of (ud_attempts db'') (call_key c) = Some b" "row_le (row\<lparr>at_state := py ''dispatched''\<rparr>) b"
    by (rule later_row [OF ok assms(3) at'])
  have st': "at_state b \<noteq> py ''reserved''" and "at_state b \<noteq> py ''released''" and call': "rv_call (at_reservation b) = c"
    using b(2) call by (auto simp: row_le_def row_call_def)
  then show ?thesis
    using b(1) by (auto simp: mark_dispatched_def release_budget_def find_attempt_def result_simps)
qed

text \<open>
  As soon as a provider has reported more tokens than the reservation allowed, the run spends nothing more: in no later state is a new
  attempt of the run reserved or a reserved one dispatched.
\<close>

theorem overrun_stops_spending:
  assumes "usage_reachable P db" "row \<in> set (usage_records db (tenant, run))" "overrun row" "(usage_step P)\<^sup>*\<^sup>* db db'"
    "call_run c = (tenant, run)"
  shows "(\<forall>i out price now x. reserve_budget c i out price now db' \<noteq> Inr (True, x)) \<and> (\<forall>x. mark_dispatched c db' \<noteq> Inr (True, x))"
proof -
  have ok: "usage_ok db" using assms(1) by (rule usage_reachable_ok)
  have ok': "usage_ok db'" by (rule udb.steps_good [OF assms(4) ok])
  note r = usage_ok_rows [OF ok] assms(2)
  have row: "map_of (ud_attempts db) (call_key (row_call row)) = Some row" "call_run (row_call row) = (tenant, run)"
    using assms(2) usage_ok_rows [OF ok] by simp_all
  have "at_state row = py ''settled''"
    using usage_ok_row [OF ok row(1)] assms(3) by (auto simp: row_ok_def overrun_def split: option.splits)
  moreover obtain b where "map_of (ud_attempts db') (call_key (row_call row)) = Some b" "row_le row b"
    by (rule later_row [OF ok assms(4) row(1)])
  ultimately have "map_of (ud_attempts db') (call_key (row_call row)) = Some row"
    by (auto simp: row_le_def)
  then have "row \<in> set (run_rows db' (call_run c))"
    using run_rows_of [OF ok'] row(2) assms(5) by (metis call_key_def fst_conv)
  then have over: "list_ex overrun (usage_records db' (call_run c))"
    using assms(3) by (auto simp: list_ex_iff)
  have "reserve_budget c i out price now db' \<noteq> Inr (True, x)" for i out price now x
    using over by (auto simp: reserve_budget_def reserve_new_def check_provider_overrun_def result_simps Let_def split: if_splits option.splits)
  moreover have "mark_dispatched c db' \<noteq> Inr (True, x)" for x
    using over by (auto simp: mark_dispatched_def check_provider_overrun_def result_simps split: if_splits)
  ultimately show ?thesis by blast
qed

section \<open>Retries\<close>

text \<open>Every stored attempt is numbered from one and within the attempt limit of its run.\<close>

definition numbered :: "usage_db \<Rightarrow> bool" where
  "numbered db \<longleftrightarrow> (\<forall>k row. map_of (ud_attempts db) k = Some row
     \<longrightarrow> (\<exists>v limits. map_of (ud_runs db) (fst k) = Some (v, limits) \<and> 1 \<le> snd (snd k) \<and> snd (snd k) \<le> bl_max_attempts limits))"

lemma reserve_numbered:
  assumes "usage_ok db" "numbered db" "mk_budget_call c = Inr c" "reserve_budget c i out price now db = Inr (b, db')"
  shows "numbered db'"
proof (cases b)
  case False
  then show ?thesis using reserve_budgetD [OF assms(4)] assms(2) by auto
next
  case True
  let ?r = "\<lparr>rv_call = c, rv_input_tokens = i, rv_max_output_tokens = out, rv_pricing = price\<rparr>"
  obtain v limits role where 1: "map_of (ud_runs db) (call_run c) = Some (v, limits)"
      "reserve_new ?r limits role now (usage_records db (call_run c)) db = Inr db'"
    using reserve_budgetD [OF assms(4)] True by auto
  have r: "rv_call ?r = c" by simp
  note new = reserve_newD [OF 1(2), unfolded r]
  have "1 \<le> bc_attempt c"
    using assms(3) by (auto simp: mk_budget_call_def result_simps count_def)
  then show ?thesis
    using assms(2) 1(1) new(1,2,9) unfolding numbered_def
    by (auto simp: map_add_def call_key_def split: option.splits if_splits)
qed


lemma numbered_same:
  assumes "numbered db" "map_grows (ud_runs db) (ud_runs db')" "fst ` set (ud_attempts db') = fst ` set (ud_attempts db)"
  shows "numbered db'"
  unfolding numbered_def
proof (intro allI impI)
  fix k row assume "map_of (ud_attempts db') k = Some row"
  then have "k \<in> fst ` set (ud_attempts db')" by (metis map_of_eq_None_iff option.distinct(1))
  then obtain row' where "map_of (ud_attempts db) k = Some row'"
    using assms(3) by (metis map_of_eq_None_iff not_Some_eq)
  then show "\<exists>v limits. map_of (ud_runs db') (fst k) = Some (v, limits) \<and> 1 \<le> snd (snd k) \<and> snd (snd k) \<le> bl_max_attempts limits"
    using assms(1,2) unfolding numbered_def map_grows_def by blast
qed

lemma put_numbered:
  assumes "numbered db" "find_attempt db c = Inr row"
  shows "numbered (put_attempt c row' db)"
proof -
  have "call_key c \<in> fst ` set (ud_attempts db)"
    using find_attemptD [OF assms(2)] by (metis map_of_eq_None_iff option.distinct(1))
  then have "insert (call_key c) (fst ` set (ud_attempts db)) = fst ` set (ud_attempts db)" by blast
  then show ?thesis by (intro numbered_same [OF assms(1)]) (simp_all add: put_attempt_def dom_update)
qed

lemma step_numbered:
  assumes "usage_step P db db'" "usage_ok db" "numbered db"
  shows "numbered db'"
  using assms
proof cases
  case (create limits tenant run version)
  then have "ud_attempts db' = ud_attempts db" "map_grows (ud_runs db) (ud_runs db')"
    using map_grows_snoc by (auto simp: create_budget_def result_simps split: option.splits if_splits)
  then show ?thesis using numbered_same [OF assms(3)] by simp
next
  case (reserve c i out price now b)
  then show ?thesis using reserve_numbered [OF assms(2,3)] by blast
next
  case (dispatch c b)
  then show ?thesis using assms(3) by (auto simp: mark_dispatched_def result_simps intro: put_numbered split: if_splits)
next
  case (release c reason now hit)
  then show ?thesis using assms(3) by (auto simp: release_budget_def result_simps intro: put_numbered split: if_splits option.splits)
next
  case (settle u c now l)
  then show ?thesis using assms(3) by (auto simp: record_usage_def result_simps intro: put_numbered split: if_splits option.splits)
qed

lemma reachable_numbered: "usage_reachable P db \<Longrightarrow> numbered db"
  unfolding usage_reachable_def
proof (induction rule: rtranclp_induct)
  case base
  then show ?case by (simp add: numbered_def empty_usage_def)
next
  case (step db db')
  then show ?case using step_numbered usage_reachable_ok unfolding usage_reachable_def by blast
qed

lemma move_limits:
  assumes "usage_move db db'" "map_of (ud_runs db') k = Some (v, limits)"
  shows "map_of (ud_runs db) k = Some (v, limits) \<or> 1 \<le> bl_max_attempts limits \<and> bl_max_attempts limits \<le> 3"
  using assms
proof cases
  case (add_run k' limits' version)
  then have "1 \<le> bl_max_attempts limits' \<and> bl_max_attempts limits' \<le> 3"
    by (auto simp: mk_budget_limits_def result_simps)
  with add_run assms(2) show ?thesis by (auto simp: map_add_def split: option.splits if_splits)
next
  case (add_attempt r version limits role now)
  then show ?thesis using reserve_newD(2) assms(2) by metis
qed (simp_all add: put_attempt_def)

lemma reachable_limits:
  assumes "usage_reachable P db" "map_of (ud_runs db) k = Some (v, limits)"
  shows "1 \<le> bl_max_attempts limits \<and> bl_max_attempts limits \<le> 3"
  using assms unfolding usage_reachable_def
proof (induction rule: rtranclp_induct)
  case base
  then show ?case by (simp add: empty_usage_def)
next
  case (step db db')
  then have "usage_ok db" using usage_reachable_ok unfolding usage_reachable_def by blast
  then show ?case using step move_limits [OF usage_step_move] by blast
qed

text \<open>
  No request is ever tried more often than the run allows: its attempts carry distinct numbers between one and the attempt limit, so there
  are at most that many, and never more than three.
\<close>

theorem attempts_are_bounded:
  assumes "usage_reachable P db" "usage_run db tenant run = Inr (version, limits)"
  shows "int (length (filter (\<lambda>row. bc_request_id (row_call row) = request) (usage_records db (tenant, run)))) \<le> bl_max_attempts limits
     \<and> bl_max_attempts limits \<le> 3"
proof -
  have ok: "usage_ok db" using assms(1) by (rule usage_reachable_ok)
  let ?rows = "filter (\<lambda>kv. fst (fst kv) = (tenant, run) \<and> fst (snd (fst kv)) = request) (ud_attempts db)"
  have row: "call_key (row_call (snd kv)) = fst kv" if "kv \<in> set (ud_attempts db)" for kv
    using ok that unfolding usage_ok_def by auto
  have "length (filter (\<lambda>row. bc_request_id (row_call row) = request) (usage_records db (tenant, run))) = length ?rows"
    unfolding records_measures run_rows_def filter_map filter_filter length_map o_def
    by (intro arg_cong [where f = length] filter_cong refl) (use row in \<open>auto simp: call_key_def\<close>)
  also have "\<dots> = card (snd ` snd ` fst ` set ?rows)"
  proof -
    have d: "distinct (map fst (ud_attempts db))" using ok by (simp add: usage_ok_def)
    then have "distinct (map fst ?rows)" by (rule distinct_map_filter)
    moreover have "inj_on (snd \<circ> snd) (set (map fst ?rows))"
      by (auto simp: inj_on_def)
    ultimately have "distinct (map (snd \<circ> snd) (map fst ?rows))"
      unfolding distinct_map [of "snd \<circ> snd"] by blast
    then show ?thesis using distinct_card [of "map (snd \<circ> snd) (map fst ?rows)"] by (simp add: image_comp)
  qed
  finally have len: "int (length (filter (\<lambda>row. bc_request_id (row_call row) = request) (usage_records db (tenant, run))))
      = int (card (snd ` snd ` fst ` set ?rows))" by simp
  have "snd ` snd ` fst ` set ?rows \<subseteq> {1 .. bl_max_attempts limits}"
  proof
    fix n assume "n \<in> snd ` snd ` fst ` set ?rows"
    then obtain row where "((((tenant, run), request, n), row) \<in> set (ud_attempts db))" by auto
    then have "map_of (ud_attempts db) ((tenant, run), request, n) = Some row"
      using ok by (simp add: usage_ok_def map_of_eq_Some_iff)
    then show "n \<in> {1 .. bl_max_attempts limits}"
      using reachable_numbered [OF assms(1)] usage_runD [OF assms(2)] unfolding numbered_def by fastforce
  qed
  then have "int (card (snd ` snd ` fst ` set ?rows)) \<le> int (card {1 .. bl_max_attempts limits})"
    by (intro of_nat_mono card_mono) simp_all
  then show ?thesis
    using reachable_limits [OF assms(1) usage_runD [OF assms(2)]] unfolding len by simp
qed


section \<open>Cost\<close>

text \<open>
  For accepted token counts and prices below \<open>10\<^sup>2\<^sup>0\<close> dollars per million, the amount of a call is the exact sum of tokens times rate over the
  four buckets (plain input, output, cache reads, cache writes): the 100 digits of the decimal context lose nothing, and the text parses back to
  that value. There is no amount exactly when a count is unknown or a bucket that was used has no rate.
\<close>

theorem usage_cost_is_exact:
  assumes "mk_token_usage u = Inr u" "mk_pricing tz p = Inr p" "list_all cheap (prices p)"
  shows "case usage_cost u (Some p) of
      None \<Rightarrow> (case usage_buckets u p of None \<Rightarrow> True | Some bs \<Rightarrow> \<exists>b \<in> set bs. fst b \<noteq> 0 \<and> snd b = None)
    | Some amount \<Rightarrow> (\<exists>bs. usage_buckets u p = Some bs \<and> dec_value (decimal_of_text amount) = sum_list (map bucket_cost bs)
        \<and> (\<forall>b \<in> set bs. fst b \<noteq> 0 \<longrightarrow> snd b \<noteq> None))"
  using usage_cost_exact [OF assms] .


section \<open>A run of the store\<close>

definition sample_role :: role_limit where
  "sample_role = \<lparr>rl_role = py ''judge'', rl_max_calls = 2, rl_max_input_tokens = 500, rl_max_output_tokens = 50, rl_max_context_tokens = 600\<rparr>"

definition sample_limits :: budget_limits where
  "sample_limits = \<lparr>bl_input_tokens = 1000, bl_output_tokens = 100, bl_roles = [sample_role], bl_max_attempts = 2\<rparr>"

definition sample_call :: budget_call where
  "sample_call = \<lparr>bc_tenant_id = uuid_of 1, bc_run_id = uuid_of 2, bc_document_version_id = uuid_of 3, bc_request_id = py ''r'', bc_attempt = 1,
     bc_role = py ''judge'', bc_model_id = py ''m'', bc_region = py ''x'', bc_model_binding_hash = hex64, bc_request_signature = hex64,
     bc_replicate_id = None\<rparr>"

definition sample_reservation :: reservation where
  "sample_reservation = \<lparr>rv_call = sample_call, rv_input_tokens = 300, rv_max_output_tokens = 50, rv_pricing = None\<rparr>"

definition sample_usage :: token_usage where
  "sample_usage = \<lparr>tu_input_tokens = Some 400, tu_output_tokens = Some 50, tu_cache_read_tokens = Some 0, tu_cache_write_tokens = Some 0,
     tu_latency_ms = 5, tu_status = py ''succeeded'', tu_provider_request_id = None, tu_error_code = None\<rparr>"

definition sample_ledger :: ledger_entry where
  "sample_ledger = \<lparr>le_call = sample_call, le_usage = sample_usage, le_recorded_at = 3, le_cost_decimal = None, le_pricing_snapshot_id = None,
     le_pricing_snapshot_hash = None\<rparr>"

definition sample_row :: "pystr \<Rightarrow> ledger_entry option \<Rightarrow> attempt_row" where
  "sample_row st l = \<lparr>at_reservation = sample_reservation, at_created_at = 1, at_state = st, at_ledger = l, at_release = None\<rparr>"

definition usage_with :: "attempt_row list \<Rightarrow> usage_db" where
  "usage_with rows = \<lparr>ud_runs = [((uuid_of 1, uuid_of 2), uuid_of 3, sample_limits)], ud_prices = [],
     ud_attempts = map (\<lambda>row. (call_key sample_call, row)) rows\<rparr>"

lemmas sample_usage_defs = sample_role_def sample_limits_def sample_call_def sample_reservation_def sample_usage_def sample_ledger_def
  sample_row_def usage_with_def empty_usage_def

lemma sample_scope: "check_run_scope (uuid_of 1) (uuid_of 2) = Inr ()"
  by (simp add: check_run_scope_def check_uuid_def sample_uuids del: One_nat_def)

lemma sample_texts: "text_field n (py ''r'') = Inr ()" "text_field n (py ''judge'') = Inr ()" "text_field n (py ''m'') = Inr ()" "text_field n (py ''x'') = Inr ()"
  by (simp_all add: text_field_def py_strip_Nil_iff, simp_all add: py_def py_isspace_def)

lemma sample_accepted:
  "mk_budget_limits sample_limits = Inr sample_limits" "mk_role_limit sample_role = Inr sample_role" "mk_budget_call sample_call = Inr sample_call"
  "mk_token_usage sample_usage = Inr sample_usage"
  by (simp_all add: mk_budget_limits_def mk_role_limit_def mk_budget_call_def mk_token_usage_def sample_usage_defs count_def sample_texts
      check_uuid_def check_sha256_def sample_uuids opt_check_def or_zero_def py_duplicates_def del: One_nat_def)

lemma sample_create: "create_budget (uuid_of 1) (uuid_of 2) (uuid_of 3) sample_limits empty_usage = Inr (usage_with [])"
  by (simp add: create_budget_def sample_scope check_uuid_def sample_uuids usage_with_def empty_usage_def del: One_nat_def)

lemmas budget_run_defs = usage_run_def call_run_def call_key_def count_def usage_records_def row_call_def find_attempt_def put_attempt_def Let_def
  check_provider_overrun_def check_budget_def check_retry_def max_attempt_def input_used_def output_used_def put_price_def new_attempt_def

lemma sample_reserve: "reserve_budget sample_call 300 50 None 1 (usage_with []) = Inr (True, usage_with [sample_row (py ''reserved'') None])"
  by (simp add: reserve_budget_def reserve_new_def sample_scope budget_run_defs sample_usage_defs del: One_nat_def)

lemma sample_dispatch: "mark_dispatched sample_call (usage_with [sample_row (py ''reserved'') None]) = Inr (True, usage_with [sample_row (py ''dispatched'') None])"
  by (simp add: mark_dispatched_def overrun_def budget_run_defs sample_usage_defs del: One_nat_def)

lemma sample_settle:
  "record_usage hex_platform sample_call sample_usage 3 (usage_with [sample_row (py ''dispatched'') None])
     = Inr (sample_ledger, usage_with [sample_row (py ''settled'') (Some sample_ledger)])"
  by (simp add: record_usage_def ledger_of_def usage_cost_def budget_run_defs sample_usage_defs del: One_nat_def)

lemma sample_usage_steps:
  "usage_step hex_platform empty_usage (usage_with [])"
  "usage_step hex_platform (usage_with []) (usage_with [sample_row (py ''reserved'') None])"
  "usage_step hex_platform (usage_with [sample_row (py ''reserved'') None]) (usage_with [sample_row (py ''dispatched'') None])"
  "usage_step hex_platform (usage_with [sample_row (py ''dispatched'') None]) (usage_with [sample_row (py ''settled'') (Some sample_ledger)])"
proof -
  show "usage_step hex_platform empty_usage (usage_with [])"
    by (rule usage_step.create [OF sample_accepted(1) _ sample_create]) (simp add: sample_limits_def sample_accepted)
qed (rule usage_step.reserve [OF sample_accepted(3) sample_reserve] usage_step.dispatch [OF sample_dispatch]
      usage_step.settle [OF sample_accepted(4) sample_settle])+

lemma usage_reachable_step: "usage_reachable P db \<Longrightarrow> usage_step P db db' \<Longrightarrow> usage_reachable P db'"
  unfolding usage_reachable_def by (rule rtranclp.rtrancl_into_rtrancl)

lemma sample_usage_reachable:
  "usage_reachable hex_platform (usage_with [sample_row (py ''reserved'') None])"
  "usage_reachable hex_platform (usage_with [sample_row (py ''settled'') (Some sample_ledger)])"
proof -
  have "usage_reachable hex_platform empty_usage" by (simp add: usage_reachable_def)
  note r = usage_reachable_step [OF usage_reachable_step [OF this sample_usage_steps(1)] sample_usage_steps(2)]
  show "usage_reachable hex_platform (usage_with [sample_row (py ''reserved'') None])" by (rule r)
  show "usage_reachable hex_platform (usage_with [sample_row (py ''settled'') (Some sample_ledger)])"
    by (rule usage_reachable_step [OF usage_reachable_step [OF r sample_usage_steps(3)] sample_usage_steps(4)])
qed

lemma sample_run: "usage_run (usage_with rows) (uuid_of 1) (uuid_of 2) = Inr (uuid_of 3, sample_limits)"
  by (simp add: usage_run_def sample_scope usage_with_def del: One_nat_def)

theorem budget_is_never_exceeded_witness:
  "\<exists>P db version limits. usage_reachable P db \<and> usage_run db (uuid_of 1) (uuid_of 2) = Inr (version, limits)
     \<and> length (usage_records db (uuid_of 1, uuid_of 2)) = 1 \<and> input_used (usage_records db (uuid_of 1, uuid_of 2)) \<le> bl_input_tokens limits"
proof -
  let ?db = "usage_with [sample_row (py ''reserved'') None]"
  have "length (usage_records ?db (uuid_of 1, uuid_of 2)) = 1" "\<forall>row \<in> set (usage_records ?db (uuid_of 1, uuid_of 2)). \<not> overrun row"
    by (simp_all add: overrun_def budget_run_defs sample_usage_defs del: One_nat_def)
  then show ?thesis
    using budget_is_never_exceeded [OF sample_usage_reachable(1) sample_run] sample_usage_reachable(1) sample_run by blast
qed

theorem attempt_is_dispatched_once_witness:
  "\<exists>P db db' db''. usage_reachable P db \<and> mark_dispatched sample_call db = Inr (True, db') \<and> (usage_step P)\<^sup>*\<^sup>* db' db''
     \<and> mark_dispatched sample_call db'' = Inr (False, db'')"
proof -
  note s = r_into_rtranclp [where r = "usage_step hex_platform", OF sample_usage_steps(4)]
  show ?thesis
    using attempt_is_dispatched_once [OF sample_usage_reachable(1) sample_dispatch s] sample_usage_reachable(1) sample_dispatch s by blast
qed

theorem overrun_stops_spending_witness:
  "\<exists>P db row. usage_reachable P db \<and> row \<in> set (usage_records db (uuid_of 1, uuid_of 2)) \<and> overrun row \<and> (usage_step P)\<^sup>*\<^sup>* db db
     \<and> (\<forall>i out price now x. reserve_budget (sample_call\<lparr>bc_request_id := py ''m''\<rparr>) i out price now db \<noteq> Inr (True, x))"
proof -
  let ?db = "usage_with [sample_row (py ''settled'') (Some sample_ledger)]" and ?row = "sample_row (py ''settled'') (Some sample_ledger)"
  have 1: "?row \<in> set (usage_records ?db (uuid_of 1, uuid_of 2))"
    by (simp add: budget_run_defs sample_usage_defs del: One_nat_def)
  have 2: "overrun ?row" by (simp add: overrun_def sample_usage_defs)
  have 3: "call_run (sample_call\<lparr>bc_request_id := py ''m''\<rparr>) = (uuid_of 1, uuid_of 2)" by (simp add: call_run_def sample_call_def)
  show ?thesis
    using overrun_stops_spending [OF sample_usage_reachable(2) 1 2 rtranclp.rtrancl_refl 3] sample_usage_reachable(2) 1 2 by blast
qed

theorem attempts_are_bounded_witness:
  "\<exists>P db version limits. usage_reachable P db \<and> usage_run db (uuid_of 1) (uuid_of 2) = Inr (version, limits)
     \<and> int (length (filter (\<lambda>row. bc_request_id (row_call row) = py ''r'') (usage_records db (uuid_of 1, uuid_of 2)))) \<le> bl_max_attempts limits"
  using attempts_are_bounded [OF sample_usage_reachable(1) sample_run] sample_usage_reachable(1) sample_run by blast

definition sample_price :: pricing where
  "sample_price = \<lparr>pr_snapshot_id = py ''r'', pr_model_id = py ''m'', pr_region = py ''x'', pr_captured_at = py ''r'', pr_input_per_million = (3, 0),
     pr_output_per_million = (15, 0), pr_cache_read_per_million = None, pr_cache_write_per_million = None\<rparr>"

lemma sample_price_ok: "mk_pricing (\<lambda>_. Inr True) sample_price = Inr sample_price" "list_all cheap (prices sample_price)"
  by (simp_all add: mk_pricing_def sample_price_def sample_texts check_price_def dec_str_def dec_of_nat_step Let_def
      prices_def cheap_def dec_value_def)

theorem usage_cost_is_exact_witness:
  "\<exists>u p tz amount bs. mk_token_usage u = Inr u \<and> mk_pricing tz p = Inr p \<and> list_all cheap (prices p) \<and> usage_cost u (Some p) = Some amount
     \<and> usage_buckets u p = Some bs \<and> dec_value (decimal_of_text amount) = sum_list (map bucket_cost bs) \<and> sum_list (map bucket_cost bs) = 1950 / 1000000"
proof -
  have b: "usage_buckets sample_usage sample_price = Some [(400, Some (3, 0)), (50, Some (15, 0)), (0, None), (0, None)]"
    by (simp add: usage_buckets_def sample_usage_def sample_price_def)
  obtain amount where a: "usage_cost sample_usage (Some sample_price) = Some amount"
    by (auto simp: usage_cost_def b)
  then obtain bs where bs: "usage_buckets sample_usage sample_price = Some bs" "dec_value (decimal_of_text amount) = sum_list (map bucket_cost bs)"
    using usage_cost_is_exact [OF sample_accepted(4) sample_price_ok] by auto
  moreover have "sum_list (map bucket_cost bs) = 1950 / 1000000"
    using bs(1) b by (auto simp: bucket_cost_def dec_value_def)
  ultimately show ?thesis
    using a sample_accepted(4) sample_price_ok by blast
qed

end
