(* ===== verification/Response_Cache.thy ===== *)
theory Response_Cache
  imports Audit_Log Growing_Store
begin

text \<open>
  Model of \<^verbatim>\<open>adapters/cache/aws.py\<close>: the immutable cache of raw, guarded and decision artifacts of model requests.

  A Python \<^verbatim>\<open>bytes\<close> payload is the list of its byte values; \<^verbatim>\<open>hashlib.sha256(payload).hexdigest()\<close> is the argument \<open>digest\<close>. The dictionary
  of the in-memory client is a map from keys to objects, the manifest a map from namespaces to the keys
  written under them, each once. The steps of
  \<open>cache_step\<close> are the writes, the revocation of a document, and the damage \<^verbatim>\<open>corrupt_for_test\<close> injects; reads change nothing.
\<close>

section \<open>Requests\<close>

record cache_namespace =
  cn_tenant_id :: pystr
  cn_consent_profile :: pystr
  cn_document_version_id :: pystr
  cn_role :: pystr

definition mk_cache_namespace :: "cache_namespace \<Rightarrow> cache_namespace result" where
  "mk_cache_namespace n =
     bindE (check_uuid ''tenant_id'' (cn_tenant_id n)) (\<lambda>_.
     bindE (check_uuid ''document_version_id'' (cn_document_version_id n)) (\<lambda>_.
     if cn_consent_profile n = [] then Inl (DomainValidationError ''consent_profile must be a non-empty string'')
     else if cn_role n = [] then Inl (DomainValidationError ''role must be a non-empty string'')
     else Inr n))"

definition namespace_json :: "cache_namespace \<Rightarrow> json" where
  "namespace_json n = JList (map JStr [cn_tenant_id n, cn_consent_profile n, cn_document_version_id n, cn_role n])"

definition partition_key :: "platform \<Rightarrow> cache_namespace \<Rightarrow> pystr result" where
  "partition_key P n = bindE (canonical_hash P (namespace_json n)) (\<lambda>h. Inr (py ''CACHE#'' @ h))"

record cache_request =
  cr_namespace :: cache_namespace
  cr_request_id :: pystr
  cr_request_signature :: pystr
  cr_replicate_id :: int
  cr_extraction_epoch :: int

definition mk_cache_request :: "cache_request \<Rightarrow> cache_request result" where
  "mk_cache_request r =
     bindE (check_uuid ''request_id'' (cr_request_id r)) (\<lambda>_.
     bindE (check_sha256 ''request_signature'' (cr_request_signature r)) (\<lambda>_.
     if cr_replicate_id r \<notin> {1, 2, 3} then Inl (DomainValidationError ''replicate_id must be 1, 2, or 3'')
     else if cr_extraction_epoch r < 1 then Inl (DomainValidationError ''extraction_epoch must be positive'')
     else Inr r))"

definition new_cache_request :: "platform \<Rightarrow> cache_namespace \<Rightarrow> pystr \<Rightarrow> provider_request \<Rightarrow> cache_request result" where
  "new_cache_request P n request_id r =
     bindE (request_signature P r) (\<lambda>signature.
     mk_cache_request \<lparr>cr_namespace = n, cr_request_id = request_id, cr_request_signature = signature,
       cr_replicate_id = rq_replicate_id r, cr_extraction_epoch = rq_extraction_epoch r\<rparr>)"

section \<open>The client\<close>

record stored_object =
  so_payload :: "nat list"
  so_payload_sha256 :: pystr

type_synonym cache_objects = "pystr \<rightharpoonup> stored_object"

definition put_if_absent :: "pystr \<Rightarrow> stored_object \<Rightarrow> cache_objects \<Rightarrow> bool \<times> cache_objects" where
  "put_if_absent key v objects = (if objects key \<noteq> None then (False, objects) else (True, objects(key \<mapsto> v)))"

definition client_get :: "pystr \<Rightarrow> cache_objects \<Rightarrow> stored_object option" where
  "client_get key objects = objects key"

definition client_delete :: "pystr \<Rightarrow> cache_objects \<Rightarrow> cache_objects" where
  "client_delete key objects = objects(key := None)"

definition corrupt_for_test :: "pystr \<Rightarrow> nat list \<Rightarrow> cache_objects \<Rightarrow> cache_objects result" where
  "corrupt_for_test key payload objects = (case objects key of None \<Rightarrow> Inl (KeyError ''key'')
     | Some existing \<Rightarrow> Inr (objects(key \<mapsto> \<lparr>so_payload = payload, so_payload_sha256 = so_payload_sha256 existing\<rparr>)))"

section \<open>The cache\<close>

record response_cache =
  ca_objects :: cache_objects
  ca_manifest :: "cache_namespace \<rightharpoonup> pystr list"
  ca_revoked :: "cache_namespace set"

definition empty_cache :: response_cache where
  "empty_cache = \<lparr>ca_objects = Map.empty, ca_manifest = Map.empty, ca_revoked = {}\<rparr>"

definition storage_key :: "platform \<Rightarrow> pystr \<Rightarrow> cache_request \<Rightarrow> pystr option \<Rightarrow> pystr result" where
  "storage_key P kind r decision_hash =
     bindE (partition_key P (cr_namespace r)) (\<lambda>partition.
       let suffix = (case decision_hash of None \<Rightarrow> [] | Some h \<Rightarrow> if h = [] then [] else py ''#'' @ h);
           recovery = (if kind = py ''RAW'' then py ''#REQ#'' @ cr_request_id r else [])
       in Inr (partition @ py ''#'' @ kind @ py ''#'' @ cr_request_signature r @ py ''#REPLICA#'' @ dec_of_int (cr_replicate_id r)
            @ py ''#EPOCH#'' @ dec_of_int (cr_extraction_epoch r) @ recovery @ suffix))"

definition stored :: "(nat list \<Rightarrow> pystr) \<Rightarrow> nat list \<Rightarrow> stored_object" where
  "stored digest payload = \<lparr>so_payload = payload, so_payload_sha256 = digest payload\<rparr>"

definition verified :: "(nat list \<Rightarrow> pystr) \<Rightarrow> stored_object \<Rightarrow> nat list result" where
  "verified digest v = (if digest (so_payload v) \<noteq> so_payload_sha256 v
     then Inl (CacheCorruptionError ''cache payload hash mismatch'') else Inr (so_payload v))"

definition manifest_add :: "cache_namespace \<Rightarrow> pystr \<Rightarrow> response_cache \<Rightarrow> response_cache" where
  "manifest_add n key c = c\<lparr>ca_manifest := (ca_manifest c)(n \<mapsto> List.insert key (case ca_manifest c n of None \<Rightarrow> [] | Some ks \<Rightarrow> ks))\<rparr>"

definition cache_put ::
  "platform \<Rightarrow> (nat list \<Rightarrow> pystr) \<Rightarrow> pystr \<Rightarrow> cache_request \<Rightarrow> nat list \<Rightarrow> pystr option \<Rightarrow> response_cache \<Rightarrow> response_cache result" where
  "cache_put P digest kind r payload decision_hash c =
     (if cr_namespace r \<in> ca_revoked c then Inl (CacheRevokedError ''cache namespace has been revoked'')
      else bindE (storage_key P kind r decision_hash) (\<lambda>key.
        let candidate = stored digest payload; (put, objects) = put_if_absent key candidate (ca_objects c)
        in if put then Inr (manifest_add (cr_namespace r) key (c\<lparr>ca_objects := objects\<rparr>))
           else case client_get key objects of
               None \<Rightarrow> Inl (CacheCollisionError ''conditional cache write lost without a readable object'')
             | Some existing \<Rightarrow> bindE (verified digest existing) (\<lambda>_.
                 if so_payload_sha256 existing \<noteq> so_payload_sha256 candidate
                 then Inl (CacheCollisionError ''immutable cache key already has different content'')
                 else Inr (manifest_add (cr_namespace r) key c))))"

definition cache_get ::
  "platform \<Rightarrow> (nat list \<Rightarrow> pystr) \<Rightarrow> pystr \<Rightarrow> cache_request \<Rightarrow> pystr option \<Rightarrow> response_cache \<Rightarrow> nat list option result" where
  "cache_get P digest kind r decision_hash c =
     (if cr_namespace r \<in> ca_revoked c then Inr None
      else bindE (storage_key P kind r decision_hash) (\<lambda>key.
        case client_get key (ca_objects c) of None \<Rightarrow> Inr None
        | Some v \<Rightarrow> bindE (verified digest v) (\<lambda>payload. Inr (Some payload))))"

definition put_raw where
  "put_raw P digest r payload c = cache_put P digest (py ''RAW'') r payload None c"

definition get_raw where
  "get_raw P digest r recovery_request_id c =
     bindE (check_uuid ''recovery_request_id'' recovery_request_id) (\<lambda>_.
     if recovery_request_id \<noteq> cr_request_id r
     then Inl (DomainValidationError ''raw cache reads require the same request_id recovery'')
     else cache_get P digest (py ''RAW'') r None c)"

definition put_guarded where
  "put_guarded P digest r payload c = cache_put P digest (py ''GUARDED'') r payload None c"

definition get_guarded where
  "get_guarded P digest r c = cache_get P digest (py ''GUARDED'') r None c"

definition put_decision where
  "put_decision P digest r decision_hash payload c =
     bindE (check_sha256 ''decision_semantic_hash'' decision_hash) (\<lambda>_. cache_put P digest (py ''DECISION'') r payload (Some decision_hash) c)"

definition get_decision where
  "get_decision P digest r decision_hash c =
     bindE (check_sha256 ''decision_semantic_hash'' decision_hash) (\<lambda>_. cache_get P digest (py ''DECISION'') r (Some decision_hash) c)"

definition revoke_document :: "cache_namespace \<Rightarrow> response_cache \<Rightarrow> response_cache" where
  "revoke_document n c =
     \<lparr>ca_objects = fold client_delete (case ca_manifest c n of None \<Rightarrow> [] | Some ks \<Rightarrow> ks) (ca_objects c),
      ca_manifest = (ca_manifest c)(n := None), ca_revoked = insert n (ca_revoked c)\<rparr>"

text \<open>A request whose namespace was accepted, with texts that are Unicode scalar values.\<close>

definition request_ok :: "cache_request \<Rightarrow> bool" where
  "request_ok r \<longleftrightarrow> mk_cache_request r = Inr r \<and> mk_cache_namespace (cr_namespace r) = Inr (cr_namespace r)
     \<and> json_scalar (namespace_json (cr_namespace r))"

inductive cache_step :: "platform \<Rightarrow> (nat list \<Rightarrow> pystr) \<Rightarrow> response_cache \<Rightarrow> response_cache \<Rightarrow> bool" for P digest where
  raw: "request_ok r \<Longrightarrow> put_raw P digest r payload c = Inr c' \<Longrightarrow> cache_step P digest c c'"
| guarded: "request_ok r \<Longrightarrow> put_guarded P digest r payload c = Inr c' \<Longrightarrow> cache_step P digest c c'"
| decision: "request_ok r \<Longrightarrow> put_decision P digest r h payload c = Inr c' \<Longrightarrow> cache_step P digest c c'"
| revoke: "cache_step P digest c (revoke_document n c)"
| corrupt: "corrupt_for_test key payload (ca_objects c) = Inr objects \<Longrightarrow> cache_step P digest c (c\<lparr>ca_objects := objects\<rparr>)"

section \<open>Keys\<close>

text \<open>The three kinds of artifact, with the decision hash a decision key carries.\<close>

definition artifact :: "pystr \<Rightarrow> pystr option \<Rightarrow> bool" where
  "artifact kind h \<longleftrightarrow> (kind \<in> {py ''RAW'', py ''GUARDED''} \<and> h = None) \<or> (kind = py ''DECISION'' \<and> (\<exists>x. h = Some x \<and> is_sha256 x))"

text \<open>A key that some request of a namespace writes.\<close>

definition key_of :: "platform \<Rightarrow> cache_namespace \<Rightarrow> pystr \<Rightarrow> bool" where
  "key_of P n k \<longleftrightarrow> (\<exists>kind r h. request_ok r \<and> cr_namespace r = n \<and> artifact kind h \<and> storage_key P kind r h = Inr k)"

text \<open>\<^verbatim>\<open>hexdigest()\<close> of SHA-256 is 64 lowercase hexadecimal digits.\<close>

definition hexdigest_ok :: "platform \<Rightarrow> bool" where
  "hexdigest_ok P \<longleftrightarrow> (\<forall>s. is_sha256 (sha256_hex P s))"

lemma namespace_json_hash: "canonical_hash P (namespace_json n) = Inr (sha256_hex P (json_print (float_repr P) (namespace_json n)))"
  by (simp add: canonical_hash_def canonical_json_def namespace_json_def)

lemma digits_then:
  assumes "dec_of_int a @ xs = dec_of_int b @ ys" "0 \<le> a" "0 \<le> b" "xs = [] \<or> hd xs = 35" "ys = [] \<or> hd ys = 35"
  shows "a = b \<and> xs = ys"
proof -
  have tw: "takeWhile (\<lambda>c. c \<noteq> 35) (dec_of_int a @ xs) = dec_of_int a" if "0 \<le> a" "xs = [] \<or> hd xs = 35" for a xs
  proof -
    have "c \<noteq> 35" if "c \<in> set (dec_of_int a)" for c
      using that \<open>0 \<le> a\<close> dec_of_nat_digits [of c "nat a"] by (auto simp: dec_of_int_def)
    then show ?thesis using that(2) by (cases xs) (simp_all add: takeWhile_append2)
  qed
  have "dec_of_int a = dec_of_int b"
    using tw [OF assms(2,4)] tw [OF assms(3,5)] assms(1) by metis
  with assms(1) show ?thesis by simp
qed

definition key_tail :: "pystr \<Rightarrow> cache_request \<Rightarrow> pystr option \<Rightarrow> pystr" where
  "key_tail kind r h = (if kind = py ''RAW'' then py ''#REQ#'' @ cr_request_id r else []) @ (case h of None \<Rightarrow> [] | Some x \<Rightarrow> if x = [] then [] else py ''#'' @ x)"

lemma key_tail_hd: "key_tail kind r h = [] \<or> hd (key_tail kind r h) = 35"
  by (auto simp: key_tail_def py_def split: option.splits)

lemma storage_key_eq:
  "storage_key P kind r h = Inr (py ''CACHE#'' @ sha256_hex P (json_print (float_repr P) (namespace_json (cr_namespace r))) @ py ''#'' @ kind @ py ''#''
     @ cr_request_signature r @ py ''#REPLICA#'' @ dec_of_int (cr_replicate_id r) @ py ''#EPOCH#'' @ dec_of_int (cr_extraction_epoch r) @ key_tail kind r h)"
  by (simp add: storage_key_def partition_key_def namespace_json_hash key_tail_def Let_def)

lemma storage_key_inj:
  assumes "hexdigest_ok P" "mk_cache_request r = Inr r" "mk_cache_request s = Inr s" "artifact kind h" "artifact kind' h'"
    and "storage_key P kind r h = Inr k" "storage_key P kind' s h' = Inr k"
  shows "sha256_hex P (json_print (float_repr P) (namespace_json (cr_namespace r))) = sha256_hex P (json_print (float_repr P) (namespace_json (cr_namespace s)))"
    "kind = kind'" "h = h'" "cr_request_signature r = cr_request_signature s" "cr_replicate_id r = cr_replicate_id s"
    "cr_extraction_epoch r = cr_extraction_epoch s" "kind = py ''RAW'' \<Longrightarrow> cr_request_id r = cr_request_id s"
proof -
  let ?d = "\<lambda>r. sha256_hex P (json_print (float_repr P) (namespace_json (cr_namespace r)))"
  let ?rest = "\<lambda>kind r h. cr_request_signature r @ py ''#REPLICA#'' @ dec_of_int (cr_replicate_id r) @ py ''#EPOCH#''
    @ dec_of_int (cr_extraction_epoch r) @ key_tail kind r h"
  have eq: "?d r @ py ''#'' @ kind @ py ''#'' @ ?rest kind r h = ?d s @ py ''#'' @ kind' @ py ''#'' @ ?rest kind' s h'"
    using assms(6,7) unfolding storage_key_eq by (metis append_same_eq same_append_eq sum.inject(2))
  have l: "length (?d r) = length (?d s)"
    using assms(1) unfolding hexdigest_ok_def is_sha256_def by metis
  show d: "?d r = ?d s" using eq l by simp
  have eq: "kind @ py ''#'' @ ?rest kind r h = kind' @ py ''#'' @ ?rest kind' s h'"
    using eq d by simp
  show k: "kind = kind'"
    using eq assms(4,5) by (auto simp: artifact_def py_def)
  have eq: "?rest kind r h = ?rest kind' s h'" using eq k by simp
  have r: "length (cr_request_signature x) = 64 \<and> cr_replicate_id x \<in> {1, 2, 3} \<and> 1 \<le> cr_extraction_epoch x \<and> length (cr_request_id x) = 36"
    if "mk_cache_request x = Inr x" for x
    using that by (auto simp: mk_cache_request_def result_simps check_sha256_def check_uuid_def is_sha256_def canonical_uuid_def)
  show "cr_request_signature r = cr_request_signature s" using eq r [OF assms(2)] r [OF assms(3)] by simp
  then have eq: "dec_of_int (cr_replicate_id r) @ py ''#EPOCH#'' @ dec_of_int (cr_extraction_epoch r) @ key_tail kind r h
      = dec_of_int (cr_replicate_id s) @ py ''#EPOCH#'' @ dec_of_int (cr_extraction_epoch s) @ key_tail kind' s h'"
    using eq by simp
  have rep: "cr_replicate_id r = cr_replicate_id s \<and> py ''#EPOCH#'' @ dec_of_int (cr_extraction_epoch r) @ key_tail kind r h
      = py ''#EPOCH#'' @ dec_of_int (cr_extraction_epoch s) @ key_tail kind' s h'"
    using r [OF assms(2)] r [OF assms(3)] by (intro digits_then [OF eq]) (auto simp: py_def)
  then show "cr_replicate_id r = cr_replicate_id s" by simp
  have ep: "cr_extraction_epoch r = cr_extraction_epoch s \<and> key_tail kind r h = key_tail kind' s h'"
    using rep r [OF assms(2)] r [OF assms(3)] by (intro digits_then key_tail_hd) auto
  then show "cr_extraction_epoch r = cr_extraction_epoch s" by simp
  show "h = h'" "kind = py ''RAW'' \<Longrightarrow> cr_request_id r = cr_request_id s"
    using ep k assms(4,5) by (auto simp: key_tail_def artifact_def is_sha256_def split: if_splits)
qed


section \<open>Invariant\<close>

definition manifest_keys :: "response_cache \<Rightarrow> cache_namespace \<Rightarrow> pystr set" where
  "manifest_keys c n = (case ca_manifest c n of None \<Rightarrow> {} | Some ks \<Rightarrow> set ks)"

text \<open>Every stored object is listed under a namespace that is not revoked, and a listed key belongs to its namespace.\<close>

definition cache_ok :: "platform \<Rightarrow> response_cache \<Rightarrow> bool" where
  "cache_ok P c \<longleftrightarrow> (\<forall>k. ca_objects c k \<noteq> None \<longrightarrow> (\<exists>n. k \<in> manifest_keys c n))
     \<and> (\<forall>n k. k \<in> manifest_keys c n \<longrightarrow> key_of P n k \<and> n \<notin> ca_revoked c)"

text \<open>An object keeps its digest for as long as its namespace is not revoked, and a revocation stays.\<close>

definition cache_le :: "platform \<Rightarrow> response_cache \<Rightarrow> response_cache \<Rightarrow> bool" where
  "cache_le P c c' \<longleftrightarrow> ca_revoked c \<subseteq> ca_revoked c'
     \<and> (\<forall>k v. ca_objects c k = Some v \<longrightarrow> (\<exists>v'. ca_objects c' k = Some v' \<and> so_payload_sha256 v' = so_payload_sha256 v)
          \<or> (\<exists>n \<in> ca_revoked c'. key_of P n k))"

lemma cache_le_refl [simp]: "cache_le P c c"
  by (simp add: cache_le_def)

lemma cache_le_trans: "cache_le P a b \<Longrightarrow> cache_le P b c \<Longrightarrow> cache_le P a c"
  unfolding cache_le_def by (metis subset_iff)

lemma fold_client_delete: "fold client_delete ks m k = (if k \<in> set ks then None else m k)"
  by (induction ks arbitrary: m) (auto simp: client_delete_def)

lemma revoke_objects: "ca_objects (revoke_document n c) k = (if k \<in> manifest_keys c n then None else ca_objects c k)"
  by (simp add: revoke_document_def fold_client_delete manifest_keys_def split: option.split)

lemma manifest_keys_simps:
  "manifest_keys (revoke_document n c) m = (if m = n then {} else manifest_keys c m)"
  "manifest_keys (manifest_add n k c) m = (if m = n then insert k (manifest_keys c m) else manifest_keys c m)"
  "manifest_keys (c\<lparr>ca_objects := os\<rparr>) m = manifest_keys c m"
  by (auto simp: manifest_keys_def revoke_document_def manifest_add_def split: option.splits)

lemma manifest_add_sel [simp]:
  "ca_objects (manifest_add n k c) = ca_objects c" "ca_revoked (manifest_add n k c) = ca_revoked c"
  by (simp_all add: manifest_add_def)

text \<open>What an accepted write does.\<close>

lemma cache_putD:
  assumes "cache_put P digest kind r payload h c = Inr c'"
  obtains k v where "storage_key P kind r h = Inr k" "cr_namespace r \<notin> ca_revoked c" "ca_objects c' = (ca_objects c)(k \<mapsto> v)"
    "so_payload_sha256 v = digest payload" "digest (so_payload v) = digest payload" "ca_revoked c' = ca_revoked c"
    "\<And>n. manifest_keys c' n = (if n = cr_namespace r then insert k (manifest_keys c n) else manifest_keys c n)"
    "ca_objects c k = None \<or> ca_objects c k = Some v" "ca_objects c k = None \<Longrightarrow> v = stored digest payload"
proof -
  obtain k where k: "storage_key P kind r h = Inr k" and n: "cr_namespace r \<notin> ca_revoked c"
    using assms by (auto simp: cache_put_def result_simps split: if_splits)
  show ?thesis
  proof (cases "ca_objects c k")
    case None
    with assms k n have "c' = manifest_add (cr_namespace r) k (c\<lparr>ca_objects := (ca_objects c)(k \<mapsto> stored digest payload)\<rparr>)"
      by (simp add: cache_put_def put_if_absent_def)
    with k n None show ?thesis
      by (intro that [of k "stored digest payload"]) (simp_all add: stored_def manifest_keys_simps)
  next
    case (Some v)
    with assms k n have "c' = manifest_add (cr_namespace r) k c" "so_payload_sha256 v = digest payload" "digest (so_payload v) = so_payload_sha256 v"
      by (auto simp: cache_put_def put_if_absent_def client_get_def verified_def stored_def result_simps split: if_splits)
    with k n Some show ?thesis
      by (intro that [of k v]) (auto simp: manifest_keys_simps)
  qed
qed

lemma put_step:
  assumes "cache_put P digest kind r payload h c = Inr c'" "request_ok r" "artifact kind h" "cache_ok P c"
  shows "cache_ok P c'" "cache_le P c c'"
proof -
  obtain k v where p: "storage_key P kind r h = Inr k" "cr_namespace r \<notin> ca_revoked c" "ca_objects c' = (ca_objects c)(k \<mapsto> v)"
    "ca_revoked c' = ca_revoked c" "\<And>n. manifest_keys c' n = (if n = cr_namespace r then insert k (manifest_keys c n) else manifest_keys c n)"
    "ca_objects c k = None \<or> ca_objects c k = Some v"
    using cache_putD [OF assms(1)] by metis
  have key: "key_of P (cr_namespace r) k"
    using assms(2,3) p(1) unfolding key_of_def by blast
  have sub: "manifest_keys c n \<subseteq> manifest_keys c' n" "k \<in> manifest_keys c' (cr_namespace r)" for n
    unfolding p(5) by auto
  have "\<exists>n. x \<in> manifest_keys c' n" if "ca_objects c' x \<noteq> None" for x
  proof (cases "x = k")
    case True
    then show ?thesis using sub(2) by blast
  next
    case False
    with that p(3) have "ca_objects c x \<noteq> None" by simp
    then show ?thesis using assms(4) sub(1) unfolding cache_ok_def by blast
  qed
  moreover have "key_of P n x \<and> n \<notin> ca_revoked c'" if "x \<in> manifest_keys c' n" for n x
    using that assms(4) p(2,4) key unfolding p(5) cache_ok_def by (auto split: if_splits)
  ultimately show "cache_ok P c'" unfolding cache_ok_def by blast
  show "cache_le P c c'"
    using p unfolding cache_le_def by auto
qed

lemma revoke_step:
  assumes "cache_ok P c"
  shows "cache_ok P (revoke_document n c)" "cache_le P c (revoke_document n c)"
proof -
  have r: "ca_revoked (revoke_document n c) = insert n (ca_revoked c)" by (simp add: revoke_document_def)
  show "cache_ok P (revoke_document n c)"
    using assms unfolding cache_ok_def r manifest_keys_simps revoke_objects by (auto split: if_splits)
  show "cache_le P c (revoke_document n c)"
    using assms unfolding cache_le_def cache_ok_def r revoke_objects by (auto split: if_splits)
qed

lemma corrupt_step:
  assumes "cache_ok P c" "corrupt_for_test key payload (ca_objects c) = Inr objects"
  shows "cache_ok P (c\<lparr>ca_objects := objects\<rparr>)" "cache_le P c (c\<lparr>ca_objects := objects\<rparr>)"
  using assms unfolding cache_ok_def cache_le_def manifest_keys_simps
  by (auto simp: corrupt_for_test_def split: option.splits if_splits)

lemma cache_step_keeps:
  assumes "cache_step P digest c c'" "cache_ok P c"
  shows "cache_ok P c' \<and> cache_le P c c'"
  using assms
proof cases
  case (raw r payload)
  then show ?thesis using put_step [OF _ _ _ assms(2)] unfolding put_raw_def by (auto simp: artifact_def)
next
  case (guarded r payload)
  then show ?thesis using put_step [OF _ _ _ assms(2)] unfolding put_guarded_def by (auto simp: artifact_def)
next
  case (decision r h payload)
  then have "cache_put P digest (py ''DECISION'') r payload (Some h) c = Inr c'" "is_sha256 h"
    by (auto simp: put_decision_def result_simps check_sha256_def)
  then show ?thesis using put_step [OF _ _ _ assms(2)] decision(1) by (auto simp: artifact_def)
next
  case (revoke n)
  then show ?thesis using revoke_step [OF assms(2)] by simp
next
  case (corrupt key payload objects)
  then show ?thesis using corrupt_step [OF assms(2)] by simp
qed

interpretation rcache: growing_store "cache_step P digest" "cache_ok P" "cache_le P" for P digest
  by unfold_locales (use cache_step_keeps in \<open>auto intro: cache_le_trans\<close>)

definition cache_reachable :: "platform \<Rightarrow> (nat list \<Rightarrow> pystr) \<Rightarrow> response_cache \<Rightarrow> bool" where
  "cache_reachable P digest c \<longleftrightarrow> (cache_step P digest)\<^sup>*\<^sup>* empty_cache c"

lemma cache_reachable_ok: "cache_reachable P digest c \<Longrightarrow> cache_ok P c"
  unfolding cache_reachable_def by (erule rcache.steps_good) (simp add: cache_ok_def empty_cache_def manifest_keys_def)


section \<open>What the cache guarantees\<close>

text \<open>
  A storage key identifies its artifact: two requests share a key only when their namespaces have the same digest and kind, request
  signature, replicate, epoch and decision hash agree, and a raw response is never shared between two request ids.
\<close>

theorem storage_key_identifies_artifact:
  assumes "hexdigest_ok P" "mk_cache_request r = Inr r" "mk_cache_request s = Inr s" "artifact kind h" "artifact kind' h'"
    and "storage_key P kind r h = Inr k" "storage_key P kind' s h' = Inr k"
  shows "kind = kind' \<and> h = h' \<and> partition_key P (cr_namespace r) = partition_key P (cr_namespace s)
    \<and> cr_request_signature r = cr_request_signature s \<and> cr_replicate_id r = cr_replicate_id s
    \<and> cr_extraction_epoch r = cr_extraction_epoch s \<and> (kind = py ''RAW'' \<longrightarrow> cr_request_id r = cr_request_id s)"
  using storage_key_inj [OF assms] by (simp add: partition_key_def namespace_json_hash)

text \<open>The digest keeps two namespaces apart.\<close>

definition separate :: "platform \<Rightarrow> cache_namespace \<Rightarrow> bool" where
  "separate P n \<longleftrightarrow> (\<forall>m. json_scalar (namespace_json m) \<longrightarrow> partition_key P m = partition_key P n \<longrightarrow> m = n)"

lemma key_of_separate:
  assumes "hexdigest_ok P" "separate P n" "key_of P n k" "key_of P m k"
  shows "m = n"
proof -
  obtain kind r h where r: "request_ok r" "cr_namespace r = n" "artifact kind h" "storage_key P kind r h = Inr k"
    using assms(3) by (auto simp: key_of_def)
  obtain kind' s h' where s: "request_ok s" "cr_namespace s = m" "artifact kind' h'" "storage_key P kind' s h' = Inr k"
    using assms(4) by (auto simp: key_of_def)
  have "partition_key P m = partition_key P n"
    using storage_key_inj(1) [OF assms(1) _ _ r(3) s(3) r(4) s(4)] r(1,2) s(1,2) by (simp add: partition_key_def namespace_json_hash request_ok_def)
  with assms(2) s(1,2) show ?thesis by (auto simp: separate_def request_ok_def)
qed

text \<open>
  C30. Revoking a document seals its namespace for good: in every later state nothing is stored under any of its keys, every write is refused and
  every read finds nothing.
\<close>

theorem revoked_namespace_is_sealed:
  assumes "hexdigest_ok P" "separate P n" "cache_reachable P digest c" "(cache_step P digest)\<^sup>*\<^sup>* (revoke_document n c) c'"
    and "request_ok r" "cr_namespace r = n" "artifact kind h"
  shows "(\<forall>k. storage_key P kind r h = Inr k \<longrightarrow> ca_objects c' k = None)
    \<and> cache_put P digest kind r payload h c' = Inl (CacheRevokedError ''cache namespace has been revoked'')
    \<and> cache_get P digest kind r h c' = Inr None"
proof -
  have ok: "cache_ok P (revoke_document n c)" using revoke_step(1) [OF cache_reachable_ok [OF assms(3)]] .
  have ok': "cache_ok P c'" by (rule rcache.steps_good [OF assms(4) ok])
  have "cache_le P (revoke_document n c) c'" by (rule rcache.steps_le [OF assms(4) ok])
  then have n: "n \<in> ca_revoked c'" by (auto simp: cache_le_def revoke_document_def)
  have "ca_objects c' k = None" if "storage_key P kind r h = Inr k" for k
  proof (rule ccontr)
    assume "ca_objects c' k \<noteq> None"
    then obtain m where "k \<in> manifest_keys c' m" using ok' unfolding cache_ok_def by blast
    then have m: "key_of P m k" "m \<notin> ca_revoked c'" using ok' unfolding cache_ok_def by blast+
    have "key_of P n k" using assms(5-7) that unfolding key_of_def by blast
    with key_of_separate [OF assms(1,2) _ m(1)] m(2) n show False by blast
  qed
  then show ?thesis using n assms(6) by (simp add: cache_put_def cache_get_def)
qed

text \<open>
  A cached artifact is immutable: after an accepted write, whatever later writes, revocations of other documents or damage to the store
  happen, reading the same artifact either returns bytes with the digest of what was written, or reports corruption; it never finds nothing.
\<close>

theorem cached_artifact_is_immutable:
  assumes "hexdigest_ok P" "separate P (cr_namespace r)" "cache_reachable P digest c"
    and "request_ok r" "artifact kind h" "cache_put P digest kind r payload h c = Inr c'"
    and "(cache_step P digest)\<^sup>*\<^sup>* c' c''" "cr_namespace r \<notin> ca_revoked c''"
  shows "case cache_get P digest kind r h c'' of Inl e \<Rightarrow> e = CacheCorruptionError ''cache payload hash mismatch''
    | Inr found \<Rightarrow> (\<exists>bytes. found = Some bytes \<and> digest bytes = digest payload)"
proof -
  obtain k v where k: "storage_key P kind r h = Inr k" and v: "ca_objects c' k = Some v" "so_payload_sha256 v = digest payload"
    using cache_putD [OF assms(6)] by (metis fun_upd_same)
  have ok: "cache_ok P c'" using put_step(1) [OF assms(6,4,5) cache_reachable_ok [OF assms(3)]] .
  have le: "cache_le P c' c''" by (rule rcache.steps_le [OF assms(7) ok])
  have key: "key_of P (cr_namespace r) k" using assms(4,5) k unfolding key_of_def by blast
  have "\<not> key_of P m k" if "m \<in> ca_revoked c''" for m
    using that assms(8) key_of_separate [OF assms(1,2) key] by blast
  then obtain v' where "ca_objects c'' k = Some v'" "so_payload_sha256 v' = digest payload"
    using le v unfolding cache_le_def by fastforce
  then show ?thesis
    using k assms(8) by (simp add: cache_get_def client_get_def verified_def)
qed


section \<open>A platform and a request\<close>

definition sample_namespace :: "pystr \<Rightarrow> cache_namespace" where
  "sample_namespace role = \<lparr>cn_tenant_id = uuid_of 1, cn_consent_profile = py ''c'', cn_document_version_id = uuid_of 2, cn_role = role\<rparr>"

definition cached_request :: "nat \<Rightarrow> cache_request" where
  "cached_request i = \<lparr>cr_namespace = sample_namespace (py ''t''), cr_request_id = uuid_of i, cr_request_signature = hex64, cr_replicate_id = 1,
     cr_extraction_epoch = 1\<rparr>"

text \<open>A digest that separates the text of one namespace from every other text.\<close>

definition split_platform :: platform where
  "split_platform = \<lparr>float_repr = exact_repr, sha256_hex = (\<lambda>s.
     if s = json_print exact_repr (namespace_json (sample_namespace (py ''t''))) then replicate 64 97 else hex64)\<rparr>"

lemma split_hexdigest: "hexdigest_ok split_platform"
  using sample_uuids(2) by (simp add: hexdigest_ok_def split_platform_def is_sha256_def lower_hex_def list_all_iff)

lemma sample_namespace_scalar: "json_scalar (namespace_json (sample_namespace (py ''t'')))"
  using scalar_py by (auto simp: namespace_json_def sample_namespace_def uuid_of_def scalar_def)

lemma split_separate: "separate split_platform (sample_namespace (py ''t''))"
proof -
  let ?n = "sample_namespace (py ''t'')"
  have fr: "float_repr_ok exact_repr" by (rule exact_repr_ok)
  have ne: "replicate 64 97 \<noteq> hex64" by (simp add: hex64_def)
  have "m = ?n" if "json_scalar (namespace_json m)" "json_print exact_repr (namespace_json m) = json_print exact_repr (namespace_json ?n)" for m
  proof -
    have "canonical_json split_platform (namespace_json x) = Inr (json_print exact_repr (namespace_json x))" for x
      by (simp add: canonical_json_def namespace_json_def split_platform_def)
    with canonical_json_inj [of split_platform "namespace_json m" "namespace_json ?n"] that fr sample_namespace_scalar
    have "json_norm (namespace_json m) = json_norm (namespace_json ?n)" by (simp add: split_platform_def)
    then show ?thesis by (intro cache_namespace.equality) (simp_all add: namespace_json_def)
  qed
  then show ?thesis
    using ne unfolding separate_def partition_key_def namespace_json_hash by (auto simp: split_platform_def split: if_splits)
qed

lemma cached_request_ok: "i < 10 \<Longrightarrow> request_ok (cached_request i)" "i < 10 \<Longrightarrow> mk_cache_request (cached_request i) = Inr (cached_request i)"
  using sample_namespace_scalar
  by (simp_all add: request_ok_def mk_cache_request_def mk_cache_namespace_def cached_request_def sample_namespace_def check_uuid_def check_sha256_def
      sample_uuids del: One_nat_def)


lemma cached_put: "\<exists>c'. cache_put split_platform (\<lambda>b. b) (py ''RAW'') (cached_request 3) [1, 2] None empty_cache = Inr c' \<and> ca_revoked c' = {}"
  by (simp add: cache_put_def storage_key_eq put_if_absent_def empty_cache_def)

lemma empty_cache_reachable: "cache_reachable P digest empty_cache"
  by (simp add: cache_reachable_def)

theorem storage_key_identifies_artifact_witness:
  "\<exists>P r s k. hexdigest_ok P \<and> mk_cache_request r = Inr r \<and> mk_cache_request s = Inr s \<and> cr_request_id r \<noteq> cr_request_id s
     \<and> storage_key P (py ''GUARDED'') r None = Inr k \<and> storage_key P (py ''GUARDED'') s None = Inr k
     \<and> cr_request_signature r = cr_request_signature s"
proof -
  let ?r = "cached_request 3" and ?s = "cached_request 4"
  obtain k where k: "storage_key split_platform (py ''GUARDED'') ?r None = Inr k" "storage_key split_platform (py ''GUARDED'') ?s None = Inr k"
    by (simp add: storage_key_eq key_tail_def cached_request_def)
  have a: "artifact (py ''GUARDED'') None" by (simp add: artifact_def)
  have 1: "mk_cache_request ?r = Inr ?r" "mk_cache_request ?s = Inr ?s"
    by (rule cached_request_ok(2), simp)+
  have "cr_request_id ?r \<noteq> cr_request_id ?s" by (simp add: cached_request_def uuid_of_def)
  with storage_key_identifies_artifact [OF split_hexdigest 1 a a k] 1 k split_hexdigest show ?thesis by blast
qed

theorem revoked_namespace_is_sealed_witness:
  "\<exists>P digest c r. hexdigest_ok P \<and> separate P (cr_namespace r) \<and> cache_reachable P digest c \<and> request_ok r
     \<and> cache_put P digest (py ''RAW'') r [] None (revoke_document (cr_namespace r) c) = Inl (CacheRevokedError ''cache namespace has been revoked'')"
proof -
  have n: "cr_namespace (cached_request 3) = sample_namespace (py ''t'')" by (simp add: cached_request_def)
  have a: "artifact (py ''RAW'') None" by (simp add: artifact_def)
  have r: "request_ok (cached_request 3)" by (rule cached_request_ok(1)) simp
  show ?thesis
    using revoked_namespace_is_sealed [OF split_hexdigest split_separate empty_cache_reachable rtranclp.rtrancl_refl r n a]
      split_hexdigest split_separate empty_cache_reachable r n by metis
qed

theorem cached_artifact_is_immutable_witness:
  "\<exists>P digest c c' r. hexdigest_ok P \<and> separate P (cr_namespace r) \<and> cache_reachable P digest c \<and> request_ok r
     \<and> cache_put P digest (py ''RAW'') r [1, 2] None c = Inr c' \<and> cache_get P digest (py ''RAW'') r None c' \<noteq> Inr None"
proof -
  let ?r = "cached_request 3"
  have n: "cr_namespace ?r = sample_namespace (py ''t'')" by (simp add: cached_request_def)
  have s: "separate split_platform (cr_namespace ?r)" using split_separate n by simp
  have a: "artifact (py ''RAW'') None" by (simp add: artifact_def)
  have r: "request_ok ?r" by (rule cached_request_ok(1)) simp
  obtain c' where c': "cache_put split_platform (\<lambda>b. b) (py ''RAW'') ?r [1, 2] None empty_cache = Inr c'" "cr_namespace ?r \<notin> ca_revoked c'"
    using cached_put by fastforce
  show ?thesis
    using cached_artifact_is_immutable [OF split_hexdigest s empty_cache_reachable r a c'(1) rtranclp.rtrancl_refl c'(2)]
      split_hexdigest s empty_cache_reachable r c'(1) by (intro exI conjI) (assumption | auto)+
qed

end
