(* ===== verification/Consensus.thy ===== *)
theory Consensus
  imports Response_Cache Budget Rules_Engine
begin

text \<open>
  Model of \<^verbatim>\<open>application/tagging/consensus.py\<close>: the vote of three guarded model replicas over one frozen evidence packet, with the classes it
  reads: \<^verbatim>\<open>EvidencePacket\<close> of \<^verbatim>\<open>application/evidence/retrieval.py\<close> and \<^verbatim>\<open>TagRun\<close> of \<^verbatim>\<open>application/tagging/service.py\<close>.

  The payload of a packet is kept parsed. A set of headers or of keys is the list of its members without repetition, in the order the runs give them;
  the source only asks such a set for its size, its members, or its single element. \<open>consensus_votes\<close>, \<open>consensus_element\<close> and \<open>partial_element\<close>
  are the bodies of the loops over the requested elements.
\<close>

section \<open>Packets\<close>

record evidence_packet =
  ep_payload :: "(pystr \<times> json) list"
  ep_packet_sha256 :: pystr

definition mk_evidence_packet :: "platform \<Rightarrow> evidence_packet \<Rightarrow> evidence_packet result" where
  "mk_evidence_packet P p = bindE (canonical_hash P (JObj (ep_payload p))) (\<lambda>h.
     if h \<noteq> ep_packet_sha256 p then Inl (DomainValidationError ''packet hash mismatch'') else Inr p)"

definition packet_dict :: "evidence_packet \<Rightarrow> (pystr \<times> json) list" where
  "packet_dict p = AList.update (py ''packet_sha256'') (JStr (ep_packet_sha256 p)) (ep_payload p)"

definition freeze_packet :: "platform \<Rightarrow> (pystr \<times> json) list \<Rightarrow> evidence_packet result" where
  "freeze_packet P d =
     bindE (canonical_json P (JObj d)) (\<lambda>_.
     case json_norm (JObj d) of JObj payload \<Rightarrow>
       bindE (canonical_hash P (JObj payload)) (\<lambda>h. mk_evidence_packet P \<lparr>ep_payload = payload, ep_packet_sha256 = h\<rparr>)
     | _ \<Rightarrow> Inl (TypeError ''dict expected''))"

text \<open>\<^verbatim>\<open>d.get(key)\<close>.\<close>

definition jget :: "(pystr \<times> json) list \<Rightarrow> string \<Rightarrow> json" where
  "jget d k = (case map_of d (py k) of None \<Rightarrow> JNull | Some v \<Rightarrow> v)"

section \<open>Tag runs\<close>

record tag_run =
  tr_request :: cache_request
  tr_tenant_id :: pystr
  tr_run_id :: pystr
  tr_claim_id :: pystr
  tr_packet_sha256 :: pystr
  tr_graph_sha256 :: pystr
  tr_rule_sha256 :: pystr
  tr_model_sha256 :: pystr
  tr_prompt_sha256 :: pystr
  tr_raw_response_json :: "pystr option"
  tr_usage :: "token_usage option"
  tr_guarded :: "llm_tags option"
  tr_status :: pystr
  tr_errors :: "pystr list"
  tr_source_scopes :: "(pystr \<times> pystr) list"
  tr_binding_hashes :: "(pystr \<times> pystr) list"
  tr_synthetic :: bool
  tr_product_variant :: bool
  tr_recovered :: bool
  tr_provider_response_json :: "pystr option"
  tr_diagnostic_detail :: "pystr option"

definition tr_replicate_id :: "tag_run \<Rightarrow> int" where
  "tr_replicate_id r = cr_replicate_id (tr_request r)"

definition opt_int :: "int option \<Rightarrow> json" where
  "opt_int x = (case x of None \<Rightarrow> JNull | Some i \<Rightarrow> JInt i)"

definition cache_request_asdict :: "cache_request \<Rightarrow> json" where
  "cache_request_asdict r = JObj
     [(py ''namespace'', JObj [(py ''tenant_id'', JStr (cn_tenant_id (cr_namespace r))),
         (py ''consent_profile'', JStr (cn_consent_profile (cr_namespace r))),
         (py ''document_version_id'', JStr (cn_document_version_id (cr_namespace r))), (py ''role'', JStr (cn_role (cr_namespace r)))]),
      (py ''request_id'', JStr (cr_request_id r)), (py ''request_signature'', JStr (cr_request_signature r)),
      (py ''replicate_id'', JInt (cr_replicate_id r)), (py ''extraction_epoch'', JInt (cr_extraction_epoch r))]"

definition token_usage_asdict :: "token_usage \<Rightarrow> json" where
  "token_usage_asdict u = JObj
     [(py ''input_tokens'', opt_int (tu_input_tokens u)), (py ''output_tokens'', opt_int (tu_output_tokens u)),
      (py ''cache_read_tokens'', opt_int (tu_cache_read_tokens u)), (py ''cache_write_tokens'', opt_int (tu_cache_write_tokens u)),
      (py ''latency_ms'', JInt (tu_latency_ms u)), (py ''status'', JStr (tu_status u)),
      (py ''provider_request_id'', opt_str (tu_provider_request_id u)), (py ''error_code'', opt_str (tu_error_code u))]"

definition pairs_json :: "(pystr \<times> pystr) list \<Rightarrow> json" where
  "pairs_json ps = JList (map (\<lambda>p. JList [JStr (fst p), JStr (snd p)]) ps)"

text \<open>\<^verbatim>\<open>asdict(self)\<close> without \<^verbatim>\<open>recovered\<close>, and without \<^verbatim>\<open>diagnostic_detail\<close> when it is null.\<close>

definition semantic_dict :: "tag_run \<Rightarrow> json" where
  "semantic_dict r = JObj (
     [(py ''request'', cache_request_asdict (tr_request r)), (py ''tenant_id'', JStr (tr_tenant_id r)), (py ''run_id'', JStr (tr_run_id r)),
      (py ''claim_id'', JStr (tr_claim_id r)), (py ''packet_sha256'', JStr (tr_packet_sha256 r)), (py ''graph_sha256'', JStr (tr_graph_sha256 r)),
      (py ''rule_sha256'', JStr (tr_rule_sha256 r)), (py ''model_sha256'', JStr (tr_model_sha256 r)), (py ''prompt_sha256'', JStr (tr_prompt_sha256 r)),
      (py ''raw_response_json'', opt_str (tr_raw_response_json r)),
      (py ''usage'', (case tr_usage r of None \<Rightarrow> JNull | Some u \<Rightarrow> token_usage_asdict u)),
      (py ''guarded'', (case tr_guarded r of None \<Rightarrow> JNull | Some g \<Rightarrow> llm_tags_asdict g)),
      (py ''status'', JStr (tr_status r)), (py ''errors'', str_list (tr_errors r)), (py ''source_scopes'', pairs_json (tr_source_scopes r)),
      (py ''binding_hashes'', pairs_json (tr_binding_hashes r)), (py ''synthetic'', JBool (tr_synthetic r)),
      (py ''product_variant'', JBool (tr_product_variant r)), (py ''provider_response_json'', opt_str (tr_provider_response_json r))]
     @ (case tr_diagnostic_detail r of None \<Rightarrow> [] | Some d \<Rightarrow> [(py ''diagnostic_detail'', JStr d)]))"

definition semantic_hash :: "platform \<Rightarrow> tag_run \<Rightarrow> pystr result" where
  "semantic_hash P r = canonical_hash P (semantic_dict r)"

section \<open>Profiles\<close>

definition PARTIAL_FACTS_PROFILES :: "pystr list" where
  "PARTIAL_FACTS_PROFILES = [py ''partial-facts-v1'', py ''partial-facts-v2'', py ''grade-relevant-unanimity-v1'',
     py ''grade-relevant-unanimity-v2'', py ''grade-relevant-unanimity-v3'']"

definition reviewable_decision :: "decision option \<Rightarrow> pystr \<Rightarrow> pystr \<Rightarrow> decision option \<times> pystr option" where
  "reviewable_decision decision profile review_status = (case decision of
       None \<Rightarrow> (None, None)
     | Some d \<Rightarrow> if d_decision_status d = Decided \<and> (profile \<in> set PARTIAL_FACTS_PROFILES \<or> review_status \<noteq> py ''auto_confirmed'')
         then (None, d_evidence_grade d) else (Some d, None))"

definition get_dict :: "json \<Rightarrow> string \<Rightarrow> (pystr \<times> json) list result" where
  "get_dict v k = (case v of JObj d \<Rightarrow> if py_truthy (jget d k) then
       (case jget d k of JObj e \<Rightarrow> Inr e | _ \<Rightarrow> Inl (AttributeError ''get'')) else Inr [] | _ \<Rightarrow> Inl (AttributeError ''get''))"

text \<open>\<^verbatim>\<open>value in PARTIAL_FACTS_PROFILES\<close> of a JSON value: a list or a dictionary cannot be hashed.\<close>

definition partial_profile :: "json \<Rightarrow> bool result" where
  "partial_profile v = (case v of JStr s \<Rightarrow> Inr (s \<in> set PARTIAL_FACTS_PROFILES) | JList _ \<Rightarrow> Inl (TypeError ''unhashable'')
     | JObj _ \<Rightarrow> Inl (TypeError ''unhashable'') | _ \<Rightarrow> Inr False)"

definition hashable :: "json \<Rightarrow> bool" where
  "hashable v = (case v of JList _ \<Rightarrow> False | JObj _ \<Rightarrow> False | _ \<Rightarrow> True)"

definition checkpoint_held :: "(pystr \<times> json) list \<Rightarrow> json \<Rightarrow> bool result" where
  "checkpoint_held item pinned_profile =
     bindE (get_dict (JObj item) ''review_inputs'') (\<lambda>inputs.
     bindE (get_dict (JObj inputs) ''fact_assembly'') (\<lambda>assembly.
     bindE (get_dict (JObj inputs) ''consensus'') (\<lambda>consensus.
       let profile = (case map_of assembly (py ''profile'') of None \<Rightarrow> JStr (py ''strict-v1'') | Some v \<Rightarrow> v);
           status = jget consensus ''review_status''; origin = jget inputs ''review_origin'' in
       if \<not> hashable status \<or> \<not> hashable origin then Inl (TypeError ''unhashable'')
       else if (status, origin) \<in> {(JStr (py ''human_confirmed''), JStr (py ''human'')),
           (JStr (py ''ai_delegated_confirmed''), JStr (py ''ai_delegated''))} then Inr False
       else bindE (partial_profile profile) (\<lambda>a.
            if a then Inr True else bindE (partial_profile pinned_profile) (\<lambda>b.
            Inr (b \<or> status \<noteq> JStr (py ''auto_confirmed'')))))))"

definition reviewable_checkpoint :: "(pystr \<times> json) list \<Rightarrow> json \<Rightarrow> (pystr \<times> json) list result" where
  "reviewable_checkpoint item pinned_profile =
     bindE (get_dict (JObj item) ''decision'') (\<lambda>decision.
       let decided = (jget decision ''decision_status'' = JStr (py ''decided'')) in
       if jget item ''status'' \<noteq> JStr (py ''completed'') \<and> \<not> decided then Inr item
       else bindE (checkpoint_held item pinned_profile) (\<lambda>held.
         if \<not> held then Inr item
         else let item = AList.update (py ''reason'') (JStr (py ''PARTIAL_FACTS_REVIEW_REQUIRED''))
                    (AList.update (py ''status'') (JStr (py ''needs_review'')) item)
              in Inr (if decided then AList.update (py ''decision'') JNull
                    (AList.update (py ''candidate_grade'') (jget decision ''evidence_grade'') item) else item)))"

record consensus_result =
  cons_candidate_elements :: "llm_element list"
  cons_agreement :: "(pystr \<times> nat) list"
  cons_review_status :: pystr
  cons_confirmed_tags :: "confirmed_tags option"
  cons_reasons :: "pystr list"
  cons_replicate_hashes :: "pystr list"


section \<open>The vote\<close>

definition track_of_json :: "json \<Rightarrow> track option result" where
  "track_of_json v = (if \<not> hashable v then Inl (TypeError ''unhashable'') else Inr (text_member track_text TRACKS v))"

definition catalog_ids :: "rule_pack \<Rightarrow> track \<Rightarrow> pystr list result" where
  "catalog_ids pack t =
     bindE (file_content pack (py ''rubric/elements.yaml'')) (\<lambda>d.
     bindE (bindE (jitem d ''elements'') as_list) (\<lambda>es.
     bindE (mapE (\<lambda>e. bindE (as_dict e) (\<lambda>e. bindE (jitem e ''id'') as_str)) es) (\<lambda>ids.
     Inr (filter (\<lambda>i. i \<in> fst ` set (MAPPINGS t)) ids))))"

text \<open>The guard on the packet: its track and the elements it asks for.\<close>

definition frozen_track :: "(pystr \<times> json) list \<Rightarrow> rule_pack \<Rightarrow> (track \<times> pystr list) result" where
  "frozen_track d pack =
     (if map_of d (py ''retrieval_packet_sha256'') = None then Inl (DomainValidationError ''complete frozen track packet required'')
      else bindE (track_of_json (jget d ''track'')) (\<lambda>t. case t of
          None \<Rightarrow> Inl (DomainValidationError ''complete frozen track packet required'')
        | Some t \<Rightarrow>
            bindE (jitem d ''allowed_elements'') (\<lambda>allowed.
            bindE (catalog_ids pack t) (\<lambda>ids.
              if allowed \<noteq> JList (map JStr ids) \<or> set ids \<noteq> fst ` set (MAPPINGS t)
              then Inl (DomainValidationError ''complete frozen track packet required'')
              else Inr (t, ids)))))"

definition check_identity :: "pystr \<Rightarrow> (pystr \<times> json) list \<Rightarrow> pystr \<Rightarrow> pystr \<Rightarrow> tag_run \<Rightarrow> unit result" where
  "check_identity tenant d packet_sha rule_sha r =
     bindE (jitem d ''claim_id'') (\<lambda>claim.
     bindE (jitem d ''run_id'') (\<lambda>run.
     bindE (jitem d ''graph_sha256'') (\<lambda>graph.
       if (tr_tenant_id r, JStr (tr_claim_id r), JStr (tr_run_id r), tr_packet_sha256 r, JStr (tr_graph_sha256 r), tr_rule_sha256 r)
          \<noteq> (tenant, claim, run, packet_sha, graph, rule_sha)
         then Inl (DomainValidationError ''replicate packet/provenance mismatch'')
       else case tr_guarded r of None \<Rightarrow> Inr ()
         | Some g \<Rightarrow> if (lt_replicate_id g, lt_packet_sha256 g, lt_claim_id g) \<noteq> (tr_replicate_id r, tr_packet_sha256 r, tr_claim_id r)
             then Inl (DomainValidationError ''guarded vote identity mismatch'') else Inr ())))"

definition run_setup :: "tag_run \<Rightarrow> pystr \<times> pystr \<times> int \<times> bool" where
  "run_setup r = (tr_model_sha256 r, tr_prompt_sha256 r, cr_extraction_epoch (tr_request r), tr_product_variant r)"

definition provider_ids :: "tag_run list \<Rightarrow> pystr list" where
  "provider_ids runs = filter (\<lambda>p. p \<noteq> []) (List.map_filter (\<lambda>r. case tr_usage r of None \<Rightarrow> None | Some u \<Rightarrow> tu_provider_request_id u) runs)"

definition header :: "llm_tags \<Rightarrow> track \<times> pystr option \<times> pystr option" where
  "header g = (lt_track g, lt_safe_harbor_category g, lt_superlative_quote g)"

definition headers :: "tag_run list \<Rightarrow> (track \<times> pystr option \<times> pystr option) list" where
  "headers runs = py_unique (map header (List.map_filter tr_guarded runs))"

type_synonym vote_triple = "element_state \<times> pystr option \<times> pystr option"

definition vote_key :: "tag_run \<Rightarrow> llm_element \<Rightarrow> vote_triple" where
  "vote_key r e = (le_state e, le_normalized_value e, dict_of (tr_binding_hashes r) (le_element_id e))"

definition run_votes :: "pystr \<Rightarrow> tag_run \<Rightarrow> (vote_triple \<times> llm_element) list" where
  "run_votes element_id r = (case tr_guarded r of None \<Rightarrow> []
     | Some g \<Rightarrow> map (\<lambda>e. (vote_key r e, e)) (filter (\<lambda>e. le_element_id e = element_id) (lt_elements g)))"

definition consensus_votes :: "tag_run list \<Rightarrow> pystr \<Rightarrow> (vote_triple \<times> llm_element) list" where
  "consensus_votes runs element_id = concat (map (run_votes element_id) runs)"

text \<open>\<^verbatim>\<open>Counter(xs).most_common(1)\<close>: the first of the most frequent members, with its count.\<close>

definition most_common :: "'a list \<Rightarrow> ('a \<times> nat) option" where
  "most_common xs = (let counts = map (\<lambda>x. (x, count_list xs x)) (py_unique xs) in
     find (\<lambda>c. list_all (\<lambda>d. snd d \<le> snd c) counts) counts)"

definition SCOPE_PRIORITY :: "pystr list" where
  "SCOPE_PRIORITY = [py ''qt1_maintenance_baseline_v1'', py ''global_bound'', py ''same_table'', py ''local_claim'']"

definition vote_scope :: "tag_run list \<Rightarrow> pystr \<Rightarrow> pystr" where
  "vote_scope runs element_id =
     (let scopes = map (\<lambda>r. dict_of (tr_source_scopes r) element_id) (filter (\<lambda>r. tr_guarded r \<noteq> None) runs) in
      case find (\<lambda>s. Some s \<in> set scopes) SCOPE_PRIORITY of None \<Rightarrow> py ''local_claim'' | Some s \<Rightarrow> s)"

definition element_facts :: "pystr \<Rightarrow> pystr \<Rightarrow> element_state \<Rightarrow> source_ref list \<Rightarrow> pystr option \<Rightarrow> pystr list \<Rightarrow> confirmed_fact list result" where
  "element_facts tenant scope state refs value names = mapE (\<lambda>n. mk_confirmed_fact
     (if state = Present then (plain_fact n Present)\<lparr>cf_evidence_refs := refs, cf_source_tenant_id := Some tenant, cf_citation_verified := True,
        cf_binding_accepted := True, cf_source_scope := scope, cf_normalized_value := value\<rparr>
      else plain_fact n state)) names"

text \<open>\<^verbatim>\<open>replace(element, ..)\<close> runs the checks of the element again.\<close>

definition mk_element :: "llm_element \<Rightarrow> llm_element result" where
  "mk_element e =
     (if le_element_id e = [] then Inl (DomainValidationError ''element_id must be a non-empty string'')
      else if le_state e \<notin> set ELEMENT_STATES then Inl (DomainValidationError ''unknown element state'')
      else if le_state e = Present \<and> le_evidence_refs e = []
        then Inl (DomainValidationError ''state=present requires at least one evidence_ref'')
      else Inr e)"

text \<open>What one requested element adds: candidates, its agreement, reasons and facts.\<close>

definition consensus_element ::
  "pystr \<Rightarrow> track option \<Rightarrow> tag_run list \<Rightarrow> pystr \<Rightarrow> (llm_element list \<times> nat \<times> pystr list \<times> confirmed_fact list) result" where
  "consensus_element tenant track runs element_id =
     (let votes = consensus_votes runs element_id in
      case most_common (map fst votes) of
        None \<Rightarrow> Inr ([], 0, [py ''NO_MAJORITY:'' @ element_id], [])
      | Some (key, n) \<Rightarrow>
          if n < 2 then Inr ([], n, [py ''NO_MAJORITY:'' @ element_id], [])
          else
          let winners = map snd (filter (\<lambda>v. fst v = key) votes);
              refs = py_unique (concat (map le_evidence_refs winners)) in
          bindE (mk_element ((hd winners)\<lparr>le_evidence_refs := refs\<rparr>)) (\<lambda>candidate.
            let scope = vote_scope runs element_id;
                review = (if n \<noteq> 3 \<or> le_state candidate \<in> {Unknown, Conflict} then [py ''REVIEW:'' @ element_id] else []) in
            case track of None \<Rightarrow> Inr ([candidate], n, review, [])
            | Some t \<Rightarrow> (case map_of (MAPPINGS t) element_id of
                  None \<Rightarrow> Inr ([candidate], n, review @ [py ''ELEMENT_TRACK_MISMATCH:'' @ element_id], [])
                | Some names \<Rightarrow> bindE (element_facts tenant scope (le_state candidate) refs (le_normalized_value candidate) names)
                    (\<lambda>facts. Inr ([candidate], n, review, facts)))))"

definition tags_of ::
  "pystr \<Rightarrow> (pystr \<times> json) list \<Rightarrow> pystr \<Rightarrow> rule_pack \<Rightarrow> int \<Rightarrow> tag_run \<Rightarrow> track \<times> pystr option \<times> pystr option \<Rightarrow> confirmed_fact list \<Rightarrow> pystr list
    \<Rightarrow> confirmed_tags result" where
  "tags_of tenant d packet_sha pack tag_revision first_run h facts hashes =
     bindE (bindE (jitem d ''document_version_id'') (require_uuid ''document_version_id'')) (\<lambda>version.
     bindE (bindE (jitem d ''claim_id'') (require_uuid ''claim_id'')) (\<lambda>claim.
     mk_confirmed_tags \<lparr>ct_tenant_id = tenant, ct_document_version_id = version, ct_claim_id = claim, ct_track = fst h, ct_facts = facts,
       ct_tag_revision = tag_revision, ct_packet_sha256 = packet_sha, ct_model_sha256 = tr_model_sha256 first_run,
       ct_prompt_sha256 = tr_prompt_sha256 first_run, ct_replicate_hashes = hashes, ct_ontology_version = rp_ontology_version pack,
       ct_safe_harbor_category = fst (snd h), ct_superlative_quote = snd (snd h), ct_product_variant = tr_product_variant first_run\<rparr>))"

definition strict_reasons :: "(pystr \<times> json) list \<Rightarrow> track \<Rightarrow> pystr list \<Rightarrow> tag_run list \<Rightarrow> pystr list" where
  "strict_reasons d t rule_gaps runs = rule_gaps
     @ (if py_duplicates (provider_ids runs) then [py ''PROVIDER_RESPONSE_REPLAY''] else [])
     @ (if list_ex (\<lambda>r. tr_status r \<noteq> py ''succeeded'' \<or> tr_errors r \<noteq> [] \<or> tr_guarded r = None) runs then [py ''REPLICA_UNRESOLVED''] else [])
     @ (if length (headers runs) \<noteq> 1 then [py ''TRACK_CATEGORY_SUPERLATIVE_DISAGREEMENT''] else [])
     @ (if list_ex (\<lambda>h. fst h \<noteq> t \<or> opt_str (fst (snd h)) \<noteq> jget d ''safe_harbor_category'') (headers runs) then [py ''PACKET_TRACK_MISMATCH''] else [])"

definition strict_consensus ::
  "platform \<Rightarrow> (pystr \<times> json) list \<Rightarrow> pystr \<Rightarrow> rule_pack \<Rightarrow> pystr \<Rightarrow> int \<Rightarrow> pystr list \<Rightarrow> track \<Rightarrow> pystr list \<Rightarrow> tag_run list
    \<Rightarrow> consensus_result result" where
  "strict_consensus P d packet_sha pack tenant tag_revision rule_gaps t allowed runs =
     (let hs = headers runs; track = (if length hs = 1 then Some (fst (hd hs)) else None) in
      bindE (mapE (consensus_element tenant track runs) allowed) (\<lambda>rows.
        let reasons = strict_reasons d t rule_gaps runs @ concat (map (\<lambda>(_, _, r, _). r) rows);
            facts = concat (map (\<lambda>(_, _, _, f). f) rows) in
        bindE (mapE (semantic_hash P) runs) (\<lambda>hashes.
        bindE (if reasons = [] \<and> track \<noteq> None
               then bindE (tags_of tenant d packet_sha pack tag_revision (hd runs) (hd hs) facts hashes) (\<lambda>tags. Inr (Some tags)) else Inr None) (\<lambda>confirmed.
        Inr \<lparr>cons_candidate_elements = concat (map fst rows), cons_agreement = zip allowed (map (\<lambda>(_, n, _, _). n) rows),
          cons_review_status = (if confirmed \<noteq> None then py ''auto_confirmed'' else py ''needs_review''),
          cons_confirmed_tags = confirmed, cons_reasons = py_sorted_set reasons, cons_replicate_hashes = hashes\<rparr>))))"


section \<open>Partial facts\<close>

definition RETRYABLE_ERRORS :: "pystr list" where
  "RETRYABLE_ERRORS = [py ''MODEL_UNAVAILABLE'', py ''BUDGET_EXHAUSTED'', py ''TAGGING_INPUT_COUNT_INVALID'']"

definition fatal_error :: "bool \<Rightarrow> tag_run \<Rightarrow> pystr \<Rightarrow> bool" where
  "fatal_error citation_unavailable r e \<longleftrightarrow> e \<noteq> py ''DETERMINISTIC_CHECK_REQUIRED:P6'' \<and> \<not> py_startswith e (py ''UNRESOLVED:'')
     \<and> \<not> (tr_guarded r = None \<and> (e \<in> set RETRYABLE_ERRORS
          \<or> citation_unavailable \<and> tr_status r = py ''citation_unresolved'' \<and> py_startswith e (py ''TAGGING_EVIDENCE_ID_'')))"

definition partial_unsafe :: "bool \<Rightarrow> (pystr \<times> json) list \<Rightarrow> track \<Rightarrow> tag_run list \<Rightarrow> bool" where
  "partial_unsafe citation_unavailable d t runs \<longleftrightarrow> length (headers runs) \<noteq> 1
     \<or> fst (hd (headers runs)) \<noteq> t \<or> opt_str (fst (snd (hd (headers runs)))) \<noteq> jget d ''safe_harbor_category''
     \<or> py_duplicates (provider_ids runs)
     \<or> list_ex (\<lambda>r. list_ex (fatal_error citation_unavailable r) (tr_errors r)) runs"

definition first_vote :: "pystr \<Rightarrow> tag_run \<Rightarrow> llm_element option" where
  "first_vote element_id r = (case tr_guarded r of None \<Rightarrow> None | Some g \<Rightarrow> find (\<lambda>e. le_element_id e = element_id) (lt_elements g))"

type_synonym partial_vote = "vote_triple \<times> pystr option"

definition partial_key :: "tag_run \<Rightarrow> pystr \<Rightarrow> llm_element \<Rightarrow> partial_vote" where
  "partial_key r element_id e = ((le_state e, le_normalized_value e, dict_of (tr_binding_hashes r) element_id), dict_of (tr_source_scopes r) element_id)"

definition partial_keys :: "tag_run list \<Rightarrow> pystr \<Rightarrow> partial_vote option list" where
  "partial_keys runs element_id = map (\<lambda>r. map_option (partial_key r element_id) (first_vote element_id r)) runs"

definition partial_state :: "bool \<Rightarrow> bool \<Rightarrow> tag_run list \<Rightarrow> pystr \<Rightarrow> element_state" where
  "partial_state preserve_conflict preserve_surviving runs element_id =
     (let votes = map (first_vote element_id) runs; keys = partial_keys runs element_id; known = List.map_filter id votes in
      if 1 < length (py_unique (List.map_filter id keys)) then Conflict
      else if preserve_surviving \<and> list_ex (\<lambda>e. le_state e = Conflict) known then Conflict
      else if None \<in> set keys then Unknown
      else if le_state (hd known) = Present \<and> list_all (\<lambda>k. snd (snd (fst k)) \<noteq> None) (List.map_filter id keys)
          \<and> list_all (\<lambda>e. list_all (\<lambda>r. sr_verification_state r = Verified) (le_evidence_refs e)) known then Present
      else if le_state (hd known) = Unknown \<or> preserve_conflict \<and> le_state (hd known) = Conflict then le_state (hd known)
      else Unknown)"

definition partial_agreement :: "tag_run list \<Rightarrow> pystr \<Rightarrow> nat" where
  "partial_agreement runs element_id =
     (let keys = partial_keys runs element_id; counts = map (count_list keys) (filter (\<lambda>k. k \<noteq> None) keys) in
      if counts = [] then 0 else Max (set counts))"

definition partial_element ::
  "pystr \<Rightarrow> track \<Rightarrow> bool \<Rightarrow> bool \<Rightarrow> tag_run list \<Rightarrow> pystr \<Rightarrow> (llm_element \<times> nat \<times> pystr list \<times> confirmed_fact list) result" where
  "partial_element tenant t preserve_conflict preserve_surviving runs element_id =
     (let state = partial_state preserve_conflict preserve_surviving runs element_id;
          known = List.map_filter (first_vote element_id) runs;
          refs = (if state = Present then py_unique (concat (map le_evidence_refs known)) else []) in
      bindE (mk_element (case known of
          [] \<Rightarrow> \<lparr>le_element_id = element_id, le_state = Unknown, le_evidence_refs = [], le_normalized_value = None, le_credited_from = None,
                 le_reason_code = Some (py ''UNSEARCHED'')\<rparr>
        | base # _ \<Rightarrow> base\<lparr>le_state := state, le_evidence_refs := refs,
            le_normalized_value := (if state = Present then le_normalized_value base else None),
            le_credited_from := (if state = Present then le_credited_from base else None)\<rparr>)) (\<lambda>element.
      bindE (case map_of (MAPPINGS t) element_id of None \<Rightarrow> Inl (KeyError ''element'') | Some names \<Rightarrow>
             element_facts tenant (vote_scope runs element_id) state refs (case known of [] \<Rightarrow> None | base # _ \<Rightarrow> le_normalized_value base) names) (\<lambda>facts.
      Inr (element, partial_agreement runs element_id, if state \<noteq> Present then [py ''REVIEW:'' @ element_id] else [], facts))))"

text \<open>The facts a ladder may ask for that no element vote speaks of.\<close>

definition required_names :: "rule_pack \<Rightarrow> track \<Rightarrow> pystr list result" where
  "required_names pack t =
     bindE (file_content pack (py ''rubric/elements.yaml'')) (\<lambda>d.
     bindE (bindE (jitem d ''elements'') as_list) (\<lambda>es.
     bindE (mapE (\<lambda>e. bindE (as_dict e) (\<lambda>e. bindE (bindE (jitem e ''id'') as_str) (\<lambda>i. bindE (jopt e ''trigger'' as_str) (\<lambda>tr.
        Inr (if i \<in> fst ` set (MAPPINGS t) then (case tr of None \<Rightarrow> [] | Some n \<Rightarrow> if n = [] then [] else [n]) else []))))) es) (\<lambda>triggers.
     bindE (file_content pack (rubric_path t)) (\<lambda>rubric.
     bindE (bindE (jitem rubric ''branches'') as_list) (\<lambda>bs.
     bindE (mapE (\<lambda>b. bindE (as_dict b) (\<lambda>b. bindE (jdefault b ''when'' as_dict) (\<lambda>w. bindE (jdefault b ''require_all'' as_str_list) (\<lambda>ra.
        Inr ((case w of None \<Rightarrow> [] | Some kvs \<Rightarrow> map fst kvs) @ (case ra of None \<Rightarrow> [] | Some ns \<Rightarrow> ns)))))) bs) (\<lambda>names.
     Inr (filter (\<lambda>n. n \<noteq> py ''exception_applies'') (concat triggers @ concat names)
          @ (if t = Goal then [py ''target_metric'', py ''transition_plan''] else []))))))))"

definition partial_facts ::
  "platform \<Rightarrow> (pystr \<times> json) list \<Rightarrow> pystr \<Rightarrow> rule_pack \<Rightarrow> pystr \<Rightarrow> int \<Rightarrow> pystr list \<Rightarrow> track \<Rightarrow> pystr list \<Rightarrow> bool \<Rightarrow> bool \<Rightarrow> bool \<Rightarrow> tag_run list
    \<Rightarrow> consensus_result result" where
  "partial_facts P d packet_sha pack tenant tag_revision rule_gaps t allowed citation_unavailable preserve_conflict preserve_surviving runs =
     bindE (mapE (semantic_hash P) runs) (\<lambda>hashes.
     if partial_unsafe citation_unavailable d t runs
     then Inr \<lparr>cons_candidate_elements = [], cons_agreement = [], cons_review_status = py ''needs_review'', cons_confirmed_tags = None,
       cons_reasons = [py ''PARTIAL_FACTS_UNSAFE''], cons_replicate_hashes = hashes\<rparr>
     else
     let h = hd (headers runs) in
     bindE (mapE (partial_element tenant (fst h) preserve_conflict preserve_surviving runs) allowed) (\<lambda>rows.
       let elements = map fst rows; facts = concat (map (\<lambda>(_, _, _, f). f) rows); agreement = zip allowed (map (\<lambda>(_, n, _, _). n) rows);
           reasons = rule_gaps @ concat (map (\<lambda>(_, _, r, _). r) rows) in
       bindE (required_names pack (fst h)) (\<lambda>required.
       bindE (mapE (\<lambda>n. mk_confirmed_fact (plain_fact n Unknown)) (filter (\<lambda>n. n \<notin> cf_name ` set facts) (py_sorted_set required))) (\<lambda>more.
       if list_all (\<lambda>e. le_state e = Present) elements
       then Inr \<lparr>cons_candidate_elements = elements, cons_agreement = agreement, cons_review_status = py ''needs_review'', cons_confirmed_tags = None,
         cons_reasons = [py ''PARTIAL_FACTS_REVIEW_REQUIRED''], cons_replicate_hashes = hashes\<rparr>
       else bindE (tags_of tenant d packet_sha pack tag_revision (hd runs) h (facts @ more) hashes) (\<lambda>tags.
         Inr \<lparr>cons_candidate_elements = elements, cons_agreement = agreement, cons_review_status = py ''needs_review'',
           cons_confirmed_tags = Some tags, cons_reasons = py_sorted_set reasons, cons_replicate_hashes = hashes\<rparr>)))))"

definition form_consensus ::
  "platform \<Rightarrow> tag_run list \<Rightarrow> evidence_packet \<Rightarrow> rule_pack \<Rightarrow> pystr \<Rightarrow> int \<Rightarrow> pystr list \<Rightarrow> pystr \<Rightarrow> consensus_result result" where
  "form_consensus P runs packet pack tenant tag_revision rule_gaps profile =
     (let d = packet_dict packet; sha = ep_packet_sha256 packet in
      if profile \<noteq> py ''strict-v1'' \<and> profile \<notin> set PARTIAL_FACTS_PROFILES then Inl (DomainValidationError ''unknown fact assembly profile'')
      else bindE (frozen_track d pack) (\<lambda>(t, allowed).
        if length runs \<noteq> 3 \<or> tr_replicate_id ` set runs \<noteq> {1, 2, 3}
          then Inl (DomainValidationError ''exactly one run per replicate required'')
        else let ordered = sort_key tr_replicate_id runs in
        bindE (jitem d ''tenant_id'') (\<lambda>packet_tenant.
        if packet_tenant \<noteq> JStr tenant \<or> rp_tenant_id pack \<noteq> tenant then Inl (DomainValidationError ''tenant mismatch'')
        else bindE (forE (check_identity tenant d sha (rp_sha256 pack)) ordered) (\<lambda>_.
        if py_duplicates (map (\<lambda>r. cr_request_id (tr_request r)) ordered) \<or> py_duplicates (map (\<lambda>r. cr_request_signature (tr_request r)) ordered)
          then Inl (DomainValidationError ''independent request identities required'')
        else if length (py_unique (map run_setup ordered)) \<noteq> 1 then Inl (DomainValidationError ''replicate model/prompt/epoch mismatch'')
        else if profile \<in> set PARTIAL_FACTS_PROFILES
          then partial_facts P d sha pack tenant tag_revision rule_gaps t allowed (profile = py ''partial-facts-v2'')
                 (profile \<in> {py ''grade-relevant-unanimity-v2'', py ''grade-relevant-unanimity-v3''})
                 (profile = py ''grade-relevant-unanimity-v3'') ordered
        else strict_consensus P d sha pack tenant tag_revision rule_gaps t allowed ordered))))"

end
