(* ===== verification/Consensus_Props.thy ===== *)
theory Consensus_Props
  imports Consensus Budget_Inv
begin

text \<open>
  What the vote guarantees: only a unanimous, clean vote of three independent replicas confirms tags by itself, the order in which the runs arrive does not
  matter, and the partial profiles publish facts for review without ever confirming or inventing an absence.
\<close>

section \<open>Counting votes\<close>

lemma map_filter_id_iff: "y \<in> set (List.map_filter id xs) \<longleftrightarrow> Some y \<in> set xs"
  by (induction xs) (auto simp: map_filter_simps split: option.splits)

lemma mapE_at: "mapE f xs = Inr ys \<Longrightarrow> x \<in> set xs \<Longrightarrow> \<exists>y \<in> set ys. f x = Inr y"
  by (induction xs arbitrary: ys) (auto simp: bindE_Inr_iff)

lemma most_common_Some:
  assumes "most_common xs = Some (k, n)"
  shows "k \<in> set xs" "n = count_list xs k"
proof -
  have "(k, n) \<in> set (map (\<lambda>x. (x, count_list xs x)) (py_unique xs))"
    using assms unfolding most_common_def Let_def find_Some_iff by (elim exE conjE) (simp only: nth_mem)
  then show "k \<in> set xs" "n = count_list xs k" by auto
qed

lemma at_most_one_filter: "distinct (map f xs) \<Longrightarrow> length (filter (\<lambda>x. f x = a) xs) \<le> 1"
proof (induction xs)
  case (Cons x xs)
  then have "f x \<notin> f ` set xs" by simp
  then have "filter (\<lambda>y. f y = a) xs = []" if "f x = a"
    using that by (metis (mono_tags, lifting) filter_False image_eqI)
  with Cons show ?case by auto
qed simp

lemma run_votes_le:
  assumes "\<And>g. tr_guarded r = Some g \<Longrightarrow> distinct (map le_element_id (lt_elements g))"
  shows "length (run_votes e r) \<le> 1"
  using assms at_most_one_filter by (auto simp: run_votes_def split: option.splits)

lemma count_list_le: "count_list xs k \<le> length xs"
  by (induction xs) auto

lemma count_list_all: "count_list xs k = length xs \<Longrightarrow> x \<in> set xs \<Longrightarrow> x = k"
proof (induction xs)
  case (Cons y xs)
  then show ?case using count_list_le [of xs k] by (auto split: if_splits)
qed simp

text \<open>Three agreeing votes of three replicas that vote at most once each are unanimous.\<close>

lemma unanimous_votes:
  assumes "length runs = 3" "\<And>r. r \<in> set runs \<Longrightarrow> length (run_votes e r) \<le> 1"
    and "count_list (map fst (consensus_votes runs e)) k = 3" "r \<in> set runs"
  shows "\<exists>x. run_votes e r = [(k, x)]"
proof -
  have le: "length (concat (map (run_votes e) rs)) \<le> length rs" if "set rs \<subseteq> set runs" for rs
    using that
  proof (induction rs)
    case (Cons x rs)
    then show ?case using assms(2) [of x] by simp
  qed simp
  have c3: "3 \<le> length (consensus_votes runs e)"
    using assms(3) count_list_le [of "map fst (consensus_votes runs e)" k] by simp
  with le [of runs] assms(1) have len: "length (consensus_votes runs e) = 3" by (simp add: consensus_votes_def)
  obtain xs ys where split: "runs = xs @ r # ys" using assms(4) by (meson split_list)
  have sub: "set xs \<subseteq> set runs" "set ys \<subseteq> set runs" unfolding split by auto
  have "length (consensus_votes runs e) = length (concat (map (run_votes e) xs)) + length (run_votes e r) + length (concat (map (run_votes e) ys))"
    by (simp add: consensus_votes_def split)
  moreover have "length (concat (map (run_votes e) xs)) \<le> length xs" "length (concat (map (run_votes e) ys)) \<le> length ys"
    using le sub by blast+
  moreover have "length xs + length ys = 2" using assms(1) unfolding split by simp
  ultimately have "length (run_votes e r) = 1" using len assms(2) [OF assms(4)] by linarith
  then obtain v where v: "run_votes e r = [v]" by (auto simp: length_Suc_conv)
  then have "fst v \<in> set (map fst (consensus_votes runs e))" using assms(4) by (force simp: consensus_votes_def)
  moreover have "count_list (map fst (consensus_votes runs e)) k = length (map fst (consensus_votes runs e))" using len assms(3) by simp
  ultimately have "fst v = k" using count_list_all by metis
  with v show ?thesis by (metis prod.collapse)
qed

section \<open>Facts of an element\<close>

lemma element_facts_state:
  assumes "element_facts tenant scope state refs v names = Inr facts" "f \<in> set facts"
  shows "cf_state f = state" "cf_name f \<in> set names" "state \<noteq> Absent"
proof -
  obtain n where n: "n \<in> set names" "mk_confirmed_fact (if state = Present then (plain_fact n Present)\<lparr>cf_evidence_refs := refs, cf_source_tenant_id := Some tenant,
      cf_citation_verified := True, cf_binding_accepted := True, cf_source_scope := scope, cf_normalized_value := v\<rparr> else plain_fact n state) = Inr f"
    using mapE_in_result [OF assms(1) [unfolded element_facts_def] assms(2)] by blast
  then show "cf_state f = state" "cf_name f \<in> set names" "state \<noteq> Absent"
    by (auto simp: mk_confirmed_fact_def plain_fact_def split: if_splits)
qed

lemma MAPPINGS_names: "map_of (MAPPINGS t) e = Some names \<Longrightarrow> names \<noteq> []"
  by (cases t) (auto simp: MAPPINGS_def goal_ELEMENTS_def performance_ELEMENTS_def management_ELEMENTS_def split: if_splits)

lemma element_facts_not_absent:
  assumes "element_facts tenant scope state refs v names = Inr facts" "names \<noteq> []"
  shows "state \<noteq> Absent"
proof -
  have "facts \<noteq> []" using assms mapE_length [OF assms(1) [unfolded element_facts_def]] by auto
  then show ?thesis using element_facts_state(3) [OF assms(1)] by (cases facts) auto
qed

text \<open>An element that leaves no reason for review was decided by three equal votes.\<close>

lemma consensus_element_clean:
  assumes "consensus_element tenant (Some t) runs e = Inr (cands, n, [], facts)"
  shows "\<exists>key. count_list (map fst (consensus_votes runs e)) key = 3 \<and> fst key \<in> {Present, Not_applicable}"
proof -
  let ?votes = "consensus_votes runs e"
  obtain key m where key: "most_common (map fst ?votes) = Some (key, m)"
    using assms by (cases "most_common (map fst ?votes)") (auto simp: consensus_element_def)
  note mc = most_common_Some [OF key]
  let ?winners = "map snd (filter (\<lambda>v. fst v = key) ?votes)"
  let ?refs = "py_unique (concat (map le_evidence_refs ?winners))"
  let ?c = "(hd ?winners)\<lparr>le_evidence_refs := ?refs\<rparr>"
  have m: "\<not> m < 2" using assms by (auto simp: consensus_element_def key)
  have "bindE (mk_element ?c) (\<lambda>c.
      case map_of (MAPPINGS t) e of
        None \<Rightarrow> Inr ([c], m, (if m \<noteq> 3 \<or> le_state c \<in> {Unknown, Conflict} then [py ''REVIEW:'' @ e] else []) @ [py ''ELEMENT_TRACK_MISMATCH:'' @ e], [])
      | Some names \<Rightarrow> bindE (element_facts tenant (vote_scope runs e) (le_state c) ?refs (le_normalized_value c) names)
          (\<lambda>facts. Inr ([c], m, if m \<noteq> 3 \<or> le_state c \<in> {Unknown, Conflict} then [py ''REVIEW:'' @ e] else [], facts))) = Inr (cands, n, [], facts)"
    using assms m unfolding consensus_element_def Let_def key by simp
  then obtain c names where c: "mk_element ?c = Inr c" "m = 3" "le_state c \<notin> {Unknown, Conflict}" "map_of (MAPPINGS t) e = Some names"
    and f: "element_facts tenant (vote_scope runs e) (le_state c) ?refs (le_normalized_value c) names = Inr facts"
    unfolding bindE_Inr_iff by (auto simp: bindE_Inr_iff split: option.splits if_splits)
  have "filter (\<lambda>v. fst v = key) ?votes \<noteq> []" using mc(1) by (auto simp: filter_empty_conv)
  then obtain w ws where w: "filter (\<lambda>v. fst v = key) ?votes = w # ws" by (cases "filter (\<lambda>v. fst v = key) ?votes") auto
  then have "w \<in> set ?votes" "fst w = key" using filter_eq_ConsD [OF w] by auto
  then have "le_state (snd w) = fst key"
    by (auto simp: consensus_votes_def run_votes_def vote_key_def split: option.splits)
  with w have "le_state ?c = fst key" by simp
  with c(1) have st: "le_state c = fst key" "fst key \<in> set ELEMENT_STATES" by (auto simp: mk_element_def split: if_splits)
  have "le_state c \<noteq> Absent" using element_facts_not_absent [OF f MAPPINGS_names [OF c(4)]] .
  with st c(3) have "fst key \<in> {Present, Not_applicable}" by (auto simp: ELEMENT_STATES_def)
  with mc(2) c(2) show ?thesis by (intro exI [of _ key]) simp
qed


section \<open>Automatic confirmation\<close>

text \<open>What the guards before the vote establish.\<close>

lemma form_consensusD:
  assumes "form_consensus P runs packet pack tenant rv gaps profile = Inr res"
  shows "\<exists>t allowed. frozen_track (packet_dict packet) pack = Inr (t, allowed) \<and> length runs = 3 \<and> tr_replicate_id ` set runs = {1, 2, 3}
    \<and> rp_tenant_id pack = tenant \<and> (\<forall>r \<in> set runs. check_identity tenant (packet_dict packet) (ep_packet_sha256 packet) (rp_sha256 pack) r = Inr ())
    \<and> (if profile \<in> set PARTIAL_FACTS_PROFILES
       then partial_facts P (packet_dict packet) (ep_packet_sha256 packet) pack tenant rv gaps t allowed (profile = py ''partial-facts-v2'')
              (profile \<in> {py ''grade-relevant-unanimity-v2'', py ''grade-relevant-unanimity-v3''})
              (profile = py ''grade-relevant-unanimity-v3'') (sort_key tr_replicate_id runs) = Inr res
       else profile = py ''strict-v1'' \<and>
         strict_consensus P (packet_dict packet) (ep_packet_sha256 packet) pack tenant rv gaps t allowed (sort_key tr_replicate_id runs) = Inr res)"
proof -
  obtain t allowed where f: "frozen_track (packet_dict packet) pack = Inr (t, allowed)"
    using assms by (auto simp: form_consensus_def Let_def result_simps)
  show ?thesis
    using assms unfolding form_consensus_def Let_def f
    by (intro exI [of _ t] exI [of _ allowed]) (simp add: f bindE_Inr_iff forE_Inr_iff split: if_splits)
qed

lemma strict_confirmed:
  assumes "strict_consensus P d sha pack tenant rv gaps t allowed runs = Inr res" "cons_review_status res = py ''auto_confirmed''"
  shows "strict_reasons d t gaps runs = []" "\<exists>h. headers runs = [h]"
    "\<And>e. e \<in> set allowed \<Longrightarrow> \<exists>t' cands n facts. consensus_element tenant (Some t') runs e = Inr (cands, n, [], facts)"
    "cons_confirmed_tags res \<noteq> None"
proof -
  let ?track = "if length (headers runs) = 1 then Some (fst (hd (headers runs))) else None"
  obtain rows hashes confirmed where rows: "mapE (consensus_element tenant ?track runs) allowed = Inr rows"
    and c: "(if strict_reasons d t gaps runs @ concat (map (\<lambda>(_, _, r, _). r) rows) = [] \<and> ?track \<noteq> None
        then bindE (tags_of tenant d sha pack rv (hd runs) (hd (headers runs)) (concat (map (\<lambda>(_, _, _, f). f) rows)) hashes) (\<lambda>tags. Inr (Some tags))
        else Inr None) = Inr confirmed"
    and res: "cons_review_status res = (if confirmed \<noteq> None then py ''auto_confirmed'' else py ''needs_review'')" "cons_confirmed_tags res = confirmed"
    using assms(1) unfolding strict_consensus_def Let_def bindE_Inr_iff by auto
  have conf: "confirmed \<noteq> None" using res(1) assms(2) by (auto split: if_splits)
  then have all: "strict_reasons d t gaps runs @ concat (map (\<lambda>(_, _, r, _). r) rows) = []" "?track \<noteq> None"
    using c by (auto split: if_splits)
  then show "strict_reasons d t gaps runs = []" by simp
  show "\<exists>h. headers runs = [h]" using all(2) by (auto simp: length_Suc_conv split: if_splits)
  show "cons_confirmed_tags res \<noteq> None" using conf res(2) by simp
  fix e assume "e \<in> set allowed"
  then obtain row where row: "row \<in> set rows" "consensus_element tenant ?track runs e = Inr row"
    using mapE_at [OF rows] by blast
  obtain cands n reasons facts where r: "row = (cands, n, reasons, facts)" by (cases row)
  have "reasons = []" using all(1) row(1) r by fastforce
  moreover obtain t' where "?track = Some t'" using all(2) by blast
  ultimately show "\<exists>t' cands n facts. consensus_element tenant (Some t') runs e = Inr (cands, n, [], facts)"
    using row(2) r by metis
qed

lemma strict_reasons_Nil:
  assumes "strict_reasons d t gaps runs = []"
  shows "gaps = []" "distinct (provider_ids runs)" "\<And>r. r \<in> set runs \<Longrightarrow> tr_status r = py ''succeeded'' \<and> tr_errors r = [] \<and> tr_guarded r \<noteq> None"
    "\<And>h. h \<in> set (headers runs) \<Longrightarrow> fst h = t \<and> opt_str (fst (snd h)) = jget d ''safe_harbor_category''"
  using assms by (auto simp: strict_reasons_def py_duplicates_iff list_ex_iff split: if_splits)

lemma partial_never: "partial_facts P d sha pack tenant rv gaps t allowed a b c runs = Inr res \<Longrightarrow> cons_review_status res = py ''needs_review''"
  by (auto simp: partial_facts_def Let_def result_simps split: if_splits)

text \<open>
  C5. Tags are confirmed automatically only by a unanimous clean vote. If the consensus is auto-confirmed and every replica tags an element at most once, then the
  strict profile was used, no rule gap was open, all three replicas succeeded without an error, they agree on the track, the safe harbor category and the
  superlative quote, with the track and category of the packet, and for every requested element each replica cast one vote and all three votes are equal in state, value
  and binding, the state being present or not applicable.
\<close>

theorem auto_confirmation_is_unanimous:
  assumes "form_consensus P runs packet pack tenant rv gaps profile = Inr res" "cons_review_status res = py ''auto_confirmed''"
    and "\<And>r g. r \<in> set runs \<Longrightarrow> tr_guarded r = Some g \<Longrightarrow> distinct (map le_element_id (lt_elements g))"
  shows "\<exists>t allowed h. frozen_track (packet_dict packet) pack = Inr (t, allowed) \<and> profile = py ''strict-v1'' \<and> gaps = []
    \<and> fst h = t \<and> opt_str (fst (snd h)) = jget (packet_dict packet) ''safe_harbor_category''
    \<and> (\<forall>r \<in> set runs. tr_status r = py ''succeeded'' \<and> tr_errors r = [] \<and> (\<exists>g. tr_guarded r = Some g \<and> header g = h))
    \<and> (\<forall>e \<in> set allowed. \<exists>key. fst key \<in> {Present, Not_applicable} \<and> (\<forall>r \<in> set runs. \<exists>x. run_votes e r = [(key, x)]))"
proof -
  let ?runs = "sort_key tr_replicate_id runs"
  obtain t allowed where f: "frozen_track (packet_dict packet) pack = Inr (t, allowed)" "length runs = 3"
    and b: "if profile \<in> set PARTIAL_FACTS_PROFILES
       then partial_facts P (packet_dict packet) (ep_packet_sha256 packet) pack tenant rv gaps t allowed (profile = py ''partial-facts-v2'')
              (profile \<in> {py ''grade-relevant-unanimity-v2'', py ''grade-relevant-unanimity-v3''})
              (profile = py ''grade-relevant-unanimity-v3'') ?runs = Inr res
       else profile = py ''strict-v1'' \<and>
         strict_consensus P (packet_dict packet) (ep_packet_sha256 packet) pack tenant rv gaps t allowed ?runs = Inr res"
    using form_consensusD [OF assms(1)] by blast
  have strict: "profile = py ''strict-v1''" "strict_consensus P (packet_dict packet) (ep_packet_sha256 packet) pack tenant rv gaps t allowed ?runs = Inr res"
    using b assms(2) partial_never by (auto split: if_splits)
  note sc = strict_confirmed [OF strict(2) assms(2)]
  note reasons = strict_reasons_Nil [OF sc(1)]
  obtain h where h: "headers ?runs = [h]" using sc(2) by blast
  have guarded: "\<exists>g. tr_guarded r = Some g \<and> header g = h" if "r \<in> set runs" for r
  proof -
    have "r \<in> set ?runs" using that by simp
    then obtain g where g: "tr_guarded r = Some g" using reasons(3) by blast
    then have "header g \<in> set (headers ?runs)" using that by (force simp: headers_def map_filter_def)
    with g h show ?thesis by simp
  qed
  have vote: "\<exists>key. fst key \<in> {Present, Not_applicable} \<and> (\<forall>r \<in> set runs. \<exists>x. run_votes e r = [(key, x)])" if "e \<in> set allowed" for e
  proof -
    from sc(3) [OF that] consensus_element_clean
    obtain key where key: "count_list (map fst (consensus_votes ?runs e)) key = 3" "fst key \<in> {Present, Not_applicable}"
      by blast
    have "\<exists>x. run_votes e r = [(key, x)]" if "r \<in> set runs" for r
      using that f(2) assms(3) by (intro unanimous_votes [of ?runs, OF _ _ key(1)] run_votes_le) auto
    with key(2) show ?thesis by blast
  qed
  show ?thesis
    using f(1) strict(1) reasons(1) reasons(3) reasons(4) [of h] h guarded vote
    by (intro exI [of _ t] exI [of _ allowed] exI [of _ h]) auto
qed


text \<open>
  A grade is published as a decision only behind a clean vote: when the consensus of a tag turns a decided decision of the rules engine into a
  decision and not a review candidate, the strict profile was used, tags were confirmed, no rule gap was open and all three replicas succeeded without an error.
\<close>

theorem published_grade_needs_clean_vote:
  assumes "form_consensus P runs packet pack tenant rv gaps profile = Inr res"
    and "reviewable_decision (Some d) profile (cons_review_status res) = (Some d', grade)" "d_decision_status d' = Decided"
  shows "profile = py ''strict-v1'' \<and> cons_confirmed_tags res \<noteq> None \<and> gaps = []
    \<and> (\<forall>r \<in> set runs. tr_status r = py ''succeeded'' \<and> tr_errors r = [] \<and> tr_guarded r \<noteq> None)"
proof -
  have auto: "profile \<notin> set PARTIAL_FACTS_PROFILES" "cons_review_status res = py ''auto_confirmed''"
    using assms(2,3) by (auto simp: reviewable_decision_def split: if_splits)
  then obtain t allowed where strict: "profile = py ''strict-v1''"
    "strict_consensus P (packet_dict packet) (ep_packet_sha256 packet) pack tenant rv gaps t allowed (sort_key tr_replicate_id runs) = Inr res"
    using form_consensusD [OF assms(1)] by auto
  note sc = strict_confirmed [OF strict(2) auto(2)]
  note reasons = strict_reasons_Nil [OF sc(1)]
  have "tr_status r = py ''succeeded'' \<and> tr_errors r = [] \<and> tr_guarded r \<noteq> None" if "r \<in> set runs" for r
    using reasons(3) [of r] that by simp
  with strict(1) sc(4) reasons(1) show ?thesis by blast
qed

section \<open>Order of the runs\<close>

lemma replicate_inj:
  assumes "length runs = 3" "tr_replicate_id ` set runs = {1, 2, 3}"
  shows "inj_on tr_replicate_id (set runs)"
proof (rule eq_card_imp_inj_on)
  have "card (set runs) \<le> 3" using card_length [of runs] assms(1) by simp
  moreover have "card (tr_replicate_id ` set runs) = 3" unfolding assms(2) by simp
  moreover have "card (tr_replicate_id ` set runs) \<le> card (set runs)" by (rule card_image_le) simp
  ultimately show "card (tr_replicate_id ` set runs) = card (set runs)" by linarith
qed simp

text \<open>
  The consensus does not depend on the order in which the replicas are handed in: any permutation of the runs gives the same result, error or value.
\<close>

theorem consensus_ignores_run_order:
  assumes "mset runs = mset runs'"
  shows "form_consensus P runs packet pack tenant rv gaps profile = form_consensus P runs' packet pack tenant rv gaps profile"
proof -
  have same: "length runs = length runs'" "set runs = set runs'"
    using assms mset_eq_length mset_eq_setD by blast+
  show ?thesis
  proof (cases "length runs = 3 \<and> tr_replicate_id ` set runs = {1, 2, 3}")
    case True
    then have order: "sort_key tr_replicate_id runs = sort_key tr_replicate_id runs'"
      using assms by (intro sort_key_inj_key_eq replicate_inj) auto
    show ?thesis unfolding form_consensus_def Let_def same order ..
  next
    case False
    then have "length runs \<noteq> 3 \<or> tr_replicate_id ` set runs \<noteq> {1, 2, 3}" "length runs' \<noteq> 3 \<or> tr_replicate_id ` set runs' \<noteq> {1, 2, 3}"
      unfolding same by blast+
    then show ?thesis unfolding form_consensus_def Let_def by (simp only: if_True)
  qed
qed

section \<open>Partial facts\<close>

definition agreed :: "tag_run list \<Rightarrow> pystr \<Rightarrow> bool" where
  "agreed runs e \<longleftrightarrow> (\<exists>key. fst (fst key) = Present \<and> snd (snd (fst key)) \<noteq> None
     \<and> (\<forall>r \<in> set runs. \<exists>x. first_vote e r = Some x \<and> partial_key r e x = key \<and> (\<forall>s \<in> set (le_evidence_refs x). sr_verification_state s = Verified)))"

lemma partial_state_cases: "partial_state b c runs e \<in> {Present, Unknown, Conflict}"
  by (auto simp: partial_state_def Let_def)

lemma py_unique_le_one: "\<not> 1 < length (py_unique xs) \<Longrightarrow> x \<in> set xs \<Longrightarrow> y \<in> set xs \<Longrightarrow> x = y"
proof -
  assume l: "\<not> 1 < length (py_unique xs)" and xy: "x \<in> set xs" "y \<in> set xs"
  have "length (py_unique xs) = card (set xs)"
    using distinct_card [OF distinct_py_unique] by (metis set_py_unique)
  with l have "card (set xs) \<le> 1" by simp
  with xy show "x = y" using card_le_Suc0_iff_eq [of "set xs"] by auto
qed

lemma partial_present:
  assumes "partial_state b c runs e = Present"
  shows "agreed runs e"
proof -
  let ?votes = "map (first_vote e) runs" and ?keys = "partial_keys runs e"
  have p: "\<not> 1 < length (py_unique (List.map_filter id ?keys))" "None \<notin> set ?keys" "le_state (hd (List.map_filter id ?votes)) = Present"
    "\<forall>k \<in> set (List.map_filter id ?keys). snd (snd (fst k)) \<noteq> None"
    "\<forall>x \<in> set (List.map_filter id ?votes). \<forall>s \<in> set (le_evidence_refs x). sr_verification_state s = Verified"
    using assms by (auto simp: partial_state_def Let_def list_all_iff split: if_splits)
  have vote: "\<exists>x. first_vote e r = Some x" if "r \<in> set runs" for r
    using p(2) that by (force simp: partial_keys_def)
  have in_known: "x \<in> set (List.map_filter id ?votes)" "partial_key r e x \<in> set (List.map_filter id ?keys)" if "r \<in> set runs" "first_vote e r = Some x" for r x
    using that by (force simp: map_filter_id_iff partial_keys_def)+
  show ?thesis
  proof (cases runs)
    case Nil
    then show ?thesis by (auto simp: agreed_def intro: exI [of _ "((Present, None, Some []), None)"])
  next
    case (Cons r rs)
    then obtain x where x: "first_vote e r = Some x" "r \<in> set runs" using vote [of r] by auto
    have "hd (List.map_filter id ?votes) = x" using Cons x by (simp add: map_filter_simps)
    with p(3) have st: "le_state x = Present" by simp
    let ?key = "partial_key r e x"
    have "\<exists>y. first_vote e q = Some y \<and> partial_key q e y = ?key \<and> (\<forall>s \<in> set (le_evidence_refs y). sr_verification_state s = Verified)" if "q \<in> set runs" for q
      using vote [OF that] in_known [OF that] in_known [OF x(2,1)] py_unique_le_one [OF p(1)] p(5) by metis
    moreover have "fst (fst ?key) = Present" using st by (simp add: partial_key_def)
    moreover have "snd (snd (fst ?key)) \<noteq> None" using p(4) in_known(2) [OF x(2,1)] by blast
    ultimately show ?thesis unfolding agreed_def by blast
  qed
qed

lemma partial_element_facts:
  assumes "partial_element tenant t b c runs e = Inr (el, n, reasons, facts)" "f \<in> set facts"
  shows "cf_state f = partial_state b c runs e" "\<exists>names. map_of (MAPPINGS t) e = Some names \<and> cf_name f \<in> set names"
proof -
  obtain names scope refs v where "map_of (MAPPINGS t) e = Some names" "element_facts tenant scope (partial_state b c runs e) refs v names = Inr facts"
    using assms(1) unfolding partial_element_def Let_def by (auto simp: bindE_Inr_iff split: option.splits)
  with element_facts_state(1,2) [OF _ assms(2)] show "cf_state f = partial_state b c runs e"
    "\<exists>names. map_of (MAPPINGS t) e = Some names \<and> cf_name f \<in> set names" by blast+
qed

lemma partial_tags:
  assumes "partial_facts P d sha pack tenant rv gaps t allowed a b c runs = Inr res" "cons_confirmed_tags res = Some tags"
  shows "\<exists>rows hashes more required. mapE (partial_element tenant (fst (hd (headers runs))) b c runs) allowed = Inr rows
    \<and> mapE (\<lambda>n. mk_confirmed_fact (plain_fact n Unknown)) required = Inr more
    \<and> tags_of tenant d sha pack rv (hd runs) (hd (headers runs)) (concat (map (\<lambda>(_, _, _, f). f) rows) @ more) hashes = Inr tags"
proof -
  have safe: "\<not> partial_unsafe a d t runs"
    using assms by (auto simp: partial_facts_def Let_def bindE_Inr_iff)
  obtain hashes rows required more where rows: "mapE (partial_element tenant (fst (hd (headers runs))) b c runs) allowed = Inr rows"
    and more: "mapE (\<lambda>n. mk_confirmed_fact (plain_fact n Unknown))
      (filter (\<lambda>n. n \<notin> cf_name ` set (concat (map (\<lambda>(_, _, _, f). f) rows))) (py_sorted_set required)) = Inr more"
    and last: "(if list_all (\<lambda>e. le_state e = Present) (map fst rows)
       then Inr \<lparr>cons_candidate_elements = map fst rows, cons_agreement = zip allowed (map (\<lambda>(_, n, _, _). n) rows), cons_review_status = py ''needs_review'',
         cons_confirmed_tags = None, cons_reasons = [py ''PARTIAL_FACTS_REVIEW_REQUIRED''], cons_replicate_hashes = hashes\<rparr>
       else bindE (tags_of tenant d sha pack rv (hd runs) (hd (headers runs)) (concat (map (\<lambda>(_, _, _, f). f) rows) @ more) hashes) (\<lambda>tags.
         Inr \<lparr>cons_candidate_elements = map fst rows, cons_agreement = zip allowed (map (\<lambda>(_, n, _, _). n) rows), cons_review_status = py ''needs_review'',
           cons_confirmed_tags = Some tags, cons_reasons = py_sorted_set (gaps @ concat (map (\<lambda>(_, _, r, _). r) rows)), cons_replicate_hashes = hashes\<rparr>)) = Inr res"
    using assms(1) unfolding partial_facts_def Let_def bindE_Inr_iff by (simp only: safe if_False bindE_Inr_iff) blast
  have "tags_of tenant d sha pack rv (hd runs) (hd (headers runs)) (concat (map (\<lambda>(_, _, _, f). f) rows) @ more) hashes = Inr tags"
    using last assms(2) by (cases "list_all (\<lambda>e. le_state e = Present) (map fst rows)") (auto simp: bindE_Inr_iff simp del: set_concat)
  with rows more show ?thesis by blast
qed

text \<open>
  A partial profile never confirms. Its result is always up for review, and in the tags it publishes no fact is absent or not applicable: every fact is present,
  unknown or in conflict, and a present fact stands for a requested element on which all three replicas cast the same source-bound vote with verified citations.
\<close>

theorem partial_facts_are_reviewed:
  assumes "form_consensus P runs packet pack tenant rv gaps profile = Inr res" "profile \<noteq> py ''strict-v1''"
  shows "cons_review_status res = py ''needs_review''
    \<and> (\<forall>tags. cons_confirmed_tags res = Some tags \<longrightarrow> (\<forall>f \<in> set (ct_facts tags). cf_state f \<in> {Present, Unknown, Conflict}
        \<and> (cf_state f = Present \<longrightarrow> (\<exists>e names. map_of (MAPPINGS (ct_track tags)) e = Some names \<and> cf_name f \<in> set names \<and> agreed runs e))))"
proof -
  let ?runs = "sort_key tr_replicate_id runs"
  obtain t allowed a b c where pf: "partial_facts P (packet_dict packet) (ep_packet_sha256 packet) pack tenant rv gaps t allowed a b c ?runs = Inr res"
    using form_consensusD [OF assms(1)] assms(2) by (metis (no_types, lifting))
  have "cf_state f \<in> {Present, Unknown, Conflict}
        \<and> (cf_state f = Present \<longrightarrow> (\<exists>e names. map_of (MAPPINGS (ct_track tags)) e = Some names \<and> cf_name f \<in> set names \<and> agreed runs e))"
    if tags: "cons_confirmed_tags res = Some tags" and f: "f \<in> set (ct_facts tags)" for tags f
  proof -
    obtain rows hashes more required where rows: "mapE (partial_element tenant (fst (hd (headers ?runs))) b c ?runs) allowed = Inr rows"
      and more: "mapE (\<lambda>n. mk_confirmed_fact (plain_fact n Unknown)) required = Inr more"
      and tg: "tags_of tenant (packet_dict packet) (ep_packet_sha256 packet) pack rv (hd ?runs) (hd (headers ?runs))
        (concat (map (\<lambda>(_, _, _, f). f) rows) @ more) hashes = Inr tags"
      using partial_tags [OF pf tags] by blast
    have tr: "ct_track tags = fst (hd (headers ?runs))" "f \<in> set (concat (map (\<lambda>(_, _, _, f). f) rows) @ more)"
      using tg f by (auto simp: tags_of_def result_simps mk_confirmed_tags_def split: if_splits)
    from tr(2) consider el n reasons facts where "(el, n, reasons, facts) \<in> set rows" "f \<in> set facts" | "f \<in> set more" by force
    then show ?thesis
    proof cases
      case 1
      then obtain e where "partial_element tenant (ct_track tags) b c ?runs e = Inr (el, n, reasons, facts)"
        using mapE_in_result [OF rows 1(1)] tr(1) by metis
      note pe = partial_element_facts [OF this 1(2)]
      have "agreed runs e" if "cf_state f = Present"
        using partial_present [of b c ?runs e] pe(1) that by (simp add: agreed_def)
      with pe partial_state_cases [of b c ?runs e] show ?thesis by metis
    next
      case 2
      then obtain n where "mk_confirmed_fact (plain_fact n Unknown) = Inr f" using mapE_in_result [OF more] by blast
      then show ?thesis by (auto simp: mk_confirmed_fact_def plain_fact_def split: if_splits)
    qed
  qed
  with partial_never [OF pf] show ?thesis by blast
qed


section \<open>A vote\<close>

definition vote_ids :: "pystr list" where
  "vote_ids = [py ''M1'', py ''M2'', py ''M3'', py ''M4'', py ''M5'', py ''M6'']"

definition vote_pack :: rule_pack where
  "vote_pack = \<lparr>rp_rule_pack_id = uuid_of 5, rp_tenant_id = uuid_of 1, rp_version = py ''v'', rp_effective_date = py ''d'', rp_mode = py ''disclosure'',
     rp_status = py ''active'', rp_ontology_version = py ''o'', rp_source_document_sha256 = hex64, rp_sha256 = hex64, rp_files = [], rp_unresolved_gap_ids = [],
     rp_approved_by = None, rp_approved_at = None,
     rp_content = [(py ''rubric/elements.yaml'', JObj [(py ''elements'', JList (map (\<lambda>i. JObj [(py ''id'', JStr i)]) vote_ids))]),
       (py ''rubric/management.yaml'', JObj [(py ''branches'', JList [])])]\<rparr>"

definition vote_packet :: evidence_packet where
  "vote_packet = \<lparr>ep_payload = [(py ''retrieval_packet_sha256'', JStr hex64), (py ''track'', JStr (py ''management'')),
     (py ''allowed_elements'', JList (map JStr vote_ids)), (py ''tenant_id'', JStr (uuid_of 1)), (py ''claim_id'', JStr (uuid_of 2)),
     (py ''run_id'', JStr (uuid_of 3)), (py ''graph_sha256'', JStr hex64), (py ''document_version_id'', JStr (uuid_of 4))], ep_packet_sha256 = hex64\<rparr>"

definition vote_element :: "element_state \<Rightarrow> pystr \<Rightarrow> llm_element" where
  "vote_element st i = \<lparr>le_element_id = i, le_state = st, le_evidence_refs = [], le_normalized_value = None, le_credited_from = None, le_reason_code = None\<rparr>"

definition vote_run :: "element_state \<Rightarrow> nat \<Rightarrow> tag_run" where
  "vote_run st i = \<lparr>tr_request = \<lparr>cr_namespace = sample_namespace (py ''t''), cr_request_id = uuid_of i, cr_request_signature = replicate 64 (48 + i),
       cr_replicate_id = int i, cr_extraction_epoch = 1\<rparr>,
     tr_tenant_id = uuid_of 1, tr_run_id = uuid_of 3, tr_claim_id = uuid_of 2, tr_packet_sha256 = hex64, tr_graph_sha256 = hex64, tr_rule_sha256 = hex64,
     tr_model_sha256 = hex64, tr_prompt_sha256 = hex64, tr_raw_response_json = None, tr_usage = None,
     tr_guarded = Some \<lparr>lt_claim_id = uuid_of 2, lt_packet_sha256 = hex64, lt_replicate_id = int i, lt_track = Management, lt_safe_harbor_category = None,
       lt_elements = map (vote_element st) vote_ids, lt_superlative_quote = None, lt_warnings = []\<rparr>,
     tr_status = py ''succeeded'', tr_errors = [], tr_source_scopes = [], tr_binding_hashes = [], tr_synthetic = True, tr_product_variant = False,
     tr_recovered = False, tr_provider_response_json = None, tr_diagnostic_detail = None\<rparr>"

lemma vote_track: "frozen_track (packet_dict vote_packet) vote_pack = Inr (Management, vote_ids)"
  by code_simp


definition vote_runs :: "element_state \<Rightarrow> tag_run list" where
  "vote_runs st = map (vote_run st) [1, 2, 3]"

lemma vote_sorted: "sort_key tr_replicate_id (vote_runs st) = vote_runs st"
  by (simp add: vote_runs_def vote_run_def tr_replicate_id_def)

lemma vote_headers: "headers (vote_runs st) = [(Management, None, None)]"
  by (simp add: vote_runs_def headers_def map_filter_def vote_run_def header_def py_unique_def)

lemma vote_identity: "forE (check_identity (uuid_of 1) (packet_dict vote_packet) hex64 hex64) (vote_runs st) = Inr ()"
  by (simp add: vote_runs_def check_identity_def vote_packet_def packet_dict_def jitem_def vote_run_def tr_replicate_id_def)

lemma vote_reasons: "strict_reasons (packet_dict vote_packet) Management [] (vote_runs st) = []"
  unfolding strict_reasons_def vote_headers
  by (simp add: vote_runs_def provider_ids_def map_filter_def py_duplicates_def vote_packet_def packet_dict_def jget_def vote_run_def opt_str_def)

lemma vote_rows: "mapE (consensus_element (uuid_of 1) (Some Management) (vote_runs Not_applicable)) vote_ids
  = Inr (map (\<lambda>i. ([vote_element Not_applicable i], 3, [], map (\<lambda>n. plain_fact n Not_applicable) (the (map_of management_ELEMENTS i)))) vote_ids)"
  by code_simp

lemma vote_hash: "semantic_hash hex_platform (vote_run st i) = Inr hex64"
  by (simp add: semantic_hash_def canonical_hash_def canonical_json_def hex_platform_def semantic_dict_def vote_run_def cache_request_asdict_def pairs_json_def
      str_list_def opt_str_def llm_tags_asdict_def llm_element_asdict_def vote_element_def vote_ids_def)

lemma vote_hashes: "mapE (semantic_hash hex_platform) (vote_runs st) = Inr [hex64, hex64, hex64]"
  by (simp add: vote_runs_def vote_hash)

lemma vote_tags:
  assumes "distinct (map cf_name facts)"
  shows "\<exists>tags. tags_of (uuid_of 1) (packet_dict vote_packet) hex64 vote_pack 1 (hd (vote_runs st)) (Management, None, None) facts [hex64, hex64, hex64] = Inr tags"
proof -
  have "jitem (packet_dict vote_packet) ''document_version_id'' = Inr (JStr (uuid_of 4))" "jitem (packet_dict vote_packet) ''claim_id'' = Inr (JStr (uuid_of 2))"
    by (simp_all add: vote_packet_def packet_dict_def jitem_def)
  then show ?thesis using assms
    by (simp add: tags_of_def require_uuid_def sample_uuids mk_confirmed_tags_def py_duplicates_iff vote_runs_def vote_run_def del: One_nat_def)
qed

lemma tags_of_facts: "tags_of tenant d sha pack rv first h facts hashes = Inr tags \<Longrightarrow> set (ct_facts tags) = set facts"
  by (auto simp: tags_of_def result_simps mk_confirmed_tags_def split: if_splits)

lemma vote_setup:
  "length (vote_runs st) = 3" "tr_replicate_id ` set (vote_runs st) = {1, 2, 3}" "jitem (packet_dict vote_packet) ''tenant_id'' = Inr (JStr (uuid_of 1))"
  "ep_packet_sha256 vote_packet = hex64" "rp_tenant_id vote_pack = uuid_of 1" "rp_sha256 vote_pack = hex64"
  "\<not> py_duplicates (map (\<lambda>r. cr_request_id (tr_request r)) (vote_runs st))" "\<not> py_duplicates (map (\<lambda>r. cr_request_signature (tr_request r)) (vote_runs st))"
  "length (py_unique (map run_setup (vote_runs st))) = 1"
  by (simp_all add: vote_runs_def vote_run_def tr_replicate_id_def vote_packet_def packet_dict_def jitem_def vote_pack_def py_duplicates_iff uuid_of_def
      py_unique_def run_setup_def insert_commute)

lemma vote_form:
  "form_consensus hex_platform (vote_runs st) vote_packet vote_pack (uuid_of 1) 1 [] (py ''strict-v1'')
     = strict_consensus hex_platform (packet_dict vote_packet) hex64 vote_pack (uuid_of 1) 1 [] Management vote_ids (vote_runs st)"
  unfolding form_consensus_def Let_def vote_track vote_sorted vote_setup vote_identity bindE.simps prod.case
  by (simp add: PARTIAL_FACTS_PROFILES_def vote_setup del: One_nat_def)

lemma vote_confirmed:
  "\<exists>res. form_consensus hex_platform (vote_runs Not_applicable) vote_packet vote_pack (uuid_of 1) 1 [] (py ''strict-v1'') = Inr res
     \<and> cons_review_status res = py ''auto_confirmed''"
proof -
  let ?facts = "concat (map (\<lambda>i. map (\<lambda>n. plain_fact n Not_applicable) (the (map_of management_ELEMENTS i))) vote_ids)"
  have "distinct (map cf_name ?facts)" by code_simp
  then obtain tags where "tags_of (uuid_of 1) (packet_dict vote_packet) hex64 vote_pack 1 (hd (vote_runs Not_applicable)) (Management, None, None) ?facts [hex64, hex64, hex64] = Inr tags"
    using vote_tags by blast
  then show ?thesis
    unfolding vote_form strict_consensus_def Let_def vote_headers
    by (simp add: vote_rows vote_hashes vote_reasons o_def case_prod_beta del: One_nat_def)
qed

lemma vote_partial_form:
  "form_consensus hex_platform (vote_runs st) vote_packet vote_pack (uuid_of 1) 1 [] (py ''partial-facts-v1'')
     = partial_facts hex_platform (packet_dict vote_packet) hex64 vote_pack (uuid_of 1) 1 [] Management vote_ids False False False (vote_runs st)"
  unfolding form_consensus_def Let_def vote_track vote_sorted vote_setup vote_identity bindE.simps prod.case
  by (simp add: PARTIAL_FACTS_PROFILES_def vote_setup del: One_nat_def)

lemma vote_partial_rows: "mapE (partial_element (uuid_of 1) Management False False (vote_runs Unknown)) vote_ids
  = Inr (map (\<lambda>i. (vote_element Unknown i, 3, [py ''REVIEW:'' @ i], map (\<lambda>n. plain_fact n Unknown) (the (map_of management_ELEMENTS i)))) vote_ids)"
  by code_simp

lemma vote_required: "required_names vote_pack Management = Inr []"
  by code_simp

lemma vote_safe: "\<not> partial_unsafe False (packet_dict vote_packet) Management (vote_runs st)"
  unfolding partial_unsafe_def vote_headers
  by (simp add: vote_runs_def provider_ids_def map_filter_def py_duplicates_def vote_packet_def packet_dict_def jget_def vote_run_def opt_str_def)

lemma vote_partial:
  "\<exists>res tags. form_consensus hex_platform (vote_runs Unknown) vote_packet vote_pack (uuid_of 1) 1 [] (py ''partial-facts-v1'') = Inr res
     \<and> cons_confirmed_tags res = Some tags \<and> ct_facts tags \<noteq> []"
proof -
  let ?facts = "concat (map (\<lambda>i. map (\<lambda>n. plain_fact n Unknown) (the (map_of management_ELEMENTS i))) vote_ids)"
  have d: "distinct (map cf_name ?facts)" "?facts \<noteq> []" by code_simp+
  then obtain tags where t: "tags_of (uuid_of 1) (packet_dict vote_packet) hex64 vote_pack 1 (hd (vote_runs Unknown)) (Management, None, None) ?facts [hex64, hex64, hex64] = Inr tags"
    using vote_tags by blast
  then have "set (ct_facts tags) = set ?facts" using tags_of_facts by blast
  with d(2) have "ct_facts tags \<noteq> []" by (metis set_empty)
  moreover have "\<not> list_all (\<lambda>e. le_state e = Present) (map (vote_element Unknown) vote_ids)" by (simp add: vote_ids_def vote_element_def)
  ultimately show ?thesis
    using t unfolding vote_partial_form partial_facts_def Let_def vote_headers
    by (simp add: vote_hashes vote_safe vote_partial_rows vote_required o_def case_prod_beta py_sorted_set_def del: One_nat_def)
qed


lemma vote_distinct: "r \<in> set (vote_runs st) \<Longrightarrow> tr_guarded r = Some g \<Longrightarrow> distinct (map le_element_id (lt_elements g))"
  by (auto simp: vote_runs_def vote_run_def vote_ids_def vote_element_def)

theorem auto_confirmation_is_unanimous_witness:
  "\<exists>P runs packet pack tenant res. form_consensus P runs packet pack tenant 1 [] (py ''strict-v1'') = Inr res
     \<and> cons_review_status res = py ''auto_confirmed'' \<and> length runs = 3
     \<and> (\<exists>t allowed. frozen_track (packet_dict packet) pack = Inr (t, allowed) \<and> t = Management)"
proof -
  obtain res where res: "form_consensus hex_platform (vote_runs Not_applicable) vote_packet vote_pack (uuid_of 1) 1 [] (py ''strict-v1'') = Inr res"
    "cons_review_status res = py ''auto_confirmed''" using vote_confirmed by blast
  note c = auto_confirmation_is_unanimous [OF res vote_distinct]
  show ?thesis using res c vote_setup(1) vote_track by fastforce
qed

theorem published_grade_needs_clean_vote_witness:
  "\<exists>P runs packet pack tenant res d. form_consensus P runs packet pack tenant 1 [] (py ''strict-v1'') = Inr res
     \<and> reviewable_decision (Some d) (py ''strict-v1'') (cons_review_status res) = (Some d, None) \<and> d_decision_status d = Decided
     \<and> cons_confirmed_tags res \<noteq> None"
proof -
  obtain res where res: "form_consensus hex_platform (vote_runs Not_applicable) vote_packet vote_pack (uuid_of 1) 1 [] (py ''strict-v1'') = Inr res"
    "cons_review_status res = py ''auto_confirmed''" using vote_confirmed by blast
  let ?d = "\<lparr>d_decision_revision = 1, d_tag_revision = 1, d_decision_status = Decided, d_evidence_grade = Some (py ''E2''), d_label = Some (py ''INCOMPLETE''),
    d_sublabel = None, d_review_status = py ''pending'', d_missing_elements = [], d_rule_ids = [], d_rule_pack_sha256 = hex64, d_semantic_hash = hex64,
    d_gap_ids = [], d_unresolved_elements = [], d_excluded_elements = [], d_ladder_candidate = None, d_basis_refs = [], d_input_tags_sha256 = hex64,
    d_local_synthetic = True, d_grade_floor = None, d_grade_ceiling = None, d_grade_open_elements = []\<rparr>"
  have d: "d_decision_status ?d = Decided" by simp
  have r: "reviewable_decision (Some ?d) (py ''strict-v1'') (cons_review_status res) = (Some ?d, None)"
    using res(2) by (simp add: reviewable_decision_def PARTIAL_FACTS_PROFILES_def)
  show ?thesis using published_grade_needs_clean_vote [OF res(1) r d] res(1) r d by blast
qed

theorem consensus_ignores_run_order_witness:
  "\<exists>runs runs'. runs \<noteq> runs' \<and> mset runs = mset runs'
     \<and> form_consensus hex_platform runs vote_packet vote_pack (uuid_of 1) 1 [] (py ''strict-v1'')
       = form_consensus hex_platform runs' vote_packet vote_pack (uuid_of 1) 1 [] (py ''strict-v1'')"
proof -
  have m: "mset (map (vote_run Unknown) [2, 1, 3]) = mset (vote_runs Unknown)" by (simp add: vote_runs_def)
  have "map (vote_run Unknown) [2, 1, 3] \<noteq> vote_runs Unknown" by (simp add: vote_runs_def vote_run_def)
  with m consensus_ignores_run_order [OF m] show ?thesis by blast
qed

theorem partial_facts_are_reviewed_witness:
  "\<exists>P runs packet pack tenant res tags. form_consensus P runs packet pack tenant 1 [] (py ''partial-facts-v1'') = Inr res
     \<and> cons_review_status res = py ''needs_review'' \<and> cons_confirmed_tags res = Some tags \<and> ct_facts tags \<noteq> []
     \<and> list_all (\<lambda>f. cf_state f \<in> {Present, Unknown, Conflict}) (ct_facts tags)"
proof -
  obtain res tags where res: "form_consensus hex_platform (vote_runs Unknown) vote_packet vote_pack (uuid_of 1) 1 [] (py ''partial-facts-v1'') = Inr res"
    "cons_confirmed_tags res = Some tags" "ct_facts tags \<noteq> []" using vote_partial by blast
  have ne: "py ''partial-facts-v1'' \<noteq> py ''strict-v1''" by simp
  from partial_facts_are_reviewed [OF res(1) ne] res have "cons_review_status res = py ''needs_review''"
    "list_all (\<lambda>f. cf_state f \<in> {Present, Unknown, Conflict}) (ct_facts tags)" unfolding list_all_iff by blast+
  with res show ?thesis by blast
qed

end
