(* ===== verification/Sentences.thy ===== *)
theory Sentences
  imports Py_Base
begin

text \<open>
  Model of \<^verbatim>\<open>domain/sentences.py\<close>: the sentence boundaries over normalized source text.

  \<open>scan_boundary\<close> is the part of the pattern \<^verbatim>\<open>.+?(?:[.!?](?=\s|$)|\n+|$)\<close> after the first character: the lazy dot takes as few characters as
  possible until one of the alternatives matches, and from every position before the end of the text a match exists, so \<^verbatim>\<open>finditer\<close> cuts
  the text into consecutive pieces. \<open>find_matches\<close> is that loop; it ends because a piece has at least one character.
\<close>

fun scan_boundary :: "pystr \<Rightarrow> nat" where
  "scan_boundary [] = 0"
| "scan_boundary (x # xs) =
     (if x \<in> {46, 33, 63} \<and> (xs = [] \<or> py_isspace (hd xs)) then 1
      else if x = 10 then 1 + length (takeWhile (\<lambda>c. c = 10) xs)
      else 1 + scan_boundary xs)"

definition match_length :: "pystr \<Rightarrow> nat" where
  "match_length s = 1 + scan_boundary (tl s)"

lemma scan_boundary_le: "scan_boundary s \<le> length s"
  by (induction s rule: scan_boundary.induct) (auto simp: length_takeWhile_le)

lemma match_length_le: "s \<noteq> [] \<Longrightarrow> match_length s \<le> length s"
  using scan_boundary_le [of "tl s"] by (cases s) (auto simp: match_length_def)

text \<open>The pieces \<^verbatim>\<open>finditer\<close> yields, with the offset each starts at.\<close>

function find_matches :: "nat \<Rightarrow> pystr \<Rightarrow> (nat \<times> pystr) list" where
  "find_matches p s = (if s = [] then []
     else (p, take (match_length s) s) # find_matches (p + match_length s) (drop (match_length s) s))"
  by auto
termination
  by (relation "measure (\<lambda>(p, s). length s)") (auto simp: match_length_def)

declare find_matches.simps [simp del]

definition trim_span :: "nat \<times> pystr \<Rightarrow> nat \<times> nat" where
  "trim_span m = (let (start, s) = m; end_pos = start + length s in
     (start + length s - length (py_lstrip s), end_pos - length s + length (py_rstrip s)))"

definition sentence_spans :: "pystr \<Rightarrow> (nat \<times> nat) list" where
  "sentence_spans s = map trim_span (filter (\<lambda>m. py_strip (snd m) \<noteq> []) (find_matches 0 s))"

section \<open>Pieces\<close>

lemma find_matches_concat: "concat (map snd (find_matches p s)) = s"
proof (induction p s rule: find_matches.induct)
  case (1 p s)
  then show ?case by (subst find_matches.simps) simp
qed

text \<open>Each piece sits at its offset in the text.\<close>

lemma find_matches_at:
  assumes "(q, m) \<in> set (find_matches p s)"
  shows "p \<le> q \<and> m \<noteq> [] \<and> q - p + length m \<le> length s \<and> take (length m) (drop (q - p) s) = m"
  using assms
proof (induction p s rule: find_matches.induct)
  case (1 p s)
  show ?case
  proof (cases "s = []")
    case True
    with 1(2) show ?thesis by (simp add: find_matches.simps)
  next
    case False
    let ?n = "match_length s"
    have n: "1 \<le> ?n" "?n \<le> length s" using match_length_le [OF False] by (simp_all add: match_length_def)
    from 1(2) False consider "q = p" "m = take ?n s" | "(q, m) \<in> set (find_matches (p + ?n) (drop ?n s))"
      by (subst (asm) find_matches.simps) auto
    then show ?thesis
    proof cases
      case 1
      with n False show ?thesis by (auto simp: min_absorb2)
    next
      case 2
      with "1.IH" [OF False] have ih: "p + ?n \<le> q" "m \<noteq> []" "q - (p + ?n) + length m \<le> length s - ?n"
        "take (length m) (drop (q - (p + ?n)) (drop ?n s)) = m" by auto
      have q: "q - p = ?n + (q - (p + ?n))" using ih(1) by simp
      have "p \<le> q" "q - p + length m \<le> length s" using ih(1,3) n(2) q by linarith+
      moreover have "take (length m) (drop (q - p) s) = m" using ih(4) unfolding q drop_drop by (simp add: add.commute)
      ultimately show ?thesis using ih(2) by blast
    qed
  qed
qed

lemma find_matches_sorted: "sorted_wrt (\<lambda>a b. fst a + length (snd a) \<le> fst b) (find_matches p s)"
proof (induction p s rule: find_matches.induct)
  case (1 p s)
  show ?case
  proof (cases "s = []")
    case False
    let ?n = "match_length s"
    have "p + length (take ?n s) \<le> q" if "(q, m) \<in> set (find_matches (p + ?n) (drop ?n s))" for q m
    proof -
      have "length (take ?n s) \<le> ?n" by simp
      moreover have "p + ?n \<le> q" using find_matches_at [OF that] by blast
      ultimately show ?thesis by linarith
    qed
    then show ?thesis using 1 [OF False] False by (subst find_matches.simps) auto
  qed (simp add: find_matches.simps)
qed

section \<open>Spans\<close>

lemma takeWhile_before: "i < length s \<Longrightarrow> \<not> p (s ! i) \<Longrightarrow> length (takeWhile p s) \<le> i"
  by (metis not_le nth_mem set_takeWhileD takeWhile_nth)

lemma lstrip_length: "length s - length (py_lstrip s) = length (takeWhile py_isspace s)"
  by (metis add_diff_cancel_right' length_append py_lstrip_def takeWhile_dropWhile_id)

lemma rstrip_length: "length (py_rstrip s) = length s - length (takeWhile py_isspace (rev s))"
  using lstrip_length [of "rev s"] length_dropWhile_le [of py_isspace "rev s"]
  by (simp add: py_rstrip_def py_lstrip_def)

lemma not_space_kept:
  assumes "i < length s" "\<not> py_isspace (s ! i)"
  shows "length (takeWhile py_isspace s) \<le> i" "i < length (py_rstrip s)"
proof -
  show "length (takeWhile py_isspace s) \<le> i" using assms by (rule takeWhile_before)
  have "length (takeWhile py_isspace (rev s)) \<le> length s - Suc i"
    using assms by (intro takeWhile_before) (auto simp: rev_nth)
  with assms(1) show "i < length (py_rstrip s)" unfolding rstrip_length by linarith
qed

lemma strip_ends:
  assumes "py_strip s \<noteq> []"
  shows "length (takeWhile py_isspace s) < length (py_rstrip s)" "length (py_rstrip s) \<le> length s"
    "\<not> py_isspace (s ! length (takeWhile py_isspace s))" "\<not> py_isspace (s ! (length (py_rstrip s) - 1))"
proof -
  obtain c where c: "c \<in> set s" "\<not> py_isspace c"
    using assms by (auto simp: py_strip_Nil_iff)
  have l: "length (takeWhile py_isspace s) < length s" and r: "length (takeWhile py_isspace (rev s)) < length s"
    using c takeWhile_before [of _ s py_isspace] takeWhile_before [of _ "rev s" py_isspace]
    by (metis in_set_conv_nth le_less_trans, metis in_set_conv_nth le_less_trans length_rev set_rev)
  show n: "\<not> py_isspace (s ! length (takeWhile py_isspace s))" using l by (rule nth_length_takeWhile)
  show "length (takeWhile py_isspace s) < length (py_rstrip s)" using not_space_kept(2) [OF l n] .
  show "length (py_rstrip s) \<le> length s" by (simp add: rstrip_length)
  have "\<not> py_isspace (rev s ! length (takeWhile py_isspace (rev s)))" using r by (intro nth_length_takeWhile) simp
  with r show "\<not> py_isspace (s ! (length (py_rstrip s) - 1))" by (simp add: rev_nth rstrip_length)
qed

lemma trim_span_eq: "trim_span (q, m) = (q + length (takeWhile py_isspace m), q + length (py_rstrip m))"
  using lstrip_length [of m] length_dropWhile_le [of py_isspace m] by (simp add: trim_span_def py_lstrip_def)

lemma find_matches_nth:
  assumes "(q, m) \<in> set (find_matches 0 s)" "i < length m"
  shows "s ! (q + i) = m ! i" "q + i < length s"
proof -
  have m: "take (length m) (drop q s) = m" "q + length m \<le> length s"
    using find_matches_at [OF assms(1)] by simp_all
  then show "q + i < length s" using assms(2) by simp
  have "take (length m) (drop q s) ! i = s ! (q + i)" using m(2) assms(2) by simp
  then show "s ! (q + i) = m ! i" unfolding m(1) by simp
qed

lemma find_matches_cover: "k < length s \<Longrightarrow> \<exists>(q, m) \<in> set (find_matches p s). q \<le> p + k \<and> p + k < q + length m"
proof (induction p s arbitrary: k rule: find_matches.induct)
  case (1 p s)
  let ?n = "match_length s"
  have ne: "s \<noteq> []" using 1(2) by auto
  have fm: "find_matches p s = (p, take ?n s) # find_matches (p + ?n) (drop ?n s)"
    using ne by (subst find_matches.simps) simp
  show ?case
  proof (cases "k < ?n")
    case True
    with 1(2) show ?thesis unfolding fm by simp
  next
    case False
    with 1(2) obtain q m where "(q, m) \<in> set (find_matches (p + ?n) (drop ?n s))" "q \<le> p + ?n + (k - ?n)" "p + ?n + (k - ?n) < q + length m"
      using "1.IH" [OF ne, of "k - ?n"] by fastforce
    with False show ?thesis unfolding fm by (intro bexI [of _ "(q, m)"]) auto
  qed
qed

text \<open>Line breaks stand only at the ends of a piece.\<close>

lemma scan_breaks: "\<exists>body k. take (scan_boundary s) s = body @ replicate k 10 \<and> 10 \<notin> set body"
proof (induction s rule: scan_boundary.induct)
  case (2 x xs)
  show ?case
  proof (cases "x \<in> {46, 33, 63} \<and> (xs = [] \<or> py_isspace (hd xs))")
    case True
    then show ?thesis by (intro exI [of _ "[x]"] exI [of _ 0]) auto
  next
    case no: False
    show ?thesis
    proof (cases "x = 10")
      case True
      have "take (length (takeWhile (\<lambda>c. c = 10) xs)) xs = replicate (length (takeWhile (\<lambda>c. c = 10) xs)) 10"
        unfolding takeWhile_eq_take [symmetric] by (rule replicate_length_same [symmetric]) (auto dest: set_takeWhileD)
      with True show ?thesis by (intro exI [of _ "[]"] exI [of _ "Suc (length (takeWhile (\<lambda>c. c = 10) xs))"]) simp
    next
      case False
      with 2 no obtain body k where "take (scan_boundary xs) xs = body @ replicate k 10" "10 \<notin> set body" by blast
      with False no show ?thesis by (intro exI [of _ "x # body"] exI [of _ k]) auto
    qed
  qed
qed (intro exI [of _ "[]"] exI [of _ 0], simp)

lemma piece_shape: "(q, m) \<in> set (find_matches p s) \<Longrightarrow> \<exists>c body k. m = c # body @ replicate k 10 \<and> 10 \<notin> set body"
proof (induction p s rule: find_matches.induct)
  case (1 p s)
  have ne: "s \<noteq> []" using 1(2) by (auto simp: find_matches.simps)
  then have "m = take (match_length s) s \<or> (q, m) \<in> set (find_matches (p + match_length s) (drop (match_length s) s))"
    using 1(2) by (subst (asm) find_matches.simps) auto
  moreover have "\<exists>c body k. take (match_length s) s = c # body @ replicate k 10 \<and> 10 \<notin> set body"
    using ne scan_breaks [of "tl s"] by (cases s) (auto simp: match_length_def)
  ultimately show ?case using "1.IH" [OF ne] by metis
qed

lemma trimmed_no_break:
  assumes "m = c # body @ replicate k 10" "10 \<notin> set body" "length (takeWhile py_isspace m) \<le> i" "i < length (py_rstrip m)"
  shows "m ! i \<noteq> 10"
proof
  assume i: "m ! i = 10"
  have sp: "py_isspace 10" by (simp add: py_isspace_def)
  show False
  proof (cases "i = 0")
    case True
    with i sp assms(1,3) show False by (simp add: takeWhile_eq_Nil_iff)
  next
    case False
    have "i < length m" using assms(4) by (simp add: rstrip_length)
    with False i assms(1,2) have ge: "length body < i" "i \<le> length body + k"
      using in_set_conv_nth [of 10 body] by (auto simp: nth_Cons nth_append split: nat.splits if_splits)
    have "length (py_rstrip m) \<le> length (c # body)"
    proof -
      have "takeWhile py_isspace (replicate k 10 @ xs) = replicate k 10 @ takeWhile py_isspace xs" for xs
        using sp by (induction k) auto
      from this [of "rev (c # body)"] have "takeWhile py_isspace (rev m) = replicate k 10 @ takeWhile py_isspace (rev (c # body))"
        by (simp add: assms(1))
      then show ?thesis by (simp add: rstrip_length assms(1))
    qed
    with ge assms(4) show False by simp
  qed
qed

lemma spans_sorted: "sorted_wrt (\<lambda>a b. snd a \<le> fst b) (sentence_spans s)"
proof -
  let ?ms = "filter (\<lambda>m. py_strip (snd m) \<noteq> []) (find_matches 0 s)"
  have span: "q \<le> fst (trim_span (q, m)) \<and> snd (trim_span (q, m)) \<le> q + length m" for q m
    by (simp add: trim_span_eq rstrip_length)
  have "sorted_wrt (\<lambda>a b. fst a + length (snd a) \<le> fst b) ?ms"
    using find_matches_sorted by (rule sorted_wrt_filter)
  then have "sorted_wrt (\<lambda>a b. snd (trim_span a) \<le> fst (trim_span b)) ?ms"
    by (rule sorted_wrt_mono_rel [rotated]) (metis le_trans prod.collapse span)
  then show ?thesis
    by (simp add: sentence_spans_def sorted_wrt_map)
qed

lemma span_ok:
  assumes "(i, j) \<in> set (sentence_spans s)"
  shows "i < j \<and> j \<le> length s \<and> \<not> py_isspace (s ! i) \<and> \<not> py_isspace (s ! (j - 1)) \<and> (\<forall>k \<in> {i..<j}. s ! k \<noteq> 10)"
proof -
  obtain q m where qm: "(q, m) \<in> set (find_matches 0 s)" and ne: "py_strip m \<noteq> []" and "(i, j) = trim_span (q, m)"
    using assms by (auto simp: sentence_spans_def)
  then have ij: "i = q + length (takeWhile py_isspace m)" "j = q + length (py_rstrip m)" by (simp_all add: trim_span_eq)
  note e = strip_ends [OF ne] and n = find_matches_nth [OF qm]
  obtain c body k where shape: "m = c # body @ replicate k 10" "10 \<notin> set body" using piece_shape [OF qm] by blast
  have "s ! x \<noteq> 10" if "i \<le> x" "x < j" for x
    using trimmed_no_break [OF shape, of "x - q"] n(1) [of "x - q"] that e(2) ij by simp
  moreover have "j - 1 = q + (length (py_rstrip m) - 1)" using ij e(1) by simp
  moreover have "j \<le> length s" using n(2) [of "length (py_rstrip m) - 1"] e(1,2) ij by linarith
  ultimately show ?thesis
    using e ij n(1) [of "length (takeWhile py_isspace m)"] n(1) [of "length (py_rstrip m) - 1"] by auto
qed

lemma span_at:
  assumes "k < length s" "\<not> py_isspace (s ! k)"
  shows "\<exists>(i, j) \<in> set (sentence_spans s). i \<le> k \<and> k < j"
proof -
  obtain q m where qm: "(q, m) \<in> set (find_matches 0 s)" "q \<le> k" "k < q + length m"
    using find_matches_cover [OF assms(1), of 0] by auto
  have k: "k - q < length m" "\<not> py_isspace (m ! (k - q))"
    using qm find_matches_nth(1) [OF qm(1), of "k - q"] assms(2) by auto
  then have "py_strip m \<noteq> []" by (auto simp: py_strip_Nil_iff)
  then have "trim_span (q, m) \<in> set (sentence_spans s)" using qm(1) by (force simp: sentence_spans_def)
  with not_space_kept [OF k] qm(2) show ?thesis
    unfolding trim_span_eq by (intro bexI [of _ "(q + length (takeWhile py_isspace m), q + length (py_rstrip m))"]) auto
qed

lemma filter_at_most_one:
  assumes "sorted_wrt r xs" "\<And>a b. r a b \<Longrightarrow> \<not> (p a \<and> p b)"
  shows "length (filter p xs) \<le> 1"
  using assms(1)
proof (induction xs)
  case (Cons x xs)
  then show ?case using assms(2) by (cases "p x") (auto simp: filter_empty_conv)
qed simp

section \<open>Correctness of the boundaries\<close>

text \<open>
  The spans are sentences of the text: each is a non-empty range inside the text that starts and ends with a character that is not white space and
  contains no line break, and the ranges are in order and do not overlap.
\<close>

theorem sentence_spans_are_ordered_ranges:
  "sorted_wrt (\<lambda>a b. snd a \<le> fst b) (sentence_spans s)
   \<and> list_all (\<lambda>(i, j). i < j \<and> j \<le> length s \<and> \<not> py_isspace (s ! i) \<and> \<not> py_isspace (s ! (j - 1)) \<and> list_all (\<lambda>k. s ! k \<noteq> 10) [i..<j]) (sentence_spans s)"
  using spans_sorted span_ok by (auto simp: list_all_iff)

text \<open>
  Nothing of the text is lost: every character that is not white space lies in exactly one span.
\<close>

theorem sentence_spans_cover_text:
  assumes "k < length s" "\<not> py_isspace (s ! k)"
  shows "length (filter (\<lambda>(i, j). i \<le> k \<and> k < j) (sentence_spans s)) = 1"
proof -
  let ?p = "\<lambda>(i, j). i \<le> k \<and> k < j"
  have "length (filter ?p (sentence_spans s)) \<le> 1"
    using spans_sorted by (rule filter_at_most_one) auto
  moreover have "filter ?p (sentence_spans s) \<noteq> []"
    using span_at [OF assms] by (auto simp: filter_empty_conv)
  ultimately show ?thesis by (cases "filter ?p (sentence_spans s)") auto
qed

theorem sentence_spans_cover_text_witness:
  "\<exists>s k. k < length s \<and> \<not> py_isspace (s ! k) \<and> length (filter (\<lambda>(i, j). i \<le> k \<and> k < j) (sentence_spans s)) = 1 \<and> s = py ''A. B''"
proof -
  have "3 < length (py ''A. B'')" "\<not> py_isspace (py ''A. B'' ! 3)"
    by (simp_all add: py_def py_isspace_def)
  with sentence_spans_cover_text [OF this] show ?thesis by blast
qed

end
