(* ===== verification/Numeric_Text.thy ===== *)
theory Numeric_Text
  imports Budget
begin

text \<open>
  The texts of the numeric checks: \<^verbatim>\<open>domain/periods.py\<close> and the number, unit and scope literals of \<^verbatim>\<open>domain/numeric.py\<close>.

  Each regular expression of the source is a recognizer. A Python \<^verbatim>\<open>Fraction\<close> is a rational number. \<open>finite_decimal\<close> is \<^verbatim>\<open>Decimal(text)\<close> for a finite value,
  \<open>None\<close> for a text that is not a number, is infinite or not a number; digits outside ASCII are not modelled.
\<close>

section \<open>Periods\<close>

definition year_mark :: "pystr \<Rightarrow> pystr" where
  "year_mark s = (if take 1 s = [45380] then drop 1 s else s)"

definition fiscal_prefix :: "pystr \<Rightarrow> pystr" where
  "fiscal_prefix s = (if 2 \<le> length s \<and> s ! 0 \<in> {70, 102} \<and> s ! 1 \<in> {89, 121} then py_lstrip (drop 2 s) else s)"

definition quarter_suffix :: "pystr \<Rightarrow> bool" where
  "quarter_suffix s \<longleftrightarrow> s = [] \<or> (s \<noteq> [] \<and> py_isspace (hd s) \<and> (case py_lstrip s of [q, n] \<Rightarrow> q \<in> {81, 113} \<and> 49 \<le> n \<and> n \<le> 52 | _ \<Rightarrow> False))"

text \<open>\<^verbatim>\<open>(?:FY\s*)?([0-9]{4})(?:year)?(?:\s+Q[1-4])?\<close>\<close>

definition match_year :: "pystr \<Rightarrow> int option" where
  "match_year s = (case scan_digits 4 (fiscal_prefix s) of None \<Rightarrow> None
     | Some (y, r) \<Rightarrow> if quarter_suffix (year_mark r) then Some y else None)"

text \<open>\<^verbatim>\<open>([0-9]{4})year?\s*[-~]\s*([0-9]{4})year?\<close> with the two dashes.\<close>

definition match_years :: "pystr \<Rightarrow> (int \<times> int) option" where
  "match_years s = (case scan_digits 4 s of None \<Rightarrow> None
     | Some (a, r) \<Rightarrow> (let r = py_lstrip (year_mark r) in
         if r = [] \<or> hd r \<notin> {45, 8211, 8212, 126} then None
         else case scan_digits 4 (py_lstrip (tl r)) of None \<Rightarrow> None
           | Some (b, t) \<Rightarrow> if year_mark t = [] then Some (a, b) else None))"

definition day_shape :: "pystr \<Rightarrow> bool" where
  "day_shape s \<longleftrightarrow> length s = 10 \<and> list_all (\<lambda>i. if i \<in> {4, 7} then s ! i = 45 else py_isdigit (s ! i)) [0..<10]"

definition RANGE_SEPARATORS :: "pystr list" where
  "RANGE_SEPARATORS = [[126], [8211], [8212], py ''to'', py '' - '']"

text \<open>\<^verbatim>\<open>\s*(?:~|..|to| - )\s*\<close> as a whole.\<close>

definition range_separator :: "pystr \<Rightarrow> bool" where
  "range_separator s \<longleftrightarrow> list_ex (\<lambda>sep. list_ex (\<lambda>i. list_all py_isspace (take i s) \<and> py_startswith (drop i s) sep
       \<and> list_all py_isspace (drop (i + length sep) s)) [0..<Suc (length s)]) RANGE_SEPARATORS"

definition match_dates :: "pystr \<Rightarrow> (pystr \<times> pystr option) option" where
  "match_dates s =
     (let a = take 10 s; r = drop 10 s; n = length r in
      if \<not> day_shape a then None
      else if r = [] then Some (a, None)
      else if 10 \<le> n \<and> day_shape (drop (n - 10) r) \<and> range_separator (take (n - 10) r) then Some (a, Some (drop (n - 10) r))
      else None)"

definition is_supported_period :: "pystr option \<Rightarrow> bool" where
  "is_supported_period v = (case v of None \<Rightarrow> False
     | Some v \<Rightarrow> (let s = py_strip v in
         case match_year s of Some y \<Rightarrow> 0 < y
         | None \<Rightarrow> (case match_years s of Some (a, b) \<Rightarrow> 0 < a \<and> a \<le> b
           | None \<Rightarrow> (case match_dates s of None \<Rightarrow> False
             | Some (a, b) \<Rightarrow> (case date_fromisoformat a of Inl _ \<Rightarrow> False
                 | Inr start \<Rightarrow> (case b of None \<Rightarrow> True
                     | Some b \<Rightarrow> (case date_fromisoformat b of Inl _ \<Rightarrow> False | Inr stop \<Rightarrow> start \<le> stop)))))))"

section \<open>Numbers\<close>

definition unsigned :: "pystr \<Rightarrow> pystr" where
  "unsigned s = (if take 1 s \<in> {[43], [45]} then drop 1 s else s)"

definition all_digits :: "pystr \<Rightarrow> bool" where
  "all_digits s \<longleftrightarrow> s \<noteq> [] \<and> list_all py_isdigit s"

definition grouped :: "pystr \<Rightarrow> bool" where
  "grouped s \<longleftrightarrow> all_digits s \<or> (case py_split 44 s of p # q # ps \<Rightarrow> all_digits p \<and> length p \<le> 3 \<and> list_all (\<lambda>g. all_digits g \<and> length g = 3) (q # ps)
     | _ \<Rightarrow> False)"

text \<open>A number literal: sign, grouped or plain digits, and an optional fraction.\<close>

definition number_token :: "pystr \<Rightarrow> bool" where
  "number_token s \<longleftrightarrow> (let u = unsigned s; whole = takeWhile (\<lambda>c. c \<noteq> 46) u; rest = dropWhile (\<lambda>c. c \<noteq> 46) u in
     grouped whole \<and> (rest = [] \<or> all_digits (tl rest)))"

text \<open>\<^verbatim>\<open>_NUMBER.fullmatch\<close>: the number and the unit text after white space.\<close>

definition match_number :: "pystr \<Rightarrow> (pystr \<times> pystr option) option" where
  "match_number s = (let token = takeWhile (\<lambda>c. \<not> py_isspace c) s; rest = dropWhile (\<lambda>c. \<not> py_isspace c) s; unit = py_lstrip rest in
     if \<not> number_token token then None
     else if rest = [] then Some (token, None)
     else if unit = [] \<or> 10 \<in> set unit then None
     else Some (token, Some unit))"

definition fraction_digits :: "pystr \<Rightarrow> pystr" where
  "fraction_digits s = tl (dropWhile (\<lambda>c. c \<noteq> 46) s)"

text \<open>\<^verbatim>\<open>Fraction(Decimal(text))\<close> of a number literal without group separators.\<close>

definition number_value :: "pystr \<Rightarrow> rat" where
  "number_value s = (let u = unsigned s; f = fraction_digits u; digits = filter (\<lambda>c. c \<noteq> 46) u;
       v = of_nat (nat_of_dec digits) / 10 ^ length f in if take 1 s = [45] then - v else v)"

type_synonym interval = "rat \<times> rat"

definition display :: "pystr \<Rightarrow> rat \<Rightarrow> (rat \<times> interval) option" where
  "display raw scale = (case match_number (py_strip raw) of None \<Rightarrow> None
     | Some (token, _) \<Rightarrow> (let s = filter (\<lambda>c. c \<noteq> 44) token; v = number_value s * scale;
           half_step = 1 / (2 * 10 ^ length (fraction_digits s)) * scale in Some (v, (v - half_step, v + half_step))))"

definition finite_decimal :: "pystr \<Rightarrow> rat option" where
  "finite_decimal s =
     (let s = filter (\<lambda>c. c \<noteq> 95) (py_strip s); u = unsigned s;
          mantissa = takeWhile (\<lambda>c. c \<notin> {69, 101}) u; exponent = dropWhile (\<lambda>c. c \<notin> {69, 101}) u;
          whole = takeWhile (\<lambda>c. c \<noteq> 46) mantissa; frac = tl (dropWhile (\<lambda>c. c \<noteq> 46) mantissa);
          x = tl exponent; v = of_nat (nat_of_dec (whole @ frac)) / 10 ^ length frac
      in if \<not> list_all py_isdigit (whole @ frac) \<or> whole @ frac = [] \<or> (exponent \<noteq> [] \<and> \<not> all_digits (unsigned x)) then None
         else let e = nat_of_dec (unsigned x); v = (if take 1 x = [45] then v / 10 ^ e else v * 10 ^ e)
              in Some (if take 1 s = [45] then - v else v))"

text \<open>\<^verbatim>\<open>while denominator % factor == 0: denominator //= factor\<close>\<close>

function strip_factor :: "nat \<Rightarrow> nat \<Rightarrow> nat" where
  "strip_factor f d = (if 1 < f \<and> 0 < d \<and> d mod f = 0 then strip_factor f (d div f) else d)"
  by auto
termination
  by (relation "measure snd") auto

declare strip_factor.simps [simp del]

definition exact_decimal :: "rat \<Rightarrow> pystr option" where
  "exact_decimal v =
     (let (num, den) = quotient_of v; d = strip_factor 5 (strip_factor 2 (nat den)) in
      if d \<noteq> 1 then None
      else let precision = length (dec_of_nat (nat \<bar>num\<bar>)) + length (dec_of_nat (nat den)) * 4 + 1
           in Some ((if num < 0 then py ''-'' else []) @ dec_text_f (dec_div precision (\<bar>num\<bar>, 0) (den, 0))))"

section \<open>Literals of notes\<close>

definition UNIT_LITERALS :: "pystr list" where
  "UNIT_LITERALS = [py ''tCO2e'', [116, 67, 79, 8322, 101], py ''kgCO2e'', py ''t'', py ''kg'', py ''g'', py ''GJ'', py ''TJ'', py ''MJ'', py ''kWh'', py ''MWh'', py ''GWh'',
     py ''m3'', [109, 179], [13221], py ''L'', py ''%'', py ''%p'', [53668], [50896], [48177, 47564, 50896], [50613, 50896], [44060], [47749], [44148], [45824]]"

definition thousand :: pystr where
  "thousand = [52380, 32]"

text \<open>The word before the colon, in Korean or in English in any case (\<^verbatim>\<open>re.I\<close> also takes the dotted and the dotless i).\<close>

definition unit_word :: "pystr \<Rightarrow> pystr option" where
  "unit_word s = (if py_startswith s [45800, 50948] then Some (drop 2 s)
     else case s of (u # n # i # t # r) \<Rightarrow> if u \<in> {85, 117} \<and> n \<in> {78, 110} \<and> i \<in> {73, 105, 304, 305} \<and> t \<in> {84, 116} then Some r else None
     | _ \<Rightarrow> None)"

definition unit_note_literal :: "pystr \<Rightarrow> pystr option" where
  "unit_note_literal s = (case unit_word (py_strip s) of None \<Rightarrow> None
     | Some r \<Rightarrow> (let r = py_lstrip r in
         if take 1 r \<noteq> [58] then None
         else let u = py_lstrip (drop 1 r); base = (if py_startswith u thousand then drop 2 u else u) in
              if base \<in> set UNIT_LITERALS then Some u else None))"

definition scope_note_literal :: "pystr \<Rightarrow> pystr option" where
  "scope_note_literal s = (let s = py_strip s; u = (if py_startswith s (py ''Scope:'') then py_lstrip (drop 6 s) else s) in
     if u \<in> {py ''Scope 1'', py ''Scope 2'', py ''Scope 3''} then Some u else None)"

text \<open>The numeric tokens of a text, as \<^verbatim>\<open>re.finditer\<close> finds them.\<close>

fun group_length :: "pystr \<Rightarrow> nat" where
  "group_length (c # x # y # z # s) = (if c = 44 \<and> py_isdigit x \<and> py_isdigit y \<and> py_isdigit z then 4 + group_length s else 0)"
| "group_length _ = 0"

definition token_length :: "pystr \<Rightarrow> nat" where
  "token_length s =
     (let u = unsigned s; d = length (takeWhile py_isdigit u); groups = group_length (drop d u);
          whole = (if d \<le> 3 then d + groups else d); r = drop whole u;
          f = length (takeWhile py_isdigit (tl r)); frac = (if take 1 r = [46] \<and> 0 < f then 1 + f else 0);
          r = drop frac r; x = unsigned (tl r); e = length (takeWhile py_isdigit x);
          expo = (if take 1 r \<in> {[69], [101]} \<and> 0 < e then length (tl r) - length x + 1 + e else 0)
      in if d = 0 then 0 else length s - length u + whole + frac + expo)"

function token_spans :: "nat \<Rightarrow> pystr \<Rightarrow> (nat \<times> nat) list" where
  "token_spans p s = (if s = [] then [] else let n = token_length s in
     if n = 0 then token_spans (Suc p) (tl s) else (p, p + n) # token_spans (p + n) (drop n s))"
  by auto
termination
  by (relation "measure (length \<circ> snd)") auto

declare token_spans.simps [simp del]

end
