(* ===== verification/Numeric.thy ===== *)
theory Numeric
  imports Numeric_Text
begin

text \<open>
  Model of \<^verbatim>\<open>domain/numeric.py\<close>: the numeric checks over a claim registry and a pinned snapshot of the parsed document, with \<^verbatim>\<open>NativeSource\<close> of
  \<^verbatim>\<open>domain/documents.py\<close>.

  The structural protocols of the source are records. A dictionary keyed by source id is \<open>dict_of\<close> (the last entry wins), a set of ids is a list without
  repetition. The three worklist loops over graph edges are one definition, \<open>close_under\<close>: it pops the last pending node and adds the successors that are
  not yet known; the order in which a Python set hands them over is not fixed and does not change the set of nodes reached.
\<close>

section \<open>Records\<close>

record native_source =
  nat_document_version_id :: pystr
  nat_parse_manifest_id :: pystr
  nat_parser_run_id :: pystr
  nat_source_native_id :: pystr
  nat_physical_page :: int
  nat_printed_page_label :: "pystr option"
  nat_native_bbox :: "bbox option"
  nat_native_coordinate_system :: pystr
  nat_raw_text :: pystr
  nat_char_start :: int
  nat_char_end :: int

definition mk_native_source :: "native_source \<Rightarrow> native_source result" where
  "mk_native_source n =
     bindE (check_uuid ''document_version_id'' (nat_document_version_id n)) (\<lambda>_.
     bindE (check_uuid ''parse_manifest_id'' (nat_parse_manifest_id n)) (\<lambda>_.
     bindE (check_uuid ''parser_run_id'' (nat_parser_run_id n)) (\<lambda>_.
     if nat_source_native_id n = [] then Inl (DomainValidationError ''source_native_id must be a non-empty string'')
     else if nat_physical_page n < 1 then Inl (DomainValidationError ''physical_page must be >= 1 (1-based)'')
     else if (case nat_native_bbox n of None \<Rightarrow> False | Some (x0, y0, x1, y1) \<Rightarrow> \<not> (x0 < x1 \<and> y0 < y1))
       then Inl (DomainValidationError ''native_bbox must satisfy left < right and bottom < top'')
     else if nat_native_coordinate_system n \<noteq> py ''pdf_bottom_left_points''
       then Inl (DomainValidationError ''native_coordinate_system must be supported'')
     else if nat_char_start n < 0 \<or> nat_char_end n < nat_char_start n then Inl (DomainValidationError ''char offsets must satisfy 0 <= start <= end'')
     else if int (length (nat_raw_text n)) < nat_char_end n then Inl (DomainValidationError ''char_end must not exceed len(raw_text)'')
     else Inr n)))"

definition page_index :: "native_source \<Rightarrow> int" where
  "page_index n = nat_physical_page n - 1"

record numeric_edge =
  ne_source_id :: pystr
  ne_target_id :: pystr
  ne_relation :: pystr

record numeric_candidate =
  nc_source :: native_source
  nc_row_number :: "int option"
  nc_column_number :: "int option"
  nc_column_span :: "int option"
  nc_bbox :: "bbox option"

record numeric_block =
  nb_kind :: pystr
  nb_source_id :: pystr
  nb_quality :: pystr
  nb_winner :: "int option"
  nb_candidates :: "numeric_candidate list"

type_synonym snapshot_identity = "pystr \<times> pystr \<times> pystr \<times> pystr"

text \<open>\<open>_identity\<close> is tenant, document version, parse manifest and source digest.\<close>

record numeric_batch =
  bt_identity :: snapshot_identity
  bt_parser_run_id :: pystr
  bt_blocks :: "numeric_candidate list"

record numeric_issue =
  ni_issue_id :: pystr
  ni_source_ids :: "pystr list"
  ni_state :: pystr

record numeric_snapshot =
  ns_identity :: snapshot_identity
  ns_blocks :: "numeric_block list"
  ns_candidates :: "numeric_batch list"
  ns_edges :: "numeric_edge list"
  ns_issues :: "numeric_issue list"

record numeric_claim =
  nm_claim_id :: pystr
  nm_identity :: snapshot_identity
  nm_quote :: pystr
  nm_source_quality :: pystr
  nm_source_refs :: "source_ref list"

record numeric_observation =
  no_observation_id :: pystr
  no_table_id :: pystr
  no_row :: int
  no_column :: int
  no_identity :: snapshot_identity
  no_metric_raw :: pystr
  no_scope :: "pystr option"
  no_subject :: "pystr option"
  no_reporting_period :: pystr
  no_scope2_basis :: "pystr option"
  no_organizational_boundary :: "pystr option"
  no_unit_raw :: "pystr option"
  no_unit_canonical :: "pystr option"
  no_scale_multiplier :: pystr
  no_denominator :: "pystr option"
  no_value_raw :: pystr
  no_value_decimal :: "pystr option"
  no_value_state :: pystr
  no_quality :: pystr
  no_source_refs :: "source_ref list"
  no_source_blocks :: "numeric_block list"
  no_parent_relations :: "(pystr \<times> pystr \<times> pystr) list"

definition snapshot_tenant :: "snapshot_identity \<Rightarrow> pystr" where
  "snapshot_tenant i = fst i"

definition snapshot_version :: "snapshot_identity \<Rightarrow> pystr" where
  "snapshot_version i = fst (snd i)"

definition snapshot_manifest_id :: "snapshot_identity \<Rightarrow> pystr" where
  "snapshot_manifest_id i = fst (snd (snd i))"

record aggregation_relation =
  ag_target_claim_id :: pystr
  ag_observation_ids :: "pystr list"
  ag_binding_sha256 :: pystr
  ag_source_refs :: "source_ref list"
  ag_relation :: pystr
  ag_acceptance_state :: pystr

record numeric_condition =
  nd_source_ref :: source_ref
  nd_observation_ids :: "pystr list"
  nd_binding_sha256 :: pystr
  nd_relation :: pystr
  nd_acceptance_state :: pystr
  nd_reviewed_by :: pystr

datatype check_kind = Comparison | Sum_check | Reduction | Growth | Product_reduction

definition check_kind_text :: "check_kind \<Rightarrow> pystr" where
  "check_kind_text k = (case k of Comparison \<Rightarrow> py ''comparison'' | Sum_check \<Rightarrow> py ''sum'' | Reduction \<Rightarrow> py ''reduction'' | Growth \<Rightarrow> py ''growth''
     | Product_reduction \<Rightarrow> py ''product_reduction'')"

record claim_binding =
  cb_claim_id :: pystr
  cb_tenant_id :: pystr
  cb_document_version_id :: pystr
  cb_kind :: check_kind
  cb_observation_ids :: "pystr list"
  cb_reported_value :: "pystr option"
  cb_metric_raw :: pystr
  cb_scope :: "pystr option"
  cb_subject :: "pystr option"
  cb_scope2_basis :: "pystr option"
  cb_organizational_boundary :: "pystr option"
  cb_unit :: "pystr option"
  cb_denominator :: "pystr option"
  cb_source_refs :: "source_ref list"
  cb_parse_manifest_id :: "pystr option"
  cb_reporting_period :: "pystr option"
  cb_quantity_kind :: "pystr option"
  cb_baseline_period :: "pystr option"
  cb_reported_value_ref :: "source_ref option"
  cb_binding_accepted :: bool
  cb_aggregation :: "aggregation_relation option"
  cb_baseline_subject :: "pystr option"
  cb_subject_ref :: "source_ref option"
  cb_baseline_subject_ref :: "source_ref option"
  cb_product_comparison_accepted :: bool
  cb_conditions :: "numeric_condition list"

definition mk_claim_binding :: "claim_binding \<Rightarrow> claim_binding result" where
  "mk_claim_binding b =
     (if cb_claim_id b = [] \<or> cb_tenant_id b = [] \<or> cb_document_version_id b = [] \<or> cb_observation_ids b = [] \<or> py_duplicates (cb_observation_ids b)
        then Inl (ValueError ''invalid numeric claim binding'')
      else if cb_kind b = Comparison \<and> length (cb_observation_ids b) \<noteq> 1 then Inl (ValueError ''comparison requires exactly one observation'')
      else if cb_kind b \<in> {Reduction, Growth} \<and> length (cb_observation_ids b) \<noteq> 2
        then Inl (ValueError '' requires baseline and current observations'')
      else if cb_kind b = Product_reduction \<and> length (cb_observation_ids b) \<noteq> 2
        then Inl (ValueError ''product_reduction requires baseline and current product observations'')
      else if cb_source_refs b = [] then Inl (ValueError ''numeric binding requires source_refs'')
      else if list_ex (\<lambda>r. sr_document_version_id r \<noteq> cb_document_version_id b) (cb_source_refs b)
        then Inl (ValueError ''numeric binding source version mismatch'')
      else if cb_conditions b \<noteq> [] \<and> cb_kind b \<notin> {Growth, Product_reduction}
        then Inl (ValueError ''numeric conditions require a supported rate binding'')
      else Inr b)"

datatype check_status = Consistent | Inconsistent | Not_comparable | Not_computable

record check_result =
  ck_claim_id :: pystr
  ck_kind :: check_kind
  ck_status :: check_status
  ck_reported_value :: "pystr option"
  ck_computed_value :: "pystr option"
  ck_observation_ids :: "pystr list"
  ck_source_refs :: "source_ref list"
  ck_reason :: "pystr option"
  ck_exact_ratio :: "(pystr \<times> pystr) option"

section \<open>Source spans\<close>

definition blocks_by_id :: "numeric_snapshot \<Rightarrow> pystr \<rightharpoonup> numeric_block" where
  "blocks_by_id s = dict_of (map (\<lambda>b. (nb_source_id b, b)) (ns_blocks s))"

definition winner_of :: "numeric_block \<Rightarrow> numeric_candidate option" where
  "winner_of b = (case nb_winner b of None \<Rightarrow> None
     | Some w \<Rightarrow> if 0 \<le> w \<and> w < int (length (nb_candidates b)) then Some (nb_candidates b ! nat w) else None)"

definition span_verified :: "platform \<Rightarrow> numeric_snapshot \<Rightarrow> source_ref \<Rightarrow> bool" where
  "span_verified P s r \<longleftrightarrow> sr_verification_state r = Verified \<and> sr_location_quality r = Located \<and> sr_bbox r \<noteq> None
     \<and> (sr_document_version_id r, sr_parse_manifest_id r) = (snapshot_version (ns_identity s), snapshot_manifest_id (ns_identity s))
     \<and> \<not> py_duplicates (map nb_source_id (ns_blocks s))
     \<and> (case blocks_by_id s (sr_source_id r) of None \<Rightarrow> False
        | Some b \<Rightarrow> nb_quality b = py ''verified'' \<and> (case winner_of b of None \<Rightarrow> False
          | Some c \<Rightarrow> (let n = nc_source c in
              list_ex (\<lambda>bt. bt_identity bt = ns_identity s \<and> bt_parser_run_id bt = nat_parser_run_id n \<and> c \<in> set (bt_blocks bt)) (ns_candidates s)
              \<and> (nat_document_version_id n, nat_parse_manifest_id n) = (snapshot_version (ns_identity s), snapshot_manifest_id (ns_identity s))
              \<and> nat_physical_page n = sr_page_num r \<and> nat_printed_page_label n = sr_printed_page_label r
              \<and> nc_bbox c = sr_bbox r \<and> sha256_hex P (nat_raw_text n) = sr_raw_text_sha256 r
              \<and> 0 \<le> sr_char_start r \<and> sr_char_start r < sr_char_end r \<and> sr_char_end r \<le> int (length (nat_raw_text n))
              \<and> py_slice (nat_raw_text n) (sr_char_start r) (sr_char_end r) = sr_quote r \<and> py_strip (sr_quote r) \<noteq> [])))"

definition opt_verified :: "platform \<Rightarrow> numeric_snapshot \<Rightarrow> source_ref option \<Rightarrow> bool" where
  "opt_verified P s r = (case r of None \<Rightarrow> False | Some r \<Rightarrow> span_verified P s r)"

text \<open>Asked only for a verified span, so the block and its winner exist.\<close>

definition whole_number :: "numeric_snapshot \<Rightarrow> source_ref \<Rightarrow> bool" where
  "whole_number s r = (case find (\<lambda>b. nb_source_id b = sr_source_id r) (ns_blocks s) of None \<Rightarrow> False
     | Some b \<Rightarrow> (case winner_of b of None \<Rightarrow> False
         | Some c \<Rightarrow> list_ex (\<lambda>(i, j). int i = sr_char_start r \<and> int j = sr_char_end r) (token_spans 0 (nat_raw_text (nc_source c)))))"

definition within_ref :: "source_ref \<Rightarrow> source_ref \<Rightarrow> bool" where
  "within_ref r q \<longleftrightarrow> sr_source_id r = sr_source_id q \<and> sr_char_start q \<le> sr_char_start r \<and> sr_char_start r < sr_char_end r \<and> sr_char_end r \<le> sr_char_end q"

definition claim_verified :: "platform \<Rightarrow> claim_binding \<Rightarrow> numeric_claim option \<Rightarrow> numeric_snapshot \<Rightarrow> bool" where
  "claim_verified P b claim s \<longleftrightarrow> cb_binding_accepted b \<and> (case claim of None \<Rightarrow> False
     | Some m \<Rightarrow> nm_identity m = ns_identity s \<and> cb_parse_manifest_id b = Some (snapshot_manifest_id (ns_identity s))
         \<and> nm_source_quality m = py ''verified'' \<and> cb_source_refs b = nm_source_refs m \<and> nm_source_refs m \<noteq> []
         \<and> list_all (span_verified P s) (nm_source_refs m) \<and> nm_quote m = py_join (py '' '') (map sr_quote (nm_source_refs m))
         \<and> (case cb_reported_value_ref b of None \<Rightarrow> False
            | Some r \<Rightarrow> span_verified P s r \<and> Some (sr_quote r) = cb_reported_value b
                \<and> list_ex (\<lambda>q. within_ref r q \<and> whole_number s r) (nm_source_refs m)))"

section \<open>Graph walks\<close>

function close_under :: "(pystr \<times> pystr) list \<Rightarrow> pystr list \<Rightarrow> pystr list \<Rightarrow> pystr list" where
  "close_under es known pending = (if pending = [] then known
     else let fresh = py_unique (map snd (filter (\<lambda>e. fst e = last pending \<and> snd e \<notin> set known) es))
          in close_under es (known @ fresh) (butlast pending @ fresh))"
  by auto
termination
proof (relation "measures [\<lambda>(es, known, pending). card (snd ` set es - set known), \<lambda>(es, known, pending). length pending]", goal_cases)
  case (2 es known pending fresh)
  show ?case
  proof (cases "fresh = []")
    case True
    with 2 show ?thesis by simp
  next
    case False
    then obtain x where x: "x \<in> set fresh" by (cases fresh) auto
    with 2 have "x \<in> snd ` set es - set known" by auto
    moreover have "snd ` set es - set (known @ fresh) \<subset> snd ` set es - set known"
      using x calculation by auto
    ultimately show ?thesis by (simp add: psubset_card_mono)
  qed
qed simp

declare close_under.simps [simp del]

definition table_parents :: "numeric_snapshot \<Rightarrow> (pystr \<times> pystr) list" where
  "table_parents s = map (\<lambda>e. (ne_source_id e, ne_target_id e)) (filter (\<lambda>e. ne_relation e = py ''table_parent'') (ns_edges s))"

definition walk :: "(pystr \<times> pystr) list \<Rightarrow> pystr list \<Rightarrow> pystr list" where
  "walk es start = close_under es start start"

definition unresolved_source_issue_ids :: "numeric_snapshot \<Rightarrow> pystr list \<Rightarrow> pystr list" where
  "unresolved_source_issue_ids s source_ids =
     (let related = walk (table_parents s) (py_unique source_ids) in
      py_unique (map ni_issue_id (filter (\<lambda>i. ni_state i \<in> {py ''open'', py ''unreadable''} \<and> list_ex (\<lambda>x. x \<in> set related) (ni_source_ids i)) (ns_issues s))))"

definition block_ids :: "pystr set \<Rightarrow> numeric_snapshot \<Rightarrow> pystr list" where
  "block_ids kinds s = py_unique (map nb_source_id (filter (\<lambda>b. nb_kind b \<in> kinds) (ns_blocks s)))"

definition footnote_edges :: "pystr list \<Rightarrow> numeric_snapshot \<Rightarrow> pystr list" where
  "footnote_edges targets s = py_unique (map ne_source_id (filter (\<lambda>e. ne_relation e = py ''footnote_of'' \<and> ne_target_id e \<in> set targets) (ns_edges s)))"

definition unassigned_note_ids :: "numeric_snapshot \<Rightarrow> pystr \<Rightarrow> pystr list" where
  "unassigned_note_ids s source_id = (case blocks_by_id s source_id of None \<Rightarrow> []
     | Some b \<Rightarrow>
         if nb_kind b \<notin> {py ''table'', py ''table_row'', py ''table_cell'', py ''footnote''} then []
         else
         let known = block_ids {py ''table_cell'', py ''table_row''} s;
             children = map (\<lambda>e. (snd e, fst e)) (filter (\<lambda>e. fst e \<in> set known) (table_parents s));
             owned = walk children (block_ids {py ''table''} s);
             assigned = footnote_edges owned s in
         if nb_kind b = py ''footnote'' then (if source_id \<in> set assigned then [] else [source_id])
         else
         let related = walk (filter (\<lambda>e. snd e \<in> set owned) (table_parents s)) [source_id];
             pages = concat (map (\<lambda>i. case blocks_by_id s i of None \<Rightarrow> [] | Some b \<Rightarrow> map (\<lambda>c. nat_physical_page (nc_source c)) (nb_candidates b)) related) in
         py_unique (map nb_source_id (filter (\<lambda>b. nb_kind b = py ''footnote'' \<and> nb_source_id b \<notin> set assigned
            \<and> list_ex (\<lambda>c. nat_physical_page (nc_source c) \<in> set pages) (nb_candidates b)) (ns_blocks s))))"

text \<open>A placed cell: source id, row, first column and the column after the last.\<close>

definition placed_cells :: "numeric_snapshot \<Rightarrow> pystr \<Rightarrow> (pystr \<times> int \<times> int \<times> int) list" where
  "placed_cells s table_id =
     (let children = map fst (filter (\<lambda>e. snd e = table_id) (table_parents s)) in
      concat (map (\<lambda>b. List.map_filter (\<lambda>c. case (nc_row_number c, nc_column_number c) of
          (Some r, Some k) \<Rightarrow> Some (nb_source_id b, r, k, k + (case nc_column_span c of None \<Rightarrow> 1 | Some n \<Rightarrow> if n = 0 then 1 else n)) | _ \<Rightarrow> None)
        (nb_candidates b)) (filter (\<lambda>b. nb_source_id b \<in> set children) (ns_blocks s))))"

definition column_note_targets :: "numeric_snapshot \<Rightarrow> pystr \<Rightarrow> pystr list \<Rightarrow> pystr list" where
  "column_note_targets s table_id targets =
     (let placed = placed_cells s table_id in
      if placed = [] then []
      else let first_row = Min ((\<lambda>(_, r, _, _). r) ` set placed);
               columns = map (\<lambda>(_, _, i, j). (i, j)) (filter (\<lambda>(x, _, _, _). x \<in> set targets) placed) in
           py_unique (map fst (filter (\<lambda>(_, r, i, j). r = first_row \<and> list_ex (\<lambda>(left, right). i < right \<and> left < j) columns) placed)))"

definition relation_roots :: "numeric_observation \<Rightarrow> pystr list" where
  "relation_roots x = py_unique (map fst (no_parent_relations x))"

definition note_targets :: "numeric_observation \<Rightarrow> numeric_snapshot \<Rightarrow> pystr list" where
  "note_targets x s =
     (let targets = walk (table_parents s) (relation_roots x) in
      if no_table_id x \<notin> set targets then []
      else let notes = block_ids {py ''footnote''} s;
               targets = py_unique (targets @ filter (\<lambda>t. t \<notin> set notes) (map (\<lambda>(_, t, _). t) (no_parent_relations x))) in
           py_unique (targets @ column_note_targets s (no_table_id x) targets))"

end
