(* ===== verification/Numeric_Check.thy ===== *)
theory Numeric_Check
  imports Numeric
begin

text \<open>
  The second half of \<^verbatim>\<open>domain/numeric.py\<close>: what an observation displays, the notes that hold it back, the accepted bindings, and
  \<open>check_numeric_consistency\<close>. \<open>check_binding\<close> is the body of its loop, \<open>rate_interval\<close> the corner computation for growth and reduction;
  the computed reduction \<^verbatim>\<open>(baseline - current) / baseline\<close> is written as its corners are, \<open>1 - current / baseline\<close>.
\<close>

section \<open>Observations\<close>

definition refs_at :: "numeric_observation \<Rightarrow> pystr \<Rightarrow> source_ref list" where
  "refs_at x t = filter (\<lambda>r. sr_source_id r = t) (no_source_refs x)"

definition unit_bound :: "numeric_observation \<Rightarrow> bool" where
  "unit_bound x \<longleftrightarrow>
     list_ex (\<lambda>(_, t, name). name = py ''unit_raw'' \<and> list_ex (\<lambda>r. Some (py_strip (sr_quote r)) = no_unit_raw x) (refs_at x t)) (no_parent_relations x)
     \<or> (no_unit_raw x \<noteq> None \<and> list_ex (\<lambda>r. unit_note_literal (sr_quote r) = no_unit_raw x) (no_source_refs x))
     \<or> (case match_number (py_strip (no_value_raw x)) of None \<Rightarrow> False | Some (_, u) \<Rightarrow> u = no_unit_raw x)"

text \<open>The fields whose values must be bound to a source, with the value of the observation.\<close>

definition bound_fields :: "numeric_observation \<Rightarrow> (pystr \<times> pystr option) list" where
  "bound_fields x = [(py ''metric_raw'', Some (no_metric_raw x)), (py ''scope'', no_scope x), (py ''subject'', no_subject x),
     (py ''scope2_basis'', no_scope2_basis x), (py ''organizational_boundary'', no_organizational_boundary x),
     (py ''reporting_period'', Some (no_reporting_period x)), (py ''denominator'', no_denominator x)]"

definition field_bound :: "pystr list \<Rightarrow> pystr list \<Rightarrow> numeric_observation \<Rightarrow> pystr \<Rightarrow> pystr \<Rightarrow> bool" where
  "field_bound note_ids scope_notes x field expected \<longleftrightarrow> list_ex (\<lambda>(_, t, name). name = field \<and> refs_at x t \<noteq> []
     \<and> (if field = py ''scope'' \<and> t \<in> set note_ids
        then t \<in> set scope_notes \<and> list_ex (\<lambda>r. scope_note_literal (sr_quote r) = Some expected) (refs_at x t)
        else list_ex (\<lambda>r. py_strip (sr_quote r) = expected) (refs_at x t))) (no_parent_relations x)"

definition observation_display :: "platform \<Rightarrow> numeric_snapshot \<Rightarrow> numeric_observation \<Rightarrow> (rat \<times> interval) option" where
  "observation_display P s x =
     (let scale = (case no_unit_raw x of None \<Rightarrow> False | Some u \<Rightarrow> py_startswith u thousand);
          canonical = (if scale then map_option (\<lambda>u. py_strip (drop 2 u)) (no_unit_raw x) else no_unit_raw x);
          note_ids = block_ids {py ''footnote''} s;
          scope_notes = filter (\<lambda>n. n \<in> set note_ids) (footnote_edges (note_targets x s) s);
          shown = display (no_value_raw x) (if scale then 1000 else 1)
      in if no_identity x \<noteq> ns_identity s \<or> no_quality x \<noteq> py ''verified'' \<or> no_value_state x \<noteq> py ''value'' \<or> no_source_refs x = []
           \<or> \<not> list_all (span_verified P s) (no_source_refs x) \<or> no_source_blocks x = [] \<or> list_ex (\<lambda>b. b \<notin> set (ns_blocks s)) (no_source_blocks x)
           \<or> \<not> list_ex (\<lambda>r. sr_quote r = no_value_raw x) (no_source_refs x) then None
         else if no_scale_multiplier x \<noteq> (if scale then py ''1000'' else py ''1'') \<or> no_unit_canonical x \<noteq> canonical then None
         else if \<not> unit_bound x then None
         else case (shown, Option.bind (no_value_decimal x) finite_decimal) of
             (Some d, Some v) \<Rightarrow> if fst d \<noteq> v then None
               else if list_all (\<lambda>(field, expected). case expected of None \<Rightarrow> True | Some e \<Rightarrow> field_bound note_ids scope_notes x field e) (bound_fields x)
               then Some d else None
           | _ \<Rightarrow> None)"

section \<open>Notes\<close>

definition root_holds :: "platform \<Rightarrow> numeric_snapshot \<Rightarrow> numeric_observation \<Rightarrow> numeric_block \<Rightarrow> pystr list \<times> pystr list" where
  "root_holds P s x b =
     (let unassigned = unassigned_note_ids s (nb_source_id b) in
      (unassigned, (if unassigned = [] then [] else [py ''footnote_owner_unresolved''])
        @ (case winner_of b of None \<Rightarrow> [py ''observation_root_unresolved'']
           | Some c \<Rightarrow> if (nc_row_number c, nc_column_number c) \<noteq> (Some (no_row x), Some (no_column x))
                 \<or> \<not> list_ex (\<lambda>r. sr_source_id r = nb_source_id b \<and> sr_quote r = no_value_raw x \<and> span_verified P s r) (no_source_refs x)
               then [py ''observation_source_unverified''] else [])))"

definition note_holds :: "platform \<Rightarrow> numeric_snapshot \<Rightarrow> pystr list \<Rightarrow> numeric_observation \<Rightarrow> numeric_block \<Rightarrow> pystr list" where
  "note_holds P s accepted x b = (case winner_of b of None \<Rightarrow> [py ''footnote_source_unverified'']
     | Some c \<Rightarrow> (let raw = nat_raw_text (nc_source c); u = unit_note_literal raw; sc = scope_note_literal raw in
         (if nb_source_id b \<notin> set accepted \<and> \<not> ((u \<noteq> None \<and> u = no_unit_raw x) \<or> (sc \<noteq> None \<and> sc = no_scope x))
          then [py ''footnote_condition_unsupported_or_mismatched''] else [])
         @ (if \<not> list_ex (\<lambda>r. sr_source_id r = nb_source_id b \<and> sr_quote r = raw \<and> span_verified P s r) (no_source_refs x)
            then [py ''footnote_source_unverified''] else [])))"

definition footnote_holds :: "platform \<Rightarrow> numeric_snapshot \<Rightarrow> pystr list \<Rightarrow> numeric_observation \<Rightarrow> pystr list \<times> pystr list" where
  "footnote_holds P s accepted x =
     (let ids = relation_roots x; roots = filter (\<lambda>b. nb_source_id b \<in> set ids) (no_source_blocks x);
          targets = note_targets x s; required = footnote_edges targets s;
          selected = filter (\<lambda>b. nb_source_id b \<in> set required) (ns_blocks s);
          notes = List.map_filter (dict_of (map (\<lambda>b. (nb_source_id b, b)) selected)) (py_unique (map nb_source_id selected));
          missing = filter (\<lambda>i. i \<notin> nb_source_id ` set selected) required;
          r1 = (if length ids \<noteq> 1 \<or> length roots \<noteq> 1 then [py ''observation_root_unresolved''] else []);
          r2 = concat (map (\<lambda>b. snd (root_holds P s x b)) roots);
          r3 = (if no_table_id x \<notin> set targets then [py ''observation_table_lineage_unresolved''] else []);
          r4 = (if py_duplicates (map nb_source_id selected) then [py ''footnote_source_ambiguous''] else []);
          r5 = (if missing \<noteq> [] then [py ''footnote_source_missing''] else []);
          r6 = concat (map (note_holds P s accepted x) notes);
          held = concat (map (\<lambda>b. fst (root_holds P s x b)) roots) @ (if py_duplicates (map nb_source_id selected) then required else []) @ missing
            @ map nb_source_id (filter (\<lambda>b. note_holds P s accepted x b \<noteq> []) notes)
      in (py_unique held, py_unique (r1 @ r2 @ r3 @ r4 @ r5 @ r6)))"

definition unresolved_footnotes :: "platform \<Rightarrow> numeric_snapshot \<Rightarrow> pystr list \<Rightarrow> numeric_observation \<Rightarrow> bool" where
  "unresolved_footnotes P s accepted x \<longleftrightarrow> snd (footnote_holds P s accepted x) \<noteq> []"

record source_holds =
  sh_observation_id :: pystr
  sh_issue_ids :: "pystr list"
  sh_note_source_ids :: "pystr list"
  sh_reasons :: "pystr list"

definition observation_source_holds :: "platform \<Rightarrow> numeric_snapshot \<Rightarrow> pystr list \<Rightarrow> numeric_observation \<Rightarrow> source_holds result" where
  "observation_source_holds P s accepted x =
     (if no_identity x \<noteq> ns_identity s then Inl (ValueError ''observation snapshot mismatch'')
      else let ids = map sr_source_id (no_source_refs x) @ [no_table_id x] @ map fst (no_parent_relations x);
               issues = unresolved_source_issue_ids s ids; (notes, reasons) = footnote_holds P s accepted x in
           Inr \<lparr>sh_observation_id = no_observation_id x, sh_issue_ids = py_sorted_set issues, sh_note_source_ids = py_sorted_set notes,
             sh_reasons = py_sorted_set (reasons @ (if issues \<noteq> [] then [py ''source_issue_unresolved''] else []))\<rparr>)"

section \<open>Pinned bindings\<close>

definition opt_ref :: "source_ref option \<Rightarrow> json" where
  "opt_ref r = (case r of None \<Rightarrow> JNull | Some r \<Rightarrow> source_ref_asdict r)"

definition aggregation_asdict :: "aggregation_relation option \<Rightarrow> json" where
  "aggregation_asdict a = (case a of None \<Rightarrow> JNull | Some a \<Rightarrow> JObj
     [(py ''target_claim_id'', JStr (ag_target_claim_id a)), (py ''observation_ids'', JList (map JStr (ag_observation_ids a))),
      (py ''binding_sha256'', JStr (ag_binding_sha256 a)), (py ''source_refs'', JList (map source_ref_asdict (ag_source_refs a))),
      (py ''relation'', JStr (ag_relation a)), (py ''acceptance_state'', JStr (ag_acceptance_state a))])"

definition condition_asdict :: "numeric_condition \<Rightarrow> json" where
  "condition_asdict c = JObj
     [(py ''source_ref'', source_ref_asdict (nd_source_ref c)), (py ''observation_ids'', JList (map JStr (nd_observation_ids c))),
      (py ''binding_sha256'', JStr (nd_binding_sha256 c)), (py ''relation'', JStr (nd_relation c)), (py ''acceptance_state'', JStr (nd_acceptance_state c)),
      (py ''reviewed_by'', JStr (nd_reviewed_by c))]"

definition binding_fields :: "claim_binding \<Rightarrow> (pystr \<times> json) list" where
  "binding_fields b =
     [(py ''claim_id'', JStr (cb_claim_id b)), (py ''tenant_id'', JStr (cb_tenant_id b)), (py ''document_version_id'', JStr (cb_document_version_id b)),
      (py ''kind'', JStr (check_kind_text (cb_kind b))), (py ''observation_ids'', JList (map JStr (cb_observation_ids b))),
      (py ''reported_value'', opt_str (cb_reported_value b)), (py ''metric_raw'', JStr (cb_metric_raw b)), (py ''scope'', opt_str (cb_scope b)),
      (py ''subject'', opt_str (cb_subject b)), (py ''scope2_basis'', opt_str (cb_scope2_basis b)),
      (py ''organizational_boundary'', opt_str (cb_organizational_boundary b)), (py ''unit'', opt_str (cb_unit b)),
      (py ''denominator'', opt_str (cb_denominator b)), (py ''source_refs'', JList (map source_ref_asdict (cb_source_refs b))),
      (py ''parse_manifest_id'', opt_str (cb_parse_manifest_id b)), (py ''reporting_period'', opt_str (cb_reporting_period b)),
      (py ''quantity_kind'', opt_str (cb_quantity_kind b)), (py ''baseline_period'', opt_str (cb_baseline_period b)),
      (py ''reported_value_ref'', opt_ref (cb_reported_value_ref b)), (py ''binding_accepted'', JBool (cb_binding_accepted b)),
      (py ''aggregation'', aggregation_asdict (cb_aggregation b)), (py ''baseline_subject'', opt_str (cb_baseline_subject b)),
      (py ''subject_ref'', opt_ref (cb_subject_ref b)), (py ''baseline_subject_ref'', opt_ref (cb_baseline_subject_ref b)),
      (py ''product_comparison_accepted'', JBool (cb_product_comparison_accepted b)), (py ''conditions'', JList (map condition_asdict (cb_conditions b)))]"

definition without_keys :: "pystr list \<Rightarrow> (pystr \<times> json) list \<Rightarrow> json" where
  "without_keys ks d = JObj (filter (\<lambda>kv. fst kv \<notin> set ks) d)"

definition condition_binding_hash :: "platform \<Rightarrow> claim_binding \<Rightarrow> pystr result" where
  "condition_binding_hash P b = canonical_hash P (without_keys [py ''conditions''] (binding_fields (b\<lparr>cb_conditions := []\<rparr>)))"

definition condition_valid :: "platform \<Rightarrow> claim_binding \<Rightarrow> numeric_snapshot \<Rightarrow> numeric_observation list \<Rightarrow> pystr \<Rightarrow> numeric_condition \<Rightarrow> bool" where
  "condition_valid P b s items digest c \<longleftrightarrow>
     (let r = nd_source_ref c in nd_acceptance_state c = py ''accepted'' \<and> nd_relation c = py ''same_basis_for_selected_observations''
      \<and> py_strip (nd_reviewed_by c) \<noteq> [] \<and> nd_observation_ids c = cb_observation_ids b \<and> nd_binding_sha256 c = digest \<and> span_verified P s r
      \<and> (case blocks_by_id s (sr_source_id r) of None \<Rightarrow> False
         | Some k \<Rightarrow> nb_kind k = py ''footnote'' \<and> (case winner_of k of None \<Rightarrow> False | Some w \<Rightarrow> sr_quote r = nat_raw_text (nc_source w)))
      \<and> list_all (\<lambda>x. list_ex (\<lambda>e. ne_source_id e = sr_source_id r \<and> ne_relation e = py ''footnote_of'' \<and> ne_target_id e \<in> set (note_targets x s)) (ns_edges s)) items)"

definition validated_condition_ids :: "platform \<Rightarrow> claim_binding \<Rightarrow> numeric_snapshot \<Rightarrow> numeric_observation list \<Rightarrow> pystr list result" where
  "validated_condition_ids P b s items =
     (if \<not> cb_binding_accepted b \<or> cb_kind b \<notin> {Growth, Product_reduction} then Inr []
      else if map no_observation_id items \<noteq> cb_observation_ids b \<or> items = [] then Inr []
      else bindE (condition_binding_hash P b) (\<lambda>digest.
        Inr (py_unique (map (\<lambda>c. sr_source_id (nd_source_ref c)) (filter (condition_valid P b s items digest) (cb_conditions b))))))"

definition matches_binding :: "claim_binding \<Rightarrow> numeric_observation \<Rightarrow> pystr option \<Rightarrow> pystr option \<Rightarrow> bool" where
  "matches_binding b x period override \<longleftrightarrow> opt_truthy period \<and> opt_truthy (cb_unit b) \<and> cb_metric_raw b \<noteq> []
     \<and> ((cb_quantity_kind b = Some (py ''absolute'') \<and> cb_denominator b = None) \<or> (cb_quantity_kind b = Some (py ''intensity'') \<and> opt_truthy (cb_denominator b)))
     \<and> Some (no_reporting_period x) = period
     \<and> no_metric_raw x = cb_metric_raw b \<and> no_scope x = cb_scope b \<and> no_subject x = (if override \<noteq> None then override else cb_subject b)
     \<and> no_scope2_basis x = cb_scope2_basis b \<and> no_organizational_boundary x = cb_organizational_boundary b
     \<and> no_unit_canonical x = cb_unit b \<and> no_denominator x = cb_denominator b
     \<and> \<not> ((case cb_unit b of None \<Rightarrow> False | Some u \<Rightarrow> 47 \<in> set u) \<and> \<not> opt_truthy (cb_denominator b))"

definition product_subjects_verified :: "platform \<Rightarrow> claim_binding \<Rightarrow> numeric_claim option \<Rightarrow> numeric_snapshot \<Rightarrow> bool" where
  "product_subjects_verified P b claim s \<longleftrightarrow> cb_product_comparison_accepted b \<and> opt_truthy (cb_subject b) \<and> opt_truthy (cb_baseline_subject b)
     \<and> cb_subject b \<noteq> cb_baseline_subject b
     \<and> (case (claim, cb_subject_ref b, cb_baseline_subject_ref b) of
          (Some m, Some current, Some baseline) \<Rightarrow> Some (sr_quote current) = cb_subject b \<and> Some (sr_quote baseline) = cb_baseline_subject b
            \<and> span_verified P s current \<and> span_verified P s baseline
            \<and> list_all (\<lambda>r. list_ex (within_ref r) (nm_source_refs m)) [current, baseline]
        | _ \<Rightarrow> False)"

definition OLD_KEYS :: "pystr list" where
  "OLD_KEYS = [py ''baseline_subject'', py ''subject_ref'', py ''baseline_subject_ref'', py ''product_comparison_accepted'', py ''conditions'']"

definition aggregation_verified :: "platform \<Rightarrow> claim_binding \<Rightarrow> numeric_snapshot \<Rightarrow> numeric_observation list \<Rightarrow> bool result" where
  "aggregation_verified P b s items =
     (let d = binding_fields (b\<lparr>cb_aggregation := None\<rparr>);
          old = (cb_baseline_subject b = None \<and> cb_subject_ref b = None \<and> cb_baseline_subject_ref b = None
                 \<and> \<not> cb_product_comparison_accepted b \<and> cb_conditions b = []);
          roots = map (\<lambda>x. set (map fst (no_parent_relations x))) items in
      bindE (canonical_hash P (JObj d)) (\<lambda>h.
      bindE (if old then bindE (canonical_hash P (without_keys OLD_KEYS d)) (\<lambda>h'. Inr [h, h']) else Inr [h]) (\<lambda>hashes.
        Inr (list_all (\<lambda>x. length (relation_roots x) = 1) items \<and> distinct roots
          \<and> (case cb_aggregation b of None \<Rightarrow> False
             | Some a \<Rightarrow> ag_acceptance_state a = py ''accepted'' \<and> ag_relation a = py ''disjoint_complete_components''
                 \<and> ag_target_claim_id a = cb_claim_id b \<and> ag_observation_ids a = cb_observation_ids b \<and> ag_binding_sha256 a \<in> set hashes
                 \<and> ag_source_refs a \<noteq> [] \<and> list_all (span_verified P s) (ag_source_refs a))))))"

section \<open>The check\<close>

definition check_result_of ::
  "claim_binding \<Rightarrow> check_status \<Rightarrow> pystr option \<Rightarrow> pystr option \<Rightarrow> numeric_observation list \<Rightarrow> (pystr \<times> pystr) option \<Rightarrow> check_result" where
  "check_result_of b status computed reason items ratio =
     \<lparr>ck_claim_id = cb_claim_id b, ck_kind = cb_kind b, ck_status = status, ck_reported_value = cb_reported_value b, ck_computed_value = computed,
      ck_observation_ids = cb_observation_ids b,
      ck_source_refs = py_unique (cb_source_refs b @ concat (map no_source_refs items) @ (case cb_aggregation b of None \<Rightarrow> [] | Some a \<Rightarrow> ag_source_refs a)),
      ck_reason = reason, ck_exact_ratio = ratio\<rparr>"

definition unresolved :: "claim_binding \<Rightarrow> check_status \<Rightarrow> string \<Rightarrow> numeric_observation list \<Rightarrow> check_result" where
  "unresolved b status reason items = check_result_of b status None (Some (py reason)) items None"

definition rate :: "check_kind \<Rightarrow> rat \<Rightarrow> rat \<Rightarrow> rat" where
  "rate k b c = (if k = Growth then (c / b - 1) * 100 else (1 - c / b) * 100)"

definition rate_interval :: "check_kind \<Rightarrow> interval \<Rightarrow> interval \<Rightarrow> interval" where
  "rate_interval k base current =
     (let corners = [rate k (fst base) (fst current), rate k (fst base) (snd current), rate k (snd base) (fst current), rate k (snd base) (snd current)]
      in (Min (set corners), Max (set corners)))"

definition interval_sum :: "interval list \<Rightarrow> interval" where
  "interval_sum xs = (sum_list (map fst xs), sum_list (map snd xs))"

definition verdict :: "claim_binding \<Rightarrow> numeric_observation list \<Rightarrow> rat \<times> interval \<Rightarrow> rat \<times> interval \<Rightarrow> check_result" where
  "verdict b items reported x =
     (let (computed, interval) = x; dec = exact_decimal computed;
          status = (if fst interval \<le> snd (snd reported) \<and> fst (snd reported) \<le> snd interval then Consistent else Inconsistent)
      in check_result_of b status dec (if dec = None then Some (py ''non_terminating_decimal'') else None) items
           (if dec = None then Some (dec_of_int (fst (quotient_of computed)), dec_of_int (snd (quotient_of computed))) else None))"

definition compute :: "platform \<Rightarrow> claim_binding \<Rightarrow> numeric_snapshot \<Rightarrow> numeric_observation list \<Rightarrow> (rat \<times> interval) list \<Rightarrow> rat \<times> interval \<Rightarrow> check_result result" where
  "compute P b s items numbers reported = (case cb_kind b of
       Comparison \<Rightarrow> Inr (verdict b items reported (hd numbers))
     | Sum_check \<Rightarrow> bindE (aggregation_verified P b s items) (\<lambda>ok.
         Inr (if \<not> ok then unresolved b Not_comparable ''aggregation_relation_unresolved'' []
              else verdict b items reported (sum_list (map fst numbers), interval_sum (map snd numbers))))
     | _ \<Rightarrow> (case numbers of [(baseline, bounds), (current, current_bounds)] \<Rightarrow>
           Inr (if fst bounds \<le> 0 \<and> 0 \<le> snd bounds then unresolved b Not_computable ''zero_baseline_interval'' []
                else verdict b items reported (rate (cb_kind b) baseline current, rate_interval (cb_kind b) bounds current_bounds))
         | _ \<Rightarrow> Inl (ValueError ''not enough values to unpack'')))"

text \<open>The comparability guard: periods, products and dimensions.\<close>

definition comparable :: "platform \<Rightarrow> claim_binding \<Rightarrow> numeric_claim option \<Rightarrow> numeric_snapshot \<Rightarrow> numeric_observation list \<Rightarrow> check_result option" where
  "comparable P b claim s items =
     (let n = length items; temporal = (cb_kind b \<in> {Reduction, Growth}); product = (cb_kind b = Product_reduction);
          periods = (if temporal then [cb_baseline_period b, cb_reporting_period b] else replicate n (cb_reporting_period b));
          period_ok = (if temporal then cb_baseline_period b \<noteq> cb_reporting_period b
             else if product then cb_baseline_period b = cb_reporting_period b else True);
          overrides = (if product then [cb_baseline_subject b, cb_subject b] else replicate n None);
          product_ok = (\<not> product \<or> product_subjects_verified P b claim s);
          dimensions_ok = list_all (\<lambda>(x, p, o'). matches_binding b x p o') (zip items (zip periods overrides))
      in if \<not> list_all is_supported_period periods then Some (unresolved b Not_comparable ''reporting_period_unresolved'' [])
         else if \<not> period_ok \<or> \<not> product_ok \<or> \<not> dimensions_ok
           then Some (unresolved b Not_comparable (if product \<and> \<not> product_ok then ''product_comparison_unaccepted'' else ''dimension_mismatch'') [])
         else None)"

definition check_binding ::
  "platform \<Rightarrow> (pystr \<rightharpoonup> numeric_observation) \<Rightarrow> (pystr \<rightharpoonup> numeric_claim) \<Rightarrow> numeric_snapshot option \<Rightarrow> claim_binding \<Rightarrow> check_result result" where
  "check_binding P indexed claims original b =
     (let selected = List.map_filter indexed (cb_observation_ids b); claim = claims (cb_claim_id b) in
      if list_ex (\<lambda>x. snapshot_version (no_identity x) \<noteq> cb_document_version_id b) selected then Inl (ValueError ''binding document version mismatch'')
      else if length selected \<noteq> length (cb_observation_ids b) then Inr (unresolved b Not_computable ''observation_missing'' [])
      else case original of None \<Rightarrow> Inr (unresolved b Not_computable ''claim_source_unresolved'' [])
        | Some s \<Rightarrow>
            if \<not> claim_verified P b claim s then Inr (unresolved b Not_computable ''claim_source_unresolved'' [])
            else if unresolved_source_issue_ids s (map sr_source_id (cb_source_refs b @ concat (map no_source_refs selected)) @ map no_table_id selected) \<noteq> []
              then Inr (unresolved b Not_computable ''source_issue_unresolved'' selected)
            else bindE (validated_condition_ids P b s selected) (\<lambda>accepted.
              if list_ex (unresolved_footnotes P s accepted) selected then Inr (unresolved b Not_computable ''footnote_conditions_unresolved'' selected)
              else
              let displays = map (observation_display P s) selected;
                  reported = display (case cb_reported_value b of None \<Rightarrow> [] | Some v \<Rightarrow> v) 1 in
              case reported of None \<Rightarrow> Inr (unresolved b Not_computable ''value_missing_or_unresolved'' [])
              | Some reported \<Rightarrow>
                  if None \<in> set displays then Inr (unresolved b Not_computable ''value_missing_or_unresolved'' [])
                  else case comparable P b claim s selected of Some r \<Rightarrow> Inr r
                    | None \<Rightarrow> compute P b s selected (List.map_filter id displays) reported))"

definition check_numeric_consistency ::
  "platform \<Rightarrow> numeric_observation list \<Rightarrow> claim_binding list \<Rightarrow> pystr \<Rightarrow> numeric_claim list \<Rightarrow> numeric_snapshot option \<Rightarrow> check_result list result" where
  "check_numeric_consistency P observations bindings tenant claims original =
     (if py_duplicates (map no_observation_id observations) \<or> py_duplicates (map nm_claim_id claims) then Inl (ValueError ''duplicate observation or claim'')
      else if list_ex (\<lambda>x. snapshot_tenant (no_identity x) \<noteq> tenant) observations \<or> list_ex (\<lambda>b. cb_tenant_id b \<noteq> tenant) bindings
          \<or> list_ex (\<lambda>m. snapshot_tenant (nm_identity m) \<noteq> tenant) claims
          \<or> (case original of None \<Rightarrow> False | Some s \<Rightarrow> snapshot_tenant (ns_identity s) \<noteq> tenant) then Inl (ValueError ''numeric tenant mismatch'')
      else if py_duplicates (map cb_claim_id bindings) then Inl (ValueError ''duplicate claim binding'')
      else mapE (check_binding P (dict_of (map (\<lambda>x. (no_observation_id x, x)) observations)) (dict_of (map (\<lambda>m. (nm_claim_id m, m)) claims)) original) bindings)"

end
