(* ===== verification/Numeric_Interval.thy ===== *)
theory Numeric_Interval
  imports Numeric_Check
begin

text \<open>
  Interval arithmetic of the numeric checks. A displayed number stands for the interval of values that round to it. The rate of two intervals is enclosed by its
  values at the corners, and every value in between is the rate of some pair: the reciprocal of a baseline interval without zero is an interval, and the rate is
  affine in the reciprocal and in the current value, so a path along two edges of the rectangle takes every value between two corners.
\<close>

section \<open>Affine and bilinear forms\<close>


definition between :: "rat \<Rightarrow> rat \<Rightarrow> rat \<Rightarrow> bool" where
  "between p q x \<longleftrightarrow> min p q \<le> x \<and> x \<le> max p q"

lemma between_via: "lo \<le> t \<Longrightarrow> t \<le> hi \<Longrightarrow> between lo m t \<or> between m hi t"
  by (auto simp: between_def min_def max_def)

lemma affine_mono: "p \<le> (x::rat) \<Longrightarrow> if 0 \<le> k then k * p + d \<le> k * x + d else k * x + d \<le> k * p + d"
  by (simp add: mult_left_mono mult_left_mono_neg)

lemma affine_enclosed: "between p q x \<Longrightarrow> between (k * p + d) (k * q + d) (k * x + d)"
  using affine_mono [of p x k d] affine_mono [of x p k d] affine_mono [of q x k d] affine_mono [of x q k d]
  by (auto simp: between_def min_def max_def split: if_splits)

lemma affine_onto:
  assumes "between (k * p + d) (k * q + d) t"
  shows "\<exists>x. between p q x \<and> k * x + d = t"
proof (cases "k = 0")
  case True
  with assms show ?thesis by (auto simp: between_def intro: exI [of _ p])
next
  case False
  have inv: "1 / k * (k * z + d) + - d / k = z" for z using False by (simp add: add_divide_distrib distrib_left)
  have "1 / k * t + - d / k = (t - d) / k" by (simp add: diff_divide_distrib)
  with affine_enclosed [OF assms, of "1 / k" "- d / k"] have "between p q ((t - d) / k)" by (simp only: inv)
  moreover have "k * ((t - d) / k) + d = t" using False by simp
  ultimately show ?thesis by blast
qed

text \<open>The values of a bilinear form at the corners of two intervals.\<close>

definition corners :: "rat \<Rightarrow> rat \<Rightarrow> interval \<Rightarrow> interval \<Rightarrow> rat set" where
  "corners a d u c = (\<lambda>(x, y). a * (y * x) + d) ` ({fst u, snd u} \<times> {fst c, snd c})"

lemma corners_set:
  "corners a d (p, q) (r, s) = {a * (r * p) + d, a * (s * p) + d, a * (r * q) + d, a * (s * q) + d}"
  by (auto simp: corners_def)

lemma between_Min_Max:
  assumes "finite S" "x \<in> S" "y \<in> S" "between x y t"
  shows "Min S \<le> t \<and> t \<le> Max S"
proof
  have "Min S \<le> min x y" using assms by simp
  then show "Min S \<le> t" using assms(4) unfolding between_def by (blast intro: order_trans)
  have "max x y \<le> Max S" using assms by simp
  then show "t \<le> Max S" using assms(4) unfolding between_def by (blast intro: order_trans)
qed

lemma bilinear_enclosed:
  assumes "between p q x" "between r s y"
  shows "Min (corners a d (p, q) (r, s)) \<le> a * (y * x) + d \<and> a * (y * x) + d \<le> Max (corners a d (p, q) (r, s))"
proof -
  let ?S = "corners a d (p, q) (r, s)"
  have edge: "Min ?S \<le> a * (z * x) + d \<and> a * (z * x) + d \<le> Max ?S" if "z \<in> {r, s}" for z
    using affine_enclosed [OF assms(1), of "a * z" d] that
    by (intro between_Min_Max [of _ "a * (z * p) + d" "a * (z * q) + d"]) (auto simp: corners_set mult.assoc)
  have "between (a * (r * x) + d) (a * (s * x) + d) (a * (y * x) + d)"
    using affine_enclosed [OF assms(2), of "a * x" d] by (simp add: ac_simps)
  then show ?thesis using edge [of r] edge [of s] by (auto simp: between_def min_def max_def split: if_splits)
qed

lemma bilinear_onto:
  assumes "Min (corners a d (p, q) (r, s)) \<le> t" "t \<le> Max (corners a d (p, q) (r, s))"
  shows "\<exists>x y. between p q x \<and> between r s y \<and> a * (y * x) + d = t"
proof -
  let ?S = "corners a d (p, q) (r, s)"
  have "Min ?S \<in> ?S" "Max ?S \<in> ?S" by (intro Min_in Max_in; simp add: corners_def)+
  then obtain x y x' y' where xy: "x \<in> {p, q}" "y \<in> {r, s}" "Min ?S = a * (y * x) + d"
    and xy': "x' \<in> {p, q}" "y' \<in> {r, s}" "Max ?S = a * (y' * x') + d" by (auto simp: corners_def)
  have bx: "between p q z" if "between x x' z" for z using that xy(1) xy'(1) by (auto simp: between_def min_def max_def split: if_splits)
  have bx': "between p q x'" using xy'(1) by (auto simp: between_def)
  have by': "between r s z" if "between y y' z" for z using that xy(2) xy'(2) by (auto simp: between_def min_def max_def split: if_splits)
  have by0: "between r s y" using xy(2) by (auto simp: between_def)
  consider "between (a * y * x + d) (a * y * x' + d) t" | "between (a * x' * y + d) (a * x' * y' + d) t"
    using between_via [of "a * (y * x) + d" t "a * (y' * x') + d" "a * (y * x') + d"] assms unfolding xy(3) xy'(3) by (auto simp: ac_simps)
  then show ?thesis
  proof cases
    case 1
    then obtain z where "between x x' z" "a * (y * z) + d = t" using affine_onto by (metis mult.assoc)
    with bx by0 show ?thesis by blast
  next
    case 2
    then obtain z where "between y y' z" "a * (z * x') + d = t" using affine_onto by (metis mult.assoc mult.commute)
    with bx' by' show ?thesis by blast
  qed
qed


section \<open>Rates and sums over rounding intervals\<close>

definition holds_in :: "rat \<Rightarrow> interval \<Rightarrow> bool" where
  "holds_in x i \<longleftrightarrow> fst i \<le> x \<and> x \<le> snd i"

lemma holds_in_between: "p \<le> q \<Longrightarrow> holds_in x (p, q) \<longleftrightarrow> between p q x"
  by (auto simp: holds_in_def between_def)

lemma inverse_between:
  assumes "p \<le> q" "\<not> holds_in 0 (p, q)"
  shows "between p q x \<Longrightarrow> between (inverse p) (inverse q) (inverse x)"
    and "between (inverse p) (inverse q) y \<Longrightarrow> between p q (inverse y)"
proof -
  have *: "between (inverse p) (inverse q) (inverse x)" if "p \<le> q" "\<not> holds_in 0 (p, q)" "between p q x" for p q x :: rat
  proof (cases "0 < p")
    case True
    with that show ?thesis by (auto simp: between_def holds_in_def min_def max_def intro: le_imp_inverse_le)
  next
    case False
    with that show ?thesis by (auto simp: between_def holds_in_def min_def max_def intro: le_imp_inverse_le_neg)
  qed
  then show "between p q x \<Longrightarrow> between (inverse p) (inverse q) (inverse x)" using assms by blast
  assume y: "between (inverse p) (inverse q) y"
  have "inverse q \<le> inverse p" "\<not> holds_in 0 (inverse q, inverse p)"
    using assms by (auto simp: holds_in_def intro: le_imp_inverse_le le_imp_inverse_le_neg)
  moreover have "between (inverse q) (inverse p) y" using y by (simp add: between_def min.commute max.commute)
  ultimately have "between (inverse (inverse q)) (inverse (inverse p)) (inverse y)" using * by blast
  then show "between p q (inverse y)" by (simp add: between_def min.commute max.commute)
qed

lemma rate_affine:
  "rate k b c = (if k = Growth then 100 else -100) * (c * inverse b) + (if k = Growth then -100 else 100)"
  by (simp add: rate_def divide_inverse algebra_simps)

lemma rate_interval_corners:
  "rate_interval k (p, q) c =
    (Min (corners (if k = Growth then 100 else -100) (if k = Growth then -100 else 100) (inverse p, inverse q) c),
     Max (corners (if k = Growth then 100 else -100) (if k = Growth then -100 else 100) (inverse p, inverse q) c))"
  by (cases c) (simp only: rate_interval_def rate_affine corners_set Let_def fst_conv snd_conv list.set)

lemma rate_interval_is_range:
  assumes "p \<le> q" "\<not> holds_in 0 (p, q)" "r \<le> s"
  shows "holds_in t (rate_interval k (p, q) (r, s)) \<longleftrightarrow> (\<exists>b c. holds_in b (p, q) \<and> holds_in c (r, s) \<and> rate k b c = t)"
    (is "?L \<longleftrightarrow> ?R")
proof
  assume ?L
  then obtain x y where xy: "between (inverse p) (inverse q) x" "between r s y"
    "(if k = Growth then 100 else -100) * (y * x) + (if k = Growth then -100 else 100) = t"
    unfolding rate_interval_corners holds_in_def fst_conv snd_conv using bilinear_onto by blast
  then have "rate k (inverse x) y = t" by (simp add: rate_affine)
  then show ?R using xy(2) inverse_between(2) [OF assms(1,2) xy(1)] assms by (auto simp: holds_in_between)
next
  assume ?R
  then obtain b c where "between p q b" "between r s c" "rate k b c = t" using assms by (auto simp: holds_in_between)
  then show ?L using bilinear_enclosed [OF inverse_between(1) [OF assms(1,2)]]
    unfolding rate_interval_corners holds_in_def fst_conv snd_conv rate_affine by blast
qed

lemma interval_sum_is_range:
  assumes "list_all (\<lambda>i. fst i \<le> snd i) is"
  shows "holds_in t (interval_sum is) \<longleftrightarrow> (\<exists>vs. list_all2 holds_in vs is \<and> sum_list vs = t)"
  using assms
proof (induction "is" arbitrary: t)
  case Nil
  then show ?case by (auto simp: interval_sum_def holds_in_def)
next
  case (Cons i "is")
  have le: "fst (interval_sum is) \<le> snd (interval_sum is)"
    using Cons.prems by (auto simp: interval_sum_def list_all_iff intro!: sum_list_mono)
  have cons: "interval_sum (i # is) = (fst i + fst (interval_sum is), snd i + snd (interval_sum is))" by (simp add: interval_sum_def)
  have ex: "holds_in t (interval_sum (i # is)) \<longleftrightarrow> (\<exists>v. holds_in v i \<and> holds_in (t - v) (interval_sum is))" (is "?L = ?R")
  proof
    assume ?L
    then have "holds_in (max (fst i) (t - snd (interval_sum is))) i \<and> holds_in (t - max (fst i) (t - snd (interval_sum is))) (interval_sum is)"
      using Cons.prems le by (auto simp: cons holds_in_def max_def algebra_simps)
    then show ?R by blast
  qed (auto simp: cons holds_in_def)
  have "(\<exists>v. holds_in v i \<and> holds_in (t - v) (interval_sum is)) \<longleftrightarrow> (\<exists>v vs. holds_in v i \<and> list_all2 holds_in vs is \<and> sum_list vs = t - v)"
    using Cons by auto
  also have "\<dots> \<longleftrightarrow> (\<exists>vs. list_all2 holds_in vs (i # is) \<and> sum_list vs = t)"
    unfolding list_all2_Cons2 by (metis add.commute add_diff_cancel_right' diff_add_cancel sum_list.Cons)
  finally show ?case unfolding ex .
qed


lemma overlap_iff:
  assumes "fst i \<le> snd i" "fst j \<le> snd j"
  shows "fst i \<le> snd j \<and> fst j \<le> snd i \<longleftrightarrow> (\<exists>t. holds_in t i \<and> holds_in t j)"
proof
  assume "fst i \<le> snd j \<and> fst j \<le> snd i"
  then have "holds_in (max (fst i) (fst j)) i \<and> holds_in (max (fst i) (fst j)) j" using assms by (simp add: holds_in_def)
  then show "\<exists>t. holds_in t i \<and> holds_in t j" by blast
qed (auto simp: holds_in_def)

section \<open>The verdict of a computation\<close>

text \<open>\<open>formula\<close> is the arithmetic a check claims; \<open>can_all_be_true\<close> asks for exact values behind the displayed ones that satisfy it.\<close>

definition formula :: "check_kind \<Rightarrow> rat list \<Rightarrow> rat" where
  "formula k vs = (case k of Comparison \<Rightarrow> hd vs | Sum_check \<Rightarrow> sum_list vs | _ \<Rightarrow> rate k (vs ! 0) (vs ! 1))"

definition can_all_be_true :: "check_kind \<Rightarrow> interval list \<Rightarrow> interval \<Rightarrow> bool" where
  "can_all_be_true k operands reported \<longleftrightarrow> (\<exists>vs. list_all2 holds_in vs operands \<and> holds_in (formula k vs) reported)"

definition decided :: "check_result \<Rightarrow> bool" where
  "decided r \<longleftrightarrow> ck_status r \<in> {Consistent, Inconsistent}"

definition shown :: "rat \<times> interval \<Rightarrow> bool" where
  "shown d \<longleftrightarrow> fst (snd d) \<le> snd (snd d)"

lemma verdict_status:
  assumes "\<And>t. holds_in t i \<longleftrightarrow> (\<exists>vs. list_all2 holds_in vs operands \<and> formula k vs = t)" "fst i \<le> snd i" "shown reported"
  shows "ck_status (verdict b items reported (x, i)) = (if can_all_be_true k operands (snd reported) then Consistent else Inconsistent)"
  using overlap_iff [of i "snd reported"] assms
  unfolding verdict_def check_result_of_def can_all_be_true_def shown_def by (auto simp: Let_def)

lemma rate_interval_le: "fst (rate_interval k i j) \<le> snd (rate_interval k i j)"
  unfolding rate_interval_def Let_def fst_conv snd_conv by (rule order_trans [OF Min_le Max_ge]) auto

lemma interval_sum_le: "list_all (\<lambda>i. fst i \<le> snd i) is \<Longrightarrow> fst (interval_sum is) \<le> snd (interval_sum is)"
  by (auto simp: interval_sum_def list_all_iff intro!: sum_list_mono)

lemma rate_verdict_status:
  assumes "k \<notin> {Comparison, Sum_check}" "fst i \<le> snd i" "\<not> holds_in 0 i" "fst j \<le> snd j" "shown reported"
  shows "ck_status (verdict b items reported (x, rate_interval k i j)) = (if can_all_be_true k [i, j] (snd reported) then Consistent else Inconsistent)"
proof (rule verdict_status)
  fix t
  have "formula k [v, w] = rate k v w" for v w using assms(1) by (cases k) (simp_all add: formula_def)
  moreover have "list_all2 holds_in vs [i, j] \<longleftrightarrow> (\<exists>v w. vs = [v, w] \<and> holds_in v i \<and> holds_in w j)" for vs
    by (auto simp: list_all2_Cons2)
  ultimately have "(\<exists>vs. list_all2 holds_in vs [i, j] \<and> formula k vs = t) \<longleftrightarrow> (\<exists>v w. holds_in v i \<and> holds_in w j \<and> rate k v w = t)"
    by (simp only:) (metis (no_types, lifting))
  then show "holds_in t (rate_interval k i j) \<longleftrightarrow> (\<exists>vs. list_all2 holds_in vs [i, j] \<and> formula k vs = t)"
    using rate_interval_is_range [of "fst i" "snd i" "fst j" "snd j" t k] assms by simp
qed (use assms rate_interval_le in auto)

lemma decided_unresolved [simp]: "decided (unresolved b Not_computable m xs) = False" "decided (unresolved b Not_comparable m xs) = False"
  by (simp_all add: decided_def unresolved_def check_result_of_def)

lemma compute_rate:
  assumes "cb_kind b \<notin> {Comparison, Sum_check}" "compute P b s items numbers reported = Inr r" "decided r"
  obtains x i y j where "numbers = [(x, i), (y, j)]" "\<not> holds_in 0 i"
    "r = verdict b items reported (rate (cb_kind b) x y, rate_interval (cb_kind b) i j)"
proof -
  have eq: "compute P b s items numbers reported = (case numbers of [(baseline, bounds), (current, current_bounds)] \<Rightarrow>
      Inr (if fst bounds \<le> 0 \<and> 0 \<le> snd bounds then unresolved b Not_computable ''zero_baseline_interval'' []
           else verdict b items reported (rate (cb_kind b) baseline current, rate_interval (cb_kind b) bounds current_bounds))
      | _ \<Rightarrow> Inl (ValueError ''not enough values to unpack''))"
    using assms(1) unfolding compute_def by (cases "cb_kind b") simp_all
  from assms(2,3) show thesis unfolding eq
    by (simp add: holds_in_def split: list.splits prod.splits if_splits) (auto intro: that simp: holds_in_def)
qed

lemma compute_rate_exact:
  assumes "cb_kind b \<notin> {Comparison, Sum_check}" "compute P b s items numbers reported = Inr r" "decided r"
    and "list_all shown numbers" "shown reported"
  shows "ck_status r = (if can_all_be_true (cb_kind b) (map snd numbers) (snd reported) then Consistent else Inconsistent)"
proof -
  obtain x i y j where n: "numbers = [(x, i), (y, j)]" and i: "\<not> holds_in 0 i"
    and r: "r = verdict b items reported (rate (cb_kind b) x y, rate_interval (cb_kind b) i j)"
    using compute_rate [OF assms(1-3)] by blast
  show ?thesis unfolding r using rate_verdict_status [OF assms(1) _ i _ assms(5)] assms(4) by (simp add: n shown_def)
qed

lemma compute_is_exact:
  assumes "compute P b s items numbers reported = Inr r" "decided r"
    and "list_all shown numbers" "shown reported" "cb_kind b = Comparison \<longrightarrow> length numbers = 1"
  shows "ck_status r = (if can_all_be_true (cb_kind b) (map snd numbers) (snd reported) then Consistent else Inconsistent)"
proof (cases "cb_kind b")
  case Comparison
  with assms obtain x i where "numbers = [(x, i)]" by (auto simp: length_Suc_conv)
  moreover have "holds_in t i \<longleftrightarrow> (\<exists>vs. list_all2 holds_in vs [i] \<and> formula Comparison vs = t)" for t
    by (auto simp: formula_def list_all2_Cons2 intro: exI [of _ "[t]"])
  ultimately show ?thesis using verdict_status [of i "[i]" Comparison reported b items x] Comparison assms
    by (simp add: compute_def shown_def)
next
  case Sum_check
  let ?is = "map snd numbers"
  have le: "list_all (\<lambda>i. fst i \<le> snd i) ?is" using assms(3) by (simp add: list_all_iff shown_def)
  have r: "r = verdict b items reported (sum_list (map fst numbers), interval_sum ?is)"
    using assms(1,2) Sum_check by (auto simp: compute_def unresolved_def check_result_of_def decided_def bindE_Inr_iff split: if_splits)
  show ?thesis unfolding r
    by (rule verdict_status) (simp_all add: Sum_check formula_def interval_sum_is_range [OF le] interval_sum_le [OF le] assms(4))
qed (rule compute_rate_exact [OF _ assms(1-4)]; simp)+

section \<open>From a decided check to its computation\<close>

lemma display_shown: "display raw scale = Some d \<Longrightarrow> 0 < scale \<Longrightarrow> shown d"
  by (auto simp: display_def shown_def Let_def split: option.splits prod.splits)

lemma observation_display_shown: "observation_display P s x = Some d \<Longrightarrow> shown d"
  by (rule display_shown [of "no_value_raw x" "if case no_unit_raw x of None \<Rightarrow> False | Some u \<Rightarrow> py_startswith u thousand then 1000 else 1"])
    (simp_all add: observation_display_def Let_def split: if_splits option.splits prod.splits)

lemma map_filter_full: "length (List.map_filter f xs) = length xs \<Longrightarrow> map f xs = map Some (List.map_filter f xs)"
proof (induction xs)
  case (Cons x xs)
  have "length (List.map_filter f xs) \<le> length xs" by (simp add: map_filter_def)
  with Cons show ?case by (cases "f x") (auto simp: map_filter_simps)
qed simp

lemma map_filter_id_full: "None \<notin> set xs \<Longrightarrow> xs = map Some (List.map_filter id xs)"
proof (induction xs)
  case (Cons x xs)
  then show ?case by (cases x) (auto simp: map_filter_simps)
qed (simp add: map_filter_simps)

lemma comparable_undecided: "comparable P b claim s items = Some r \<Longrightarrow> \<not> decided r"
  by (auto simp: comparable_def Let_def split: if_splits)

lemma decided_check:
  assumes "check_binding P indexed claims original b = Inr r" "decided r"
  obtains s items numbers reported accepted where "original = Some s" "map indexed (cb_observation_ids b) = map Some items"
    "\<forall>x \<in> set items. snapshot_version (no_identity x) = cb_document_version_id b"
    "claim_verified P b (claims (cb_claim_id b)) s"
    "unresolved_source_issue_ids s (map sr_source_id (cb_source_refs b @ concat (map no_source_refs items)) @ map no_table_id items) = []"
    "validated_condition_ids P b s items = Inr accepted" "\<not> list_ex (unresolved_footnotes P s accepted) items"
    "map (observation_display P s) items = map Some numbers"
    "display (case cb_reported_value b of None \<Rightarrow> [] | Some v \<Rightarrow> v) 1 = Some reported"
    "comparable P b (claims (cb_claim_id b)) s items = None"
    "compute P b s items numbers reported = Inr r"
proof -
  let ?items = "List.map_filter indexed (cb_observation_ids b)"
  from assms obtain s accepted reported where *: "original = Some s" "length ?items = length (cb_observation_ids b)"
    "\<not> list_ex (\<lambda>x. snapshot_version (no_identity x) \<noteq> cb_document_version_id b) ?items"
    "claim_verified P b (claims (cb_claim_id b)) s"
    "unresolved_source_issue_ids s (map sr_source_id (cb_source_refs b @ concat (map no_source_refs ?items)) @ map no_table_id ?items) = []"
    "validated_condition_ids P b s ?items = Inr accepted" "\<not> list_ex (unresolved_footnotes P s accepted) ?items"
    "None \<notin> set (map (observation_display P s) ?items)"
    "display (case cb_reported_value b of None \<Rightarrow> [] | Some v \<Rightarrow> v) 1 = Some reported"
    "comparable P b (claims (cb_claim_id b)) s ?items = None"
    "compute P b s ?items (List.map_filter id (map (observation_display P s) ?items)) reported = Inr r"
    using comparable_undecided unfolding check_binding_def Let_def
    by (auto simp: bindE_Inr_iff split: if_splits option.splits)
  show thesis
    by (rule that [OF *(1) map_filter_full [OF *(2)] _ *(4-7) map_filter_id_full [OF *(8)] *(9-11)])
      (use *(3) in \<open>auto simp: list_ex_iff\<close>)
qed

end
