(* ===== verification/Numeric_Decimal.thy ===== *)
theory Numeric_Decimal
  imports Numeric_Text Budget_Cost
begin

text \<open>
  The decimal text of an exact amount (\<open>exact_decimal\<close>): which amounts have one, and that reading the text gives the amount back.
\<close>

section \<open>Denominators without other factors than two and five\<close>

lemma strip_factor_split:
  assumes "1 < f" "0 < d"
  shows "\<exists>k. d = f ^ k * strip_factor f d \<and> \<not> f dvd strip_factor f d"
  using assms
proof (induction f d rule: strip_factor.induct)
  case (1 f d)
  show ?case
  proof (cases "f dvd d")
    case True
    then obtain q where q: "d = f * q" by blast
    with 1(2,3) have "0 < q" by (cases q) auto
    have "strip_factor f (f * q) = strip_factor f q"
      using 1(2) \<open>0 < q\<close> by (subst strip_factor.simps) simp
    then have "strip_factor f d = strip_factor f q" by (simp only: q)
    moreover obtain k where "q = f ^ k * strip_factor f q \<and> \<not> f dvd strip_factor f q"
      using "1.IH" 1(2,3) q \<open>0 < q\<close> by auto
    ultimately show ?thesis by (metis mult.assoc power_Suc q)
  next
    case False
    then have "strip_factor f d = d" by (subst strip_factor.simps) (auto simp: dvd_eq_mod_eq_0)
    with False show ?thesis by (intro exI [of _ 0]) simp
  qed
qed

lemma coprime_5: "\<not> 5 dvd (n :: nat) \<Longrightarrow> coprime n 5"
proof (rule coprimeI)
  fix c :: nat
  assume n: "\<not> 5 dvd n" and c: "c dvd n" "c dvd 5"
  have "c \<in> {0, 1, 2, 3, 4, 5}" using dvd_imp_le [OF c(2)] by auto
  with n c show "is_unit c" by auto
qed

lemma two_five_split:
  assumes "0 < d"
  obtains a b where "d = 2 ^ a * 5 ^ b * strip_factor 5 (strip_factor 2 d)" "coprime (strip_factor 5 (strip_factor 2 d)) (10 :: nat)"
proof -
  let ?u = "strip_factor 2 d" and ?v = "strip_factor 5 (strip_factor 2 d)"
  obtain a where a: "d = 2 ^ a * ?u" "\<not> 2 dvd ?u" using strip_factor_split [of 2 d] assms by auto
  with assms have "0 < ?u" by (metis mult_0_right neq0_conv)
  then obtain b where b: "?u = 5 ^ b * ?v" "\<not> 5 dvd ?v" using strip_factor_split [of 5 ?u] by auto
  have two: "\<not> 2 dvd ?v" using a(2) b(1) by (metis dvd_mult)
  have "coprime ?v 2" using two by (simp add: coprime_right_2_iff_odd)
  moreover have "coprime ?v 5" by (rule coprime_5) (rule b(2))
  ultimately have "coprime ?v (2 * 5)" by (simp only: coprime_mult_right_iff)
  moreover have "d = 2 ^ a * 5 ^ b * ?v" using a(1) b(1) by (metis mult.assoc)
  ultimately show thesis using that by simp
qed

text \<open>A denominator with only these factors divides a power of ten that its number of digits bounds.\<close>

lemma two_five_dvd:
  assumes "d = 2 ^ a * 5 ^ b" "d < 10 ^ n"
  shows "(d :: nat) dvd 10 ^ (4 * n)"
proof -
  have "(10 :: nat) ^ n \<le> 16 ^ n" by (simp add: power_mono)
  also have "\<dots> = 2 ^ (4 * n)" by (simp add: power_mult)
  finally have lt: "d < 2 ^ (4 * n)" using assms(2) by simp
  have "(2 :: nat) ^ a \<le> d" "(5 :: nat) ^ b \<le> d" unfolding assms(1) by simp_all
  moreover have "(2 :: nat) ^ b \<le> 5 ^ b" by (rule power_mono) simp_all
  ultimately have "(2 :: nat) ^ a < 2 ^ (4 * n)" "(2 :: nat) ^ b < 2 ^ (4 * n)" using lt by linarith+
  then have "a \<le> 4 * n" "b \<le> 4 * n" by simp_all
  then have "(2 :: nat) ^ a * 5 ^ b dvd 2 ^ (4 * n) * 5 ^ (4 * n)" by (intro mult_dvd_mono le_imp_power_dvd)
  then show ?thesis unfolding assms(1) by (simp flip: power_mult_distrib)
qed

section \<open>The division is exact\<close>

lemma coefficient_bound:
  assumes "dec_value s = of_int n / of_int d" "n < 10 ^ m" "- int (4 * l) \<le> snd s" "0 \<le> n" "0 < d"
  shows "fst s < 10 ^ (m + l * 4 + 1)"
proof -
  let ?k = "nat (- snd s)"
  have "?k \<le> l * 4" using assms(3) by simp
  have "of_int n / of_int d \<le> (of_int n :: rat)" using assms(4,5) by (simp add: divide_le_eq mult_le_cancel_left1)
  with assms(1) have le: "dec_value s \<le> of_int n" by simp
  have "of_int (fst s) \<le> (of_int n :: rat) * 10 ^ ?k"
  proof (cases "0 \<le> snd s")
    case True
    show ?thesis
    proof (cases "0 \<le> fst s")
      case pos: True
      have "of_int (fst s) * 1 \<le> (of_int (fst s) :: rat) * 10 ^ nat (snd s)" by (rule mult_left_mono) (use pos in simp_all)
      with le True show ?thesis by (simp add: dec_value_def)
    qed (use True assms(4) in simp)
  next
    case False
    with le show ?thesis by (simp add: dec_value_def field_simps)
  qed
  also have "\<dots> \<le> of_int n * 10 ^ (l * 4)" using assms(4) \<open>?k \<le> l * 4\<close> by (intro mult_left_mono power_increasing) simp_all
  also have "\<dots> < 10 ^ m * 10 ^ (l * 4)"
  proof (rule mult_strict_right_mono)
    have "(of_int n :: rat) < of_int (10 ^ m)" using assms(2) by (simp only: of_int_less_iff)
    then show "(of_int n :: rat) < 10 ^ m" by simp
  qed simp
  also have "\<dots> \<le> 10 ^ (m + l * 4 + 1)" by (simp add: power_add)
  finally have "of_int (fst s) < (of_int (10 ^ (m + l * 4 + 1)) :: rat)" by simp
  then show ?thesis by (simp only: of_int_less_iff)
qed

lemma dec_value_neg: "dec_value (c, - int k) = of_int c / 10 ^ k"
  by (cases k) (simp_all add: dec_value_def nat_add_distrib)

lemma dec_div_exact:
  assumes "0 \<le> n" "0 < d" "(d :: int) dvd 10 ^ (4 * l)" "l = length (dec_of_nat (nat d))"
  defines "q \<equiv> dec_div (length (dec_of_nat (nat n)) + l * 4 + 1) (n, 0) (d, 0)"
  shows "dec_value q = of_int n / of_int d" "0 \<le> fst q"
proof -
  let ?p = "length (dec_of_nat (nat n)) + l * 4 + 1"
  have "dec_value q = of_int n / of_int d \<and> 0 \<le> fst q"
  proof (cases "n = 0")
    case True
    then show ?thesis by (simp add: q_def dec_div_def Let_def dec_value_def)
  next
    case False
    obtain c where c: "10 ^ (4 * l) = d * c" using assms(3) by blast
    have "0 < c" using c assms(2) by (metis zero_less_mult_pos zero_less_numeral zero_less_power)
    have shift: "int (dec_digits (d, 0)) - int (dec_digits (n, 0)) + int ?p + 1 = int (4 * l + (l + 2))"
      using assms(1,2,4) by (simp add: dec_digits_def)
    have x: "n * 10 ^ nat (int (4 * l + (l + 2))) = d * (n * c * 10 ^ (l + 2))"
      unfolding nat_int power_add c by simp
    let ?s = "strip_zeros 0 (n * c * 10 ^ (l + 2)) (- int (4 * l + (l + 2)))"
    have q: "q = dec_fix ?p ?s"
      using False assms(2) unfolding q_def dec_div_def Let_def fst_conv snd_conv shift x by simp
    have "dec_value ?s = dec_value (n * c * 10 ^ (l + 2), - int (4 * l + (l + 2)))" by (rule strip_zeros_value)
    also have "\<dots> = dec_value (n * c, - int (4 * l))"
      using dec_value_shift [of "int (l + 2)" "n * c" "- int (4 * l)"] unfolding nat_int by (simp add: algebra_simps)
    also have "\<dots> = of_int (n * c) / 10 ^ (4 * l)" by (rule dec_value_neg)
    also have "\<dots> = of_int (n * c) / of_int (d * c)" by (simp flip: c)
    also have "\<dots> = of_int n / of_int d" using \<open>0 < c\<close> by simp
    finally have v: "dec_value ?s = of_int n / of_int d" .
    have pos: "0 \<le> fst ?s" using assms(1) \<open>0 < c\<close> by (intro strip_zeros_sign) simp
    have e: "- int (4 * l) \<le> snd ?s" using strip_zeros_exponent [of "- int (4 * l + (l + 2))" "l + 2" 0 "n * c"] by simp
    have "n < 10 ^ length (dec_of_nat (nat n))"
      using dec_length_le_iff [of "length (dec_of_nat (nat n))" "nat n"] assms(1) by (simp add: nat_less_iff)
    then have "fst ?s < 10 ^ ?p" by (rule coefficient_bound [OF v _ e assms(1,2)])
    then have "dec_digits ?s \<le> ?p" using pos by (simp add: dec_digits_def dec_length_le_iff nat_less_iff)
    then show ?thesis using q v pos by (simp add: dec_fix_def)
  qed
  then show "dec_value q = of_int n / of_int d" "0 \<le> fst q" by blast+
qed

section \<open>Texts\<close>

lemma text_parts:
  assumes "0 \<le> fst d"
  shows "\<exists>w f. w \<noteq> [] \<and> (\<forall>c \<in> set (w @ f). py_isdigit c) \<and> dec_text_f d = w @ (if f = [] then [] else 46 # f)
     \<and> dec_value d = of_nat (nat_of_dec (w @ f)) / 10 ^ length f"
proof -
  let ?n = "dec_of_nat (nat (fst d))"
  have z: "py_isdigit 48" by (simp add: py_isdigit_def)
  show ?thesis
  proof (cases "0 \<le> snd d")
    case True
    let ?w = "if fst d = 0 then py ''0'' else ?n @ replicate (nat (snd d)) 48"
    have "?w \<noteq> []" "\<forall>c \<in> set ?w. py_isdigit c" "dec_text_f d = ?w" "dec_value d = of_nat (nat_of_dec ?w)"
      using True assms z dec_of_nat_isdigit [of "nat (fst d)"] by (auto simp: dec_text_f_def Let_def dec_value_def nat_of_dec_append py_def)
    then show ?thesis by (intro exI [of _ ?w] exI [of _ "[]"]) auto
  next
    case False
    define k where "k = nat (- snd d)"
    define padded where "padded = replicate (Suc k - length ?n) 48 @ ?n"
    let ?w = "take (length padded - k) padded" and ?f = "drop (length padded - k) padded"
    have len: "k < length padded" by (simp add: padded_def)
    have f: "length ?f = k" using len by simp
    have "\<forall>c \<in> set (?w @ ?f). py_isdigit c" unfolding append_take_drop_id using dec_of_nat_isdigit z by (auto simp: padded_def)
    moreover have "of_nat (nat_of_dec (?w @ ?f)) = (of_int (fst d) :: rat)"
      unfolding append_take_drop_id using assms by (simp add: padded_def nat_of_dec_append)
    moreover have "?f \<noteq> []" using f False by (auto simp: k_def)
    moreover have "dec_text_f d = ?w @ 46 # ?f" using False by (simp add: dec_text_f_def Let_def k_def padded_def)
    moreover have "?w \<noteq> []" using len by (cases padded) auto
    ultimately show ?thesis using False f by (intro exI [of _ ?w] exI [of _ ?f]) (simp add: dec_value_def k_def)
  qed
qed

lemma parse_parts:
  assumes "w \<noteq> []" "\<forall>c \<in> set (w @ f). py_isdigit c"
  shows "finite_decimal (w @ (if f = [] then [] else 46 # f)) = Some (of_nat (nat_of_dec (w @ f)) / 10 ^ length f)" (is "finite_decimal ?t = Some ?v")
    and "finite_decimal (45 # w @ (if f = [] then [] else 46 # f)) = Some (- (of_nat (nat_of_dec (w @ f)) / 10 ^ length f))"
proof -
  have digit: "\<not> py_isspace c \<and> c \<noteq> 95 \<and> c \<notin> {69, 101}" if "py_isdigit c \<or> c = 45 \<or> c = 46" for c
    using that by (auto simp: py_isdigit_def py_isspace_def)
  have plain: "\<not> py_isspace c \<and> c \<noteq> 95 \<and> c \<notin> {69, 101}" if "c \<in> set (45 # ?t)" for c
    using that assms(2) by (intro digit) (auto split: if_splits)
  have t: "py_strip s = s" "filter (\<lambda>c. c \<noteq> 95) s = s" if "set s \<subseteq> set (45 # ?t)" for s
    using that plain by (auto intro!: strip_plain filter_True)
  have hd: "take 1 ?t \<noteq> [45]" "unsigned ?t = ?t" using assms by (cases w; auto simp: py_isdigit_def unsigned_def)+
  have m: "takeWhile (\<lambda>c. c \<notin> {69, 101}) ?t = ?t" "dropWhile (\<lambda>c. c \<notin> {69, 101}) ?t = []"
    using plain by (auto simp: takeWhile_eq_all_conv dropWhile_eq_Nil_conv)
  have "\<forall>c \<in> set w. c \<noteq> 46"
  proof
    fix c assume "c \<in> set w"
    with assms(2) have "py_isdigit c" by simp
    then show "c \<noteq> 46" by (auto simp: py_isdigit_def)
  qed
  then have dot: "\<And>c. c \<in> set w \<Longrightarrow> c \<noteq> 46" "takeWhile (\<lambda>c. c \<noteq> 46) w = w" "dropWhile (\<lambda>c. c \<noteq> 46) w = []" by auto
  have tail: "takeWhile (\<lambda>c. c \<noteq> 46) (w @ 46 # f) = w" "dropWhile (\<lambda>c. c \<noteq> 46) (w @ 46 # f) = 46 # f"
    using dot(1) by (induction w) simp_all
  have d: "takeWhile (\<lambda>c. c \<noteq> 46) ?t = w" "tl (dropWhile (\<lambda>c. c \<noteq> 46) ?t) = f"
    by (cases "f = []"; simp add: tail dot(2,3))+
  have u: "unsigned (45 # ?t) = ?t" "take 1 (45 # ?t) = [45]" by (simp_all add: unsigned_def)
  have ok: "list_all py_isdigit (w @ f)" "w @ f \<noteq> []" using assms by (simp_all add: list_all_iff)
  have st: "py_strip ?t = ?t" "filter (\<lambda>c. c \<noteq> 95) ?t = ?t" "py_strip (45 # ?t) = 45 # ?t" "filter (\<lambda>c. c \<noteq> 95) (45 # ?t) = 45 # ?t"
    by (rule t; auto)+
  show "finite_decimal ?t = Some ?v"
    unfolding finite_decimal_def Let_def st hd(2) m d using hd(1) ok by (simp add: unsigned_def)
  show "finite_decimal (45 # ?t) = Some (- ?v)"
    unfolding finite_decimal_def Let_def st u m d using ok by (simp add: unsigned_def)
qed

section \<open>The decimal of an amount\<close>

lemma terminating_iff:
  assumes "quotient_of v = (n, d)"
  shows "strip_factor 5 (strip_factor 2 (nat d)) = 1 \<longleftrightarrow> (\<exists>m k. v = of_int m / 10 ^ k)"
proof -
  have d: "0 < d" "coprime n d" and v: "v = of_int n / of_int d"
    using assms quotient_of_denom_pos quotient_of_coprime quotient_of_div by blast+
  have "0 < nat d" using d by simp
  then obtain a b where ab: "nat d = 2 ^ a * 5 ^ b * strip_factor 5 (strip_factor 2 (nat d))" "coprime (strip_factor 5 (strip_factor 2 (nat d))) 10"
    by (rule two_five_split)
  show ?thesis
  proof
    assume "strip_factor 5 (strip_factor 2 (nat d)) = 1"
    with ab(1) have "nat d dvd 10 ^ (4 * length (dec_of_nat (nat d)))"
      using dec_length_le_iff [of "length (dec_of_nat (nat d))" "nat d"] by (intro two_five_dvd) simp_all
    then obtain c where c: "10 ^ (4 * length (dec_of_nat (nat d))) = nat d * c" by blast
    then have "c \<noteq> 0" by (metis mult_0_right power_not_zero zero_neq_numeral)
    have "(10 :: rat) ^ (4 * length (dec_of_nat (nat d))) = of_int d * of_nat c"
      using d(1) arg_cong [OF c, of "of_nat :: nat \<Rightarrow> rat"] by simp
    then have "v = of_int (n * int c) / 10 ^ (4 * length (dec_of_nat (nat d)))" using v \<open>c \<noteq> 0\<close> by simp
    then show "\<exists>m k. v = of_int m / 10 ^ k" by blast
  next
    assume "\<exists>m k. v = of_int m / 10 ^ k"
    then obtain m k where "v = of_int m / 10 ^ k" by blast
    with v d(1) have "(of_int (n * 10 ^ k) :: rat) = of_int (m * d)" by (simp add: field_simps)
    then have "d dvd n * 10 ^ k" by (metis of_int_eq_iff dvd_triv_right)
    with d(2) have "d dvd 10 ^ k" by (metis coprime_commute coprime_dvd_mult_right_iff)
    then have "nat d dvd 10 ^ k" using d(1) by (metis int_dvd_int_iff nat_0_le of_nat_numeral of_nat_power order.strict_implies_order)
    with ab(1) have "strip_factor 5 (strip_factor 2 (nat d)) dvd 10 ^ k" by (metis dvd_mult_right)
    moreover have "coprime (strip_factor 5 (strip_factor 2 (nat d))) (10 ^ k)" using ab(2) by simp
    ultimately show "strip_factor 5 (strip_factor 2 (nat d)) = 1" by (metis coprime_absorb_left nat_dvd_1_iff_1)
  qed
qed

lemma signed_text:
  assumes "0 \<le> fst d" "v = (if neg then - dec_value d else dec_value d)"
  shows "finite_decimal ((if neg then py ''-'' else []) @ dec_text_f d) = Some v"
proof -
  obtain w f where "w \<noteq> []" "\<forall>c \<in> set (w @ f). py_isdigit c" "dec_text_f d = w @ (if f = [] then [] else 46 # f)"
    "dec_value d = of_nat (nat_of_dec (w @ f)) / 10 ^ length f" using text_parts [OF assms(1)] by blast
  with parse_parts [of w f] assms(2) show ?thesis by (simp add: py_def)
qed

text \<open>
  The text that a numeric check reports for a computed amount is exact: it reads back as the amount, with no digit lost to the precision of the division,
  and no text is reported exactly for the amounts that have no finite decimal.
\<close>

theorem computed_text_is_exact:
  "case exact_decimal v of Some t \<Rightarrow> finite_decimal t = Some v | None \<Rightarrow> \<not> (\<exists>m k. v = of_int m / 10 ^ k)"
proof -
  obtain n d where q: "quotient_of v = (n, d)" by fastforce
  have d: "0 < d" and v: "v = of_int n / of_int d" using q quotient_of_denom_pos quotient_of_div by blast+
  let ?l = "length (dec_of_nat (nat d))"
  let ?q = "dec_div (length (dec_of_nat (nat \<bar>n\<bar>)) + ?l * 4 + 1) (\<bar>n\<bar>, 0) (d, 0)"
  show ?thesis
  proof (cases "strip_factor 5 (strip_factor 2 (nat d)) = 1")
    case True
    have "0 < nat d" using d by simp
    then obtain a b where "nat d = 2 ^ a * 5 ^ b * strip_factor 5 (strip_factor 2 (nat d))" by (rule two_five_split)
    then have "nat d dvd 10 ^ (4 * ?l)" using True dec_length_le_iff [of ?l "nat d"] by (intro two_five_dvd) simp_all
    then have "d dvd 10 ^ (4 * ?l)" using d by (metis int_dvd_int_iff nat_0_le of_nat_numeral of_nat_power order.strict_implies_order)
    from dec_div_exact [OF _ d this refl, of "\<bar>n\<bar>"]
    have "dec_value ?q = of_int \<bar>n\<bar> / of_int d" "0 \<le> fst ?q" by simp_all
    moreover have "v = (if n < 0 then - dec_value ?q else dec_value ?q)"
      unfolding calculation(1) v by (simp add: abs_if)
    ultimately have "finite_decimal ((if n < 0 then py ''-'' else []) @ dec_text_f ?q) = Some v" by (intro signed_text)
    with True q show ?thesis by (simp add: exact_decimal_def Let_def)
  next
    case False
    then have "\<not> (\<exists>m k. v = of_int m / 10 ^ k)" using terminating_iff [OF q] by blast
    with False q show ?thesis by (simp add: exact_decimal_def Let_def)
  qed
qed

end
