(* ===== verification/Numeric_Props.thy ===== *)
theory Numeric_Props
  imports Numeric_Interval Numeric_Decimal Audit_Log
begin

text \<open>
  What the numeric checks decide. The graph walks end with the reachable nodes, the verdict of a check is the exact answer to the question whether the displayed,
  rounded numbers can all be true at once, and it is given only on verified sources.
\<close>

section \<open>Graph walks\<close>

lemma close_under_grows: "set known \<subseteq> set (close_under es known pending)"
proof (induction es known pending rule: close_under.induct)
  case (1 es known pending)
  show ?case
  proof (cases "pending = []")
    case False
    from 1 [OF this refl] show ?thesis by (subst close_under.simps) (auto simp: Let_def)
  qed (simp add: close_under.simps)
qed

lemma close_under_reach:
  assumes "set pending \<subseteq> set known"
  shows "set (close_under es known pending) \<subseteq> (set es)\<^sup>* `` set known"
  using assms
proof (induction es known pending rule: close_under.induct)
  case (1 es known pending)
  show ?case
  proof (cases "pending = []")
    case False
    let ?fresh = "py_unique (map snd (filter (\<lambda>e. fst e = last pending \<and> snd e \<notin> set known) es))"
    have l: "last pending \<in> set known" using False 1(2) last_in_set by blast
    have fresh: "set ?fresh \<subseteq> (set es)\<^sup>* `` set known"
    proof
      fix y assume "y \<in> set ?fresh"
      then have "(last pending, y) \<in> set es" by auto
      with l show "y \<in> (set es)\<^sup>* `` set known" by blast
    qed
    have "set (butlast pending @ ?fresh) \<subseteq> set (known @ ?fresh)"
      using 1(2) in_set_butlastD by fastforce
    then have "set (close_under es (known @ ?fresh) (butlast pending @ ?fresh)) \<subseteq> (set es)\<^sup>* `` set (known @ ?fresh)"
      using "1.IH" [OF False refl] by blast
    also have "\<dots> \<subseteq> (set es)\<^sup>* `` set known"
      using fresh by (auto intro: rtrancl_trans)
    finally show ?thesis using False by (subst close_under.simps) (simp add: Let_def)
  qed (auto simp: close_under.simps)
qed

text \<open>Nodes that are known but no longer pending have all their successors known.\<close>

lemma close_under_closed:
  assumes "\<And>x y. x \<in> set known - set pending \<Longrightarrow> (x, y) \<in> set es \<Longrightarrow> y \<in> set known"
    and "x \<in> set (close_under es known pending)" "(x, y) \<in> set es"
  shows "y \<in> set (close_under es known pending)"
  using assms
proof (induction es known pending rule: close_under.induct)
  case (1 es known pending)
  show ?case
  proof (cases "pending = []")
    case False
    let ?fresh = "py_unique (map snd (filter (\<lambda>e. fst e = last pending \<and> snd e \<notin> set known) es))"
    have eq: "close_under es known pending = close_under es (known @ ?fresh) (butlast pending @ ?fresh)"
      using False by (subst close_under.simps) (simp add: Let_def)
    have pend: "set pending = insert (last pending) (set (butlast pending))"
      using False by (metis append_butlast_last_id list.set(1) list.simps(15) set_append sup_bot_right Un_insert_right)
    have "b \<in> set (known @ ?fresh)" if a: "a \<in> set (known @ ?fresh) - set (butlast pending @ ?fresh)" and ab: "(a, b) \<in> set es" for a b
    proof (cases "a = last pending")
      case True
      with ab show ?thesis by force
    next
      case False
      with a pend have "a \<in> set known - set pending" by auto
      with 1(2) ab show ?thesis by auto
    qed
    then show ?thesis using "1.IH" [OF False refl] 1(3,4) unfolding eq by blast
  qed (use 1 in \<open>auto simp: close_under.simps\<close>)
qed

lemma walk_set: "set (walk es start) = (set es)\<^sup>* `` set start"
proof
  show "set (walk es start) \<subseteq> (set es)\<^sup>* `` set start"
    unfolding walk_def by (rule close_under_reach) simp
  show "(set es)\<^sup>* `` set start \<subseteq> set (walk es start)"
  proof
    fix y assume "y \<in> (set es)\<^sup>* `` set start"
    then obtain x where "(x, y) \<in> (set es)\<^sup>*" "x \<in> set start" by blast
    then show "y \<in> set (walk es start)"
    proof (induction rule: rtrancl_induct)
      case base
      then show ?case using close_under_grows unfolding walk_def by blast
    next
      case (step y z)
      then show ?case unfolding walk_def using close_under_closed [of start start es y z] by simp
    qed
  qed
qed

text \<open>
  C35. The worklist loop that looks for unresolved source issues ends on every snapshot, also when the table edges form a cycle, and it finds exactly the open or
  unreadable issues with a source that is reachable from the given sources along table edges.
\<close>

theorem issue_search_is_reachability:
  "set (unresolved_source_issue_ids s ids) =
     ni_issue_id ` {i \<in> set (ns_issues s). ni_state i \<in> {py ''open'', py ''unreadable''} \<and> set (ni_source_ids i) \<inter> (set (table_parents s))\<^sup>* `` set ids \<noteq> {}}"
  by (auto simp: unresolved_source_issue_ids_def Let_def list_ex_iff walk_set)

lemma no_issue_iff:
  "unresolved_source_issue_ids s ids = [] \<longleftrightarrow> (\<forall>i \<in> set (ns_issues s). ni_state i \<in> {py ''open'', py ''unreadable''} \<longrightarrow>
     set (ni_source_ids i) \<inter> (set (table_parents s))\<^sup>* `` set ids = {})"
proof -
  have "unresolved_source_issue_ids s ids = [] \<longleftrightarrow> set (unresolved_source_issue_ids s ids) = {}" by simp
  also have "\<dots> \<longleftrightarrow> (\<forall>i \<in> set (ns_issues s). ni_state i \<in> {py ''open'', py ''unreadable''} \<longrightarrow>
     set (ni_source_ids i) \<inter> (set (table_parents s))\<^sup>* `` set ids = {})"
    unfolding unresolved_source_issue_ids_def Let_def set_py_unique set_map set_filter image_is_empty list_ex_iff walk_set by blast
  finally show ?thesis .
qed

lemma observation_display_verified:
  "observation_display P s x = Some d \<Longrightarrow> no_identity x = ns_identity s \<and> no_quality x = py ''verified'' \<and> list_all (span_verified P s) (no_source_refs x)
     \<and> list_ex (\<lambda>q. sr_quote q = no_value_raw x) (no_source_refs x)"
  unfolding observation_display_def Let_def by (simp split: if_splits)

section \<open>A sample check\<close>

text \<open>A table with two years of one metric, and a claim that the value went down by 20 percent.\<close>

definition sample_platform :: platform where
  "sample_platform = hex_platform\<lparr>sha256_hex := (\<lambda>_. py ''h'')\<rparr>"

definition sample_identity :: snapshot_identity where
  "sample_identity = (py ''tenant'', py ''version'', py ''manifest'', py ''digest'')"

definition sample_candidate :: "pystr \<Rightarrow> int option \<Rightarrow> int option \<Rightarrow> numeric_candidate" where
  "sample_candidate s row col = \<lparr>nc_source = \<lparr>nat_document_version_id = py ''version'', nat_parse_manifest_id = py ''manifest'', nat_parser_run_id = py ''run'',
     nat_source_native_id = py ''n'', nat_physical_page = 1, nat_printed_page_label = None, nat_native_bbox = Some (0, 0, 1, 1),
     nat_native_coordinate_system = py ''pdf_bottom_left_points'', nat_raw_text = s, nat_char_start = 0, nat_char_end = int (length s)\<rparr>,
     nc_row_number = row, nc_column_number = col, nc_column_span = None, nc_bbox = Some (0, 0, 1, 1)\<rparr>"

definition sample_block :: "string \<Rightarrow> string \<Rightarrow> numeric_candidate \<Rightarrow> numeric_block" where
  "sample_block kind i c = \<lparr>nb_kind = py kind, nb_source_id = py i, nb_quality = py ''verified'', nb_winner = Some 0, nb_candidates = [c]\<rparr>"

definition table_block :: numeric_block where "table_block = sample_block ''table'' ''t'' (sample_candidate [] None None)"
definition old_block :: numeric_block where "old_block = sample_block ''table_cell'' ''v1'' (sample_candidate (py ''100 t'') (Some 2) (Some 2))"
definition new_block :: numeric_block where "new_block = sample_block ''table_cell'' ''v2'' (sample_candidate (py ''80 t'') (Some 2) (Some 3))"
definition metric_block :: numeric_block where "metric_block = sample_block ''table_cell'' ''m'' (sample_candidate (py ''CO2'') (Some 2) (Some 1))"
definition old_year :: numeric_block where "old_year = sample_block ''table_cell'' ''y1'' (sample_candidate (py ''2023'') (Some 1) (Some 2))"
definition new_year :: numeric_block where "new_year = sample_block ''table_cell'' ''y2'' (sample_candidate (py ''2024'') (Some 1) (Some 3))"
definition claim_block :: numeric_block where "claim_block = sample_block ''paragraph'' ''c'' (sample_candidate (py ''down 20'') None None)"

definition sample_blocks :: "numeric_block list" where
  "sample_blocks = [table_block, old_block, new_block, metric_block, old_year, new_year, claim_block]"

definition sample_edge :: "string \<Rightarrow> numeric_edge" where
  "sample_edge i = \<lparr>ne_source_id = py i, ne_target_id = py ''t'', ne_relation = py ''table_parent''\<rparr>"

definition sample_snapshot :: numeric_snapshot where
  "sample_snapshot = \<lparr>ns_identity = sample_identity, ns_blocks = sample_blocks,
     ns_candidates = [\<lparr>bt_identity = sample_identity, bt_parser_run_id = py ''run'', bt_blocks = concat (map nb_candidates sample_blocks)\<rparr>],
     ns_edges = map sample_edge [''v1'', ''v2'', ''m'', ''y1'', ''y2''], ns_issues = []\<rparr>"

definition sample_ref :: "string \<Rightarrow> string \<Rightarrow> int \<Rightarrow> source_ref" where
  "sample_ref i quote start = \<lparr>sr_source_id = py i, sr_document_version_id = py ''version'', sr_parse_manifest_id = py ''manifest'', sr_page_num = 1,
     sr_printed_page_label = None, sr_bbox = Some (0, 0, 1, 1), sr_raw_text_sha256 = py ''h'', sr_quote = py quote,
     sr_char_start = start, sr_char_end = start + int (length quote), sr_location_quality = Located, sr_verification_state = Verified\<rparr>"

definition sample_observation :: "string \<Rightarrow> numeric_block \<Rightarrow> string \<Rightarrow> string \<Rightarrow> string \<Rightarrow> string \<Rightarrow> int \<Rightarrow> numeric_observation" where
  "sample_observation i b v raw y year col = \<lparr>no_observation_id = py i, no_table_id = py ''t'', no_row = 2, no_column = col, no_identity = sample_identity,
     no_metric_raw = py ''CO2'', no_scope = None, no_subject = None, no_reporting_period = py year, no_scope2_basis = None, no_organizational_boundary = None,
     no_unit_raw = Some (py ''t''), no_unit_canonical = Some (py ''t''), no_scale_multiplier = py ''1'', no_denominator = None,
     no_value_raw = py (raw @ '' t''), no_value_decimal = Some (py raw), no_value_state = py ''value'', no_quality = py ''verified'',
     no_source_refs = [sample_ref v (raw @ '' t'') 0, sample_ref ''m'' ''CO2'' 0, sample_ref y year 0], no_source_blocks = [b],
     no_parent_relations = [(py v, py ''m'', py ''metric_raw''), (py v, py y, py ''reporting_period'')]\<rparr>"

definition old_observation :: numeric_observation where
  "old_observation = sample_observation ''o1'' old_block ''v1'' ''100'' ''y1'' ''2023'' 2"

definition new_observation :: numeric_observation where
  "new_observation = sample_observation ''o2'' new_block ''v2'' ''80'' ''y2'' ''2024'' 3"

definition sample_claim :: numeric_claim where
  "sample_claim = \<lparr>nm_claim_id = py ''claim'', nm_identity = sample_identity, nm_quote = py ''down 20'', nm_source_quality = py ''verified'',
     nm_source_refs = [sample_ref ''c'' ''down 20'' 0]\<rparr>"

definition sample_binding :: claim_binding where
  "sample_binding = \<lparr>cb_claim_id = py ''claim'', cb_tenant_id = py ''tenant'', cb_document_version_id = py ''version'', cb_kind = Reduction,
     cb_observation_ids = [py ''o1'', py ''o2''], cb_reported_value = Some (py ''20''), cb_metric_raw = py ''CO2'', cb_scope = None, cb_subject = None,
     cb_scope2_basis = None, cb_organizational_boundary = None, cb_unit = Some (py ''t''), cb_denominator = None,
     cb_source_refs = [sample_ref ''c'' ''down 20'' 0], cb_parse_manifest_id = Some (py ''manifest''), cb_reporting_period = Some (py ''2024''),
     cb_quantity_kind = Some (py ''absolute''), cb_baseline_period = Some (py ''2023''), cb_reported_value_ref = Some (sample_ref ''c'' ''20'' 5),
     cb_binding_accepted = True, cb_aggregation = None, cb_baseline_subject = None, cb_subject_ref = None, cb_baseline_subject_ref = None,
     cb_product_comparison_accepted = False, cb_conditions = []\<rparr>"


text \<open>The executable form of the white space test decides ASCII characters first.\<close>

lemma py_isspace_code [code]:
  "py_isspace c = (if c \<le> 32 then 9 \<le> c \<and> c \<le> 13 \<or> 28 \<le> c else if c \<le> 126 then False else c = 133 \<or> c = 160 \<or> c = 5760
     \<or> 8192 \<le> c \<and> c \<le> 8202 \<or> c = 8232 \<or> c = 8233 \<or> c = 8239 \<or> c = 8287 \<or> c = 12288)"
  unfolding py_isspace_def by auto


lemma sample_binding_made: "mk_claim_binding sample_binding = Inr sample_binding" by code_simp

lemma sample_claim_verified: "claim_verified sample_platform sample_binding (Some sample_claim) sample_snapshot" by code_simp

lemma sample_observations:
  "no_identity x = ns_identity sample_snapshot \<and> no_quality x = py ''verified'' \<and> no_value_state x = py ''value'' \<and> no_source_refs x \<noteq> []
   \<and> list_all (span_verified sample_platform sample_snapshot) (no_source_refs x) \<and> no_source_blocks x \<noteq> []
   \<and> list_all (\<lambda>b. b \<in> set (ns_blocks sample_snapshot)) (no_source_blocks x) \<and> list_ex (\<lambda>r. sr_quote r = no_value_raw x) (no_source_refs x)"
  if "x \<in> set [old_observation, new_observation]"
proof -
  have "list_all (\<lambda>x. no_identity x = ns_identity sample_snapshot \<and> no_quality x = py ''verified'' \<and> no_value_state x = py ''value'' \<and> no_source_refs x \<noteq> []
   \<and> list_all (span_verified sample_platform sample_snapshot) (no_source_refs x) \<and> no_source_blocks x \<noteq> []
   \<and> list_all (\<lambda>b. b \<in> set (ns_blocks sample_snapshot)) (no_source_blocks x) \<and> list_ex (\<lambda>r. sr_quote r = no_value_raw x) (no_source_refs x))
    [old_observation, new_observation]" by code_simp
  with that show ?thesis unfolding list_all_iff by blast
qed

lemma sample_units: "no_unit_raw x = Some (py ''t'')" "no_unit_canonical x = Some (py ''t'')" "no_scale_multiplier x = py ''1''" "unit_bound x"
  if "x \<in> set [old_observation, new_observation]"
proof -
  show "no_unit_raw x = Some (py ''t'')" "no_unit_canonical x = Some (py ''t'')" "no_scale_multiplier x = py ''1''"
    using that by (auto simp: old_observation_def new_observation_def sample_observation_def)
  have "list_all (\<lambda>x. match_number (py_strip (no_value_raw x)) \<noteq> None \<and> map_option snd (match_number (py_strip (no_value_raw x))) = Some (no_unit_raw x))
    [old_observation, new_observation]" by code_simp
  with that show "unit_bound x" by (auto simp: unit_bound_def split: option.splits)
qed

lemma sample_bound:
  "block_ids {py ''footnote''} sample_snapshot = []"
  "list_all (\<lambda>(field, expected). case expected of None \<Rightarrow> True | Some e \<Rightarrow> field_bound [] [] old_observation field e) (bound_fields old_observation)"
  "list_all (\<lambda>(field, expected). case expected of None \<Rightarrow> True | Some e \<Rightarrow> field_bound [] [] new_observation field e) (bound_fields new_observation)"
  by code_simp+

lemma sample_values:
  "display (no_value_raw old_observation) 1 = Some (100, 199 / 2, 201 / 2)" "Option.bind (no_value_decimal old_observation) finite_decimal = Some 100"
  "display (no_value_raw new_observation) 1 = Some (80, 159 / 2, 161 / 2)" "Option.bind (no_value_decimal new_observation) finite_decimal = Some 80"
  by code_simp+

lemma not_thousand: "\<not> py_startswith (py ''t'') thousand" by (simp add: py_startswith_def thousand_def py_def)

lemma sample_displays:
  "observation_display sample_platform sample_snapshot old_observation = Some (100, 199 / 2, 201 / 2)"
  "observation_display sample_platform sample_snapshot new_observation = Some (80, 159 / 2, 161 / 2)"
  using sample_observations [of old_observation] sample_observations [of new_observation]
    sample_units [of old_observation] sample_units [of new_observation]
  by (simp_all add: observation_display_def Let_def not_thousand sample_bound(1) sample_bound(2,3) [unfolded list_all_iff] sample_values list_ex_iff list_all_iff)

lemma sample_notes: "\<not> list_ex (unresolved_footnotes sample_platform sample_snapshot []) [old_observation, new_observation]" by code_simp

lemma sample_periods: "is_supported_period (Some (py ''2023''))" "is_supported_period (Some (py ''2024''))"
  by (simp_all add: is_supported_period_def match_year_def fiscal_prefix_def scan_digits_def quarter_suffix_def year_mark_def
    py_def py_isspace_def py_isdigit_def py_strip_def py_lstrip_def py_rstrip_def Let_def)

lemma sample_matches:
  "matches_binding sample_binding old_observation (Some (py ''2023'')) None" "matches_binding sample_binding new_observation (Some (py ''2024'')) None"
  by code_simp+

lemma sample_comparable: "comparable sample_platform sample_binding (Some sample_claim) sample_snapshot [old_observation, new_observation] = None"
proof -
  have "cb_kind sample_binding = Reduction" "cb_baseline_period sample_binding = Some (py ''2023'')" "cb_reporting_period sample_binding = Some (py ''2024'')"
    "py ''2023'' \<noteq> py ''2024''"
    by (simp_all add: sample_binding_def py_def)
  then show ?thesis by (simp add: comparable_def sample_periods sample_matches numeral_2_eq_2)
qed

lemma sample_issues: "unresolved_source_issue_ids sample_snapshot xs = []"
  by (simp add: unresolved_source_issue_ids_def sample_snapshot_def py_unique_def)

section \<open>What a verdict means\<close>

text \<open>
  C7. The verdict of a numeric check is exact: a decided check is consistent exactly when there are true values behind the displayed operands and the reported
  value (each within the rounding of its text) for which the claimed arithmetic holds; for comparison, sum, reduction, growth and product reduction alike.
\<close>

theorem verdict_is_exact:
  assumes "mk_claim_binding b = Inr b" "check_binding P indexed claims original b = Inr r" "decided r"
  shows "\<exists>s items numbers reported. original = Some s \<and> map indexed (cb_observation_ids b) = map Some items
     \<and> map (observation_display P s) items = map Some numbers \<and> display (case cb_reported_value b of None \<Rightarrow> [] | Some v \<Rightarrow> v) 1 = Some reported
     \<and> ck_status r = (if can_all_be_true (cb_kind b) (map snd numbers) (snd reported) then Consistent else Inconsistent)"
proof -
  obtain s items numbers reported where *: "original = Some s" "map indexed (cb_observation_ids b) = map Some items"
    "map (observation_display P s) items = map Some numbers" "display (case cb_reported_value b of None \<Rightarrow> [] | Some v \<Rightarrow> v) 1 = Some reported"
    "compute P b s items numbers reported = Inr r"
    by (rule decided_check [OF assms(2,3)])
  have n: "length items = length (cb_observation_ids b)" "length numbers = length items"
    using *(2,3) by (metis length_map)+
  have "list_all shown numbers"
    using *(3) observation_display_shown unfolding list_all_length n(2) by (metis length_map n(2) nth_map)
  moreover have "cb_kind b = Comparison \<longrightarrow> length numbers = 1"
    using assms(1) n by (auto simp: mk_claim_binding_def split: if_splits)
  ultimately have "ck_status r = (if can_all_be_true (cb_kind b) (map snd numbers) (snd reported) then Consistent else Inconsistent)"
    using compute_is_exact [OF *(5) assms(3)] display_shown [OF *(4)] by simp
  with * show ?thesis by blast
qed

lemma sample_compute:
  "\<exists>r. compute sample_platform sample_binding sample_snapshot [old_observation, new_observation]
      [(100, 199 / 2, 201 / 2), (80, 159 / 2, 161 / 2)] (20, 39 / 2, 41 / 2) = Inr r \<and> ck_status r = Consistent"
  by (simp add: compute_def sample_binding_def verdict_def rate_interval_def rate_def check_result_of_def Let_def)

definition sample_checked :: "check_result result" where
  "sample_checked = check_binding sample_platform [py ''o1'' \<mapsto> old_observation, py ''o2'' \<mapsto> new_observation] [py ''claim'' \<mapsto> sample_claim] (Some sample_snapshot) sample_binding"

lemma sample_check: "\<exists>r. sample_checked = Inr r \<and> ck_status r = Consistent"
proof -
  have ids: "cb_observation_ids sample_binding = [py ''o1'', py ''o2'']" "cb_claim_id sample_binding = py ''claim''"
    "validated_condition_ids sample_platform sample_binding sample_snapshot xs = Inr []"
    "cb_reported_value sample_binding = Some (py ''20'')"
    "snapshot_version (no_identity old_observation) = cb_document_version_id sample_binding" 
    "snapshot_version (no_identity new_observation) = cb_document_version_id sample_binding" for xs
    by (simp_all add: sample_binding_def validated_condition_ids_def old_observation_def new_observation_def sample_observation_def sample_identity_def snapshot_version_def)
  have "display (py ''20'') 1 = Some (20, 39 / 2, 41 / 2)" by code_simp
  moreover have "py ''o1'' \<noteq> py ''o2''" by (simp add: py_def)
  ultimately show ?thesis using sample_compute sample_notes
    by (simp add: sample_checked_def check_binding_def map_filter_simps ids sample_claim_verified sample_issues sample_displays sample_comparable)
qed

theorem verdict_is_exact_witness:
  "\<exists>r. sample_checked = Inr r \<and> ck_status r = Consistent \<and> can_all_be_true Reduction [(199 / 2, 201 / 2), (159 / 2, 161 / 2)] (39 / 2, 41 / 2)"
proof -
  obtain r where r: "sample_checked = Inr r" "ck_status r = Consistent" using sample_check by blast
  have o: "py ''o1'' \<noteq> py ''o2''" by (simp add: py_def)
  have k: "cb_kind sample_binding = Reduction" "cb_observation_ids sample_binding = [py ''o1'', py ''o2'']"
    "cb_reported_value sample_binding = Some (py ''20'')" by (simp_all add: sample_binding_def)
  have "display (py ''20'') 1 = Some (20, 39 / 2, 41 / 2)" by code_simp
  then have "can_all_be_true Reduction [(199 / 2, 201 / 2), (159 / 2, 161 / 2)] (39 / 2, 41 / 2)"
    using verdict_is_exact [OF sample_binding_made r(1) [unfolded sample_checked_def]] r(2) o
    by (auto simp: decided_def k sample_displays map_eq_Cons_conv split: if_splits)
  with r show ?thesis by blast
qed


text \<open>
  C13. A check is decided, either way, only on verified sources: the binding was accepted, the claim and every span of every operand are verified against the
  snapshot, the operands belong to the snapshot and display their value, and no open or unreadable issue touches a source of the claim or of an operand,
  directly or through the table it belongs to.
\<close>

theorem decided_checks_are_grounded:
  assumes "check_binding P indexed claims original b = Inr r" "decided r"
  shows "\<exists>s items. original = Some s \<and> map indexed (cb_observation_ids b) = map Some items \<and> cb_binding_accepted b
     \<and> claim_verified P b (claims (cb_claim_id b)) s
     \<and> (\<forall>x \<in> set items. no_identity x = ns_identity s \<and> no_quality x = py ''verified'' \<and> list_all (span_verified P s) (no_source_refs x)
          \<and> list_ex (\<lambda>q. sr_quote q = no_value_raw x) (no_source_refs x))
     \<and> (\<forall>i \<in> set (ns_issues s). ni_state i \<in> {py ''open'', py ''unreadable''} \<longrightarrow> set (ni_source_ids i)
          \<inter> (set (table_parents s))\<^sup>* `` set (map sr_source_id (cb_source_refs b @ concat (map no_source_refs items)) @ map no_table_id items) = {})"
proof -
  obtain s items numbers where *: "original = Some s" "map indexed (cb_observation_ids b) = map Some items"
    "claim_verified P b (claims (cb_claim_id b)) s"
    "unresolved_source_issue_ids s (map sr_source_id (cb_source_refs b @ concat (map no_source_refs items)) @ map no_table_id items) = []"
    "map (observation_display P s) items = map Some numbers"
    by (rule decided_check [OF assms])
  have "\<exists>d. observation_display P s x = Some d" if "x \<in> set items" for x
    using *(5) that by (metis (no_types, lifting) image_iff list.set_map)
  then have ops: "\<forall>x \<in> set items. no_identity x = ns_identity s \<and> no_quality x = py ''verified'' \<and> list_all (span_verified P s) (no_source_refs x)
      \<and> list_ex (\<lambda>q. sr_quote q = no_value_raw x) (no_source_refs x)"
    using observation_display_verified by blast
  have "cb_binding_accepted b" using *(3) by (simp add: claim_verified_def)
  with * ops no_issue_iff show ?thesis by blast
qed

theorem decided_checks_are_grounded_witness:
  "\<exists>r. sample_checked = Inr r \<and> decided r \<and> cb_binding_accepted sample_binding
     \<and> list_all (span_verified sample_platform sample_snapshot) (no_source_refs old_observation)"
proof -
  obtain r where r: "sample_checked = Inr r" "ck_status r = Consistent" using sample_check by blast
  have k: "cb_observation_ids sample_binding = [py ''o1'', py ''o2'']" "py ''o1'' \<noteq> py ''o2''" by (simp_all add: sample_binding_def py_def)
  from decided_checks_are_grounded [OF r(1) [unfolded sample_checked_def]] r(2) obtain items where
    "map [py ''o1'' \<mapsto> old_observation, py ''o2'' \<mapsto> new_observation] (cb_observation_ids sample_binding) = map Some items" "cb_binding_accepted sample_binding"
    "\<forall>x \<in> set items. list_all (span_verified sample_platform sample_snapshot) (no_source_refs x)"
    by (auto simp: decided_def)
  then show ?thesis using r by (auto simp: k decided_def map_eq_Cons_conv)
qed

end
