(* ===== verification/Pack_Validation.thy ===== *)
theory Pack_Validation
  imports Scope_Rules Stdlib
begin

text \<open>
  Model of \<^verbatim>\<open>validate_rulepack\<close> in \<^verbatim>\<open>application/rulepacks.py\<close>: the structural, hash and gap checks of a rule pack.

  A manifest and the parsed files are JSON dictionaries. \<open>validate_rulepack\<close> collects its complaints; a complaint is the fixed part of the message and the path
  or gap it names. What the interpreter provides is in \<open>pack_env\<close>: the platform of the hash, whether \<^verbatim>\<open>uuid.UUID(text)\<close> accepts a text, whether
  \<^verbatim>\<open>datetime.fromisoformat(text)\<close> returns a time with an offset, and \<^verbatim>\<open>sorted\<close> of a list that holds more than texts, which may raise.
\<close>

record pack_env =
  pe_platform :: platform
  pe_uuid :: "pystr \<Rightarrow> bool"
  pe_iso_aware :: "pystr \<Rightarrow> bool"
  pe_sorted :: "json list \<Rightarrow> json list result"

section \<open>Python values\<close>

text \<open>\<^verbatim>\<open>==\<close> of JSON values: numbers by value (a boolean is a number), dictionaries without regard to order, no equality for NaN.\<close>

definition num_value :: "json \<Rightarrow> rat option" where
  "num_value v = (case v of JBool b \<Rightarrow> Some (of_bool b) | JInt i \<Rightarrow> Some (of_int i) | JFloat (PyFinite q) \<Rightarrow> Some q | _ \<Rightarrow> None)"

function py_equal :: "json \<Rightarrow> json \<Rightarrow> bool" where
  "py_equal (JObj d) w = (case w of JObj e \<Rightarrow> fst ` set d = fst ` set e
     \<and> list_all (\<lambda>kv. case map_of e (fst kv) of None \<Rightarrow> False | Some w \<Rightarrow> py_equal (snd kv) w) d | _ \<Rightarrow> False)"
| "py_equal (JList xs) w = (case w of JList ys \<Rightarrow> length xs = length ys \<and> list_all (\<lambda>xy. py_equal (fst xy) (snd xy)) (zip xs ys) | _ \<Rightarrow> False)"
| "py_equal JNull w = (w = JNull)"
| "py_equal (JStr s) w = (w = JStr s)"
| "py_equal (JBool b) w = (num_value w = Some (of_bool b))"
| "py_equal (JInt i) w = (num_value w = Some (of_int i))"
| "py_equal (JFloat f) w = (case f of PyFinite q \<Rightarrow> num_value w = Some q | PyInf \<Rightarrow> w = JFloat PyInf | PyNegInf \<Rightarrow> w = JFloat PyNegInf | PyNaN \<Rightarrow> False)"
  by pat_completeness auto
termination
proof (relation "measure (size \<circ> fst)", goal_cases)
  case (2 d w e kv w')
  then show ?case by (cases kv) (fastforce dest: size_list_estimation' [where f = "size_prod (\<lambda>_. 0) size" and y = "size (snd kv)"])
next
  case (3 xs w ys xy)
  then have "fst xy \<in> set xs" by (cases xy) (auto dest: set_zip_leftD)
  then show ?case using size_list_estimation' [of "fst xy" xs "size (fst xy)" size] by simp
qed simp

section \<open>Vocabularies\<close>

definition MODES :: "pystr list" where
  "MODES = [py ''disclosure'', py ''advertising'']"

definition STATUSES :: "pystr list" where
  "STATUSES = [py ''draft'', py ''validated'', py ''active'', py ''retired'']"

definition DEMO_STATUSES :: "pystr list" where
  "DEMO_STATUSES = [py ''draft'', py ''validated'']"

definition REVIEW_ORIGIN_AI_DELEGATED :: pystr where
  "REVIEW_ORIGIN_AI_DELEGATED = py ''ai_project_interpretation''"

definition APPROVER_PREFIX :: pystr where
  "APPROVER_PREFIX = py ''ai-delegated-review:''"

definition REQUIRED_PACK_KEYS :: "pystr list" where
  "REQUIRED_PACK_KEYS = [py ''rule_pack_id'', py ''tenant_id'', py ''version'', py ''effective_date'', py ''mode'', py ''status'', py ''ontology_version'',
     py ''source_document_sha256'', py ''files'', py ''sha256'', py ''unresolved_gap_ids'']"

section \<open>Guards\<close>

text \<open>\<^verbatim>\<open>d.get(key)\<close>.\<close>

definition jfield :: "(pystr \<times> json) list \<Rightarrow> string \<Rightarrow> json" where
  "jfield d k = (case map_of d (py k) of None \<Rightarrow> JNull | Some v \<Rightarrow> v)"

definition has_field :: "(pystr \<times> json) list \<Rightarrow> string \<Rightarrow> bool" where
  "has_field d k \<longleftrightarrow> map_of d (py k) \<noteq> None"

definition is_tz_aware_iso :: "pack_env \<Rightarrow> json \<Rightarrow> bool" where
  "is_tz_aware_iso E v = (case v of JStr s \<Rightarrow> py_strip s \<noteq> [] \<and> pe_iso_aware E s | _ \<Rightarrow> False)"

definition is_uuid :: "pack_env \<Rightarrow> json \<Rightarrow> bool" where
  "is_uuid E v = (case v of JStr s \<Rightarrow> pe_uuid E s | _ \<Rightarrow> False)"

definition is_sha256_text :: "json \<Rightarrow> bool" where
  "is_sha256_text v = (case v of JStr s \<Rightarrow> is_sha256 s | _ \<Rightarrow> False)"

definition valid_date :: "json \<Rightarrow> bool" where
  "valid_date v = (case v of JStr s \<Rightarrow> okE (date_fromisoformat s) | _ \<Rightarrow> False)"

definition nonempty_text :: "json \<Rightarrow> bool" where
  "nonempty_text v = (case v of JStr s \<Rightarrow> s \<noteq> [] | _ \<Rightarrow> False)"

definition nonblank_text :: "json \<Rightarrow> bool" where
  "nonblank_text v = (case v of JStr s \<Rightarrow> py_strip s \<noteq> [] | _ \<Rightarrow> False)"

text \<open>A list of texts, or nothing.\<close>

fun texts_of :: "json list \<Rightarrow> pystr list option" where
  "texts_of [] = Some []"
| "texts_of (JStr s # xs) = map_option ((#) s) (texts_of xs)"
| "texts_of (_ # xs) = None"

definition text_list :: "json \<Rightarrow> pystr list option" where
  "text_list v = (case v of JList xs \<Rightarrow> texts_of xs | _ \<Rightarrow> None)"

definition is_safe_path :: "pystr \<Rightarrow> bool" where
  "is_safe_path p \<longleftrightarrow> p \<noteq> [] \<and> \<not> py_startswith p (py ''/'') \<and> 92 \<notin> set p \<and> 58 \<notin> set p
     \<and> list_all (\<lambda>s. s \<notin> {[], py ''.'', py ''..''}) (py_split 47 p)"

section \<open>Validation\<close>

text \<open>A complaint: the fixed text and the path or identifier it names.\<close>

type_synonym complaint = "string \<times> pystr"

definition complain :: "bool \<Rightarrow> string \<Rightarrow> pystr \<Rightarrow> complaint list" where
  "complain b m x = (if b then [(m, x)] else [])"

definition field_complaints :: "pack_env \<Rightarrow> (pystr \<times> json) list \<Rightarrow> complaint list" where
  "field_complaints E pack =
     map (\<lambda>k. (''missing required field: '', k)) (filter (\<lambda>k. map_of pack k = None) REQUIRED_PACK_KEYS)
     @ complain (has_field pack ''rule_pack_id'' \<and> \<not> is_uuid E (jfield pack ''rule_pack_id'')) ''rule_pack_id must be a UUID string'' []
     @ complain (has_field pack ''tenant_id'' \<and> \<not> is_uuid E (jfield pack ''tenant_id'')) ''tenant_id must be a UUID string'' []
     @ complain (has_field pack ''version'' \<and> \<not> nonempty_text (jfield pack ''version'')) ''version must be a non-empty string'' []
     @ complain (has_field pack ''effective_date'' \<and> \<not> valid_date (jfield pack ''effective_date''))
         ''effective_date must be a YYYY-MM-DD date string'' []
     @ complain (has_field pack ''mode'' \<and> jfield pack ''mode'' \<notin> JStr ` set MODES) ''mode must be one of'' []
     @ complain (has_field pack ''status'' \<and> jfield pack ''status'' \<notin> JStr ` set STATUSES) ''status must be one of'' []
     @ complain (has_field pack ''ontology_version'' \<and> \<not> nonempty_text (jfield pack ''ontology_version'')) ''ontology_version must be a non-empty string'' []
     @ complain (has_field pack ''source_document_sha256'' \<and> \<not> is_sha256_text (jfield pack ''source_document_sha256''))
         ''source_document_sha256 must be a 64-char lowercase hex sha256'' []"

definition same_field :: "(pystr \<times> json) list \<Rightarrow> (pystr \<times> json) list \<Rightarrow> string \<Rightarrow> bool" where
  "same_field d pack k \<longleftrightarrow> \<not> (has_field d k \<and> has_field pack k) \<or> py_equal (jfield d k) (jfield pack k)"

definition doc_complaints :: "(pystr \<times> json) list \<Rightarrow> (pystr \<times> json) list \<Rightarrow> pystr \<Rightarrow> complaint list" where
  "doc_complaints pack files_content path = (case map_of files_content path of
       None \<Rightarrow> [(''missing referenced file: '', path)]
     | Some JNull \<Rightarrow> [(''missing referenced file: '', path)]
     | Some (JObj d) \<Rightarrow>
         (if \<not> py_truthy (jfield d ''version'') \<or> \<not> py_truthy (jfield d ''effective_date'') then [(''file missing version/effective_date: '', path)]
          else complain (\<not> valid_date (jfield d ''effective_date'')) ''file has bad effective_date: '' path)
         @ complain (\<not> same_field d pack ''version'') ''file version mismatch: '' path
         @ complain (\<not> same_field d pack ''source_document_sha256'') ''file source identity mismatch: '' path
     | Some _ \<Rightarrow> [(''file is not a mapping: '', path)])"

text \<open>Paths that occur again, in the order of the list.\<close>

fun path_complaints :: "pystr list \<Rightarrow> pystr list \<Rightarrow> complaint list" where
  "path_complaints seen [] = []"
| "path_complaints seen (p # ps) = complain (\<not> is_safe_path p) ''unsafe file path rejected: '' p
     @ complain (p \<in> set seen) ''duplicate file entry rejected: '' p @ path_complaints (p # seen) ps"

definition files_complaints :: "(pystr \<times> json) list \<Rightarrow> (pystr \<times> json) list \<Rightarrow> complaint list" where
  "files_complaints pack files_content =
     (if jfield pack ''files'' = JNull then []
      else case text_list (jfield pack ''files'') of
          None \<Rightarrow> [(''files must be a non-empty list of path strings'', [])]
        | Some [] \<Rightarrow> [(''files must be a non-empty list of path strings'', [])]
        | Some listed \<Rightarrow> path_complaints [] listed
            @ complain (list_ex (\<lambda>kv. fst kv \<notin> set listed) files_content) ''files beyond manifest rejected: '' []
            @ concat (map (doc_complaints pack files_content) listed))"

text \<open>\<^verbatim>\<open>sorted(pack.get(key, []))\<close>.\<close>

definition sorted_field :: "pack_env \<Rightarrow> (pystr \<times> json) list \<Rightarrow> string \<Rightarrow> json list result" where
  "sorted_field E pack k = (case map_of pack (py k) of None \<Rightarrow> Inr []
     | Some (JList xs) \<Rightarrow> (case texts_of xs of Some ts \<Rightarrow> Inr (map JStr (sort ts)) | None \<Rightarrow> pe_sorted E xs)
     | Some (JStr s) \<Rightarrow> Inr (map (\<lambda>c. JStr [c]) (sort s))
     | Some (JObj d) \<Rightarrow> Inr (map JStr (py_sorted_set (map fst d)))
     | Some _ \<Rightarrow> Inl (TypeError ''object is not iterable''))"

definition compute_pack_sha256 :: "pack_env \<Rightarrow> (pystr \<times> json) list \<Rightarrow> (pystr \<times> json) list \<Rightarrow> pystr result" where
  "compute_pack_sha256 E pack files_content =
     bindE (sorted_field E pack ''files'') (\<lambda>files.
     bindE (sorted_field E pack ''unresolved_gap_ids'') (\<lambda>gaps.
       let manifest = map (\<lambda>f. (f, case map_of pack f of None \<Rightarrow> JNull | Some v \<Rightarrow> v)) MANIFEST_HASH_FIELDS
             @ [(py ''files'', JList files), (py ''unresolved_gap_ids'', JList gaps)]
       in canonical_hash (pe_platform E) (JObj [(py ''manifest'', json_norm (JObj manifest)),
            (py ''files'', JObj (map (\<lambda>kv. (fst kv, json_norm (snd kv))) (dict_items files_content)))])))"

definition hash_complaints :: "(pystr \<times> json) list \<Rightarrow> pystr result \<Rightarrow> complaint list" where
  "hash_complaints pack computed = (case computed of
       Inl _ \<Rightarrow> [(''malformed rule payload, hash uncomputable: '', [])]
     | Inr h \<Rightarrow> if \<not> is_sha256_text (jfield pack ''sha256'') then [(''sha256 must be a 64-char lowercase hex sha256'', [])]
         else complain (jfield pack ''sha256'' \<noteq> JStr h) ''sha256 mismatch: declared does not match semantic content hash'' [])"

definition gap_complaints :: "(pystr \<times> json) list \<Rightarrow> pystr list \<Rightarrow> complaint list" where
  "gap_complaints pack gap_ids =
     (if jfield pack ''unresolved_gap_ids'' = JNull then []
      else case text_list (jfield pack ''unresolved_gap_ids'') of
          None \<Rightarrow> [(''unresolved_gap_ids must be a list of gap id strings'', [])]
        | Some gaps \<Rightarrow> map (\<lambda>g. (''unknown gap id: '', g)) (filter (\<lambda>g. g \<notin> set gap_ids) gaps))"

text \<open>Every \<^verbatim>\<open>basis\<close> mapping of a document; the search does not go on inside one.\<close>

fun iter_bases :: "json \<Rightarrow> (pystr \<times> json) list list" where
  "iter_bases (JObj d) = concat (map (\<lambda>kv. case kv of (k, JObj b) \<Rightarrow> if k = py ''basis'' then [b] else iter_bases (JObj b)
     | (k, v) \<Rightarrow> iter_bases v) d)"
| "iter_bases (JList xs) = concat (map iter_bases xs)"
| "iter_bases _ = []"

definition has_evidence :: "(pystr \<times> json) list \<Rightarrow> bool" where
  "has_evidence d \<longleftrightarrow> py_truthy (jfield d ''verified_by'') \<and> py_truthy (jfield d ''verified_at'')"

definition claims_verified :: "(pystr \<times> json) list \<Rightarrow> bool" where
  "claims_verified d \<longleftrightarrow> jfield d ''verification_status'' = JStr (py ''verified'')"

definition evidence_complaints :: "pystr \<times> json \<Rightarrow> complaint list" where
  "evidence_complaints file = (case snd file of
       JObj d \<Rightarrow> complain (claims_verified d \<and> \<not> has_evidence d) ''file claims verification without evidence: '' (fst file)
         @ concat (map (\<lambda>b. complain (jfield b ''clause'' \<noteq> JNull \<and> claims_verified b \<and> \<not> has_evidence b)
             ''basis verification rejected in '' (fst file)) (iter_bases (JObj d)))
     | _ \<Rightarrow> [])"

definition reviewed_checklist :: "pack_env \<Rightarrow> (pystr \<times> json) list \<Rightarrow> json \<Rightarrow> bool" where
  "reviewed_checklist E pack review = (case review of
       JObj r \<Rightarrow> jfield r ''policy_identifier'' = JStr CHECKLIST_POLICY_V1 \<and> jfield r ''review_origin'' = JStr REVIEW_ORIGIN_AI_DELEGATED
         \<and> jfield r ''source_section'' = JStr (py ''4.6'') \<and> jfield r ''gap_id'' = JStr (py ''GAP-001'')
         \<and> is_sha256_text (jfield r ''before_sha256'') \<and> is_tz_aware_iso E (jfield r ''reviewed_at'')
         \<and> list_all (\<lambda>k. nonblank_text (jfield r k)) [''reviewer'', ''source_authority'', ''note'', ''before_version'']
         \<and> jfield r ''before_version'' \<noteq> jfield pack ''version''
         \<and> (case jfield r ''boundary_vectors'' of JList xs \<Rightarrow> xs \<noteq> [] | _ \<Rightarrow> False)
     | _ \<Rightarrow> False)"

definition safe_harbor_complaints :: "pack_env \<Rightarrow> (pystr \<times> json) list \<Rightarrow> (pystr \<times> json) list \<Rightarrow> complaint list" where
  "safe_harbor_complaints E pack files_content = (case map_of files_content (py ''regulatory/safe_harbor.yaml'') of
       Some (JObj d) \<Rightarrow> (let mapping = jfield d ''reasonable_basis_boolean_mapping'' in
         complain (jfield d ''grade_mapping'' \<noteq> JNull) ''grade_mapping requires an approved mapping (GAP-001: mapping is null)'' []
         @ (if mapping \<notin> {JNull, JStr CHECKLIST_POLICY_V1} then [(''unsupported reasonable_basis_boolean_mapping (GAP-001)'', [])]
            else if mapping = JStr CHECKLIST_POLICY_V1 then
              complain (\<not> reviewed_checklist E pack (jfield d ''checklist_policy_review''))
                ''checklist policy requires versioned AI review provenance (GAP-001)'' []
              @ complain (case jfield pack ''unresolved_gap_ids'' of JList gs \<Rightarrow> JStr (py ''GAP-001'') \<notin> set gs | _ \<Rightarrow> True)
                  ''checklist policy does not resolve grade mapping (GAP-001)'' []
              @ complain (jfield d ''legal_effect'' \<noteq> JStr (py ''not_determined'')) ''checklist policy cannot determine legal effect (GAP-009)'' []
            else []))
     | _ \<Rightarrow> [])"

definition timeline_complaints :: "(pystr \<times> json) list \<Rightarrow> complaint list" where
  "timeline_complaints files_content = (case map_of files_content (py ''regulatory/timeline.yaml'') of
       Some (JObj d) \<Rightarrow> complain (py_truthy (jfield d ''automatic_legal_applicability_enabled'')) ''automatic legal applicability is disabled (GAP-009)'' []
     | _ \<Rightarrow> [])"

record validation_result =
  vr_ok :: bool
  vr_errors :: "complaint list"
  vr_computed_sha256 :: pystr

definition validate_rulepack :: "pack_env \<Rightarrow> (pystr \<times> json) list \<Rightarrow> (pystr \<times> json) list \<Rightarrow> pystr list \<Rightarrow> validation_result" where
  "validate_rulepack E pack files_content gap_ids =
     (let computed = compute_pack_sha256 E pack files_content;
          errors = field_complaints E pack @ files_complaints pack files_content @ hash_complaints pack computed @ gap_complaints pack gap_ids
            @ concat (map evidence_complaints files_content) @ safe_harbor_complaints E pack files_content @ timeline_complaints files_content
      in \<lparr>vr_ok = (errors = []), vr_errors = errors,
           vr_computed_sha256 = (case computed of Inl _ \<Rightarrow> py ''uncomputable'' | Inr h \<Rightarrow> h)\<rparr>)"

end
