(* ===== verification/Pack_Registry.thy ===== *)
theory Pack_Registry
  imports Pack_Validation Growing_Store
begin

text \<open>
  Model of the registry of \<^verbatim>\<open>application/rulepacks.py\<close>: the packs of all tenants, the frozen runs and the pointer to the active pack
  of each tenant and mode, with \<^verbatim>\<open>activate_rulepack\<close> and the AI-delegated review path.

  The registry is immutable in the source; an operation returns the next one. A changing operation is a step of \<open>registry_step\<close>. The review replaces the pack
  object that \<^verbatim>\<open>get_pack\<close> found, the first with its identity. \<^verbatim>\<open>from_reason\<close> takes \<^verbatim>\<open>json.loads\<close> as an argument, \<open>None\<close> where it raises.
\<close>

section \<open>Records\<close>

record pack_record =
  pk_rule_pack_id :: pystr
  pk_tenant_id :: pystr
  pk_version :: pystr
  pk_effective_date :: pystr
  pk_mode :: pystr
  pk_status :: pystr
  pk_ontology_version :: pystr
  pk_source_document_sha256 :: pystr
  pk_files :: "pystr list"
  pk_sha256 :: pystr
  pk_unresolved_gap_ids :: "pystr list"
  pk_approved_by :: "pystr option"
  pk_approved_at :: "pystr option"

definition opt_text :: "pystr option \<Rightarrow> json" where
  "opt_text x = (case x of None \<Rightarrow> JNull | Some s \<Rightarrow> JStr s)"

definition pack_to_dict :: "pack_record \<Rightarrow> (pystr \<times> json) list" where
  "pack_to_dict p =
     [(py ''rule_pack_id'', JStr (pk_rule_pack_id p)), (py ''tenant_id'', JStr (pk_tenant_id p)), (py ''version'', JStr (pk_version p)),
      (py ''effective_date'', JStr (pk_effective_date p)), (py ''mode'', JStr (pk_mode p)), (py ''status'', JStr (pk_status p)),
      (py ''ontology_version'', JStr (pk_ontology_version p)), (py ''source_document_sha256'', JStr (pk_source_document_sha256 p)),
      (py ''files'', JList (map JStr (pk_files p))), (py ''sha256'', JStr (pk_sha256 p)),
      (py ''unresolved_gap_ids'', JList (map JStr (pk_unresolved_gap_ids p))),
      (py ''approved_by'', opt_text (pk_approved_by p)), (py ''approved_at'', opt_text (pk_approved_at p))]"

record run_snapshot =
  rn_run_id :: pystr
  rn_tenant_id :: pystr
  rn_rule_pack_id :: pystr
  rn_rule_pack_sha256 :: pystr
  rn_status :: pystr

record activation_record =
  ac_before_pack_id :: "pystr option"
  ac_after_pack_id :: pystr
  ac_tenant_id :: pystr
  ac_mode :: pystr
  ac_actor :: pystr
  ac_reason :: pystr

definition DEMO_LIMITS :: "pystr list" where
  "DEMO_LIMITS = [py ''explicit-ladder demo only'', py ''per-claim gates retained'', py ''unverified basis stays unverified'',
     py ''no legal-effect or immunity claim'', py ''local synthetic use only; never customer activation'']"

record demo_grant =
  dg_rule_pack_id :: pystr
  dg_tenant_id :: pystr
  dg_sha256 :: pystr
  dg_actor :: pystr
  dg_purpose :: pystr
  dg_limits :: "pystr list"
  dg_local_only :: bool
  dg_approved_by :: json

record pack_registry =
  rg_packs :: "pack_record list"
  rg_runs :: "run_snapshot list"
  rg_active :: "(pystr \<times> pystr \<times> pystr) list"

definition empty_registry :: pack_registry where
  "empty_registry = \<lparr>rg_packs = [], rg_runs = [], rg_active = []\<rparr>"

section \<open>Reading and adding\<close>

definition pack_key :: "pack_record \<Rightarrow> pystr \<times> pystr" where
  "pack_key p = (pk_tenant_id p, pk_rule_pack_id p)"

definition with_pack :: "pack_registry \<Rightarrow> pack_record \<Rightarrow> pack_registry result" where
  "with_pack R pack = (case find (\<lambda>p. pack_key p = pack_key pack) (rg_packs R) of
       Some existing \<Rightarrow> if existing = pack then Inr R else Inl (ValueError ''conflicting rule pack id'')
     | None \<Rightarrow> Inr (R\<lparr>rg_packs := rg_packs R @ [pack]\<rparr>))"

definition with_run :: "pack_registry \<Rightarrow> run_snapshot \<Rightarrow> pack_registry" where
  "with_run R run = R\<lparr>rg_runs := rg_runs R @ [run]\<rparr>"

definition get_pack :: "pack_registry \<Rightarrow> pystr \<Rightarrow> pystr \<Rightarrow> pack_record result" where
  "get_pack R tenant_id rule_pack_id = (case find (\<lambda>p. pk_rule_pack_id p = rule_pack_id \<and> pk_tenant_id p = tenant_id) (rg_packs R) of
       Some pack \<Rightarrow> Inr pack | None \<Rightarrow> Inl (LookupError ''rule pack not found''))"

definition packs_for_tenant :: "pack_registry \<Rightarrow> pystr \<Rightarrow> pack_record list" where
  "packs_for_tenant R tenant_id = filter (\<lambda>p. pk_tenant_id p = tenant_id) (rg_packs R)"

definition runs_for_tenant :: "pack_registry \<Rightarrow> pystr \<Rightarrow> run_snapshot list" where
  "runs_for_tenant R tenant_id = filter (\<lambda>r. rn_tenant_id r = tenant_id) (rg_runs R)"

definition active_pack_id :: "pack_registry \<Rightarrow> pystr \<Rightarrow> pystr \<Rightarrow> pystr option" where
  "active_pack_id R tenant_id mode = map_option (\<lambda>a. snd (snd a)) (find (\<lambda>a. fst a = tenant_id \<and> fst (snd a) = mode) (rg_active R))"

definition with_active :: "pack_registry \<Rightarrow> pystr \<Rightarrow> pystr \<Rightarrow> pystr \<Rightarrow> pack_registry" where
  "with_active R tenant_id mode pack_id =
     R\<lparr>rg_active := filter (\<lambda>a. \<not> (fst a = tenant_id \<and> fst (snd a) = mode)) (rg_active R) @ [(tenant_id, mode, pack_id)]\<rparr>"

section \<open>Demo use and activation\<close>

definition text_field :: "(pystr \<times> json) list \<Rightarrow> string \<Rightarrow> pystr" where
  "text_field d k = (case jfield d k of JStr s \<Rightarrow> s | _ \<Rightarrow> [])"

text \<open>A pack that validates has texts for its identity and hash, so \<^verbatim>\<open>str(..)\<close> of them is the text.\<close>

definition grant_demo_use ::
  "pack_env \<Rightarrow> (pystr \<times> json) list \<Rightarrow> (pystr \<times> json) list \<Rightarrow> pystr list \<Rightarrow> pystr \<Rightarrow> pystr \<Rightarrow> demo_grant result" where
  "grant_demo_use E pack files_content gap_ids actor purpose =
     (if actor = [] \<or> purpose = [] then Inl (ValueError ''demo grant requires actor and purpose'')
      else if jfield pack ''status'' \<notin> JStr ` set DEMO_STATUSES then Inl (ValueError ''demo use is limited to draft/validated packs'')
      else if \<not> vr_ok (validate_rulepack E pack files_content gap_ids) then Inl (ValueError ''rule pack failed validation'')
      else Inr \<lparr>dg_rule_pack_id = text_field pack ''rule_pack_id'', dg_tenant_id = text_field pack ''tenant_id'',
                dg_sha256 = text_field pack ''sha256'', dg_actor = actor, dg_purpose = purpose, dg_limits = DEMO_LIMITS, dg_local_only = True,
                dg_approved_by = jfield pack ''approved_by''\<rparr>)"

definition activation_of :: "pack_registry \<Rightarrow> pack_record \<Rightarrow> pystr \<Rightarrow> pystr \<Rightarrow> activation_record" where
  "activation_of R pack actor reason =
     \<lparr>ac_before_pack_id = active_pack_id R (pk_tenant_id pack) (pk_mode pack), ac_after_pack_id = pk_rule_pack_id pack,
      ac_tenant_id = pk_tenant_id pack, ac_mode = pk_mode pack, ac_actor = actor, ac_reason = reason\<rparr>"

definition switch_pack :: "pack_registry \<Rightarrow> pack_record \<Rightarrow> pack_record \<Rightarrow> pack_record" where
  "switch_pack R pack p =
     (if pk_tenant_id p = pk_tenant_id pack \<and> pk_mode p = pk_mode pack \<and> Some (pk_rule_pack_id p) = active_pack_id R (pk_tenant_id pack) (pk_mode pack)
         \<and> pk_status p = py ''active'' then p\<lparr>pk_status := py ''retired''\<rparr>
      else if pk_rule_pack_id p = pk_rule_pack_id pack \<and> pk_tenant_id p = pk_tenant_id pack then p\<lparr>pk_status := py ''active''\<rparr> else p)"

definition activate_rulepack ::
  "pack_env \<Rightarrow> pack_registry \<Rightarrow> pystr \<Rightarrow> pystr \<Rightarrow> pystr \<Rightarrow> pystr \<Rightarrow> (pystr \<times> json) list \<Rightarrow> pystr list \<Rightarrow> (pack_registry \<times> activation_record) result" where
  "activate_rulepack E R rule_pack_id tenant_id actor reason files_content gap_ids =
     (if actor = [] \<or> reason = [] then Inl (ValueError ''activation requires actor and reason'')
      else bindE (get_pack R tenant_id rule_pack_id) (\<lambda>pack.
       if pk_status pack = py ''retired'' then Inl (ValueError ''retired packs cannot be activated'')
       else if pk_status pack \<noteq> py ''validated'' \<and> \<not> (pk_status pack = py ''active'' \<and> active_pack_id R tenant_id (pk_mode pack) = Some rule_pack_id)
       then Inl (ValueError ''only status=validated packs can be activated (validate first)'')
       else if \<not> opt_truthy (pk_approved_by pack) \<or> \<not> opt_truthy (pk_approved_at pack)
       then Inl (ValueError ''activation requires approved_by and approved_at'')
       else if \<not> vr_ok (validate_rulepack E (pack_to_dict pack) files_content gap_ids) then Inl (ValueError ''rule pack failed validation'')
       else if active_pack_id R tenant_id (pk_mode pack) = Some rule_pack_id then Inr (R, activation_of R pack actor reason)
       else Inr (with_active (R\<lparr>rg_packs := map (switch_pack R pack) (rg_packs R)\<rparr>) tenant_id (pk_mode pack) rule_pack_id,
                 activation_of R pack actor reason)))"

section \<open>The AI-delegated review\<close>

record review_provenance =
  rv_review_origin :: pystr
  rv_reviewer :: pystr
  rv_reviewed_at :: pystr
  rv_source_authority :: pystr
  rv_pack_sha256 :: pystr
  rv_note :: pystr

definition REASON_PREFIX :: pystr where
  "REASON_PREFIX = py ''review_provenance:''"

definition REVIEW_KEYS :: "string list" where
  "REVIEW_KEYS = [''review_origin'', ''reviewer'', ''reviewed_at'', ''source_authority'', ''pack_sha256'', ''note'']"

definition review_dict :: "review_provenance \<Rightarrow> (pystr \<times> json) list" where
  "review_dict v = [(py ''review_origin'', JStr (rv_review_origin v)), (py ''reviewer'', JStr (rv_reviewer v)),
     (py ''reviewed_at'', JStr (rv_reviewed_at v)), (py ''source_authority'', JStr (rv_source_authority v)),
     (py ''pack_sha256'', JStr (rv_pack_sha256 v)), (py ''note'', JStr (rv_note v))]"

definition to_reason :: "pack_env \<Rightarrow> review_provenance \<Rightarrow> pystr" where
  "to_reason E v = REASON_PREFIX @ json_print (float_repr (pe_platform E)) (json_norm (JObj (review_dict v)))"

definition from_reason :: "(pystr \<Rightarrow> json option) \<Rightarrow> pack_env \<Rightarrow> pystr \<Rightarrow> review_provenance option" where
  "from_reason loads E reason =
     (if \<not> py_startswith reason REASON_PREFIX then None
      else case loads (drop (length REASON_PREFIX) reason) of
        Some (JObj d) \<Rightarrow>
          (if fst ` set d \<noteq> py ` set REVIEW_KEYS then None
           else if list_ex (\<lambda>k. \<not> nonblank_text (jfield d k)) REVIEW_KEYS then None
           else if jfield d ''review_origin'' \<noteq> JStr REVIEW_ORIGIN_AI_DELEGATED then None
           else if \<not> is_sha256_text (jfield d ''pack_sha256'') then None
           else if \<not> is_tz_aware_iso E (jfield d ''reviewed_at'') then None
           else Some \<lparr>rv_review_origin = text_field d ''review_origin'', rv_reviewer = text_field d ''reviewer'',
                      rv_reviewed_at = text_field d ''reviewed_at'', rv_source_authority = text_field d ''source_authority'',
                      rv_pack_sha256 = text_field d ''pack_sha256'', rv_note = text_field d ''note''\<rparr>)
      | _ \<Rightarrow> None)"

fun replace_first :: "('a \<Rightarrow> bool) \<Rightarrow> 'a \<Rightarrow> 'a list \<Rightarrow> 'a list" where
  "replace_first P y [] = []"
| "replace_first P y (x # xs) = (if P x then y # xs else x # replace_first P y xs)"

definition approve_pack :: "pack_record \<Rightarrow> pystr \<Rightarrow> pystr \<Rightarrow> pack_record" where
  "approve_pack p reviewer reviewed_at = p\<lparr>pk_approved_by := Some (APPROVER_PREFIX @ reviewer), pk_approved_at := Some reviewed_at\<rparr>"

definition record_ai_delegated_review ::
  "pack_env \<Rightarrow> pack_registry \<Rightarrow> pystr \<Rightarrow> pystr \<Rightarrow> pystr \<Rightarrow> pystr \<Rightarrow> pystr \<Rightarrow> pystr \<Rightarrow> (pystr \<times> json) list \<Rightarrow> pystr list
    \<Rightarrow> (pack_registry \<times> activation_record \<times> review_provenance) result" where
  "record_ai_delegated_review E R rule_pack_id tenant_id reviewer reviewed_at source_authority note files_content gap_ids =
     (if py_strip reviewer = [] then Inl (ValueError ''AI-delegated review requires a non-blank reviewer'')
      else if py_strip source_authority = [] then Inl (ValueError ''AI-delegated review requires a non-blank source_authority'')
      else if py_strip note = [] then Inl (ValueError ''AI-delegated review requires a non-blank note'')
      else if \<not> is_tz_aware_iso E (JStr reviewed_at) then Inl (ValueError ''AI-delegated review requires a timezone-aware ISO 8601 reviewed_at'')
      else bindE (get_pack R tenant_id rule_pack_id) (\<lambda>pack.
       if pk_status pack \<noteq> py ''validated'' then Inl (ValueError ''only status=validated packs can receive an AI-delegated review'')
       else if opt_truthy (pk_approved_by pack) then Inl (ValueError ''pack already has a human approved_by; AI-delegated review refused'')
       else
        let provenance = \<lparr>rv_review_origin = REVIEW_ORIGIN_AI_DELEGATED, rv_reviewer = reviewer, rv_reviewed_at = reviewed_at,
              rv_source_authority = source_authority, rv_pack_sha256 = pk_sha256 pack, rv_note = note\<rparr>;
            reviewed = R\<lparr>rg_packs := replace_first (\<lambda>p. pack_key p = pack_key pack) (approve_pack pack reviewer reviewed_at) (rg_packs R)\<rparr>
        in bindE (activate_rulepack E reviewed rule_pack_id tenant_id reviewer (to_reason E provenance) files_content gap_ids)
             (\<lambda>(updated, activation). Inr (updated, activation, provenance))))"

section \<open>Steps\<close>

text \<open>The changing operations with their arguments; what an operation returns beside the registry is the activation and the provenance.\<close>

datatype registry_op =
    Add_pack pack_record
  | Add_run run_snapshot
  | Activate pystr pystr pystr pystr "(pystr \<times> json) list" "pystr list"
  | Review pystr pystr pystr pystr pystr pystr "(pystr \<times> json) list" "pystr list"

type_synonym registry_output = "activation_record option \<times> review_provenance option"

fun registry_apply :: "pack_env \<Rightarrow> registry_op \<Rightarrow> pack_registry \<Rightarrow> (pack_registry \<times> registry_output) result" where
  "registry_apply E (Add_pack p) R = bindE (with_pack R p) (\<lambda>R'. Inr (R', None, None))"
| "registry_apply E (Add_run r) R = Inr (with_run R r, None, None)"
| "registry_apply E (Activate i t actor reason fc gaps) R =
     bindE (activate_rulepack E R i t actor reason fc gaps) (\<lambda>(R', a). Inr (R', Some a, None))"
| "registry_apply E (Review i t reviewer reviewed_at authority note fc gaps) R =
     bindE (record_ai_delegated_review E R i t reviewer reviewed_at authority note fc gaps) (\<lambda>(R', a, v). Inr (R', Some a, Some v))"

fun op_tenant :: "registry_op \<Rightarrow> pystr" where
  "op_tenant (Add_pack p) = pk_tenant_id p"
| "op_tenant (Add_run r) = rn_tenant_id r"
| "op_tenant (Activate i t actor reason fc gaps) = t"
| "op_tenant (Review i t reviewer reviewed_at authority note fc gaps) = t"

definition registry_step :: "pack_env \<Rightarrow> pack_registry \<Rightarrow> pack_registry \<Rightarrow> bool" where
  "registry_step E R R' \<longleftrightarrow> (\<exists>act out. registry_apply E act R = Inr (R', out))"

end
