(* ===== verification/Pack_Props.thy ===== *)
theory Pack_Props
  imports Pack_Registry Audit_Log
begin

text \<open>
  What a validated pack promises: it is closed over its files (\<open>validated_pack_is_closed\<close>) and the domain accepts it as a snapshot
  (\<open>validated_pack_has_snapshot\<close>), which in particular rules out the repeated paths of \<open>duplicate_path_escapes_hash\<close>.
\<close>

section \<open>Validation\<close>

named_theorems complaint_simps

lemma complain_Nil [complaint_simps]: "complain b m x = [] \<longleftrightarrow> \<not> b"
  by (simp add: complain_def)

lemma validate_ok:
  "vr_ok (validate_rulepack E pack fc gaps) \<longleftrightarrow>
     field_complaints E pack = [] \<and> files_complaints pack fc = [] \<and> hash_complaints pack (compute_pack_sha256 E pack fc) = []
     \<and> gap_complaints pack gaps = [] \<and> concat (map evidence_complaints fc) = [] \<and> safe_harbor_complaints E pack fc = []
     \<and> timeline_complaints fc = []"
  by (simp add: validate_rulepack_def Let_def)

lemma texts_of_map [simp]: "texts_of (map JStr ts) = Some ts"
  by (induction ts) simp_all

lemma path_complaints_Nil: "path_complaints seen ps = [] \<longleftrightarrow> list_all is_safe_path ps \<and> distinct ps \<and> set ps \<inter> set seen = {}"
  by (induction ps arbitrary: seen) (auto simp: complaint_simps)

lemma jfield_pack [simp]:
  "jfield (pack_to_dict p) ''files'' = JList (map JStr (pk_files p))"
  "jfield (pack_to_dict p) ''unresolved_gap_ids'' = JList (map JStr (pk_unresolved_gap_ids p))"
  "jfield (pack_to_dict p) ''sha256'' = JStr (pk_sha256 p)"
  "jfield (pack_to_dict p) ''version'' = JStr (pk_version p)"
  "jfield (pack_to_dict p) ''status'' = JStr (pk_status p)"
  "jfield (pack_to_dict p) ''mode'' = JStr (pk_mode p)"
  by (simp_all add: jfield_def pack_to_dict_def)

lemma text_list_texts [simp]: "text_list (JList (map JStr ts)) = Some ts"
  by (simp add: text_list_def)

lemma files_complaints_pack:
  "files_complaints (pack_to_dict p) fc = [] \<longleftrightarrow> pk_files p \<noteq> [] \<and> list_all is_safe_path (pk_files p) \<and> distinct (pk_files p)
     \<and> fst ` set fc \<subseteq> set (pk_files p) \<and> (\<forall>path\<in>set (pk_files p). doc_complaints (pack_to_dict p) fc path = [])"
  by (auto simp: files_complaints_def path_complaints_Nil complaint_simps list_ex_iff split: list.split)

lemma doc_complaints_mapping: "doc_complaints pack fc path = [] \<Longrightarrow> \<exists>d. map_of fc path = Some (JObj d)"
  by (auto simp: doc_complaints_def split: option.splits json.splits)

text \<open>The texts the hash of a record is computed from do not include the status or the approval.\<close>

definition pack_hash :: "pack_env \<Rightarrow> pack_record \<Rightarrow> (pystr \<times> json) list \<Rightarrow> pystr result" where
  "pack_hash E p fc = pack_content_hash (pe_platform E) (pack_to_dict p) (pk_files p) (pk_unresolved_gap_ids p) fc"

lemma compute_pack: "compute_pack_sha256 E (pack_to_dict p) fc = pack_hash E p fc"
proof -
  have "sorted_field E (pack_to_dict p) ''files'' = Inr (map JStr (sort (pk_files p)))"
    "sorted_field E (pack_to_dict p) ''unresolved_gap_ids'' = Inr (map JStr (sort (pk_unresolved_gap_ids p)))"
    by (simp_all add: sorted_field_def pack_to_dict_def)
  then show ?thesis
    by (simp add: compute_pack_sha256_def pack_hash_def pack_content_hash_def pack_envelope_def Let_def)
qed

lemma hash_complaints_Inr: "hash_complaints pack r = [] \<Longrightarrow> \<exists>h. r = Inr h \<and> jfield pack ''sha256'' = JStr h"
  by (cases r) (auto simp: hash_complaints_def complaint_simps split: if_splits)

lemma gap_complaints_Nil: "gap_complaints (pack_to_dict p) gaps = [] \<longleftrightarrow> set (pk_unresolved_gap_ids p) \<subseteq> set gaps"
  by (auto simp: gap_complaints_def filter_empty_conv)

text \<open>A document with no verification claim without evidence, at its top or at a basis that names a clause.\<close>

definition verification_backed :: "(pystr \<times> json) list \<Rightarrow> bool" where
  "verification_backed d \<longleftrightarrow> (claims_verified d \<longrightarrow> has_evidence d)
     \<and> list_all (\<lambda>b. jfield b ''clause'' \<noteq> JNull \<and> claims_verified b \<longrightarrow> has_evidence b) (iter_bases (JObj d))"

lemma evidence_complaints_Nil: "evidence_complaints (path, JObj d) = [] \<longleftrightarrow> verification_backed d"
  by (auto simp: evidence_complaints_def verification_backed_def complaint_simps list_all_iff simp del: iter_bases.simps)

lemma evidence_at: "concat (map evidence_complaints fc) = [] \<Longrightarrow> map_of fc path = Some (JObj d) \<Longrightarrow> verification_backed d"
  using evidence_complaints_Nil by (fastforce dest: map_of_SomeD)

lemma validated_parts:
  assumes "vr_ok (validate_rulepack E (pack_to_dict p) fc gaps)"
  shows "pk_files p \<noteq> []" "list_all is_safe_path (pk_files p)" "distinct (pk_files p)" "fst ` set fc = set (pk_files p)"
    "pack_hash E p fc = Inr (pk_sha256 p)" "path \<in> set (pk_files p) \<Longrightarrow> \<exists>d. map_of fc path = Some (JObj d) \<and> verification_backed d"
proof -
  note v = assms [unfolded validate_ok]
  then have f: "files_complaints (pack_to_dict p) fc = []" by blast
  note g = f [unfolded files_complaints_pack]
  then show "pk_files p \<noteq> []" "list_all is_safe_path (pk_files p)" "distinct (pk_files p)" by blast+
  have docs: "\<exists>d. map_of fc path = Some (JObj d)" if "path \<in> set (pk_files p)" for path
    using g that doc_complaints_mapping by blast
  then show "path \<in> set (pk_files p) \<Longrightarrow> \<exists>d. map_of fc path = Some (JObj d) \<and> verification_backed d"
    using v evidence_at by blast
  have "path \<in> fst ` set fc" if "path \<in> set (pk_files p)" for path
    using docs [OF that] by (force dest: map_of_SomeD)
  with g show "fst ` set fc = set (pk_files p)" by blast
  show "pack_hash E p fc = Inr (pk_sha256 p)"
    using v hash_complaints_Inr [of "pack_to_dict p" "pack_hash E p fc"] by (auto simp: compute_pack)
qed

lemma validated_parts':
  assumes "vr_ok (validate_rulepack E (pack_to_dict p) fc gaps)"
  shows "set (pk_unresolved_gap_ids p) \<subseteq> set gaps"
    "map_of fc (py ''regulatory/safe_harbor.yaml'') = Some (JObj d) \<Longrightarrow> jfield d ''grade_mapping'' = JNull"
    "map_of fc (py ''regulatory/timeline.yaml'') = Some (JObj d) \<Longrightarrow> \<not> py_truthy (jfield d ''automatic_legal_applicability_enabled'')"
  using assms unfolding validate_ok gap_complaints_Nil
  by (simp_all add: safe_harbor_complaints_def timeline_complaints_def complaint_simps Let_def)

text \<open>
  C14. A validated pack is closed: its paths are safe and none is listed twice, the contents it is served with are exactly those paths, each a mapping in
  which no clause is marked verified without evidence, its declared hash is the hash of these contents, its gaps are registered, no grade mapping is set and
  automatic legal applicability is off.
\<close>

theorem validated_pack_is_closed:
  assumes "vr_ok (validate_rulepack E (pack_to_dict p) fc gaps)"
  shows "pk_files p \<noteq> [] \<and> list_all is_safe_path (pk_files p) \<and> distinct (pk_files p) \<and> fst ` set fc = set (pk_files p)
    \<and> (\<forall>path\<in>set (pk_files p). \<exists>d. map_of fc path = Some (JObj d) \<and> verification_backed d)
    \<and> compute_pack_sha256 E (pack_to_dict p) fc = Inr (pk_sha256 p) \<and> set (pk_unresolved_gap_ids p) \<subseteq> set gaps
    \<and> (\<forall>d. map_of fc (py ''regulatory/safe_harbor.yaml'') = Some (JObj d) \<longrightarrow> jfield d ''grade_mapping'' = JNull)
    \<and> (\<forall>d. map_of fc (py ''regulatory/timeline.yaml'') = Some (JObj d) \<longrightarrow> \<not> py_truthy (jfield d ''automatic_legal_applicability_enabled''))"
  using validated_parts [OF assms] validated_parts' [OF assms] by (simp add: compute_pack)

section \<open>From the validation to the snapshot\<close>

definition pack_meta :: "pack_record \<Rightarrow> rule_pack" where
  "pack_meta p = \<lparr>rp_rule_pack_id = pk_rule_pack_id p, rp_tenant_id = pk_tenant_id p, rp_version = pk_version p,
     rp_effective_date = pk_effective_date p, rp_mode = pk_mode p, rp_status = pk_status p, rp_ontology_version = pk_ontology_version p,
     rp_source_document_sha256 = pk_source_document_sha256 p, rp_sha256 = pk_sha256 p, rp_files = pk_files p,
     rp_unresolved_gap_ids = pk_unresolved_gap_ids p, rp_approved_by = pk_approved_by p, rp_approved_at = pk_approved_at p, rp_content = []\<rparr>"

definition normed_content :: "(pystr \<times> json) list \<Rightarrow> (pystr \<times> json) list" where
  "normed_content fc = map (\<lambda>kv. (fst kv, json_norm (snd kv))) (dict_items fc)"

lemma fst_normed [simp]: "map fst (normed_content fc) = py_sorted_set (map fst fc)"
  by (simp add: normed_content_def comp_def)

lemma normed_items: "dict_items (normed_content fc) = normed_content fc"
proof -
  have d: "distinct (map fst (normed_content fc))" by simp
  then have m: "dict_of (normed_content fc) = map_of (normed_content fc)" by (rule dict_of_distinct)
  have v: "map_of (normed_content fc) (fst kv) = Some (snd kv)" if "kv \<in> set (normed_content fc)" for kv
    using map_of_is_SomeI [OF d, of "fst kv" "snd kv"] that by simp
  have s: "py_sorted_set (map fst (normed_content fc)) = map fst (normed_content fc)"
    by (simp add: py_sorted_set_def distinct_remdups_id sort_key_id_if_sorted)
  show ?thesis
    unfolding dict_items_def s m map_map
    by (intro map_idI) (simp add: prod_eq_iff v)
qed

lemma json_norm_finite: "json_finite (json_norm v) \<longleftrightarrow> json_finite v"
  by (induction v rule: json_norm.induct) auto


lemma normed_norm: "map (\<lambda>kv. (fst kv, json_norm (snd kv))) (normed_content fc) = normed_content fc"
  by (simp add: normed_content_def comp_def)

lemma hash_normed: "pack_content_hash P pack fs gs (normed_content fc) = pack_content_hash P pack fs gs fc"
  unfolding pack_content_hash_def pack_envelope_def normed_items normed_norm by (simp add: normed_content_def)

lemma hash_manifest_cong:
  assumes "\<And>f. f \<in> set MANIFEST_HASH_FIELDS \<Longrightarrow> map_of a f = map_of b f"
  shows "pack_content_hash P a fs gs fc = pack_content_hash P b fs gs fc"
proof -
  have "map (\<lambda>f. (f, case map_of a f of None \<Rightarrow> JNull | Some v \<Rightarrow> v)) MANIFEST_HASH_FIELDS =
      map (\<lambda>f. (f, case map_of b f of None \<Rightarrow> JNull | Some v \<Rightarrow> v)) MANIFEST_HASH_FIELDS"
    using assms by (intro map_cong) simp_all
  then show ?thesis unfolding pack_content_hash_def pack_envelope_def by (simp only:)
qed

lemma hash_finite:
  assumes "pack_content_hash P pack fs gs fc = Inr h" "kv \<in> set (dict_items fc)"
  shows "json_finite (snd kv)"
proof -
  have "json_finite (pack_envelope pack fs gs fc)"
    using assms(1) by (simp add: pack_content_hash_def canonical_hash_def canonical_json_def result_simps split: if_splits)
  then show ?thesis
    using assms(2) by (auto simp: pack_envelope_def Let_def json_norm_finite simp del: json_norm.simps)
qed

lemma normed_content_encodes:
  assumes "pack_content_hash P pack fs gs fc = Inr h"
  shows "mapE (\<lambda>kv. bindE (canonical_json P (snd kv)) (\<lambda>_. Inr (fst kv, json_norm (snd kv)))) (dict_items fc) = Inr (normed_content fc)"
  unfolding normed_content_def using hash_finite [OF assms] by (intro mapE_Inr_id) (simp add: canonical_json_def)

lemma manifest_of_pack: "f \<in> set MANIFEST_HASH_FIELDS \<Longrightarrow> map_of (snapshot_manifest ((pack_meta p)\<lparr>rp_content := c\<rparr>)) f = map_of (pack_to_dict p) f"
  by (auto simp: MANIFEST_HASH_FIELDS_def snapshot_manifest_def pack_meta_def pack_to_dict_def)

lemma sort_paths:
  assumes "distinct fs" "fst ` set fc = set fs"
  shows "sort (py_sorted_set (map fst fc)) = sort fs"
  using assms by (intro sorted_distinct_set_unique) simp_all

text \<open>
  C38. A validated pack is never refused by the domain: from it and its contents the snapshot is built, it lists no path twice, and every path is served with the
  normal form of the mapping that was validated.
\<close>

theorem validated_pack_has_snapshot:
  assumes "vr_ok (validate_rulepack E (pack_to_dict p) fc gaps)" "distinct (map fst fc)"
  shows "\<exists>s. snapshot_from_validated (pe_platform E) (pack_meta p) fc = Inr s \<and> distinct (rp_files s) \<and> rp_files s = pk_files p
     \<and> (\<forall>path\<in>set (pk_files p). \<exists>d. map_of fc path = Some (JObj d) \<and> Inr (json_norm (JObj d)) = map_sum id JObj (file_content s path))"
proof (rule exI, intro conjI ballI)
  let ?s = "(pack_meta p)\<lparr>rp_content := normed_content fc\<rparr>"
  note v = validated_parts [OF assms(1)]
  have h: "pack_content_hash (pe_platform E) (snapshot_manifest ?s) (pk_files p) (pk_unresolved_gap_ids p) (normed_content fc) = Inr (pk_sha256 p)"
    using v(5) hash_manifest_cong [OF manifest_of_pack] unfolding pack_hash_def hash_normed by metis
  show "snapshot_from_validated (pe_platform E) (pack_meta p) fc = Inr ?s"
    unfolding snapshot_from_validated_def normed_content_encodes [OF v(5) [unfolded pack_hash_def]] bindE.simps mk_snapshot_def
    using h sort_paths [OF v(3,4)] by (simp add: pack_meta_def)
  show "rp_files ?s = pk_files p" "distinct (rp_files ?s)" using v(3) by (simp_all add: pack_meta_def)
  fix path assume "path \<in> set (pk_files p)"
  then obtain d where d: "map_of fc path = Some (JObj d)" using v(6) by blast
  then have m: "map_of (normed_content fc) path = Some (json_norm (JObj d))"
    unfolding normed_content_def map_of_map_norm map_of_dict_items dict_of_distinct [OF assms(2)] by simp
  obtain e where e: "json_norm (JObj d) = JObj e" by simp
  have "json_norm (JObj e) = JObj e" using json_norm_idem [of "JObj d"] unfolding e .
  with e have "Inr (json_norm (JObj d)) = map_sum id JObj (file_content ?s path)"
    by (simp add: file_content_def m del: json_norm.simps)
  with d show "\<exists>d. map_of fc path = Some (JObj d) \<and> Inr (json_norm (JObj d)) = map_sum id JObj (file_content ?s path)" by blast
qed

section \<open>A sample pack\<close>

definition sample_env :: pack_env where
  "sample_env = \<lparr>pe_platform = hex_platform, pe_uuid = (\<lambda>_. True), pe_iso_aware = (\<lambda>_. True), pe_sorted = (\<lambda>_. Inl (TypeError ''unorderable types''))\<rparr>"

definition sample_pack :: pack_record where
  "sample_pack = \<lparr>pk_rule_pack_id = py ''p1'', pk_tenant_id = py ''t1'', pk_version = py ''1'', pk_effective_date = py ''2026-01-01'',
     pk_mode = py ''disclosure'', pk_status = py ''validated'', pk_ontology_version = py ''1'', pk_source_document_sha256 = hex64,
     pk_files = [py ''a''], pk_sha256 = hex64, pk_unresolved_gap_ids = [], pk_approved_by = Some (py ''lead''), pk_approved_at = Some (py ''2026-01-01'')\<rparr>"

definition sample_files :: "(pystr \<times> json) list" where
  "sample_files = [(py ''a'', JObj [(py ''version'', JStr (py ''1'')), (py ''effective_date'', JStr (py ''2026-01-01''))])]"

lemma sample_date: "valid_date (JStr (py ''2026-01-01''))"
proof -
  have "date_fromisoformat [50, 48, 50, 54, 45, 48, 49, 45, 48, 49] = Inr 739617"
    by (simp add: date_fromisoformat_def utf8_length_def scan_digits_def py_isdigit_def scan_month_date_def
        scan_separator_def new_date_def ymd_to_ord_def days_before_year_def days_before_month_def days_in_month_def is_leap_def)
  moreover have "py ''2026-01-01'' = [50, 48, 50, 54, 45, 48, 49, 45, 48, 49]" by (simp add: py_def)
  ultimately show ?thesis by (simp add: valid_date_def)
qed

lemma sample_hash: "canonical_hash hex_platform v = Inr h \<Longrightarrow> h = hex64" "json_finite v \<Longrightarrow> canonical_hash hex_platform v = Inr hex64"
  by (auto simp: canonical_hash_def canonical_json_def hex_platform_def split: if_splits)

lemma sample_pack_validates:
  assumes "s \<in> set STATUSES"
  shows "vr_ok (validate_rulepack sample_env (pack_to_dict (sample_pack\<lparr>pk_status := s, pk_approved_by := b, pk_approved_at := c\<rparr>)) sample_files [])"
proof -
  let ?p = "sample_pack\<lparr>pk_status := s, pk_approved_by := b, pk_approved_at := c\<rparr>"
  have "field_complaints sample_env (pack_to_dict ?p) = []"
    using assms sample_uuids(2) sample_date
    by (simp add: field_complaints_def complaint_simps REQUIRED_PACK_KEYS_def pack_to_dict_def jfield_def has_field_def sample_pack_def sample_env_def
        is_uuid_def nonempty_text_def is_sha256_text_def MODES_def image_iff)
  moreover have "doc_complaints (pack_to_dict ?p) sample_files (py ''a'') = []"
    using sample_date by (simp add: doc_complaints_def sample_files_def complaint_simps jfield_def same_field_def has_field_def py_truthy_def
        pack_to_dict_def sample_pack_def)
  moreover have "is_safe_path (py ''a'')" by (simp add: is_safe_path_def py_def py_startswith_def)
  moreover have "pack_hash sample_env ?p sample_files = Inr hex64"
    unfolding pack_hash_def pack_content_hash_def sample_env_def pack_env.select_convs
    by (rule sample_hash(2)) (simp add: pack_envelope_def Let_def dict_items_def dict_of_def py_sorted_set_def sample_files_def
        MANIFEST_HASH_FIELDS_def pack_to_dict_def json_norm_finite
        del: json_norm.simps)
  moreover have "hash_complaints (pack_to_dict ?p) (Inr hex64) = []"
    using sample_uuids(2) by (simp add: hash_complaints_def complaint_simps is_sha256_text_def sample_pack_def)
  moreover have "concat (map evidence_complaints sample_files) = []" "safe_harbor_complaints sample_env (pack_to_dict ?p) sample_files = []"
    "timeline_complaints sample_files = []"
    by (simp_all add: sample_files_def evidence_complaints_def complaint_simps claims_verified_def jfield_def safe_harbor_complaints_def timeline_complaints_def)
  moreover have "pk_files ?p = [py ''a'']" "pk_unresolved_gap_ids ?p = []" "fst ` set sample_files = {py ''a''}"
    by (simp_all add: sample_pack_def sample_files_def)
  ultimately show ?thesis
    unfolding validate_ok compute_pack files_complaints_pack gap_complaints_Nil by simp
qed

lemma sample_pack_ok: "vr_ok (validate_rulepack sample_env (pack_to_dict sample_pack) sample_files [])"
  using sample_pack_validates [of "py ''validated''" "Some (py ''2026-01-01'')" "Some (py ''lead'')"]
  by (simp add: STATUSES_def sample_pack_def)

theorem validated_pack_is_closed_witness:
  "\<exists>E p fc. vr_ok (validate_rulepack E (pack_to_dict p) fc []) \<and> distinct (pk_files p) \<and> fst ` set fc = set (pk_files p)
     \<and> compute_pack_sha256 E (pack_to_dict p) fc = Inr (pk_sha256 p)"
  using sample_pack_ok validated_pack_is_closed [OF sample_pack_ok] by blast

theorem validated_pack_has_snapshot_witness:
  "\<exists>s. snapshot_from_validated (pe_platform sample_env) (pack_meta sample_pack) sample_files = Inr s \<and> rp_files s = [py ''a'']"
proof -
  have "distinct (map fst sample_files)" by (simp add: sample_files_def)
  moreover have "pk_files sample_pack = [py ''a'']" by (simp add: sample_pack_def)
  ultimately show ?thesis using validated_pack_has_snapshot [OF sample_pack_ok] by metis
qed

text \<open>A demo grant carries the approver of the pack it was given for, where it has one.\<close>

theorem demo_grant_carries_approval:
  "\<exists>g. grant_demo_use sample_env (pack_to_dict sample_pack) sample_files [] (py ''dev'') (py ''demo'') = Inr g \<and> dg_approved_by g = JStr (py ''lead'')"
proof -
  have "jfield (pack_to_dict sample_pack) ''status'' \<in> JStr ` set DEMO_STATUSES" by (simp add: sample_pack_def DEMO_STATUSES_def)
  moreover have "jfield (pack_to_dict sample_pack) ''approved_by'' = JStr (py ''lead'')"
    by (simp add: jfield_def pack_to_dict_def opt_text_def sample_pack_def)
  moreover have "py ''dev'' \<noteq> []" "py ''demo'' \<noteq> []" by (simp_all add: py_def)
  ultimately show ?thesis using sample_pack_ok by (simp add: grant_demo_use_def del: jfield_pack)
qed

end
