(* ===== verification/Keyed_Lists.thy ===== *)
theory Keyed_Lists
  imports Growing_Store
begin

text \<open>Searching lists whose elements have distinct keys, as the registries and ledgers keep them.\<close>

lemma find_key: "distinct (map f xs) \<Longrightarrow> find (\<lambda>x. f x = k) xs = Some x \<longleftrightarrow> x \<in> set xs \<and> f x = k"
  by (induction xs) (auto simp: image_iff)

lemma find_filter: "(\<And>x. P x \<Longrightarrow> Q x) \<Longrightarrow> find P (filter Q xs) = find P xs"
  by (induction xs) auto

lemma find_append_Some: "find P xs = Some x \<Longrightarrow> find P (xs @ ys) = Some x"
  by (induction xs) auto

end
