(* ===== verification/Registry_Props.thy ===== *)
theory Registry_Props
  imports Pack_Props Keyed_Lists
begin

text \<open>
  What the registry of rule packs keeps: the active pointer is sound (\<open>active_pointer_is_sound\<close>), packs and runs only move forward
  (\<open>pack_history_is_forward\<close>), tenants are isolated (\<open>tenants_do_not_interfere\<close>) and a delegated review can be read back
  (\<open>delegated_review_reads_back\<close>). The registry is a \<open>growing_store\<close>.
\<close>

section \<open>Lookup by key\<close>

definition pointer_key :: "pystr \<times> pystr \<times> pystr \<Rightarrow> pystr \<times> pystr" where
  "pointer_key a = (fst a, fst (snd a))"

lemma get_pack_iff:
  assumes "distinct (map pack_key (rg_packs R))"
  shows "get_pack R t i = Inr p \<longleftrightarrow> p \<in> set (rg_packs R) \<and> pack_key p = (t, i)"
proof -
  have "(\<lambda>p. pk_rule_pack_id p = i \<and> pk_tenant_id p = t) = (\<lambda>p. pack_key p = (t, i))"
    by (auto simp: pack_key_def)
  then show ?thesis
    using find_key [OF assms, of "(t, i)" p] by (auto simp: get_pack_def split: option.splits)
qed

lemma active_pack_id_iff:
  assumes "distinct (map pointer_key (rg_active R))"
  shows "active_pack_id R t m = Some i \<longleftrightarrow> (t, m, i) \<in> set (rg_active R)"
proof -
  have "(\<lambda>a. fst a = t \<and> fst (snd a) = m) = (\<lambda>a. pointer_key a = (t, m))"
    by (simp add: pointer_key_def)
  then show ?thesis
    using find_key [OF assms] by (simp add: active_pack_id_def) (force simp: pointer_key_def)
qed

lemma replace_first_map:
  "distinct (map f xs) \<Longrightarrow> replace_first (\<lambda>x. f x = k) y xs = map (\<lambda>x. if f x = k then y else x) xs"
proof (induction xs)
  case (Cons x xs)
  moreover have "map (\<lambda>x. if f x = k then y else x) xs = xs" if "f x = k"
    using that Cons.prems by (intro map_idI) (auto simp: image_iff)
  ultimately show ?case by simp
qed simp

section \<open>The invariant of the registry\<close>

text \<open>A pack that was approved and passed the validation with some contents and gap registry.\<close>

definition pack_cleared :: "pack_env \<Rightarrow> pack_record \<Rightarrow> bool" where
  "pack_cleared E p \<longleftrightarrow> opt_truthy (pk_approved_by p) \<and> opt_truthy (pk_approved_at p)
     \<and> (\<exists>fc gaps. vr_ok (validate_rulepack E (pack_to_dict p) fc gaps))"

definition pointer_sound :: "pack_env \<Rightarrow> pack_record list \<Rightarrow> pystr \<times> pystr \<times> pystr \<Rightarrow> bool" where
  "pointer_sound E ps a \<longleftrightarrow> (\<exists>p\<in>set ps. (pk_tenant_id p, pk_mode p, pk_rule_pack_id p) = a \<and> pk_status p = py ''active'' \<and> pack_cleared E p)"

definition registry_good :: "pack_env \<Rightarrow> pack_registry \<Rightarrow> bool" where
  "registry_good E R \<longleftrightarrow> distinct (map pack_key (rg_packs R)) \<and> distinct (map pointer_key (rg_active R))
     \<and> (\<forall>a\<in>set (rg_active R). pointer_sound E (rg_packs R) a)"

text \<open>How a pack changes: its status moves forward, and an approval is only set on a validated pack that has none.\<close>

definition status_moves :: "(pystr \<times> pystr) set" where
  "status_moves = {(py ''validated'', py ''active''), (py ''validated'', py ''retired''), (py ''active'', py ''retired'')}"

definition same_approval :: "pack_record \<Rightarrow> pack_record \<Rightarrow> bool" where
  "same_approval p q \<longleftrightarrow> pk_approved_by q = pk_approved_by p \<and> pk_approved_at q = pk_approved_at p"

definition delegated_approval :: "pack_record \<Rightarrow> pack_record \<Rightarrow> bool" where
  "delegated_approval p q \<longleftrightarrow> pk_status p = py ''validated'' \<and> \<not> opt_truthy (pk_approved_by p)
     \<and> (\<exists>reviewer. pk_approved_by q = Some (APPROVER_PREFIX @ reviewer))"

definition pack_core :: "pack_record \<Rightarrow> pack_record" where
  "pack_core p = p\<lparr>pk_status := [], pk_approved_by := None, pk_approved_at := None\<rparr>"

definition pack_moves :: "pack_record \<Rightarrow> pack_record \<Rightarrow> bool" where
  "pack_moves p q \<longleftrightarrow> pack_core q = pack_core p
     \<and> (pk_status q = pk_status p \<or> (pk_status p, pk_status q) \<in> status_moves) \<and> (same_approval p q \<or> delegated_approval p q)"

definition registry_le :: "pack_registry \<Rightarrow> pack_registry \<Rightarrow> bool" where
  "registry_le R S \<longleftrightarrow> (\<forall>i<length (rg_packs R). i < length (rg_packs S) \<and> pack_moves (rg_packs R ! i) (rg_packs S ! i))
     \<and> (\<exists>rs. rg_runs S = rg_runs R @ rs)"

lemma pack_moves_refl [simp]: "pack_moves p p"
  by (simp add: pack_moves_def same_approval_def)

lemma approver_truthy [simp]: "opt_truthy (Some (APPROVER_PREFIX @ x))"
  by (simp add: opt_truthy_def APPROVER_PREFIX_def py_def)

lemma pack_moves_trans:
  assumes "pack_moves p q" "pack_moves q r"
  shows "pack_moves p r"
proof -
  have "pk_status r = pk_status p \<or> (pk_status p, pk_status r) \<in> status_moves"
    using assms by (auto simp: pack_moves_def status_moves_def)
  moreover have "same_approval p r \<or> delegated_approval p r"
    using assms by (auto simp: pack_moves_def same_approval_def delegated_approval_def status_moves_def)
  ultimately show ?thesis using assms by (simp add: pack_moves_def)
qed

lemma core_key: "pack_core q = pack_core p \<Longrightarrow> pack_key q = pack_key p \<and> pk_mode q = pk_mode p"
proof -
  assume e: "pack_core q = pack_core p"
  have "pk_tenant_id (pack_core q) = pk_tenant_id (pack_core p)" "pk_rule_pack_id (pack_core q) = pk_rule_pack_id (pack_core p)"
    "pk_mode (pack_core q) = pk_mode (pack_core p)" using e by simp_all
  then show ?thesis by (simp add: pack_core_def pack_key_def)
qed

text \<open>A pack's status takes no part in its validation, beyond being one of the four.\<close>

lemma validate_status:
  assumes "vr_ok (validate_rulepack E (pack_to_dict p) fc gaps)" "s \<in> set STATUSES"
  shows "vr_ok (validate_rulepack E (pack_to_dict (p\<lparr>pk_status := s\<rparr>)) fc gaps)"
proof -
  let ?a = "pack_to_dict p" and ?b = "pack_to_dict (p\<lparr>pk_status := s\<rparr>)"
  have j: "jfield ?b k = jfield ?a k" if "k \<noteq> ''status''" for k
    using that by (simp add: jfield_def pack_to_dict_def)
  have h: "has_field ?b k = has_field ?a k" for k by (simp add: has_field_def pack_to_dict_def)
  have dom: "map_of ?b k = None \<longleftrightarrow> map_of ?a k = None" for k by (simp add: pack_to_dict_def)
  have "field_complaints E ?b = []"
    using assms by (simp add: validate_ok field_complaints_def complaint_simps j h dom filter_empty_conv image_iff)
  moreover have "doc_complaints ?b fc = doc_complaints ?a fc"
    by (intro ext) (simp add: doc_complaints_def same_field_def j h cong: option.case_cong json.case_cong)
  moreover have "pack_hash E (p\<lparr>pk_status := s\<rparr>) fc = pack_hash E p fc"
    unfolding pack_hash_def by (simp, rule hash_manifest_cong) (auto simp: MANIFEST_HASH_FIELDS_def pack_to_dict_def)
  moreover have hash: "hash_complaints ?b = hash_complaints ?a"
    by (intro ext) (simp add: hash_complaints_def split: sum.split)
  moreover have review: "reviewed_checklist E ?b = reviewed_checklist E ?a"
    by (intro ext) (simp add: reviewed_checklist_def j cong: json.case_cong)
  have gaps: "jfield ?b ''unresolved_gap_ids'' = jfield ?a ''unresolved_gap_ids''" by simp
  have "safe_harbor_complaints E ?b fc = safe_harbor_complaints E ?a fc"
    unfolding safe_harbor_complaints_def review gaps ..
  ultimately show ?thesis
    using assms(1) unfolding validate_ok compute_pack files_complaints_pack gap_complaints_Nil by (simp add: hash)
qed

lemma activated_cleared:
  "pack_cleared E p \<Longrightarrow> pack_cleared E (p\<lparr>pk_status := py ''active''\<rparr>)"
  using validate_status [of E p _ _ "py ''active''"] by (auto simp: pack_cleared_def STATUSES_def)

section \<open>Steps of the registry\<close>

lemma registry_le_refl: "registry_le R R"
  by (simp add: registry_le_def)

lemma registry_le_trans: "registry_le R S \<Longrightarrow> registry_le S T \<Longrightarrow> registry_le R T"
  unfolding registry_le_def by (auto intro: pack_moves_trans)

lemma registry_le_map:
  "\<forall>p\<in>set (rg_packs R). pack_moves p (f p) \<Longrightarrow> rg_packs S = map f (rg_packs R) \<Longrightarrow> rg_runs S = rg_runs R \<Longrightarrow> registry_le R S"
  by (simp add: registry_le_def)

text \<open>An activation that changes the registry.\<close>

definition switched :: "pack_registry \<Rightarrow> pack_record \<Rightarrow> pack_registry" where
  "switched R pack = with_active (R\<lparr>rg_packs := map (switch_pack R pack) (rg_packs R)\<rparr>) (pk_tenant_id pack) (pk_mode pack) (pk_rule_pack_id pack)"

lemma get_pack_key: "get_pack R t i = Inr p \<Longrightarrow> p \<in> set (rg_packs R) \<and> pk_tenant_id p = t \<and> pk_rule_pack_id p = i"
  by (auto simp: get_pack_def find_Some_iff split: option.splits)

lemma activate_Inr:
  assumes "activate_rulepack E R i t actor reason fc gaps = Inr (R', a)"
  obtains "R' = R"
  | pack where "get_pack R t i = Inr pack" "pk_status pack = py ''validated''" "pack_cleared E pack"
      "active_pack_id R (pk_tenant_id pack) (pk_mode pack) \<noteq> Some (pk_rule_pack_id pack)" "R' = switched R pack"
proof -
  obtain pack where g: "get_pack R t i = Inr pack"
    using assms by (auto simp: activate_rulepack_def result_simps)
  note k = get_pack_key [OF g]
  show ?thesis
  proof (cases "R' = R")
    case False
    with assms g k have "pk_status pack = py ''validated''" "pack_cleared E pack" "R' = switched R pack"
        "active_pack_id R (pk_tenant_id pack) (pk_mode pack) \<noteq> Some (pk_rule_pack_id pack)"
      by (auto simp: activate_rulepack_def pack_cleared_def switched_def result_simps split: if_splits)
    with g that(2) show ?thesis by blast
  qed (use that(1) in blast)
qed

lemma key_unique:
  "distinct (map pack_key ps) \<Longrightarrow> p \<in> set ps \<Longrightarrow> q \<in> set ps \<Longrightarrow> pk_tenant_id p = pk_tenant_id q \<Longrightarrow> pk_rule_pack_id p = pk_rule_pack_id q \<Longrightarrow> p = q"
  by (auto simp: distinct_map inj_on_def pack_key_def)

lemma switch_pack_moves:
  assumes "distinct (map pack_key (rg_packs R))" "pack \<in> set (rg_packs R)" "pk_status pack = py ''validated''" "p \<in> set (rg_packs R)"
  shows "pack_moves p (switch_pack R pack p)"
proof -
  have "p = pack" if "pk_rule_pack_id p = pk_rule_pack_id pack \<and> pk_tenant_id p = pk_tenant_id pack"
    using key_unique [OF assms(1,4,2)] that by blast
  then show ?thesis
    using assms(3) by (auto simp: switch_pack_def pack_moves_def pack_core_def same_approval_def status_moves_def)
qed

lemma switched_le:
  assumes "registry_good E R" "get_pack R t i = Inr pack" "pk_status pack = py ''validated''"
  shows "registry_le R (switched R pack)"
proof (rule registry_le_map)
  show "\<forall>p\<in>set (rg_packs R). pack_moves p (switch_pack R pack p)"
    using assms switch_pack_moves get_pack_key [OF assms(2)] unfolding registry_good_def by blast
qed (simp_all add: switched_def with_active_def)

lemma switch_keeps_pointed:
  assumes "registry_good E R" "pack \<in> set (rg_packs R)" "p \<in> set (rg_packs R)" "pk_status p = py ''active''"
    "(pk_tenant_id p, pk_mode p) \<noteq> (pk_tenant_id pack, pk_mode pack)"
  shows "switch_pack R pack p = p"
  using assms key_unique [of "rg_packs R" p pack] by (auto simp: switch_pack_def registry_good_def)

lemma map_pack_key: "(\<And>p. p \<in> set ps \<Longrightarrow> pack_key (f p) = pack_key p) \<Longrightarrow> map pack_key (map f ps) = map pack_key ps"
  by simp

lemma switched_good:
  assumes "registry_good E R" "get_pack R t i = Inr pack" "pack_cleared E pack"
    "active_pack_id R (pk_tenant_id pack) (pk_mode pack) \<noteq> Some (pk_rule_pack_id pack)"
  shows "registry_good E (switched R pack)"
proof -
  let ?ps = "map (switch_pack R pack) (rg_packs R)" and ?k = "(pk_tenant_id pack, pk_mode pack)"
  let ?old = "filter (\<lambda>a. \<not> (fst a = pk_tenant_id pack \<and> fst (snd a) = pk_mode pack)) (rg_active R)"
  have pack: "pack \<in> set (rg_packs R)" using get_pack_key [OF assms(2)] by blast
  have "switch_pack R pack pack = pack\<lparr>pk_status := py ''active''\<rparr>"
    using assms(4) by (auto simp: switch_pack_def)
  then have new: "pointer_sound E ?ps (pk_tenant_id pack, pk_mode pack, pk_rule_pack_id pack)"
    using imageI [OF pack, of "switch_pack R pack"] activated_cleared [OF assms(3)] unfolding pointer_sound_def
    by (intro bexI [of _ "switch_pack R pack pack"]) simp_all
  have old: "pointer_sound E ?ps a" if "a \<in> set ?old" for a
  proof -
    from that assms(1) obtain p where p: "p \<in> set (rg_packs R)" "(pk_tenant_id p, pk_mode p, pk_rule_pack_id p) = a"
        "pk_status p = py ''active''" "pack_cleared E p" "(pk_tenant_id p, pk_mode p) \<noteq> ?k"
      by (fastforce simp: registry_good_def pointer_sound_def)
    with switch_keeps_pointed [OF assms(1) pack p(1,3,5)] show ?thesis
      unfolding pointer_sound_def by (intro bexI [of _ p]) (auto simp: image_iff intro!: bexI [of _ p])
  qed
  have "map pack_key ?ps = map pack_key (rg_packs R)"
    by (rule map_pack_key) (simp add: switch_pack_def pack_key_def)
  with assms(1) have keys: "distinct (map pack_key ?ps)" by (simp only: registry_good_def)
  have pointers: "distinct (map pointer_key (?old @ [(pk_tenant_id pack, pk_mode pack, pk_rule_pack_id pack)]))"
    using assms(1) by (auto simp: registry_good_def pointer_key_def distinct_map inj_on_def)
  have sound: "pointer_sound E ?ps a" if "a \<in> set (?old @ [(pk_tenant_id pack, pk_mode pack, pk_rule_pack_id pack)])" for a
    using that new old [of a] unfolding set_append by (elim UnE) simp_all
  have "rg_packs (switched R pack) = ?ps" "rg_active (switched R pack) = ?old @ [(pk_tenant_id pack, pk_mode pack, pk_rule_pack_id pack)]"
    by (simp_all add: switched_def with_active_def)
  then show ?thesis unfolding registry_good_def using keys pointers sound by (simp only:) blast
qed

text \<open>The approval of a delegated review, before the activation.\<close>

definition approved_registry :: "pack_registry \<Rightarrow> pack_record \<Rightarrow> pystr \<Rightarrow> pystr \<Rightarrow> pack_registry" where
  "approved_registry R pack reviewer reviewed_at =
     R\<lparr>rg_packs := replace_first (\<lambda>p. pack_key p = pack_key pack) (approve_pack pack reviewer reviewed_at) (rg_packs R)\<rparr>"

lemma review_Inr:
  assumes "record_ai_delegated_review E R i t reviewer reviewed_at authority remark fc gaps = Inr (R', a, v)"
  obtains pack where "get_pack R t i = Inr pack" "pk_status pack = py ''validated''" "\<not> opt_truthy (pk_approved_by pack)"
    "activate_rulepack E (approved_registry R pack reviewer reviewed_at) i t reviewer (to_reason E v) fc gaps = Inr (R', a)"
  using assms by (auto simp: record_ai_delegated_review_def approved_registry_def result_simps Let_def split: if_splits)

lemma approved_packs:
  assumes "registry_good E R"
  shows "rg_packs (approved_registry R pack reviewer reviewed_at) =
    map (\<lambda>p. if pack_key p = pack_key pack then approve_pack pack reviewer reviewed_at else p) (rg_packs R)"
  using assms by (simp add: approved_registry_def replace_first_map registry_good_def)

lemma approved_le:
  assumes "registry_good E R" "get_pack R t i = Inr pack" "pk_status pack = py ''validated''" "\<not> opt_truthy (pk_approved_by pack)"
  shows "registry_le R (approved_registry R pack reviewer reviewed_at)"
proof (rule registry_le_map [OF _ approved_packs [OF assms(1)]])
  have "pack_moves pack (approve_pack pack reviewer reviewed_at)"
    using assms(3,4) by (simp add: pack_moves_def pack_core_def approve_pack_def delegated_approval_def)
  moreover have "p = pack" if "p \<in> set (rg_packs R)" "pack_key p = pack_key pack" for p
    using that assms(1) get_pack_key [OF assms(2)] by (auto simp: registry_good_def distinct_map inj_on_def)
  ultimately show "\<forall>p\<in>set (rg_packs R). pack_moves p (if pack_key p = pack_key pack then approve_pack pack reviewer reviewed_at else p)"
    by auto
qed (simp add: approved_registry_def)

lemma approved_good:
  assumes "registry_good E R" "get_pack R t i = Inr pack" "pk_status pack = py ''validated''"
  shows "registry_good E (approved_registry R pack reviewer reviewed_at)"
proof -
  let ?S = "approved_registry R pack reviewer reviewed_at"
  let ?f = "\<lambda>p. if pack_key p = pack_key pack then approve_pack pack reviewer reviewed_at else p"
  note ps = approved_packs [OF assms(1), of pack reviewer reviewed_at]
  have "map pack_key (map ?f (rg_packs R)) = map pack_key (rg_packs R)"
    by (rule map_pack_key) (simp add: approve_pack_def pack_key_def)
  then have keys: "distinct (map pack_key (rg_packs ?S))"
    using assms(1) by (simp only: ps registry_good_def)
  have active: "rg_active ?S = rg_active R" by (simp add: approved_registry_def)
  have uniq: "p = pack" if "p \<in> set (rg_packs R)" "pack_key p = pack_key pack" for p
    using that assms(1) get_pack_key [OF assms(2)] by (auto simp: registry_good_def distinct_map inj_on_def)
  have other: "pack_key p \<noteq> pack_key pack" if "p \<in> set (rg_packs R)" "pk_status p = py ''active''" for p
  proof
    assume "pack_key p = pack_key pack"
    with uniq [OF that(1)] that(2) assms(3) show False by simp
  qed
  have keep: "p \<in> set (rg_packs ?S)" if "p \<in> set (rg_packs R)" "pk_status p = py ''active''" for p
    unfolding ps set_map using other [OF that] that(1) by (intro image_eqI [of _ _ p]) simp_all
  have "pointer_sound E (rg_packs ?S) a" if "a \<in> set (rg_active R)" for a
    using that assms(1) keep unfolding registry_good_def pointer_sound_def by blast
  with keys active assms(1) show ?thesis by (simp add: registry_good_def)
qed

lemma activate_good_le:
  assumes "activate_rulepack E R i t actor reason fc gaps = Inr (R', a)" "registry_good E R"
  shows "registry_good E R' \<and> registry_le R R'"
  using assms(1)
  by (cases rule: activate_Inr) (use assms(2) switched_good switched_le registry_le_refl in blast)+

lemma with_pack_good_le:
  assumes "with_pack R p = Inr R'" "registry_good E R"
  shows "registry_good E R' \<and> registry_le R R'"
proof (cases "find (\<lambda>q. pack_key q = pack_key p) (rg_packs R)")
  case None
  then have R': "R' = R\<lparr>rg_packs := rg_packs R @ [p]\<rparr>" and new: "pack_key p \<notin> pack_key ` set (rg_packs R)"
    using assms(1) by (simp_all add: with_pack_def) (auto simp: find_None_iff)
  show ?thesis
    using assms(2) new unfolding R' by (auto simp: registry_good_def registry_le_def pointer_sound_def nth_append)
qed (use assms registry_le_refl in \<open>auto simp: with_pack_def split: if_splits\<close>)

lemma registry_step_good_le:
  assumes "registry_apply E act R = Inr (R', out)" "registry_good E R"
  shows "registry_good E R' \<and> registry_le R R'"
proof (cases act)
  case (Add_pack p)
  then show ?thesis using assms with_pack_good_le by (auto simp: result_simps)
next
  case (Add_run r)
  then show ?thesis using assms by (auto simp: with_run_def registry_good_def registry_le_def)
next
  case (Activate i t actor reason fc gaps)
  then show ?thesis using assms activate_good_le by (fastforce simp: result_simps)
next
  case (Review i t reviewer reviewed_at authority remark fc gaps)
  then obtain a v where "record_ai_delegated_review E R i t reviewer reviewed_at authority remark fc gaps = Inr (R', a, v)"
    using assms(1) by (auto simp: result_simps)
  then obtain pack where g: "get_pack R t i = Inr pack" "pk_status pack = py ''validated''" "\<not> opt_truthy (pk_approved_by pack)"
    and act: "activate_rulepack E (approved_registry R pack reviewer reviewed_at) i t reviewer (to_reason E v) fc gaps = Inr (R', a)"
    by (rule review_Inr)
  show ?thesis
    using activate_good_le [OF act approved_good [OF assms(2) g(1,2)]] approved_le [OF assms(2) g] registry_le_trans by blast
qed

interpretation preg: growing_store "registry_step E" "registry_good E" registry_le for E
  using registry_le_refl registry_le_trans registry_step_good_le
  by unfold_locales (auto simp: registry_step_def)

lemma empty_registry_good: "registry_good E empty_registry"
  by (simp add: registry_good_def empty_registry_def)

text \<open>
  C10. In every registry that the operations produce, the pointer of a tenant and mode leads to one pack of that tenant and mode, which is active, carries an
  approver and an approval time, and passed the validation.
\<close>

theorem active_pointer_is_sound:
  assumes "(registry_step E)\<^sup>*\<^sup>* empty_registry R" "active_pack_id R t m = Some i"
  shows "\<exists>p. get_pack R t i = Inr p \<and> pk_mode p = m \<and> pk_status p = py ''active'' \<and> pack_cleared E p"
proof -
  have g: "registry_good E R" using preg.steps_good [OF assms(1) empty_registry_good] .
  then have "(t, m, i) \<in> set (rg_active R)"
    using assms(2) active_pack_id_iff unfolding registry_good_def by blast
  with g obtain p where "p \<in> set (rg_packs R)" "pack_key p = (t, i)" "pk_mode p = m" "pk_status p = py ''active''" "pack_cleared E p"
    by (fastforce simp: registry_good_def pointer_sound_def pack_key_def)
  with g get_pack_iff show ?thesis unfolding registry_good_def by blast
qed

lemma moved_pack:
  assumes gS: "registry_good E S" and le: "registry_le R S" and p: "get_pack R t i = Inr p"
  shows "\<exists>q. get_pack S t i = Inr q \<and> pack_moves p q"
proof -
  from get_pack_key [OF p] obtain n where "n < length (rg_packs R)" "rg_packs R ! n = p" by (auto simp: in_set_conv_nth)
  with le have "n < length (rg_packs S)" and m: "pack_moves p (rg_packs S ! n)" by (auto simp: registry_le_def)
  then have "rg_packs S ! n \<in> set (rg_packs S)" by simp
  moreover from m have "pack_key (rg_packs S ! n) = pack_key p"
    using core_key unfolding pack_moves_def by blast
  moreover have "pack_key p = (t, i)" using get_pack_key [OF p] by (simp add: pack_key_def)
  ultimately have "get_pack S t i = Inr (rg_packs S ! n)"
    using gS get_pack_iff [of S t i "rg_packs S ! n"] by (simp add: registry_good_def)
  with m show ?thesis by blast
qed

lemma core_sha: "pack_core q = pack_core p \<Longrightarrow> pk_sha256 q = pk_sha256 p"
  by (metis pack_core_def pack_record.select_convs(10) pack_record.surjective pack_record.update_convs(6,12,13))

lemma activated_pack:
  assumes "registry_good E S" "get_pack S t i = Inr q" "opt_truthy (pk_approved_by q)" "registry_step E S T"
  shows "\<exists>p. get_pack T t i = Inr p \<and> pk_sha256 p = pk_sha256 q \<and> same_approval q p"
proof -
  have "registry_good E T" "registry_le S T" using preg.step_good preg.step_le assms(1,4) by blast+
  from moved_pack [OF this assms(2)] obtain p where p: "get_pack T t i = Inr p" "pack_moves q p" by blast
  then have "same_approval q p" "pk_sha256 p = pk_sha256 q"
    using assms(3) core_sha [of p q] by (simp_all add: pack_moves_def delegated_approval_def)
  with p show ?thesis by blast
qed

text \<open>
  C31. The history of the registry: no later registry loses a pack or a run, a run keeps the pack hash it started with, the identity and content fields of a
  pack never change, its status only goes from validated to active to retired, and its approval changes at most once, on a validated pack without an approver,
  to one that is marked as delegated.
\<close>

theorem pack_history_is_forward:
  assumes "(registry_step E)\<^sup>*\<^sup>* empty_registry R" "(registry_step E)\<^sup>*\<^sup>* R S"
  shows "(\<forall>t i p. get_pack R t i = Inr p \<longrightarrow> (\<exists>q. get_pack S t i = Inr q \<and> pack_core q = pack_core p
      \<and> (pk_status q = pk_status p \<or> (pk_status p, pk_status q) \<in> status_moves) \<and> (same_approval p q \<or> delegated_approval p q)))
    \<and> (\<exists>runs. rg_runs S = rg_runs R @ runs)"
proof -
  have gR: "registry_good E R" using preg.steps_good [OF assms(1) empty_registry_good] .
  have gS: "registry_good E S" and le: "registry_le R S" using preg.steps_good preg.steps_le assms(2) gR by blast+
  with le moved_pack [OF gS le] show ?thesis unfolding pack_moves_def registry_le_def by blast
qed

section \<open>Tenants\<close>

text \<open>What a tenant can see of the registry.\<close>

definition tenant_view :: "pack_registry \<Rightarrow> pystr \<Rightarrow> pack_record list \<times> run_snapshot list \<times> (pystr \<Rightarrow> pystr option)" where
  "tenant_view R t = (packs_for_tenant R t, runs_for_tenant R t, active_pack_id R t)"

lemma get_pack_view: "get_pack R t i = (case find (\<lambda>p. pk_rule_pack_id p = i \<and> pk_tenant_id p = t) (packs_for_tenant R t) of
    Some pack \<Rightarrow> Inr pack | None \<Rightarrow> Inl (LookupError ''rule pack not found''))"
  unfolding get_pack_def packs_for_tenant_def by (subst find_filter) simp_all

lemma active_with_active:
  "active_pack_id (with_active R t m i) t' m' = (if (t', m') = (t, m) then Some i else active_pack_id R t' m')"
proof -
  have "find P (filter Q xs @ [x]) = (if P x \<and> (\<forall>y\<in>set xs. Q y \<longrightarrow> \<not> P y) then Some x else find P (filter Q xs))" for P Q and xs :: "(pystr \<times> pystr \<times> pystr) list" and x
    by (induction xs) auto
  moreover have "find (\<lambda>a. fst a = t' \<and> fst (snd a) = m') (filter (\<lambda>a. \<not> (fst a = t \<and> fst (snd a) = m)) xs) = find (\<lambda>a. fst a = t' \<and> fst (snd a) = m') xs"
    if "(t', m') \<noteq> (t, m)" for xs :: "(pystr \<times> pystr \<times> pystr) list"
    using that by (intro find_filter) auto
  ultimately show ?thesis by (auto simp: active_pack_id_def with_active_def)
qed

lemma packs_map: "(\<And>p. pk_tenant_id (f p) = pk_tenant_id p) \<Longrightarrow> packs_for_tenant (R\<lparr>rg_packs := map f (rg_packs R)\<rparr>) t = map f (packs_for_tenant R t)"
  by (simp add: packs_for_tenant_def filter_map comp_def)

lemma switch_tenant: "pk_tenant_id (switch_pack R pack p) = pk_tenant_id p"
  by (simp add: switch_pack_def)

lemma active_pack_id_packs [simp]: "active_pack_id (R\<lparr>rg_packs := ps\<rparr>) = active_pack_id R"
  by (simp add: active_pack_id_def fun_eq_iff)

lemma view_switched:
  "tenant_view (switched R pack) t = (map (switch_pack R pack) (packs_for_tenant R t), runs_for_tenant R t,
     if t = pk_tenant_id pack then (active_pack_id R t)(pk_mode pack \<mapsto> pk_rule_pack_id pack) else active_pack_id R t)"
proof -
  have "packs_for_tenant (switched R pack) t = map (switch_pack R pack) (packs_for_tenant R t)"
    using packs_map [of "switch_pack R pack" R t] switch_tenant by (simp add: switched_def with_active_def packs_for_tenant_def)
  then show ?thesis
    by (simp add: tenant_view_def switched_def active_with_active fun_eq_iff) (simp add: runs_for_tenant_def with_active_def)
qed

lemma filter_replace_first:
  "(\<And>x. P x \<Longrightarrow> Q x) \<Longrightarrow> Q y \<Longrightarrow> filter Q (replace_first P y xs) = replace_first P y (filter Q xs)"
  by (induction xs) auto

lemma replace_first_none: "(\<And>x. x \<in> set xs \<Longrightarrow> \<not> P x) \<Longrightarrow> replace_first P y xs = xs"
  by (induction xs) auto

lemma filter_replace_first_other:
  "(\<And>x. P x \<Longrightarrow> \<not> Q x) \<Longrightarrow> \<not> Q y \<Longrightarrow> filter Q (replace_first P y xs) = filter Q xs"
  by (induction xs) auto

lemma view_approved:
  "tenant_view (approved_registry R pack reviewer reviewed_at) t =
     (if t = pk_tenant_id pack then (replace_first (\<lambda>p. pack_key p = pack_key pack) (approve_pack pack reviewer reviewed_at) (packs_for_tenant R t),
        runs_for_tenant R t, active_pack_id R t) else tenant_view R t)"
  by (auto simp: tenant_view_def approved_registry_def packs_for_tenant_def runs_for_tenant_def pack_key_def approve_pack_def
      intro!: filter_replace_first filter_replace_first_other)

lemma switch_other: "pk_tenant_id p \<noteq> pk_tenant_id pack \<Longrightarrow> switch_pack R pack p = p"
  by (simp add: switch_pack_def)

lemma view_switched_other: "t \<noteq> pk_tenant_id pack \<Longrightarrow> tenant_view (switched R pack) t = tenant_view R t"
  unfolding view_switched by (auto simp: tenant_view_def packs_for_tenant_def intro!: map_idI switch_other)

lemma activate_other:
  assumes "activate_rulepack E R i t actor reason fc gaps = Inr (R', a)" "u \<noteq> t"
  shows "tenant_view R' u = tenant_view R u"
  using assms(1)
proof (cases rule: activate_Inr)
  case (2 pack)
  with get_pack_key [OF 2(1)] assms(2) show ?thesis by (simp add: view_switched_other)
qed simp

text \<open>The view of the tenant decides what an activation does to it.\<close>

abbreviation seen :: "pystr \<Rightarrow> (pack_registry \<times> 'a) result \<Rightarrow> ((pack_record list \<times> run_snapshot list \<times> (pystr \<Rightarrow> pystr option)) \<times> 'a) result" where
  "seen t r \<equiv> map_sum id (map_prod (\<lambda>R. tenant_view R t) id) r"

lemma activate_seen:
  assumes "tenant_view R t = tenant_view S t"
  shows "seen t (activate_rulepack E R i t actor reason fc gaps) = seen t (activate_rulepack E S i t actor reason fc gaps)"
proof -
  have v: "packs_for_tenant R t = packs_for_tenant S t" "active_pack_id R t = active_pack_id S t" "runs_for_tenant R t = runs_for_tenant S t"
    using assms by (simp_all add: tenant_view_def)
  have g: "get_pack R t i = get_pack S t i" by (simp add: get_pack_view v)
  show ?thesis
  proof (cases "get_pack S t i")
    case (Inr pack)
    have t: "pk_tenant_id pack = t" "pk_rule_pack_id pack = i" using get_pack_key [OF Inr] by blast+
    have "switch_pack R pack = switch_pack S pack" by (simp add: switch_pack_def fun_eq_iff t v)
    then have w: "tenant_view (switched R pack) t = tenant_view (switched S pack) t" by (simp add: view_switched v t)
    show ?thesis
      using w assms by (simp add: activate_rulepack_def g Inr v t activation_of_def switched_def)
  qed (simp add: activate_rulepack_def g)
qed

lemma seen_lift: "seen t a = seen t b \<Longrightarrow> seen t (bindE a (\<lambda>(u, x). Inr (u, f x))) = seen t (bindE b (\<lambda>(u, x). Inr (u, f x)))"
  by (cases a; cases b) auto

lemma review_seen:
  assumes "tenant_view R t = tenant_view S t"
  shows "seen t (record_ai_delegated_review E R i t reviewer reviewed_at authority remark fc gaps) =
    seen t (record_ai_delegated_review E S i t reviewer reviewed_at authority remark fc gaps)"
proof -
  have v: "packs_for_tenant R t = packs_for_tenant S t" using assms by (simp add: tenant_view_def)
  have g: "get_pack R t i = get_pack S t i" by (simp add: get_pack_view v)
  show ?thesis
  proof (cases "get_pack S t i")
    case (Inr pack)
    have t: "pk_tenant_id pack = t" using get_pack_key [OF Inr] by blast
    have "tenant_view (approved_registry R pack reviewer reviewed_at) t = tenant_view (approved_registry S pack reviewer reviewed_at) t"
      using assms by (simp add: view_approved t) (simp add: tenant_view_def)
    note w = activate_seen [OF this, of E i reviewer _ fc gaps]
    show ?thesis
      unfolding record_ai_delegated_review_def g Inr bindE.simps Let_def approved_registry_def [symmetric]
      by (simp add: seen_lift [OF w, where f = "\<lambda>a. (a, _)"])
  qed (simp add: record_ai_delegated_review_def g)
qed

lemma with_pack_seen:
  assumes "tenant_view R (pk_tenant_id p) = tenant_view S (pk_tenant_id p)"
  shows "seen (pk_tenant_id p) (bindE (with_pack R p) (\<lambda>R'. Inr (R', x))) = seen (pk_tenant_id p) (bindE (with_pack S p) (\<lambda>R'. Inr (R', x)))"
proof -
  have "find (\<lambda>q. pack_key q = pack_key p) (rg_packs R) = find (\<lambda>q. pack_key q = pack_key p) (packs_for_tenant R (pk_tenant_id p))" for R
    unfolding packs_for_tenant_def by (rule find_filter [symmetric]) (simp add: pack_key_def)
  with assms show ?thesis
    by (auto simp: with_pack_def tenant_view_def packs_for_tenant_def runs_for_tenant_def split: option.split)
qed

text \<open>
  C18. Tenants are isolated in the registry: an operation of one tenant leaves the packs, runs and active packs of every other tenant as they are, and its
  result, error or not, and the tenant's own view afterwards depend only on what that tenant could see before.
\<close>

theorem tenants_do_not_interfere:
  fixes E :: pack_env and act :: registry_op
  shows "(\<forall>R R' out t. registry_apply E act R = Inr (R', out) \<and> t \<noteq> op_tenant act \<longrightarrow> tenant_view R' t = tenant_view R t)
    \<and> (\<forall>R S. tenant_view R (op_tenant act) = tenant_view S (op_tenant act) \<longrightarrow>
         map_sum id (map_prod (\<lambda>R. tenant_view R (op_tenant act)) id) (registry_apply E act R) =
         map_sum id (map_prod (\<lambda>R. tenant_view R (op_tenant act)) id) (registry_apply E act S))"
proof (intro conjI allI impI, elim conjE)
  fix R R' out t assume step: "registry_apply E act R = Inr (R', out)" and t: "t \<noteq> op_tenant act"
  show "tenant_view R' t = tenant_view R t"
  proof (cases act)
    case (Review i u reviewer reviewed_at authority remark fc gaps)
    then obtain a v where "record_ai_delegated_review E R i u reviewer reviewed_at authority remark fc gaps = Inr (R', a, v)"
      using step by (auto simp: result_simps)
    then obtain pack where "get_pack R u i = Inr pack"
      and "activate_rulepack E (approved_registry R pack reviewer reviewed_at) i u reviewer (to_reason E v) fc gaps = Inr (R', a)"
      by (rule review_Inr)
    then show ?thesis
      using t activate_other get_pack_key by (fastforce simp: Review view_approved)
  qed (use step t activate_other in \<open>auto simp: with_pack_def with_run_def tenant_view_def packs_for_tenant_def runs_for_tenant_def active_pack_id_def
      result_simps fun_eq_iff split: option.splits if_splits\<close>)
next
  fix R S assume v: "tenant_view R (op_tenant act) = tenant_view S (op_tenant act)"
  show "seen (op_tenant act) (registry_apply E act R) = seen (op_tenant act) (registry_apply E act S)"
  proof (cases act)
    case (Add_pack p)
    with v with_pack_seen show ?thesis by simp
  next
    case (Add_run r)
    with v show ?thesis
      by (simp add: with_run_def tenant_view_def packs_for_tenant_def runs_for_tenant_def active_pack_id_def fun_eq_iff)
  next
    case (Activate i t actor reason fc gaps)
    with v seen_lift [OF activate_seen [of R t S], where f = "\<lambda>a. (Some a, None)"] show ?thesis by simp
  next
    case (Review i t reviewer reviewed_at authority remark fc gaps)
    with v seen_lift [OF review_seen [of R t S], where f = "\<lambda>x. (Some (fst x), Some (snd x))"] show ?thesis by (simp add: case_prod_unfold)
  qed
qed

section \<open>The reason of a delegated review\<close>

lemma jfield_norm: "distinct (map fst d) \<Longrightarrow> jfield (sort_key fst (map (\<lambda>kv. (fst kv, json_norm (snd kv))) d)) k = json_norm (jfield d k)"
  by (simp add: jfield_def map_of_sort_key comp_def map_of_map_norm option.case_distrib [of json_norm] cong: option.case_cong)

lemma review_fields:
  "jfield (review_dict v) ''review_origin'' = JStr (rv_review_origin v)" "jfield (review_dict v) ''reviewer'' = JStr (rv_reviewer v)"
  "jfield (review_dict v) ''reviewed_at'' = JStr (rv_reviewed_at v)" "jfield (review_dict v) ''source_authority'' = JStr (rv_source_authority v)"
  "jfield (review_dict v) ''pack_sha256'' = JStr (rv_pack_sha256 v)" "jfield (review_dict v) ''note'' = JStr (rv_note v)"
  by (simp_all add: jfield_def review_dict_def)

lemma reason_reads_back:
  assumes "loads (json_print (float_repr (pe_platform E)) (json_norm (JObj (review_dict v)))) = Some (json_norm (JObj (review_dict v)))"
    and "rv_review_origin v = REVIEW_ORIGIN_AI_DELEGATED" "py_strip (rv_reviewer v) \<noteq> []" "py_strip (rv_source_authority v) \<noteq> []"
    "py_strip (rv_note v) \<noteq> []" "is_tz_aware_iso E (JStr (rv_reviewed_at v))" "is_sha256_text (JStr (rv_pack_sha256 v))" "py_strip (rv_pack_sha256 v) \<noteq> []"
  shows "from_reason loads E (to_reason E v) = Some v"
proof -
  define d where "d = sort_key fst (map (\<lambda>kv. (fst kv, json_norm (snd kv))) (review_dict v))"
  have "distinct (map fst (review_dict v))" by (simp add: review_dict_def)
  from jfield_norm [OF this] have j: "jfield d k = json_norm (jfield (review_dict v) k)" for k by (simp add: d_def)
  have "map fst (review_dict v) = map py REVIEW_KEYS" by (simp add: review_dict_def REVIEW_KEYS_def)
  from arg_cong [OF this, of set] have "fst ` set d = py ` set REVIEW_KEYS" by (simp add: d_def image_image)
  moreover have "py_startswith (to_reason E v) REASON_PREFIX" by (simp add: py_startswith_def to_reason_def)
  moreover have "loads (drop (length REASON_PREFIX) (to_reason E v)) = Some (JObj d)" using assms(1) by (simp add: to_reason_def d_def)
  moreover have "py_strip (rv_review_origin v) \<noteq> []" "py_strip (rv_reviewed_at v) \<noteq> []"
    using assms(2,6) by (simp_all add: is_tz_aware_iso_def REVIEW_ORIGIN_AI_DELEGATED_def py_strip_Nil_iff py_isspace_def py_def)
  ultimately show ?thesis
    using assms(2-8) by (simp add: from_reason_def j review_fields REVIEW_KEYS_def nonblank_text_def text_field_def)
qed

lemma sha256_not_blank: "is_sha256_text (JStr s) \<Longrightarrow> py_strip s \<noteq> []"
  by (cases s) (auto simp: is_sha256_text_def is_sha256_def lower_hex_def py_strip_Nil_iff py_isspace_def list_all_iff)

lemma validated_sha: "vr_ok (validate_rulepack E (pack_to_dict p) fc gaps) \<Longrightarrow> is_sha256_text (JStr (pk_sha256 p))"
  by (auto simp: validate_ok hash_complaints_def split: sum.splits if_splits)

lemma get_approved:
  assumes "registry_good E R" "get_pack R t i = Inr pack" "pk_status pack = py ''validated''"
  shows "get_pack (approved_registry R pack reviewer reviewed_at) t i = Inr (approve_pack pack reviewer reviewed_at)"
proof -
  have k: "pack \<in> set (rg_packs R)" "pack_key pack = (t, i)" using get_pack_key [OF assms(2)] by (simp_all add: pack_key_def)
  have "approve_pack pack reviewer reviewed_at \<in> set (rg_packs (approved_registry R pack reviewer reviewed_at))"
    unfolding approved_packs [OF assms(1)] set_map using k(1) by (intro image_eqI [of _ _ pack]) simp_all
  moreover have "pack_key (approve_pack pack reviewer reviewed_at) = (t, i)" using k(2) by (simp add: pack_key_def approve_pack_def)
  ultimately show ?thesis
    using get_pack_iff approved_good [OF assms] unfolding registry_good_def by blast
qed

lemma activate_validated:
  "activate_rulepack E R i t actor reason fc gaps = Inr (R', a) \<Longrightarrow> get_pack R t i = Inr p
   \<Longrightarrow> vr_ok (validate_rulepack E (pack_to_dict p) fc gaps) \<and> ac_reason a = reason"
  by (auto simp: activate_rulepack_def activation_of_def result_simps split: if_splits)

text \<open>
  The activation that a delegated review leaves behind can be traced: its recorded reason reads back as exactly the provenance that was returned, wherever
  \<^verbatim>\<open>json.loads\<close> inverts \<^verbatim>\<open>json.dumps\<close> on it, and the provenance names the hash of the reviewed pack, which then carries the marked approver.
\<close>

theorem delegated_review_reads_back:
  assumes "(registry_step E)\<^sup>*\<^sup>* empty_registry R"
    and "record_ai_delegated_review E R i t reviewer reviewed_at authority remark fc gaps = Inr (R', a, v)"
    and "loads (json_print (float_repr (pe_platform E)) (json_norm (JObj (review_dict v)))) = Some (json_norm (JObj (review_dict v)))"
  shows "from_reason loads E (ac_reason a) = Some v \<and> rv_reviewer v = reviewer \<and> rv_reviewed_at v = reviewed_at
    \<and> (\<exists>p. get_pack R' t i = Inr p \<and> pk_sha256 p = rv_pack_sha256 v \<and> pk_approved_by p = Some (APPROVER_PREFIX @ reviewer) \<and> pk_approved_at p = Some reviewed_at)"
proof -
  have g: "registry_good E R" using preg.steps_good [OF assms(1) empty_registry_good] .
  obtain pack where p: "get_pack R t i = Inr pack" "pk_status pack = py ''validated''"
    and act: "activate_rulepack E (approved_registry R pack reviewer reviewed_at) i t reviewer (to_reason E v) fc gaps = Inr (R', a)"
    using assms(2) by (rule review_Inr)
  let ?S = "approved_registry R pack reviewer reviewed_at" and ?q = "approve_pack pack reviewer reviewed_at"
  note q = get_approved [OF g p, of reviewer reviewed_at]
  have v: "v = \<lparr>rv_review_origin = REVIEW_ORIGIN_AI_DELEGATED, rv_reviewer = reviewer, rv_reviewed_at = reviewed_at,
      rv_source_authority = authority, rv_pack_sha256 = pk_sha256 pack, rv_note = remark\<rparr>"
    and blank: "py_strip reviewer \<noteq> []" "py_strip authority \<noteq> []" "py_strip remark \<noteq> []" "is_tz_aware_iso E (JStr reviewed_at)"
    using assms(2) p(1) by (auto simp: record_ai_delegated_review_def Let_def result_simps split: if_splits)
  have "is_sha256_text (JStr (pk_sha256 ?q))" and reason: "ac_reason a = to_reason E v"
    using activate_validated [OF act q] validated_sha by blast+
  then have sha: "is_sha256_text (JStr (pk_sha256 pack))" by (simp add: approve_pack_def)
  have "from_reason loads E (ac_reason a) = Some v"
    unfolding reason using assms(3) blank sha sha256_not_blank [OF sha] by (intro reason_reads_back) (simp_all add: v)
  moreover have gS: "registry_good E ?S" using approved_good [OF g p] .
  then have "registry_step E ?S R'"
    unfolding registry_step_def using act by (intro exI [of _ "Activate i t reviewer (to_reason E v) fc gaps"]) auto
  then have "\<exists>p. get_pack R' t i = Inr p \<and> pk_sha256 p = pk_sha256 pack \<and> same_approval ?q p"
    using activated_pack [OF gS q] by (auto simp: approve_pack_def)
  ultimately show ?thesis by (auto simp: v same_approval_def approve_pack_def)
qed

section \<open>Sample registries\<close>

definition open_pack :: pack_record where
  "open_pack = sample_pack\<lparr>pk_approved_by := None, pk_approved_at := None\<rparr>"

definition one_pack :: "pack_record \<Rightarrow> pack_registry" where
  "one_pack p = \<lparr>rg_packs = [p], rg_runs = [], rg_active = []\<rparr>"

lemma one_pack_reached: "(registry_step E)\<^sup>*\<^sup>* empty_registry (one_pack p)"
proof (rule r_into_rtranclp)
  have "registry_apply E (Add_pack p) empty_registry = Inr (one_pack p, None, None)"
    by (simp add: with_pack_def empty_registry_def one_pack_def)
  then show "registry_step E empty_registry (one_pack p)" unfolding registry_step_def by blast
qed

lemma one_pack_get: "get_pack (one_pack p) (pk_tenant_id p) (pk_rule_pack_id p) = Inr p" "active_pack_id (one_pack p) t m = None"
  by (simp_all add: get_pack_def active_pack_id_def one_pack_def)

lemma pack_sample_texts: "pk_tenant_id sample_pack = py ''t1''" "pk_rule_pack_id sample_pack = py ''p1''" "pk_mode sample_pack = py ''disclosure''"
  "pk_status sample_pack = py ''validated''"
  by (simp_all add: sample_pack_def)

lemma sample_activated:
  "activate_rulepack sample_env (one_pack sample_pack) (py ''p1'') (py ''t1'') (py ''lead'') (py ''go'') sample_files [] =
     Inr (switched (one_pack sample_pack) sample_pack, activation_of (one_pack sample_pack) sample_pack (py ''lead'') (py ''go''))"
proof -
  have "opt_truthy (pk_approved_by sample_pack)" "opt_truthy (pk_approved_at sample_pack)"
    by (simp_all add: sample_pack_def opt_truthy_def py_def)
  moreover have "py ''lead'' \<noteq> []" "py ''go'' \<noteq> []" by (simp_all add: py_def)
  ultimately show ?thesis
    using one_pack_get [of sample_pack] sample_pack_ok by (simp add: activate_rulepack_def switched_def pack_sample_texts)
qed

lemma sample_active_reached:
  "(registry_step sample_env)\<^sup>*\<^sup>* (one_pack sample_pack) (switched (one_pack sample_pack) sample_pack)"
  "active_pack_id (switched (one_pack sample_pack) sample_pack) (py ''t1'') (py ''disclosure'') = Some (py ''p1'')"
proof -
  have "registry_apply sample_env (Activate (py ''p1'') (py ''t1'') (py ''lead'') (py ''go'') sample_files []) (one_pack sample_pack) =
      Inr (switched (one_pack sample_pack) sample_pack, Some (activation_of (one_pack sample_pack) sample_pack (py ''lead'') (py ''go'')), None)"
    by (simp add: sample_activated)
  then show "(registry_step sample_env)\<^sup>*\<^sup>* (one_pack sample_pack) (switched (one_pack sample_pack) sample_pack)"
    unfolding registry_step_def by (intro r_into_rtranclp exI)
qed (simp add: switched_def active_with_active pack_sample_texts)

theorem active_pointer_is_sound_witness:
  "\<exists>R p. active_pack_id R (py ''t1'') (py ''disclosure'') = Some (py ''p1'') \<and> get_pack R (py ''t1'') (py ''p1'') = Inr p
     \<and> pk_status p = py ''active'' \<and> pack_cleared sample_env p"
  using active_pointer_is_sound [OF rtranclp_trans [OF one_pack_reached sample_active_reached(1)] sample_active_reached(2)]
    sample_active_reached(2) by blast

theorem pack_history_is_forward_witness:
  "\<exists>R S p q. get_pack R (py ''t1'') (py ''p1'') = Inr p \<and> get_pack S (py ''t1'') (py ''p1'') = Inr q \<and> pk_status p = py ''validated''
     \<and> active_pack_id S (py ''t1'') (py ''disclosure'') = Some (py ''p1'') \<and> pack_core q = pack_core p"
  using pack_history_is_forward [OF one_pack_reached sample_active_reached(1)] one_pack_get(1) [of sample_pack]
    sample_active_reached(2) pack_sample_texts by metis

theorem tenants_do_not_interfere_witness:
  "\<exists>act R' out. registry_apply sample_env act (one_pack sample_pack) = Inr (R', out) \<and> op_tenant act = py ''t1''
     \<and> tenant_view R' (py ''t2'') = tenant_view (one_pack sample_pack) (py ''t2'')"
proof -
  let ?act = "Activate (py ''p1'') (py ''t1'') (py ''lead'') (py ''go'') sample_files []"
  have step: "registry_apply sample_env ?act (one_pack sample_pack) =
      Inr (switched (one_pack sample_pack) sample_pack, Some (activation_of (one_pack sample_pack) sample_pack (py ''lead'') (py ''go'')), None)"
    by (simp add: sample_activated)
  moreover have "py ''t2'' \<noteq> op_tenant ?act" by (simp add: py_def)
  ultimately have "tenant_view (switched (one_pack sample_pack) sample_pack) (py ''t2'') = tenant_view (one_pack sample_pack) (py ''t2'')"
    using tenants_do_not_interfere [of sample_env ?act] by blast
  with step show ?thesis by (metis op_tenant.simps(3))
qed

lemma sample_reviewed:
  "\<exists>R' a v. record_ai_delegated_review sample_env (one_pack open_pack) (py ''p1'') (py ''t1'') (py ''ai'') (py ''2026-01-01'') (py ''doc'') (py ''ok'')
     sample_files [] = Inr (R', a, v)"
proof -
  let ?q = "approve_pack open_pack (py ''ai'') (py ''2026-01-01'')"
  have g: "get_pack (one_pack open_pack) (py ''t1'') (py ''p1'') = Inr open_pack"
    using one_pack_get(1) [of open_pack] by (simp add: open_pack_def pack_sample_texts)
  have "approved_registry (one_pack open_pack) open_pack (py ''ai'') (py ''2026-01-01'') = one_pack ?q"
    by (simp add: approved_registry_def one_pack_def)
  then have r: "(one_pack open_pack)\<lparr>rg_packs := replace_first (\<lambda>p. pack_key p = pack_key open_pack) ?q (rg_packs (one_pack open_pack))\<rparr> = one_pack ?q"
    by (simp add: approved_registry_def)
  have q: "get_pack (one_pack ?q) (py ''t1'') (py ''p1'') = Inr ?q" "pk_status ?q = py ''validated''"
    "opt_truthy (pk_approved_by ?q)" "opt_truthy (pk_approved_at ?q)"
    using one_pack_get(1) [of ?q] by (simp_all add: approve_pack_def open_pack_def pack_sample_texts) (simp add: opt_truthy_def py_def)
  have "vr_ok (validate_rulepack sample_env (pack_to_dict ?q) sample_files [])"
    using sample_pack_validates [of "py ''validated''" "Some (py ''2026-01-01'')" "Some (APPROVER_PREFIX @ py ''ai'')"]
    by (simp add: approve_pack_def open_pack_def STATUSES_def sample_pack_def)
  moreover have "to_reason E v \<noteq> []" for E v by (simp add: to_reason_def REASON_PREFIX_def py_def)
  moreover have "py ''ai'' \<noteq> []" by (simp add: py_def)
  ultimately have act: "\<exists>R' a. activate_rulepack sample_env (one_pack ?q) (py ''p1'') (py ''t1'') (py ''ai'') (to_reason sample_env v) sample_files [] = Inr (R', a)" for v
    using q one_pack_get(2) [of ?q] by (simp add: activate_rulepack_def)
  have blank: "py_strip (py ''ai'') \<noteq> []" "py_strip (py ''doc'') \<noteq> []" "py_strip (py ''ok'') \<noteq> []" "py_strip (py ''2026-01-01'') \<noteq> []"
    by (simp_all add: py_strip_Nil_iff py_isspace_def py_def)
  then have "is_tz_aware_iso sample_env (JStr (py ''2026-01-01''))" by (simp add: is_tz_aware_iso_def sample_env_def)
  moreover have "\<not> opt_truthy (pk_approved_by open_pack)" "pk_status open_pack = py ''validated''"
    by (simp_all add: open_pack_def pack_sample_texts opt_truthy_def)
  ultimately show ?thesis
    using blank act by (simp add: record_ai_delegated_review_def g r Let_def) (metis bindE.simps(2) case_prod_conv)
qed

theorem delegated_review_reads_back_witness:
  "\<exists>R' a v loads. record_ai_delegated_review sample_env (one_pack open_pack) (py ''p1'') (py ''t1'') (py ''ai'') (py ''2026-01-01'') (py ''doc'')
      (py ''ok'') sample_files [] = Inr (R', a, v) \<and> from_reason loads sample_env (ac_reason a) = Some v \<and> rv_reviewer v = py ''ai''"
proof -
  obtain R' a v where r: "record_ai_delegated_review sample_env (one_pack open_pack) (py ''p1'') (py ''t1'') (py ''ai'') (py ''2026-01-01'') (py ''doc'')
      (py ''ok'') sample_files [] = Inr (R', a, v)"
    using sample_reviewed by blast
  show ?thesis
    using r delegated_review_reads_back [OF one_pack_reached r, of "\<lambda>_. Some (json_norm (JObj (review_dict v)))", OF refl] by blast
qed

end
