(* ===== verification/Mode_Gate.thy ===== *)
theory Mode_Gate
  imports Registry_Props
begin

text \<open>
  Model of \<^verbatim>\<open>application/mode_gate.py\<close>: the choice of the pinned rules of a new run, which keeps disclosure and advertising apart.
  \<open>mode_gate_separates\<close> says what a chosen pack fulfils, \<open>advertising_marker_iff\<close> that the search for advertising metadata reaches every node.
\<close>

section \<open>The gate\<close>

definition marked :: "(pystr \<times> json) list \<Rightarrow> bool" where
  "marked d \<longleftrightarrow> jfield d ''standard'' = JStr (py ''ISO 14021'') \<or> jfield d ''standard_id'' = JStr (py ''ISO 14021'')
     \<or> jfield d ''mode'' = JStr (py ''advertising'') \<or> jfield d ''gate'' = JStr (py ''separate_approved_advertising_rulepack_required'')"

fun advertising_marker :: "json \<Rightarrow> bool" where
  "advertising_marker (JObj d) \<longleftrightarrow> marked d \<or> list_ex (\<lambda>kv. advertising_marker (snd kv)) d"
| "advertising_marker (JList xs) \<longleftrightarrow> list_ex advertising_marker xs"
| "advertising_marker _ \<longleftrightarrow> False"

definition dedicated :: "pystr \<Rightarrow> bool" where
  "dedicated path \<longleftrightarrow> py_startswith path (py ''advertising/'') \<or> path = py ''standards/iso_14021.yaml''"

definition advertising_ready :: "(pystr \<times> json) list \<Rightarrow> bool" where
  "advertising_ready payload \<longleftrightarrow> \<not> (jfield payload ''enabled'' = JBool False \<or> \<not> py_truthy (jfield payload ''clauses'')
     \<or> jfield payload ''verification_status'' \<noteq> JStr (py ''verified'')
     \<or> \<not> list_all (\<lambda>k. nonblank_text (jfield payload k)) [''verified_by'', ''verified_at'']
     \<or> jfield payload ''license_status'' = JStr (py ''review_required''))"

definition gate_file :: "pystr \<Rightarrow> rule_pack \<Rightarrow> pystr \<Rightarrow> unit result" where
  "gate_file mode s path = bindE (file_content s path) (\<lambda>payload.
     if mode = py ''advertising'' \<and> \<not> dedicated path \<or> mode = py ''disclosure'' \<and> (dedicated path \<or> advertising_marker (JObj payload))
     then Inl (DomainValidationError ''MODE_RULEPACK_MIXED'')
     else if mode = py ''advertising'' \<and> \<not> advertising_ready payload then Inl (DomainValidationError ''ADVERTISING_RULEPACK_NOT_READY'')
     else Inr ())"

definition gate_approved :: "rule_pack \<Rightarrow> bool" where
  "gate_approved s \<longleftrightarrow> rp_status s = py ''active'' \<and> list_all (\<lambda>x. nonblank_text (opt_text x)) [rp_approved_by s, rp_approved_at s]"

definition gate_demo :: "pystr \<Rightarrow> bool \<Rightarrow> rule_pack \<Rightarrow> bool" where
  "gate_demo mode local_synthetic s \<longleftrightarrow> mode = py ''disclosure'' \<and> local_synthetic \<and> rp_status s \<in> set DEMO_STATUSES"

definition select_mode_rulepack :: "pystr \<Rightarrow> rule_pack option \<Rightarrow> pystr \<Rightarrow> bool \<Rightarrow> rule_pack result" where
  "select_mode_rulepack mode rulepack tenant_id local_synthetic =
     (if mode \<notin> set MODES then Inl (DomainValidationError ''MODE_NOT_SUPPORTED'')
      else case rulepack of None \<Rightarrow> Inl (LookupError ''rule pack not found'')
      | Some s \<Rightarrow>
         if rp_tenant_id s \<noteq> tenant_id then Inl (LookupError ''rule pack not found'')
         else if rp_mode s \<noteq> mode then Inl (DomainValidationError ''MODE_RULEPACK_MISMATCH'')
         else if \<not> (gate_approved s \<or> gate_demo mode local_synthetic s) then Inl (DomainValidationError ''RULEPACK_APPROVAL_REQUIRED'')
         else if rp_files s = [] then Inl (DomainValidationError (if mode = py ''advertising'' then ''ADVERTISING_RULEPACK_NOT_READY'' else ''RULEPACK_NOT_READY''))
         else bindE (forE (gate_file mode s) (rp_files s)) (\<lambda>_. Inr s))"

section \<open>Advertising metadata\<close>

text \<open>The dictionaries inside a document, at any depth.\<close>

inductive inner_dict :: "json \<Rightarrow> (pystr \<times> json) list \<Rightarrow> bool" where
  here: "inner_dict (JObj d) d"
| member: "(k, v) \<in> set d \<Longrightarrow> inner_dict v e \<Longrightarrow> inner_dict (JObj d) e"
| element: "v \<in> set xs \<Longrightarrow> inner_dict v e \<Longrightarrow> inner_dict (JList xs) e"

lemma advertising_marker_iff: "advertising_marker v \<longleftrightarrow> (\<exists>d. inner_dict v d \<and> marked d)"
proof
  show "advertising_marker v \<Longrightarrow> \<exists>d. inner_dict v d \<and> marked d"
    by (induction v rule: advertising_marker.induct) (auto simp: list_ex_iff intro: inner_dict.here, (blast intro: inner_dict.intros)+)
next
  assume "\<exists>d. inner_dict v d \<and> marked d"
  then obtain d where "inner_dict v d" "marked d" by blast
  then show "advertising_marker v"
    by (induction rule: inner_dict.induct) (force simp: list_ex_iff)+
qed

text \<open>
  C34. A pack passes the gate of a new run only unchanged, in the tenant and mode of the run, either active with an approver and an approval time or, for local
  disclosure demos, as a draft or validated pack; a disclosure pack then holds no advertising file and no dictionary marked as advertising at any
  depth, and every file of an advertising pack is a dedicated, verified and licensed one.
\<close>

theorem mode_gate_separates:
  assumes "select_mode_rulepack mode (Some s) tenant local_synthetic = Inr s'"
  shows "s' = s \<and> rp_tenant_id s = tenant \<and> rp_mode s = mode \<and> (gate_approved s \<or> gate_demo mode local_synthetic s) \<and> rp_files s \<noteq> []
    \<and> (\<forall>path\<in>set (rp_files s). \<exists>payload. file_content s path = Inr payload
        \<and> (mode = py ''disclosure'' \<longrightarrow> \<not> dedicated path \<and> (\<forall>d. inner_dict (JObj payload) d \<longrightarrow> \<not> marked d))
        \<and> (mode = py ''advertising'' \<longrightarrow> dedicated path \<and> advertising_ready payload))"
proof -
  have s: "s' = s" "rp_tenant_id s = tenant" "rp_mode s = mode" "gate_approved s \<or> gate_demo mode local_synthetic s" "rp_files s \<noteq> []"
    and files: "\<forall>path\<in>set (rp_files s). gate_file mode s path = Inr ()"
    using assms by (auto simp: select_mode_rulepack_def result_simps split: if_splits)
  have "\<exists>payload. file_content s path = Inr payload
        \<and> (mode = py ''disclosure'' \<longrightarrow> \<not> dedicated path \<and> (\<forall>d. inner_dict (JObj payload) d \<longrightarrow> \<not> marked d))
        \<and> (mode = py ''advertising'' \<longrightarrow> dedicated path \<and> advertising_ready payload)" if "path \<in> set (rp_files s)" for path
  proof -
    have "gate_file mode s path = Inr ()" using files that by blast
    then obtain payload where "file_content s path = Inr payload"
        "(mode = py ''advertising'' \<longrightarrow> dedicated path) \<and> (mode = py ''disclosure'' \<longrightarrow> \<not> dedicated path \<and> \<not> advertising_marker (JObj payload))"
        "mode = py ''advertising'' \<longrightarrow> advertising_ready payload"
      by (auto simp: gate_file_def result_simps simp del: advertising_marker.simps)
    then show ?thesis unfolding advertising_marker_iff by blast
  qed
  with s show ?thesis by blast
qed

definition gate_sample :: rule_pack where
  "gate_sample = (pack_meta sample_pack)\<lparr>rp_content := sample_files\<rparr>"

lemma gate_sample_passes: "select_mode_rulepack (py ''disclosure'') (Some gate_sample) (py ''t1'') True = Inr gate_sample"
proof -
  have "sort_key fst [(py ''version'', JStr (py ''1'')), (py ''effective_date'', JStr (py ''2026-01-01''))] =
      [(py ''effective_date'', JStr (py ''2026-01-01'')), (py ''version'', JStr (py ''1''))]"
    by (simp add: py_def)
  then have "file_content gate_sample (py ''a'') = Inr [(py ''effective_date'', JStr (py ''2026-01-01'')), (py ''version'', JStr (py ''1''))]"
    by (simp add: file_content_def gate_sample_def sample_files_def)
  moreover have "\<not> dedicated (py ''a'')" by (simp add: dedicated_def py_startswith_def py_def)
  moreover have "py ''disclosure'' \<noteq> py ''advertising''" by simp
  ultimately have "gate_file (py ''disclosure'') gate_sample (py ''a'') = Inr ()"
    by (simp add: gate_file_def marked_def jfield_def)
  moreover have "rp_files gate_sample = [py ''a'']" "rp_tenant_id gate_sample = py ''t1''" "rp_mode gate_sample = py ''disclosure''"
      "gate_demo (py ''disclosure'') True gate_sample"
    by (simp_all add: gate_sample_def pack_meta_def sample_pack_def gate_demo_def DEMO_STATUSES_def)
  ultimately show ?thesis by (simp add: select_mode_rulepack_def MODES_def)
qed

theorem mode_gate_separates_witness:
  "select_mode_rulepack (py ''disclosure'') (Some gate_sample) (py ''t1'') True = Inr gate_sample
     \<and> (\<exists>path payload. path \<in> set (rp_files gate_sample) \<and> file_content gate_sample path = Inr payload \<and> \<not> dedicated path)"
proof -
  have "py ''a'' \<in> set (rp_files gate_sample)" by (simp add: gate_sample_def pack_meta_def sample_pack_def)
  with mode_gate_separates [OF gate_sample_passes] gate_sample_passes show ?thesis by blast
qed

end
