(* ===== verification/Access.thy ===== *)
theory Access
  imports Json Growing_Store
begin

text \<open>
  Model of \<^verbatim>\<open>application/authorization.py\<close> with the stores of \<^verbatim>\<open>adapters/local/auth_store.py\<close> and the session operations of
  \<^verbatim>\<open>proofops_api/session.py\<close>: who may act, in which tenant, with which capability.

  The two ports are arguments of \<open>authorize\<close> and \<open>select_tenant\<close>. \<open>token_env\<close> holds what the adapter takes from the interpreter: \<^verbatim>\<open>sha256\<close> of a
  token and the HMAC under the secret of the process. A new session identifier is an argument of the operation that draws it. Timestamps are JSON numbers.
  The locale \<open>session_port\<close> states what \<open>select_tenant\<close> needs of a session store; it is interpreted on the in-memory store.
\<close>

section \<open>Records\<close>

definition ROLE_CAPABILITIES :: "(pystr \<times> pystr list) list" where
  "ROLE_CAPABILITIES = [(py ''viewer'', [py ''viewer'']), (py ''editor'', [py ''viewer'', py ''editor'']),
     (py ''reviewer'', [py ''viewer'', py ''reviewer'']), (py ''admin'', [py ''viewer'', py ''editor'', py ''reviewer'', py ''admin''])]"

record session_record =
  se_session_id :: pystr
  se_user_sub :: pystr
  se_active_tenant_id :: "pystr option"
  se_csrf_hash :: pystr
  se_expires_at :: json
  se_idle_deadline :: json
  se_revoked :: bool

text \<open>A finite \<^verbatim>\<open>int | float\<close>, not a \<^verbatim>\<open>bool\<close>.\<close>

fun timestamp :: "json \<Rightarrow> rat option" where
  "timestamp (JInt i) = Some (of_int i)"
| "timestamp (JFloat (PyFinite q)) = Some q"
| "timestamp _ = None"

definition reached :: "json \<Rightarrow> json \<Rightarrow> bool" where
  "reached now deadline \<longleftrightarrow> the (timestamp deadline) \<le> the (timestamp now)"

definition mk_session_record :: "session_record \<Rightarrow> session_record result" where
  "mk_session_record s =
     (if timestamp (se_expires_at s) = None then Inl (ValueError ''expires_at must be a finite timestamp'')
      else if timestamp (se_idle_deadline s) = None then Inl (ValueError ''idle_deadline must be a finite timestamp'')
      else Inr s)"

record membership_record =
  ms_tenant_id :: pystr
  ms_user_sub :: pystr
  ms_role :: pystr
  ms_status :: pystr

definition mk_membership_record :: "membership_record \<Rightarrow> membership_record result" where
  "mk_membership_record m =
     (if ms_role m \<notin> fst ` set ROLE_CAPABILITIES then Inl (ValueError ''unknown role'')
      else if ms_status m \<notin> {py ''active'', py ''revoked''} then Inl (ValueError ''unknown membership status'')
      else Inr m)"

record auth_context =
  ax_user_sub :: pystr
  ax_tenant_id :: pystr
  ax_role :: pystr
  ax_capabilities :: "pystr list"
  ax_session_id :: pystr

definition has_capability :: "auth_context \<Rightarrow> pystr \<Rightarrow> bool" where
  "has_capability c capability \<longleftrightarrow> capability \<in> set (ax_capabilities c)"

section \<open>Authorization\<close>

type_synonym session_get = "pystr \<Rightarrow> session_record option"
type_synonym membership_get = "pystr \<Rightarrow> pystr \<Rightarrow> membership_record option"

definition check_live_session :: "session_get \<Rightarrow> pystr \<Rightarrow> json \<Rightarrow> session_record result" where
  "check_live_session sessions session_id now =
     (if timestamp now = None then Inl (ValueError ''now must be a finite timestamp'')
      else case sessions session_id of None \<Rightarrow> Inl (SessionExpiredError ''session'')
      | Some s \<Rightarrow> if se_revoked s then Inl (SessionExpiredError ''session'')
          else if reached now (se_expires_at s) \<or> reached now (se_idle_deadline s) then Inl (SessionExpiredError ''session'')
          else Inr s)"

definition get_live_session :: "session_get \<Rightarrow> pystr \<Rightarrow> json \<Rightarrow> session_record result" where
  "get_live_session sessions session_id now = check_live_session sessions session_id now"

definition live_membership :: "membership_get \<Rightarrow> pystr \<Rightarrow> pystr \<Rightarrow> membership_record result" where
  "live_membership members tenant_id user_sub = (case members tenant_id user_sub of
       None \<Rightarrow> Inl (TenantNotFoundError ''tenant'')
     | Some m \<Rightarrow> if ms_status m \<noteq> py ''active'' then Inl (TenantNotFoundError ''tenant'') else Inr m)"

definition role_capabilities :: "pystr \<Rightarrow> pystr list result" where
  "role_capabilities role = (case map_of ROLE_CAPABILITIES role of None \<Rightarrow> Inl (KeyError ''role'') | Some cs \<Rightarrow> Inr cs)"

text \<open>A tenant named by the request that is not the session's own: not found, whether or not the caller is a member there.\<close>

definition check_scope :: "membership_get \<Rightarrow> session_record \<Rightarrow> pystr \<Rightarrow> pystr option \<Rightarrow> unit result" where
  "check_scope members session active requested = (case requested of
       None \<Rightarrow> Inr ()
     | Some scope \<Rightarrow> if scope \<noteq> active
         then bindE (live_membership members scope (se_user_sub session)) (\<lambda>_. Inl (TenantNotFoundError ''tenant''))
         else Inr ())"

definition authorize :: "session_get \<Rightarrow> membership_get \<Rightarrow> pystr \<Rightarrow> json \<Rightarrow> pystr \<Rightarrow> pystr option \<Rightarrow> auth_context result" where
  "authorize sessions members session_id now required_capability requested_tenant_id =
     bindE (check_live_session sessions session_id now) (\<lambda>session.
     case se_active_tenant_id session of
       None \<Rightarrow> Inl (CapabilityDeniedError ''session has no active tenant selected'')
     | Some active \<Rightarrow>
         bindE (check_scope members session active requested_tenant_id) (\<lambda>_.
         bindE (live_membership members active (se_user_sub session)) (\<lambda>membership.
         bindE (role_capabilities (ms_role membership)) (\<lambda>capabilities.
         if required_capability \<notin> set capabilities then Inl (CapabilityDeniedError ''role lacks capability'')
         else Inr \<lparr>ax_user_sub = se_user_sub session, ax_tenant_id = active, ax_role = ms_role membership,
                   ax_capabilities = capabilities, ax_session_id = se_session_id session\<rparr>))))"

definition select_tenant ::
  "('s \<Rightarrow> session_get) \<Rightarrow> ('s \<Rightarrow> pystr \<Rightarrow> pystr \<Rightarrow> json \<Rightarrow> ('s \<times> session_record) result) \<Rightarrow> membership_get \<Rightarrow> 's \<Rightarrow> pystr \<Rightarrow> pystr \<Rightarrow> json
    \<Rightarrow> ('s \<times> auth_context) result" where
  "select_tenant get set_active members st session_id tenant_id now =
     bindE (check_live_session (get st) session_id now) (\<lambda>session.
     bindE (live_membership members tenant_id (se_user_sub session)) (\<lambda>membership.
     bindE (set_active st session_id tenant_id now) (\<lambda>(st', updated).
     bindE (role_capabilities (ms_role membership)) (\<lambda>capabilities.
       Inr (st', \<lparr>ax_user_sub = se_user_sub updated, ax_tenant_id = tenant_id, ax_role = ms_role membership,
                  ax_capabilities = capabilities, ax_session_id = se_session_id updated\<rparr>)))))"

section \<open>The in-memory stores\<close>

record token_env =
  tk_hash :: "pystr \<Rightarrow> pystr"
  tk_hmac :: "pystr \<Rightarrow> pystr"

record stored_session =
  ss_user_sub :: pystr
  ss_active_tenant_id :: "pystr option"
  ss_csrf_hash :: pystr
  ss_expires_at :: json
  ss_idle_deadline :: json
  ss_revoked :: bool

type_synonym session_store = "pystr \<rightharpoonup> stored_session"

definition from_record :: "session_record \<Rightarrow> pystr \<Rightarrow> stored_session" where
  "from_record r csrf_hash = \<lparr>ss_user_sub = se_user_sub r, ss_active_tenant_id = se_active_tenant_id r, ss_csrf_hash = csrf_hash,
     ss_expires_at = se_expires_at r, ss_idle_deadline = se_idle_deadline r, ss_revoked = se_revoked r\<rparr>"

definition project :: "stored_session \<Rightarrow> pystr \<Rightarrow> session_record" where
  "project s session_id = \<lparr>se_session_id = session_id, se_user_sub = ss_user_sub s, se_active_tenant_id = ss_active_tenant_id s,
     se_csrf_hash = ss_csrf_hash s, se_expires_at = ss_expires_at s, se_idle_deadline = ss_idle_deadline s, se_revoked = ss_revoked s\<rparr>"

definition stored_of :: "token_env \<Rightarrow> session_record \<Rightarrow> stored_session" where
  "stored_of K r = from_record r (tk_hash K (tk_hmac K (se_session_id r)))"

definition session_put :: "token_env \<Rightarrow> session_record \<Rightarrow> session_store \<Rightarrow> session_store" where
  "session_put K r st = st(tk_hash K (se_session_id r) \<mapsto> stored_of K r)"

definition put_with_token :: "token_env \<Rightarrow> session_record \<Rightarrow> pystr \<Rightarrow> session_store \<Rightarrow> session_store result" where
  "put_with_token K r csrf_token st =
     (if tk_hash K csrf_token \<noteq> se_csrf_hash r then Inl (ValueError ''CSRF hash/token mismatch'') else Inr (session_put K r st))"

definition csrf_token_for :: "token_env \<Rightarrow> session_store \<Rightarrow> pystr \<Rightarrow> pystr option" where
  "csrf_token_for K st session_id = (if st (tk_hash K session_id) = None then None else Some (tk_hmac K session_id))"

definition session_lookup :: "token_env \<Rightarrow> session_store \<Rightarrow> session_get" where
  "session_lookup K st session_id = map_option (\<lambda>s. project s session_id) (st (tk_hash K session_id))"

definition session_revoke :: "token_env \<Rightarrow> pystr \<Rightarrow> session_store \<Rightarrow> session_store" where
  "session_revoke K session_id st = (case st (tk_hash K session_id) of None \<Rightarrow> st
     | Some s \<Rightarrow> st(tk_hash K session_id \<mapsto> s\<lparr>ss_revoked := True\<rparr>))"

definition set_active_tenant :: "token_env \<Rightarrow> pystr \<Rightarrow> session_store \<Rightarrow> pystr \<Rightarrow> pystr \<Rightarrow> json \<Rightarrow> (session_store \<times> session_record) result" where
  "set_active_tenant K new_id st session_id tenant_id now = (case st (tk_hash K session_id) of
       None \<Rightarrow> Inl (SessionExpiredError ''session'')
     | Some s \<Rightarrow> if ss_revoked s \<or> reached now (ss_expires_at s) \<or> reached now (ss_idle_deadline s) then Inl (SessionExpiredError ''session'')
         else let csrf = tk_hash K (tk_hmac K new_id);
                  rotated = \<lparr>se_session_id = new_id, se_user_sub = ss_user_sub s, se_active_tenant_id = Some tenant_id, se_csrf_hash = csrf,
                    se_expires_at = ss_expires_at s, se_idle_deadline = ss_idle_deadline s, se_revoked = False\<rparr>
              in Inr (st(tk_hash K new_id \<mapsto> from_record rotated csrf, tk_hash K session_id \<mapsto> s\<lparr>ss_revoked := True\<rparr>), rotated))"

definition rotate_session :: "token_env \<Rightarrow> pystr \<Rightarrow> session_store \<Rightarrow> pystr \<Rightarrow> pystr \<Rightarrow> json \<Rightarrow> (session_store \<times> session_record) result" where
  "rotate_session K new_id st session_id tenant_id now = set_active_tenant K new_id st session_id tenant_id now"

definition logout :: "token_env \<Rightarrow> session_store \<Rightarrow> pystr \<Rightarrow> json \<Rightarrow> session_store result" where
  "logout K st session_id now = bindE (get_live_session (session_lookup K st) session_id now) (\<lambda>_. Inr (session_revoke K session_id st))"

record membership_store =
  mb_memberships :: "pystr \<times> pystr \<rightharpoonup> membership_record"
  mb_tenants :: "pystr set"

definition membership_put :: "membership_record \<Rightarrow> membership_store \<Rightarrow> membership_store" where
  "membership_put m M = \<lparr>mb_memberships = (mb_memberships M)((ms_tenant_id m, ms_user_sub m) \<mapsto> m), mb_tenants = insert (ms_tenant_id m) (mb_tenants M)\<rparr>"

definition membership_lookup :: "membership_store \<Rightarrow> membership_get" where
  "membership_lookup M tenant_id user_sub = mb_memberships M (tenant_id, user_sub)"

definition tenant_exists :: "membership_store \<Rightarrow> pystr \<Rightarrow> bool" where
  "tenant_exists M tenant_id \<longleftrightarrow> tenant_id \<in> mb_tenants M"

end
