(* ===== verification/Access_Props.thy ===== *)
theory Access_Props
  imports Access
begin

text \<open>
  What authorization guarantees: a context is handed out exactly when session, tenant, membership and capability agree (\<open>authorized_iff_entitled\<close>), the
  existence of a tenant is not observable to one who is no member (\<open>foreign_tenants_are_hidden\<close>), and after a switch of the tenant the earlier session is
  dead for good while the new one is authorized at once (\<open>switched_session_replaces_old\<close>).
\<close>

section \<open>Granting\<close>

lemma check_live_Inr:
  "check_live_session sessions sid now = Inr s \<longleftrightarrow> timestamp now \<noteq> None \<and> sessions sid = Some s \<and> \<not> se_revoked s
     \<and> \<not> reached now (se_expires_at s) \<and> \<not> reached now (se_idle_deadline s)"
  by (auto simp: check_live_session_def split: option.splits)

lemma live_membership_Inr: "live_membership members t u = Inr m \<longleftrightarrow> members t u = Some m \<and> ms_status m = py ''active''"
  by (auto simp: live_membership_def split: option.splits)

lemma role_capabilities_Inr: "role_capabilities r = Inr cs \<longleftrightarrow> map_of ROLE_CAPABILITIES r = Some cs"
  by (auto simp: role_capabilities_def split: option.splits)

lemma check_scope_Inr: "check_scope members s active requested = Inr u \<longleftrightarrow> requested = None \<or> requested = Some active"
  by (auto simp: check_scope_def result_simps split: option.splits)

lemma viewer_included: "map_of ROLE_CAPABILITIES r = Some cs \<Longrightarrow> py ''viewer'' \<in> set cs"
  by (auto simp: ROLE_CAPABILITIES_def split: if_splits)

text \<open>
  C12. A caller is authorized exactly when the session exists, is not revoked and neither of its deadlines is reached, it has an active tenant, which is the
  requested one where a tenant is requested, the user has an active membership there, and the capability is among those of the membership's role; the
  context names that user, tenant, role and session.
\<close>

theorem authorized_iff_entitled:
  "authorize sessions members sid now capability requested = Inr c \<longleftrightarrow>
     (\<exists>s m t. timestamp now \<noteq> None \<and> sessions sid = Some s \<and> \<not> se_revoked s \<and> \<not> reached now (se_expires_at s) \<and> \<not> reached now (se_idle_deadline s)
        \<and> se_active_tenant_id s = Some t \<and> (requested = None \<or> requested = Some t)
        \<and> members t (se_user_sub s) = Some m \<and> ms_status m = py ''active''
        \<and> map_of ROLE_CAPABILITIES (ms_role m) = Some (ax_capabilities c) \<and> capability \<in> set (ax_capabilities c)
        \<and> c = \<lparr>ax_user_sub = se_user_sub s, ax_tenant_id = t, ax_role = ms_role m, ax_capabilities = ax_capabilities c, ax_session_id = se_session_id s\<rparr>)"
  (is "_ \<longleftrightarrow> ?entitled")
proof -
  have "authorize sessions members sid now capability requested = Inr c \<longleftrightarrow>
     (\<exists>s t m cs. check_live_session sessions sid now = Inr s \<and> se_active_tenant_id s = Some t \<and> check_scope members s t requested = Inr ()
        \<and> live_membership members t (se_user_sub s) = Inr m \<and> role_capabilities (ms_role m) = Inr cs \<and> capability \<in> set cs
        \<and> c = \<lparr>ax_user_sub = se_user_sub s, ax_tenant_id = t, ax_role = ms_role m, ax_capabilities = cs, ax_session_id = se_session_id s\<rparr>)"
    unfolding authorize_def by (auto simp: result_simps split: option.splits)
  also have "\<dots> \<longleftrightarrow> ?entitled"
    unfolding check_live_Inr live_membership_Inr role_capabilities_Inr check_scope_Inr by auto
  finally show ?thesis .
qed

section \<open>Hidden tenants\<close>

text \<open>The memberships of one user that are in force.\<close>

definition own_memberships :: "membership_store \<Rightarrow> pystr \<Rightarrow> pystr \<Rightarrow> membership_record option" where
  "own_memberships M u t = (case membership_lookup M t u of None \<Rightarrow> None | Some m \<Rightarrow> if ms_status m = py ''active'' then Some m else None)"

lemma live_membership_own:
  "live_membership (membership_lookup M) t u = (case own_memberships M u t of None \<Rightarrow> Inl (TenantNotFoundError ''tenant'') | Some m \<Rightarrow> Inr m)"
  by (simp add: live_membership_def own_memberships_def split: option.split)

text \<open>
  C36. A caller learns nothing about tenants without an active membership there: two membership stores that agree on the caller's own active
  memberships, whatever tenants, other members and revoked memberships they hold, answer every authorization and every switch of the tenant alike.
\<close>

theorem foreign_tenants_are_hidden:
  assumes "\<And>s. sessions st sid = Some s \<Longrightarrow> own_memberships M (se_user_sub s) = own_memberships N (se_user_sub s)"
  shows "authorize (sessions st) (membership_lookup M) sid now capability requested = authorize (sessions st) (membership_lookup N) sid now capability requested
    \<and> select_tenant sessions set_active (membership_lookup M) st sid t now = select_tenant sessions set_active (membership_lookup N) st sid t now"
proof (cases "check_live_session (sessions st) sid now")
  case (Inr s)
  then have "sessions st sid = Some s" by (simp add: check_live_Inr)
  from assms [OF this] have "live_membership (membership_lookup M) t (se_user_sub s) = live_membership (membership_lookup N) t (se_user_sub s)" for t
    by (simp add: live_membership_own)
  moreover from this have "check_scope (membership_lookup M) s a requested = check_scope (membership_lookup N) s a requested" for a
    by (simp add: check_scope_def split: option.split)
  ultimately show ?thesis using Inr by (simp add: authorize_def select_tenant_def cong: option.case_cong)
qed (simp add: authorize_def select_tenant_def)

section \<open>Switching the tenant\<close>

locale session_port =
  fixes get :: "'s \<Rightarrow> session_get"
    and set_active :: "pystr \<Rightarrow> 's \<Rightarrow> pystr \<Rightarrow> pystr \<Rightarrow> json \<Rightarrow> ('s \<times> session_record) result"
    and fresh :: "'s \<Rightarrow> pystr \<Rightarrow> bool"
  assumes rotate_some: "fresh st n \<Longrightarrow> check_live_session (get st) sid now = Inr s \<Longrightarrow> \<exists>st' r. set_active n st sid t now = Inr (st', r)"
    and rotate_new: "fresh st n \<Longrightarrow> check_live_session (get st) sid now = Inr s \<Longrightarrow> set_active n st sid t now = Inr (st', r)
      \<Longrightarrow> get st' n = Some r \<and> r = s\<lparr>se_session_id := n, se_active_tenant_id := Some t, se_csrf_hash := se_csrf_hash r\<rparr>"
    and rotate_old: "fresh st n \<Longrightarrow> set_active n st sid t now = Inr (st', r) \<Longrightarrow> \<exists>old. get st' sid = Some old \<and> se_revoked old"
begin

lemma select_Inr:
  assumes "select_tenant get (set_active n) members st sid t now = Inr (st', c)"
  obtains s m r where "check_live_session (get st) sid now = Inr s" "live_membership members t (se_user_sub s) = Inr m" "set_active n st sid t now = Inr (st', r)"
    "role_capabilities (ms_role m) = Inr (ax_capabilities c)"
    "c = \<lparr>ax_user_sub = se_user_sub r, ax_tenant_id = t, ax_role = ms_role m, ax_capabilities = ax_capabilities c, ax_session_id = se_session_id r\<rparr>"
  using assms by (auto simp: select_tenant_def result_simps)

lemma rotated_fields:
  assumes "fresh st n" "check_live_session (get st) sid now = Inr s" "set_active n st sid t now = Inr (st', r)"
  shows "get st' n = Some r" "se_revoked r = se_revoked s" "se_expires_at r = se_expires_at s" "se_idle_deadline r = se_idle_deadline s"
    "se_user_sub r = se_user_sub s" "se_active_tenant_id r = Some t"
proof -
  obtain h where n: "get st' n = Some r" and r: "r = s\<lparr>se_session_id := n, se_active_tenant_id := Some t, se_csrf_hash := h\<rparr>"
    using rotate_new [OF assms] by blast
  show "get st' n = Some r" by (rule n)
  show "se_revoked r = se_revoked s" "se_expires_at r = se_expires_at s" "se_idle_deadline r = se_idle_deadline s" "se_user_sub r = se_user_sub s"
    "se_active_tenant_id r = Some t" by (simp_all add: r)
qed

lemma select_then_authorize:
  assumes "fresh st n" "select_tenant get (set_active n) members st sid t now = Inr (st', c)"
  shows "authorize (get st') members n now (py ''viewer'') None = Inr c"
  using assms(2)
proof (rule select_Inr)
  fix s m r
  assume live: "check_live_session (get st) sid now = Inr s" and m: "live_membership members t (se_user_sub s) = Inr m"
    and rot: "set_active n st sid t now = Inr (st', r)" and caps: "role_capabilities (ms_role m) = Inr (ax_capabilities c)"
    and c: "c = \<lparr>ax_user_sub = se_user_sub r, ax_tenant_id = t, ax_role = ms_role m, ax_capabilities = ax_capabilities c, ax_session_id = se_session_id r\<rparr>"
  note f = rotated_fields [OF assms(1) live rot]
  with live have "check_live_session (get st') n now = Inr r" by (simp add: check_live_Inr)
  moreover have "py ''viewer'' \<in> set (ax_capabilities c)" using caps viewer_included by (simp add: role_capabilities_Inr)
  ultimately show ?thesis
    using m caps by (subst c) (simp add: authorize_def f check_scope_def)
qed

lemma select_succeeds:
  assumes "fresh st n" "check_live_session (get st) sid now = Inr s" "members t (se_user_sub s) = Some m" "mk_membership_record m = Inr m'" "ms_status m = py ''active''"
  shows "\<exists>st' c. select_tenant get (set_active n) members st sid t now = Inr (st', c)"
proof -
  have "\<exists>cs. map_of ROLE_CAPABILITIES (ms_role m) = Some cs"
    using assms(4) by (auto simp: mk_membership_record_def map_of_eq_None_iff split: if_splits simp flip: not_None_eq)
  then show ?thesis
    using rotate_some [OF assms(1,2), of t] assms by (auto simp: select_tenant_def live_membership_def role_capabilities_def)
qed

end

section \<open>The in-memory store\<close>

definition unused :: "token_env \<Rightarrow> session_store \<Rightarrow> pystr \<Rightarrow> bool" where
  "unused K st n \<longleftrightarrow> st (tk_hash K n) = None"

lemma set_active_Inr:
  "set_active_tenant K n st sid t now = Inr (st', r) \<longleftrightarrow>
     (\<exists>s. st (tk_hash K sid) = Some s \<and> \<not> (ss_revoked s \<or> reached now (ss_expires_at s) \<or> reached now (ss_idle_deadline s))
        \<and> r = \<lparr>se_session_id = n, se_user_sub = ss_user_sub s, se_active_tenant_id = Some t, se_csrf_hash = tk_hash K (tk_hmac K n),
             se_expires_at = ss_expires_at s, se_idle_deadline = ss_idle_deadline s, se_revoked = False\<rparr>
        \<and> st' = st(tk_hash K n \<mapsto> from_record r (tk_hash K (tk_hmac K n)), tk_hash K sid \<mapsto> s\<lparr>ss_revoked := True\<rparr>))"
  by (auto simp: set_active_tenant_def Let_def split: option.splits)

interpretation mem: session_port "session_lookup K" "set_active_tenant K" "unused K" for K
proof
  fix st n sid now s t st' r
  assume fresh: "unused K st n"
  { assume live: "check_live_session (session_lookup K st) sid now = Inr s"
    then obtain z where z: "st (tk_hash K sid) = Some z" "s = project z sid" "\<not> (ss_revoked z \<or> reached now (ss_expires_at z) \<or> reached now (ss_idle_deadline z))"
      by (auto simp: check_live_Inr session_lookup_def project_def)
    then show "\<exists>st' r. set_active_tenant K n st sid t now = Inr (st', r)" by (simp add: set_active_tenant_def Let_def)
    assume rot: "set_active_tenant K n st sid t now = Inr (st', r)"
    from z fresh have "tk_hash K n \<noteq> tk_hash K sid" by (auto simp: unused_def)
    with rot z show "session_lookup K st' n = Some r \<and> r = s\<lparr>se_session_id := n, se_active_tenant_id := Some t, se_csrf_hash := se_csrf_hash r\<rparr>"
      by (auto simp: set_active_Inr session_lookup_def project_def from_record_def) }
  assume "set_active_tenant K n st sid t now = Inr (st', r)"
  then show "\<exists>old. session_lookup K st' sid = Some old \<and> se_revoked old" by (auto simp: set_active_Inr session_lookup_def project_def)
qed

text \<open>Operations on the store: a login stores a record under a new identifier, a switch draws one, and logout revokes.\<close>

inductive session_step :: "token_env \<Rightarrow> session_store \<Rightarrow> session_store \<Rightarrow> bool" for K where
  login: "unused K st (se_session_id r) \<Longrightarrow> session_step K st (session_put K r st)"
| revoke: "session_step K st (session_revoke K sid st)"
| switch: "unused K st n \<Longrightarrow> set_active_tenant K n st sid t now = Inr (st', r) \<Longrightarrow> session_step K st st'"

definition session_le :: "session_store \<Rightarrow> session_store \<Rightarrow> bool" where
  "session_le st st' \<longleftrightarrow> (\<forall>k s. st k = Some s \<longrightarrow> st' k = Some s \<or> st' k = Some (s\<lparr>ss_revoked := True\<rparr>))"

lemma session_step_le: "session_step K st st' \<Longrightarrow> session_le st st'"
  by (induction rule: session_step.induct)
    (auto simp: session_le_def session_put_def session_revoke_def set_active_Inr unused_def split: option.splits)

interpretation sess: growing_store "session_step K" "\<lambda>_. True" session_le for K
proof
  show "session_le st st" for st by (simp add: session_le_def)
  show "session_le st u" if "session_le st t" "session_le t u" for st t u
    using that unfolding session_le_def by fastforce
qed (use session_step_le in auto)

lemma revoked_stays:
  assumes "(session_step K)\<^sup>*\<^sup>* st T" "session_lookup K st sid = Some old" "se_revoked old"
  shows "\<not> okE (check_live_session (session_lookup K T) sid now)"
proof -
  obtain s where "st (tk_hash K sid) = Some s" "ss_revoked s" using assms(2,3) by (auto simp: session_lookup_def project_def)
  with sess.steps_le [OF assms(1)] obtain s' where "T (tk_hash K sid) = Some s'" "ss_revoked s'" by (fastforce simp: session_le_def)
  then show ?thesis by (auto simp: okE_iff check_live_Inr session_lookup_def project_def)
qed

text \<open>
  C24. After a session has switched its tenant, the new session is authorized in that tenant with the returned context, with the user and the
  deadlines of the old one, and the old session is refused by every operation in every later state of the store, whatever the memberships.
\<close>

theorem switched_session_replaces_old:
  assumes "unused K st n" "select_tenant (session_lookup K) (set_active_tenant K n) members st sid t now = Inr (st', c)" "(session_step K)\<^sup>*\<^sup>* st' T"
  shows "authorize (session_lookup K st') members n now (py ''viewer'') None = Inr c
    \<and> \<not> okE (authorize (session_lookup K T) members' sid now' capability requested)
    \<and> \<not> okE (select_tenant (session_lookup K) (set_active_tenant K n') members' T sid t' now')
    \<and> \<not> okE (logout K T sid now')
    \<and> (\<exists>s r. session_lookup K st sid = Some s \<and> session_lookup K st' n = Some r \<and> se_user_sub r = se_user_sub s
        \<and> se_expires_at r = se_expires_at s \<and> se_idle_deadline r = se_idle_deadline s)"
proof -
  obtain s m r where live: "check_live_session (session_lookup K st) sid now = Inr s" and rot: "set_active_tenant K n st sid t now = Inr (st', r)"
    using assms(2) by (rule mem.select_Inr)
  obtain old where "session_lookup K st' sid = Some old" "se_revoked old" using mem.rotate_old [OF assms(1) rot] by blast
  from revoked_stays [OF assms(3) this] have dead: "\<not> okE (check_live_session (session_lookup K T) sid now')" .
  have "se_user_sub r = se_user_sub s" "se_expires_at r = se_expires_at s" "se_idle_deadline r = se_idle_deadline s" "session_lookup K st' n = Some r"
    using mem.rotated_fields [OF assms(1) live rot] by simp_all
  moreover have "session_lookup K st sid = Some s" using live by (simp add: check_live_Inr)
  moreover have "authorize (session_lookup K st') members n now (py ''viewer'') None = Inr c"
    by (rule mem.select_then_authorize [OF assms(1,2)])
  ultimately show ?thesis
    using dead by (auto simp: okE_iff authorize_def select_tenant_def logout_def get_live_session_def result_simps)
qed

section \<open>Samples\<close>

definition plain_tokens :: token_env where
  "plain_tokens = \<lparr>tk_hash = id, tk_hmac = id\<rparr>"

definition sample_session :: session_record where
  "sample_session = \<lparr>se_session_id = py ''s1'', se_user_sub = py ''u1'', se_active_tenant_id = None, se_csrf_hash = [],
     se_expires_at = JInt 28800, se_idle_deadline = JInt 1800, se_revoked = False\<rparr>"

definition sample_sessions :: session_store where
  "sample_sessions = session_put plain_tokens sample_session (\<lambda>_. None)"

definition sample_member :: "pystr \<Rightarrow> membership_record" where
  "sample_member u = \<lparr>ms_tenant_id = py ''t1'', ms_user_sub = u, ms_role = py ''editor'', ms_status = py ''active''\<rparr>"

definition no_members :: membership_store where
  "no_members = \<lparr>mb_memberships = (\<lambda>_. None), mb_tenants = {}\<rparr>"

theorem foreign_tenants_are_hidden_witness:
  "\<exists>M N. tenant_exists M (py ''t1'') \<and> \<not> tenant_exists N (py ''t1'')
     \<and> select_tenant (session_lookup plain_tokens) (set_active_tenant plain_tokens (py ''s2'')) (membership_lookup M) sample_sessions (py ''s1'') (py ''t1'') (JInt 0) =
       select_tenant (session_lookup plain_tokens) (set_active_tenant plain_tokens (py ''s2'')) (membership_lookup N) sample_sessions (py ''s1'') (py ''t1'') (JInt 0)"
proof (intro exI conjI)
  let ?M = "membership_put (sample_member (py ''u2'')) no_members"
  show "tenant_exists ?M (py ''t1'')" "\<not> tenant_exists no_members (py ''t1'')"
    by (simp_all add: tenant_exists_def membership_put_def sample_member_def no_members_def)
  have "own_memberships ?M (se_user_sub s) = own_memberships no_members (se_user_sub s)"
    if "session_lookup plain_tokens sample_sessions (py ''s1'') = Some s" for s
  proof -
    have "se_user_sub s = py ''u1''"
      using that by (auto simp: session_lookup_def sample_sessions_def session_put_def plain_tokens_def stored_of_def from_record_def project_def sample_session_def)
    moreover have "py ''u1'' \<noteq> py ''u2''" by simp
    ultimately show ?thesis
      by (simp add: own_memberships_def membership_lookup_def membership_put_def sample_member_def no_members_def fun_eq_iff)
  qed
  then show "select_tenant (session_lookup plain_tokens) (set_active_tenant plain_tokens (py ''s2'')) (membership_lookup ?M) sample_sessions (py ''s1'') (py ''t1'') (JInt 0) =
       select_tenant (session_lookup plain_tokens) (set_active_tenant plain_tokens (py ''s2'')) (membership_lookup no_members) sample_sessions (py ''s1'') (py ''t1'') (JInt 0)"
    using foreign_tenants_are_hidden [of "session_lookup plain_tokens" sample_sessions "py ''s1''" ?M no_members] by blast
qed

theorem switched_session_replaces_old_witness:
  "\<exists>st' c. select_tenant (session_lookup plain_tokens) (set_active_tenant plain_tokens (py ''s2'')) (membership_lookup (membership_put (sample_member (py ''u1'')) no_members))
       sample_sessions (py ''s1'') (py ''t1'') (JInt 0) = Inr (st', c)
     \<and> authorize (session_lookup plain_tokens st') (membership_lookup (membership_put (sample_member (py ''u1'')) no_members)) (py ''s2'') (JInt 0) (py ''viewer'') None = Inr c
     \<and> \<not> okE (logout plain_tokens st' (py ''s1'') (JInt 0))"
proof -
  let ?members = "membership_lookup (membership_put (sample_member (py ''u1'')) no_members)"
  let ?s = "sample_session\<lparr>se_csrf_hash := py ''s1''\<rparr>"
  have fresh: "unused plain_tokens sample_sessions (py ''s2'')"
    by (simp add: unused_def sample_sessions_def session_put_def plain_tokens_def sample_session_def)
  have "session_lookup plain_tokens sample_sessions (py ''s1'') = Some ?s"
    by (simp add: session_lookup_def sample_sessions_def session_put_def plain_tokens_def stored_of_def from_record_def project_def sample_session_def)
  then have live: "check_live_session (session_lookup plain_tokens sample_sessions) (py ''s1'') (JInt 0) = Inr ?s"
    by (simp add: check_live_Inr sample_session_def reached_def)
  have member: "?members (py ''t1'') (se_user_sub ?s) = Some (sample_member (py ''u1''))" "ms_status (sample_member (py ''u1'')) = py ''active''"
    "mk_membership_record (sample_member (py ''u1'')) = Inr (sample_member (py ''u1''))"
    by (simp_all add: membership_lookup_def membership_put_def sample_member_def sample_session_def mk_membership_record_def ROLE_CAPABILITIES_def)
  from mem.select_succeeds [OF fresh live, where members = ?members, OF member(1,3,2)] obtain st' c
    where s: "select_tenant (session_lookup plain_tokens) (set_active_tenant plain_tokens (py ''s2'')) ?members sample_sessions (py ''s1'') (py ''t1'') (JInt 0) = Inr (st', c)"
    by blast
  from s switched_session_replaces_old [OF fresh s rtranclp.rtrancl_refl, where now' = "JInt 0"] show ?thesis by blast
qed

end
