(* ===== verification/Retention.thy ===== *)
theory Retention
  imports Audit_Log Growing_Store
begin

text \<open>
  Model of \<^verbatim>\<open>application/retention.py\<close> with the store of the synthetic deletion adapter: retention gates, verified deletion, and tombstones that
  outlive a restore of the data.

  The data database is the list of resource rows, the ledger the tombstones and the recorded attempts. A transaction that raises leaves the store as it was.
  The digest of a payload is the argument \<open>digest\<close>, a new deletion identifier the argument \<open>new_id\<close>, and \<open>faulty\<close> says for which targets the
  database raises on a delete. A manifest is kept as the value that its JSON text reads back as.
\<close>

section \<open>Records\<close>

definition RESOURCE_KINDS :: "pystr list" where
  "RESOURCE_KINDS = [py ''original'', py ''derived'', py ''search'', py ''cache'', py ''review'', py ''memory'', py ''export'', py ''backup'']"

definition valid_time :: "int \<Rightarrow> unit result" where
  "valid_time now = (if now < 0 then Inl (ValueError ''now must be non-negative'') else Inr ())"

record retention_policy =
  rt_tenant_id :: pystr
  rt_document_id :: pystr
  rt_policy_id :: pystr
  rt_approved :: bool
  rt_legal_hold :: bool
  rt_retain_until :: "int option"

definition mk_retention_policy :: "retention_policy \<Rightarrow> retention_policy result" where
  "mk_retention_policy p =
     bindE (check_uuid ''tenant_id'' (rt_tenant_id p)) (\<lambda>_.
     bindE (check_uuid ''document_id'' (rt_document_id p)) (\<lambda>_.
     if py_strip (rt_policy_id p) = [] then Inl (ValueError ''policy_id required'')
     else case rt_retain_until p of None \<Rightarrow> Inr p | Some t \<Rightarrow> bindE (valid_time t) (\<lambda>_. Inr p)))"

definition policy_blocks :: "retention_policy \<Rightarrow> int \<Rightarrow> bool" where
  "policy_blocks p now \<longleftrightarrow> \<not> rt_approved p \<or> rt_legal_hold p \<or> (case rt_retain_until p of None \<Rightarrow> False | Some t \<Rightarrow> now < t)"

record deletion_target =
  dt_document_version :: pystr
  dt_kind :: pystr
  dt_resource_id :: pystr
  dt_sha256 :: pystr

definition mk_deletion_target :: "deletion_target \<Rightarrow> deletion_target result" where
  "mk_deletion_target t =
     (if dt_kind t \<notin> set RESOURCE_KINDS then Inl (ValueError ''untracked resource kind'')
      else if dt_document_version t = [] \<or> dt_resource_id t = [] then Inl (ValueError ''resource identity required'')
      else if \<not> is_sha256 (dt_sha256 t) then Inl (ValueError ''resource hash required'')
      else Inr t)"

record deletion_manifest =
  dm_tenant_id :: pystr
  dm_document_id :: pystr
  dm_deletion_id :: pystr
  dm_requested_by :: pystr
  dm_requested_at :: int
  dm_targets :: "deletion_target list"

definition mk_deletion_manifest :: "deletion_manifest \<Rightarrow> deletion_manifest result" where
  "mk_deletion_manifest m =
     bindE (check_uuid ''tenant_id'' (dm_tenant_id m)) (\<lambda>_.
     bindE (check_uuid ''document_id'' (dm_document_id m)) (\<lambda>_.
     bindE (check_uuid ''deletion_id'' (dm_deletion_id m)) (\<lambda>_.
     bindE (valid_time (dm_requested_at m)) (\<lambda>_.
     if dm_requested_by m = [] then Inl (ValueError ''requested_by required'')
     else if py_duplicates (dm_targets m) then Inl (ValueError ''unique immutable targets required'')
     else Inr m))))"

record deletion_result =
  dr_status :: pystr
  dr_completed_at :: "int option"
  dr_deleted :: "deletion_target list"
  dr_remaining :: "deletion_target list"
  dr_policy_id :: pystr
  dr_error_codes :: "pystr list"

section \<open>The store\<close>

record resource_row =
  rr_tenant_id :: pystr
  rr_document_id :: pystr
  rr_document_version :: pystr
  rr_kind :: pystr
  rr_resource_id :: pystr
  rr_payload :: "nat list"
  rr_expires_at :: int

record deletion_store =
  sd_resources :: "resource_row list"
  sd_tombstones :: "deletion_manifest list"
  sd_attempts :: "(pystr \<times> pystr \<times> deletion_result) list"

definition find_tombstone :: "deletion_store \<Rightarrow> pystr \<Rightarrow> pystr \<Rightarrow> deletion_manifest option" where
  "find_tombstone D tenant document = find (\<lambda>m. dm_tenant_id m = tenant \<and> dm_document_id m = document) (sd_tombstones D)"

definition is_deleted :: "deletion_store \<Rightarrow> pystr \<Rightarrow> pystr \<Rightarrow> bool" where
  "is_deleted D tenant document \<longleftrightarrow> find_tombstone D tenant document \<noteq> None"

definition row_key :: "resource_row \<Rightarrow> pystr list" where
  "row_key r = [rr_tenant_id r, rr_document_id r, rr_document_version r, rr_kind r, rr_resource_id r]"

definition put_resource :: "(nat list \<Rightarrow> pystr) \<Rightarrow> deletion_store \<Rightarrow> resource_row \<Rightarrow> deletion_store result" where
  "put_resource digest D r =
     bindE (check_uuid ''tenant_id'' (rr_tenant_id r)) (\<lambda>_.
     bindE (check_uuid ''document_id'' (rr_document_id r)) (\<lambda>_.
     bindE (valid_time (rr_expires_at r)) (\<lambda>_.
     bindE (mk_deletion_target \<lparr>dt_document_version = rr_document_version r, dt_kind = rr_kind r, dt_resource_id = rr_resource_id r,
              dt_sha256 = digest (rr_payload r)\<rparr>) (\<lambda>_.
     if is_deleted D (rr_tenant_id r) (rr_document_id r) then Inl (ValueError ''document tombstone blocks writes'')
     else if row_key r \<in> row_key ` set (sd_resources D) then Inl (IntegrityError ''UNIQUE constraint failed'')
     else Inr (D\<lparr>sd_resources := sd_resources D @ [r]\<rparr>)))))"

definition read_resource :: "deletion_store \<Rightarrow> pystr \<Rightarrow> pystr \<Rightarrow> pystr \<Rightarrow> pystr \<Rightarrow> pystr \<Rightarrow> nat list result" where
  "read_resource D tenant document version kind resource_id =
     (if is_deleted D tenant document then Inl (KeyError ''resource not found'')
      else case find (\<lambda>r. row_key r = [tenant, document, version, kind, resource_id]) (sd_resources D) of
        None \<Rightarrow> Inl (KeyError ''resource not found'') | Some r \<Rightarrow> Inr (rr_payload r))"

definition of_document :: "pystr \<Rightarrow> pystr \<Rightarrow> resource_row \<Rightarrow> bool" where
  "of_document tenant document r \<longleftrightarrow> rr_tenant_id r = tenant \<and> rr_document_id r = document"

definition row_target :: "(nat list \<Rightarrow> pystr) \<Rightarrow> resource_row \<Rightarrow> deletion_target" where
  "row_target digest r = \<lparr>dt_document_version = rr_document_version r, dt_kind = rr_kind r, dt_resource_id = rr_resource_id r, dt_sha256 = digest (rr_payload r)\<rparr>"

definition inventory :: "(nat list \<Rightarrow> pystr) \<Rightarrow> deletion_store \<Rightarrow> pystr \<Rightarrow> pystr \<Rightarrow> deletion_target list result" where
  "inventory digest D tenant document =
     mapE (\<lambda>r. mk_deletion_target (row_target digest r)) (sort_key row_key (filter (of_document tenant document) (sd_resources D)))"

definition delete_row :: "(deletion_target \<Rightarrow> bool) \<Rightarrow> pystr \<Rightarrow> pystr \<Rightarrow> deletion_target \<Rightarrow> deletion_store \<Rightarrow> deletion_store option" where
  "delete_row faulty tenant document t D =
     (if faulty t then None
      else Some (D\<lparr>sd_resources := filter (\<lambda>r. row_key r \<noteq> [tenant, document, dt_document_version t, dt_kind t, dt_resource_id t]) (sd_resources D)\<rparr>))"

definition record_attempt :: "pystr \<Rightarrow> pystr \<Rightarrow> deletion_result \<Rightarrow> deletion_store \<Rightarrow> deletion_store" where
  "record_attempt tenant document res D = D\<lparr>sd_attempts := sd_attempts D @ [(tenant, document, res)]\<rparr>"

definition request_deletion :: "(nat list \<Rightarrow> pystr) \<Rightarrow> pystr \<Rightarrow> deletion_store \<Rightarrow> pystr \<Rightarrow> pystr \<Rightarrow> pystr \<Rightarrow> int \<Rightarrow> (deletion_store \<times> deletion_manifest) result" where
  "request_deletion digest new_id D tenant document requested_by now = (case find_tombstone D tenant document of
       Some m \<Rightarrow> Inr (D, m)
     | None \<Rightarrow>
         bindE (inventory digest D tenant document) (\<lambda>targets.
         bindE (mk_deletion_manifest \<lparr>dm_tenant_id = tenant, dm_document_id = document, dm_deletion_id = new_id, dm_requested_by = requested_by,
                  dm_requested_at = now, dm_targets = targets\<rparr>) (\<lambda>m.
         if dm_targets m = [] then Inl (KeyError ''resource not found'')
         else Inr (D\<lparr>sd_tombstones := sd_tombstones D @ [m]\<rparr>, m))))"

definition open_scope :: "deletion_store \<Rightarrow> deletion_manifest \<Rightarrow> unit result" where
  "open_scope D m = (if find_tombstone D (dm_tenant_id m) (dm_document_id m) \<noteq> Some m
     then Inl (ValueError ''unknown or altered deletion manifest'') else Inr ())"

definition tombstones :: "deletion_store \<Rightarrow> deletion_manifest list" where
  "tombstones D = sort_key (\<lambda>m. (dm_tenant_id m, dm_document_id m)) (sd_tombstones D)"

definition attempts_of :: "deletion_store \<Rightarrow> pystr \<Rightarrow> pystr \<Rightarrow> deletion_result list" where
  "attempts_of D tenant document = map (\<lambda>a. snd (snd a)) (filter (\<lambda>a. fst a = tenant \<and> fst (snd a) = document) (sd_attempts D))"

section \<open>Deletion\<close>

fun delete_targets :: "(deletion_target \<Rightarrow> bool) \<Rightarrow> pystr \<Rightarrow> pystr \<Rightarrow> deletion_target list \<Rightarrow> deletion_store \<Rightarrow> deletion_store \<times> pystr list" where
  "delete_targets faulty tenant document [] D = (D, [])"
| "delete_targets faulty tenant document (t # ts) D = (case delete_row faulty tenant document t D of
       None \<Rightarrow> (let (D', errors) = delete_targets faulty tenant document ts D in (D', py ''DELETE_FAILED'' # errors))
     | Some D' \<Rightarrow> delete_targets faulty tenant document ts D')"

definition deletion_status :: "bool \<Rightarrow> pystr list \<Rightarrow> deletion_target list \<Rightarrow> pystr" where
  "deletion_status blocked errors remaining =
     (if blocked then py ''blocked_retention'' else if errors \<noteq> [] then py ''failed'' else if remaining \<noteq> [] then py ''running'' else py ''completed'')"

definition delete_document_tree ::
  "(nat list \<Rightarrow> pystr) \<Rightarrow> (deletion_target \<Rightarrow> bool) \<Rightarrow> deletion_manifest \<Rightarrow> retention_policy \<Rightarrow> deletion_store \<Rightarrow> int \<Rightarrow> (deletion_store \<times> deletion_result) result" where
  "delete_document_tree digest faulty m p D now =
     bindE (valid_time now) (\<lambda>_.
     if (dm_tenant_id m, dm_document_id m) \<noteq> (rt_tenant_id p, rt_document_id p) then Inl (ValueError ''retention policy scope mismatch'')
     else bindE (open_scope D m) (\<lambda>_.
      bindE (inventory digest D (dm_tenant_id m) (dm_document_id m)) (\<lambda>targets.
      let blocked = policy_blocks p now;
          (D', errors) = (if blocked then (D, []) else delete_targets faulty (dm_tenant_id m) (dm_document_id m) targets D)
      in bindE (inventory digest D' (dm_tenant_id m) (dm_document_id m)) (\<lambda>remaining.
         let status = deletion_status blocked errors remaining;
             res = \<lparr>dr_status = status, dr_completed_at = (if status = py ''completed'' then Some now else None),
               dr_deleted = filter (\<lambda>t. t \<notin> set remaining) targets, dr_remaining = remaining, dr_policy_id = rt_policy_id p,
               dr_error_codes = py_sorted_set errors\<rparr>
         in Inr (record_attempt (dm_tenant_id m) (dm_document_id m) res D', res)))))"

definition unapproved_policy :: "deletion_manifest \<Rightarrow> retention_policy result" where
  "unapproved_policy m = mk_retention_policy \<lparr>rt_tenant_id = dm_tenant_id m, rt_document_id = dm_document_id m, rt_policy_id = py ''unapproved'',
     rt_approved = False, rt_legal_hold = False, rt_retain_until = None\<rparr>"

text \<open>One transaction for each tombstone; one that raises ends the loop, and what the earlier ones committed stays.\<close>

fun reapply_loop ::
  "(nat list \<Rightarrow> pystr) \<Rightarrow> (deletion_target \<Rightarrow> bool) \<Rightarrow> (pystr \<times> pystr \<rightharpoonup> retention_policy) \<Rightarrow> int \<Rightarrow> deletion_manifest list \<Rightarrow> deletion_store
    \<Rightarrow> deletion_store \<times> deletion_result list result" where
  "reapply_loop digest faulty policies now [] D = (D, Inr [])"
| "reapply_loop digest faulty policies now (m # ms) D =
     (case bindE (case policies (dm_tenant_id m, dm_document_id m) of Some p \<Rightarrow> Inr p | None \<Rightarrow> unapproved_policy m)
             (\<lambda>p. delete_document_tree digest faulty m p D now) of
        Inl e \<Rightarrow> (D, Inl e)
      | Inr (D', res) \<Rightarrow> (let (D'', rest) = reapply_loop digest faulty policies now ms D' in (D'', bindE rest (\<lambda>rs. Inr (res # rs)))))"

definition reapply_tombstones ::
  "(nat list \<Rightarrow> pystr) \<Rightarrow> (deletion_target \<Rightarrow> bool) \<Rightarrow> (pystr \<times> pystr \<rightharpoonup> retention_policy) \<Rightarrow> deletion_store \<Rightarrow> int
    \<Rightarrow> deletion_store \<times> deletion_result list result" where
  "reapply_tombstones digest faulty policies D now =
     (case valid_time now of Inl e \<Rightarrow> (D, Inl e) | Inr _ \<Rightarrow> reapply_loop digest faulty policies now (tombstones D) D)"

end
