(* ===== verification/Retention_Props.thy ===== *)
theory Retention_Props
  imports Retention Keyed_Lists
begin

text \<open>
  What deletion guarantees: the outcome of an attempt is exact (\<open>deletion_outcome_is_exact\<close>), a tombstone is final (\<open>tombstone_is_final\<close>), and replaying
  the tombstones after a restore of the data removes what the restore brought back (\<open>replay_removes_restored_data\<close>). The ledger is a \<open>growing_store\<close>.
\<close>

section \<open>Rows\<close>

definition row_ok :: "(nat list \<Rightarrow> pystr) \<Rightarrow> resource_row \<Rightarrow> bool" where
  "row_ok digest r \<longleftrightarrow> okE (mk_deletion_target (row_target digest r))"

definition doc_rows :: "deletion_store \<Rightarrow> pystr \<Rightarrow> pystr \<Rightarrow> resource_row list" where
  "doc_rows D t d = filter (of_document t d) (sd_resources D)"

lemma mk_target_id: "mk_deletion_target x = Inr y \<Longrightarrow> y = x"
  by (simp add: mk_deletion_target_def split: if_splits)

lemma mk_target_ok: "okE (mk_deletion_target x) \<Longrightarrow> mk_deletion_target x = Inr x"
  using mk_target_id by (auto simp: okE_iff)

lemma mapE_all: "mapE f xs = Inr ys \<Longrightarrow> x \<in> set xs \<Longrightarrow> okE (f x)"
  by (induction xs arbitrary: ys) (auto simp: bindE_Inr_iff)

lemma inventory_Inr:
  "inventory digest D t d = Inr ts \<longleftrightarrow> ts = map (row_target digest) (sort_key row_key (doc_rows D t d)) \<and> (\<forall>r\<in>set (doc_rows D t d). row_ok digest r)"
proof
  let ?rows = "sort_key row_key (doc_rows D t d)"
  assume i: "inventory digest D t d = Inr ts"
  then have a: "list_all2 (\<lambda>r y. mk_deletion_target (row_target digest r) = Inr y) ?rows ts"
    by (simp add: inventory_def doc_rows_def mapE_Inr_iff)
  then have "list_all2 (\<lambda>r y. row_target digest r = y) ?rows ts"
    by (rule list_all2_mono) (drule mk_target_id, simp)
  moreover have "\<forall>r\<in>set ?rows. row_ok digest r"
    using mapE_all [OF i [unfolded inventory_def doc_rows_def [symmetric]]] by (simp add: row_ok_def)
  ultimately show "ts = map (row_target digest) ?rows \<and> (\<forall>r\<in>set (doc_rows D t d). row_ok digest r)"
    by (simp add: list_all2_conv_all_nth list_eq_iff_nth_eq)
next
  assume "ts = map (row_target digest) (sort_key row_key (doc_rows D t d)) \<and> (\<forall>r\<in>set (doc_rows D t d). row_ok digest r)"
  then show "inventory digest D t d = Inr ts"
    unfolding inventory_def doc_rows_def [symmetric]
    using mk_target_ok by (auto simp: row_ok_def intro!: mapE_Inr_id)
qed

definition target_key :: "pystr \<Rightarrow> pystr \<Rightarrow> deletion_target \<Rightarrow> pystr list" where
  "target_key t d x = [t, d, dt_document_version x, dt_kind x, dt_resource_id x]"

lemma target_key_row: "of_document t d r \<Longrightarrow> target_key t d (row_target digest r) = row_key r"
  by (simp add: target_key_def row_target_def row_key_def of_document_def)

lemma key_document: "row_key r = target_key t d x \<Longrightarrow> of_document t d r"
  by (simp add: target_key_def row_key_def of_document_def)

lemma delete_targets_effect:
  "delete_targets faulty t d ts D =
     (D\<lparr>sd_resources := filter (\<lambda>r. \<forall>x\<in>set ts. faulty x \<or> row_key r \<noteq> target_key t d x) (sd_resources D)\<rparr>,
      replicate (length (filter faulty ts)) (py ''DELETE_FAILED''))"
  by (induction ts arbitrary: D)
    (auto simp: delete_row_def target_key_def split: prod.split intro!: filter_cong deletion_store.fold_congs)

section \<open>One attempt\<close>

text \<open>Whether a row survives an attempt, by the policy and the faults of the database.\<close>

definition spared :: "(nat list \<Rightarrow> pystr) \<Rightarrow> (deletion_target \<Rightarrow> bool) \<Rightarrow> bool \<Rightarrow> pystr \<Rightarrow> pystr \<Rightarrow> resource_row \<Rightarrow> bool" where
  "spared digest faulty blocked t d r \<longleftrightarrow> blocked \<or> \<not> of_document t d r \<or> faulty (row_target digest r)"

text \<open>A primary key: no two rows share one.\<close>

definition rows_keyed :: "deletion_store \<Rightarrow> bool" where
  "rows_keyed D \<longleftrightarrow> distinct (map row_key (sd_resources D))"

lemma keyed_inj: "rows_keyed D \<Longrightarrow> r \<in> set (sd_resources D) \<Longrightarrow> r' \<in> set (sd_resources D) \<Longrightarrow> row_key r = row_key r' \<Longrightarrow> r = r'"
  by (auto simp: rows_keyed_def distinct_map inj_on_def)

lemma spared_rows:
  assumes "rows_keyed D" "r \<in> set (sd_resources D)" "ts = map (row_target digest) (sort_key row_key (doc_rows D t d))"
  shows "(\<forall>x\<in>set ts. faulty x \<or> row_key r \<noteq> target_key t d x) \<longleftrightarrow> spared digest faulty False t d r"
proof -
  have "(\<forall>x\<in>set ts. faulty x \<or> row_key r \<noteq> target_key t d x) \<longleftrightarrow>
      (\<forall>r'\<in>set (doc_rows D t d). faulty (row_target digest r') \<or> row_key r \<noteq> row_key r')"
    by (auto simp: assms(3) doc_rows_def target_key_row)
  also have "\<dots> \<longleftrightarrow> spared digest faulty False t d r"
  proof (cases "of_document t d r")
    case True
    then show ?thesis using keyed_inj [OF assms(1,2)] assms(2) by (auto simp: doc_rows_def spared_def)
  next
    case False
    then have "row_key r \<noteq> row_key r'" if "r' \<in> set (doc_rows D t d)" for r'
      using that by (auto simp: doc_rows_def row_key_def of_document_def)
    with False show ?thesis by (auto simp: spared_def)
  qed
  finally show ?thesis .
qed

lemma delete_tree_Inr:
  assumes "delete_document_tree digest faulty m p D now = Inr (D', res)" "rows_keyed D"
  defines "t \<equiv> dm_tenant_id m" and "d \<equiv> dm_document_id m" and "b \<equiv> policy_blocks p now"
  shows "sd_resources D' = filter (spared digest faulty b t d) (sd_resources D)"
    and "sd_tombstones D' = sd_tombstones D" and "sd_attempts D' = sd_attempts D @ [(t, d, res)]"
    and "dr_status res = deletion_status b (if b then [] else replicate (length (filter faulty (map (row_target digest) (doc_rows D t d)))) (py ''DELETE_FAILED''))
      (dr_remaining res)"
    and "dr_remaining res = map (row_target digest) (sort_key row_key (doc_rows D' t d))"
    and "dr_completed_at res = (if dr_status res = py ''completed'' then Some now else None)"
    and "set (dr_deleted res) = row_target digest ` set (doc_rows D t d) - set (dr_remaining res)"
proof -
  define run where "run ts = (if b then (D, []) else delete_targets faulty t d ts D)" for ts
  obtain ts remaining where i: "inventory digest D t d = Inr ts" and j: "inventory digest (fst (run ts)) t d = Inr remaining"
    and D': "D' = record_attempt t d res (fst (run ts))"
    and res: "res = \<lparr>dr_status = deletion_status b (snd (run ts)) remaining,
      dr_completed_at = (if deletion_status b (snd (run ts)) remaining = py ''completed'' then Some now else None),
      dr_deleted = filter (\<lambda>x. x \<notin> set remaining) ts,
      dr_remaining = remaining, dr_policy_id = rt_policy_id p, dr_error_codes = py_sorted_set (snd (run ts))\<rparr>"
    using assms(1) unfolding delete_document_tree_def t_def [symmetric] d_def [symmetric] b_def [symmetric] run_def [symmetric] Let_def case_prod_unfold result_simps
    by (elim conjE exE) (use that in blast)
  have ts: "ts = map (row_target digest) (sort_key row_key (doc_rows D t d))" using i by (simp add: inventory_Inr)
  have "filter (\<lambda>r. \<forall>x\<in>set ts. faulty x \<or> row_key r \<noteq> target_key t d x) (sd_resources D) = filter (spared digest faulty False t d) (sd_resources D)"
    using spared_rows [OF assms(2) _ ts] by (intro filter_cong) auto
  then have e: "fst (run ts) = D\<lparr>sd_resources := filter (spared digest faulty b t d) (sd_resources D)\<rparr>"
    by (cases b) (simp_all add: run_def delete_targets_effect spared_def)
  show r: "sd_resources D' = filter (spared digest faulty b t d) (sd_resources D)" "sd_tombstones D' = sd_tombstones D"
    "sd_attempts D' = sd_attempts D @ [(t, d, res)]"
    by (simp_all add: D' e record_attempt_def)
  have rem: "dr_remaining res = remaining" "dr_deleted res = filter (\<lambda>x. x \<notin> set remaining) ts" by (simp_all add: res)
  have "remaining = map (row_target digest) (sort_key row_key (doc_rows D' t d))"
    using j unfolding e inventory_Inr by (simp add: doc_rows_def r)
  then show "dr_remaining res = map (row_target digest) (sort_key row_key (doc_rows D' t d))" by (simp add: rem)
  have "length (filter faulty ts) = length (filter faulty (map (row_target digest) (doc_rows D t d)))"
    by (simp add: ts filter_map filter_sort)
  then show "dr_status res = deletion_status b (if b then [] else replicate (length (filter faulty (map (row_target digest) (doc_rows D t d)))) (py ''DELETE_FAILED''))
      (dr_remaining res)"
    by (simp add: rem(1)) (simp add: res run_def delete_targets_effect)
  show "dr_completed_at res = (if dr_status res = py ''completed'' then Some now else None)" by (simp add: res)
  show "set (dr_deleted res) = row_target digest ` set (doc_rows D t d) - set (dr_remaining res)"
    unfolding rem ts by auto
qed

lemma rows_left:
  assumes "delete_document_tree digest faulty m p D now = Inr (D', res)" "rows_keyed D"
  shows "doc_rows D' (dm_tenant_id m) (dm_document_id m) =
    filter (\<lambda>r. policy_blocks p now \<or> faulty (row_target digest r)) (doc_rows D (dm_tenant_id m) (dm_document_id m))"
  unfolding doc_rows_def delete_tree_Inr(1) [OF assms] by (auto simp: spared_def conj_commute intro: filter_cong)

lemma completed_iff:
  assumes "delete_document_tree digest faulty m p D now = Inr (D', res)" "rows_keyed D"
  shows "dr_status res = py ''completed'' \<longleftrightarrow>
    \<not> policy_blocks p now \<and> (\<forall>r\<in>set (doc_rows D (dm_tenant_id m) (dm_document_id m)). \<not> faulty (row_target digest r))"
  unfolding delete_tree_Inr(4) [OF assms] delete_tree_Inr(5) [OF assms] rows_left [OF assms]
  by (auto simp: deletion_status_def filter_empty_conv)

text \<open>
  C20. The outcome of a deletion attempt is exact: it completes precisely when the policy does not block and no delete of the document fails, and then no row
  of the document is left and the time is recorded; under a policy that is unapproved, on hold or not yet expired nothing is removed and the status says so; rows of other
  documents and the tombstones stay, the attempt is recorded, and what is reported as deleted and as remaining is what was and what is in the store.
\<close>

theorem deletion_outcome_is_exact:
  assumes "delete_document_tree digest faulty m p D now = Inr (D', res)" "rows_keyed D"
  shows "(dr_status res = py ''completed'' \<longleftrightarrow> \<not> policy_blocks p now \<and> (\<forall>r\<in>set (doc_rows D (dm_tenant_id m) (dm_document_id m)). \<not> faulty (row_target digest r)))
    \<and> (dr_status res = py ''completed'' \<longrightarrow> doc_rows D' (dm_tenant_id m) (dm_document_id m) = [] \<and> dr_completed_at res = Some now)
    \<and> (policy_blocks p now \<longrightarrow> dr_status res = py ''blocked_retention'' \<and> sd_resources D' = sd_resources D)
    \<and> filter (\<lambda>r. \<not> of_document (dm_tenant_id m) (dm_document_id m) r) (sd_resources D') =
      filter (\<lambda>r. \<not> of_document (dm_tenant_id m) (dm_document_id m) r) (sd_resources D)
    \<and> sd_tombstones D' = sd_tombstones D \<and> sd_attempts D' = sd_attempts D @ [(dm_tenant_id m, dm_document_id m, res)]
    \<and> set (dr_remaining res) = row_target digest ` set (doc_rows D' (dm_tenant_id m) (dm_document_id m))
    \<and> set (dr_deleted res) = row_target digest ` set (doc_rows D (dm_tenant_id m) (dm_document_id m)) - set (dr_remaining res)"
proof -
  let ?t = "dm_tenant_id m" and ?d = "dm_document_id m" and ?b = "policy_blocks p now"
  note e = delete_tree_Inr [OF assms]
  note done_iff = completed_iff [OF assms]
  have "doc_rows D' ?t ?d = []" if "dr_status res = py ''completed''"
    using that done_iff unfolding rows_left [OF assms] by (simp add: filter_empty_conv)
  moreover have "filter (\<lambda>r. \<not> of_document ?t ?d r) (sd_resources D') = filter (\<lambda>r. \<not> of_document ?t ?d r) (sd_resources D)"
    unfolding e(1) by (auto simp: spared_def intro: filter_cong)
  moreover have "dr_status res = py ''blocked_retention'' \<and> sd_resources D' = sd_resources D" if ?b
    using that unfolding e(1,4) by (simp add: deletion_status_def spared_def)
  moreover have "set (dr_remaining res) = row_target digest ` set (doc_rows D' ?t ?d)" by (simp add: e(5))
  ultimately show ?thesis using e(2,3,6,7) done_iff by simp
qed

section \<open>The ledger\<close>

definition tombstone_key :: "deletion_manifest \<Rightarrow> pystr \<times> pystr" where
  "tombstone_key m = (dm_tenant_id m, dm_document_id m)"

definition ledger_good :: "(nat list \<Rightarrow> pystr) \<Rightarrow> deletion_store \<Rightarrow> bool" where
  "ledger_good digest D \<longleftrightarrow> rows_keyed D \<and> (\<forall>r\<in>set (sd_resources D). row_ok digest r) \<and> distinct (map tombstone_key (sd_tombstones D))"

definition ledger_le :: "deletion_store \<Rightarrow> deletion_store \<Rightarrow> bool" where
  "ledger_le D E \<longleftrightarrow> (\<exists>ms. sd_tombstones E = sd_tombstones D @ ms) \<and> (\<exists>as. sd_attempts E = sd_attempts D @ as)"

text \<open>Operations, and a restore of the data database, which may bring back any rows that the store could have held.\<close>

inductive deletion_step :: "(nat list \<Rightarrow> pystr) \<Rightarrow> deletion_store \<Rightarrow> deletion_store \<Rightarrow> bool" for digest where
  put: "put_resource digest D r = Inr D' \<Longrightarrow> deletion_step digest D D'"
| request: "request_deletion digest new_id D t d who now = Inr (D', m) \<Longrightarrow> deletion_step digest D D'"
| attempt: "delete_document_tree digest faulty m p D now = Inr (D', res) \<Longrightarrow> deletion_step digest D D'"
| restore: "distinct (map row_key rows) \<Longrightarrow> \<forall>r\<in>set rows. row_ok digest r \<Longrightarrow> deletion_step digest D (D\<lparr>sd_resources := rows\<rparr>)"

lemma put_Inr:
  "put_resource digest D r = Inr D' \<Longrightarrow> D' = D\<lparr>sd_resources := sd_resources D @ [r]\<rparr> \<and> row_ok digest r \<and> row_key r \<notin> row_key ` set (sd_resources D)
     \<and> \<not> is_deleted D (rr_tenant_id r) (rr_document_id r)"
  by (auto simp: put_resource_def row_ok_def row_target_def result_simps okE_iff)

lemma request_Inr:
  assumes "request_deletion digest new_id D t d who now = Inr (D', m)"
  shows "D' = D \<or> D' = D\<lparr>sd_tombstones := sd_tombstones D @ [m]\<rparr> \<and> tombstone_key m = (t, d) \<and> (t, d) \<notin> tombstone_key ` set (sd_tombstones D)"
proof (cases "find_tombstone D t d")
  case None
  then have "(t, d) \<notin> tombstone_key ` set (sd_tombstones D)"
    by (auto simp: find_tombstone_def find_None_iff tombstone_key_def)
  with None assms show ?thesis
    by (auto simp: request_deletion_def mk_deletion_manifest_def tombstone_key_def result_simps split: if_splits)
qed (use assms in \<open>auto simp: request_deletion_def\<close>)

lemma deletion_step_good_le:
  assumes "deletion_step digest D D'" "ledger_good digest D"
  shows "ledger_good digest D' \<and> ledger_le D D'"
  using assms
proof (induction rule: deletion_step.induct)
  case (put D r D')
  then show ?case using put_Inr [OF put(1)] by (auto simp: ledger_good_def ledger_le_def rows_keyed_def)
next
  case (request new_id D t d who now D' m)
  then show ?case using request_Inr [OF request(1)] by (auto simp: ledger_good_def ledger_le_def rows_keyed_def)
next
  case (attempt faulty m p D now D' res)
  then have "rows_keyed D" by (simp add: ledger_good_def)
  note e = delete_tree_Inr [OF attempt(1) this]
  show ?case
    using attempt(2) e(1-3) by (auto simp: ledger_good_def ledger_le_def rows_keyed_def distinct_map_filter)
next
  case (restore rows D)
  then show ?case by (auto simp: ledger_good_def ledger_le_def rows_keyed_def)
qed

interpretation ledger: growing_store "deletion_step digest" "ledger_good digest" ledger_le for digest
proof
  show "ledger_le D D" for D by (simp add: ledger_le_def)
  show "ledger_le D F" if "ledger_le D E" "ledger_le E F" for D E F using that by (auto simp: ledger_le_def)
qed (use deletion_step_good_le in auto)

definition empty_store :: deletion_store where
  "empty_store = \<lparr>sd_resources = [], sd_tombstones = [], sd_attempts = []\<rparr>"

lemma empty_store_good: "ledger_good digest empty_store"
  by (simp add: ledger_good_def empty_store_def rows_keyed_def)

text \<open>
  C29. A tombstone is final: in every later state of the store, after any writes, requests, attempts and restores of the data, the document's manifest is the
  same, every read of the document raises not found, every write to it is refused, and no recorded attempt is lost.
\<close>

theorem tombstone_is_final:
  assumes "(deletion_step digest)\<^sup>*\<^sup>* empty_store D" "find_tombstone D t d = Some m" "(deletion_step digest)\<^sup>*\<^sup>* D E"
  shows "find_tombstone E t d = Some m \<and> read_resource E t d version kind i = Inl (KeyError ''resource not found'')
    \<and> \<not> okE (put_resource digest E \<lparr>rr_tenant_id = t, rr_document_id = d, rr_document_version = version, rr_kind = kind, rr_resource_id = i,
         rr_payload = bytes, rr_expires_at = x\<rparr>)
    \<and> (\<exists>as. attempts_of E t d = attempts_of D t d @ as)"
proof -
  have "ledger_good digest D" using ledger.steps_good [OF assms(1) empty_store_good] .
  then have le: "ledger_le D E" using ledger.steps_le [OF assms(3)] by blast
  then have f: "find_tombstone E t d = Some m"
    using assms(2) by (auto simp: ledger_le_def find_tombstone_def find_append_Some)
  then have "is_deleted E t d" by (simp add: is_deleted_def)
  then have "\<not> okE (put_resource digest E \<lparr>rr_tenant_id = t, rr_document_id = d, rr_document_version = version, rr_kind = kind, rr_resource_id = i,
       rr_payload = bytes, rr_expires_at = x\<rparr>)" "read_resource E t d version kind i = Inl (KeyError ''resource not found'')"
    by (auto simp: okE_iff read_resource_def dest: put_Inr)
  with f le show ?thesis by (auto simp: ledger_le_def attempts_of_def)
qed

section \<open>Replaying the tombstones\<close>

definition releases :: "retention_policy \<Rightarrow> deletion_manifest \<Rightarrow> int \<Rightarrow> bool" where
  "releases p m now \<longleftrightarrow> rt_tenant_id p = dm_tenant_id m \<and> rt_document_id p = dm_document_id m \<and> \<not> policy_blocks p now"

lemma tombstone_found: "ledger_good digest D \<Longrightarrow> m \<in> set (sd_tombstones D) \<Longrightarrow> find_tombstone D (dm_tenant_id m) (dm_document_id m) = Some m"
  using find_key [of tombstone_key "sd_tombstones D" "tombstone_key m" m]
  by (simp add: ledger_good_def find_tombstone_def tombstone_key_def)

lemma inventory_ok: "\<forall>r\<in>set (sd_resources D). row_ok digest r \<Longrightarrow> \<exists>ts. inventory digest D t d = Inr ts"
  by (simp add: inventory_Inr doc_rows_def)

lemma delete_succeeds:
  assumes "ledger_good digest D" "m \<in> set (sd_tombstones D)" "releases p m now" "0 \<le> now"
  shows "\<exists>D' res. delete_document_tree digest (\<lambda>_. False) m p D now = Inr (D', res)"
proof -
  have rows: "\<forall>r\<in>set (sd_resources D). row_ok digest r" using assms(1) by (simp add: ledger_good_def)
  then obtain ts where ts: "inventory digest D (dm_tenant_id m) (dm_document_id m) = Inr ts" using inventory_ok by blast
  have "\<exists>rs. inventory digest (D\<lparr>sd_resources := filter P (sd_resources D)\<rparr>) (dm_tenant_id m) (dm_document_id m) = Inr rs" for P
    using rows by (intro inventory_ok) simp
  then obtain f where "inventory digest (D\<lparr>sd_resources := filter P (sd_resources D)\<rparr>) (dm_tenant_id m) (dm_document_id m) = Inr (f P)" for P
    by metis
  with ts tombstone_found [OF assms(1,2)] assms(3,4) show ?thesis
    by (simp add: delete_document_tree_def valid_time_def open_scope_def releases_def delete_targets_effect Let_def)
qed

lemma delete_once:
  assumes "ledger_good digest D" "m \<in> set (sd_tombstones D)" "releases p m now" "0 \<le> now"
  obtains D' res where "delete_document_tree digest (\<lambda>_. False) m p D now = Inr (D', res)" "dr_status res = py ''completed''" "ledger_good digest D'"
    "sd_tombstones D' = sd_tombstones D" "sd_resources D' = filter (\<lambda>r. \<not> of_document (dm_tenant_id m) (dm_document_id m) r) (sd_resources D)"
proof -
  obtain D' res where r: "delete_document_tree digest (\<lambda>_. False) m p D now = Inr (D', res)" using delete_succeeds [OF assms] by blast
  have k: "rows_keyed D" using assms(1) by (simp add: ledger_good_def)
  have "dr_status res = py ''completed''" using completed_iff [OF r k] assms(3) by (simp add: releases_def)
  moreover have "ledger_good digest D'" using deletion_step_good_le [OF deletion_step.attempt [OF r] assms(1)] by blast
  moreover have "sd_resources D' = filter (\<lambda>r. \<not> of_document (dm_tenant_id m) (dm_document_id m) r) (sd_resources D)"
    using assms(3) unfolding delete_tree_Inr(1) [OF r k] by (intro filter_cong) (simp_all add: spared_def releases_def)
  ultimately show ?thesis using that r delete_tree_Inr(2) [OF r k] by blast
qed

lemma reapply_loop_completes:
  assumes "ledger_good digest D" "set ms \<subseteq> set (sd_tombstones D)" "0 \<le> now"
    "\<forall>m\<in>set ms. \<exists>p. policies (dm_tenant_id m, dm_document_id m) = Some p \<and> releases p m now"
  shows "\<exists>E rs. reapply_loop digest (\<lambda>_. False) policies now ms D = (E, Inr rs) \<and> length rs = length ms \<and> (\<forall>res\<in>set rs. dr_status res = py ''completed'')
    \<and> sd_resources E = filter (\<lambda>r. \<forall>m\<in>set ms. \<not> of_document (dm_tenant_id m) (dm_document_id m) r) (sd_resources D)"
  using assms
proof (induction ms arbitrary: D)
  case (Cons m ms)
  obtain p where p: "policies (dm_tenant_id m, dm_document_id m) = Some p" "releases p m now" using Cons.prems(4) by auto
  have "m \<in> set (sd_tombstones D)" using Cons.prems(2) by simp
  from delete_once [OF Cons.prems(1) this p(2) Cons.prems(3)] obtain D' res where
    r: "delete_document_tree digest (\<lambda>_. False) m p D now = Inr (D', res)" "dr_status res = py ''completed''" "ledger_good digest D'"
    "sd_tombstones D' = sd_tombstones D" "sd_resources D' = filter (\<lambda>r. \<not> of_document (dm_tenant_id m) (dm_document_id m) r) (sd_resources D)" .
  from Cons.IH [OF r(3)] Cons.prems r(4) obtain E rs where
    "reapply_loop digest (\<lambda>_. False) policies now ms D' = (E, Inr rs)" "length rs = length ms" "\<forall>res\<in>set rs. dr_status res = py ''completed''"
    "sd_resources E = filter (\<lambda>r. \<forall>m\<in>set ms. \<not> of_document (dm_tenant_id m) (dm_document_id m) r) (sd_resources D')"
    by auto
  with p r show ?case by (auto simp: conj_commute)
qed simp

text \<open>
  C26. Replaying the tombstones undoes a restore: from every state the store can reach, restored data included, with a releasing policy for each tombstone and a
  database that does not fail, the replay returns one completed result for each tombstone, no row of a deleted document is left, and the rows of all
  other documents are.
\<close>

theorem replay_removes_restored_data:
  assumes "(deletion_step digest)\<^sup>*\<^sup>* empty_store D" "0 \<le> now"
    "\<forall>m\<in>set (sd_tombstones D). \<exists>p. policies (dm_tenant_id m, dm_document_id m) = Some p \<and> releases p m now"
  shows "\<exists>E rs. reapply_tombstones digest (\<lambda>_. False) policies D now = (E, Inr rs) \<and> length rs = length (sd_tombstones D)
    \<and> (\<forall>res\<in>set rs. dr_status res = py ''completed'')
    \<and> sd_resources E = filter (\<lambda>r. \<not> is_deleted D (rr_tenant_id r) (rr_document_id r)) (sd_resources D)"
proof -
  have good: "ledger_good digest D" using ledger.steps_good [OF assms(1) empty_store_good] .
  have "is_deleted D (rr_tenant_id r) (rr_document_id r) \<longleftrightarrow> (\<exists>m\<in>set (sd_tombstones D). of_document (dm_tenant_id m) (dm_document_id m) r)" for r
    by (simp add: is_deleted_def find_tombstone_def of_document_def find_None_iff) metis
  then have rows: "filter (\<lambda>r. \<not> is_deleted D (rr_tenant_id r) (rr_document_id r)) (sd_resources D) =
      filter (\<lambda>r. \<forall>m\<in>set (sd_tombstones D). \<not> of_document (dm_tenant_id m) (dm_document_id m) r) (sd_resources D)" by simp
  have "set (tombstones D) = set (sd_tombstones D)" "length (tombstones D) = length (sd_tombstones D)" by (simp_all add: tombstones_def)
  with reapply_loop_completes [OF good, of "tombstones D" now policies] assms(2,3) show ?thesis
    unfolding rows by (auto simp: reapply_tombstones_def valid_time_def)
qed

section \<open>Samples\<close>

definition sample_row :: resource_row where
  "sample_row = \<lparr>rr_tenant_id = uuid_of 1, rr_document_id = uuid_of 2, rr_document_version = py ''v1'', rr_kind = py ''original'',
     rr_resource_id = py ''r1'', rr_payload = [1], rr_expires_at = 0\<rparr>"

definition sample_tombstone :: deletion_manifest where
  "sample_tombstone = \<lparr>dm_tenant_id = uuid_of 1, dm_document_id = uuid_of 2, dm_deletion_id = uuid_of 3, dm_requested_by = py ''owner'', dm_requested_at = 5,
     dm_targets = [row_target (\<lambda>_. hex64) sample_row]\<rparr>"

definition sample_release :: retention_policy where
  "sample_release = \<lparr>rt_tenant_id = uuid_of 1, rt_document_id = uuid_of 2, rt_policy_id = py ''p1'', rt_approved = True, rt_legal_hold = False,
     rt_retain_until = Some 10\<rparr>"

definition marked_store :: deletion_store where
  "marked_store = \<lparr>sd_resources = [sample_row], sd_tombstones = [sample_tombstone], sd_attempts = []\<rparr>"

lemma sample_target: "mk_deletion_target (row_target (\<lambda>_. hex64) sample_row) = Inr (row_target (\<lambda>_. hex64) sample_row)"
  using sample_uuids(2) by (simp add: mk_deletion_target_def row_target_def sample_row_def RESOURCE_KINDS_def)

lemma marked_store_reached: "(deletion_step (\<lambda>_. hex64))\<^sup>*\<^sup>* empty_store marked_store"
proof -
  let ?one = "empty_store\<lparr>sd_resources := [sample_row]\<rparr>"
  have ids: "check_uuid name (uuid_of 1) = Inr ()" "check_uuid name (uuid_of 2) = Inr ()" "check_uuid name (uuid_of 3) = Inr ()" for name
    by (simp_all add: check_uuid_def sample_uuids(1) del: One_nat_def)
  have "put_resource (\<lambda>_. hex64) empty_store sample_row = Inr ?one"
    using sample_target ids by (simp add: put_resource_def row_target_def valid_time_def is_deleted_def find_tombstone_def empty_store_def del: One_nat_def)
      (simp add: sample_row_def del: One_nat_def)
  moreover have "inventory (\<lambda>_. hex64) ?one (uuid_of 1) (uuid_of 2) = Inr [row_target (\<lambda>_. hex64) sample_row]"
    using sample_target by (simp add: inventory_def of_document_def) (simp add: sample_row_def)
  then have "request_deletion (\<lambda>_. hex64) (uuid_of 3) ?one (uuid_of 1) (uuid_of 2) (py ''owner'') 5 = Inr (marked_store, sample_tombstone)"
    using ids by (simp add: request_deletion_def find_tombstone_def empty_store_def mk_deletion_manifest_def valid_time_def py_duplicates_iff
        marked_store_def sample_tombstone_def del: One_nat_def)
  ultimately show ?thesis
    by (meson deletion_step.put deletion_step.request converse_rtranclp_into_rtranclp r_into_rtranclp)
qed

lemma marked_store_good: "ledger_good (\<lambda>_. hex64) marked_store" "sample_tombstone \<in> set (sd_tombstones marked_store)" "releases sample_release sample_tombstone 20"
  using ledger.steps_good [OF marked_store_reached empty_store_good]
  by (simp_all add: marked_store_def releases_def sample_release_def sample_tombstone_def policy_blocks_def)

theorem deletion_outcome_is_exact_witness:
  "\<exists>D' res. delete_document_tree (\<lambda>_. hex64) (\<lambda>_. False) sample_tombstone sample_release marked_store 20 = Inr (D', res)
     \<and> dr_status res = py ''completed'' \<and> doc_rows D' (uuid_of 1) (uuid_of 2) = []"
proof -
  obtain D' res where r: "delete_document_tree (\<lambda>_. hex64) (\<lambda>_. False) sample_tombstone sample_release marked_store 20 = Inr (D', res)"
    using delete_succeeds [OF marked_store_good] by auto
  have k: "rows_keyed marked_store" using marked_store_good(1) by (simp add: ledger_good_def)
  have id: "dm_tenant_id sample_tombstone = uuid_of 1" "dm_document_id sample_tombstone = uuid_of 2" by (simp_all add: sample_tombstone_def)
  have "\<not> policy_blocks sample_release 20" using marked_store_good(3) by (simp add: releases_def)
  with r deletion_outcome_is_exact [OF r k] id show ?thesis by metis
qed

theorem tombstone_is_final_witness:
  "\<exists>D. find_tombstone D (uuid_of 1) (uuid_of 2) = Some sample_tombstone
     \<and> read_resource D (uuid_of 1) (uuid_of 2) (py ''v1'') (py ''original'') (py ''r1'') = Inl (KeyError ''resource not found'')"
proof -
  have f: "find_tombstone marked_store (uuid_of 1) (uuid_of 2) = Some sample_tombstone" by (simp add: find_tombstone_def marked_store_def sample_tombstone_def)
  with tombstone_is_final [OF marked_store_reached f rtranclp.rtrancl_refl] show ?thesis by blast
qed

theorem replay_removes_restored_data_witness:
  "\<exists>E rs. reapply_tombstones (\<lambda>_. hex64) (\<lambda>_. False) (\<lambda>_. Some sample_release) marked_store 20 = (E, Inr rs) \<and> length rs = 1 \<and> sd_resources E = []"
proof -
  have "\<forall>m\<in>set (sd_tombstones marked_store). \<exists>p. (\<lambda>_. Some sample_release) (dm_tenant_id m, dm_document_id m) = Some p \<and> releases p m 20"
    using marked_store_good(3) by (simp add: marked_store_def)
  from replay_removes_restored_data [OF marked_store_reached _ this] obtain E rs where
    e: "reapply_tombstones (\<lambda>_. hex64) (\<lambda>_. False) (\<lambda>_. Some sample_release) marked_store 20 = (E, Inr rs)" "length rs = length (sd_tombstones marked_store)"
    "sd_resources E = filter (\<lambda>r. \<not> is_deleted marked_store (rr_tenant_id r) (rr_document_id r)) (sd_resources marked_store)"
    by auto
  moreover have "length (sd_tombstones marked_store) = 1" "is_deleted marked_store (rr_tenant_id sample_row) (rr_document_id sample_row)"
    by (simp_all add: marked_store_def is_deleted_def find_tombstone_def sample_tombstone_def sample_row_def)
  moreover have "sd_resources marked_store = [sample_row]" by (simp add: marked_store_def)
  ultimately show ?thesis by auto
qed

end
