(* ===== verification/Comparisons.thy ===== *)
theory Comparisons
  imports Audit_Log
begin

text \<open>
  Model of \<^verbatim>\<open>application/comparisons.py\<close> and \<^verbatim>\<open>application/claim_scope.py\<close>: the candidates for changed targets between two approved versions of a report,
  and the pages in which claims are looked for.

  \<open>comparison_matches_reference\<close> says that the two loops over grouped targets report exactly the changes of a declarative reference, each once, and
  that grades play no part; \<open>claim_scope_never_widens\<close> that the frozen limits only narrow the selected pages.
\<close>

section \<open>Versions\<close>

record target_snapshot =
  ts_claim_id :: pystr
  ts_comparison_key :: pystr
  ts_content_sha256 :: pystr
  ts_decision_revision :: int
  ts_evidence_grade :: "pystr option"

definition mk_target_snapshot :: "target_snapshot \<Rightarrow> target_snapshot result" where
  "mk_target_snapshot t =
     bindE (check_uuid ''claim_id'' (ts_claim_id t)) (\<lambda>_.
     if py_strip (ts_comparison_key t) = [] then Inl (ValueError ''comparison_key must be non-empty text'')
     else bindE (check_sha256 ''content_sha256'' (ts_content_sha256 t)) (\<lambda>_.
     if ts_decision_revision t < 1 then Inl (ValueError ''decision_revision must be positive'')
     else if ts_evidence_grade t \<notin> {None, Some (py ''E0''), Some (py ''E1''), Some (py ''E2''), Some (py ''E3'')} then Inl (ValueError ''invalid evidence_grade'')
     else Inr t))"

record approved_version =
  av_tenant_id :: pystr
  av_company_id :: pystr
  av_document_version_id :: pystr
  av_report_year :: int
  av_approved :: bool
  av_targets :: "target_snapshot list"

definition mk_approved_version :: "approved_version \<Rightarrow> approved_version result" where
  "mk_approved_version v =
     bindE (check_uuid ''tenant_id'' (av_tenant_id v)) (\<lambda>_.
     bindE (check_uuid ''company_id'' (av_company_id v)) (\<lambda>_.
     bindE (check_uuid ''document_version_id'' (av_document_version_id v)) (\<lambda>_.
     if \<not> (1900 \<le> av_report_year v \<and> av_report_year v \<le> 2200) then Inl (ValueError ''report_year is outside the supported range'')
     else if py_duplicates (map ts_claim_id (av_targets v)) then Inl (ValueError ''claim_id must be unique within a version'')
     else Inr v)))"

datatype change_type = Modified | Removed_candidate | New | Ambiguous

record comparison_change =
  cc_current_claim_id :: "pystr option"
  cc_prior_claim_id :: "pystr option"
  cc_type :: change_type
  cc_reason :: string

record comparison =
  cmp_comparison_id :: pystr
  cmp_status :: pystr
  cmp_reason :: "string option"
  cmp_changes :: "comparison_change list"

section \<open>Comparing\<close>

text \<open>\<^verbatim>\<open>_by_key(targets).get(key, ())\<close> and the sorted keys.\<close>

definition by_key :: "target_snapshot list \<Rightarrow> pystr \<Rightarrow> target_snapshot list" where
  "by_key targets key = filter (\<lambda>t. ts_comparison_key t = key) targets"

definition keys_of :: "target_snapshot list \<Rightarrow> pystr list" where
  "keys_of targets = py_sorted_set (map ts_comparison_key targets)"

definition ambiguous_current :: "target_snapshot \<Rightarrow> comparison_change" where
  "ambiguous_current t = \<lparr>cc_current_claim_id = Some (ts_claim_id t), cc_prior_claim_id = None, cc_type = Ambiguous, cc_reason = ''comparison_key_not_unique''\<rparr>"

definition ambiguous_prior :: "target_snapshot \<Rightarrow> comparison_change" where
  "ambiguous_prior t = \<lparr>cc_current_claim_id = None, cc_prior_claim_id = Some (ts_claim_id t), cc_type = Ambiguous, cc_reason = ''comparison_key_not_unique''\<rparr>"

definition new_target :: "target_snapshot \<Rightarrow> comparison_change" where
  "new_target t = \<lparr>cc_current_claim_id = Some (ts_claim_id t), cc_prior_claim_id = None, cc_type = New, cc_reason = ''target_new_in_current_version''\<rparr>"

definition modified_target :: "target_snapshot \<Rightarrow> target_snapshot \<Rightarrow> comparison_change" where
  "modified_target t u = \<lparr>cc_current_claim_id = Some (ts_claim_id t), cc_prior_claim_id = Some (ts_claim_id u), cc_type = Modified,
     cc_reason = ''target_content_changed''\<rparr>"

definition removed_target :: "target_snapshot \<Rightarrow> comparison_change" where
  "removed_target u = \<lparr>cc_current_claim_id = None, cc_prior_claim_id = Some (ts_claim_id u), cc_type = Removed_candidate,
     cc_reason = ''target_missing_from_current_version''\<rparr>"

definition current_changes :: "target_snapshot list \<Rightarrow> target_snapshot list \<Rightarrow> comparison_change list" where
  "current_changes cs ps =
     (if length cs > 1 \<or> length ps > 1 then map ambiguous_current cs @ map ambiguous_prior ps
      else if ps = [] then [new_target (hd cs)]
      else if ts_content_sha256 (hd cs) \<noteq> ts_content_sha256 (hd ps) then [modified_target (hd cs) (hd ps)] else [])"

definition prior_changes :: "target_snapshot list \<Rightarrow> comparison_change list" where
  "prior_changes ps = (if length ps > 1 then map ambiguous_prior ps else [removed_target (hd ps)])"

definition changes_between :: "target_snapshot list \<Rightarrow> target_snapshot list \<Rightarrow> comparison_change list" where
  "changes_between current prior =
     concat (map (\<lambda>k. current_changes (by_key current k) (by_key prior k)) (keys_of current))
     @ concat (map (\<lambda>k. prior_changes (by_key prior k)) (filter (\<lambda>k. k \<notin> set (keys_of current)) (keys_of prior)))"

definition compare_years :: "approved_version \<Rightarrow> approved_version option \<Rightarrow> pystr \<Rightarrow> comparison result" where
  "compare_years current prior comparison_id =
     bindE (check_uuid ''comparison_id'' comparison_id) (\<lambda>_.
     if \<not> av_approved current \<or> (case prior of None \<Rightarrow> False | Some p \<Rightarrow> \<not> av_approved p) then Inl (ValueError ''approved versions are required'')
     else case prior of
       None \<Rightarrow> Inr \<lparr>cmp_comparison_id = comparison_id, cmp_status = py ''not_run'', cmp_reason = Some ''prior_document_version_missing'', cmp_changes = []\<rparr>
     | Some p \<Rightarrow>
         if (av_tenant_id current, av_company_id current) \<noteq> (av_tenant_id p, av_company_id p) then Inl (ValueError ''version identity mismatch'')
         else if av_report_year current \<noteq> av_report_year p + 1
         then Inr \<lparr>cmp_comparison_id = comparison_id, cmp_status = py ''not_run'', cmp_reason = Some ''prior_document_version_not_previous_year'', cmp_changes = []\<rparr>
         else Inr \<lparr>cmp_comparison_id = comparison_id, cmp_status = py ''completed'', cmp_reason = None,
                   cmp_changes = changes_between (av_targets current) (av_targets p)\<rparr>)"

section \<open>The pages of claim discovery\<close>

definition MAX_EXTRACTION_BATCH_CALLS :: int where
  "MAX_EXTRACTION_BATCH_CALLS = 256"

definition int_within :: "json option \<Rightarrow> int \<Rightarrow> int \<Rightarrow> bool" where
  "int_within v lo hi = (case v of Some (JInt i) \<Rightarrow> lo \<le> i \<and> i \<le> hi | _ \<Rightarrow> False)"

fun page_numbers :: "json list \<Rightarrow> int list option" where
  "page_numbers [] = Some []"
| "page_numbers (JInt i # xs) = (if i < 1 then None else map_option ((#) i) (page_numbers xs))"
| "page_numbers (_ # xs) = None"

definition claim_pages :: "(pystr \<times> json) list \<Rightarrow> int list \<Rightarrow> int list option" where
  "claim_pages d selected = (case map_of d (py ''claim_pages'') of
       Some (JList xs) \<Rightarrow> (case page_numbers xs of None \<Rightarrow> None
         | Some pages \<Rightarrow> if pages = [] \<or> py_sorted_set pages \<noteq> pages \<or> \<not> set pages \<subseteq> set selected then None else Some pages)
     | _ \<Rightarrow> None)"

definition validate_extraction_limits :: "json \<Rightarrow> int list \<Rightarrow> unit result" where
  "validate_extraction_limits limits selected = (case limits of
       JObj d \<Rightarrow>
         (if fst ` set d \<notin> {{py ''max_calls'', py ''max_output_tokens''}, {py ''max_calls'', py ''max_output_tokens'', py ''claim_pages''}}
             \<or> \<not> int_within (map_of d (py ''max_calls'')) 1 MAX_EXTRACTION_BATCH_CALLS \<or> \<not> int_within (map_of d (py ''max_output_tokens'')) 1 1024
          then Inl (ValueError ''EXTRACTION_LIMITS_INVALID'')
          else if map_of d (py ''claim_pages'') \<noteq> None \<and> claim_pages d selected = None then Inl (ValueError ''EXTRACTION_LIMITS_INVALID'')
          else Inr ())
     | _ \<Rightarrow> Inl (ValueError ''EXTRACTION_LIMITS_INVALID''))"

definition claim_pages_for :: "json \<Rightarrow> int list \<Rightarrow> int list result" where
  "claim_pages_for limits selected =
     (if limits = JNull then Inr selected
      else bindE (validate_extraction_limits limits selected) (\<lambda>_.
        case limits of JObj d \<Rightarrow> Inr (case claim_pages d selected of Some pages \<Rightarrow> pages | None \<Rightarrow> selected) | _ \<Rightarrow> Inr selected))"

text \<open>
  The pages in which claims are looked for are selected pages: limits that are accepted never widen the scope, and where they name pages the result is
  non-empty, ascending and without repetition.
\<close>

theorem claim_scope_never_widens:
  assumes "claim_pages_for limits selected = Inr pages"
  shows "set pages \<subseteq> set selected \<and> (pages = selected \<or> pages \<noteq> [] \<and> sorted pages \<and> distinct pages)"
proof -
  have "set ps \<subseteq> set selected \<and> ps \<noteq> [] \<and> sorted ps \<and> distinct ps" if "claim_pages d selected = Some ps" for d ps
  proof -
    have "py_sorted_set ps = ps" "set ps \<subseteq> set selected" "ps \<noteq> []"
      using that by (auto simp: claim_pages_def split: option.splits json.splits if_splits)
    then show ?thesis by (metis distinct_py_sorted_set sorted_py_sorted_set)
  qed
  then show ?thesis
    using assms by (auto simp: claim_pages_for_def result_simps split: if_splits json.splits option.splits)
qed

theorem claim_scope_never_widens_witness:
  "\<exists>pages. claim_pages_for (JObj [(py ''max_calls'', JInt 1), (py ''max_output_tokens'', JInt 10), (py ''claim_pages'', JList [JInt 2])]) [1, 2, 3] = Inr pages
     \<and> set pages \<subseteq> {1, 2, 3}"
proof -
  have r: "claim_pages_for (JObj [(py ''max_calls'', JInt 1), (py ''max_output_tokens'', JInt 10), (py ''claim_pages'', JList [JInt 2])]) [1, 2, 3] = Inr [2]"
    by (simp add: claim_pages_for_def validate_extraction_limits_def int_within_def MAX_EXTRACTION_BATCH_CALLS_def claim_pages_def py_sorted_set_def)
  from claim_scope_never_widens [OF this] r show ?thesis by auto
qed

section \<open>The reference\<close>

text \<open>A key that does not identify a target in one of the versions.\<close>

definition crowded :: "target_snapshot list \<Rightarrow> target_snapshot list \<Rightarrow> pystr \<Rightarrow> bool" where
  "crowded C P k \<longleftrightarrow> length (by_key C k) > 1 \<or> length (by_key P k) > 1"

definition change_holds :: "target_snapshot list \<Rightarrow> target_snapshot list \<Rightarrow> comparison_change \<Rightarrow> bool" where
  "change_holds C P ch \<longleftrightarrow>
     (\<exists>t\<in>set C. crowded C P (ts_comparison_key t) \<and> ch = ambiguous_current t)
   \<or> (\<exists>u\<in>set P. crowded C P (ts_comparison_key u) \<and> ch = ambiguous_prior u)
   \<or> (\<exists>t\<in>set C. \<not> crowded C P (ts_comparison_key t) \<and> ts_comparison_key t \<notin> ts_comparison_key ` set P \<and> ch = new_target t)
   \<or> (\<exists>u\<in>set P. \<not> crowded C P (ts_comparison_key u) \<and> ts_comparison_key u \<notin> ts_comparison_key ` set C \<and> ch = removed_target u)
   \<or> (\<exists>t\<in>set C. \<exists>u\<in>set P. ts_comparison_key t = ts_comparison_key u \<and> \<not> crowded C P (ts_comparison_key t)
        \<and> ts_content_sha256 t \<noteq> ts_content_sha256 u \<and> ch = modified_target t u)"

lemma set_by_key: "set (by_key ts k) = {t \<in> set ts. ts_comparison_key t = k}"
  by (simp add: by_key_def)

lemma keys_of_iff: "k \<in> set (keys_of ts) \<longleftrightarrow> k \<in> ts_comparison_key ` set ts"
  by (simp add: keys_of_def)

lemma by_key_Nil: "by_key ts k = [] \<longleftrightarrow> k \<notin> ts_comparison_key ` set ts"
  by (auto simp: by_key_def filter_empty_conv)

lemma length_cases: "\<not> length xs > 1 \<Longrightarrow> xs = [] \<or> (\<exists>x. xs = [x])"
  by (cases xs) auto

lemma by_key_single:
  assumes "\<not> length (by_key ts k) > 1" "t \<in> set ts" "ts_comparison_key t = k"
  shows "by_key ts k = [t]"
proof -
  have "t \<in> set (by_key ts k)" using assms(2,3) by (simp add: set_by_key)
  with length_cases [OF assms(1)] show ?thesis by auto
qed

text \<open>What one key contributes.\<close>

definition key_holds :: "target_snapshot list \<Rightarrow> target_snapshot list \<Rightarrow> pystr \<Rightarrow> comparison_change \<Rightarrow> bool" where
  "key_holds C P k ch \<longleftrightarrow> (if crowded C P k then ch \<in> ambiguous_current ` set (by_key C k) \<union> ambiguous_prior ` set (by_key P k)
     else (\<exists>t. by_key C k = [t] \<and> by_key P k = [] \<and> ch = new_target t) \<or> (\<exists>u. by_key C k = [] \<and> by_key P k = [u] \<and> ch = removed_target u)
       \<or> (\<exists>t u. by_key C k = [t] \<and> by_key P k = [u] \<and> ts_content_sha256 t \<noteq> ts_content_sha256 u \<and> ch = modified_target t u))"

lemma current_changes_key: "by_key C k \<noteq> [] \<Longrightarrow> ch \<in> set (current_changes (by_key C k) (by_key P k)) \<longleftrightarrow> key_holds C P k ch"
  using length_cases [of "by_key C k"] length_cases [of "by_key P k"] by (auto simp: current_changes_def key_holds_def crowded_def)

lemma prior_changes_key: "by_key C k = [] \<Longrightarrow> by_key P k \<noteq> [] \<Longrightarrow> ch \<in> set (prior_changes (by_key P k)) \<longleftrightarrow> key_holds C P k ch"
  using length_cases [of "by_key P k"] by (auto simp: prior_changes_def key_holds_def crowded_def)

lemma changes_by_key: "ch \<in> set (changes_between C P) \<longleftrightarrow> (\<exists>k. key_holds C P k ch)"
proof -
  have "key_holds C P k ch \<Longrightarrow> by_key C k \<noteq> [] \<or> by_key P k \<noteq> []" for k
    by (auto simp: key_holds_def crowded_def split: if_splits)
  moreover have "ch \<in> set (changes_between C P) \<longleftrightarrow> (\<exists>k. by_key C k \<noteq> [] \<and> ch \<in> set (current_changes (by_key C k) (by_key P k)))
      \<or> (\<exists>k. by_key C k = [] \<and> by_key P k \<noteq> [] \<and> ch \<in> set (prior_changes (by_key P k)))"
    by (auto simp: changes_between_def by_key_Nil keys_of_iff)
  ultimately show ?thesis using current_changes_key prior_changes_key by blast
qed

lemma key_change_holds: "key_holds C P k ch \<Longrightarrow> change_holds C P ch"
proof -
  assume h: "key_holds C P k ch"
  have m: "x \<in> set ts \<and> ts_comparison_key x = k" if "by_key ts k = [x]" for ts x using that set_by_key [of ts k] by auto
  show ?thesis
  proof (cases "crowded C P k")
    case True
    with h show ?thesis by (auto simp: key_holds_def change_holds_def set_by_key)
  next
    case False
    with h m show ?thesis unfolding key_holds_def change_holds_def by_key_Nil by (simp split: if_splits) metis
  qed
qed

lemma change_key_holds: "change_holds C P ch \<Longrightarrow> \<exists>k. key_holds C P k ch"
proof -
  assume h: "change_holds C P ch"
  have s: "by_key C k = [t]" if "\<not> crowded C P k" "t \<in> set C" "ts_comparison_key t = k" for k t
    using that by_key_single by (auto simp: crowded_def)
  have s': "by_key P k = [t]" if "\<not> crowded C P k" "t \<in> set P" "ts_comparison_key t = k" for k t
    using that by_key_single by (auto simp: crowded_def)
  from h show ?thesis
    unfolding change_holds_def key_holds_def set_by_key by_key_Nil
    using s s' by (elim disjE bexE conjE) (simp, blast)+
qed

lemma change_claims_unique:
  assumes "distinct (map ts_claim_id C)" "distinct (map ts_claim_id P)" "change_holds C P a" "change_holds C P b"
  shows "cc_current_claim_id a = cc_current_claim_id b \<and> cc_current_claim_id a \<noteq> None
    \<or> cc_prior_claim_id a = cc_prior_claim_id b \<and> cc_prior_claim_id a \<noteq> None \<Longrightarrow> a = b"
proof -
  have c: "t = u" if "t \<in> set C" "u \<in> set C" "ts_claim_id t = ts_claim_id u" for t u using assms(1) that by (auto simp: distinct_map inj_on_def)
  have p: "t = u" if "t \<in> set P" "u \<in> set P" "ts_claim_id t = ts_claim_id u" for t u using assms(2) that by (auto simp: distinct_map inj_on_def)
  have s: "t = u" if "\<not> crowded C P (ts_comparison_key u)" "t \<in> set C" "u \<in> set C" "ts_comparison_key t = ts_comparison_key u" for t u
    using that by_key_single [of C "ts_comparison_key u" t] by_key_single [of C "ts_comparison_key u" u] by (simp add: crowded_def)
  have s': "t = u" if "\<not> crowded C P (ts_comparison_key u)" "t \<in> set P" "u \<in> set P" "ts_comparison_key t = ts_comparison_key u" for t u
    using that by_key_single [of P "ts_comparison_key u" t] by_key_single [of P "ts_comparison_key u" u] by (simp add: crowded_def)
  assume "cc_current_claim_id a = cc_current_claim_id b \<and> cc_current_claim_id a \<noteq> None
    \<or> cc_prior_claim_id a = cc_prior_claim_id b \<and> cc_prior_claim_id a \<noteq> None"
  then show "a = b"
    using assms(3,4) unfolding change_holds_def
    by (elim disjE bexE conjE; simp add: ambiguous_current_def ambiguous_prior_def new_target_def removed_target_def modified_target_def; metis c p s s' image_eqI)
qed

text \<open>A change is reported once: within a key the claims differ, and no two keys report the same change.\<close>

lemma key_of_change:
  assumes "distinct (map ts_claim_id C)" "distinct (map ts_claim_id P)" "key_holds C P k ch" "key_holds C P k' ch"
  shows "k = k'"
proof -
  have side: "(\<exists>t\<in>set C. ts_comparison_key t = k \<and> cc_current_claim_id ch = Some (ts_claim_id t))
      \<or> (\<exists>u\<in>set P. ts_comparison_key u = k \<and> cc_prior_claim_id ch = Some (ts_claim_id u)) \<and> cc_current_claim_id ch = None"
    if h: "key_holds C P k ch" for k
  proof -
    have m: "x \<in> set ts \<and> ts_comparison_key x = k" if "by_key ts k = [x]" for ts x using that set_by_key [of ts k] by auto
    show ?thesis
      using h unfolding key_holds_def
      by (auto simp: set_by_key ambiguous_current_def ambiguous_prior_def new_target_def removed_target_def modified_target_def split: if_splits dest!: m)
  qed
  have "t = u" if "t \<in> set C" "u \<in> set C" "ts_claim_id t = ts_claim_id u" for t u using assms(1) that by (auto simp: distinct_map inj_on_def)
  moreover have "t = u" if "t \<in> set P" "u \<in> set P" "ts_claim_id t = ts_claim_id u" for t u using assms(2) that by (auto simp: distinct_map inj_on_def)
  ultimately show ?thesis using side [OF assms(3)] side [OF assms(4)] by fastforce
qed

lemma distinct_by_key: "distinct (map ts_claim_id ts) \<Longrightarrow> distinct (map ts_claim_id (by_key ts k))"
  by (simp add: by_key_def distinct_map_filter)

lemma distinct_ambiguous:
  assumes "distinct (map ts_claim_id cs)" "distinct (map ts_claim_id ps)"
  shows "distinct (map ambiguous_current cs @ map ambiguous_prior ps)"
  using assms by (auto simp: distinct_map inj_on_def ambiguous_current_def ambiguous_prior_def)

lemma distinct_key_changes:
  assumes "distinct (map ts_claim_id cs)" "distinct (map ts_claim_id ps)"
  shows "distinct (current_changes cs ps)" "distinct (prior_changes ps)"
  using distinct_ambiguous [OF assms] by (simp_all add: current_changes_def prior_changes_def)

lemma distinct_concat_keys:
  assumes "distinct ks" "\<And>k. k \<in> set ks \<Longrightarrow> distinct (f k)" "\<And>k k' x. k \<in> set ks \<Longrightarrow> k' \<in> set ks \<Longrightarrow> x \<in> set (f k) \<Longrightarrow> x \<in> set (f k') \<Longrightarrow> k = k'"
  shows "distinct (concat (map f ks))"
  using assms
proof (induction ks)
  case (Cons k ks)
  then have "set (f k) \<inter> (\<Union>k'\<in>set ks. set (f k')) = {}" by fastforce
  with Cons show ?case by auto
qed simp

lemma changes_distinct:
  assumes "distinct (map ts_claim_id C)" "distinct (map ts_claim_id P)"
  shows "distinct (changes_between C P)"
proof -
  let ?cur = "\<lambda>k. current_changes (by_key C k) (by_key P k)" and ?pri = "\<lambda>k. prior_changes (by_key P k)"
  let ?old = "filter (\<lambda>k. k \<notin> set (keys_of C)) (keys_of P)"
  have c: "key_holds C P k ch" if "k \<in> set (keys_of C)" "ch \<in> set (?cur k)" for k ch
    using that current_changes_key [of C k ch P] by (simp add: by_key_Nil keys_of_iff)
  have p: "key_holds C P k ch" if "k \<in> set ?old" "ch \<in> set (?pri k)" for k ch
    using that prior_changes_key [of C k P ch] by (auto simp: by_key_Nil keys_of_iff)
  note claims = distinct_by_key [OF assms(1)] distinct_by_key [OF assms(2)]
  have "distinct (concat (map ?cur (keys_of C)))"
  proof (rule distinct_concat_keys)
    show "distinct (?cur k)" for k by (rule distinct_key_changes(1) [OF claims])
    show "k = k'" if "k \<in> set (keys_of C)" "k' \<in> set (keys_of C)" "x \<in> set (?cur k)" "x \<in> set (?cur k')" for k k' x
      by (rule key_of_change [OF assms c [OF that(1,3)] c [OF that(2,4)]])
  qed (simp add: keys_of_def)
  moreover have "distinct (concat (map ?pri ?old))"
  proof (rule distinct_concat_keys)
    show "distinct (?pri k)" for k by (rule distinct_key_changes(2) [OF claims])
    show "k = k'" if "k \<in> set ?old" "k' \<in> set ?old" "x \<in> set (?pri k)" "x \<in> set (?pri k')" for k k' x
      by (rule key_of_change [OF assms p [OF that(1,3)] p [OF that(2,4)]])
  qed (simp add: keys_of_def)
  moreover have False if "x \<in> set (concat (map ?cur (keys_of C)))" "x \<in> set (concat (map ?pri ?old))" for x
  proof -
    from that obtain k k' where k: "k \<in> set (keys_of C)" "x \<in> set (?cur k)" "k' \<in> set ?old" "x \<in> set (?pri k')" by auto
    from key_of_change [OF assms c [OF k(1,2)] p [OF k(3,4)]] k(1,3) show False by simp
  qed
  ultimately show ?thesis unfolding changes_between_def distinct_append by blast
qed

text \<open>Grades and revisions do not enter: targets with the same claim, key and content are compared alike.\<close>

definition same_content :: "target_snapshot \<Rightarrow> target_snapshot \<Rightarrow> bool" where
  "same_content t u \<longleftrightarrow> ts_claim_id t = ts_claim_id u \<and> ts_comparison_key t = ts_comparison_key u \<and> ts_content_sha256 t = ts_content_sha256 u"

lemma by_key_same: "list_all2 same_content C D \<Longrightarrow> list_all2 same_content (by_key C k) (by_key D k)"
  by (induction rule: list_all2_induct) (auto simp: by_key_def same_content_def)

lemma keys_of_same: "list_all2 same_content C D \<Longrightarrow> keys_of C = keys_of D"
proof -
  assume "list_all2 same_content C D"
  then have "map ts_comparison_key C = map ts_comparison_key D" by (induction rule: list_all2_induct) (auto simp: same_content_def)
  then show ?thesis by (simp add: keys_of_def)
qed

lemma map_same:
  assumes "list_all2 same_content C D"
  shows "map ambiguous_current C = map ambiguous_current D" "map ambiguous_prior C = map ambiguous_prior D"
  using assms by (induction rule: list_all2_induct) (auto simp: same_content_def ambiguous_current_def ambiguous_prior_def)

lemma current_changes_same:
  assumes "list_all2 same_content C D" "list_all2 same_content P Q" "C \<noteq> []"
  shows "current_changes C P = current_changes D Q"
proof -
  have "same_content (hd C) (hd D)" using assms(1,3) by (cases C; cases D) auto
  moreover have "P \<noteq> [] \<Longrightarrow> same_content (hd P) (hd Q)" using assms(2) by (cases P; cases Q) auto
  moreover have "P = [] \<longleftrightarrow> Q = []" "length C = length D" "length P = length Q" using assms by (auto dest: list_all2_lengthD)
  ultimately show ?thesis
    using map_same [OF assms(1)] map_same [OF assms(2)]
    by (auto simp: current_changes_def same_content_def new_target_def modified_target_def)
qed

lemma prior_changes_same:
  assumes "list_all2 same_content P Q" "P \<noteq> []"
  shows "prior_changes P = prior_changes Q"
proof -
  have "same_content (hd P) (hd Q)" using assms by (cases P; cases Q) auto
  moreover have "length P = length Q" using assms by (auto dest: list_all2_lengthD)
  ultimately show ?thesis using map_same [OF assms(1)] by (simp add: prior_changes_def same_content_def removed_target_def)
qed

lemma changes_same:
  assumes "list_all2 same_content C D" "list_all2 same_content P Q"
  shows "changes_between C P = changes_between D Q"
proof -
  have "current_changes (by_key C k) (by_key P k) = current_changes (by_key D k) (by_key Q k)" if "k \<in> set (keys_of C)" for k
    using that current_changes_same [OF by_key_same [OF assms(1), of k] by_key_same [OF assms(2), of k]] by (simp add: by_key_Nil keys_of_iff)
  moreover have "prior_changes (by_key P k) = prior_changes (by_key Q k)" if "k \<in> set (keys_of P)" for k
    using that prior_changes_same [OF by_key_same [OF assms(2), of k]] by (simp add: by_key_Nil keys_of_iff)
  ultimately show ?thesis
    unfolding changes_between_def keys_of_same [OF assms(1)] keys_of_same [OF assms(2)]
    by (intro arg_cong2 [of _ _ _ _ append] arg_cong [of _ _ concat] map_cong) auto
qed

text \<open>
  C32. A completed comparison of a report with that of the year before reports exactly the changes of the reference: every target whose key is shared by several is
  ambiguous, the others are new, removed or, where the content differs, modified. Each change is listed once, no claim is in two changes, both versions are approved
  versions of one company and tenant, and changing grades or revisions of targets changes nothing.
\<close>

theorem comparison_matches_reference:
  assumes "mk_approved_version current = Inr current" "mk_approved_version prior = Inr prior"
    "compare_years current (Some prior) cid = Inr r" "cmp_status r = py ''completed''"
  shows "set (cmp_changes r) = Collect (change_holds (av_targets current) (av_targets prior)) \<and> distinct (cmp_changes r)
    \<and> (\<forall>a\<in>set (cmp_changes r). \<forall>b\<in>set (cmp_changes r). a \<noteq> b \<longrightarrow>
        (cc_current_claim_id a = None \<or> cc_current_claim_id a \<noteq> cc_current_claim_id b) \<and> (cc_prior_claim_id a = None \<or> cc_prior_claim_id a \<noteq> cc_prior_claim_id b))
    \<and> av_approved current \<and> av_approved prior \<and> av_tenant_id current = av_tenant_id prior \<and> av_company_id current = av_company_id prior
    \<and> av_report_year current = av_report_year prior + 1
    \<and> (\<forall>C P. list_all2 same_content (av_targets current) C \<and> list_all2 same_content (av_targets prior) P \<longrightarrow> changes_between C P = cmp_changes r)"
proof -
  have "py ''not_run'' \<noteq> py ''completed''" by simp
  then have r: "cmp_changes r = changes_between (av_targets current) (av_targets prior)" "av_approved current" "av_approved prior"
      "av_tenant_id current = av_tenant_id prior" "av_company_id current = av_company_id prior" "av_report_year current = av_report_year prior + 1"
    using assms(3,4) by (auto simp: compare_years_def result_simps split: if_splits)
  have changes: "set (cmp_changes r) = Collect (change_holds (av_targets current) (av_targets prior))"
    unfolding r(1) using changes_by_key key_change_holds change_key_holds by blast
  have d: "distinct (map ts_claim_id (av_targets current))" "distinct (map ts_claim_id (av_targets prior))"
    using assms(1,2) by (auto simp: mk_approved_version_def result_simps py_duplicates_iff split: if_splits)
  have "(cc_current_claim_id a = None \<or> cc_current_claim_id a \<noteq> cc_current_claim_id b) \<and> (cc_prior_claim_id a = None \<or> cc_prior_claim_id a \<noteq> cc_prior_claim_id b)"
    if "a \<in> set (cmp_changes r)" "b \<in> set (cmp_changes r)" "a \<noteq> b" for a b
    using change_claims_unique [OF d, of a b] that unfolding changes by blast
  moreover have "changes_between C P = cmp_changes r"
    if "list_all2 same_content (av_targets current) C" "list_all2 same_content (av_targets prior) P" for C P
    using changes_same [OF that] r(1) by simp
  moreover have "distinct (cmp_changes r)" unfolding r(1) by (rule changes_distinct [OF d])
  ultimately show ?thesis using changes r(2-6) by blast
qed

definition year_of :: "int \<Rightarrow> nat \<Rightarrow> approved_version" where
  "year_of y c = \<lparr>av_tenant_id = uuid_of 1, av_company_id = uuid_of 2, av_document_version_id = uuid_of 3, av_report_year = y, av_approved = True,
     av_targets = [\<lparr>ts_claim_id = uuid_of c, ts_comparison_key = [c], ts_content_sha256 = hex64, ts_decision_revision = 1, ts_evidence_grade = None\<rparr>]\<rparr>"

lemma year_of_ok: "1900 \<le> y \<Longrightarrow> y \<le> 2200 \<Longrightarrow> mk_approved_version (year_of y c) = Inr (year_of y c)"
  by (simp add: mk_approved_version_def year_of_def check_uuid_def sample_uuids(1) py_duplicates_iff del: One_nat_def)

theorem comparison_matches_reference_witness:
  "\<exists>r. compare_years (year_of 2025 5) (Some (year_of 2024 6)) (uuid_of 4) = Inr r \<and> set (cmp_changes r) = Collect (change_holds (av_targets (year_of 2025 5)) (av_targets (year_of 2024 6)))"
proof -
  have "\<exists>r. compare_years (year_of 2025 5) (Some (year_of 2024 6)) (uuid_of 4) = Inr r \<and> cmp_status r = py ''completed''"
    by (simp add: compare_years_def check_uuid_def sample_uuids(1) year_of_def)
  then obtain r where r: "compare_years (year_of 2025 5) (Some (year_of 2024 6)) (uuid_of 4) = Inr r" "cmp_status r = py ''completed''" by blast
  have "mk_approved_version (year_of 2025 5) = Inr (year_of 2025 5)" "mk_approved_version (year_of 2024 6) = Inr (year_of 2024 6)"
    by (simp_all add: year_of_ok)
  from r comparison_matches_reference [OF this r] show ?thesis by blast
qed

end
