(* ===== verification/Rescore.thy ===== *)
theory Rescore
  imports Pack_Validation Shipped
begin

text \<open>
  Model of \<^verbatim>\<open>create_rescore\<close> in \<^verbatim>\<open>application/rescores.py\<close>: the rules of a new pack applied to tags that were confirmed under an earlier one, or the reasons why
  the claim has to be tagged again.

  The loop over the common elements runs over
  a set; the model goes by the order of the earlier pack, which decides only which of several malformed elements raises first.
  \<open>rescore_reuses_only_complete_tags\<close> says when the tags are used, and that the result is then the decision of the rules engine under the new pack.
\<close>

section \<open>Reading the packs\<close>

text \<open>\<^verbatim>\<open>{element["id"]: element for element in ..}\<close> of \<^verbatim>\<open>rubric/elements.yaml\<close>, as pairs.\<close>

definition raw_element :: "json \<Rightarrow> (pystr \<times> (pystr \<times> json) list) result" where
  "raw_element j = bindE (as_dict j) (\<lambda>e. bindE (bindE (jitem e ''id'') as_str) (\<lambda>i. Inr (i, e)))"

definition raw_elements :: "rule_pack \<Rightarrow> (pystr \<times> (pystr \<times> json) list) list result" where
  "raw_elements pack = bindE (file_content pack (py ''rubric/elements.yaml'')) (\<lambda>d.
     bindE (bindE (jitem d ''elements'') as_list) (mapE raw_element))"

definition element_meaning :: "(pystr \<times> json) list \<Rightarrow> (pystr \<times> json) list" where
  "element_meaning e = filter (\<lambda>kv. fst kv \<notin> {py ''basis'', py ''source_scopes''}) e"

definition raw_scopes :: "(pystr \<times> json) list \<Rightarrow> pystr list result" where
  "raw_scopes e = bindE (jitem e ''source_scopes'') as_str_list"

definition branch_names :: "json \<Rightarrow> pystr list result" where
  "branch_names j = bindE (as_dict j) (\<lambda>b.
     bindE (jdefault b ''when'' as_dict) (\<lambda>w.
     bindE (jdefault b ''require_all'' as_str_list) (\<lambda>r.
     Inr ((case w of None \<Rightarrow> [] | Some d \<Rightarrow> map fst d) @ (case r of None \<Rightarrow> [] | Some ns \<Rightarrow> ns)))))"

definition checklists :: "rule_pack \<Rightarrow> json result" where
  "checklists pack = bindE (file_content pack (py ''regulatory/safe_harbor.yaml'')) (\<lambda>d. jitem d ''category_checklists'')"

section \<open>Reasons to tag again\<close>

definition element_changes :: "(pystr \<times> (pystr \<times> json) list) list \<Rightarrow> pystr \<times> (pystr \<times> json) list \<Rightarrow> pystr list result" where
  "element_changes new kv = (case map_of new (fst kv) of
       None \<Rightarrow> Inr []
     | Some after \<Rightarrow>
         bindE (raw_scopes after) (\<lambda>wide. bindE (raw_scopes (snd kv)) (\<lambda>narrow.
         Inr ((if py_equal (JObj (element_meaning (snd kv))) (JObj (element_meaning after)) then [] else [py ''ELEMENT_MEANING_CHANGED:'' @ fst kv])
              @ (if set wide \<subseteq> set narrow then [] else [py ''SOURCE_SCOPES_EXPANDED:'' @ fst kv])))))"

definition pack_changes :: "(pystr \<times> (pystr \<times> json) list) list \<Rightarrow> (pystr \<times> (pystr \<times> json) list) list \<Rightarrow> pystr list result" where
  "pack_changes old new = bindE (mapE (element_changes new) old) (\<lambda>rs.
     Inr ((if fst ` set old = fst ` set new then [] else [py ''ELEMENT_SET_CHANGED'']) @ concat rs))"

text \<open>What one element of the track asks for: the names it needs, and the scopes of present facts that the new definition does not admit.\<close>

definition element_needs ::
  "confirmed_tags \<Rightarrow> (pystr \<times> (pystr \<times> json) list) list \<Rightarrow> pystr \<times> pystr list \<Rightarrow> (pystr list \<times> pystr list) result" where
  "element_needs tags new m = (case map_of new (fst m) of
       None \<Rightarrow> Inl (KeyError ''element definition'')
     | Some entry \<Rightarrow>
         bindE (jopt entry ''trigger'' as_str) (\<lambda>trigger.
         let asked = (case trigger of None \<Rightarrow> [] | Some t \<Rightarrow> if t = [] then [] else [t]) in
         if list_ex (\<lambda>t. case tag_facts tags t of None \<Rightarrow> False | Some f \<Rightarrow> cf_state f = Absent) asked then Inr (asked, [])
         else bindE (raw_scopes entry) (\<lambda>scopes.
           Inr (asked @ snd m,
             concat (map (\<lambda>n. case tag_facts tags n of None \<Rightarrow> []
               | Some f \<Rightarrow> if cf_state f = Present \<and> cf_source_scope f \<notin> set scopes then [py ''SOURCE_SCOPE_RECHECK:'' @ fst m] else []) (snd m))))))"

definition exception_names :: "pystr list \<Rightarrow> pystr list" where
  "exception_names names = (if py ''exception_applies'' \<in> set names
     then filter (\<lambda>n. n \<noteq> py ''exception_applies'') names @ [py ''target_metric'', py ''transition_plan''] else names)"

definition product_names :: "confirmed_tags \<Rightarrow> (pystr \<times> json) list \<Rightarrow> pystr list result" where
  "product_names tags rubric =
     (if ct_product_variant tags \<and> ct_track tags = Management
      then bindE (bindE (jitem rubric ''product_variant'') as_dict) (\<lambda>p. bindE (bindE (jitem p ''e2_plus_requires'') as_str) (\<lambda>n. Inr [n]))
      else Inr [])"

definition superlative_names :: "confirmed_tags \<Rightarrow> pystr list" where
  "superlative_names tags =
     (if opt_truthy (ct_superlative_quote tags)
         \<or> (case tag_facts tags (py ''has_superlative'') of None \<Rightarrow> False | Some f \<Rightarrow> cf_state f \<noteq> Absent)
      then [py ''has_superlative'', py ''comparison_basis'', py ''external_verification''] else [])"

definition ordinal_needs :: "confirmed_tags \<Rightarrow> pystr list" where
  "ordinal_needs tags = (if ct_track tags = Performance \<and> tag_facts tags (py ''categorical_ordinal'') \<noteq> None then [py ''certification_provider''] else [])"

text \<open>Every fact the new pack asks of these tags, and the scopes to check again.\<close>

definition required_facts ::
  "confirmed_tags \<Rightarrow> rule_pack \<Rightarrow> (pystr \<times> (pystr \<times> json) list) list \<Rightarrow> (pystr list \<times> pystr list) result" where
  "required_facts tags new_pack new =
     bindE (mapE (element_needs tags new) (MAPPINGS (ct_track tags))) (\<lambda>needs.
     bindE (file_content new_pack (rubric_path (ct_track tags))) (\<lambda>rubric.
     bindE (bindE (bindE (jitem rubric ''branches'') as_list) (mapE branch_names)) (\<lambda>ladder.
     bindE (product_names tags rubric) (\<lambda>product.
     Inr (exception_names (concat (map fst needs) @ concat ladder) @ product @ superlative_names tags @ ordinal_needs tags,
          concat (map snd needs))))))"

datatype rescore_outcome = Rescored decision | Retag_required "pystr list"

definition revision_mismatch :: "confirmed_tags \<Rightarrow> rule_context \<Rightarrow> pystr \<Rightarrow> decision \<Rightarrow> bool" where
  "revision_mismatch tags context h d \<longleftrightarrow> rc_decision_revision context \<noteq> d_decision_revision d + 1 \<or> d_tag_revision d \<noteq> ct_tag_revision tags
     \<or> d_input_tags_sha256 d \<noteq> h"

definition check_revision :: "platform \<Rightarrow> confirmed_tags \<Rightarrow> rule_context \<Rightarrow> decision option \<Rightarrow> unit result" where
  "check_revision P tags context previous = (case previous of
       None \<Rightarrow> if rc_decision_revision context \<noteq> 1 then Inl (DomainValidationError ''first decision revision must be one'') else Inr ()
     | Some d \<Rightarrow> bindE (canonical_hash P (tags_asdict tags)) (\<lambda>h.
         if revision_mismatch tags context h d then Inl (DomainValidationError ''previous decision/tag or next revision mismatch'') else Inr ()))"

definition create_rescore ::
  "platform \<Rightarrow> rule_pack \<Rightarrow> confirmed_tags option \<Rightarrow> rule_pack \<Rightarrow> rule_context \<Rightarrow> decision option \<Rightarrow> rescore_outcome result" where
  "create_rescore P new_pack tags previous_pack context previous_decision =
     (if rp_tenant_id new_pack \<noteq> rc_tenant_id context \<or> rp_tenant_id previous_pack \<noteq> rc_tenant_id context
         \<or> rp_mode new_pack \<noteq> rp_mode previous_pack \<or> rp_mode new_pack \<noteq> rc_mode context
      then Inl (DomainValidationError ''rescore tenant or mode mismatch'')
      else case tags of None \<Rightarrow> Inr (Retag_required [py ''CONFIRMED_TAGS_REQUIRED''])
      | Some tags \<Rightarrow>
        bindE (validate_inputs tags context previous_pack) (\<lambda>_.
        bindE (check_revision P tags context previous_decision) (\<lambda>_.
        if rp_ontology_version new_pack \<noteq> rp_ontology_version previous_pack then Inr (Retag_required [py ''ONTOLOGY_CHANGED''])
        else
         bindE (raw_elements previous_pack) (\<lambda>old.
         bindE (raw_elements new_pack) (\<lambda>new.
         if py_duplicates (map fst old) \<or> py_duplicates (map fst new) then Inl (DomainValidationError ''duplicate element definitions'')
         else
          bindE (pack_changes old new) (\<lambda>changed.
          if changed \<noteq> [] then Inr (Retag_required (py_sorted_set changed))
          else
           bindE (required_facts tags new_pack new) (\<lambda>(required, recheck).
           bindE (checklists previous_pack) (\<lambda>before.
           bindE (checklists new_pack) (\<lambda>after.
           let reasons = recheck @ (if py_equal before after then [] else [py ''SAFE_HARBOR_INPUTS_CHANGED''])
                 @ map (\<lambda>n. py ''MISSING_FACT:'' @ n) (filter (\<lambda>n. tag_facts tags n = None) required)
           in if reasons \<noteq> [] then Inr (Retag_required (py_sorted_set reasons))
              else bindE (evaluate P tags context new_pack) (\<lambda>d. Inr (Rescored d)))))))))))"

section \<open>What a rescore rests on\<close>

text \<open>An element that means the same under the new pack and admits no further scopes.\<close>

definition element_kept :: "(pystr \<times> (pystr \<times> json) list) list \<Rightarrow> pystr \<times> (pystr \<times> json) list \<Rightarrow> bool" where
  "element_kept new kv \<longleftrightarrow> (\<exists>after wide narrow. map_of new (fst kv) = Some after \<and> py_equal (JObj (element_meaning (snd kv))) (JObj (element_meaning after))
     \<and> raw_scopes after = Inr wide \<and> raw_scopes (snd kv) = Inr narrow \<and> set wide \<subseteq> set narrow)"

lemma mapE_in: "mapE f xs = Inr ys \<Longrightarrow> x \<in> set xs \<Longrightarrow> \<exists>y\<in>set ys. f x = Inr y"
  by (induction xs arbitrary: ys) (auto simp: bindE_Inr_iff)

lemma pack_unchanged:
  assumes "pack_changes old new = Inr []"
  shows "fst ` set old = fst ` set new \<and> (\<forall>kv\<in>set old. element_kept new kv)"
proof -
  obtain rs where rs: "mapE (element_changes new) old = Inr rs" "concat rs = []" and s: "fst ` set old = fst ` set new"
    using assms by (auto simp: pack_changes_def result_simps split: if_splits)
  have "element_kept new kv" if kv: "kv \<in> set old" for kv
  proof -
    have "element_changes new kv = Inr []" using mapE_in [OF rs(1) kv] rs(2) by auto
    moreover obtain after where "map_of new (fst kv) = Some after"
      using kv s by (cases "map_of new (fst kv)") (auto simp: map_of_eq_None_iff)
    ultimately show ?thesis by (auto simp: element_changes_def element_kept_def result_simps split: if_splits)
  qed
  with s show ?thesis by blast
qed

lemma mapE_fst: "mapE (\<lambda>kv. bindE (as_bool (snd kv)) (\<lambda>b. Inr (fst kv, b))) d = Inr w \<Longrightarrow> map fst w = map fst d"
  by (induction d arbitrary: w) (auto simp: bindE_Inr_iff)

lemma jdefault_Some: "jdefault d k f = Inr (Some x) \<longleftrightarrow> (\<exists>v. map_of d (py k) = Some v \<and> f v = Inr x)"
  by (auto simp: jdefault_def result_simps split: option.splits)

definition when_flags :: "json \<Rightarrow> (pystr \<times> bool) list result" where
  "when_flags w = bindE (as_dict w) (mapE (\<lambda>kv. bindE (as_bool (snd kv)) (\<lambda>b. Inr (fst kv, b))))"

lemma branch_of_parts:
  assumes "branch_of j = Inr b"
  obtains d ra where "as_dict j = Inr d" "jdefault d ''when'' when_flags = Inr (br_when b)" "jdefault d ''require_all'' as_str_list = Inr ra"
    "br_require_all b = (case ra of None \<Rightarrow> [] | Some xs \<Rightarrow> xs)"
  using assms unfolding branch_of_def when_flags_def [symmetric] bindE_Inr_iff by auto

lemma branch_names_cover:
  assumes "branch_of j = Inr b" "branch_names j = Inr ns" "(n, v) \<in> set (branch_conditions b)"
  shows "n \<in> set ns"
  using assms(1)
proof (rule branch_of_parts)
  fix d ra
  assume d: "as_dict j = Inr d" and w: "jdefault d ''when'' when_flags = Inr (br_when b)" and ra: "jdefault d ''require_all'' as_str_list = Inr ra"
    and all: "br_require_all b = (case ra of None \<Rightarrow> [] | Some xs \<Rightarrow> xs)"
  from assms(2) d ra obtain w' where w': "jdefault d ''when'' as_dict = Inr w'"
    and ns: "ns = (case w' of None \<Rightarrow> [] | Some d \<Rightarrow> map fst d) @ (case ra of None \<Rightarrow> [] | Some xs \<Rightarrow> xs)"
    by (auto simp: branch_names_def bindE_Inr_iff)
  show ?thesis
  proof (cases "br_when b")
    case (Some flags)
    with w obtain x e where e: "map_of d (py ''when'') = Some x" "as_dict x = Inr e" "mapE (\<lambda>kv. bindE (as_bool (snd kv)) (\<lambda>b. Inr (fst kv, b))) e = Inr flags"
      by (auto simp: jdefault_Some when_flags_def bindE_Inr_iff)
    then have "w' = Some e" using w' by (simp add: jdefault_def)
    moreover have "n \<in> set (map fst flags)" using assms(3) Some by (force simp: branch_conditions_def)
    ultimately show ?thesis using mapE_fst [OF e(3)] by (simp add: ns)
  next
    case None
    then show ?thesis using assms(3) all by (auto simp: branch_conditions_def ns)
  qed
qed

lemma ladder_covered:
  assumes "required_facts tags pack new = Inr (required, recheck)" "file_content pack (rubric_path (ct_track tags)) = Inr rubric"
    and "rubric_branches rubric = Inr branches" "b \<in> set branches" "(n, v) \<in> set (branch_conditions b)" "n \<noteq> py ''exception_applies''"
  shows "n \<in> set required"
proof -
  obtain js where js: "bindE (jitem rubric ''branches'') as_list = Inr js" "mapE branch_of js = Inr branches"
    using assms(3) by (auto simp: rubric_branches_def result_simps)
  obtain needs ladder product where "mapE (element_needs tags new) (MAPPINGS (ct_track tags)) = Inr needs" "product_names tags rubric = Inr product"
    and ladder: "mapE branch_names js = Inr ladder"
    and required: "required = exception_names (concat (map fst needs) @ concat ladder) @ product @ superlative_names tags @ ordinal_needs tags"
    using assms(1) unfolding required_facts_def assms(2) js(1) bindE.simps bindE_Inr_iff by auto
  obtain j where j: "j \<in> set js" "branch_of j = Inr b" using mapE_in_result [OF js(2) assms(4)] by blast
  obtain ns where ns: "ns \<in> set ladder" "branch_names j = Inr ns" using mapE_in [OF ladder j(1)] by blast
  have "n \<in> set ns" by (rule branch_names_cover [OF j(2) ns(2) assms(5)])
  with ns(1) assms(6) show ?thesis by (auto simp: required exception_names_def)
qed

lemma evaluate_reads_ladder:
  assumes "evaluate P tags context pack = Inr d"
  obtains rubric branches where "file_content pack (rubric_path (ct_track tags)) = Inr rubric" "rubric_branches rubric = Inr branches"
  using assms unfolding evaluate_def evaluate_scoped_def by (auto simp: result_simps Let_def split: if_splits)

text \<open>
  C16. A rescore reuses tags only where they say all that the new rules ask: the result is then the decision of the rules engine under the new pack of the same tenant, mode
  and ontology, the revision follows the previous decision on these very tags, every element means what it meant when the tags were confirmed and
  admits no further source scopes, every fact the new pack requires is in the tags, and so is every condition of the new ladder.
  A refusal gives at least one reason.
\<close>

theorem rescore_reuses_only_complete_tags:
  assumes "create_rescore P new_pack (Some tags) previous_pack context previous = Inr r"
  shows "case r of Retag_required reasons \<Rightarrow> reasons \<noteq> []
    | Rescored d \<Rightarrow> evaluate P tags context new_pack = Inr d
      \<and> rp_tenant_id new_pack = rp_tenant_id previous_pack \<and> rp_mode new_pack = rp_mode previous_pack
      \<and> rp_ontology_version new_pack = rp_ontology_version previous_pack
      \<and> validate_inputs tags context previous_pack = Inr () \<and> check_revision P tags context previous = Inr ()
      \<and> (\<exists>old new required. raw_elements previous_pack = Inr old \<and> raw_elements new_pack = Inr new \<and> fst ` set old = fst ` set new
          \<and> (\<forall>kv\<in>set old. element_kept new kv)
          \<and> required_facts tags new_pack new = Inr (required, []) \<and> (\<forall>n\<in>set required. tag_facts tags n \<noteq> None))
      \<and> (\<exists>rubric branches. file_content new_pack (rubric_path (ct_track tags)) = Inr rubric \<and> rubric_branches rubric = Inr branches
          \<and> (\<forall>b\<in>set branches. \<forall>(n, v)\<in>set (branch_conditions b). n \<noteq> py ''exception_applies'' \<longrightarrow> tag_facts tags n \<noteq> None))"
proof (cases r)
  case (Retag_required reasons)
  then show ?thesis
    using assms by (auto simp: create_rescore_def result_simps Let_def split: if_splits prod.splits)
next
  case (Rescored d)
  with assms obtain old new required where
    ids: "rp_tenant_id new_pack = rp_tenant_id previous_pack" "rp_mode new_pack = rp_mode previous_pack"
      "rp_ontology_version new_pack = rp_ontology_version previous_pack"
    and ok: "validate_inputs tags context previous_pack = Inr ()" "check_revision P tags context previous = Inr ()"
    and els: "raw_elements previous_pack = Inr old" "raw_elements new_pack = Inr new" "pack_changes old new = Inr []"
    and req: "required_facts tags new_pack new = Inr (required, [])" "filter (\<lambda>n. tag_facts tags n = None) required = []"
    and ev: "evaluate P tags context new_pack = Inr d"
    by (auto simp: create_rescore_def result_simps Let_def split: if_splits prod.splits)
  have facts: "\<forall>n\<in>set required. tag_facts tags n \<noteq> None" using req(2) by (simp add: filter_empty_conv)
  obtain rubric branches where ladder: "file_content new_pack (rubric_path (ct_track tags)) = Inr rubric" "rubric_branches rubric = Inr branches"
    using ev by (rule evaluate_reads_ladder)
  have "\<forall>b\<in>set branches. \<forall>(n, v)\<in>set (branch_conditions b). n \<noteq> py ''exception_applies'' \<longrightarrow> tag_facts tags n \<noteq> None"
    using ladder_covered [OF req(1) ladder] facts by blast
  with ladder have "\<exists>rubric branches. file_content new_pack (rubric_path (ct_track tags)) = Inr rubric \<and> rubric_branches rubric = Inr branches
      \<and> (\<forall>b\<in>set branches. \<forall>(n, v)\<in>set (branch_conditions b). n \<noteq> py ''exception_applies'' \<longrightarrow> tag_facts tags n \<noteq> None)" by blast
  with Rescored ids ok els req(1) facts ev pack_unchanged [OF els(3)] show ?thesis by simp
qed

section \<open>A sample rescore\<close>

definition full_names :: "string list" where
  "full_names = [''named_means_or_concrete_state'', ''org_boundary'', ''external_verification'', ''concrete_implementation_detail'',
     ''responsible_organization'', ''governance_claim'', ''compensation_link'', ''compensation_link_claim'', ''willingness_only'']"

definition full_tags :: confirmed_tags where
  "full_tags = sample_tags Management [] full_names"

definition raw_row :: "string \<Rightarrow> string option \<Rightarrow> string list \<Rightarrow> pystr \<times> (pystr \<times> json) list" where
  "raw_row i t ss = (py i, dict_of_jb (element_row i t ss))"

definition is_row :: "pystr \<times> (pystr \<times> json) list \<Rightarrow> bool" where
  "is_row kv \<longleftrightarrow> (\<exists>i t ss. kv = raw_row i t ss)"

lemma is_row_raw [simp]: "is_row (raw_row i t ss)"
  by (auto simp: is_row_def)

lemma raw_row_read: "raw_element (element_row i t ss) = Inr (raw_row i t ss)"
  by (simp add: raw_element_def raw_row_def element_row_def jb_def as_dict_def jitem_def as_str_def dict_of_jb_def)

lemma raw_row_scopes: "raw_scopes (snd (raw_row i t ss)) = Inr (map py ss)"
  by (simp add: raw_row_def raw_scopes_def element_row_def jb_def dict_of_jb_def jitem_def as_str_list_def str_list_def as_list_def mapE_as_str comp_def)

lemma raw_row_same: "py_equal (JObj (element_meaning (snd (raw_row i t ss)))) (JObj (element_meaning (snd (raw_row i t ss))))"
  by (cases t) (simp_all add: raw_row_def element_meaning_def element_row_def jb_def dict_of_jb_def)

lemma unchanged_pack:
  assumes "distinct (map fst old)" "list_all is_row old"
  shows "pack_changes old old = Inr []"
proof -
  have "element_changes old kv = Inr []" if k: "kv \<in> set old" for kv
  proof -
    obtain i t ss where kv: "kv = raw_row i t ss" using assms(2) k by (auto simp: list_all_iff is_row_def)
    have "map_of old (fst kv) = Some (snd kv)" using map_of_is_SomeI [OF assms(1), of "fst kv" "snd kv"] k by simp
    then show ?thesis using raw_row_scopes raw_row_same by (simp add: element_changes_def kv)
  qed
  then have "mapE (element_changes old) old = Inr (map (\<lambda>_. []) old)" by (intro mapE_Inr_id)
  then show ?thesis by (simp add: pack_changes_def)
qed

definition management_raw :: "(pystr \<times> (pystr \<times> json) list) list \<Rightarrow> bool" where
  "management_raw rows \<longleftrightarrow> map_of rows (py ''M1'') = Some (snd (raw_row ''M1'' None [''local_claim'', ''same_table'']))
     \<and> map_of rows (py ''M2'') = Some (snd (raw_row ''M2'' None [''local_claim'', ''same_table'', ''global_bound'']))
     \<and> map_of rows (py ''M3'') = Some (snd (raw_row ''M3'' None [''local_claim'', ''global_bound'']))
     \<and> map_of rows (py ''M4'') = Some (snd (raw_row ''M4'' None [''local_claim'', ''same_table'']))
     \<and> map_of rows (py ''M5'') = Some (snd (raw_row ''M5'' (Some ''governance_claim'') [''local_claim'', ''explicit_link'']))
     \<and> map_of rows (py ''M6'') = Some (snd (raw_row ''M6'' (Some ''compensation_link_claim'') [''local_claim'', ''explicit_link'']))"

lemma fst_raw_row [simp]: "fst (raw_row i t ss) = py i"
  by (simp add: raw_row_def)

lemma map_of_raw_row: "map_of (raw_row i t ss # rows) k = (if k = py i then Some (snd (raw_row i t ss)) else map_of rows k)"
  by (simp add: raw_row_def)

lemma shipped_raw:
  "\<exists>rows. raw_elements shipped_pack = Inr rows \<and> distinct (map fst rows) \<and> list_all is_row rows \<and> management_raw rows"
proof -
  obtain js where js: "elements_yaml = jb [(''elements'', JList js)]" by (simp add: elements_yaml_def)
  have "raw_elements shipped_pack = mapE raw_element js"
    by (simp add: raw_elements_def shipped_elements_file [OF shipped_pack_content] js dict_of_jb_def jb_def jitem_def as_list_def)
  moreover have "\<exists>rows. mapE raw_element js = Inr rows \<and> distinct (map fst rows) \<and> list_all is_row rows \<and> management_raw rows"
    using js unfolding elements_yaml_def management_raw_def by (simp add: jb_def) (clarify, simp add: raw_row_read map_of_raw_row)
  ultimately show ?thesis by simp
qed

lemma full_facts:
  "tag_facts full_tags (py n) = (if n \<in> set full_names then Some (absent_fact n) else None)"
proof -
  have "tag_facts full_tags = map_of (map (\<lambda>n. (py n, absent_fact n)) full_names)"
    unfolding tag_facts_def full_tags_def sample_tags_def
    by (subst dict_of_distinct) (simp_all add: comp_def absent_fact_def plain_fact_def full_names_def)
  then show ?thesis by (simp add: full_names_def)
qed

lemma full_track: "ct_track full_tags = Management" "ct_product_variant full_tags = False" "ct_superlative_quote full_tags = None"
  by (simp_all add: full_tags_def sample_tags_def)

lemma full_need:
  assumes "map_of rows (py i) = Some (snd (raw_row i t ss))" "set ns \<subseteq> set full_names" "\<forall>n. t = Some n \<longrightarrow> n \<in> set full_names \<and> n \<noteq> []"
  shows "\<exists>ms. element_needs full_tags rows (py i, map py ns) = Inr (ms, []) \<and> set ms \<subseteq> py ` set full_names"
proof -
  have trigger: "jopt (snd (raw_row i t ss)) ''trigger'' as_str = Inr (map_option py t)"
    by (cases t) (simp_all add: raw_row_def element_row_def jb_def dict_of_jb_def jopt_def as_str_def)
  have absent: "tag_facts full_tags (py n) = Some f \<Longrightarrow> cf_state f = Absent" for n f
    by (auto simp: full_facts absent_fact_def plain_fact_def split: if_splits)
  show ?thesis
  proof (cases t)
    case None
    then show ?thesis
      using trigger raw_row_scopes assms(2) by (auto simp: element_needs_def assms(1) split: option.split dest: absent)
  next
    case (Some n)
    then have "n \<in> set full_names" "py n \<noteq> []" using assms(3) by (auto simp: py_def)
    moreover from this have "tag_facts full_tags (py n) = Some (absent_fact n)" by (simp add: full_facts)
    moreover have "cf_state (absent_fact n) = Absent" by (simp add: absent_fact_def plain_fact_def)
    ultimately show ?thesis
      using trigger Some by (simp add: element_needs_def assms(1))
  qed
qed

lemma branch_names_rows:
  "branch_names (all_row i ns g) = Inr (map py ns)" "branch_names (when_row i conds g) = Inr (map (\<lambda>c. py (fst c)) conds)"
  by (simp_all add: branch_names_def all_row_def when_row_def jb_def as_dict_def jdefault_def str_list_def as_str_list_def as_list_def mapE_as_str comp_def
      case_prod_unfold)

lemma full_required:
  assumes "management_raw rows"
  shows "\<exists>required. required_facts full_tags shipped_pack rows = Inr (required, []) \<and> set required \<subseteq> py ` set full_names"
proof -
  have el: "MAPPINGS (ct_track full_tags) = [(py ''M1'', map py [''named_means_or_concrete_state'']), (py ''M2'', map py [''org_boundary'']),
      (py ''M3'', map py [''external_verification'']), (py ''M4'', map py [''concrete_implementation_detail'']),
      (py ''M5'', map py [''responsible_organization'']), (py ''M6'', map py [''compensation_link''])]"
    by (simp add: full_track MAPPINGS_def management_ELEMENTS_def)
  note need = full_need [where rows = rows]
  obtain m1 m2 m3 m4 m5 m6 where "mapE (element_needs full_tags rows) (MAPPINGS (ct_track full_tags)) =
      Inr [(m1, []), (m2, []), (m3, []), (m4, []), (m5, []), (m6, [])]"
    and names: "set (m1 @ m2 @ m3 @ m4 @ m5 @ m6) \<subseteq> py ` set full_names"
    using assms need [of "''M1''" None "[''local_claim'', ''same_table'']" "[''named_means_or_concrete_state'']"]
      need [of "''M2''" None "[''local_claim'', ''same_table'', ''global_bound'']" "[''org_boundary'']"]
      need [of "''M3''" None "[''local_claim'', ''global_bound'']" "[''external_verification'']"]
      need [of "''M4''" None "[''local_claim'', ''same_table'']" "[''concrete_implementation_detail'']"]
      need [of "''M5''" "Some ''governance_claim''" "[''local_claim'', ''explicit_link'']" "[''responsible_organization'']"]
      need [of "''M6''" "Some ''compensation_link_claim''" "[''local_claim'', ''explicit_link'']" "[''compensation_link'']"]
    unfolding el management_raw_def by (auto simp: full_names_def)
  moreover have "mapE branch_names management_rows = Inr (map (map py) [[''named_means_or_concrete_state'', ''org_boundary'', ''external_verification''],
      [''named_means_or_concrete_state'', ''org_boundary''], [''named_means_or_concrete_state''], [''willingness_only'']])"
    by (simp add: management_rows_def branch_names_rows)
  moreover have "file_content shipped_pack (rubric_path (ct_track full_tags)) = Inr (dict_of_jb (shipped_rubric Management))"
    using shipped_rubric_file [OF shipped_pack_content, of Management] by (simp add: full_track)
  moreover have "bindE (jitem (dict_of_jb (shipped_rubric Management)) ''branches'') as_list = Inr management_rows"
    by (simp add: shipped_rubric_def rubric_yaml_def product_variant_yaml_def dict_of_jb_def jb_def jitem_def as_list_def)
  moreover have "superlative_names full_tags = []" "ordinal_needs full_tags = []" "product_names full_tags rubric = Inr []" for rubric
    by (simp_all add: superlative_names_def ordinal_needs_def product_names_def full_track full_facts opt_truthy_def full_names_def)
  moreover have "py ''exception_applies'' \<notin> py ` set full_names" by (simp add: full_names_def)
  moreover have "set (map py [''named_means_or_concrete_state'', ''org_boundary'', ''external_verification'', ''willingness_only'']) \<subseteq> py ` set full_names"
    by (simp add: full_names_def)
  ultimately show ?thesis
    by (auto simp: required_facts_def exception_names_def)
qed

lemma full_rescored: "\<exists>d. create_rescore sample_platform shipped_pack (Some full_tags) shipped_pack sample_context None = Inr (Rescored d)"
proof -
  obtain rows where rows: "raw_elements shipped_pack = Inr rows" "distinct (map fst rows)" "list_all is_row rows" "management_raw rows"
    using shipped_raw by blast
  obtain required where req: "required_facts full_tags shipped_pack rows = Inr (required, [])" "set required \<subseteq> py ` set full_names"
    using full_required [OF rows(4)] by blast
  have none: "filter (\<lambda>n. tag_facts full_tags n = None) required = []"
    using req(2) by (auto simp: filter_empty_conv full_facts)
  have v: "validate_inputs full_tags sample_context shipped_pack = Inr ()" unfolding full_tags_def by (rule sample_validated) simp_all
  have "apply_source_exceptions full_tags sample_context shipped_pack False = Inr no_effect"
    unfolding full_tags_def by (rule sample_exceptions) (simp_all add: full_names_def)
  from shipped_total [OF shipped_pack_content this] obtain d where "evaluate_scoped sample_platform full_tags sample_context shipped_pack False False = Inr d" by blast
  moreover have "\<not> list_ex (\<lambda>f. cf_state f = Absent_in_scope) (ct_facts full_tags)"
    by (simp add: full_tags_def sample_tags_def full_names_def absent_fact_def plain_fact_def)
  ultimately have ev: "evaluate sample_platform full_tags sample_context shipped_pack = Inr d" by (simp add: evaluate_def)
  obtain c where c: "checklists shipped_pack = Inr c" "py_equal c c"
    by (simp add: checklists_def shipped_safe_harbor_file [OF shipped_pack_content] safe_harbor_yaml_def dict_of_jb_def jb_def jitem_def str_list_def)
  have ids: "rp_tenant_id shipped_pack = rc_tenant_id sample_context" "rp_mode shipped_pack = rc_mode sample_context" "rc_decision_revision sample_context = 1"
    by (simp_all add: shipped_pack_def sample_context_def)
  show ?thesis
    unfolding create_rescore_def using rows(1,2) unchanged_pack [OF rows(2,3)] req(1) none v ev c ids
    by (simp add: check_revision_def py_duplicates_iff)
qed

theorem rescore_reuses_only_complete_tags_witness:
  "\<exists>d. create_rescore sample_platform shipped_pack (Some full_tags) shipped_pack sample_context None = Inr (Rescored d)
     \<and> evaluate sample_platform full_tags sample_context shipped_pack = Inr d"
proof -
  obtain d where d: "create_rescore sample_platform shipped_pack (Some full_tags) shipped_pack sample_context None = Inr (Rescored d)"
    using full_rescored by blast
  with rescore_reuses_only_complete_tags [OF d] show ?thesis by auto
qed

end
