(* ===== verification/Scheduler.thy ===== *)
theory Scheduler
  imports Growing_Store
begin

text \<open>
  Admission of provider calls: \<^verbatim>\<open>adapters/local/provider_concurrency.py\<close>, \<^verbatim>\<open>adapters/local/provider_scheduler.py\<close> and the policies of
  \<^verbatim>\<open>application/provider_resilience.py\<close>.

  The fields of \<^verbatim>\<open>ProviderConcurrency\<close> are the record \<open>provider_concurrency\<close>, which \<open>role_concurrency\<close> extends as the class \<^verbatim>\<open>RoleProviderConcurrency\<close> does.
  Threads meet at one condition variable, so one operation is one critical section: a turn of a waiting thread either raises, goes on, or waits again.
  Times are the values of floats; float addition, subtraction and the quotient \<^verbatim>\<open>1 / n\<close> are the fields of \<open>clock_env\<close>. The resilience directory is the list of
  its events in the order of the file names. A ticket is the dictionary in its queue, identified by its sequence number. Diagnostics are left out.
\<close>

section \<open>Policies\<close>

record scheduler_policy =
  pl_profile :: pystr
  pl_roles :: "pystr list"
  pl_priority :: pystr
  pl_max_priority_bypass :: int
  pl_concurrency :: pystr
  pl_pacing :: pystr
  pl_default_workers :: int
  pl_max_workers :: int
  pl_default_rps :: int
  pl_max_rps :: int

definition CONSECUTIVE_DENIALS :: int where
  "CONSECUTIVE_DENIALS = 3"

definition REQUESTS_PER_SECOND :: int where
  "REQUESTS_PER_SECOND = 4"

definition SCHEDULER_POLICY :: scheduler_policy where
  "SCHEDULER_POLICY = \<lparr>pl_profile = py ''physical-attempt-role-queues-s5-v1'',
     pl_roles = [py ''elements'', py ''relation'', py ''preliminary'', py ''extract''],
     pl_priority = py ''tagging-critical-path-first-fifo-within-role'', pl_max_priority_bypass = 8,
     pl_concurrency = py ''physical-attempt-only-shared-across-roles-and-retries'', pl_pacing = py ''uniform-start-spacing-no-burst'',
     pl_default_workers = 8, pl_max_workers = 16, pl_default_rps = 4, pl_max_rps = 8\<rparr>"

definition SCHEDULER_C24_POLICY :: scheduler_policy where
  "SCHEDULER_C24_POLICY = SCHEDULER_POLICY\<lparr>pl_profile := py ''physical-attempt-role-queues-c24-v1'', pl_max_workers := 24, pl_max_rps := 12\<rparr>"

section \<open>Bounded admission\<close>

record clock_env =
  ck_plus :: "rat \<Rightarrow> rat \<Rightarrow> rat"
  ck_minus :: "rat \<Rightarrow> rat \<Rightarrow> rat"
  ck_interval :: "int \<Rightarrow> rat"

type_synonym call_outcome = "pystr option \<times> bool"

record provider_concurrency =
  pc_limit :: int
  pc_cooldown_seconds :: rat
  pc_max_cooldown_seconds :: rat
  pc_active :: int
  pc_peak :: int
  pc_rate_limits :: int
  pc_not_before :: rat
  pc_deferred :: bool
  pc_resilience_directory :: "call_outcome list option"
  pc_consecutive_denials :: int
  pc_failed_calls :: int
  pc_circuit_deferred :: int
  pc_uncertain_calls :: int
  pc_circuit_open :: bool
  pc_events :: int
  pc_http_not_before :: rat

datatype refusal = ProviderCircuitOpen | ProviderAdmissionDeferred | PlainRefusal string

datatype turn_verdict = Waits | Admitted | Raised refusal

definition denied :: "pystr option" where
  "denied = Some (py ''OPENAI_HTTP_403'')"

definition observe_outcome :: "call_outcome \<Rightarrow> 'a provider_concurrency_scheme \<Rightarrow> 'a provider_concurrency_scheme" where
  "observe_outcome e s =
     (let s1 = (if fst e \<noteq> None then s\<lparr>pc_failed_calls := pc_failed_calls s + 1, pc_uncertain_calls := pc_uncertain_calls s + (if snd e then 1 else 0)\<rparr> else s);
          s2 = s1\<lparr>pc_consecutive_denials := (if fst e = denied then pc_consecutive_denials s1 + 1 else 0)\<rparr>
      in s2\<lparr>pc_circuit_open := pc_circuit_open s2 \<or> CONSECUTIVE_DENIALS \<le> pc_consecutive_denials s2\<rparr>)"

definition replay_outcome :: "call_outcome \<Rightarrow> 'a provider_concurrency_scheme \<Rightarrow> 'a provider_concurrency_scheme" where
  "replay_outcome e s = (let s1 = observe_outcome e s in s1\<lparr>pc_events := pc_events s1 + 1\<rparr>)"

definition observe :: "call_outcome \<Rightarrow> 'a provider_concurrency_scheme \<Rightarrow> 'a provider_concurrency_scheme" where
  "observe e s = observe_outcome e (s\<lparr>pc_resilience_directory := map_option (\<lambda>es. es @ [e]) (pc_resilience_directory s), pc_events := pc_events s + 1\<rparr>)"

definition mk_provider_concurrency :: "int \<Rightarrow> rat \<Rightarrow> rat \<Rightarrow> call_outcome list option \<Rightarrow> provider_concurrency result" where
  "mk_provider_concurrency workers cooldown_seconds max_cooldown_seconds directory =
     (if \<not> (1 \<le> workers \<and> workers \<le> 24) then Inl (ValueError ''PROVIDER_CONCURRENCY_INVALID'')
      else Inr (fold replay_outcome (case directory of None \<Rightarrow> [] | Some es \<Rightarrow> es)
        \<lparr>pc_limit = workers, pc_cooldown_seconds = cooldown_seconds, pc_max_cooldown_seconds = max_cooldown_seconds,
         pc_active = 0, pc_peak = 0, pc_rate_limits = 0, pc_not_before = 0, pc_deferred = False, pc_resilience_directory = directory,
         pc_consecutive_denials = 0, pc_failed_calls = 0, pc_circuit_deferred = 0, pc_uncertain_calls = 0, pc_circuit_open = False,
         pc_events = 0, pc_http_not_before = 0\<rparr>))"

definition defer_circuit :: "'a provider_concurrency_scheme \<Rightarrow> 'a provider_concurrency_scheme" where
  "defer_circuit s = s\<lparr>pc_circuit_deferred := pc_circuit_deferred s + 1\<rparr>"

definition take_slot :: "'a provider_concurrency_scheme \<Rightarrow> 'a provider_concurrency_scheme" where
  "take_slot s = s\<lparr>pc_active := pc_active s + 1, pc_peak := max (pc_peak s) (pc_active s + 1)\<rparr>"

definition release_slot :: "'a provider_concurrency_scheme \<Rightarrow> 'a provider_concurrency_scheme" where
  "release_slot s = s\<lparr>pc_active := pc_active s - 1\<rparr>"

definition rate_limited :: "clock_env \<Rightarrow> rat \<Rightarrow> rat option \<Rightarrow> 'a provider_concurrency_scheme \<Rightarrow> 'a provider_concurrency_scheme" where
  "rate_limited E now retry_after s =
     (let s1 = s\<lparr>pc_rate_limits := pc_rate_limits s + 1, pc_limit := max 1 (pc_limit s div 2)\<rparr>;
          delay = (case retry_after of None \<Rightarrow> pc_cooldown_seconds s | Some d \<Rightarrow> d)
      in if delay > pc_max_cooldown_seconds s then s1\<lparr>pc_deferred := True\<rparr>
         else s1\<lparr>pc_not_before := max (pc_not_before s) (ck_plus E now delay)\<rparr>)"

definition pace_http :: "clock_env \<Rightarrow> rat \<Rightarrow> rat \<Rightarrow> 'a provider_concurrency_scheme \<Rightarrow> turn_verdict \<times> 'a provider_concurrency_scheme" where
  "pace_http E now later s =
     (if pc_circuit_open s then (Raised ProviderCircuitOpen, defer_circuit s)
      else if now < pc_http_not_before s then (Waits, s)
      else (Admitted, s\<lparr>pc_http_not_before := ck_plus E later (ck_interval E REQUESTS_PER_SECOND)\<rparr>))"

definition call_turn :: "clock_env \<Rightarrow> rat \<Rightarrow> rat \<Rightarrow> 'a provider_concurrency_scheme \<Rightarrow> turn_verdict \<times> 'a provider_concurrency_scheme" where
  "call_turn E now later s =
     (if pc_active s \<ge> pc_limit s \<or> now < pc_not_before s
      then if pc_circuit_open s then (Raised (PlainRefusal ''PROVIDER_CIRCUIT_OPEN''), defer_circuit s)
           else if pc_deferred s then (Raised (PlainRefusal ''OPENAI_HTTP_429''), s) else (Waits, s)
      else if pc_deferred s then (Raised (PlainRefusal ''OPENAI_HTTP_429''), s)
      else if pc_circuit_open s then (Raised (PlainRefusal ''PROVIDER_CIRCUIT_OPEN''), defer_circuit s)
      else (Admitted, take_slot (if pc_resilience_directory s \<noteq> None
              then s\<lparr>pc_not_before := ck_plus E later (ck_interval E REQUESTS_PER_SECOND)\<rparr> else s)))"

text \<open>What the modelled code asks of an exception: its text, its classes and the delay it carries.\<close>

record failure =
  fl_raw :: pystr
  fl_value_error :: bool
  fl_os_error :: bool
  fl_not_sent :: bool
  fl_transient_403 :: bool
  fl_retry_after_seconds :: "rat option"

definition call_finish :: "clock_env \<Rightarrow> rat \<Rightarrow> failure option \<Rightarrow> 'a provider_concurrency_scheme \<Rightarrow> 'a provider_concurrency_scheme" where
  "call_finish E now error s = release_slot (case error of None \<Rightarrow> s
     | Some f \<Rightarrow> if fl_value_error f \<and> fl_raw f = py ''OPENAI_HTTP_429'' then rate_limited E now (fl_retry_after_seconds f) s else s)"

section \<open>Role queues\<close>

record ticket =
  tc_role :: pystr
  tc_queued :: rat
  tc_bypass :: int
  tc_sequence :: int

record role_concurrency = provider_concurrency +
  pc_policy :: scheduler_policy
  pc_requests_per_second :: int
  pc_queues :: "(pystr \<times> ticket list) list"
  pc_physical_attempts :: int
  pc_attempt_admissions :: int
  pc_transport_not_before :: rat
  pc_sequence :: int
  pc_queue_seconds :: rat
  pc_completed_by_role :: "(pystr \<times> int) list"
  pc_transport_starts :: "rat list"

definition mk_role_concurrency ::
  "int \<Rightarrow> int \<Rightarrow> scheduler_policy option \<Rightarrow> rat \<Rightarrow> rat \<Rightarrow> call_outcome list option \<Rightarrow> role_concurrency result" where
  "mk_role_concurrency workers requests_per_second scheduler_policy cooldown_seconds max_cooldown_seconds directory =
     (let policy = (case scheduler_policy of None \<Rightarrow> SCHEDULER_C24_POLICY | Some p \<Rightarrow> p)
      in if policy \<noteq> SCHEDULER_POLICY \<and> policy \<noteq> SCHEDULER_C24_POLICY then Inl (ValueError ''PROVIDER_SCHEDULER_POLICY_MISMATCH'')
         else bindE (mk_provider_concurrency workers cooldown_seconds max_cooldown_seconds directory) (\<lambda>base.
           if workers > pl_max_workers policy then Inl (ValueError ''PROVIDER_CONCURRENCY_INVALID'')
           else if \<not> (1 \<le> requests_per_second \<and> requests_per_second \<le> pl_max_rps policy) then Inl (ValueError ''HOSTED_LLM_RPS_INVALID'')
           else Inr (provider_concurrency.extend base (role_concurrency.fields policy requests_per_second
             (map (\<lambda>r. (r, [])) (pl_roles policy)) 0 0 0 0 0 (map (\<lambda>r. (r, 0)) (pl_roles policy)) []))))"

definition enqueue :: "rat \<Rightarrow> pystr \<Rightarrow> role_concurrency \<Rightarrow> (role_concurrency \<times> ticket) result" where
  "enqueue now role s =
     (if role \<notin> fst ` set (pc_queues s) then Inl (ValueError ''PROVIDER_ROLE_INVALID'')
      else let item = \<lparr>tc_role = role, tc_queued = now, tc_bypass = 0, tc_sequence = pc_sequence s + 1\<rparr>
           in Inr (s\<lparr>pc_sequence := pc_sequence s + 1,
                     pc_queues := map (\<lambda>(r, q). (r, if r = role then q @ [item] else q)) (pc_queues s)\<rparr>, item))"

definition heads :: "role_concurrency \<Rightarrow> ticket list" where
  "heads s = map (\<lambda>(r, q). hd q) (filter (\<lambda>(r, q). q \<noteq> []) (pc_queues s))"

definition age :: "ticket \<Rightarrow> rat \<times> int" where
  "age t = (tc_queued t, tc_sequence t)"

definition oldest :: "ticket \<Rightarrow> ticket list \<Rightarrow> ticket" where
  "oldest = foldl (\<lambda>m t. if age t < age m then t else m)"

definition next_ticket :: "role_concurrency \<Rightarrow> ticket option" where
  "next_ticket s = (case heads s of [] \<Rightarrow> None
     | h # hs \<Rightarrow> let old = oldest h hs in Some (if tc_bypass old \<ge> pl_max_priority_bypass (pc_policy s) then old else h))"

definition withdraw :: "pystr \<Rightarrow> int \<Rightarrow> role_concurrency \<Rightarrow> role_concurrency" where
  "withdraw role n s = s\<lparr>pc_queues := map (\<lambda>(r, q). (r, if r = role then filter (\<lambda>t. tc_sequence t \<noteq> n) q else q)) (pc_queues s)\<rparr>"

definition bump :: "ticket \<Rightarrow> ticket" where
  "bump t = t\<lparr>tc_bypass := tc_bypass t + 1\<rparr>"

definition dequeue :: "pystr \<Rightarrow> int \<Rightarrow> role_concurrency \<Rightarrow> role_concurrency" where
  "dequeue role n s = (let s1 = withdraw role n s in s1\<lparr>pc_queues := map (\<lambda>(r, q). (r, map bump q)) (pc_queues s1)\<rparr>)"

definition attempt_turn :: "clock_env \<Rightarrow> rat \<Rightarrow> pystr \<Rightarrow> int \<Rightarrow> role_concurrency \<Rightarrow> turn_verdict \<times> role_concurrency" where
  "attempt_turn E now role n s =
     (if pc_circuit_open s then (Raised ProviderCircuitOpen, withdraw role n (defer_circuit s))
      else if pc_deferred s then (Raised ProviderAdmissionDeferred, withdraw role n s)
      else case next_ticket s of None \<Rightarrow> (Waits, s)
      | Some t \<Rightarrow>
        if tc_sequence t = n \<and> pc_active s < pc_limit s \<and> max (pc_not_before s) (pc_http_not_before s) \<le> now
        then let s1 = take_slot (dequeue role n s)
             in (Admitted, s1\<lparr>pc_attempt_admissions := pc_attempt_admissions s1 + 1,
                   pc_http_not_before := ck_plus E now (ck_interval E (pc_requests_per_second s1)),
                   pc_queue_seconds := ck_plus E (pc_queue_seconds s1) (ck_minus E now (tc_queued t))\<rparr>)
        else (Waits, s))"

definition failure_code :: "failure \<Rightarrow> pystr" where
  "failure_code f = (if fl_transient_403 f then py ''TRANSIENT_OVERLOAD''
     else if py_startswith (fl_raw f) (py ''OPENAI_HTTP_'') then fl_raw f else py ''PROCESSING_UNCERTAIN'')"

definition failure_uncertain :: "failure \<Rightarrow> bool" where
  "failure_uncertain f \<longleftrightarrow> fl_raw f = py ''PROCESSING_UNCERTAIN'' \<or> fl_os_error f \<and> \<not> fl_not_sent f"

definition attempt_finish :: "clock_env \<Rightarrow> rat \<Rightarrow> pystr \<Rightarrow> failure option \<Rightarrow> role_concurrency \<Rightarrow> role_concurrency" where
  "attempt_finish E now role error s =
     (let s1 = (case error of None \<Rightarrow> s
                | Some f \<Rightarrow> if fl_raw f = py ''OPENAI_HTTP_429'' then rate_limited E now (fl_retry_after_seconds f) s else s);
          e = (case error of None \<Rightarrow> (None, False) | Some f \<Rightarrow> (Some (failure_code f), failure_uncertain f));
          s2 = release_slot (if pc_resilience_directory s1 \<noteq> None then observe e s1 else observe_outcome e s1)
      in s2\<lparr>pc_completed_by_role := map (\<lambda>(r, k). (r, if r = role then k + 1 else k)) (pc_completed_by_role s2)\<rparr>)"

definition pace_transport :: "clock_env \<Rightarrow> rat \<Rightarrow> rat \<Rightarrow> role_concurrency \<Rightarrow> turn_verdict \<times> role_concurrency" where
  "pace_transport E now current s =
     (if pc_deferred s then (Raised (PlainRefusal ''OPENAI_HTTP_429''), s)
      else if now < max (pc_transport_not_before s) (pc_not_before s) then (Waits, s)
      else (Admitted, s\<lparr>pc_transport_not_before := ck_plus E current (ck_interval E (pc_requests_per_second s)),
              pc_physical_attempts := pc_physical_attempts s + 1,
              pc_transport_starts := dropWhile (\<lambda>t. t < ck_minus E current 60) (pc_transport_starts s @ [current])\<rparr>))"

definition recent_requests :: "clock_env \<Rightarrow> rat \<Rightarrow> role_concurrency \<Rightarrow> nat \<times> nat" where
  "recent_requests E current s =
     (length (filter (\<lambda>t. t > ck_minus E current 1) (pc_transport_starts s)),
      length (filter (\<lambda>t. t > ck_minus E current 60) (pc_transport_starts s)))"

end
