(* ===== verification/Scheduler_Props.thy ===== *)
theory Scheduler_Props
  imports Scheduler
begin

text \<open>
  What the provider scheduler guarantees: a waiting attempt is overtaken a bounded number of times and an open gate is never idle
  (\<open>overtaking_is_bounded\<close>), and the circuit opens exactly on three denials in a row, stays open over a restart and admits nothing
  (\<open>circuit_opens_on_three_denials\<close>). The queues are kept ordered by age under every interleaving of operations.
\<close>

section \<open>Interleavings\<close>

definition waiting :: "role_concurrency \<Rightarrow> ticket set" where
  "waiting s = (\<Union>(r, q)\<in>set (pc_queues s). set q)"

inductive sched_step :: "clock_env \<Rightarrow> rat \<times> role_concurrency \<Rightarrow> rat \<times> role_concurrency \<Rightarrow> bool" for E where
  Enqueue: "now \<le> now' \<Longrightarrow> enqueue now' role s = Inr (s', t) \<Longrightarrow> sched_step E (now, s) (now', s')"
| Turn: "now \<le> now' \<Longrightarrow> t \<in> waiting s \<Longrightarrow> attempt_turn E now' (tc_role t) (tc_sequence t) s = (v, s') \<Longrightarrow> sched_step E (now, s) (now', s')"
| Interrupt: "now \<le> now' \<Longrightarrow> t \<in> waiting s \<Longrightarrow> sched_step E (now, s) (now', withdraw (tc_role t) (tc_sequence t) s)"
| Finish: "now \<le> now' \<Longrightarrow> sched_step E (now, s) (now', attempt_finish E now' role error s)"
| Transport: "now \<le> now' \<Longrightarrow> now' \<le> now'' \<Longrightarrow> pace_transport E now' now'' s = (v, s') \<Longrightarrow> sched_step E (now, s) (now'', s')"

inductive sched_reached :: "clock_env \<Rightarrow> rat \<times> role_concurrency \<Rightarrow> bool" for E where
  Open: "mk_role_concurrency workers rps policy cooldown max_cooldown directory = Inr s \<Longrightarrow> sched_reached E (now, s)"
| Step: "sched_reached E c \<Longrightarrow> sched_step E c d \<Longrightarrow> sched_reached E d"

inductive_cases sched_stepE: "sched_step E c d"

section \<open>Queues stay ordered by age\<close>

text \<open>
  Tickets are unique by their number and kept in the queue of their role; an earlier number means an earlier time and at least as many
  overtakings, and within a queue the numbers ascend.
\<close>

definition by_age :: "ticket \<Rightarrow> ticket \<Rightarrow> bool" where
  "by_age t u \<longleftrightarrow> tc_sequence t < tc_sequence u \<longrightarrow> tc_queued t \<le> tc_queued u \<and> tc_bypass u \<le> tc_bypass t"

definition queues_ok :: "rat \<times> role_concurrency \<Rightarrow> bool" where
  "queues_ok c \<longleftrightarrow> (\<forall>(r, q)\<in>set (pc_queues (snd c)). sorted_wrt (<) (map tc_sequence q) \<and> (\<forall>t\<in>set q. tc_role t = r))
     \<and> distinct (map fst (pc_queues (snd c)))
     \<and> inj_on tc_sequence (waiting (snd c))
     \<and> (\<forall>t\<in>waiting (snd c). tc_queued t \<le> fst c \<and> tc_sequence t \<le> pc_sequence (snd c) \<and> 0 \<le> tc_bypass t)
     \<and> (\<forall>t\<in>waiting (snd c). \<forall>u\<in>waiting (snd c). by_age t u)"

lemma queues_parts:
  assumes "queues_ok c"
  shows "(r, q) \<in> set (pc_queues (snd c)) \<Longrightarrow> sorted_wrt (<) (map tc_sequence q)"
    and "(r, q) \<in> set (pc_queues (snd c)) \<Longrightarrow> t \<in> set q \<Longrightarrow> tc_role t = r"
    and "distinct (map fst (pc_queues (snd c)))"
    and "inj_on tc_sequence (waiting (snd c))"
    and "u \<in> waiting (snd c) \<Longrightarrow> tc_queued u \<le> fst c \<and> tc_sequence u \<le> pc_sequence (snd c) \<and> 0 \<le> tc_bypass u"
    and "v \<in> waiting (snd c) \<Longrightarrow> w \<in> waiting (snd c) \<Longrightarrow> by_age v w"
  using assms by (auto simp: queues_ok_def split_beta)

lemma queues_okI:
  assumes "\<And>r q. (r, q) \<in> set (pc_queues s) \<Longrightarrow> sorted_wrt (<) (map tc_sequence q) \<and> (\<forall>t\<in>set q. tc_role t = r)"
    and "distinct (map fst (pc_queues s))" and "inj_on tc_sequence (waiting s)"
    and "\<And>t. t \<in> waiting s \<Longrightarrow> tc_queued t \<le> now \<and> tc_sequence t \<le> pc_sequence s \<and> 0 \<le> tc_bypass t"
    and "\<And>t u. t \<in> waiting s \<Longrightarrow> u \<in> waiting s \<Longrightarrow> by_age t u"
  shows "queues_ok (now, s)"
  using assms by (auto simp: queues_ok_def)

text \<open>Operations that leave the queues alone.\<close>

lemma base_queues [simp]:
  "pc_queues (defer_circuit s) = pc_queues s" "pc_queues (take_slot s) = pc_queues s" "pc_queues (release_slot s) = pc_queues s"
  "pc_queues (rate_limited E now d s) = pc_queues s" "pc_queues (observe_outcome e s) = pc_queues s" "pc_queues (observe e s) = pc_queues s"
  by (simp_all add: defer_circuit_def take_slot_def release_slot_def rate_limited_def observe_outcome_def observe_def Let_def)

lemma base_sequence [simp]:
  "pc_sequence (defer_circuit s) = pc_sequence s" "pc_sequence (take_slot s) = pc_sequence s" "pc_sequence (release_slot s) = pc_sequence s"
  "pc_sequence (rate_limited E now d s) = pc_sequence s" "pc_sequence (observe_outcome e s) = pc_sequence s" "pc_sequence (observe e s) = pc_sequence s"
  by (simp_all add: defer_circuit_def take_slot_def release_slot_def rate_limited_def observe_outcome_def observe_def Let_def)

lemma base_admissions [simp]:
  "pc_attempt_admissions (defer_circuit s) = pc_attempt_admissions s" "pc_attempt_admissions (take_slot s) = pc_attempt_admissions s"
  "pc_attempt_admissions (release_slot s) = pc_attempt_admissions s" "pc_attempt_admissions (rate_limited E now d s) = pc_attempt_admissions s"
  "pc_attempt_admissions (observe_outcome e s) = pc_attempt_admissions s" "pc_attempt_admissions (observe e s) = pc_attempt_admissions s"
  by (simp_all add: defer_circuit_def take_slot_def release_slot_def rate_limited_def observe_outcome_def observe_def Let_def)

lemma base_policy [simp]:
  "pc_policy (defer_circuit s) = pc_policy s" "pc_policy (take_slot s) = pc_policy s" "pc_policy (release_slot s) = pc_policy s"
  "pc_policy (rate_limited E now d s) = pc_policy s" "pc_policy (observe_outcome e s) = pc_policy s" "pc_policy (observe e s) = pc_policy s"
  by (simp_all add: defer_circuit_def take_slot_def release_slot_def rate_limited_def observe_outcome_def observe_def Let_def)

lemma finish_keeps [simp]:
  "pc_queues (attempt_finish E now role error s) = pc_queues s" "pc_sequence (attempt_finish E now role error s) = pc_sequence s"
  "pc_attempt_admissions (attempt_finish E now role error s) = pc_attempt_admissions s" "pc_policy (attempt_finish E now role error s) = pc_policy s"
  by (simp_all add: attempt_finish_def Let_def split: option.splits)

lemma withdraw_keeps [simp]:
  "pc_sequence (withdraw r n s) = pc_sequence s" "pc_attempt_admissions (withdraw r n s) = pc_attempt_admissions s" "pc_policy (withdraw r n s) = pc_policy s"
  "pc_circuit_open (withdraw r n s) = pc_circuit_open s" "map fst (pc_queues (withdraw r n s)) = map fst (pc_queues s)"
  by (simp_all add: withdraw_def comp_def split_beta)

lemma dequeue_keeps [simp]:
  "pc_sequence (dequeue r n s) = pc_sequence s" "pc_attempt_admissions (dequeue r n s) = pc_attempt_admissions s" "pc_policy (dequeue r n s) = pc_policy s"
  by (simp_all add: dequeue_def Let_def)

lemma bump_simps [simp]: "tc_sequence (bump t) = tc_sequence t" "tc_queued (bump t) = tc_queued t" "tc_role (bump t) = tc_role t" "tc_bypass (bump t) = tc_bypass t + 1"
  by (simp_all add: bump_def)

lemma waiting_withdraw:
  assumes "queues_ok (now, s)" "t \<in> waiting s"
  shows "waiting (withdraw (tc_role t) (tc_sequence t) s) = waiting s - {t}"
proof -
  note p = queues_parts [OF assms(1), simplified]
  have "u = t" if "u \<in> waiting s" "tc_sequence u = tc_sequence t" for u
    using p(4) that assms(2) by (auto dest: inj_onD)
  moreover have "tc_role u = r" if "(r, q) \<in> set (pc_queues s)" "u \<in> set q" for r q u
    using p(2) that by blast
  ultimately show ?thesis
    by (fastforce simp: waiting_def withdraw_def split: if_splits)
qed

lemma waiting_dequeue:
  "waiting (dequeue r n s) = bump ` waiting (withdraw r n s)"
  by (auto simp: dequeue_def waiting_def Let_def split_beta)

lemma waiting_enqueue:
  assumes "enqueue now role s = Inr (s', t)"
  shows "waiting s' = insert t (waiting s)" "tc_sequence t = pc_sequence s + 1" "tc_queued t = now" "tc_bypass t = 0" "tc_role t = role"
    "pc_sequence s' = pc_sequence s + 1" "pc_attempt_admissions s' = pc_attempt_admissions s" "pc_policy s' = pc_policy s"
    "pc_queues s' = map (\<lambda>(r, q). (r, if r = role then q @ [t] else q)) (pc_queues s)"
  using assms by (force simp: enqueue_def waiting_def Let_def split: if_splits)+

lemma sorted_filter_seq: "sorted_wrt (<) (map tc_sequence q) \<Longrightarrow> sorted_wrt (<) (map tc_sequence (filter P q))"
  by (induction q) auto

lemma withdraw_ok:
  assumes "queues_ok (now, s)" "t \<in> waiting s" "now \<le> now'"
  shows "queues_ok (now', withdraw (tc_role t) (tc_sequence t) s)"
proof -
  note p = queues_parts [OF assms(1), simplified]
  have w: "waiting (withdraw (tc_role t) (tc_sequence t) s) \<subseteq> waiting s"
    using waiting_withdraw [OF assms(1,2)] by blast
  have q: "\<exists>q0. (r, q0) \<in> set (pc_queues s) \<and> (\<exists>P. q = filter P q0)" if "(r, q) \<in> set (pc_queues (withdraw (tc_role t) (tc_sequence t) s))" for r q
    using that by (force simp: withdraw_def intro: filter_True [symmetric])
  show ?thesis
  proof (rule queues_okI)
    fix r q assume "(r, q) \<in> set (pc_queues (withdraw (tc_role t) (tc_sequence t) s))"
    then obtain q0 P where "(r, q0) \<in> set (pc_queues s)" "q = filter P q0" using q by blast
    then show "sorted_wrt (<) (map tc_sequence q) \<and> (\<forall>t\<in>set q. tc_role t = r)"
      using p(1,2) by (auto simp: sorted_filter_seq)
  next
    show "inj_on tc_sequence (waiting (withdraw (tc_role t) (tc_sequence t) s))" using p(4) w by (rule inj_on_subset)
  next
    fix u assume "u \<in> waiting (withdraw (tc_role t) (tc_sequence t) s)"
    with w have "u \<in> waiting s" by blast
    from p(5) [OF this] assms(3) show "tc_queued u \<le> now' \<and> tc_sequence u \<le> pc_sequence (withdraw (tc_role t) (tc_sequence t) s) \<and> 0 \<le> tc_bypass u"
      by simp
  qed (use p(3,6) w in auto)
qed

lemma dequeue_ok:
  assumes "queues_ok (now, s)" "t \<in> waiting s" "now \<le> now'"
  shows "queues_ok (now', dequeue (tc_role t) (tc_sequence t) s)"
proof -
  let ?s = "withdraw (tc_role t) (tc_sequence t) s"
  note p = queues_parts [OF withdraw_ok [OF assms], unfolded fst_conv snd_conv]
  have q: "pc_queues (dequeue (tc_role t) (tc_sequence t) s) = map (\<lambda>(r, q). (r, map bump q)) (pc_queues ?s)"
    by (simp add: dequeue_def Let_def)
  show ?thesis
  proof (rule queues_okI)
    fix r q' assume "(r, q') \<in> set (pc_queues (dequeue (tc_role t) (tc_sequence t) s))"
    then obtain q0 where "(r, q0) \<in> set (pc_queues ?s)" "q' = map bump q0" unfolding q by auto
    then show "sorted_wrt (<) (map tc_sequence q') \<and> (\<forall>t\<in>set q'. tc_role t = r)"
      using p(1,2) by (auto simp: comp_def)
  next
    show "distinct (map fst (pc_queues (dequeue (tc_role t) (tc_sequence t) s)))"
      unfolding q using p(3) by (simp add: comp_def split_beta)
  next
    show "inj_on tc_sequence (waiting (dequeue (tc_role t) (tc_sequence t) s))"
      unfolding waiting_dequeue using p(4) by (auto simp: inj_on_def)
  next
    fix u assume "u \<in> waiting (dequeue (tc_role t) (tc_sequence t) s)"
    then obtain u0 where "u0 \<in> waiting ?s" "u = bump u0" unfolding waiting_dequeue by blast
    with p(5) [of u0] show "tc_queued u \<le> now' \<and> tc_sequence u \<le> pc_sequence (dequeue (tc_role t) (tc_sequence t) s) \<and> 0 \<le> tc_bypass u"
      by simp
  next
    fix u v assume "u \<in> waiting (dequeue (tc_role t) (tc_sequence t) s)" "v \<in> waiting (dequeue (tc_role t) (tc_sequence t) s)"
    then show "by_age u v" unfolding waiting_dequeue using p(6) by (auto simp: by_age_def)
  qed
qed

lemma enqueue_ok:
  assumes ok: "queues_ok (now, s)" and le: "now \<le> now'" and e: "enqueue now' role s = Inr (s', t)"
  shows "queues_ok (now', s')"
proof -
  note p = queues_parts [OF ok, simplified]
  note w = waiting_enqueue [OF e]
  have seq: "tc_sequence u \<le> pc_sequence s" if "(r, q) \<in> set (pc_queues s)" "u \<in> set q" for r q u
    using p(5) [of u] that by (auto simp: waiting_def)
  have "sorted_wrt (<) (map tc_sequence q) \<and> (\<forall>u\<in>set q. tc_role u = r)" if "(r, q) \<in> set (pc_queues s')" for r q
    using that p(1,2) w(2,5) seq unfolding w(9) by (fastforce simp: sorted_wrt_append split: if_splits)
  moreover have "map fst (pc_queues s') = map fst (pc_queues s)"
    unfolding w(9) by (simp add: comp_def split_beta)
  moreover have "inj_on tc_sequence (waiting s')"
    using p(4,5) w(1,2) by (fastforce simp: inj_on_def)
  moreover have "by_age u v" if "u \<in> waiting s'" "v \<in> waiting s'" for u v
    using that p(5,6) w(1,2,3,4) le by (fastforce simp: by_age_def)
  moreover have "tc_queued u \<le> now' \<and> tc_sequence u \<le> pc_sequence s' \<and> 0 \<le> tc_bypass u" if "u \<in> waiting s'" for u
    using that p(5) w(1,2,3,4,6) le by fastforce
  ultimately show ?thesis
    using p(3) by (auto simp: queues_ok_def)
qed

lemma queues_ok_same:
  "queues_ok (now, s) \<Longrightarrow> now \<le> now' \<Longrightarrow> pc_queues s' = pc_queues s \<Longrightarrow> pc_sequence s' = pc_sequence s \<Longrightarrow> queues_ok (now', s')"
  by (fastforce simp: queues_ok_def waiting_def)

section \<open>Whose turn it is\<close>

lemma oldest_least: "oldest h hs \<in> set (h # hs) \<and> (\<forall>x\<in>set (h # hs). age (oldest h hs) \<le> age x)"
proof (induction hs arbitrary: h)
  case (Cons x hs)
  let ?h = "if age x < age h then x else h"
  have "oldest h (x # hs) = oldest ?h hs" by (simp add: oldest_def)
  moreover have "age ?h \<le> age x" "age ?h \<le> age h" by auto
  ultimately show ?case using Cons.IH [of ?h] by (auto split: if_splits intro: order_trans)
qed (simp add: oldest_def)

lemma head_waiting: "h \<in> set (heads s) \<Longrightarrow> h \<in> waiting s"
  by (force simp: heads_def waiting_def)

lemma head_before:
  assumes "queues_ok (now, s)" "u \<in> waiting s"
  shows "\<exists>h\<in>set (heads s). tc_sequence h \<le> tc_sequence u"
proof -
  obtain r q where q: "(r, q) \<in> set (pc_queues s)" "u \<in> set q" using assms(2) by (auto simp: waiting_def)
  then have "hd q \<in> set (heads s)" by (force simp: heads_def)
  moreover have "tc_sequence (hd q) \<le> tc_sequence u"
    using queues_parts(1) [OF assms(1), simplified, OF q(1)] q(2) by (cases q) auto
  ultimately show ?thesis by blast
qed

lemma age_sequence:
  assumes "by_age u t" "age t \<le> age u"
  shows "tc_sequence t \<le> tc_sequence u"
  using assms by (auto simp: by_age_def age_def less_eq_prod_def)

lemma next_ticket_waiting:
  assumes ok: "queues_ok (now, s)" and w: "waiting s \<noteq> {}"
  obtains t where "next_ticket s = Some t" "t \<in> waiting s"
    and "\<And>u. u \<in> waiting s \<Longrightarrow> pl_max_priority_bypass (pc_policy s) \<le> tc_bypass u \<Longrightarrow> tc_sequence t \<le> tc_sequence u"
proof -
  note p = queues_parts [OF ok, simplified]
  obtain h hs where hs: "heads s = h # hs"
    using head_before [OF ok] w by (cases "heads s") auto
  let ?o = "oldest h hs"
  have o: "?o \<in> waiting s" "\<And>x. x \<in> set (heads s) \<Longrightarrow> age ?o \<le> age x"
    using oldest_least [of h hs] head_waiting hs by auto
  have le: "tc_sequence ?o \<le> tc_sequence u" if u: "u \<in> waiting s" for u
  proof -
    obtain x where x: "x \<in> set (heads s)" "tc_sequence x \<le> tc_sequence u" using head_before [OF ok u] by blast
    then have "tc_sequence ?o \<le> tc_sequence x" using p(6) o head_waiting by (blast intro: age_sequence)
    with x show ?thesis by simp
  qed
  have "tc_bypass u \<le> tc_bypass ?o" if u: "u \<in> waiting s" for u
    using le [OF u] p(6) [OF o(1) u] inj_onD [OF p(4), of ?o u] o(1) u by (cases "tc_sequence ?o = tc_sequence u") (auto simp: by_age_def)
  with le o(1) head_waiting [of h s] that hs show ?thesis
    by (fastforce simp: next_ticket_def Let_def split: if_splits)
qed

section \<open>Steps\<close>

definition ahead :: "int \<Rightarrow> role_concurrency \<Rightarrow> nat" where
  "ahead n s = card {t \<in> waiting s. tc_sequence t < n}"

definition admits :: "role_concurrency \<Rightarrow> role_concurrency \<Rightarrow> bool" where
  "admits s s' \<longleftrightarrow> (\<exists>t\<in>waiting s. next_ticket s = Some t \<and> pc_attempt_admissions s' = pc_attempt_admissions s + 1 \<and> waiting s' = bump ` (waiting s - {t}))"

definition keeps_order :: "role_concurrency \<Rightarrow> role_concurrency \<Rightarrow> bool" where
  "keeps_order s s' \<longleftrightarrow> pc_attempt_admissions s' = pc_attempt_admissions s \<and> (\<forall>u\<in>waiting s'. u \<in> waiting s \<or> pc_sequence s < tc_sequence u)"

lemma waiting_same: "pc_queues s' = pc_queues s \<Longrightarrow> waiting s' = waiting s"
  by (simp add: waiting_def)

lemma turn_effect:
  assumes ok: "queues_ok (now, s)" and le: "now \<le> now'" and t: "t \<in> waiting s"
    and a: "attempt_turn E now' (tc_role t) (tc_sequence t) s = (v, s')"
  shows "queues_ok (now', s') \<and> pc_policy s' = pc_policy s \<and> pc_sequence s' = pc_sequence s \<and> (admits s s' \<or> keeps_order s s')"
proof -
  obtain x where x: "next_ticket s = Some x" "x \<in> waiting s" using next_ticket_waiting [OF ok] t by blast
  have refused: "?thesis" if "s' = withdraw (tc_role t) (tc_sequence t) s0" "pc_queues s0 = pc_queues s" "pc_sequence s0 = pc_sequence s"
      "pc_attempt_admissions s0 = pc_attempt_admissions s" "pc_policy s0 = pc_policy s" for s0
  proof -
    have ok0: "queues_ok (now, s0)" using queues_ok_same [OF ok order_refl that(2,3)] .
    have t0: "t \<in> waiting s0" using t waiting_same [OF that(2)] by simp
    show ?thesis
      using withdraw_ok [OF ok0 t0 le] waiting_withdraw [OF ok0 t0] that waiting_same [OF that(2)] by (auto simp: keeps_order_def)
  qed
  show ?thesis
  proof (cases "pc_circuit_open s \<or> pc_deferred s")
    case True
    with a refused [of "defer_circuit s"] refused [of s] show ?thesis by (auto simp: attempt_turn_def split: if_splits)
  next
    case False
    show ?thesis
    proof (cases "tc_sequence x = tc_sequence t \<and> pc_active s < pc_limit s \<and> max (pc_not_before s) (pc_http_not_before s) \<le> now'")
      case True
      then have "x = t" using inj_onD [OF queues_parts(4) [OF ok]] x(2) t by simp
      moreover have q: "pc_queues s' = pc_queues (dequeue (tc_role t) (tc_sequence t) s)" "pc_sequence s' = pc_sequence s" "pc_policy s' = pc_policy s"
        "pc_attempt_admissions s' = pc_attempt_admissions s + 1"
        using a False True x(1) by (auto simp: attempt_turn_def Let_def)
      ultimately show ?thesis
        using queues_ok_same [OF dequeue_ok [OF ok t le] order_refl q(1)] waiting_same [OF q(1)] waiting_withdraw [OF ok t] x t
        by (auto simp: admits_def waiting_dequeue)
    next
      case no: False
      with a False x(1) have "s' = s" by (auto simp: attempt_turn_def)
      then show ?thesis using queues_ok_same [OF ok le] by (simp add: keeps_order_def)
    qed
  qed
qed

lemma step_effect:
  assumes ok: "queues_ok c" and step: "sched_step E c d"
  shows "queues_ok d \<and> pc_policy (snd d) = pc_policy (snd c) \<and> pc_sequence (snd c) \<le> pc_sequence (snd d) \<and> (admits (snd c) (snd d) \<or> keeps_order (snd c) (snd d))"
  using step ok
proof cases
  case (Enqueue now now' role s s' t)
  with ok waiting_enqueue [OF Enqueue(4)] show ?thesis by (auto simp: keeps_order_def intro: enqueue_ok)
next
  case (Turn now now' t s v s')
  with ok turn_effect [OF _ Turn(3-5)] show ?thesis by fastforce
next
  case (Interrupt now now' t s)
  with ok withdraw_ok waiting_withdraw show ?thesis by (fastforce simp: keeps_order_def)
next
  case (Finish now now' s role error)
  with ok show ?thesis by (auto simp: keeps_order_def waiting_def intro: queues_ok_same)
next
  case (Transport now now' now'' s v s')
  then have "pc_queues s' = pc_queues s" "pc_sequence s' = pc_sequence s" "pc_attempt_admissions s' = pc_attempt_admissions s" "pc_policy s' = pc_policy s"
    by (auto simp: pace_transport_def split: if_splits)
  with ok Transport show ?thesis by (auto simp: keeps_order_def waiting_def intro: queues_ok_same)
qed

lemma finite_waiting [simp]: "finite (waiting s)"
  by (auto simp: waiting_def)

lemma ahead_le:
  assumes "keeps_order s s'" "n \<le> pc_sequence s"
  shows "ahead n s' \<le> ahead n s"
  unfolding ahead_def using assms by (intro card_mono) (auto simp: keeps_order_def)

lemma ahead_admits:
  assumes "waiting s' = bump ` (waiting s - {x})"
  shows "ahead n s' = card ({t \<in> waiting s. tc_sequence t < n} - {x})"
proof -
  have "{t \<in> waiting s'. tc_sequence t < n} = bump ` ({t \<in> waiting s. tc_sequence t < n} - {x})"
    using assms by auto
  moreover have "inj_on bump A" for A
  proof (rule inj_onI)
    fix t u assume "bump t = bump u"
    then show "t = u" by (cases t; cases u) (simp add: bump_def)
  qed
  ultimately show ?thesis by (simp add: ahead_def card_image)
qed

text \<open>Overtakings of a waiting ticket and the tickets before it: beyond the bound of the policy, every admission is of one before it.\<close>

definition patience :: "int \<Rightarrow> ticket \<Rightarrow> role_concurrency \<Rightarrow> int" where
  "patience B t s = max B (tc_bypass t) + int (ahead (tc_sequence t) s)"

lemma step_patience:
  assumes ok: "queues_ok c" and step: "sched_step E c d" and B: "B = pl_max_priority_bypass (pc_policy (snd c))"
    and u: "u \<in> waiting (snd d)" "tc_sequence u \<le> pc_sequence (snd c)"
  shows "\<exists>t\<in>waiting (snd c). tc_sequence t = tc_sequence u \<and> patience B u (snd d) \<le> patience B t (snd c)
           \<and> tc_bypass u - tc_bypass t = pc_attempt_admissions (snd d) - pc_attempt_admissions (snd c)"
proof -
  note eff = step_effect [OF ok step]
  show ?thesis
  proof (cases "admits (snd c) (snd d)")
    case True
    then obtain x where x: "x \<in> waiting (snd c)" "next_ticket (snd c) = Some x" "waiting (snd d) = bump ` (waiting (snd c) - {x})"
      and adm: "pc_attempt_admissions (snd d) = pc_attempt_admissions (snd c) + 1" by (auto simp: admits_def)
    obtain t where t: "t \<in> waiting (snd c)" "t \<noteq> x" "u = bump t" using u(1) x(3) by auto
    let ?A = "{y \<in> waiting (snd c). tc_sequence y < tc_sequence t}"
    have "patience B u (snd d) \<le> patience B t (snd c)"
    proof (cases "B \<le> tc_bypass t")
      case True
      have "tc_sequence x \<le> tc_sequence t"
        using next_ticket_waiting [of "fst c" "snd c"] ok x(1,2) t(1) True B
        by (metis empty_iff option.inject prod.collapse)
      moreover have "tc_sequence x \<noteq> tc_sequence t" using inj_onD [OF queues_parts(4) [OF ok]] x(1) t(1,2) by metis
      ultimately have "x \<in> ?A" using x(1) by simp
      moreover from this have "0 < card ?A" by (auto simp: card_gt_0_iff)
      ultimately have "card (?A - {x}) + 1 = card ?A" by simp
      then show ?thesis using True by (simp add: patience_def t(3) ahead_admits [OF x(3)]) (simp add: ahead_def)
    next
      case False
      have "card (?A - {x}) \<le> card ?A" by (rule card_mono) auto
      then show ?thesis using False by (simp add: patience_def t(3) ahead_admits [OF x(3)]) (simp add: ahead_def)
    qed
    with t adm show ?thesis by auto
  next
    case False
    with eff have k: "keeps_order (snd c) (snd d)" by blast
    then have "u \<in> waiting (snd c)" using u by (auto simp: keeps_order_def)
    with k ahead_le [OF k u(2)] show ?thesis by (intro bexI [of _ u]) (auto simp: patience_def keeps_order_def)
  qed
qed

lemma steps_patience:
  assumes "(sched_step E)\<^sup>*\<^sup>* c d" "queues_ok c" "B = pl_max_priority_bypass (pc_policy (snd c))"
    and "u \<in> waiting (snd d)" "tc_sequence u \<le> pc_sequence (snd c)"
  shows "\<exists>t\<in>waiting (snd c). tc_sequence t = tc_sequence u \<and> patience B u (snd d) \<le> patience B t (snd c)
           \<and> tc_bypass u - tc_bypass t = pc_attempt_admissions (snd d) - pc_attempt_admissions (snd c)"
  using assms
proof (induction arbitrary: u rule: converse_rtranclp_induct)
  case base
  then show ?case by auto
next
  case (step c e)
  note eff = step_effect [OF step.prems(1) step.hyps(1)]
  obtain v where v: "v \<in> waiting (snd e)" "tc_sequence v = tc_sequence u" "patience B u (snd d) \<le> patience B v (snd e)"
    "tc_bypass u - tc_bypass v = pc_attempt_admissions (snd d) - pc_attempt_admissions (snd e)"
    using step.IH [of u] eff step.prems by auto
  obtain t where "t \<in> waiting (snd c)" "tc_sequence t = tc_sequence v" "patience B v (snd e) \<le> patience B t (snd c)"
    "tc_bypass v - tc_bypass t = pc_attempt_admissions (snd e) - pc_attempt_admissions (snd c)"
    using step_patience [OF step.prems(1) step.hyps(1) step.prems(2) v(1)] step.prems(4) v(2) by auto
  with v show ?case by (intro bexI [of _ t]) auto
qed

lemma opened_parts:
  assumes "mk_role_concurrency workers rps policy cooldown max_cooldown directory = Inr s"
  shows "pc_policy s = SCHEDULER_POLICY \<or> pc_policy s = SCHEDULER_C24_POLICY"
    and "pc_queues s = map (\<lambda>r. (r, [])) (pl_roles (pc_policy s))"
  using assms by (auto simp: mk_role_concurrency_def mk_provider_concurrency_def Let_def bindE_Inr_iff provider_concurrency.defs role_concurrency.defs
      split: if_splits)

lemma reached_ok:
  assumes "sched_reached E c"
  shows "queues_ok c \<and> pl_max_priority_bypass (pc_policy (snd c)) = 8"
  using assms
proof induction
  case (Open workers rps policy cooldown max_cooldown directory s now)
  note o = opened_parts [OF Open]
  have "distinct (pl_roles (pc_policy s))"
    using o(1) by (auto simp: SCHEDULER_POLICY_def SCHEDULER_C24_POLICY_def py_eq_iff)
  then have "queues_ok (now, s)"
    by (intro queues_okI) (auto simp: o(2) waiting_def comp_def)
  with o(1) show ?case by (auto simp: SCHEDULER_POLICY_def SCHEDULER_C24_POLICY_def)
next
  case (Step c d)
  with step_effect [of c E d] show ?case by auto
qed

lemma open_gate_admits:
  assumes "queues_ok (now, s)" "waiting s \<noteq> {}" "\<not> pc_circuit_open s" "\<not> pc_deferred s" "pc_active s < pc_limit s"
    "max (pc_not_before s) (pc_http_not_before s) \<le> instant"
  shows "\<exists>t\<in>waiting s. fst (attempt_turn E instant (tc_role t) (tc_sequence t) s) = Admitted"
proof -
  obtain t where "next_ticket s = Some t" "t \<in> waiting s" using next_ticket_waiting [OF assms(1,2)] .
  with assms(3-6) show ?thesis by (intro bexI [of _ t]) (simp_all add: attempt_turn_def Let_def)
qed

text \<open>
  C21. Attempts are not starved. As long as an attempt waits, whatever else is queued, admitted, withdrawn or finished meanwhile, at most eight attempts and
  those that were waiting before it are admitted in its place, although its role may have the lowest priority. And the gate is never idle: when it is open, the
  turn of some waiting attempt admits it.
\<close>

theorem overtaking_is_bounded:
  assumes "sched_reached E c" "t \<in> waiting (snd c)"
    and "(sched_step E)\<^sup>*\<^sup>* c d" "u \<in> waiting (snd d)" "tc_sequence u = tc_sequence t"
  shows "pc_attempt_admissions (snd d) - pc_attempt_admissions (snd c) \<le> 8 + int (ahead (tc_sequence t) (snd c))
    \<and> (\<not> pc_circuit_open (snd d) \<and> \<not> pc_deferred (snd d) \<and> pc_active (snd d) < pc_limit (snd d)
         \<and> max (pc_not_before (snd d)) (pc_http_not_before (snd d)) \<le> instant
       \<longrightarrow> (\<exists>v\<in>waiting (snd d). fst (attempt_turn E instant (tc_role v) (tc_sequence v) (snd d)) = Admitted))"
proof -
  note ok = reached_ok [OF assms(1)]
  note p = queues_parts [OF conjunct1 [OF ok]]
  obtain t' where t': "t' \<in> waiting (snd c)" "tc_sequence t' = tc_sequence u" "patience 8 u (snd d) \<le> patience 8 t' (snd c)"
    "tc_bypass u - tc_bypass t' = pc_attempt_admissions (snd d) - pc_attempt_admissions (snd c)"
    using steps_patience [OF assms(3) conjunct1 [OF ok] _ assms(4), of 8] ok p(5) [OF assms(2)] assms(5) by auto
  moreover have "t' = t" using inj_onD [OF p(4)] t'(1,2) assms(2,5) by metis
  ultimately have "pc_attempt_admissions (snd d) - pc_attempt_admissions (snd c) \<le> 8 + int (ahead (tc_sequence t) (snd c))"
    using p(5) [OF assms(2)] by (auto simp: patience_def)
  moreover have "sched_reached E d"
    using assms(3,1) by (induction rule: rtranclp_induct) (auto intro: sched_reached.Step)
  then have "queues_ok (fst d, snd d)" using reached_ok by simp
  ultimately show ?thesis using open_gate_admits assms(4) by blast
qed

section \<open>The circuit\<close>

definition denied_thrice :: "pystr option list \<Rightarrow> bool" where
  "denied_thrice cs \<longleftrightarrow> list_ex (\<lambda>i. take 3 (drop i cs) = [denied, denied, denied]) [0..<length cs]"

definition run_of_denials :: "pystr option list \<Rightarrow> nat" where
  "run_of_denials cs = length (takeWhile (\<lambda>c. c = denied) (rev cs))"

lemma denied_thrice_iff: "denied_thrice cs \<longleftrightarrow> (\<exists>xs ys. cs = xs @ [denied, denied, denied] @ ys)"
proof
  assume "denied_thrice cs"
  then obtain i where "take 3 (drop i cs) = [denied, denied, denied]" by (auto simp: denied_thrice_def list_ex_iff)
  then have "drop i cs = [denied, denied, denied] @ drop 3 (drop i cs)" by (metis append_take_drop_id)
  then have "cs = take i cs @ [denied, denied, denied] @ drop 3 (drop i cs)" by (metis append_take_drop_id)
  then show "\<exists>xs ys. cs = xs @ [denied, denied, denied] @ ys" by blast
next
  assume "\<exists>xs ys. cs = xs @ [denied, denied, denied] @ ys"
  then obtain xs ys where cs: "cs = xs @ [denied, denied, denied] @ ys" by blast
  then show "denied_thrice cs"
    by (auto simp: denied_thrice_def list_ex_iff numeral_3_eq_3 intro!: bexI [of _ "length xs"])
qed

lemma run_of_denials_snoc [simp]: "run_of_denials (cs @ [c]) = (if c = denied then run_of_denials cs + 1 else 0)"
  by (simp add: run_of_denials_def)

lemma run_of_denials_thrice: "3 \<le> run_of_denials cs \<longleftrightarrow> (\<exists>xs. cs = xs @ [denied, denied, denied])"
proof
  let ?r = "takeWhile (\<lambda>c. c = denied) (rev cs)"
  assume "3 \<le> run_of_denials cs"
  then obtain x y z l where l: "?r = x # y # z # l"
    unfolding run_of_denials_def by (metis Suc_le_length_iff numeral_3_eq_3)
  then have "x = denied" "y = denied" "z = denied" using set_takeWhileD by (metis list.set_intros)+
  moreover have "rev cs = ?r @ dropWhile (\<lambda>c. c = denied) (rev cs)" by simp
  ultimately have "rev cs = denied # denied # denied # l @ dropWhile (\<lambda>c. c = denied) (rev cs)" using l by simp
  then have "cs = rev (l @ dropWhile (\<lambda>c. c = denied) (rev cs)) @ [denied, denied, denied]"
    by (metis append_Cons append_Nil append_assoc rev.simps(2) rev_rev_ident)
  then show "\<exists>xs. cs = xs @ [denied, denied, denied]" by blast
qed (auto simp: run_of_denials_def)

lemma denied_thrice_snoc: "denied_thrice (cs @ [c]) \<longleftrightarrow> denied_thrice cs \<or> 3 \<le> run_of_denials (cs @ [c])"
proof -
  have "(\<exists>xs ys. cs @ [c] = xs @ [denied, denied, denied] @ ys) \<longleftrightarrow> (\<exists>xs ys. cs = xs @ [denied, denied, denied] @ ys) \<or> (\<exists>xs. cs @ [c] = xs @ [denied, denied, denied])"
    (is "?l \<longleftrightarrow> ?m \<or> ?r")
  proof
    assume ?l
    then obtain xs ys where e: "cs @ [c] = xs @ [denied, denied, denied] @ ys" by blast
    show "?m \<or> ?r" by (cases ys rule: rev_cases) (use e in \<open>auto simp flip: append_assoc append_Cons\<close>)
  next
    assume "?m \<or> ?r"
    then show ?l
    proof
      assume ?m
      then obtain xs ys where "cs = xs @ [denied, denied, denied] @ ys" by blast
      then have "cs @ [c] = xs @ [denied, denied, denied] @ (ys @ [c])" by simp
      then show ?l by blast
    qed (metis append_Nil2)
  qed
  then show ?thesis unfolding denied_thrice_iff run_of_denials_thrice .
qed

text \<open>What the log of outcomes says of a gate.\<close>

definition circuit_of :: "call_outcome list \<Rightarrow> int \<times> int \<times> int \<times> bool" where
  "circuit_of es = (int (run_of_denials (map fst es)), int (length (filter (\<lambda>e. fst e \<noteq> None) es)),
     int (length (filter (\<lambda>e. fst e \<noteq> None \<and> snd e) es)), denied_thrice (map fst es))"

definition circuit :: "'a provider_concurrency_scheme \<Rightarrow> int \<times> int \<times> int \<times> bool" where
  "circuit s = (pc_consecutive_denials s, pc_failed_calls s, pc_uncertain_calls s, pc_circuit_open s)"

lemma circuit_observe: "circuit s = circuit_of es \<Longrightarrow> circuit (observe_outcome e s) = circuit_of (es @ [e])"
  by (auto simp: circuit_def circuit_of_def observe_outcome_def Let_def denied_thrice_snoc CONSECUTIVE_DENIALS_def)

lemma circuit_events [simp]: "circuit (s\<lparr>pc_events := k\<rparr>) = circuit s"
  by (simp add: circuit_def)

lemma circuit_replay: "circuit s = circuit_of es0 \<Longrightarrow> circuit (fold replay_outcome es s) = circuit_of (es0 @ es)"
proof (induction es arbitrary: s es0)
  case (Cons e es)
  have "circuit (replay_outcome e s) = circuit_of (es0 @ [e])"
    using circuit_observe [OF Cons.prems] by (simp add: replay_outcome_def Let_def)
  from Cons.IH [OF this] show ?case by simp
qed simp

lemma replay_directory [simp]: "pc_resilience_directory (fold replay_outcome es s) = pc_resilience_directory s"
  by (induction es arbitrary: s) (simp_all add: replay_outcome_def observe_outcome_def Let_def)

lemma opened_circuit:
  assumes "mk_role_concurrency workers rps policy cooldown max_cooldown directory = Inr s"
  shows "pc_resilience_directory s = directory" "circuit s = circuit_of (case directory of None \<Rightarrow> [] | Some es \<Rightarrow> es)"
proof -
  let ?s0 = "\<lparr>pc_limit = workers, pc_cooldown_seconds = cooldown, pc_max_cooldown_seconds = max_cooldown,
         pc_active = 0, pc_peak = 0, pc_rate_limits = 0, pc_not_before = 0, pc_deferred = False, pc_resilience_directory = directory,
         pc_consecutive_denials = 0, pc_failed_calls = 0, pc_circuit_deferred = 0, pc_uncertain_calls = 0, pc_circuit_open = False,
         pc_events = 0, pc_http_not_before = 0\<rparr> :: provider_concurrency"
  let ?es = "case directory of None \<Rightarrow> [] | Some es \<Rightarrow> es"
  have s: "pc_resilience_directory s = pc_resilience_directory (fold replay_outcome ?es ?s0)" "circuit s = circuit (fold replay_outcome ?es ?s0)"
    using assms by (auto simp: mk_role_concurrency_def mk_provider_concurrency_def Let_def bindE_Inr_iff provider_concurrency.defs circuit_def split: if_splits)
  have "circuit ?s0 = circuit_of []" by (simp add: circuit_def circuit_of_def run_of_denials_def denied_thrice_def)
  from circuit_replay [OF this, of ?es] s show "circuit s = circuit_of ?es" by simp
  show "pc_resilience_directory s = directory" using s(1) by simp
qed

lemma gate_keeps_circuit [simp]:
  "circuit (defer_circuit s) = circuit s" "circuit (take_slot s) = circuit s" "circuit (release_slot s) = circuit s" "circuit (rate_limited E now d s) = circuit s"
  "pc_resilience_directory (defer_circuit s) = pc_resilience_directory s" "pc_resilience_directory (take_slot s) = pc_resilience_directory s"
  "pc_resilience_directory (release_slot s) = pc_resilience_directory s" "pc_resilience_directory (rate_limited E now d s) = pc_resilience_directory s"
  by (simp_all add: circuit_def defer_circuit_def take_slot_def release_slot_def rate_limited_def Let_def)

lemma queue_keeps_circuit [simp]:
  "circuit (withdraw r n s) = circuit s" "circuit (dequeue r n s) = circuit s"
  "pc_resilience_directory (withdraw r n s) = pc_resilience_directory s" "pc_resilience_directory (dequeue r n s) = pc_resilience_directory s"
  by (simp_all add: circuit_def withdraw_def dequeue_def Let_def)

lemma finish_circuit:
  assumes "pc_resilience_directory s = Some es" "circuit s = circuit_of es"
  shows "\<exists>es'. pc_resilience_directory (attempt_finish E now role error s) = Some es' \<and> circuit (attempt_finish E now role error s) = circuit_of es'
           \<and> (\<exists>e. es' = es @ [e])"
proof -
  define s1 where "s1 = (case error of None \<Rightarrow> s
     | Some f \<Rightarrow> if fl_raw f = py ''OPENAI_HTTP_429'' then rate_limited E now (fl_retry_after_seconds f) s else s)"
  define e where "e = (case error of None \<Rightarrow> (None, False) | Some f \<Rightarrow> (Some (failure_code f), failure_uncertain f))"
  have s1: "pc_resilience_directory s1 = Some es" "circuit s1 = circuit_of es" using assms by (auto simp: s1_def split: option.splits)
  then have "circuit (observe e s1) = circuit_of (es @ [e])"
    unfolding observe_def by (intro circuit_observe) (simp add: circuit_def)
  moreover have "pc_resilience_directory (observe e s1) = Some (es @ [e])"
    using s1(1) by (simp add: observe_def observe_outcome_def Let_def)
  moreover have "attempt_finish E now role error s = (let s2 = release_slot (observe e s1)
      in s2\<lparr>pc_completed_by_role := map (\<lambda>(r, k). (r, if r = role then k + 1 else k)) (pc_completed_by_role s2)\<rparr>)"
    using s1(1) by (simp add: attempt_finish_def Let_def flip: s1_def e_def)
  moreover have "circuit (x\<lparr>pc_completed_by_role := k\<rparr>) = circuit x" for x :: role_concurrency and k by (simp add: circuit_def)
  ultimately show ?thesis by (simp add: Let_def)
qed

definition circuit_logged :: "role_concurrency \<Rightarrow> bool" where
  "circuit_logged s \<longleftrightarrow> (\<forall>es. pc_resilience_directory s = Some es \<longrightarrow> circuit s = circuit_of es)"

lemma turn_circuit:
  assumes "attempt_turn E now role n s = (v, s')"
  shows "circuit s' = circuit s \<and> pc_resilience_directory s' = pc_resilience_directory s
    \<and> (pc_circuit_open s \<longrightarrow> pc_attempt_admissions s' = pc_attempt_admissions s)"
proof -
  have [simp]: "circuit (x\<lparr>pc_attempt_admissions := a, pc_http_not_before := b, pc_queue_seconds := q\<rparr>) = circuit x" for x :: role_concurrency and a b q
    by (simp add: circuit_def)
  have [simp]: "circuit (x\<lparr>pc_http_not_before := b, pc_attempt_admissions := a, pc_queue_seconds := q\<rparr>) = circuit x" for x :: role_concurrency and a b q
    by (simp add: circuit_def)
  show ?thesis using assms by (auto simp: attempt_turn_def Let_def split: if_splits option.splits)
qed

lemma enqueue_circuit:
  "enqueue now role s = Inr (s', t) \<Longrightarrow> circuit s' = circuit s \<and> pc_resilience_directory s' = pc_resilience_directory s
    \<and> pc_attempt_admissions s' = pc_attempt_admissions s"
  by (auto simp: enqueue_def circuit_def Let_def split: if_splits)

lemma transport_circuit:
  "pace_transport E now current s = (v, s') \<Longrightarrow> circuit s' = circuit s \<and> pc_resilience_directory s' = pc_resilience_directory s
    \<and> pc_attempt_admissions s' = pc_attempt_admissions s"
  by (auto simp: pace_transport_def circuit_def split: if_splits)

lemma finish_open: "pc_circuit_open s \<Longrightarrow> pc_circuit_open (attempt_finish E now role error s)"
  by (simp add: attempt_finish_def Let_def observe_def observe_outcome_def rate_limited_def release_slot_def split: option.splits)

lemma finish_undirected: "pc_resilience_directory s = None \<Longrightarrow> pc_resilience_directory (attempt_finish E now role error s) = None"
  by (simp add: attempt_finish_def Let_def observe_def observe_outcome_def rate_limited_def release_slot_def split: option.splits)

lemma step_circuit:
  assumes "sched_step E c d" "circuit_logged (snd c)"
  shows "circuit_logged (snd d) \<and> (pc_circuit_open (snd c) \<longrightarrow> pc_circuit_open (snd d) \<and> pc_attempt_admissions (snd d) = pc_attempt_admissions (snd c))"
  using assms
proof cases
  case (Enqueue now now' role s s' t)
  with assms(2) enqueue_circuit [OF Enqueue(4)] show ?thesis by (auto simp: circuit_logged_def) (simp add: circuit_def)
next
  case (Turn now now' t s v s')
  with assms(2) turn_circuit [OF Turn(5)] show ?thesis by (auto simp: circuit_logged_def) (simp add: circuit_def)
next
  case (Interrupt now now' t s)
  with assms(2) show ?thesis by (auto simp: circuit_logged_def)
next
  case (Finish now now' s role error)
  have "circuit_logged (attempt_finish E now' role error s)"
  proof (cases "pc_resilience_directory s")
    case None
    from finish_undirected [OF this] show ?thesis by (simp add: circuit_logged_def)
  next
    case (Some es)
    with assms(2) Finish have "circuit s = circuit_of es" by (simp add: circuit_logged_def)
    from finish_circuit [OF Some this, of E now' role error] show ?thesis by (auto simp: circuit_logged_def)
  qed
  with Finish finish_open show ?thesis by simp
next
  case (Transport now now' now'' s v s')
  with assms(2) transport_circuit [OF Transport(5)] show ?thesis by (auto simp: circuit_logged_def) (simp add: circuit_def)
qed

lemma steps_circuit:
  assumes "(sched_step E)\<^sup>*\<^sup>* c d" "circuit_logged (snd c)" "pc_circuit_open (snd c)"
  shows "circuit_logged (snd d) \<and> pc_circuit_open (snd d) \<and> pc_attempt_admissions (snd d) = pc_attempt_admissions (snd c)"
  using assms by (induction rule: rtranclp_induct) (auto dest: step_circuit)

lemma reached_logged: "sched_reached E c \<Longrightarrow> circuit_logged (snd c)"
proof (induction rule: sched_reached.induct)
  case (Open workers rps policy cooldown max_cooldown directory s now)
  with opened_circuit [OF Open] show ?case by (simp add: circuit_logged_def)
qed (auto dest: step_circuit)

text \<open>
  C27. The circuit opens exactly when the outcomes on record, those of earlier processes included, contain three denials in a row. A process that starts on the
  record finds the circuit, the run of denials and the counts of failed and uncertain calls as they were left. An open circuit stays open, and no attempt is admitted
  any more.
\<close>

theorem circuit_opens_on_three_denials:
  assumes "sched_reached E c" "pc_resilience_directory (snd c) = Some es"
  shows "(pc_circuit_open (snd c) \<longleftrightarrow> denied_thrice (map fst es))
    \<and> (\<forall>workers rps policy cooldown max_cooldown s. mk_role_concurrency workers rps policy cooldown max_cooldown (Some es) = Inr s
         \<longrightarrow> circuit s = circuit (snd c))
    \<and> (\<forall>d. pc_circuit_open (snd c) \<and> (sched_step E)\<^sup>*\<^sup>* c d
         \<longrightarrow> pc_circuit_open (snd d) \<and> pc_attempt_admissions (snd d) = pc_attempt_admissions (snd c))"
proof -
  have c: "circuit (snd c) = circuit_of es" using reached_logged [OF assms(1)] assms(2) by (simp add: circuit_logged_def)
  then have "pc_circuit_open (snd c) \<longleftrightarrow> denied_thrice (map fst es)" by (simp add: circuit_def circuit_of_def)
  moreover have "circuit s = circuit (snd c)" if "mk_role_concurrency workers rps policy cooldown max_cooldown (Some es) = Inr s"
    for workers rps policy cooldown max_cooldown s
    using opened_circuit(2) [OF that] c by simp
  moreover have "pc_circuit_open (snd d) \<and> pc_attempt_admissions (snd d) = pc_attempt_admissions (snd c)"
    if "pc_circuit_open (snd c) \<and> (sched_step E)\<^sup>*\<^sup>* c d" for d
    using steps_circuit [OF _ reached_logged [OF assms(1)]] that by blast
  ultimately show ?thesis by blast
qed

section \<open>A gate\<close>

definition exact_clock :: clock_env where
  "exact_clock = \<lparr>ck_plus = (+), ck_minus = (-), ck_interval = (\<lambda>n. 1 / of_int n)\<rparr>"

definition idle_gate :: "call_outcome list \<Rightarrow> role_concurrency" where
  "idle_gate es = provider_concurrency.extend (fold replay_outcome es
     \<lparr>pc_limit = 1, pc_cooldown_seconds = 1, pc_max_cooldown_seconds = 30, pc_active = 0, pc_peak = 0, pc_rate_limits = 0, pc_not_before = 0,
      pc_deferred = False, pc_resilience_directory = Some es, pc_consecutive_denials = 0, pc_failed_calls = 0, pc_circuit_deferred = 0,
      pc_uncertain_calls = 0, pc_circuit_open = False, pc_events = 0, pc_http_not_before = 0\<rparr>)
     (role_concurrency.fields SCHEDULER_POLICY 4 (map (\<lambda>r. (r, [])) (pl_roles SCHEDULER_POLICY)) 0 0 0 0 0 (map (\<lambda>r. (r, 0)) (pl_roles SCHEDULER_POLICY)) [])"

lemma idle_gate_opened: "mk_role_concurrency 1 4 (Some SCHEDULER_POLICY) 1 30 (Some es) = Inr (idle_gate es)"
  by (simp add: mk_role_concurrency_def mk_provider_concurrency_def idle_gate_def Let_def) (simp add: SCHEDULER_POLICY_def)

definition two_queued :: role_concurrency where
  "two_queued = (case enqueue 0 (py ''extract'') (idle_gate []) of Inr (s, t) \<Rightarrow> (case enqueue 1 (py ''elements'') s of Inr (s', t') \<Rightarrow> s' | Inl e \<Rightarrow> s) | Inl e \<Rightarrow> idle_gate [])"

definition extract_ticket :: ticket where
  "extract_ticket = \<lparr>tc_role = py ''extract'', tc_queued = 0, tc_bypass = 0, tc_sequence = 1\<rparr>"

definition elements_ticket :: ticket where
  "elements_ticket = \<lparr>tc_role = py ''elements'', tc_queued = 1, tc_bypass = 0, tc_sequence = 2\<rparr>"

lemmas gate_defs = idle_gate_def two_queued_def enqueue_def SCHEDULER_POLICY_def provider_concurrency.defs role_concurrency.defs py_eq_iff

lemma two_queues:
  "pc_queues two_queued = [(py ''elements'', [elements_ticket]), (py ''relation'', []), (py ''preliminary'', []), (py ''extract'', [extract_ticket])]"
  by (simp add: gate_defs Let_def extract_ticket_def elements_ticket_def)

lemma two_queued_reached: "sched_reached exact_clock (1, two_queued)"
proof -
  obtain s t where s: "enqueue 0 (py ''extract'') (idle_gate []) = Inr (s, t)" by (simp add: gate_defs Let_def)
  obtain s' t' where s': "enqueue 1 (py ''elements'') s = Inr (s', t')" using s by (auto simp: gate_defs Let_def)
  have "sched_reached exact_clock (0, idle_gate [])" by (rule sched_reached.Open [OF idle_gate_opened])
  from sched_reached.Step [OF this sched_step.Enqueue [OF order_refl s]]
  have "sched_reached exact_clock (0, s)" .
  from sched_reached.Step [OF this sched_step.Enqueue [OF zero_le_one s']]
  show ?thesis using s s' by (simp add: two_queued_def)
qed

lemma elements_goes_first:
  "\<exists>s. attempt_turn exact_clock 1 (tc_role elements_ticket) (tc_sequence elements_ticket) two_queued = (Admitted, s) \<and> bump extract_ticket \<in> waiting s
     \<and> pc_attempt_admissions s = pc_attempt_admissions two_queued + 1"
proof -
  have n: "next_ticket two_queued = Some elements_ticket"
    by (simp add: next_ticket_def heads_def two_queues oldest_def age_def Let_def extract_ticket_def elements_ticket_def) (simp add: gate_defs Let_def)
  have "\<not> pc_circuit_open two_queued" "\<not> pc_deferred two_queued" "pc_active two_queued < pc_limit two_queued"
    "max (pc_not_before two_queued) (pc_http_not_before two_queued) \<le> 1"
    by (simp_all add: gate_defs Let_def)
  moreover have "bump extract_ticket \<in> waiting (dequeue (tc_role elements_ticket) (tc_sequence elements_ticket) two_queued)"
    by (simp add: waiting_def dequeue_def withdraw_def two_queues elements_ticket_def py_eq_iff Let_def)
  ultimately show ?thesis
    using n by (simp add: attempt_turn_def Let_def) (simp add: waiting_def)
qed

theorem overtaking_is_bounded_witness:
  "\<exists>E c t d u. sched_reached E c \<and> t \<in> waiting (snd c) \<and> (sched_step E)\<^sup>*\<^sup>* c d \<and> u \<in> waiting (snd d) \<and> tc_sequence u = tc_sequence t
     \<and> pc_attempt_admissions (snd d) - pc_attempt_admissions (snd c) = 1
     \<and> pc_attempt_admissions (snd d) - pc_attempt_admissions (snd c) \<le> 8 + int (ahead (tc_sequence t) (snd c))"
proof -
  obtain s where s: "attempt_turn exact_clock 1 (tc_role elements_ticket) (tc_sequence elements_ticket) two_queued = (Admitted, s)"
    "bump extract_ticket \<in> waiting s" "pc_attempt_admissions s = pc_attempt_admissions two_queued + 1"
    using elements_goes_first by blast
  have w: "elements_ticket \<in> waiting two_queued" "extract_ticket \<in> waiting two_queued" by (simp_all add: waiting_def two_queues)
  have "sched_step exact_clock (1, two_queued) (1, s)" by (rule sched_step.Turn [OF order_refl w(1) s(1)])
  then have st: "(sched_step exact_clock)\<^sup>*\<^sup>* (1, two_queued) (1, s)" by blast
  have u: "tc_sequence (bump extract_ticket) = tc_sequence extract_ticket" by simp
  show ?thesis
    using overtaking_is_bounded [OF two_queued_reached, of extract_ticket "(1, s)" "bump extract_ticket"] two_queued_reached st u w(2) s(2,3)
    by (intro exI [of _ exact_clock] exI [of _ "(1, two_queued)"] exI [of _ extract_ticket] exI [of _ "(1, s)"] exI [of _ "bump extract_ticket"]) auto
qed

theorem circuit_opens_on_three_denials_witness:
  "\<exists>E c es d. sched_reached E c \<and> pc_resilience_directory (snd c) = Some es \<and> denied_thrice (map fst es) \<and> pc_circuit_open (snd c)
     \<and> (sched_step E)\<^sup>*\<^sup>* c d \<and> pc_circuit_open (snd d)"
proof -
  let ?es = "[(denied, False), (denied, False), (denied, False)]"
  have r: "sched_reached exact_clock (0, idle_gate ?es)" by (rule sched_reached.Open [OF idle_gate_opened])
  moreover have d: "pc_resilience_directory (snd (0 :: rat, idle_gate ?es)) = Some ?es" using opened_circuit(1) [OF idle_gate_opened] by simp
  moreover have t: "denied_thrice (map fst ?es)" by (auto simp: denied_thrice_iff)
  ultimately show ?thesis
    using circuit_opens_on_three_denials [OF r d] by blast
qed

end
