(* ===== verification/Text_Words.thy ===== *)
theory Text_Words
  imports Py_Base
begin

text \<open>\<^verbatim>\<open>str.split()\<close> without an argument: the maximal runs of characters that are not white space.\<close>

function py_words :: "pystr \<Rightarrow> pystr list" where
  "py_words s = (case py_lstrip s of [] \<Rightarrow> [] | c # t \<Rightarrow> (c # takeWhile (\<lambda>d. \<not> py_isspace d) t) # py_words (dropWhile (\<lambda>d. \<not> py_isspace d) t))"
  by auto
termination
proof (relation "measure length", goal_cases)
  case (2 s c t)
  have "length (dropWhile (\<lambda>d. \<not> py_isspace d) t) \<le> length t" by (rule length_dropWhile_le)
  moreover have "length (c # t) \<le> length s" using 2 length_dropWhile_le [of py_isspace s] by (simp add: py_lstrip_def)
  ultimately show ?case by simp
qed simp

declare py_words.simps [simp del]

lemma py_words_unfold:
  "py_words [] = []"
  "py_words (c # s) = (if py_isspace c then py_words s
     else (c # takeWhile (\<lambda>d. \<not> py_isspace d) s) # py_words (dropWhile (\<lambda>d. \<not> py_isspace d) s))"
  by (simp_all add: py_words.simps [of "c # s"] py_words.simps [of s] py_words.simps [of "[]"] py_lstrip_def)

definition blank :: "pystr \<Rightarrow> bool" where
  "blank s \<longleftrightarrow> list_all py_isspace s"

lemma py_lstrip_blank: "py_lstrip s = [] \<longleftrightarrow> blank s"
  by (simp add: py_lstrip_def blank_def list_all_iff)

lemma py_words_blank: "py_words s = [] \<longleftrightarrow> blank s"
  by (simp add: py_words.simps [of s] flip: py_lstrip_blank split: list.split)

lemma py_words_nonempty: "w \<in> set (py_words s) \<Longrightarrow> w \<noteq> []"
proof (induction s rule: py_words.induct)
  case (1 s)
  then show ?case by (cases "py_lstrip s") (auto simp: py_words.simps [of s])
qed

lemma join_words_blank: "py_join sep (py_words s) = [] \<longleftrightarrow> blank s"
proof (cases "py_words s")
  case (Cons w ws)
  then have "w \<noteq> []" using py_words_nonempty [of w s] by simp
  with Cons show ?thesis by (simp add: py_join_def flip: py_words_blank)
qed (simp add: py_join_def flip: py_words_blank)

lemma py_strip_blank: "py_strip s = [] \<longleftrightarrow> blank s"
  by (simp add: py_strip_Nil_iff blank_def list_all_iff)

end
