(* ===== verification/Citations.thy ===== *)
theory Citations
  imports Numeric Text_Words
begin

text \<open>
  Model of \<^verbatim>\<open>application/evidence/citations.py\<close>: the check of a citation against the parsed document.

  The document graph is the snapshot of \<^verbatim>\<open>Numeric\<close>, which has every field that is read here; the canonical box of a candidate is a field of it. Unicode normal
  form C is the argument \<open>nfc\<close>. The property ties the two users of a snapshot together: a citation is verified here exactly when the numeric checks accept its span.
\<close>

section \<open>Normalized text\<close>

definition ligature :: "nat \<Rightarrow> pystr" where
  "ligature c = (if c = 64256 then py ''ff'' else if c = 64257 then py ''fi'' else if c = 64258 then py ''fl''
     else if c = 64259 then py ''ffi'' else if c = 64260 then py ''ffl'' else if c = 64262 then py ''st'' else [c])"

definition normalized :: "(pystr \<Rightarrow> pystr) \<Rightarrow> pystr \<Rightarrow> pystr" where
  "normalized nfc text = py_join (py '' '') (py_words (nfc (concat (map ligature text))))"

section \<open>Verification of a citation\<close>

definition same_chain :: "numeric_snapshot \<Rightarrow> pystr \<Rightarrow> numeric_candidate \<Rightarrow> numeric_batch \<Rightarrow> bool" where
  "same_chain original tenant_id candidate batch \<longleftrightarrow>
     bt_identity batch = (tenant_id, snd (ns_identity original)) \<and> bt_parser_run_id batch = nat_parser_run_id (nc_source candidate)
     \<and> candidate \<in> set (bt_blocks batch)"

definition pinned_span :: "platform \<Rightarrow> source_ref \<Rightarrow> numeric_candidate \<Rightarrow> bool" where
  "pinned_span P ref candidate \<longleftrightarrow> (let source = nc_source candidate in
     nat_document_version_id source = sr_document_version_id ref \<and> nat_parse_manifest_id source = sr_parse_manifest_id ref
     \<and> nat_physical_page source = sr_page_num ref \<and> nat_printed_page_label source = sr_printed_page_label ref
     \<and> nc_bbox candidate = sr_bbox ref \<and> sha256_hex P (nat_raw_text source) = sr_raw_text_sha256 ref
     \<and> 0 \<le> sr_char_start ref \<and> sr_char_start ref < sr_char_end ref \<and> sr_char_end ref \<le> int (length (nat_raw_text source)))"

definition verify_source_ref ::
  "platform \<Rightarrow> (pystr \<Rightarrow> pystr) \<Rightarrow> source_ref \<Rightarrow> numeric_snapshot \<Rightarrow> pystr \<Rightarrow> source_ref result" where
  "verify_source_ref P nfc ref original tenant_id =
     bindE (check_uuid ''tenant_id'' tenant_id) (\<lambda>_.
     if tenant_id \<noteq> snapshot_tenant (ns_identity original) then Inl (DomainValidationError ''tenant mismatch'')
     else
      let rejected = ref\<lparr>sr_verification_state := Rejected\<rparr>
      in if py_duplicates (map nb_source_id (ns_blocks original))
            \<or> sr_document_version_id ref \<noteq> snapshot_version (ns_identity original)
            \<or> sr_parse_manifest_id ref \<noteq> snapshot_manifest_id (ns_identity original)
            \<or> sr_location_quality ref \<noteq> Located \<or> sr_bbox ref = None
         then Inr rejected
         else case blocks_by_id original (sr_source_id ref) of None \<Rightarrow> Inr rejected
         | Some block \<Rightarrow>
           if nb_quality block \<noteq> py ''verified'' then Inr rejected
           else case winner_of block of None \<Rightarrow> Inr rejected
           | Some candidate \<Rightarrow>
             if \<not> list_ex (same_chain original tenant_id candidate) (ns_candidates original) then Inr rejected
             else if \<not> pinned_span P ref candidate then Inr rejected
             else
              let raw_quote = py_slice (nat_raw_text (nc_source candidate)) (sr_char_start ref) (sr_char_end ref);
                  normalized_quote = normalized nfc (sr_quote ref)
              in if normalized_quote = [] \<or> normalized_quote \<noteq> normalized nfc raw_quote then Inr rejected
                 else Inr (ref\<lparr>sr_quote := raw_quote, sr_verification_state := Verified\<rparr>))"

section \<open>Exactness\<close>

lemma ligature_blank: "blank (ligature c) \<longleftrightarrow> py_isspace c"
  by (simp add: ligature_def blank_def py_def py_isspace_def)

lemma ligatures_blank: "blank (concat (map ligature s)) \<longleftrightarrow> blank s"
  by (induction s) (use ligature_blank in \<open>auto simp: blank_def\<close>)

lemma normalized_blank:
  assumes "\<And>s. blank (nfc s) \<longleftrightarrow> blank s"
  shows "normalized nfc s = [] \<longleftrightarrow> blank s"
  by (simp add: normalized_def join_words_blank assms ligatures_blank)

text \<open>Where a citation may be verified, and the text that stands there.\<close>

definition cited_text :: "platform \<Rightarrow> source_ref \<Rightarrow> numeric_snapshot \<Rightarrow> pystr option" where
  "cited_text P ref G = (if py_duplicates (map nb_source_id (ns_blocks G)) \<or> sr_document_version_id ref \<noteq> snapshot_version (ns_identity G)
       \<or> sr_parse_manifest_id ref \<noteq> snapshot_manifest_id (ns_identity G) \<or> sr_location_quality ref \<noteq> Located \<or> sr_bbox ref = None then None
     else case blocks_by_id G (sr_source_id ref) of None \<Rightarrow> None
     | Some b \<Rightarrow> if nb_quality b \<noteq> py ''verified'' then None else case winner_of b of None \<Rightarrow> None
       | Some c \<Rightarrow> if list_ex (same_chain G (snapshot_tenant (ns_identity G)) c) (ns_candidates G) \<and> pinned_span P ref c
           then Some (py_slice (nat_raw_text (nc_source c)) (sr_char_start ref) (sr_char_end ref)) else None)"

lemma verify_by_text:
  assumes "canonical_uuid t" "t = snapshot_tenant (ns_identity G)"
  shows "verify_source_ref P nfc ref G t = Inr (case cited_text P ref G of None \<Rightarrow> ref\<lparr>sr_verification_state := Rejected\<rparr>
     | Some q \<Rightarrow> if normalized nfc (sr_quote ref) = [] \<or> normalized nfc (sr_quote ref) \<noteq> normalized nfc q then ref\<lparr>sr_verification_state := Rejected\<rparr>
         else ref\<lparr>sr_quote := q, sr_verification_state := Verified\<rparr>)"
  using assms by (simp add: verify_source_ref_def cited_text_def check_uuid_def Let_def split: option.split)

lemma cited_text_update [simp]: "cited_text P (ref\<lparr>sr_quote := q, sr_verification_state := v\<rparr>) G = cited_text P ref G"
  by (simp add: cited_text_def pinned_span_def Let_def split: option.split)

lemma span_verified_iff:
  "span_verified P G (ref\<lparr>sr_quote := q, sr_verification_state := Verified\<rparr>) \<longleftrightarrow> cited_text P ref G = Some q \<and> \<not> blank q"
proof -
  have "ns_identity G = (snapshot_tenant (ns_identity G), snd (ns_identity G))" by (simp add: snapshot_tenant_def)
  then show ?thesis
    by (auto simp: span_verified_def cited_text_def same_chain_def pinned_span_def py_strip_blank Let_def list_ex_iff split: option.splits)
qed

text \<open>
  C23. Verification of a citation is exact. It verifies a citation precisely when some quotation at its pinned offsets passes the span check of the numeric engine and
  reads the same after normalization, and then returns that literal quotation and nothing else changed, which verifies again to itself. In every other case the
  citation comes back rejected and otherwise unchanged; it raises only for a tenant that is not the document's.
\<close>

theorem citation_verification_is_exact:
  assumes nfc: "\<And>s. blank (nfc s) \<longleftrightarrow> blank s"
  shows "(okE (verify_source_ref P nfc ref G t) \<longleftrightarrow> canonical_uuid t \<and> t = snapshot_tenant (ns_identity G))
    \<and> (\<forall>r. verify_source_ref P nfc ref G t = Inr r \<longrightarrow>
         (if \<exists>q. span_verified P G (ref\<lparr>sr_quote := q, sr_verification_state := Verified\<rparr>) \<and> normalized nfc (sr_quote ref) = normalized nfc q
          then span_verified P G r \<and> normalized nfc (sr_quote ref) = normalized nfc (sr_quote r)
            \<and> r = ref\<lparr>sr_quote := sr_quote r, sr_verification_state := Verified\<rparr> \<and> verify_source_ref P nfc r G t = Inr r
          else r = ref\<lparr>sr_verification_state := Rejected\<rparr>))"
proof (cases "canonical_uuid t \<and> t = snapshot_tenant (ns_identity G)")
  case False
  then show ?thesis by (auto simp: verify_source_ref_def check_uuid_def okE_iff)
next
  case True
  then have u: "canonical_uuid t" and t: "snapshot_tenant (ns_identity G) = t" by auto
  note v = verify_by_text [OF u t [symmetric], of P nfc]
  show ?thesis
  proof (cases "cited_text P ref G")
    case None
    with u t show ?thesis by (simp add: v span_verified_iff okE_iff)
  next
    case (Some q)
    have b: "blank q \<longleftrightarrow> normalized nfc (sr_quote ref) = []" if "normalized nfc (sr_quote ref) = normalized nfc q"
      using that normalized_blank [of nfc, OF nfc] by simp
    show ?thesis
    proof (cases "normalized nfc (sr_quote ref) \<noteq> [] \<and> normalized nfc (sr_quote ref) = normalized nfc q")
      case True
      then have s: "span_verified P G (ref\<lparr>sr_quote := q, sr_verification_state := Verified\<rparr>)" using b Some by (metis span_verified_iff)
      with u t True Some show ?thesis by (auto simp: v okE_iff)
    next
      case False
      with u t Some b show ?thesis by (auto simp: v span_verified_iff okE_iff)
    qed
  qed
qed

section \<open>A document\<close>

text \<open>One block with a ligature in its text, cited in plain letters and with a line break.\<close>

definition cited_candidate :: numeric_candidate where
  "cited_candidate = \<lparr>nc_source = \<lparr>nat_document_version_id = py ''version'', nat_parse_manifest_id = py ''manifest'', nat_parser_run_id = py ''run'',
     nat_source_native_id = py ''n'', nat_physical_page = 1, nat_printed_page_label = None, nat_native_bbox = None,
     nat_native_coordinate_system = py ''pdf_bottom_left_points'', nat_raw_text = 64257 # py ''re down'', nat_char_start = 0, nat_char_end = 8\<rparr>,
     nc_row_number = None, nc_column_number = None, nc_column_span = None, nc_bbox = Some (0, 0, 1, 1)\<rparr>"

definition cited_document :: numeric_snapshot where
  "cited_document = (let identity = (uuid_of 1, py ''version'', py ''manifest'', py ''digest'') in
     \<lparr>ns_identity = identity, ns_blocks = [\<lparr>nb_kind = py ''paragraph'', nb_source_id = py ''b'', nb_quality = py ''verified'', nb_winner = Some 0,
        nb_candidates = [cited_candidate]\<rparr>],
      ns_candidates = [\<lparr>bt_identity = identity, bt_parser_run_id = py ''run'', bt_blocks = [cited_candidate]\<rparr>], ns_edges = [], ns_issues = []\<rparr>)"

definition plain_citation :: source_ref where
  "plain_citation = \<lparr>sr_source_id = py ''b'', sr_document_version_id = py ''version'', sr_parse_manifest_id = py ''manifest'', sr_page_num = 1,
     sr_printed_page_label = None, sr_bbox = Some (0, 0, 1, 1), sr_raw_text_sha256 = py ''h'', sr_quote = py ''fire'' @ [10] @ py ''down'',
     sr_char_start = 0, sr_char_end = 8, sr_location_quality = Located, sr_verification_state = Candidate\<rparr>"

definition hashed_platform :: platform where
  "hashed_platform = \<lparr>float_repr = (\<lambda>_. []), sha256_hex = (\<lambda>_. py ''h'')\<rparr>"

lemma plain_citation_text: "cited_text hashed_platform plain_citation cited_document = Some (64257 # py ''re down'')"
  by (simp add: cited_text_def plain_citation_def cited_document_def cited_candidate_def hashed_platform_def blocks_by_id_def winner_of_def dict_of_def
      py_duplicates_iff same_chain_def pinned_span_def snapshot_tenant_def snapshot_version_def snapshot_manifest_id_def py_slice_def Let_def)

lemma plain_citation_reads: "normalized id (sr_quote plain_citation) = normalized id (64257 # py ''re down'')" "normalized id (sr_quote plain_citation) \<noteq> []"
  by (simp_all add: normalized_def plain_citation_def ligature_def py_def py_words_unfold py_isspace_def py_join_def)

lemma plain_citation_not_blank: "\<not> blank (64257 # py ''re down'')"
  by (simp add: blank_def py_isspace_def)

theorem citation_verification_is_exact_witness:
  "\<exists>P nfc ref G t r. (\<forall>s. blank (nfc s) \<longleftrightarrow> blank s) \<and> verify_source_ref P nfc ref G t = Inr r \<and> sr_verification_state r = Verified
     \<and> sr_quote r \<noteq> sr_quote ref \<and> span_verified P G r \<and> verify_source_ref P nfc r G t = Inr r"
proof -
  have t: "canonical_uuid (uuid_of 1)" "uuid_of 1 = snapshot_tenant (ns_identity cited_document)"
    using sample_uuids(1) [of 1] by (simp_all add: cited_document_def snapshot_tenant_def Let_def)
  let ?r = "plain_citation\<lparr>sr_quote := 64257 # py ''re down'', sr_verification_state := Verified\<rparr>"
  have r: "verify_source_ref hashed_platform id plain_citation cited_document (uuid_of 1) = Inr ?r"
    using verify_by_text [OF t, of hashed_platform id plain_citation] plain_citation_text plain_citation_reads by simp
  have q: "span_verified hashed_platform cited_document ?r"
    using plain_citation_text plain_citation_not_blank by (simp add: span_verified_iff)
  let ?some = "\<exists>q. span_verified hashed_platform cited_document (plain_citation\<lparr>sr_quote := q, sr_verification_state := Verified\<rparr>)
     \<and> normalized id (sr_quote plain_citation) = normalized id q"
  have "?some" using q plain_citation_reads(1) by blast
  have nfc: "\<And>s. blank (id s) \<longleftrightarrow> blank s" by simp
  note exact = spec [OF conjunct2 [OF citation_verification_is_exact [of id hashed_platform plain_citation cited_document "uuid_of 1", OF nfc]], THEN mp, OF r]
  have "verify_source_ref hashed_platform id ?r cited_document (uuid_of 1) = Inr ?r"
    using exact unfolding if_P [OF \<open>?some\<close>] by (elim conjE)
  moreover have "sr_quote ?r \<noteq> sr_quote plain_citation" by (simp add: plain_citation_def py_def)
  ultimately show ?thesis
    using r q by (intro exI [of _ hashed_platform] exI [of _ id] exI [of _ plain_citation] exI [of _ cited_document] exI [of _ "uuid_of 1"] exI [of _ ?r]) simp
qed

end
