(* ===== verification/Capacity.thy ===== *)
theory Capacity
  imports Json Text_Words
begin

text \<open>
  Model of \<^verbatim>\<open>application/input_reservation.py\<close>: the pinned ceiling that is reserved for the input of a model call.

  \<^verbatim>\<open>datetime.fromisoformat\<close> is the argument \<open>fromiso\<close>; a datetime is its instant and whether it has a time zone. Among the policies only the two pinned ones pass,
  each within its own period (\<open>capacity_policy_is_pinned\<close>).
\<close>

section \<open>The pinned policy\<close>

record moment =
  mo_instant :: int
  mo_aware :: bool

definition MODEL_ID :: pystr where "MODEL_ID = py ''solar-pro4''"

definition CAPACITY_SCHEMA :: pystr where "CAPACITY_SCHEMA = py ''upstage-context-capacity-reservation-v1''"

definition RESERVATION_KIND :: pystr where "RESERVATION_KIND = py ''conservative-input-ceiling''"

definition RESERVATION_INPUT_TOKENS :: int where "RESERVATION_INPUT_TOKENS = 2 ^ 20"

definition SOURCE_URL :: pystr where "SOURCE_URL = py ''https://www.upstage.ai/blog/en/solar-pro-4''"

definition SOURCE_CONTEXT_LABEL :: pystr where "SOURCE_CONTEXT_LABEL = py ''512K''"

definition SOURCE_QUOTE :: pystr where
  "SOURCE_QUOTE = py ''Solar Pro 4 supports a 512K context with up to 128K output tokens.''"

definition CAPTURED_AT :: pystr where "CAPTURED_AT = py ''2026-09-18T16:53:00Z''"

definition EXPIRES_AT :: pystr where "EXPIRES_AT = py ''2026-09-25T00:00:00Z''"

definition REFRESHED_CAPTURED_AT :: pystr where "REFRESHED_CAPTURED_AT = py ''2026-09-25T10:57:00Z''"

definition REFRESHED_EXPIRES_AT :: pystr where "REFRESHED_EXPIRES_AT = py ''2026-10-02T00:00:00Z''"

definition CAPACITY_NOTE :: pystr where
  "CAPACITY_NOTE = py ''Conservative input reservation ceiling above both decimal and binary readings of the published 512K bound; '' @
     py ''not the actual model window and not experimentally proven tokenizer parity. Actual provider usage must settle separately.''"

definition PINNED_TIMESTAMPS :: "(pystr \<times> pystr) list" where
  "PINNED_TIMESTAMPS = [(CAPTURED_AT, EXPIRES_AT), (REFRESHED_CAPTURED_AT, REFRESHED_EXPIRES_AT)]"

definition POLICY_KEYS :: "pystr list" where
  "POLICY_KEYS = [py ''schema'', py ''model_id'', py ''reservation_kind'', py ''reservation_input_tokens'', py ''source_url'',
     py ''source_context_label'', py ''source_quote'', py ''captured_at'', py ''expires_at'', py ''note'']"

definition solar_pro4_capacity_policy :: "bool \<Rightarrow> (pystr \<times> json) list" where
  "solar_pro4_capacity_policy refreshed =
     (let (captured, expires) = (if refreshed then (REFRESHED_CAPTURED_AT, REFRESHED_EXPIRES_AT) else (CAPTURED_AT, EXPIRES_AT))
      in [(py ''schema'', JStr CAPACITY_SCHEMA), (py ''model_id'', JStr MODEL_ID), (py ''reservation_kind'', JStr RESERVATION_KIND),
          (py ''reservation_input_tokens'', JInt RESERVATION_INPUT_TOKENS), (py ''source_url'', JStr SOURCE_URL),
          (py ''source_context_label'', JStr SOURCE_CONTEXT_LABEL), (py ''source_quote'', JStr SOURCE_QUOTE),
          (py ''captured_at'', JStr captured), (py ''expires_at'', JStr expires), (py ''note'', JStr CAPACITY_NOTE)])"

section \<open>Validation\<close>

text \<open>A policy is a dictionary; a key that was checked to be there is read with \<open>entry\<close>.\<close>

definition entry :: "(pystr \<times> json) list \<Rightarrow> string \<Rightarrow> json" where
  "entry policy key = (case map_of policy (py key) of Some v \<Rightarrow> v | None \<Rightarrow> JNull)"

definition require_exact :: "string \<Rightarrow> json \<Rightarrow> pystr \<Rightarrow> unit result" where
  "require_exact name value expected =
     (if value \<noteq> JStr expected then Inl (DomainValidationError (name @ '' does not match the pinned capacity policy'')) else Inr ())"

definition parse_policy_instant :: "(pystr \<Rightarrow> moment option) \<Rightarrow> string \<Rightarrow> json \<Rightarrow> moment result" where
  "parse_policy_instant fromiso name value = (case value of
       JStr s \<Rightarrow> (case fromiso (concat (map (\<lambda>c. if c = 90 then py ''+00:00'' else [c]) s)) of
           None \<Rightarrow> Inl (DomainValidationError (name @ '' must be a valid ISO-8601 timestamp''))
         | Some m \<Rightarrow> if mo_aware m then Inr m else Inl (DomainValidationError (name @ '' must be timezone-aware'')))
     | _ \<Rightarrow> Inl (DomainValidationError (name @ '' must be a timezone-aware timestamp string'')))"

definition require_count :: "json \<Rightarrow> unit result" where
  "require_count v = (case v of
       JInt n \<Rightarrow> if n \<noteq> RESERVATION_INPUT_TOKENS then Inl (DomainValidationError ''reservation_input_tokens does not match the pinned policy'') else Inr ()
     | _ \<Rightarrow> Inl (DomainValidationError ''reservation_input_tokens must be an int (bool not accepted)''))"

definition require_quote :: "json \<Rightarrow> unit result" where
  "require_quote v = (case v of
       JStr quote \<Rightarrow> if py_strip quote = [] then Inl (DomainValidationError ''source_quote must be non-empty text'')
         else if length (py_words quote) \<ge> 25 then Inl (DomainValidationError ''source_quote must stay under 25 words'')
         else require_exact ''source_quote'' v SOURCE_QUOTE
     | _ \<Rightarrow> Inl (DomainValidationError ''source_quote must be non-empty text''))"

definition validate_capacity_policy :: "(pystr \<Rightarrow> moment option) \<Rightarrow> json \<Rightarrow> pystr \<Rightarrow> moment \<Rightarrow> int result" where
  "validate_capacity_policy fromiso policy model_id checked_at = (case policy of
     JObj d \<Rightarrow>
      if set (map fst d) \<noteq> set POLICY_KEYS then Inl (DomainValidationError ''capacity policy shape does not match the pinned policy'')
      else if model_id \<noteq> MODEL_ID then Inl (DomainValidationError ''capacity policy supports only solar-pro4'')
      else
       bindE (require_exact ''schema'' (entry d ''schema'') CAPACITY_SCHEMA) (\<lambda>_.
       bindE (require_exact ''policy model_id'' (entry d ''model_id'') model_id) (\<lambda>_.
       bindE (require_exact ''reservation_kind'' (entry d ''reservation_kind'') RESERVATION_KIND) (\<lambda>_.
       bindE (require_count (entry d ''reservation_input_tokens'')) (\<lambda>_.
       bindE (require_exact ''source_url'' (entry d ''source_url'') SOURCE_URL) (\<lambda>_.
       bindE (require_exact ''source_context_label'' (entry d ''source_context_label'') SOURCE_CONTEXT_LABEL) (\<lambda>_.
       bindE (require_quote (entry d ''source_quote'')) (\<lambda>_.
       bindE (parse_policy_instant fromiso ''captured_at'' (entry d ''captured_at'')) (\<lambda>captured.
       bindE (parse_policy_instant fromiso ''expires_at'' (entry d ''expires_at'')) (\<lambda>expires.
       if (entry d ''captured_at'', entry d ''expires_at'') \<notin> (\<lambda>(c, e). (JStr c, JStr e)) ` set PINNED_TIMESTAMPS
       then Inl (DomainValidationError ''capacity policy timestamps do not match the pinned policy'')
       else
        bindE (require_exact ''note'' (entry d ''note'') CAPACITY_NOTE) (\<lambda>_.
        if \<not> mo_aware checked_at then Inl (DomainValidationError ''checked_at must be timezone-aware'')
        else if \<not> (mo_instant captured \<le> mo_instant checked_at \<and> mo_instant checked_at < mo_instant expires)
        then Inl (DomainValidationError ''capacity policy is not valid at checked_at'')
        else Inr RESERVATION_INPUT_TOKENS))))))))))
   | _ \<Rightarrow> Inl (DomainValidationError ''capacity policy must be an object''))"

section \<open>Only the pinned policies pass\<close>

lemma require_exact_Inr: "require_exact name v x = Inr u \<longleftrightarrow> v = JStr x"
  by (simp add: require_exact_def)

lemma require_count_Inr: "require_count v = Inr u \<longleftrightarrow> v = JInt RESERVATION_INPUT_TOKENS"
  by (simp add: require_count_def split: json.split)

lemma source_quote_words: "py_strip SOURCE_QUOTE \<noteq> []" "length (py_words SOURCE_QUOTE) < 25"
  by (simp_all add: SOURCE_QUOTE_def py_def py_strip_Nil_iff py_words_unfold py_isspace_def)

lemma require_quote_Inr: "require_quote v = Inr u \<longleftrightarrow> v = JStr SOURCE_QUOTE"
  using source_quote_words by (auto simp: require_quote_def require_exact_Inr split: json.split)

text \<open>
  A capacity policy passes only if it maps the same keys to the same values as one of the two pinned policies, for the model it names, within the period it states, and then
  the ceiling is above both readings of the published bound.
\<close>

lemma capacity_policy_is_pinned:
  assumes "validate_capacity_policy fromiso (JObj d) model_id at_time = Inr n"
  shows "n = 1048576 \<and> model_id = MODEL_ID \<and> (\<exists>r. \<forall>k\<in>fst ` set d. map_of d k = map_of (solar_pro4_capacity_policy r) k)
    \<and> (\<exists>c e. parse_policy_instant fromiso ''captured_at'' (entry d ''captured_at'') = Inr c
         \<and> parse_policy_instant fromiso ''expires_at'' (entry d ''expires_at'') = Inr e \<and> mo_instant c \<le> mo_instant at_time \<and> mo_instant at_time < mo_instant e)"
proof -
  from assms obtain c e where p: "set (map fst d) = set POLICY_KEYS" "model_id = MODEL_ID" "entry d ''schema'' = JStr CAPACITY_SCHEMA"
    "entry d ''model_id'' = JStr MODEL_ID" "entry d ''reservation_kind'' = JStr RESERVATION_KIND"
    "entry d ''reservation_input_tokens'' = JInt RESERVATION_INPUT_TOKENS" "entry d ''source_url'' = JStr SOURCE_URL"
    "entry d ''source_context_label'' = JStr SOURCE_CONTEXT_LABEL" "entry d ''source_quote'' = JStr SOURCE_QUOTE" "entry d ''note'' = JStr CAPACITY_NOTE"
    "(entry d ''captured_at'', entry d ''expires_at'') \<in> (\<lambda>(c, e). (JStr c, JStr e)) ` set PINNED_TIMESTAMPS"
    and t: "parse_policy_instant fromiso ''captured_at'' (entry d ''captured_at'') = Inr c"
      "parse_policy_instant fromiso ''expires_at'' (entry d ''expires_at'') = Inr e" "mo_instant c \<le> mo_instant at_time" "mo_instant at_time < mo_instant e"
    and n: "n = RESERVATION_INPUT_TOKENS"
    by (auto simp: validate_capacity_policy_def bindE_Inr_iff require_exact_Inr require_count_Inr require_quote_Inr split: if_splits)
  from p(11) obtain r where r: "entry d ''captured_at'' = JStr (if r then REFRESHED_CAPTURED_AT else CAPTURED_AT)"
    "entry d ''expires_at'' = JStr (if r then REFRESHED_EXPIRES_AT else EXPIRES_AT)"
    by (auto simp: PINNED_TIMESTAMPS_def intro: that [of True] that [of False])
  have e: "map_of d (py k) = Some (entry d k)" if "py k \<in> fst ` set d" for k
    using that by (auto simp: entry_def map_of_eq_None_iff split: option.splits)
  have "map_of d k = map_of (solar_pro4_capacity_policy r) k" if k: "k \<in> fst ` set d" for k
  proof -
    from k p(1) have "k \<in> set POLICY_KEYS" by simp
    with k e p r show ?thesis
      by (auto simp: POLICY_KEYS_def solar_pro4_capacity_policy_def py_eq_iff split: if_splits)
  qed
  with p(2) t n show ?thesis by (auto simp: RESERVATION_INPUT_TOKENS_def)
qed

end
