(* ===== verification/Spec2Isabelle.thy ===== *)
theory Spec2Isabelle
  imports Audit_Log Scope_Props Values_Props Recon_Props Regulatory Run_Control Jobs_Props
    Budget_Props Response_Cache Consensus_Props Sentences Numeric_Props
    Registry_Props Mode_Gate Access_Props Retention_Props Comparisons Rescore
    Scheduler_Props Citations Capacity
begin

text \<open>
  \<^bold>\<open>Verification library of ESG ProofOps.\<close>

  ProofOps grades environmental claims of company reports. A document is parsed, a language model tags each claim with facts and evidence in three
  replicas under a token budget, with its responses kept in an immutable cache; a consensus of the replicas or a reviewer confirms the tags, and a
  deterministic engine grades the confirmed tags by versioned rule packs. Numbers in claims are checked against the tables of the document, and a
  second engine reconciles claims with financial reports. Work runs as durable jobs under leases, and every change is chained in an audit log. All
  sources below are under \<^verbatim>\<open>src/packages/proofops/\<close>.

  \<^bold>\<open>Theories.\<close>

  \<^item> \<^verbatim>\<open>Py_Base\<close>: strings as lists of code points, results with the Python exception classes, \<open>bindE\<close>, \<open>mapE\<close> and \<open>forE\<close> for guard chains,
    and the list and string functions of Python the sources use.
  \<^item> \<^verbatim>\<open>Json\<close>: JSON values, \<^verbatim>\<open>json.dumps\<close> with sorted keys and ASCII output, and the canonical hash. The proof that the canonical text
    determines the value up to key order is here.
  \<^item> \<^verbatim>\<open>Stdlib\<close>, \<^verbatim>\<open>Stdlib_Props\<close>: \<^verbatim>\<open>date.fromisoformat\<close>, \<^verbatim>\<open>json.loads\<close> of an array of strings, \<^verbatim>\<open>Decimal\<close> products, and their correctness.
  \<^item> \<^verbatim>\<open>Values\<close>, \<^verbatim>\<open>Values_Props\<close>: \<^verbatim>\<open>domain/values.py\<close>, the parser of model output.
  \<^item> \<^verbatim>\<open>Rulepacks\<close>: \<^verbatim>\<open>domain/rulepacks.py\<close>, the self-verifying snapshot.
  \<^item> \<^verbatim>\<open>Facts\<close>, \<^verbatim>\<open>Rules_Engine\<close>: \<^verbatim>\<open>domain/rules/engine.py\<close>, \<^verbatim>\<open>exceptions.py\<close>, \<^verbatim>\<open>goal.py\<close>, \<^verbatim>\<open>performance.py\<close>, \<^verbatim>\<open>management.py\<close>,
    \<^verbatim>\<open>qt1_baseline.py\<close>. \<^verbatim>\<open>Engine_Ladder\<close>, \<^verbatim>\<open>Engine_Correct\<close>, \<^verbatim>\<open>Shipped\<close> and \<^verbatim>\<open>Binding\<close> hold the lemmas on ladders, decisions, the rule
    files that ship with the repository and the contract of the hash; \<^verbatim>\<open>Engine_Props\<close> and \<^verbatim>\<open>Hash_Props\<close> the properties.
  \<^item> \<^verbatim>\<open>Scope_Rules\<close>, \<^verbatim>\<open>Scope_Props\<close>: \<^verbatim>\<open>domain/rules/analysis_scope.py\<close>, \<^verbatim>\<open>cf6_scope.py\<close>, \<^verbatim>\<open>safe_harbor.py\<close>.
  \<^item> \<^verbatim>\<open>Audit_Log\<close>: \<^verbatim>\<open>domain/audit.py\<close> and \<^verbatim>\<open>domain/provenance.py\<close>; the log as an inductive predicate.
  \<^item> \<^verbatim>\<open>Reconciliation\<close>: \<^verbatim>\<open>domain/reconciliation/\<close>; \<^verbatim>\<open>Recon_Correct\<close> what validated input provides, \<^verbatim>\<open>Recon_Items\<close> soundness of the four
    items, \<^verbatim>\<open>Recon_Sample\<close> a concrete packet and policy, \<^verbatim>\<open>Recon_Props\<close> the properties.
  \<^item> \<^verbatim>\<open>Regulatory\<close>: \<^verbatim>\<open>domain/applicability.py\<close> and \<^verbatim>\<open>domain/regulatory.py\<close>.
  \<^item> \<^verbatim>\<open>Run_Control\<close>: \<^verbatim>\<open>application/coverage.py\<close> and \<^verbatim>\<open>application/rb3_deadline.py\<close>.
  \<^item> \<^verbatim>\<open>Jobs\<close>: \<^verbatim>\<open>application/ports/jobs.py\<close>, \<^verbatim>\<open>adapters/local/job_store.py\<close>, and the two functions of \<^verbatim>\<open>claim_store.py\<close> and
    \<^verbatim>\<open>audit_store.py\<close> it calls. The database is an explicit state, one operation is one transaction. \<^verbatim>\<open>Jobs_Inv\<close> has the step relation
    and the invariant, \<^verbatim>\<open>Jobs_Props\<close> the properties.
  \<^item> \<^verbatim>\<open>Growing_Store\<close>: the locale of stores that only move forward; the job store, the usage store and the response cache interpret it.
  \<^item> \<^verbatim>\<open>Budget\<close>: \<^verbatim>\<open>application/budget.py\<close> and \<^verbatim>\<open>adapters/aws/usage.py\<close>, the reservation ledger with the division and the texts of
    \<^verbatim>\<open>Decimal\<close>. \<^verbatim>\<open>Budget_Inv\<close> has its step relation and invariant, \<^verbatim>\<open>Budget_Cost\<close> the exactness of costs, \<^verbatim>\<open>Budget_Props\<close> the properties.
  \<^item> \<^verbatim>\<open>Response_Cache\<close>: \<^verbatim>\<open>adapters/cache/aws.py\<close>, with its step relation and properties.
  \<^item> \<^verbatim>\<open>Consensus\<close>, \<^verbatim>\<open>Consensus_Props\<close>: \<^verbatim>\<open>application/tagging/consensus.py\<close>, with \<^verbatim>\<open>TagRun\<close> of \<^verbatim>\<open>tagging/service.py\<close> and the packet of
    \<^verbatim>\<open>evidence/retrieval.py\<close>.
  \<^item> \<^verbatim>\<open>Sentences\<close>: \<^verbatim>\<open>domain/sentences.py\<close>.
  \<^item> \<^verbatim>\<open>Numeric_Text\<close>, \<^verbatim>\<open>Numeric\<close>, \<^verbatim>\<open>Numeric_Check\<close>: \<^verbatim>\<open>domain/periods.py\<close>, \<^verbatim>\<open>domain/numeric.py\<close> and \<^verbatim>\<open>NativeSource\<close> of \<^verbatim>\<open>domain/documents.py\<close>.
    \<^verbatim>\<open>Numeric_Interval\<close> has the interval arithmetic of rounded numbers, \<^verbatim>\<open>Numeric_Decimal\<close> the decimal texts, \<^verbatim>\<open>Numeric_Props\<close> the graph walks and
    the properties.
  \<^item> \<^verbatim>\<open>Keyed_Lists\<close>: tables as lists of records with a key, shared by the stores below.
  \<^item> \<^verbatim>\<open>Pack_Validation\<close>, \<^verbatim>\<open>Pack_Registry\<close>: \<^verbatim>\<open>application/rulepacks.py\<close>, the validation of rule packs and their registry with import, activation,
    retirement, runs, demo grants and the delegated review. \<^verbatim>\<open>Pack_Props\<close> has the properties of validation, \<^verbatim>\<open>Registry_Props\<close> the step relation of the
    registry, its invariant and properties.
  \<^item> \<^verbatim>\<open>Mode_Gate\<close>: \<^verbatim>\<open>application/mode_gate.py\<close>.
  \<^item> \<^verbatim>\<open>Access\<close>, \<^verbatim>\<open>Access_Props\<close>: \<^verbatim>\<open>application/authorization.py\<close> and \<^verbatim>\<open>adapters/local/auth_store.py\<close>; the locale of session stores is interpreted on
    the store in memory.
  \<^item> \<^verbatim>\<open>Retention\<close>, \<^verbatim>\<open>Retention_Props\<close>: \<^verbatim>\<open>application/retention.py\<close> and \<^verbatim>\<open>deletion.py\<close> of the worker, with the step relation of the deletion store.
  \<^item> \<^verbatim>\<open>Comparisons\<close>: \<^verbatim>\<open>application/comparisons.py\<close> and \<^verbatim>\<open>application/claim_scope.py\<close>.
  \<^item> \<^verbatim>\<open>Rescore\<close>: \<^verbatim>\<open>application/rescores.py\<close>, the reuse of confirmed tags under a new pack.
  \<^item> \<^verbatim>\<open>Scheduler\<close>, \<^verbatim>\<open>Scheduler_Props\<close>: \<^verbatim>\<open>adapters/local/provider_concurrency.py\<close> and \<^verbatim>\<open>provider_scheduler.py\<close>, the gate of provider calls, with the step
    relation of its interleavings.
  \<^item> \<^verbatim>\<open>Text_Words\<close>: splitting on white space. \<^verbatim>\<open>Citations\<close>: \<^verbatim>\<open>application/evidence/citations.py\<close>, over the snapshot of \<^verbatim>\<open>Numeric\<close>.
  \<^item> \<^verbatim>\<open>Capacity\<close>: \<^verbatim>\<open>application/input_reservation.py\<close>.

  \<^bold>\<open>What is shown.\<close> Without an override the engine's grade is the one every completion of the open facts agrees on, its range is exact, resolving facts never overturns a
  grade, and every graded input passed the trust boundary. Hashes bind what they cover, verified audit logs are unique. Model output that is
  accepted is well formed and reads back. Reconciliation raises for malformed input only, publishes a status only under an approved policy,
  cites known sources only and compares amounts exactly. Leases are fenced, checkpoints survive, cancellation is final, due jobs can be
  claimed, and each job follows its life cycle under every interleaving of operations. A run never spends beyond its budget, an attempt is dispatched once, an
  overrun stops all spending, and costs are exact. Cached artifacts are immutable until their document is revoked, which seals its namespace. Tags are
  confirmed without a reviewer only by a unanimous clean vote, in whatever order the replicas arrive. The verdict of a numeric check is exact over the
  rounding of the displayed numbers, rests on verified sources only, and its decimal text loses no digit; sentence spans lose no character.
  A validated pack is closed under the paths it lists and always has a snapshot; the active pack of a tenant and mode is one approved, validated pack, the
  registry only moves forward and tenants do not interfere. A caller is authorized exactly when session, membership, role and CSRF token entitle it, a
  switched session replaces the old one, and foreign tenants stay hidden. A deletion completes exactly when nothing is left, a tombstone is final, and
  replaying tombstones undoes a restore. The comparison of two years agrees with a reference, and a rescore reuses tags only where they say all that the
  new rules ask. A waiting provider call is overtaken a bounded number of times, and the circuit opens exactly on three denials in a row, over restarts too. A
  citation is verified exactly when the numeric checks accept its span, and only the two pinned capacity policies pass.

  \<^bold>\<open>Parameters.\<close> SHA-256 and the shortest text of a float are the fields of \<open>platform\<close>; where a property needs them, it assumes that the text of a float
  determines it (\<open>float_repr_ok\<close>) and that the two values at hand do not collide (\<open>no_collision\<close>). \<^verbatim>\<open>datetime.fromisoformat\<close> on a UTC time, \<^verbatim>\<open>uuid5\<close>, the
  UTC text of a time, SHA-256 of cached bytes, HMAC, new identifiers, storage faults, Unicode normal form C and float arithmetic on times are arguments. Nothing depends on fuel: every loop of the sources is structural or has a measure.

  \<^bold>\<open>Not modelled.\<close> PDF parsing, provider calls, the HTTP API, the worker and the agent are I/O around the modelled functions. The
  publication hook of the tag stage and the validators of parse and extract checkpoints are arguments of the job store or left out, as are
  parser note records. The float affine maps of \<^verbatim>\<open>domain/documents.py\<close> and digits outside ASCII in number texts are left out.
  The HTTP router of sessions, the service that stores rescores, and the parser of stored pack records are left out; the evidence, ingest and tagging
  services assemble prompts and read provider formats around the modelled functions.

  \<^bold>\<open>Smaller deviations.\<close> A rubric whose \<^verbatim>\<open>when\<close> values are not booleans is refused, where Python would compare them with \<^verbatim>\<open>==\<close>. SHA-256 of a text is taken of its
  code points, so the \<^verbatim>\<open>UnicodeEncodeError\<close> that UTF-8 raises on a lone surrogate has no counterpart in the span checks. Integers are printed in full, where CPython
  stops at 4300 digits, and decimal products have no limit on the exponent. The resilience directory belongs to one process, so the \<^verbatim>\<open>FileExistsError\<close> of a second
  writer does not occur.
\<close>

end
